(* ===== verification/TW_Prelude.thy ===== *)
theory TW_Prelude
  imports Main "HOL-Library.Word" "HOL-Library.Sublist"
begin

text \<open>
  What the components share: machine integers with Rust's checked and saturating operations,
  \<open>Result\<close> values as sums, \<open>str\<close> values as UTF-8 byte strings with the standard library's
  \<open>trim\<close>, \<open>strip_prefix\<close> and ASCII case operations, hexadecimal text, and fixed-width
  big- and little-endian byte strings. \<open>usize\<close> is the 64-bit one; lengths are \<open>nat\<close>.
  A \<open>str\<close> is the list of its UTF-8 bytes, each a \<open>char\<close>; a \<open>[u8]\<close> is a list of
  \<open>8 word\<close>.
\<close>

unbundle bit_operations_syntax

type_synonym u8 = "8 word"
type_synonym u16 = "16 word"
type_synonym u32 = "32 word"
type_synonym u64 = "64 word"
type_synonym u128 = "128 word"
type_synonym bytes = "u8 list"

named_theorems result_simps \<open>introduction and elimination of \<open>?\<close> on results\<close>
named_theorems word_simps \<open>checked and saturating arithmetic read as naturals\<close>
named_theorems codec_simps \<open>lengths and inverses of the byte encodings\<close>

section \<open>Results\<close>

text \<open>The \<open>?\<close> operator, \<open>map_err\<close> and \<open>ok_or\<close>.\<close>

definition rbind :: "'e + 'a \<Rightarrow> ('a \<Rightarrow> 'e + 'b) \<Rightarrow> 'e + 'b" where
  "rbind r f = (case r of Inl e \<Rightarrow> Inl e | Inr x \<Rightarrow> f x)"

definition map_err :: "('e \<Rightarrow> 'f) \<Rightarrow> 'e + 'a \<Rightarrow> 'f + 'a" where
  "map_err g r = (case r of Inl e \<Rightarrow> Inl (g e) | Inr x \<Rightarrow> Inr x)"

definition ok_or :: "'e \<Rightarrow> 'a option \<Rightarrow> 'e + 'a" where
  "ok_or e x = (case x of None \<Rightarrow> Inl e | Some v \<Rightarrow> Inr v)"

lemma rbind_Inl [simp]: "rbind (Inl e) f = Inl e"
  by (simp add: rbind_def)

lemma rbind_Inr [simp]: "rbind (Inr x) f = f x"
  by (simp add: rbind_def)

lemma rbind_eq_Inr [result_simps]:
  "rbind r f = Inr y \<longleftrightarrow> (\<exists>x. r = Inr x \<and> f x = Inr y)"
  by (cases r) auto

lemma rbind_eq_Inl [result_simps]:
  "rbind r f = Inl e \<longleftrightarrow> r = Inl e \<or> (\<exists>x. r = Inr x \<and> f x = Inl e)"
  by (cases r) auto

lemma map_err_eq_Inr [simp, result_simps]: "map_err g r = Inr y \<longleftrightarrow> r = Inr y"
  by (cases r) (auto simp: map_err_def)

lemma map_err_Inl [simp]: "map_err g (Inl e) = Inl (g e)"
  by (simp add: map_err_def)

lemma map_err_Inr [simp]: "map_err g (Inr x) = Inr x"
  by (simp add: map_err_def)

lemma ok_or_eq_Inr [simp, result_simps]: "ok_or e x = Inr y \<longleftrightarrow> x = Some y"
  by (cases x) (auto simp: ok_or_def)

lemma ok_or_simps [simp]: "ok_or e None = Inl e" "ok_or e (Some v) = Inr v"
  by (simp_all add: ok_or_def)

lemma if_Inl_eq_Inr [result_simps]: "(if b then Inl e else r) = Inr x \<longleftrightarrow> \<not> b \<and> r = Inr x"
  by simp

text \<open>The \<open>?\<close> operator on a call that also changes the world.\<close>

definition sbind :: "('e + 'a) \<times> 's \<Rightarrow> ('a \<Rightarrow> 's \<Rightarrow> ('e + 'b) \<times> 's) \<Rightarrow> ('e + 'b) \<times> 's" where
  "sbind m f = (case m of (Inl e, s) \<Rightarrow> (Inl e, s) | (Inr x, s) \<Rightarrow> f x s)"

lemma sbind_simps [simp]: "sbind (Inl e, s) f = (Inl e, s)" "sbind (Inr x, s) f = f x s"
  by (simp_all add: sbind_def)

lemma sbind_eq_Inr [result_simps]:
  "sbind m f = (Inr y, s) \<longleftrightarrow> (\<exists>x s'. m = (Inr x, s') \<and> f x s' = (Inr y, s))"
  by (auto simp: sbind_def split: prod.splits sum.splits)

lemma sbind_cong: "(\<And>x s. m = (Inr x, s) \<Longrightarrow> f x s = f' x s) \<Longrightarrow> sbind m f = sbind m f'"
  by (auto simp: sbind_def split: prod.splits sum.splits)

lemma sbind_eq_Inl [result_simps]:
  "sbind m f = (Inl e, s) \<longleftrightarrow> m = (Inl e, s) \<or> (\<exists>x s'. m = (Inr x, s') \<and> f x s' = (Inl e, s))"
  by (auto simp: sbind_def split: prod.splits sum.splits)

section \<open>Checked and saturating arithmetic\<close>

definition checked_add :: "'a::len word \<Rightarrow> 'a word \<Rightarrow> 'a word option" where
  "checked_add a b = (if unat a + unat b < 2 ^ LENGTH('a) then Some (a + b) else None)"

definition checked_mul :: "'a::len word \<Rightarrow> 'a word \<Rightarrow> 'a word option" where
  "checked_mul a b = (if unat a * unat b < 2 ^ LENGTH('a) then Some (a * b) else None)"

definition saturating_add :: "'a::len word \<Rightarrow> 'a word \<Rightarrow> 'a word" where
  "saturating_add a b = (if unat a + unat b < 2 ^ LENGTH('a) then a + b else - 1)"

text \<open>\<open>i64\<close> values are integers; the saturation is at the type's two ends.\<close>

definition i64_saturating_add :: "int \<Rightarrow> int \<Rightarrow> int" where
  "i64_saturating_add a b = max (- (2 ^ 63)) (min (2 ^ 63 - 1) (a + b))"

lemma checked_add_Some [word_simps]:
  fixes a b c :: "'a::len word"
  shows "checked_add a b = Some c \<longleftrightarrow> unat a + unat b < 2 ^ LENGTH('a) \<and> unat c = unat a + unat b"
  by (auto simp: checked_add_def unat_word_ariths word_unat_eq_iff)

lemma checked_add_None [word_simps]:
  fixes a b :: "'a::len word"
  shows "checked_add a b = None \<longleftrightarrow> 2 ^ LENGTH('a) \<le> unat a + unat b"
  by (auto simp: checked_add_def)

lemma checked_mul_Some [word_simps]:
  fixes a b c :: "'a::len word"
  shows "checked_mul a b = Some c \<longleftrightarrow> unat a * unat b < 2 ^ LENGTH('a) \<and> unat c = unat a * unat b"
  by (auto simp: checked_mul_def unat_word_ariths word_unat_eq_iff)

lemma unat_saturating_add [word_simps]:
  fixes a b :: "'a::len word"
  shows "unat (saturating_add a b) = min (unat a + unat b) (2 ^ LENGTH('a) - 1)"
proof (cases "unat a + unat b < 2 ^ LENGTH('a)")
  case False
  have "unat (- 1 :: 'a word) = 2 ^ LENGTH('a) - 1"
    by (simp add: unsigned_minus_1_eq_mask mask_eq_exp_minus_1)
  with False show ?thesis by (simp add: saturating_add_def)
qed (simp add: saturating_add_def unat_word_ariths)

lemma saturating_add_commute: "saturating_add a b = saturating_add b a"
  by (simp add: saturating_add_def add.commute)

lemma unat_drop_bit [word_simps]: "unat (drop_bit k (x :: 'a::len word)) = unat x div 2 ^ k"
  by (simp add: unat_drop_bit_eq flip: drop_bit_eq_div)

lemma unat_ucast_wider [word_simps]:
  assumes "LENGTH('a::len) \<le> LENGTH('b::len)"
  shows "unat (ucast (x :: 'a word) :: 'b word) = unat x"
proof -
  have "unat x < 2 ^ LENGTH('b)"
    by (rule order_less_le_trans [OF unsigned_less power_increasing]) (use assms in simp_all)
  then show ?thesis by (simp add: unsigned_ucast_eq take_bit_nat_eq_self)
qed

section \<open>Strings\<close>

text \<open>
  \<open>char::is_whitespace\<close> on the UTF-8 encodings: six one-byte, two two-byte and seventeen
  three-byte characters. \<open>skip_ws\<close> drops whitespace characters from the front of a byte
  string; run on the reversed bytes it drops them from the end.
\<close>

definition ws1 :: "char \<Rightarrow> bool" where
  "ws1 c = (let n = (of_char c :: nat) in 9 \<le> n \<and> n \<le> 13 \<or> n = 32)"

definition ws2 :: "char \<Rightarrow> char \<Rightarrow> bool" where
  "ws2 c d = ((of_char c :: nat) = 0xC2 \<and> ((of_char d :: nat) = 0x85 \<or> (of_char d :: nat) = 0xA0))"

definition ws3 :: "char \<Rightarrow> char \<Rightarrow> char \<Rightarrow> bool" where
  "ws3 c d e =
     (let m = (of_char c :: nat); n = (of_char d :: nat); k = (of_char e :: nat) in
      m = 0xE1 \<and> n = 0x9A \<and> k = 0x80 \<or>
      m = 0xE2 \<and> n = 0x80 \<and> (0x80 \<le> k \<and> k \<le> 0x8A \<or> k = 0xA8 \<or> k = 0xA9 \<or> k = 0xAF) \<or>
      m = 0xE2 \<and> n = 0x81 \<and> k = 0x9F \<or>
      m = 0xE3 \<and> n = 0x80 \<and> k = 0x80)"

fun skip_ws :: "(char \<Rightarrow> char \<Rightarrow> bool) \<Rightarrow> (char \<Rightarrow> char \<Rightarrow> char \<Rightarrow> bool) \<Rightarrow> string \<Rightarrow> string" where
  "skip_ws p q [] = []"
| "skip_ws p q [c] = (if ws1 c then [] else [c])"
| "skip_ws p q [c, d] =
     (if ws1 c then skip_ws p q [d] else if p c d then [] else [c, d])"
| "skip_ws p q (c # d # e # s) =
     (if ws1 c then skip_ws p q (d # e # s)
      else if p c d then skip_ws p q (e # s)
      else if q c d e then skip_ws p q s
      else c # d # e # s)"

definition trim_start :: "string \<Rightarrow> string" where
  "trim_start s = skip_ws ws2 ws3 s"

definition trim_end :: "string \<Rightarrow> string" where
  "trim_end s = rev (skip_ws (\<lambda>a b. ws2 b a) (\<lambda>a b c. ws3 c b a) (rev s))"

definition trim :: "string \<Rightarrow> string" where
  "trim s = trim_end (trim_start s)"

definition strip_prefix :: "string \<Rightarrow> string \<Rightarrow> string option" where
  "strip_prefix p s = (if take (length p) s = p then Some (drop (length p) s) else None)"

definition apostrophes :: "string \<Rightarrow> string" where
  "apostrophes s = [CHR 0x27] @ s @ [CHR 0x27]"

definition ends_with :: "string \<Rightarrow> string \<Rightarrow> bool" where
  "ends_with s p = (length p \<le> length s \<and> drop (length s - length p) s = p)"

definition char_to_lower :: "char \<Rightarrow> char" where
  "char_to_lower c =
     (let n = (of_char c :: nat) in if 65 \<le> n \<and> n \<le> 90 then char_of (n + 32) else c)"

definition char_to_upper :: "char \<Rightarrow> char" where
  "char_to_upper c =
     (let n = (of_char c :: nat) in if 97 \<le> n \<and> n \<le> 122 then char_of (n - 32) else c)"

definition to_ascii_lowercase :: "string \<Rightarrow> string" where
  "to_ascii_lowercase s = map char_to_lower s"

definition eq_ignore_ascii_case :: "string \<Rightarrow> string \<Rightarrow> bool" where
  "eq_ignore_ascii_case a b = (map char_to_lower a = map char_to_lower b)"

definition is_ascii_digit :: "char \<Rightarrow> bool" where
  "is_ascii_digit c = (let n = (of_char c :: nat) in 48 \<le> n \<and> n \<le> 57)"

definition is_ascii_lower :: "char \<Rightarrow> bool" where
  "is_ascii_lower c = (let n = (of_char c :: nat) in 97 \<le> n \<and> n \<le> 122)"

definition str_bytes :: "string \<Rightarrow> bytes" where
  "str_bytes s = map (\<lambda>c. of_nat (of_char c)) s"

text \<open>\<open>{}\<close> of an unsigned integer.\<close>

fun show_nat :: "nat \<Rightarrow> string" where
  "show_nat n = (if n < 10 then [char_of (48 + n)] else show_nat (n div 10) @ [char_of (48 + n mod 10)])"

declare show_nat.simps [simp del]

text \<open>\<open>str::parse\<close> to an unsigned integer below \<open>bound\<close>: a leading \<open>+\<close> is accepted; the digit is
  checked before the overflow. The error is the \<open>Display\<close> of the \<open>ParseIntError\<close>.\<close>

fun from_digits10 :: "nat \<Rightarrow> nat \<Rightarrow> string \<Rightarrow> string + nat" where
  "from_digits10 bound acc [] = Inr acc"
| "from_digits10 bound acc (c # cs) =
     (if \<not> is_ascii_digit c then Inl ''invalid digit found in string''
      else let n = acc * 10 + (of_char c - 48) in
           if n < bound then from_digits10 bound n cs
           else Inl ''number too large to fit in target type'')"

definition parse_uint :: "nat \<Rightarrow> string \<Rightarrow> string + nat" where
  "parse_uint bound s =
     (case s of
        [] \<Rightarrow> Inl ''cannot parse integer from empty string''
      | [c] \<Rightarrow> if c = CHR ''+'' \<or> c = CHR ''-'' then Inl ''invalid digit found in string''
               else from_digits10 bound 0 [c]
      | c # cs \<Rightarrow> if c = CHR ''+'' then from_digits10 bound 0 cs else from_digits10 bound 0 (c # cs))"

definition parse_u64 :: "string \<Rightarrow> string + u64" where
  "parse_u64 s = rbind (parse_uint (2 ^ 64) s) (\<lambda>n. Inr (of_nat n))"

text \<open>The number a string of decimal digits spells.\<close>

definition dec_val :: "string \<Rightarrow> nat" where
  "dec_val s = foldl (\<lambda>acc c. acc * 10 + (of_char c - 48)) 0 s"

lemma dec_fold_mono: "acc \<le> foldl (\<lambda>acc c. acc * 10 + (of_char c - 48)) (acc :: nat) s"
proof (induction s arbitrary: acc)
  case (Cons c s)
  have "acc \<le> acc * 10 + (of_char c - 48)" by simp
  also have "\<dots> \<le> foldl (\<lambda>acc c. acc * 10 + (of_char c - 48)) (acc * 10 + (of_char c - 48)) s"
    by (rule Cons.IH)
  finally show ?case by simp
qed simp

lemma from_digits10_Inr:
  assumes "acc < bound"
  shows "from_digits10 bound acc s = Inr n \<longleftrightarrow>
     list_all is_ascii_digit s \<and> n < bound \<and> n = foldl (\<lambda>acc c. acc * 10 + (of_char c - 48)) acc s"
  using assms
proof (induction s arbitrary: acc)
  case (Cons c s)
  let ?n = "acc * 10 + (of_char c - 48)"
  show ?case
  proof (cases "?n < bound")
    case True
    with Cons.IH [OF True] show ?thesis by (auto simp: Let_def)
  next
    case False
    with dec_fold_mono [of ?n s] show ?thesis by (auto simp: Let_def)
  qed
qed auto

lemma dec_val_simps [simp]:
  "dec_val [] = 0" "dec_val (s @ [c]) = dec_val s * 10 + (of_char c - 48)"
  by (simp_all add: dec_val_def)

lemma parse_uint_digits:
  assumes "s \<noteq> []" and "list_all is_ascii_digit s" and "0 < bound"
  shows "parse_uint bound s = Inr n \<longleftrightarrow> dec_val s < bound \<and> n = dec_val s"
proof -
  obtain c cs where s: "s = c # cs" using assms(1) by (cases s) auto
  with assms(2) have c: "c \<noteq> CHR ''+''" "c \<noteq> CHR ''-''" by (auto simp: is_ascii_digit_def)
  then have "parse_uint bound s = from_digits10 bound 0 s"
    by (cases cs) (simp_all add: s parse_uint_def)
  then show ?thesis
    using assms(2) from_digits10_Inr [OF assms(3), of s] by (auto simp: dec_val_def)
qed

lemma parse_uint_less: "parse_uint bound s = Inr n \<Longrightarrow> 0 < bound \<Longrightarrow> n < bound"
  using from_digits10_Inr [of 0 bound] by (auto simp: parse_uint_def simp del: from_digits10.simps split: list.splits if_splits)

lemma parse_u64_digits:
  "s \<noteq> [] \<Longrightarrow> list_all is_ascii_digit s \<Longrightarrow>
     parse_u64 s = Inr n \<longleftrightarrow> dec_val s < 2 ^ 64 \<and> n = of_nat (dec_val s)"
  using parse_uint_digits [of s "2 ^ 64"] by (auto simp: parse_u64_def result_simps)

text \<open>Rendering an unsigned integer and reading it back.\<close>

lemma digit_is_digit: "(d :: nat) < 10 \<Longrightarrow> is_ascii_digit (char_of (48 + d))"
  by (simp add: is_ascii_digit_def)

lemma show_nat_digits: "list_all is_ascii_digit (show_nat n)"
  by (induction n rule: show_nat.induct) (subst show_nat.simps, auto intro: digit_is_digit)

lemma show_nat_not_Nil [simp]: "show_nat n \<noteq> []"
  by (subst show_nat.simps) simp

lemma dec_val_show_nat [simp]: "dec_val (show_nat n) = n"
proof (induction n rule: show_nat.induct)
  case (1 n)
  then show ?case
    by (subst show_nat.simps) (auto simp: dec_val_def)
qed

lemma show_nat_0: "show_nat 0 = ''0''"
  by code_simp

lemma show_nat_inject [simp]: "show_nat m = show_nat n \<longleftrightarrow> m = n"
  by (metis dec_val_show_nat)

lemma skip_ws_suffix: "suffix (skip_ws p q s) s"
proof (induction p q s rule: skip_ws.induct)
  case (4 p q c d e s)
  then show ?case
    by (auto intro: suffix_ConsI)
qed (auto simp: suffix_def)

lemma skip_ws_fixed_prefix:
  "skip_ws p q s = s \<Longrightarrow> prefix t s \<Longrightarrow> skip_ws p q t = t"
proof (induction p q t rule: skip_ws.induct)
  case (2 p q c)
  then obtain r where s: "s = c # r" by (auto simp: prefix_def)
  show ?case
  proof (cases "ws1 c")
    case True
    then have "length (skip_ws p q s) < length s"
      using skip_ws_suffix [of p q "r"] s
      by (cases r rule: remdups_adj.cases) (auto dest: suffix_length_le split: if_splits)
    with 2 show ?thesis by simp
  qed simp
next
  case (3 p q c d)
  then obtain r where s: "s = c # d # r" by (auto simp: prefix_def)
  from 3 s show ?case
    using skip_ws_suffix [of p q "d # r"] skip_ws_suffix [of p q r]
    by (cases r) (auto dest!: suffix_length_le split: if_splits)
next
  case (4 p q c d e t)
  then obtain r where s: "s = c # d # e # r" by (auto simp: prefix_def)
  from 4(4) s show ?case
    using skip_ws_suffix [of p q "d # e # r"] skip_ws_suffix [of p q "e # r"]
      skip_ws_suffix [of p q r]
    by (auto dest!: suffix_length_le split: if_splits)
qed simp

lemma skip_ws_idem: "skip_ws p q (skip_ws p q s) = skip_ws p q s"
  by (induction p q s rule: skip_ws.induct) auto

lemma trim_end_prefix: "prefix (trim_end s) s"
  using skip_ws_suffix [of "\<lambda>a b. ws2 b a" "\<lambda>a b c. ws3 c b a" "rev s"]
  by (simp add: trim_end_def suffix_to_prefix)

lemma trim_idem [simp]: "trim (trim s) = trim s"
proof -
  have "trim_start (trim s) = trim s"
    unfolding trim_def trim_start_def
    by (rule skip_ws_fixed_prefix [OF skip_ws_idem trim_end_prefix])
  then show ?thesis
    by (simp add: trim_def [of "trim s"]) (simp add: trim_def trim_end_def skip_ws_idem)
qed

text \<open>A string of printable ASCII characters has nothing to trim.\<close>

definition is_graphic :: "char \<Rightarrow> bool" where
  "is_graphic c = (let n = (of_char c :: nat) in 33 \<le> n \<and> n \<le> 126)"

lemma is_graphic_not_ws:
  "is_graphic c \<Longrightarrow> \<not> ws1 c" "is_graphic c \<Longrightarrow> \<not> ws2 c d" "is_graphic d \<Longrightarrow> \<not> ws2 c d"
  "is_graphic c \<Longrightarrow> \<not> ws3 c d e" "is_graphic e \<Longrightarrow> \<not> ws3 c d e"
  by (auto simp: is_graphic_def ws1_def ws2_def ws3_def Let_def)

lemma trim_graphic: "\<forall>c \<in> set s. is_graphic c \<Longrightarrow> trim s = s"
proof -
  assume g: "\<forall>c \<in> set s. is_graphic c"
  have fwd: "skip_ws ws2 ws3 t = t" if "\<forall>c \<in> set t. is_graphic c" for t
    using that by (induction "ws2" "ws3" t rule: skip_ws.induct) (auto simp: is_graphic_not_ws)
  have bwd: "skip_ws (\<lambda>a b. ws2 b a) (\<lambda>a b c. ws3 c b a) t = t"
    if "\<forall>c \<in> set t. is_graphic c" for t
    using that
    by (induction "\<lambda>a b. ws2 b a" "\<lambda>a b c. ws3 c b a" t rule: skip_ws.induct)
      (auto simp: is_graphic_not_ws)
  show ?thesis
    using g by (simp add: trim_def trim_start_def trim_end_def fwd bwd)
qed

lemma char_to_lower_idem [simp]: "char_to_lower (char_to_lower c) = char_to_lower c"
  by (auto simp: char_to_lower_def Let_def)

lemma char_to_lower_upper [simp]: "char_to_lower (char_to_upper c) = char_to_lower c"
  by (auto simp: char_to_lower_def char_to_upper_def Let_def)

lemma length_to_ascii_lowercase [simp]: "length (to_ascii_lowercase s) = length s"
  by (simp add: to_ascii_lowercase_def)

lemma strip_prefix_Some: "strip_prefix p s = Some t \<longleftrightarrow> s = p @ t"
  by (auto simp: strip_prefix_def) (metis append_take_drop_id)

lemma strip_prefix_append [simp]: "strip_prefix p (p @ t) = Some t"
  by (simp add: strip_prefix_def)

section \<open>Hexadecimal text\<close>

definition hex_char :: "nat \<Rightarrow> char" where
  "hex_char n = (if n < 10 then char_of (48 + n) else char_of (87 + n))"

text \<open>\<open>{:02x}\<close> of a byte, and of a byte string.\<close>

definition hex_byte :: "u8 \<Rightarrow> string" where
  "hex_byte b = [hex_char (unat b div 16), hex_char (unat b mod 16)]"

definition hex_encode :: "bytes \<Rightarrow> string" where
  "hex_encode bs = concat (map hex_byte bs)"

text \<open>\<open>char::to_digit(16)\<close>, and \<open>u8::from_str_radix(_, 16)\<close>, which accepts a leading \<open>+\<close>.\<close>

definition hex_val :: "char \<Rightarrow> nat option" where
  "hex_val c =
     (let n = (of_char c :: nat) in
      if 48 \<le> n \<and> n \<le> 57 then Some (n - 48)
      else if 97 \<le> n \<and> n \<le> 102 then Some (n - 87)
      else if 65 \<le> n \<and> n \<le> 70 then Some (n - 55)
      else None)"

definition is_ascii_hexdigit :: "char \<Rightarrow> bool" where
  "is_ascii_hexdigit c = (hex_val c \<noteq> None)"

fun from_digits16 :: "nat \<Rightarrow> string \<Rightarrow> u8 option" where
  "from_digits16 acc [] = Some (of_nat acc)"
| "from_digits16 acc (c # cs) =
     (case hex_val c of
        None \<Rightarrow> None
      | Some d \<Rightarrow> if acc * 16 + d < 256 then from_digits16 (acc * 16 + d) cs else None)"

definition u8_from_str_radix_16 :: "string \<Rightarrow> u8 option" where
  "u8_from_str_radix_16 s =
     (case s of
        [] \<Rightarrow> None
      | [c] \<Rightarrow> if c = CHR ''+'' \<or> c = CHR ''-'' then None else from_digits16 0 [c]
      | c # cs \<Rightarrow> if c = CHR ''+'' then from_digits16 0 cs else from_digits16 0 (c # cs))"

text \<open>
  The loop \<open>(0..s.len()).step_by(2).map(|i| u8::from_str_radix(&s[i..i + 2], 16)).collect()\<close>.
  Slicing a \<open>str\<close> off a character boundary panics; the loop stops at the first failure.
\<close>

datatype hex_failure = HexPanic | HexInvalidDigit

definition is_continuation :: "char \<Rightarrow> bool" where
  "is_continuation c = (let n = (of_char c :: nat) in 128 \<le> n \<and> n < 192)"

fun decode_hex_pairs :: "string \<Rightarrow> hex_failure + bytes" where
  "decode_hex_pairs [] = Inr []"
| "decode_hex_pairs [c] = Inl HexPanic"
| "decode_hex_pairs (c # d # s) =
     (if s \<noteq> [] \<and> is_continuation (hd s) then Inl HexPanic
      else case u8_from_str_radix_16 [c, d] of
             None \<Rightarrow> Inl HexInvalidDigit
           | Some b \<Rightarrow> rbind (decode_hex_pairs s) (\<lambda>bs. Inr (b # bs)))"

lemma hex_val_less: "hex_val c = Some d \<Longrightarrow> d < 16"
  by (auto simp: hex_val_def Let_def split: if_splits)

lemma of_char_hex_char:
  "n < 16 \<Longrightarrow> (of_char (hex_char n) :: nat) = (if n < 10 then 48 + n else 87 + n)"
  by (simp add: hex_char_def)

lemma hex_val_hex_char [simp]: "n < 16 \<Longrightarrow> hex_val (hex_char n) = Some n"
  by (simp add: hex_val_def of_char_hex_char Let_def)

lemma hex_char_not_sign: "n < 16 \<Longrightarrow> hex_char n \<noteq> CHR ''+''"
  using of_char_hex_char [of n] by (auto split: if_splits)

lemma hex_char_not_continuation: "n < 16 \<Longrightarrow> \<not> is_continuation (hex_char n)"
  by (simp add: is_continuation_def of_char_hex_char Let_def)

lemma unat_u64_less: "unat (x :: u64) < 2 ^ 64"
  using unsigned_less [of x] by simp

lemma unat_u8_less: "unat (b :: u8) < 256"
  using unsigned_less [of b] by simp

lemma u8_of_nat_unat [simp]: "(of_nat (unat b) :: u8) = b"
  by simp

lemma u8_from_hex_byte: "u8_from_str_radix_16 (hex_byte b) = Some b"
proof -
  have n: "unat b div 16 < 16" "unat b mod 16 < 16"
    using unat_u8_less [of b] by auto
  have "unat b div 16 * 16 + unat b mod 16 = unat b" by simp
  with n unat_u8_less [of b] show ?thesis
    by (simp add: u8_from_str_radix_16_def hex_byte_def hex_char_not_sign)
qed

lemma hex_encode_simps [simp]:
  "hex_encode [] = []" "hex_encode (b # bs) = hex_byte b @ hex_encode bs"
  by (simp_all add: hex_encode_def)

lemma hex_encode_append: "hex_encode (xs @ ys) = hex_encode xs @ hex_encode ys"
  by (simp add: hex_encode_def)

lemma length_hex_encode [codec_simps]: "length (hex_encode bs) = 2 * length bs"
  by (induction bs) (auto simp: hex_byte_def)

lemma hex_encode_hd_not_continuation:
  "hex_encode bs \<noteq> [] \<Longrightarrow> \<not> is_continuation (hd (hex_encode bs))"
proof (cases bs)
  case (Cons b cs)
  have "unat b div 16 < 16" using unat_u8_less [of b] by auto
  with Cons show ?thesis by (simp add: hex_byte_def hex_char_not_continuation)
qed simp

lemma decode_hex_pairs_encode [codec_simps]: "decode_hex_pairs (hex_encode bs) = Inr bs"
proof (induction bs)
  case (Cons b bs)
  obtain c d where cd: "hex_byte b = [c, d]" by (simp add: hex_byte_def)
  have "u8_from_str_radix_16 [c, d] = Some b"
    using u8_from_hex_byte [of b] cd by simp
  with Cons show ?case
    using hex_encode_hd_not_continuation [of bs] by (auto simp: cd)
qed simp

lemma decode_hex_pairs_length: "decode_hex_pairs s = Inr bs \<Longrightarrow> length s = 2 * length bs"
  by (induction s arbitrary: bs rule: decode_hex_pairs.induct)
    (auto simp: result_simps split: if_splits option.splits)

lemma hex_encode_hexdigits: "\<forall>c \<in> set (hex_encode bs). is_ascii_hexdigit c"
proof (induction bs)
  case (Cons b bs)
  have "unat b div 16 < 16" "unat b mod 16 < 16" using unat_u8_less [of b] by auto
  with Cons show ?case by (auto simp: hex_byte_def is_ascii_hexdigit_def)
qed simp

lemma digit_graphic: "is_ascii_digit c \<Longrightarrow> is_graphic c"
  by (auto simp: is_ascii_digit_def is_graphic_def Let_def)

lemma trim_show_nat [simp]: "trim (show_nat n) = show_nat n"
  using show_nat_digits [of n] by (intro trim_graphic) (auto simp: list_all_iff digit_graphic)

lemma parse_uint_show: "n < bound \<Longrightarrow> parse_uint bound (show_nat n) = Inr n"
  by (simp add: parse_uint_digits show_nat_digits)

lemma hexdigit_graphic: "is_ascii_hexdigit c \<Longrightarrow> is_graphic c"
  by (auto simp: is_ascii_hexdigit_def hex_val_def is_graphic_def Let_def split: if_splits)

lemma hex_val_lower [simp]: "hex_val (char_to_lower c) = hex_val c"
  by (auto simp: hex_val_def char_to_lower_def Let_def)

lemma hex_val_upper [simp]: "hex_val (char_to_upper c) = hex_val c"
  by (auto simp: hex_val_def char_to_upper_def Let_def)

lemma hexdigit_not_continuation: "is_ascii_hexdigit c \<Longrightarrow> \<not> is_continuation c"
  by (auto simp: is_ascii_hexdigit_def hex_val_def is_continuation_def Let_def split: if_splits)

lemma decode_hex_pairs_hexdigits:
  assumes "even (length s)" and "\<forall>c \<in> set s. is_ascii_hexdigit c"
  shows "\<exists>bs. decode_hex_pairs s = Inr bs"
  using assms
proof (induction s rule: decode_hex_pairs.induct)
  case (3 c d s)
  from 3(3) obtain m n where mn: "hex_val c = Some m" "hex_val d = Some n"
    by (auto simp: is_ascii_hexdigit_def)
  then have c: "c \<noteq> CHR ''+''" by (auto simp: hex_val_def)
  have bound: "m * 16 + n < 256"
    using hex_val_less [OF mn(1)] hex_val_less [OF mn(2)] by simp
  have b: "u8_from_str_radix_16 [c, d] = Some (of_nat (m * 16 + n))"
    using mn bound c hex_val_less [OF mn(1)] by (simp add: u8_from_str_radix_16_def)
  have cont: "\<not> (s \<noteq> [] \<and> is_continuation (hd s))"
    using 3(3) by (cases s) (auto simp: hexdigit_not_continuation)
  obtain bs where "decode_hex_pairs s = Inr bs"
    using 3(1) [OF cont b] 3(2,3) by auto
  with b cont show ?case by simp
qed simp_all

section \<open>Fixed-width integers as bytes\<close>

fun le_bytes :: "nat \<Rightarrow> nat \<Rightarrow> bytes" where
  "le_bytes 0 n = []"
| "le_bytes (Suc k) n = of_nat n # le_bytes k (n div 256)"

definition be_bytes :: "nat \<Rightarrow> nat \<Rightarrow> bytes" where
  "be_bytes k n = rev (le_bytes k n)"

fun le_val :: "bytes \<Rightarrow> nat" where
  "le_val [] = 0"
| "le_val (b # bs) = unat b + 256 * le_val bs"

definition be_val :: "bytes \<Rightarrow> nat" where
  "be_val bs = le_val (rev bs)"

lemma length_le_bytes [simp]: "length (le_bytes k n) = k"
  by (induction k arbitrary: n) auto

lemma length_be_bytes [simp]: "length (be_bytes k n) = k"
  by (simp add: be_bytes_def)

lemma unat_u8_of_nat: "unat (of_nat n :: u8) = n mod 256"
  by (simp add: unat_of_nat)

lemma le_val_le_bytes [codec_simps]: "le_val (le_bytes k n) = n mod 256 ^ k"
proof (induction k arbitrary: n)
  case (Suc k)
  have "n mod 256 ^ Suc k = n mod 256 + 256 * (n div 256 mod 256 ^ k)"
    by (simp add: mod_mult2_eq)
  with Suc show ?case by (simp add: unat_u8_of_nat)
qed simp

lemma be_val_be_bytes [codec_simps]: "be_val (be_bytes k n) = n mod 256 ^ k"
  by (simp add: be_val_def be_bytes_def le_val_le_bytes)

lemma le_val_less [codec_simps]: "le_val bs < 256 ^ length bs"
proof (induction bs)
  case (Cons b bs)
  then show ?case using unat_u8_less [of b] by simp
qed simp

lemma be_val_less [codec_simps]: "be_val bs < 256 ^ length bs"
  using le_val_less [of "rev bs"] by (simp add: be_val_def)

lemma le_bytes_le_val [codec_simps]: "length bs = k \<Longrightarrow> le_bytes k (le_val bs) = bs"
proof (induction bs arbitrary: k)
  case (Cons b bs)
  have "(of_nat (unat b + 256 * le_val bs) :: u8) = b"
    by (simp add: word_unat_eq_iff unat_word_ariths unat_of_nat mod_mult_left_eq [symmetric] unat_u8_less)
  moreover have "(unat b + 256 * le_val bs) div 256 = le_val bs"
    using unat_u8_less [of b] by simp
  ultimately show ?case using Cons by (cases k) auto
qed simp

lemma be_bytes_be_val [codec_simps]: "length bs = k \<Longrightarrow> be_bytes k (be_val bs) = bs"
  by (simp add: be_bytes_def be_val_def le_bytes_le_val)

lemma be_bytes_inject:
  "be_bytes k m = be_bytes k n \<Longrightarrow> m < 256 ^ k \<Longrightarrow> n < 256 ^ k \<Longrightarrow> m = n"
  by (metis be_val_be_bytes mod_less)

lemma be_val_append: "be_val (xs @ ys) = be_val xs * 256 ^ length ys + be_val ys"
proof -
  have "le_val (us @ vs) = le_val us + 256 ^ length us * le_val vs" for us vs
    by (induction us) (auto simp: algebra_simps)
  then show ?thesis by (simp add: be_val_def)
qed

lemma be_val_Nil [simp]: "be_val [] = 0"
  by (simp add: be_val_def)

lemma be_val_Cons: "be_val (b # bs) = unat b * 256 ^ length bs + be_val bs"
  using be_val_append [of "[b]" bs] by (simp add: be_val_def)

lemma be_val_replicate_0 [simp]: "be_val (replicate k 0 @ bs) = be_val bs"
  by (induction k) (simp_all add: be_val_Cons)

lemma be_bytes_pad:
  assumes "n < 256 ^ k"
  shows "be_bytes (j + k) n = replicate j 0 @ be_bytes k n"
proof -
  have "be_val (replicate j 0 @ be_bytes k n) = n" using assms by (simp add: be_val_be_bytes)
  with be_bytes_be_val [of "replicate j 0 @ be_bytes k n" "j + k"] show ?thesis by simp
qed

lemma str_bytes_inject [simp]: "str_bytes s = str_bytes t \<longleftrightarrow> s = t"
proof -
  have "inj (\<lambda>c. of_nat (of_char c) :: u8)"
  proof (rule injI)
    fix c d :: char assume "(of_nat (of_char c) :: u8) = of_nat (of_char d)"
    then have "unat (of_nat (of_char c) :: u8) = unat (of_nat (of_char d) :: u8)" by simp
    then show "c = d" by (simp add: unat_of_nat)
  qed
  then show ?thesis by (simp add: str_bytes_def inj_map_eq_map)
qed

lemma length_str_bytes [simp]: "length (str_bytes s) = length s"
  by (simp add: str_bytes_def)

section \<open>The hex crate\<close>

record hex_crate =
  hexc_encode :: "bytes \<Rightarrow> string"
  hexc_decode :: "string \<Rightarrow> string + bytes"

text \<open>What the crate documents of decoding an even number of hex digits.\<close>

definition hex_crate_law :: "hex_crate \<Rightarrow> bool" where
  "hex_crate_law h \<longleftrightarrow>
     (\<forall>s bs. decode_hex_pairs s = Inr bs \<longrightarrow> (\<forall>c \<in> set s. is_ascii_hexdigit c) \<longrightarrow> hexc_decode h s = Inr bs)"

section \<open>Systems that move by steps\<close>

text \<open>The contract of an invariant: it holds at the start and every step keeps it. Then it holds in
  every reachable state, and so does whatever it implies.\<close>

locale stepped =
  fixes start :: "'s \<Rightarrow> bool" and step :: "'s \<Rightarrow> 's \<Rightarrow> bool" and inv :: "'s \<Rightarrow> bool"
  assumes start_inv: "start s \<Longrightarrow> inv s"
    and step_inv: "step s s' \<Longrightarrow> inv s \<Longrightarrow> inv s'"
begin

lemma reached_from_inv: "step\<^sup>*\<^sup>* s s' \<Longrightarrow> inv s \<Longrightarrow> inv s'"
  by (induction rule: rtranclp_induct) (auto intro: step_inv)

lemma reached_inv: "start s \<Longrightarrow> step\<^sup>*\<^sup>* s s' \<Longrightarrow> inv s'"
  using reached_from_inv start_inv by blast

lemma reached_implies: "start s \<Longrightarrow> step\<^sup>*\<^sup>* s s' \<Longrightarrow> (\<And>x. inv x \<Longrightarrow> P x) \<Longrightarrow> P s'"
  using reached_inv by blast

end

end
