(* ===== verification/TW_Ledger_Types.thy ===== *)
theory TW_Ledger_Types
  imports TW_Prelude
begin

text \<open>
  The x402 spending ledger's data, \<open>tinywallet-x402/src/ledger/types.rs\<close>, the stored payment of
  \<open>tinywallet-bus/src/storage\<close> and the conversions of \<open>persist.rs\<close> and \<open>schema.rs\<close>. A
  \<open>DateTime<Utc>\<close> is an integer instant ordered as time; what the \<open>chrono\<close> crate computes with
  it is the parameter record \<open>chrono\<close>. An \<open>i64\<close> of milliseconds is an integer.
\<close>

record chrono =
  timestamp_millis :: "int \<Rightarrow> int"
  from_timestamp_millis :: "int \<Rightarrow> int option"
  date_naive :: "int \<Rightarrow> int"
  year_month :: "int \<Rightarrow> int \<times> nat"
  midnight :: "int \<Rightarrow> int"
  with_day_1 :: "int \<Rightarrow> int option"
  checked_add_day :: "int \<Rightarrow> int option"
  checked_add_month :: "int \<Rightarrow> int option"
  max_utc :: int

text \<open>Cutting an instant to whole milliseconds, as the crate documents: the milliseconds of an
  instant made from milliseconds are those, and every instant's milliseconds make an instant.\<close>

definition chrono_millis_law :: "chrono \<Rightarrow> bool" where
  "chrono_millis_law c \<longleftrightarrow>
     (\<forall>ms t. from_timestamp_millis c ms = Some t \<longrightarrow> timestamp_millis c t = ms) \<and>
     (\<forall>t. from_timestamp_millis c (timestamp_millis c t) \<noteq> None)"

section \<open>Records and budgets\<close>

datatype PaymentStatus = Pending | Settled | Failed | Denied

record PaymentRecord =
  pr_id :: string
  pr_url :: string
  pr_asset :: string
  pr_amount_atomic :: u64
  pr_amount_display :: string
  pr_recipient :: string
  pr_network :: string
  pr_tx_signature :: "string option"
  pr_status :: PaymentStatus
  pr_timestamp :: int
  pr_authorization_valid_until :: "int option"
  pr_solana_last_valid_block_height :: "u64 option"
  pr_authorization_expired_at :: "int option"
  pr_authorization_expiry_observed_height :: "u64 option"
  pr_session_id :: string
  pr_thread_id :: "string option"

text \<open>\<open>{}.{:06} USDC\<close>.\<close>

definition format_usdc :: "u64 \<Rightarrow> string" where
  "format_usdc amount_atomic =
     (let frac = show_nat (unat amount_atomic mod 1000000) in
      show_nat (unat amount_atomic div 1000000) @ ''.'' @ replicate (6 - length frac) (CHR ''0'') @ frac @ '' USDC'')"

definition cut :: "chrono \<Rightarrow> int \<Rightarrow> int" where
  "cut c at = (case from_timestamp_millis c (timestamp_millis c at) of Some t \<Rightarrow> t | None \<Rightarrow> at)"

definition at_millisecond_precision :: "chrono \<Rightarrow> PaymentRecord \<Rightarrow> PaymentRecord" where
  "at_millisecond_precision c r =
     r\<lparr>pr_timestamp := cut c (pr_timestamp r),
       pr_authorization_valid_until := map_option (cut c) (pr_authorization_valid_until r),
       pr_authorization_expired_at := map_option (cut c) (pr_authorization_expired_at r)\<rparr>"

record SpendingSummary =
  session_total_atomic :: u64
  daily_total_atomic :: u64
  monthly_total_atomic :: u64
  session_count :: u64
  daily_count :: u64
  monthly_count :: u64

record SpendingBudget =
  per_request_max_atomic :: u64
  daily_max_atomic :: u64
  monthly_max_atomic :: u64

definition SpendingBudget_default :: SpendingBudget where
  "SpendingBudget_default =
     \<lparr>per_request_max_atomic = 1000000, daily_max_atomic = 10000000, monthly_max_atomic = 100000000\<rparr>"

datatype BudgetCheck =
    Allowed
  | ExceedsPerRequest u64 u64
  | ExceedsDailyBudget u64 u64
  | ExceedsMonthlyBudget u64 u64

datatype BudgetRefusal =
    PerRequest u64 u64
  | Daily u64 u64
  | Monthly u64 u64

fun refusal :: "BudgetCheck \<Rightarrow> BudgetRefusal option" where
  "refusal Allowed = None"
| "refusal (ExceedsPerRequest requested cap) = Some (PerRequest requested cap)"
| "refusal (ExceedsDailyBudget current cap) = Some (Daily current cap)"
| "refusal (ExceedsMonthlyBudget current cap) = Some (Monthly current cap)"

section \<open>Stored form\<close>

datatype StoredPaymentStatus = SPending | SSettled | SFailed | SDenied

fun status_to_stored :: "PaymentStatus \<Rightarrow> StoredPaymentStatus" where
  "status_to_stored Pending = SPending"
| "status_to_stored Settled = SSettled"
| "status_to_stored Failed = SFailed"
| "status_to_stored Denied = SDenied"

fun status_from_stored :: "StoredPaymentStatus \<Rightarrow> PaymentStatus" where
  "status_from_stored SPending = Pending"
| "status_from_stored SSettled = Settled"
| "status_from_stored SFailed = Failed"
| "status_from_stored SDenied = Denied"

record StoredPayment =
  sp_id :: string
  sp_url :: string
  sp_asset :: string
  sp_amount_atomic :: u64
  sp_amount_display :: string
  sp_recipient :: string
  sp_network :: string
  sp_tx_signature :: "string option"
  sp_status :: StoredPaymentStatus
  sp_timestamp_ms :: int
  sp_authorization_valid_until_ms :: "int option"
  sp_solana_last_valid_block_height :: "u64 option"
  sp_authorization_expired_at_ms :: "int option"
  sp_authorization_expiry_observed_height :: "u64 option"
  sp_session_id :: string
  sp_thread_id :: "string option"
  sp_committed_hold :: "string option"

definition show_int :: "int \<Rightarrow> string" where
  "show_int n = (if n < 0 then ''-'' @ show_nat (nat (- n)) else show_nat (nat n))"

definition from_ms :: "chrono \<Rightarrow> string \<Rightarrow> int \<Rightarrow> string + int" where
  "from_ms c field ms = ok_or (field @ '' '' @ show_int ms @ '' is out of range'') (from_timestamp_millis c ms)"

definition stored_payment :: "chrono \<Rightarrow> PaymentRecord \<Rightarrow> string option \<Rightarrow> StoredPayment" where
  "stored_payment c r committed_hold =
     \<lparr>sp_id = pr_id r, sp_url = pr_url r, sp_asset = pr_asset r, sp_amount_atomic = pr_amount_atomic r,
      sp_amount_display = pr_amount_display r, sp_recipient = pr_recipient r, sp_network = pr_network r,
      sp_tx_signature = pr_tx_signature r, sp_status = status_to_stored (pr_status r),
      sp_timestamp_ms = timestamp_millis c (pr_timestamp r),
      sp_authorization_valid_until_ms = map_option (timestamp_millis c) (pr_authorization_valid_until r),
      sp_solana_last_valid_block_height = pr_solana_last_valid_block_height r,
      sp_authorization_expired_at_ms = map_option (timestamp_millis c) (pr_authorization_expired_at r),
      sp_authorization_expiry_observed_height = pr_authorization_expiry_observed_height r,
      sp_session_id = pr_session_id r, sp_thread_id = pr_thread_id r,
      sp_committed_hold = committed_hold\<rparr>"

text \<open>\<open>option.map(f).transpose()?\<close>.\<close>

definition transpose_map :: "('a \<Rightarrow> 'e + 'b) \<Rightarrow> 'a option \<Rightarrow> 'e + 'b option" where
  "transpose_map f x = (case x of None \<Rightarrow> Inr None | Some v \<Rightarrow> rbind (f v) (\<lambda>y. Inr (Some y)))"

definition into_record :: "chrono \<Rightarrow> StoredPayment \<Rightarrow> string + (PaymentRecord \<times> string option)" where
  "into_record c s =
     rbind (from_ms c ''timestamp_ms'' (sp_timestamp_ms s)) (\<lambda>timestamp.
     rbind (transpose_map (from_ms c ''authorization_valid_until_ms'') (sp_authorization_valid_until_ms s)) (\<lambda>valid_until.
     rbind (transpose_map (from_ms c ''authorization_expired_at_ms'') (sp_authorization_expired_at_ms s)) (\<lambda>expired_at.
       Inr (\<lparr>pr_id = sp_id s, pr_url = sp_url s, pr_asset = sp_asset s, pr_amount_atomic = sp_amount_atomic s,
             pr_amount_display = sp_amount_display s, pr_recipient = sp_recipient s, pr_network = sp_network s,
             pr_tx_signature = sp_tx_signature s, pr_status = status_from_stored (sp_status s),
             pr_timestamp = timestamp, pr_authorization_valid_until = valid_until,
             pr_solana_last_valid_block_height = sp_solana_last_valid_block_height s,
             pr_authorization_expired_at = expired_at,
             pr_authorization_expiry_observed_height = sp_authorization_expiry_observed_height s,
             pr_session_id = sp_session_id s, pr_thread_id = sp_thread_id s\<rparr>, sp_committed_hold s))))"

section \<open>Windows\<close>

definition is_unresolved :: "PaymentRecord \<Rightarrow> bool" where
  "is_unresolved r \<longleftrightarrow>
     pr_status r = Pending \<or> (pr_status r = Failed \<and> pr_authorization_valid_until r \<noteq> None)"

definition authorization_window_end :: "PaymentRecord \<Rightarrow> int option" where
  "authorization_window_end r =
     (case pr_authorization_valid_until r of
        Some t \<Rightarrow> Some t
      | None \<Rightarrow>
          (case (pr_solana_last_valid_block_height r, pr_authorization_expiry_observed_height r,
                 pr_authorization_expired_at r) of
             (Some last_valid, Some observed_height, Some observed_at) \<Rightarrow>
               if observed_height > last_valid \<and> observed_at \<ge> pr_timestamp r then Some observed_at else None
           | _ \<Rightarrow> None))"

definition overlaps_authorization_window :: "PaymentRecord \<Rightarrow> int \<Rightarrow> int \<Rightarrow> bool" where
  "overlaps_authorization_window r window_start window_end \<longleftrightarrow>
     pr_timestamp r < window_end \<and>
     (case authorization_window_end r of None \<Rightarrow> True | Some e \<Rightarrow> e \<ge> window_start)"

section \<open>Round trips\<close>

lemma status_stored_inverse [simp]: "status_from_stored (status_to_stored s) = s"
  by (cases s) simp_all

lemma cut_Some: "chrono_millis_law c \<Longrightarrow> from_timestamp_millis c (timestamp_millis c t) = Some (cut c t)"
  by (auto simp: chrono_millis_law_def cut_def split: option.splits)

lemma timestamp_millis_cut [simp]: "chrono_millis_law c \<Longrightarrow> timestamp_millis c (cut c t) = timestamp_millis c t"
  using cut_Some [of c t] by (auto simp: chrono_millis_law_def)

lemma cut_idem: "chrono_millis_law c \<Longrightarrow> cut c (cut c t) = cut c t"
  by (simp add: cut_def [of c "cut c t"] cut_Some)

lemma at_millisecond_precision_idem:
  "chrono_millis_law c \<Longrightarrow>
     at_millisecond_precision c (at_millisecond_precision c r) = at_millisecond_precision c r"
  by (simp add: at_millisecond_precision_def cut_idem option.map_comp comp_def)

lemma into_record_stored:
  assumes "chrono_millis_law c"
  shows "into_record c (stored_payment c r k) = Inr (at_millisecond_precision c r, k)"
proof -
  have f: "from_ms c n (timestamp_millis c t) = Inr (cut c t)" for n t
    using cut_Some [OF assms] by (simp add: from_ms_def)
  have o: "transpose_map (from_ms c n) (map_option (timestamp_millis c) x) = Inr (map_option (cut c) x)" for n x
    by (cases x) (simp_all add: transpose_map_def f)
  show ?thesis
    by (simp add: into_record_def stored_payment_def f o at_millisecond_precision_def)
qed

end
