(* ===== verification/TW_Persist.thy ===== *)
theory TW_Persist
  imports TW_Ledger_Types "HOL-Library.AList"
begin

text \<open>
  The ledger's storage, \<open>tinywallet-x402/src/ledger/persist.rs\<close>: the payments stream and the hold
  document, through the storage ports. The ports (crate \<open>tinystoragedrivers-core\<close>), the blocking
  bridge that drives them and the JSON codec are the parameter record \<open>ports\<close>: each call takes the
  state of the outside world and returns its answer with the next state, so everything other
  writers do between two calls is inside the world. A failing bridge is told from a failing call,
  because the code treats a conflicting write differently.

  A loop that reads windows until one is empty need not end, so it has fuel; running out is
  \<open>OutOfFuel\<close>, an error no source text has.
\<close>

datatype error_kind = Conflict | AlreadyExists | OtherKind

datatype 'a port_result = PortOk 'a | PortErr error_kind string | BridgeErr string

datatype ledger_error = Failure string | OutOfFuel

record Hold =
  hold_amount :: u64
  hold_expires_ms :: int

type_synonym holds_doc = "(string \<times> Hold) list"

record StorageMigrationReady =
  schema_version :: u32
  import_epoch :: string

record ('s, 'v, 'n) ports =
  stream_len :: "string \<Rightarrow> 's \<Rightarrow> nat port_result \<times> 's"
  read_window :: "string \<Rightarrow> u64 \<Rightarrow> nat \<Rightarrow> 's \<Rightarrow> (u64 \<times> 'v) list port_result \<times> 's"
  stream_append :: "string \<Rightarrow> 'v \<Rightarrow> 's \<Rightarrow> u64 port_result \<times> 's"
  doc_get :: "string \<Rightarrow> string \<Rightarrow> 's \<Rightarrow> ('n \<times> 'v) option port_result \<times> 's"
  doc_put_with :: "string \<Rightarrow> string \<Rightarrow> 'v \<Rightarrow> 'n option \<Rightarrow> 's \<Rightarrow> unit port_result \<times> 's"
  payment_to_value :: "StoredPayment \<Rightarrow> string + 'v"
  payment_from_value :: "'v \<Rightarrow> string + StoredPayment"
  holds_to_value :: "holds_doc \<Rightarrow> string + 'v"
  holds_from_value :: "'v \<Rightarrow> string + holds_doc"
  ready_from_value :: "'v \<Rightarrow> string + StorageMigrationReady"

definition BUDGETS_COLLECTION :: string where "BUDGETS_COLLECTION = ''wallet.budgets''"
definition HOLDS_ID :: string where "HOLDS_ID = ''holds''"
definition MIGRATION_READY_ID :: string where "MIGRATION_READY_ID = ''migration_ready''"
definition STORAGE_SCHEMA_VERSION :: u32 where "STORAGE_SCHEMA_VERSION = 2"
definition PAYMENTS_IMPORT_EPOCH :: string where "PAYMENTS_IMPORT_EPOCH = ''x402-payments-jsonl-v1''"
definition PAYMENTS_STREAM :: string where "PAYMENTS_STREAM = ''wallet.payments''"
definition LEGACY_BUDGET_COLLECTION :: string where "LEGACY_BUDGET_COLLECTION = ''x402_budget''"
definition LEGACY_PAYMENTS_STREAM :: string where "LEGACY_PAYMENTS_STREAM = ''x402.payments''"
definition HOLD_TTL_MS :: int where "HOLD_TTL_MS = 15 * 60 * 1000"
definition WINDOW :: nat where "WINDOW = 512"

section \<open>Failing and stateful\<close>

text \<open>\<open>Persist::run\<close>: both layers of failure become one message.\<close>

definition run :: "string \<Rightarrow> 'a port_result \<times> 's \<Rightarrow> (ledger_error + 'a) \<times> 's" where
  "run what m =
     (case m of (PortOk x, s) \<Rightarrow> (Inr x, s)
      | (PortErr k e, s) \<Rightarrow> (Inl (Failure (what @ '': '' @ e)), s)
      | (BridgeErr e, s) \<Rightarrow> (Inl (Failure (what @ '': '' @ e)), s))"

lemma run_eq_Inr [result_simps]: "run what m = (Inr x, s) \<longleftrightarrow> m = (PortOk x, s)"
  by (auto simp: run_def split: prod.splits port_result.splits)

lemma run_Ok [simp]: "run what (PortOk x, s) = (Inr x, s)"
  by (simp add: run_def)

section \<open>Opening\<close>

definition require_migration_ready :: "('s, 'v, 'n) ports \<Rightarrow> 's \<Rightarrow> (ledger_error + unit) \<times> 's" where
  "require_migration_ready P w =
     sbind (run ''read wallet migration readiness'' (doc_get P BUDGETS_COLLECTION MIGRATION_READY_ID w)) (\<lambda>found w.
       case found of
         None \<Rightarrow> (Inl (Failure ''wallet storage migration readiness is missing''), w)
       | Some (_, body) \<Rightarrow>
           (case ready_from_value P body of
              Inl _ \<Rightarrow> (Inl (Failure ''wallet storage migration readiness is malformed''), w)
            | Inr ready \<Rightarrow>
                if schema_version ready \<noteq> STORAGE_SCHEMA_VERSION then
                  (Inl (Failure ''wallet storage migration readiness has the wrong schema version''), w)
                else if import_epoch ready \<noteq> PAYMENTS_IMPORT_EPOCH then
                  (Inl (Failure ''wallet legacy payment import is not complete''), w)
                else (Inr (), w)))"

definition refuse_unmigrated :: "('s, 'v, 'n) ports \<Rightarrow> 's \<Rightarrow> (ledger_error + unit) \<times> 's" where
  "refuse_unmigrated P w =
     sbind (run ''read legacy payments stream'' (stream_len P LEGACY_PAYMENTS_STREAM w)) (\<lambda>legacy w.
       if legacy > 0 then
         (Inl (Failure (show_nat legacy @ '' unmigrated x402.payments entries: compose storage_schema() and migrate before opening the ledger'')), w)
       else sbind (run ''check legacy budget holds'' (doc_get P LEGACY_BUDGET_COLLECTION HOLDS_ID w)) (\<lambda>holds w.
         case holds of
           Some _ \<Rightarrow> (Inl (Failure ''legacy x402 budget holds remain: complete storage migration before opening the ledger''), w)
         | None \<Rightarrow> (Inr (), w)))"

section \<open>Reading and writing\<close>

record LoadedPayment =
  lp_record :: PaymentRecord
  lp_committed_hold :: "string option"

definition parse_entry :: "chrono \<Rightarrow> ('s, 'v, 'n) ports \<Rightarrow> 'v \<Rightarrow> LoadedPayment option" where
  "parse_entry c P body =
     (case rbind (payment_from_value P body) (into_record c) of
        Inl _ \<Rightarrow> None
      | Inr (r, k) \<Rightarrow> Some \<lparr>lp_record = r, lp_committed_hold = k\<rparr>)"

fun read_loop :: "chrono \<Rightarrow> ('s, 'v, 'n) ports \<Rightarrow> nat \<Rightarrow> LoadedPayment list \<Rightarrow> u64 \<Rightarrow> 's \<Rightarrow>
    (ledger_error + LoadedPayment list \<times> u64) \<times> 's" where
  "read_loop c P 0 records next w = (Inl OutOfFuel, w)"
| "read_loop c P (Suc fuel) records next w =
     sbind (run ''read payments stream'' (read_window P PAYMENTS_STREAM next WINDOW w)) (\<lambda>window w.
       if window = [] then (Inr (records, next), w)
       else read_loop c P fuel (records @ List.map_filter (\<lambda>(offset, body). parse_entry c P body) window)
              (saturating_add (fst (last window)) 1) w)"

definition read_from :: "chrono \<Rightarrow> ('s, 'v, 'n) ports \<Rightarrow> nat \<Rightarrow> u64 \<Rightarrow> 's \<Rightarrow>
    (ledger_error + LoadedPayment list \<times> u64) \<times> 's" where
  "read_from c P fuel from w = read_loop c P fuel [] from w"

definition persist_append :: "chrono \<Rightarrow> ('s, 'v, 'n) ports \<Rightarrow> PaymentRecord \<Rightarrow> string option \<Rightarrow> 's \<Rightarrow>
    (ledger_error + u64) \<times> 's" where
  "persist_append c P r committed_hold w =
     (case payment_to_value P (stored_payment c r committed_hold) of
        Inl e \<Rightarrow> (Inl (Failure e), w)
      | Inr body \<Rightarrow> run ''append ledger record'' (stream_append P PAYMENTS_STREAM body w))"

definition load_holds :: "('s, 'v, 'n) ports \<Rightarrow> 's \<Rightarrow> (ledger_error + 'n option \<times> holds_doc) \<times> 's" where
  "load_holds P w =
     sbind (run ''read budget holds'' (doc_get P BUDGETS_COLLECTION HOLDS_ID w)) (\<lambda>found w.
       case found of
         None \<Rightarrow> (Inr (None, []), w)
       | Some (version, body) \<Rightarrow>
           (case holds_from_value P body of
              Inl e \<Rightarrow> (Inl (Failure (''budget holds document is unreadable: '' @ e)), w)
            | Inr doc \<Rightarrow> (Inr (Some version, doc), w)))"

definition store_holds :: "('s, 'v, 'n) ports \<Rightarrow> 'n option \<Rightarrow> holds_doc \<Rightarrow> 's \<Rightarrow> (ledger_error + bool) \<times> 's" where
  "store_holds P version doc w =
     (case holds_to_value P doc of
        Inl e \<Rightarrow> (Inl (Failure e), w)
      | Inr body \<Rightarrow>
          (case doc_put_with P BUDGETS_COLLECTION HOLDS_ID body version w of
             (PortOk _, w) \<Rightarrow> (Inr True, w)
           | (PortErr Conflict _, w) \<Rightarrow> (Inr False, w)
           | (PortErr AlreadyExists _, w) \<Rightarrow> (Inr False, w)
           | (PortErr OtherKind e, w) \<Rightarrow> (Inl (Failure (''write budget holds: '' @ e)), w)
           | (BridgeErr e, w) \<Rightarrow> (Inl (Failure (''write budget holds: '' @ e)), w)))"

section \<open>The reading loop ends\<close>

text \<open>
  What the stream port documents: a window is the next entries from an offset, in order and with
  increasing offsets, and reading changes nothing. Then the loop reads the rest of the stream, and
  as many turns as there are entries left, plus one, are enough.
\<close>

definition window_law :: "('s, 'v, 'n) ports \<Rightarrow> 's \<Rightarrow> (u64 \<times> 'v) list \<Rightarrow> bool" where
  "window_law P w entries \<longleftrightarrow>
     sorted_wrt (\<lambda>x y. fst x < fst y) entries \<and> (\<forall>x \<in> set entries. fst x < - 1) \<and>
     (\<forall>from n. read_window P PAYMENTS_STREAM from n w = (PortOk (take n (filter (\<lambda>x. from \<le> fst x) entries)), w))"

definition parse_entries :: "chrono \<Rightarrow> ('s, 'v, 'n) ports \<Rightarrow> (u64 \<times> 'v) list \<Rightarrow> LoadedPayment list" where
  "parse_entries c P entries = List.map_filter (\<lambda>(offset, body). parse_entry c P body) entries"

lemma parse_entries_append: "parse_entries c P (xs @ ys) = parse_entries c P xs @ parse_entries c P ys"
  by (simp add: parse_entries_def map_filter_def)

lemma saturating_succ: "(x :: u64) < - 1 \<Longrightarrow> saturating_add x 1 = x + 1 \<and> unat (x + 1) = unat x + 1"
proof -
  assume "x < - 1"
  then have "unat x < unat (- 1 :: u64)" by (simp add: word_less_nat_alt)
  then have "unat x + 1 < 2 ^ 64" by (simp add: unsigned_minus_1_eq_mask mask_eq_exp_minus_1)
  then show ?thesis by (simp add: saturating_add_def unat_word_ariths)
qed

lemma filter_after_window:
  fixes entries :: "(u64 \<times> 'v) list"
  assumes "sorted_wrt (\<lambda>x y. fst x < fst y) entries" and "take n entries \<noteq> []"
    and "\<forall>x \<in> set entries. fst x < - 1"
  shows "filter (\<lambda>x. saturating_add (fst (last (take n entries))) 1 \<le> fst x) entries = drop n entries"
proof -
  let ?l = "fst (last (take n entries))"
  have "last (take n entries) \<in> set entries" using assms(2) last_in_set in_set_takeD by metis
  then have s: "saturating_add ?l 1 \<le> y \<longleftrightarrow> ?l < y" for y
    using assms(3) saturating_succ [of ?l] by (simp add: word_le_nat_alt word_less_nat_alt Suc_le_eq)
  have split: "sorted_wrt (\<lambda>x y. fst x < fst y) (take n entries @ drop n entries)" using assms(1) by simp
  have lt: "last (take n entries) \<in> set (take n entries)" using assms(2) by (rule last_in_set)
  have "\<forall>x \<in> set (take n entries). \<forall>y \<in> set (drop n entries). fst x < fst y"
    using split unfolding sorted_wrt_append by blast
  with lt have "\<forall>x \<in> set (drop n entries). ?l < fst x" by blast
  moreover have "\<forall>x \<in> set (take n entries). \<not> ?l < fst x"
  proof -
    have st: "sorted_wrt (\<lambda>x y. fst x < fst y) (butlast (take n entries) @ [last (take n entries)])"
      using assms(1,2) by (simp add: sorted_wrt_take)
    have "set (take n entries) = set (butlast (take n entries)) \<union> {last (take n entries)}"
      using assms(2) by (metis append_butlast_last_id set_append list.set(1) list.set(2))
    moreover have "\<forall>x \<in> set (butlast (take n entries)). fst x < ?l"
      using st unfolding sorted_wrt_append by simp
    ultimately show ?thesis by (auto simp: less_not_sym)
  qed
  ultimately show ?thesis
    by (subst append_take_drop_id [of n entries, symmetric]) (simp add: s filter_append del: append_take_drop_id)
qed

lemma read_loop_complete:
  assumes "window_law P w entries" and "length (filter (\<lambda>x. from \<le> fst x) entries) < fuel"
  shows "\<exists>next. read_loop c P fuel records from w =
    (Inr (records @ parse_entries c P (filter (\<lambda>x. from \<le> fst x) entries), next), w) \<and>
    (\<forall>x \<in> set entries. fst x < next)"
  using assms(2)
proof (induction fuel arbitrary: records "from")
  case (Suc fuel)
  let ?rest = "filter (\<lambda>x. from \<le> fst x) entries"
  have win: "read_window P PAYMENTS_STREAM from WINDOW w = (PortOk (take WINDOW ?rest), w)"
    and sorted: "sorted_wrt (\<lambda>x y. fst x < fst y) ?rest" and top: "\<forall>x \<in> set ?rest. fst x < - 1"
    using assms(1) by (auto simp: window_law_def sorted_wrt_filter)
  show ?case
  proof (cases "take WINDOW ?rest = []")
    case True
    then have "?rest = []" by (simp add: WINDOW_def)
    then show ?thesis using win by (auto simp: parse_entries_def map_filter_simps filter_empty_conv not_le)
  next
    case False
    let ?next = "saturating_add (fst (last (take WINDOW ?rest))) 1"
    have rest: "filter (\<lambda>x. ?next \<le> fst x) ?rest = drop WINDOW ?rest"
      by (rule filter_after_window [OF sorted False top])
    have "last (take WINDOW ?rest) \<in> set ?rest" using False last_in_set in_set_takeD by metis
    then have ge: "from \<le> fst (last (take WINDOW ?rest))" "fst (last (take WINDOW ?rest)) < - 1" using top by (auto simp del: split_paired_All)
    then have "from \<le> ?next" using saturating_succ [OF ge(2)] by (simp add: word_le_nat_alt)
    then have "filter (\<lambda>x. ?next \<le> fst x) ?rest = filter (\<lambda>x. ?next \<le> fst x) entries"
      unfolding filter_filter by (intro filter_cong refl) (meson order_trans)
    then have fe: "filter (\<lambda>x. ?next \<le> fst x) entries = drop WINDOW ?rest" using rest by simp
    moreover have "length (drop WINDOW ?rest) < fuel"
      using Suc.prems False by (cases ?rest) (auto simp: WINDOW_def)
    ultimately obtain nx where nx: "read_loop c P fuel (records @ parse_entries c P (take WINDOW ?rest)) ?next w =
        (Inr ((records @ parse_entries c P (take WINDOW ?rest)) @ parse_entries c P (drop WINDOW ?rest), nx), w)"
        "\<forall>x \<in> set entries. fst x < nx"
      using Suc.IH [of ?next] by metis
    have "parse_entries c P (take WINDOW ?rest) @ parse_entries c P (drop WINDOW ?rest) = parse_entries c P ?rest"
      by (metis append_take_drop_id parse_entries_append)
    with nx win False show ?thesis by (simp add: parse_entries_def [symmetric])
  qed
qed simp

end
