(* ===== verification/TW_Ledger.thy ===== *)
theory TW_Ledger
  imports TW_Persist "HOL-Library.Multiset"
begin

text \<open>
  The payment ledger, \<open>tinywallet-x402/src/ledger/store.rs\<close>. The record \<open>sys\<close> is what an
  operation on \<open>&mut self\<close> can change: the ledger, the outside world behind the storage ports, and
  the process-wide source of reservation ids. \<open>HashMap\<close> and \<open>BTreeMap\<close> values are association
  lists with distinct keys; nothing below depends on their order. Every entry point that reads the
  clock takes the instant \<open>now\<close>.
\<close>

record OwnHold =
  own_key :: string
  own_amount :: u64

record PaymentLedger =
  l_generation :: u64
  l_records :: "PaymentRecord list"
  l_committed_holds :: "string set"
  l_next_offset :: u64
  l_budget :: SpendingBudget
  l_session_id :: string
  l_owner :: string
  l_reservations :: "(u64 \<times> OwnHold) list"
  l_holds :: holds_doc

record 's sys =
  led :: PaymentLedger
  world :: 's
  next_reservation :: u64

definition HOLD_CAS_ATTEMPTS :: nat where
  "HOLD_CAS_ATTEMPTS = 16"

text \<open>A call of the storage, as a step of the whole.\<close>

definition on_world :: "('s \<Rightarrow> ('e + 'a) \<times> 's) \<Rightarrow> 's sys \<Rightarrow> ('e + 'a) \<times> 's sys" where
  "on_world f \<sigma> = (case f (world \<sigma>) of (r, w) \<Rightarrow> (r, \<sigma>\<lparr>world := w\<rparr>))"

abbreviation upd_led :: "(PaymentLedger \<Rightarrow> PaymentLedger) \<Rightarrow> 's sys \<Rightarrow> 's sys" where
  "upd_led f \<sigma> \<equiv> \<sigma>\<lparr>led := f (led \<sigma>)\<rparr>"

section \<open>Reading the ledger\<close>

text \<open>The last record of each id; \<open>HashMap::into_values\<close> gives them in no particular order.\<close>

definition latest_map :: "PaymentRecord list \<Rightarrow> string \<rightharpoonup> PaymentRecord" where
  "latest_map rs = foldl (\<lambda>m r. m(pr_id r \<mapsto> r)) Map.empty rs"

definition latest_records :: "PaymentRecord list \<Rightarrow> PaymentRecord list" where
  "latest_records rs = map (\<lambda>i. the (latest_map rs i)) (remdups (map pr_id rs))"

definition sum_saturating :: "u64 \<Rightarrow> u64 list \<Rightarrow> u64" where
  "sum_saturating start xs = foldl saturating_add start xs"

definition reserved_atomic :: "PaymentLedger \<Rightarrow> u64" where
  "reserved_atomic l = sum_saturating 0 (map (hold_amount \<circ> snd) (l_holds l))"

definition day_window :: "chrono \<Rightarrow> int \<Rightarrow> int \<times> int" where
  "day_window c now =
     (let day_start = midnight c (date_naive c now) in
      (day_start, case checked_add_day c day_start of Some t \<Rightarrow> t | None \<Rightarrow> max_utc c))"

definition month_window :: "chrono \<Rightarrow> int \<Rightarrow> int \<times> int" where
  "month_window c now =
     (let first = (case with_day_1 c (date_naive c now) of Some d \<Rightarrow> d | None \<Rightarrow> date_naive c now);
          month_start = midnight c first in
      (month_start, case checked_add_month c month_start of Some t \<Rightarrow> t | None \<Rightarrow> max_utc c))"

definition counts_daily :: "chrono \<Rightarrow> int \<Rightarrow> PaymentRecord \<Rightarrow> bool" where
  "counts_daily c now r \<longleftrightarrow>
     (case day_window c now of (day_start, day_end) \<Rightarrow>
        is_unresolved r \<and> overlaps_authorization_window r day_start day_end \<or>
        pr_status r = Settled \<and> pr_timestamp r \<ge> day_start \<and> pr_timestamp r < day_end)"

definition counts_monthly :: "chrono \<Rightarrow> int \<Rightarrow> PaymentRecord \<Rightarrow> bool" where
  "counts_monthly c now r \<longleftrightarrow>
     (case month_window c now of (month_start, month_end) \<Rightarrow>
        is_unresolved r \<and> overlaps_authorization_window r month_start month_end \<or>
        pr_status r = Settled \<and> year_month c (pr_timestamp r) = year_month c now)"

definition over_cap :: "u64 \<Rightarrow> u64 \<Rightarrow> u64 \<Rightarrow> bool" where
  "over_cap current amount cap = (case checked_add current amount of None \<Rightarrow> True | Some t \<Rightarrow> t > cap)"

definition check_budget_at :: "chrono \<Rightarrow> PaymentLedger \<Rightarrow> int \<Rightarrow> u64 \<Rightarrow> BudgetCheck" where
  "check_budget_at c l now amount =
     (if amount > per_request_max_atomic (l_budget l) then
        ExceedsPerRequest amount (per_request_max_atomic (l_budget l))
      else let reserved = reserved_atomic l;
               latest = latest_records (l_records l);
               daily = sum_saturating reserved (map pr_amount_atomic (filter (counts_daily c now) latest)) in
        if over_cap daily amount (daily_max_atomic (l_budget l)) then
          ExceedsDailyBudget daily (daily_max_atomic (l_budget l))
        else let monthly = sum_saturating reserved (map pr_amount_atomic (filter (counts_monthly c now) latest)) in
          if over_cap monthly amount (monthly_max_atomic (l_budget l)) then
            ExceedsMonthlyBudget monthly (monthly_max_atomic (l_budget l))
          else Allowed)"

definition summary_at :: "chrono \<Rightarrow> PaymentLedger \<Rightarrow> int \<Rightarrow> SpendingSummary" where
  "summary_at c l now =
     foldl (\<lambda>s r.
       let s = (if pr_session_id r = l_session_id l then
                  s\<lparr>session_total_atomic := saturating_add (session_total_atomic s) (pr_amount_atomic r),
                    session_count := saturating_add (session_count s) 1\<rparr> else s);
           s = (if date_naive c (pr_timestamp r) = date_naive c now then
                  s\<lparr>daily_total_atomic := saturating_add (daily_total_atomic s) (pr_amount_atomic r),
                    daily_count := saturating_add (daily_count s) 1\<rparr> else s)
       in if year_month c (pr_timestamp r) = year_month c now then
            s\<lparr>monthly_total_atomic := saturating_add (monthly_total_atomic s) (pr_amount_atomic r),
              monthly_count := saturating_add (monthly_count s) 1\<rparr> else s)
       \<lparr>session_total_atomic = 0, daily_total_atomic = 0, monthly_total_atomic = 0,
        session_count = 0, daily_count = 0, monthly_count = 0\<rparr>
       (filter (\<lambda>r. pr_status r = Settled) (latest_records (l_records l)))"

definition recent_payments :: "PaymentLedger \<Rightarrow> nat \<Rightarrow> PaymentRecord list" where
  "recent_payments l limit = take limit (rev (l_records l))"

definition payment :: "PaymentLedger \<Rightarrow> string \<Rightarrow> PaymentRecord option" where
  "payment l i = List.find (\<lambda>r. pr_id r = i) (rev (l_records l))"

definition pending_payments :: "PaymentLedger \<Rightarrow> PaymentRecord list" where
  "pending_payments l = filter (\<lambda>r. pr_status r = Pending) (latest_records (l_records l))"

definition pending_count :: "PaymentLedger \<Rightarrow> nat" where
  "pending_count l = length (filter (\<lambda>r. pr_status r = Pending) (latest_records (l_records l)))"

definition usable_pending_count :: "PaymentLedger \<Rightarrow> int \<Rightarrow> nat" where
  "usable_pending_count l now =
     length (filter (\<lambda>r. pr_status r = Pending \<and>
        (case authorization_window_end r of None \<Rightarrow> True | Some e \<Rightarrow> e > now)) (latest_records (l_records l)))"

definition outstanding_atomic :: "PaymentLedger \<Rightarrow> u64" where
  "outstanding_atomic l =
     (let pending = sum_saturating 0 (map pr_amount_atomic (filter is_unresolved (latest_records (l_records l))))
      in saturating_add pending (reserved_atomic l))"

definition update_budget :: "SpendingBudget \<Rightarrow> 's sys \<Rightarrow> 's sys" where
  "update_budget b \<sigma> = upd_led (\<lambda>l. l\<lparr>l_budget := b\<rparr>) \<sigma>"

section \<open>Records\<close>

text \<open>\<open>from_persist\<close>: the process id, the start time and the next generation are arguments.\<close>

definition from_persist :: "chrono \<Rightarrow> ('s, 'v, 'n) ports \<Rightarrow> nat \<Rightarrow> nat \<Rightarrow> int \<Rightarrow> u64 \<Rightarrow> string \<Rightarrow> SpendingBudget \<Rightarrow> 's \<Rightarrow>
    (ledger_error + PaymentLedger) \<times> 's" where
  "from_persist c P fuel pid started gen session_id b w =
     sbind (read_from c P fuel 0 w) (\<lambda>(loaded, next_offset) w.
       (Inr \<lparr>l_generation = gen, l_records = map lp_record loaded,
             l_committed_holds = set (List.map_filter lp_committed_hold loaded),
             l_next_offset = next_offset, l_budget = b, l_session_id = session_id,
             l_owner = show_nat pid @ ''-'' @ show_nat (unat gen) @ ''-'' @ show_int started,
             l_reservations = [], l_holds = []\<rparr>, w))"

definition open_ledger :: "chrono \<Rightarrow> ('s, 'v, 'n) ports \<Rightarrow> nat \<Rightarrow> nat \<Rightarrow> int \<Rightarrow> u64 \<Rightarrow> string \<Rightarrow> SpendingBudget \<Rightarrow> 's \<Rightarrow>
    (ledger_error + PaymentLedger) \<times> 's" where
  "open_ledger c P fuel pid started gen session_id b w =
     sbind (refuse_unmigrated P w) (\<lambda>_ w. from_persist c P fuel pid started gen session_id b w)"

definition open_current :: "chrono \<Rightarrow> ('s, 'v, 'n) ports \<Rightarrow> nat \<Rightarrow> nat \<Rightarrow> int \<Rightarrow> u64 \<Rightarrow> string \<Rightarrow> SpendingBudget \<Rightarrow> 's \<Rightarrow>
    (ledger_error + PaymentLedger) \<times> 's" where
  "open_current c P fuel pid started gen session_id b w =
     sbind (require_migration_ready P w) (\<lambda>_ w. from_persist c P fuel pid started gen session_id b w)"

definition absorb :: "LoadedPayment list \<Rightarrow> u64 \<Rightarrow> PaymentLedger \<Rightarrow> PaymentLedger" where
  "absorb fresh next l =
     l\<lparr>l_committed_holds := l_committed_holds l \<union> set (List.map_filter lp_committed_hold fresh),
       l_records := l_records l @ map lp_record fresh, l_next_offset := next\<rparr>"

definition refresh_records :: "chrono \<Rightarrow> ('s, 'v, 'n) ports \<Rightarrow> nat \<Rightarrow> 's sys \<Rightarrow> (ledger_error + unit) \<times> 's sys" where
  "refresh_records c P fuel \<sigma> =
     sbind (on_world (read_from c P fuel (l_next_offset (led \<sigma>))) \<sigma>) (\<lambda>(fresh, next) \<sigma>.
       (Inr (), upd_led (absorb fresh next) \<sigma>))"

definition append_record :: "chrono \<Rightarrow> ('s, 'v, 'n) ports \<Rightarrow> nat \<Rightarrow> PaymentRecord \<Rightarrow> string option \<Rightarrow> 's sys \<Rightarrow>
    (ledger_error + unit) \<times> 's sys" where
  "append_record c P fuel r committed_hold \<sigma> =
     (let r = at_millisecond_precision c r in
      sbind (on_world (persist_append c P r committed_hold) \<sigma>) (\<lambda>offset \<sigma>.
        let \<sigma> = (case committed_hold of
                   Some key \<Rightarrow> upd_led (\<lambda>l. l\<lparr>l_committed_holds := insert key (l_committed_holds l)\<rparr>) \<sigma>
                 | None \<Rightarrow> \<sigma>) in
        if offset = l_next_offset (led \<sigma>) then
          (Inr (), upd_led (\<lambda>l. l\<lparr>l_records := l_records l @ [r], l_next_offset := saturating_add offset 1\<rparr>) \<sigma>)
        else case refresh_records c P fuel \<sigma> of
          (Inl _, \<sigma>) \<Rightarrow> (Inr (), upd_led (\<lambda>l. l\<lparr>l_records := l_records l @ [r]\<rparr>) \<sigma>)
        | (Inr _, \<sigma>) \<Rightarrow> (Inr (), \<sigma>)))"

definition record_payment :: "chrono \<Rightarrow> ('s, 'v, 'n) ports \<Rightarrow> nat \<Rightarrow> PaymentRecord \<Rightarrow> 's sys \<Rightarrow> 's sys" where
  "record_payment c P fuel r \<sigma> =
     (case append_record c P fuel r None \<sigma> of
        (Inl _, \<sigma>) \<Rightarrow> upd_led (\<lambda>l. l\<lparr>l_records := l_records l @ [at_millisecond_precision c r]\<rparr>) \<sigma>
      | (Inr _, \<sigma>) \<Rightarrow> \<sigma>)"

definition try_record_payment :: "chrono \<Rightarrow> ('s, 'v, 'n) ports \<Rightarrow> nat \<Rightarrow> PaymentRecord \<Rightarrow> 's sys \<Rightarrow>
    (ledger_error + unit) \<times> 's sys" where
  "try_record_payment c P fuel r \<sigma> = append_record c P fuel r None \<sigma>"

definition observe_solana_expiry :: "chrono \<Rightarrow> ('s, 'v, 'n) ports \<Rightarrow> nat \<Rightarrow> u64 \<Rightarrow> string \<Rightarrow> int \<Rightarrow> u64 \<Rightarrow> u64 \<Rightarrow> int \<Rightarrow>
    's sys \<Rightarrow> (ledger_error + bool) \<times> 's sys" where
  "observe_solana_expiry c P fuel expected_generation i expected_issued_at expected_last_valid_height
     observed_height observed_at \<sigma> =
     (if l_generation (led \<sigma>) \<noteq> expected_generation \<or> observed_height \<le> expected_last_valid_height then (Inr False, \<sigma>)
      else sbind (refresh_records c P fuel \<sigma>) (\<lambda>_ \<sigma>.
        case payment (led \<sigma>) i of
          None \<Rightarrow> (Inr False, \<sigma>)
        | Some latest \<Rightarrow>
            if pr_status latest \<noteq> Pending \<or> pr_timestamp latest \<noteq> expected_issued_at \<or>
               pr_solana_last_valid_block_height latest \<noteq> Some expected_last_valid_height \<or>
               pr_authorization_expired_at latest \<noteq> None \<or> observed_at < pr_timestamp latest then (Inr False, \<sigma>)
            else sbind (try_record_payment c P fuel
                   (latest\<lparr>pr_authorization_expired_at := Some observed_at,
                           pr_authorization_expiry_observed_height := Some observed_height\<rparr>) \<sigma>) (\<lambda>_ \<sigma>.
              (Inr True, \<sigma>))))"

section \<open>Holds\<close>

definition live_holds :: "int \<Rightarrow> string set \<Rightarrow> holds_doc \<Rightarrow> holds_doc" where
  "live_holds now_ms committed doc =
     filter (\<lambda>(key, h). hold_expires_ms h > now_ms \<and> key \<notin> committed) doc"

definition hold_key :: "string \<Rightarrow> u64 \<Rightarrow> string" where
  "hold_key owner i = owner @ '':'' @ show_nat (unat i)"

text \<open>One attempt of \<open>reserve_at\<close>: the snapshot of holds and records, then, on it, either the
  confirmed refusal or the hold written by compare-and-swap; losing a race means another attempt.\<close>

datatype attempt = Refused BudgetRefusal | Held u64 | Retry

definition take_snapshot :: "chrono \<Rightarrow> ('s, 'v, 'n) ports \<Rightarrow> nat \<Rightarrow> int \<Rightarrow> 's sys \<Rightarrow> (ledger_error + 'n option) \<times> 's sys" where
  "take_snapshot c P fuel now \<sigma> =
     sbind (on_world (load_holds P) \<sigma>) (\<lambda>(version, doc) \<sigma>.
     sbind (refresh_records c P fuel \<sigma>) (\<lambda>_ \<sigma>.
       (Inr version, upd_led (\<lambda>l. l\<lparr>l_holds := live_holds (timestamp_millis c now) (l_committed_holds l) doc\<rparr>) \<sigma>)))"

definition confirm_refusal :: "('s, 'v, 'n) ports \<Rightarrow> 'n option \<Rightarrow> BudgetRefusal \<Rightarrow> 's sys \<Rightarrow> (ledger_error + attempt) \<times> 's sys" where
  "confirm_refusal P version r \<sigma> =
     sbind (on_world (load_holds P) \<sigma>) (\<lambda>(current, _) \<sigma>.
       (Inr (if current = version then Refused r else Retry), \<sigma>))"

definition place_hold :: "chrono \<Rightarrow> ('s, 'v, 'n) ports \<Rightarrow> int \<Rightarrow> u64 \<Rightarrow> 'n option \<Rightarrow> 's sys \<Rightarrow> (ledger_error + attempt) \<times> 's sys" where
  "place_hold c P now amount version \<sigma> =
     (let i = next_reservation \<sigma>;
          \<sigma> = \<sigma>\<lparr>next_reservation := i + 1\<rparr>;
          key = hold_key (l_owner (led \<sigma>)) i;
          doc = AList.update key \<lparr>hold_amount = amount,
                  hold_expires_ms = i64_saturating_add (timestamp_millis c now) HOLD_TTL_MS\<rparr> (l_holds (led \<sigma>)) in
      sbind (on_world (store_holds P version doc) \<sigma>) (\<lambda>stored \<sigma>.
        if stored then
          (Inr (Held i), upd_led (\<lambda>l. l\<lparr>l_holds := doc,
             l_reservations := AList.update i \<lparr>own_key = key, own_amount = amount\<rparr> (l_reservations l)\<rparr>) \<sigma>)
        else (Inr Retry, \<sigma>)))"

definition reserve_attempt :: "chrono \<Rightarrow> ('s, 'v, 'n) ports \<Rightarrow> nat \<Rightarrow> int \<Rightarrow> u64 \<Rightarrow> 's sys \<Rightarrow> (ledger_error + attempt) \<times> 's sys" where
  "reserve_attempt c P fuel now amount \<sigma> =
     sbind (take_snapshot c P fuel now \<sigma>) (\<lambda>version \<sigma>.
       case refusal (check_budget_at c (led \<sigma>) now amount) of
         Some r \<Rightarrow> confirm_refusal P version r \<sigma>
       | None \<Rightarrow> place_hold c P now amount version \<sigma>)"

fun reserve_loop :: "chrono \<Rightarrow> ('s, 'v, 'n) ports \<Rightarrow> nat \<Rightarrow> int \<Rightarrow> u64 \<Rightarrow> nat \<Rightarrow> 's sys \<Rightarrow>
    (ledger_error + (BudgetRefusal + u64)) \<times> 's sys" where
  "reserve_loop c P fuel now amount 0 \<sigma> =
     (Inl (Failure ''x402 budget hold contention: gave up after repeated conflicts''), \<sigma>)"
| "reserve_loop c P fuel now amount (Suc n) \<sigma> =
     sbind (reserve_attempt c P fuel now amount \<sigma>) (\<lambda>a \<sigma>.
       case a of
         Refused r \<Rightarrow> (Inr (Inl r), \<sigma>)
       | Held i \<Rightarrow> (Inr (Inr i), \<sigma>)
       | Retry \<Rightarrow> reserve_loop c P fuel now amount n \<sigma>)"

definition reserve_at :: "chrono \<Rightarrow> ('s, 'v, 'n) ports \<Rightarrow> nat \<Rightarrow> int \<Rightarrow> u64 \<Rightarrow> 's sys \<Rightarrow>
    (ledger_error + (BudgetRefusal + u64)) \<times> 's sys" where
  "reserve_at c P fuel now amount \<sigma> =
     (if amount > per_request_max_atomic (l_budget (led \<sigma>)) then
        (Inr (Inl (PerRequest amount (per_request_max_atomic (l_budget (led \<sigma>))))), \<sigma>)
      else reserve_loop c P fuel now amount HOLD_CAS_ATTEMPTS \<sigma>)"

fun release_loop :: "('s, 'v, 'n) ports \<Rightarrow> string \<Rightarrow> nat \<Rightarrow> 's sys \<Rightarrow> 's sys" where
  "release_loop P key 0 \<sigma> = \<sigma>"
| "release_loop P key (Suc n) \<sigma> =
     (case on_world (load_holds P) \<sigma> of
        (Inl _, \<sigma>) \<Rightarrow> \<sigma>
      | (Inr (version, doc), \<sigma>) \<Rightarrow>
          if version = None \<or> map_of doc key = None then \<sigma>
          else (case on_world (store_holds P version (AList.delete key doc)) \<sigma> of
                  (Inr True, \<sigma>) \<Rightarrow> \<sigma>
                | (Inr False, \<sigma>) \<Rightarrow> release_loop P key n \<sigma>
                | (Inl _, \<sigma>) \<Rightarrow> \<sigma>))"

definition release :: "('s, 'v, 'n) ports \<Rightarrow> u64 \<Rightarrow> 's sys \<Rightarrow> 's sys" where
  "release P i \<sigma> =
     (case map_of (l_reservations (led \<sigma>)) i of
        None \<Rightarrow> \<sigma>
      | Some own \<Rightarrow>
          release_loop P (own_key own) HOLD_CAS_ATTEMPTS
            (upd_led (\<lambda>l. l\<lparr>l_reservations := AList.delete i (l_reservations l),
                          l_holds := AList.delete (own_key own) (l_holds l)\<rparr>) \<sigma>))"

definition place_all :: "(u64 \<times> OwnHold) list \<Rightarrow> int \<Rightarrow> holds_doc \<Rightarrow> holds_doc" where
  "place_all owned expires_ms doc =
     foldl (\<lambda>d own. AList.update (own_key own) \<lparr>hold_amount = own_amount own, hold_expires_ms = expires_ms\<rparr> d)
       doc (map snd owned)"

fun renew_loop :: "('s, 'v, 'n) ports \<Rightarrow> int \<Rightarrow> nat \<Rightarrow> 's sys \<Rightarrow> (ledger_error + nat) \<times> 's sys" where
  "renew_loop P now_ms 0 \<sigma> = (Inl (Failure ''x402 budget hold renewal: gave up after repeated conflicts''), \<sigma>)"
| "renew_loop P now_ms (Suc n) \<sigma> =
     sbind (on_world (load_holds P) \<sigma>) (\<lambda>(version, doc) \<sigma>.
       let doc = filter (\<lambda>(_, h). hold_expires_ms h > now_ms) doc;
           doc = place_all (l_reservations (led \<sigma>)) (i64_saturating_add now_ms HOLD_TTL_MS) doc in
       sbind (on_world (store_holds P version doc) \<sigma>) (\<lambda>stored \<sigma>.
         if stored then (Inr (length (l_reservations (led \<sigma>))), upd_led (\<lambda>l. l\<lparr>l_holds := doc\<rparr>) \<sigma>)
         else renew_loop P now_ms n \<sigma>))"

definition renew_holds_at :: "chrono \<Rightarrow> ('s, 'v, 'n) ports \<Rightarrow> int \<Rightarrow> 's sys \<Rightarrow> (ledger_error + nat) \<times> 's sys" where
  "renew_holds_at c P now \<sigma> =
     (if l_reservations (led \<sigma>) = [] then (Inr 0, \<sigma>)
      else renew_loop P (timestamp_millis c now) HOLD_CAS_ATTEMPTS \<sigma>)"

definition commit_reservation :: "chrono \<Rightarrow> ('s, 'v, 'n) ports \<Rightarrow> nat \<Rightarrow> u64 \<Rightarrow> PaymentRecord \<Rightarrow> 's sys \<Rightarrow> 's sys" where
  "commit_reservation c P fuel i r \<sigma> =
     (let key = map_option own_key (map_of (l_reservations (led \<sigma>)) i);
          \<sigma> = (case append_record c P fuel r key \<sigma> of
                 (Inl _, \<sigma>) \<Rightarrow> upd_led (\<lambda>l. l\<lparr>l_records := l_records l @ [at_millisecond_precision c r]\<rparr>) \<sigma>
               | (Inr _, \<sigma>) \<Rightarrow> \<sigma>)
      in release P i \<sigma>)"

definition try_commit_reservation :: "chrono \<Rightarrow> ('s, 'v, 'n) ports \<Rightarrow> nat \<Rightarrow> u64 \<Rightarrow> PaymentRecord \<Rightarrow> 's sys \<Rightarrow>
    (ledger_error + unit) \<times> 's sys" where
  "try_commit_reservation c P fuel i r \<sigma> =
     (let key = map_option own_key (map_of (l_reservations (led \<sigma>)) i) in
      sbind (append_record c P fuel r key \<sigma>) (\<lambda>_ \<sigma>. (Inr (), release P i \<sigma>)))"

section \<open>Totals are exact\<close>

abbreviation MAX64 :: nat where
  "MAX64 \<equiv> 2 ^ 64 - 1"

lemma unat_sum_saturating:
  "unat (sum_saturating start xs) = min (unat start + sum_list (map unat xs)) MAX64"
proof (induction xs arbitrary: start)
  case Nil
  have "unat start < 2 ^ 64" using unsigned_less [where 'a = nat, of start] by simp
  then show ?case by (simp add: sum_saturating_def)
next
  case (Cons x xs)
  have "sum_saturating start (x # xs) = sum_saturating (saturating_add start x) xs"
    by (simp add: sum_saturating_def)
  then show ?case
    by (simp only: Cons.IH unat_saturating_add) (simp add: min_def)
qed

text \<open>So the order in which a hash map yields the values does not matter.\<close>

lemma sum_saturating_perm:
  assumes "mset xs = mset ys"
  shows "sum_saturating start xs = sum_saturating start ys"
proof -
  have "sum_list (map unat xs) = sum_list (map unat ys)"
    using assms by (metis mset_map sum_mset_sum_list)
  then show ?thesis by (simp only: word_unat_eq_iff unat_sum_saturating)
qed

definition held_total :: "holds_doc \<Rightarrow> nat" where
  "held_total hs = sum_list (map (\<lambda>(k, h). unat (hold_amount h)) hs)"

definition counted_total :: "(PaymentRecord \<Rightarrow> bool) \<Rightarrow> PaymentRecord list \<Rightarrow> nat" where
  "counted_total counts rs = sum_list (map (\<lambda>r. unat (pr_amount_atomic r)) (filter counts (latest_records rs)))"

definition day_total :: "chrono \<Rightarrow> int \<Rightarrow> PaymentLedger \<Rightarrow> nat" where
  "day_total c now l = held_total (l_holds l) + counted_total (counts_daily c now) (l_records l)"

definition month_total :: "chrono \<Rightarrow> int \<Rightarrow> PaymentLedger \<Rightarrow> nat" where
  "month_total c now l = held_total (l_holds l) + counted_total (counts_monthly c now) (l_records l)"

lemma unat_reserved_atomic: "unat (reserved_atomic l) = min (held_total (l_holds l)) MAX64"
  by (simp add: reserved_atomic_def unat_sum_saturating held_total_def comp_def case_prod_unfold)

lemma unat_period_total:
  "unat (sum_saturating (reserved_atomic l) (map pr_amount_atomic (filter counts (latest_records (l_records l))))) =
     min (held_total (l_holds l) + counted_total counts (l_records l)) MAX64"
  unfolding unat_sum_saturating unat_reserved_atomic counted_total_def
  by (simp only: map_map comp_def min_def split: if_split) linarith

text \<open>A saturated sum is refused like the exact one, unless the cap is the largest \<open>u64\<close>.\<close>

lemma over_cap_exact:
  assumes "unat current = min tot MAX64" and "unat cap < MAX64"
  shows "over_cap current amount cap \<longleftrightarrow> unat cap < tot + unat amount"
proof (cases "checked_add current amount")
  case None
  then have "2 ^ 64 \<le> min tot MAX64 + unat amount" using assms(1) by (simp add: checked_add_None)
  with None assms(2) show ?thesis by (simp add: over_cap_def)
next
  case (Some t)
  then have "unat t = min tot MAX64 + unat amount" using assms(1) by (simp add: checked_add_Some)
  with Some assms(2) show ?thesis by (auto simp: over_cap_def word_less_nat_alt min_def)
qed

lemma check_budget_at_eq:
  assumes "unat (daily_max_atomic (l_budget l)) < MAX64" and "unat (monthly_max_atomic (l_budget l)) < MAX64"
  shows "check_budget_at c l now amount =
    (if unat (per_request_max_atomic (l_budget l)) < unat amount then
       ExceedsPerRequest amount (per_request_max_atomic (l_budget l))
     else if unat (daily_max_atomic (l_budget l)) < day_total c now l + unat amount then
       ExceedsDailyBudget (of_nat (min (day_total c now l) MAX64)) (daily_max_atomic (l_budget l))
     else if unat (monthly_max_atomic (l_budget l)) < month_total c now l + unat amount then
       ExceedsMonthlyBudget (of_nat (min (month_total c now l) MAX64)) (monthly_max_atomic (l_budget l))
     else Allowed)"
proof -
  note t = unat_period_total [of l "counts_daily c now"] unat_period_total [of l "counts_monthly c now"]
  have w: "x = of_nat n" if "unat x = n" for x :: u64 and n using that by auto
  show ?thesis
    unfolding check_budget_at_def Let_def word_less_nat_alt
      over_cap_exact [OF t(1) assms(1)] over_cap_exact [OF t(2) assms(2)]
    unfolding w [OF t(1)] w [OF t(2)] day_total_def month_total_def by (rule refl)
qed

lemma refusal_None_iff: "refusal x = None \<longleftrightarrow> x = Allowed"
  by (cases x) simp_all

lemma held_total_update:
  "held_total (AList.update k h hs) \<le> held_total hs + unat (hold_amount h)"
  by (induction hs) (auto simp: held_total_def)

section \<open>What the operations keep\<close>

text \<open>Same ledger but for what it knows of the shared storage: records, committed holds, the
  stream position and the snapshot of the hold document.\<close>

definition same_owner :: "PaymentLedger \<Rightarrow> PaymentLedger \<Rightarrow> bool" where
  "same_owner l l' \<longleftrightarrow> l_reservations l' = l_reservations l \<and> l_budget l' = l_budget l \<and>
     l_owner l' = l_owner l \<and> l_generation l' = l_generation l \<and> l_session_id l' = l_session_id l"

named_theorems frame_simps \<open>what storage calls leave unchanged\<close>

lemma same_owner_refl [simp]: "same_owner l l"
  by (simp add: same_owner_def)

lemma same_owner_trans: "same_owner l m \<Longrightarrow> same_owner m n \<Longrightarrow> same_owner l n"
  by (simp add: same_owner_def)

lemma same_owner_absorb [simp]: "same_owner l (absorb fresh next l)"
  by (simp add: same_owner_def absorb_def)

lemma same_owner_holds [simp]: "same_owner l (l\<lparr>l_holds := hs\<rparr>)"
  by (simp add: same_owner_def)

lemma on_world_frame:
  "on_world f \<sigma> = (r, \<sigma>') \<Longrightarrow>
     led \<sigma>' = led \<sigma> \<and> next_reservation \<sigma>' = next_reservation \<sigma> \<and> f (world \<sigma>) = (r, world \<sigma>')"
  by (auto simp: on_world_def split: prod.splits)

lemma refresh_records_frame:
  "refresh_records c P fuel \<sigma> = (r, \<sigma>') \<Longrightarrow>
     next_reservation \<sigma>' = next_reservation \<sigma> \<and>
     (case r of Inl _ \<Rightarrow> led \<sigma>' = led \<sigma> | Inr _ \<Rightarrow> \<exists>fresh next. led \<sigma>' = absorb fresh next (led \<sigma>))"
  by (auto simp: refresh_records_def sbind_def split: prod.splits sum.splits dest!: on_world_frame) blast

text \<open>The loop either admits, on a snapshot that passed the check and was stored, or refuses, on a
  snapshot that failed it, or fails; in the last two cases nothing is held.\<close>

definition admitted :: "chrono \<Rightarrow> ('s, 'v, 'n) ports \<Rightarrow> int \<Rightarrow> u64 \<Rightarrow> u64 \<Rightarrow> PaymentLedger \<Rightarrow> 's sys \<Rightarrow> bool" where
  "admitted c P now amount i l \<sigma>' \<longleftrightarrow>
     (let key = hold_key (l_owner l) i;
          doc = AList.update key \<lparr>hold_amount = amount,
                  hold_expires_ms = i64_saturating_add (timestamp_millis c now) HOLD_TTL_MS\<rparr> (l_holds l) in
      check_budget_at c l now amount = Allowed \<and>
      led \<sigma>' = l\<lparr>l_holds := doc, l_reservations := AList.update i \<lparr>own_key = key, own_amount = amount\<rparr> (l_reservations l)\<rparr> \<and>
      (\<exists>version body w. holds_to_value P doc = Inr body \<and>
         doc_put_with P BUDGETS_COLLECTION HOLDS_ID body version w = (PortOk (), world \<sigma>')))"

lemma store_holds_True:
  "store_holds P version doc w = (Inr True, w') \<longleftrightarrow>
     (\<exists>body. holds_to_value P doc = Inr body \<and>
        doc_put_with P BUDGETS_COLLECTION HOLDS_ID body version w = (PortOk (), w'))"
  by (auto simp: store_holds_def split: sum.splits prod.splits port_result.splits error_kind.splits)

lemma take_snapshot_frame:
  assumes "take_snapshot c P fuel now \<sigma> = (r, \<sigma>')"
  shows "same_owner (led \<sigma>) (led \<sigma>') \<and> next_reservation \<sigma>' = next_reservation \<sigma>"
proof -
  obtain r1 s1 where e1: "on_world (load_holds P) \<sigma> = (r1, s1)" by fastforce
  note f1 = on_world_frame [OF e1]
  show ?thesis
  proof (cases r1)
    case (Inr vd)
    obtain r2 s2 where e2: "refresh_records c P fuel s1 = (r2, s2)" by fastforce
    from assms e1 e2 Inr f1 refresh_records_frame [OF e2] show ?thesis
      by (cases r2) (auto simp: take_snapshot_def case_prod_unfold same_owner_def absorb_def)
  qed (use assms e1 f1 in \<open>auto simp: take_snapshot_def\<close>)
qed

lemma confirm_refusal_frame:
  "confirm_refusal P version r \<sigma> = (a, \<sigma>') \<Longrightarrow>
     led \<sigma>' = led \<sigma> \<and> (case a of Inl _ \<Rightarrow> True | Inr x \<Rightarrow> x = Refused r \<or> x = Retry)"
  by (auto simp: confirm_refusal_def sbind_def split: prod.splits sum.splits if_splits dest!: on_world_frame)

lemma place_hold_outcome:
  assumes "place_hold c P now amount version \<sigma> = (a, \<sigma>')" and "check_budget_at c (led \<sigma>) now amount = Allowed"
  shows "case a of
      Inr (Held i) \<Rightarrow> admitted c P now amount i (led \<sigma>) \<sigma>' | Inr (Refused _) \<Rightarrow> False | _ \<Rightarrow> led \<sigma>' = led \<sigma>"
proof -
  let ?i = "next_reservation \<sigma>"
  let ?doc = "AList.update (hold_key (l_owner (led \<sigma>)) ?i) \<lparr>hold_amount = amount,
      hold_expires_ms = i64_saturating_add (timestamp_millis c now) HOLD_TTL_MS\<rparr> (l_holds (led \<sigma>))"
  obtain r s where e: "on_world (store_holds P version ?doc) (\<sigma>\<lparr>next_reservation := ?i + 1\<rparr>) = (r, s)" by fastforce
  note f = on_world_frame [OF e]
  show ?thesis
  proof (cases "r = Inr True")
    case True
    with f have "store_holds P version ?doc (world \<sigma>) = (Inr True, world s)" by simp
    with True assms e f show ?thesis
      by (auto simp: place_hold_def Let_def admitted_def store_holds_True) blast
  next
    case False
    with assms(1) e f show ?thesis
      by (cases r) (auto simp: place_hold_def Let_def split: if_splits)
  qed
qed

lemma reserve_attempt_outcome:
  assumes "reserve_attempt c P fuel now amount \<sigma> = (a, \<sigma>')"
  shows "case a of
      Inr (Held i) \<Rightarrow> \<exists>l. same_owner (led \<sigma>) l \<and> admitted c P now amount i l \<sigma>'
    | Inr (Refused r) \<Rightarrow> same_owner (led \<sigma>) (led \<sigma>') \<and> refusal (check_budget_at c (led \<sigma>') now amount) = Some r
    | _ \<Rightarrow> same_owner (led \<sigma>) (led \<sigma>')"
proof -
  obtain r1 s1 where e1: "take_snapshot c P fuel now \<sigma> = (r1, s1)" by fastforce
  note f1 = take_snapshot_frame [OF e1]
  show ?thesis
  proof (cases r1)
    case (Inr version)
    show ?thesis
    proof (cases "refusal (check_budget_at c (led s1) now amount)")
      case None
      with assms e1 Inr have "place_hold c P now amount version s1 = (a, \<sigma>')" by (simp add: reserve_attempt_def)
      from place_hold_outcome [OF this] None f1 show ?thesis
        by (auto simp: refusal_None_iff split: sum.splits attempt.splits)
    next
      case (Some ref)
      with assms e1 Inr have "confirm_refusal P version ref s1 = (a, \<sigma>')" by (simp add: reserve_attempt_def)
      from confirm_refusal_frame [OF this] Some f1 show ?thesis
        by (auto split: sum.splits)
    qed
  qed (use assms e1 f1 in \<open>auto simp: reserve_attempt_def\<close>)
qed

lemma reserve_loop_outcome:
  "reserve_loop c P fuel now amount n \<sigma> = (r, \<sigma>') \<Longrightarrow>
     (case r of
        Inl e \<Rightarrow> same_owner (led \<sigma>) (led \<sigma>')
      | Inr (Inl ref) \<Rightarrow> same_owner (led \<sigma>) (led \<sigma>') \<and> refusal (check_budget_at c (led \<sigma>') now amount) = Some ref
      | Inr (Inr i) \<Rightarrow> \<exists>l. same_owner (led \<sigma>) l \<and> admitted c P now amount i l \<sigma>')"
proof (induction n arbitrary: \<sigma>)
  case (Suc n)
  obtain a s1 where e1: "reserve_attempt c P fuel now amount \<sigma> = (a, s1)" by fastforce
  note f1 = reserve_attempt_outcome [OF e1]
  show ?case
  proof (cases "a = Inr Retry")
    case True
    with Suc.prems e1 have "reserve_loop c P fuel now amount n s1 = (r, \<sigma>')" by simp
    from Suc.IH [OF this] f1 True show ?thesis
      by (auto split: sum.splits intro: same_owner_trans)
  next
    case False
    with Suc.prems e1 f1 show ?thesis
      by (auto split: sum.splits attempt.splits)
  qed
qed auto

section \<open>Recording and releasing\<close>

lemma append_record_outcome:
  assumes "append_record c P fuel r k \<sigma> = (res, \<sigma>')"
  shows "case res of
      Inl _ \<Rightarrow> led \<sigma>' = led \<sigma>
    | Inr _ \<Rightarrow> same_owner (led \<sigma>) (led \<sigma>') \<and> l_holds (led \<sigma>') = l_holds (led \<sigma>) \<and>
        (\<forall>key. k = Some key \<longrightarrow> key \<in> l_committed_holds (led \<sigma>')) \<and>
        (\<exists>offset w. persist_append c P (at_millisecond_precision c r) k (world \<sigma>) = (Inr offset, w) \<and>
           (offset = l_next_offset (led \<sigma>) \<longrightarrow>
              l_records (led \<sigma>') = l_records (led \<sigma>) @ [at_millisecond_precision c r] \<and> world \<sigma>' = w))"
proof -
  let ?r = "at_millisecond_precision c r"
  obtain r1 s1 where e1: "on_world (persist_append c P ?r k) \<sigma> = (r1, s1)" by fastforce
  note f1 = on_world_frame [OF e1]
  show ?thesis
  proof (cases r1)
    case (Inr offset)
    let ?s = "case k of Some key \<Rightarrow> upd_led (\<lambda>l. l\<lparr>l_committed_holds := insert key (l_committed_holds l)\<rparr>) s1 | None \<Rightarrow> s1"
    have s: "same_owner (led \<sigma>) (led ?s)" "l_holds (led ?s) = l_holds (led \<sigma>)" "l_records (led ?s) = l_records (led \<sigma>)"
        "l_next_offset (led ?s) = l_next_offset (led \<sigma>)" "world ?s = world s1"
        "\<forall>key. k = Some key \<longrightarrow> key \<in> l_committed_holds (led ?s)"
      using f1 by (simp_all add: same_owner_def split: option.splits)
    obtain r2 s2 where e2: "refresh_records c P fuel ?s = (r2, s2)" by fastforce
    have f2: "same_owner (led ?s) (led s2) \<and> l_holds (led s2) = l_holds (led ?s) \<and>
        l_committed_holds (led ?s) \<subseteq> l_committed_holds (led s2)"
      using refresh_records_frame [OF e2] by (auto simp: absorb_def same_owner_def split: sum.splits)
    have res: "(res, \<sigma>') = (if offset = l_next_offset (led \<sigma>) then
        (Inr (), upd_led (\<lambda>l. l\<lparr>l_records := l_records l @ [?r], l_next_offset := saturating_add offset 1\<rparr>) ?s)
        else case r2 of Inl _ \<Rightarrow> (Inr (), upd_led (\<lambda>l. l\<lparr>l_records := l_records l @ [?r]\<rparr>) s2) | Inr _ \<Rightarrow> (Inr (), s2))"
    proof -
      have "append_record c P fuel r k \<sigma> = (if offset = l_next_offset (led ?s) then
          (Inr (), upd_led (\<lambda>l. l\<lparr>l_records := l_records l @ [?r], l_next_offset := saturating_add offset 1\<rparr>) ?s)
          else case refresh_records c P fuel ?s of
            (Inl _, \<sigma>) \<Rightarrow> (Inr (), upd_led (\<lambda>l. l\<lparr>l_records := l_records l @ [?r]\<rparr>) \<sigma>) | (Inr _, \<sigma>) \<Rightarrow> (Inr (), \<sigma>))"
        unfolding append_record_def Let_def e1 Inr sbind_simps by (rule refl)
      also note s(4)
      also note e2
      finally show ?thesis using assms by (cases r2) simp_all
    qed
    have pa: "persist_append c P ?r k (world \<sigma>) = (Inr offset, world s1)" using f1 Inr by simp
    show ?thesis
    proof (cases "offset = l_next_offset (led \<sigma>)")
      case True
      with res s pa show ?thesis by (auto simp: same_owner_def)
    next
      case False
      with res s f2 pa show ?thesis by (auto simp: same_owner_def split: sum.splits)
    qed
  qed (use assms e1 f1 in \<open>auto simp: append_record_def Let_def\<close>)
qed

lemma release_loop_frame: "led (release_loop P key n \<sigma>) = led \<sigma> \<and> next_reservation (release_loop P key n \<sigma>) = next_reservation \<sigma>"
proof (induction n arbitrary: \<sigma>)
  case (Suc n)
  obtain r1 s1 where e1: "on_world (load_holds P) \<sigma> = (r1, s1)" by fastforce
  note f1 = on_world_frame [OF e1]
  show ?case
  proof (cases r1)
    case (Inr vd)
    obtain version doc where vd: "vd = (version, doc)" by fastforce
    obtain r2 s2 where e2: "on_world (store_holds P version (AList.delete key doc)) s1 = (r2, s2)" by fastforce
    from f1 on_world_frame [OF e2] Suc.IH [of s2] e1 e2 Inr vd show ?thesis
      by (auto split: sum.splits bool.splits)
  qed (use e1 f1 in simp)
qed simp

lemma release_led:
  "led (release P i \<sigma>) =
     (case map_of (l_reservations (led \<sigma>)) i of
        None \<Rightarrow> led \<sigma>
      | Some own \<Rightarrow> (led \<sigma>)\<lparr>l_reservations := AList.delete i (l_reservations (led \<sigma>)),
                           l_holds := AList.delete (own_key own) (l_holds (led \<sigma>))\<rparr>)"
  by (simp add: release_def release_loop_frame split: option.splits)

lemma latest_map_snoc: "latest_map (rs @ [r]) = (latest_map rs)(pr_id r \<mapsto> r)"
  by (simp add: latest_map_def)

lemma latest_records_fresh:
  assumes "pr_id r \<notin> set (map pr_id rs)"
  shows "latest_records (rs @ [r]) = latest_records rs @ [r]"
proof -
  have "remdups (map pr_id rs @ [pr_id r]) = remdups (map pr_id rs) @ [pr_id r]"
    using assms by (induction rs) auto
  moreover have "map (\<lambda>i. the (latest_map (rs @ [r]) i)) (remdups (map pr_id rs)) = latest_records rs"
    unfolding latest_records_def latest_map_snoc using assms by (intro map_cong refl) (metis fun_upd_other set_remdups)
  ultimately show ?thesis by (simp add: latest_records_def latest_map_snoc)
qed

lemma held_total_delete:
  assumes "distinct (map fst hs)" and "map_of hs k = Some h"
  shows "held_total (AList.delete k hs) + unat (hold_amount h) = held_total hs"
  using assms
proof (induction hs)
  case (Cons x hs)
  show ?case
  proof (cases "fst x = k")
    case True
    then have "AList.delete k (x # hs) = hs"
      using Cons.prems(1) by (cases x) (auto simp: AList.delete_eq filter_id_conv rev_image_eqI)
    with True Cons.prems(2) show ?thesis by (cases x) (simp add: held_total_def)
  next
    case False
    with Cons show ?thesis by (cases x) (auto simp: held_total_def AList.delete_eq)
  qed
qed simp

end
