(* ===== verification/TW_Ledger_Props.thy ===== *)
theory TW_Ledger_Props
  imports TW_Ledger
begin

text \<open>
  What the spending ledger promises: the budget check is exact, a granted reservation stays within
  every cap and was stored, a refused one holds nothing, a commit neither loses nor doubles an
  amount, and a ledger that opens has seen the whole history. The witnesses run the model on a
  small in-memory storage, \<open>mem_ports\<close>, and a calendar of 30-day months, \<open>sample_chrono\<close>.
\<close>

section \<open>A concrete storage and calendar\<close>

datatype mem_value = JPayment StoredPayment | JHolds holds_doc | JReady StorageMigrationReady

record mem =
  mem_stream :: "string \<Rightarrow> mem_value list"
  mem_docs :: "string \<Rightarrow> string \<Rightarrow> (nat \<times> mem_value) option"

definition mem_entries :: "mem \<Rightarrow> string \<Rightarrow> (u64 \<times> mem_value) list" where
  "mem_entries w s = zip (map of_nat [0..<length (mem_stream w s)]) (mem_stream w s)"

definition mem_ports :: "(mem, mem_value, nat) ports" where
  "mem_ports =
     \<lparr>stream_len = (\<lambda>s w. (PortOk (length (mem_stream w s)), w)),
      read_window = (\<lambda>s from n w. (PortOk (take n (filter (\<lambda>x. from \<le> fst x) (mem_entries w s))), w)),
      stream_append = (\<lambda>s v w. (PortOk (of_nat (length (mem_stream w s))),
         w\<lparr>mem_stream := (mem_stream w)(s := mem_stream w s @ [v])\<rparr>)),
      doc_get = (\<lambda>coll i w. (PortOk (mem_docs w coll i), w)),
      doc_put_with = (\<lambda>coll i v expected w.
         if expected = map_option fst (mem_docs w coll i) then
           (PortOk (), w\<lparr>mem_docs := (mem_docs w)(coll := (mem_docs w coll)(i \<mapsto>
              (case expected of None \<Rightarrow> 1 | Some n \<Rightarrow> n + 1, v)))\<rparr>)
         else (PortErr Conflict ''conflict'', w)),
      payment_to_value = (\<lambda>p. Inr (JPayment p)),
      payment_from_value = (\<lambda>v. case v of JPayment p \<Rightarrow> Inr p | _ \<Rightarrow> Inl ''not a payment''),
      holds_to_value = (\<lambda>h. Inr (JHolds h)),
      holds_from_value = (\<lambda>v. case v of JHolds h \<Rightarrow> Inr h | _ \<Rightarrow> Inl ''not holds''),
      ready_from_value = (\<lambda>v. case v of JReady r \<Rightarrow> Inr r | _ \<Rightarrow> Inl ''not readiness'')\<rparr>"

abbreviation day_ms :: int where
  "day_ms \<equiv> 86400000"

definition sample_chrono :: chrono where
  "sample_chrono =
     \<lparr>timestamp_millis = (\<lambda>t. t), from_timestamp_millis = Some,
      date_naive = (\<lambda>t. t div day_ms), year_month = (\<lambda>t. (t div day_ms div 30, 1)),
      midnight = (\<lambda>d. d * day_ms), with_day_1 = (\<lambda>d. Some (d div 30 * 30)),
      checked_add_day = (\<lambda>t. Some (t + day_ms)), checked_add_month = (\<lambda>t. Some (t + 30 * day_ms)),
      max_utc = 2 ^ 62\<rparr>"

definition mem_empty :: mem where
  "mem_empty = \<lparr>mem_stream = (\<lambda>_. []), mem_docs = (\<lambda>_ _. None)\<rparr>"

definition sample_record :: PaymentRecord where
  "sample_record =
     \<lparr>pr_id = ''p1'', pr_url = ''u'', pr_asset = ''a'', pr_amount_atomic = 700, pr_amount_display = ''d'',
      pr_recipient = ''r'', pr_network = ''n'', pr_tx_signature = None, pr_status = Pending,
      pr_timestamp = 1000, pr_authorization_valid_until = Some 2000, pr_solana_last_valid_block_height = None,
      pr_authorization_expired_at = None, pr_authorization_expiry_observed_height = None,
      pr_session_id = ''s'', pr_thread_id = None\<rparr>"

definition sample_ledger :: PaymentLedger where
  "sample_ledger =
     \<lparr>l_generation = 1, l_records = [], l_committed_holds = {}, l_next_offset = 0,
      l_budget = \<lparr>per_request_max_atomic = 800, daily_max_atomic = 1000, monthly_max_atomic = 5000\<rparr>,
      l_session_id = ''s'', l_owner = ''o'', l_reservations = [], l_holds = []\<rparr>"

definition sample_sys :: "mem sys" where
  "sample_sys = \<lparr>led = sample_ledger, world = mem_empty, next_reservation = 1\<rparr>"

lemmas sample_defs = sample_sys_def sample_ledger_def sample_record_def mem_empty_def sample_chrono_def mem_ports_def

lemma sample_chrono_millis [simp]: "chrono_millis_law sample_chrono"
  by (simp add: chrono_millis_law_def sample_chrono_def)

section \<open>The budget check\<close>

text \<open>C13: For every ledger whose daily and monthly caps are below the largest \<open>u64\<close>, every instant
  and every amount, \<open>check_budget_at\<close> decides by the exact sums: it refuses an amount above the
  per-request cap; else refuses as daily exactly when the amount together with everything held and
  everything counted today exceeds the daily cap; else as monthly in the same way; and allows it
  otherwise. Saturation in the running sums never lets an amount through.\<close>

theorem check_budget_exact:
  assumes "unat (daily_max_atomic (l_budget l)) < 2 ^ 64 - 1" and "unat (monthly_max_atomic (l_budget l)) < 2 ^ 64 - 1"
  shows "check_budget_at c l now amount =
    (if unat (per_request_max_atomic (l_budget l)) < unat amount then
       ExceedsPerRequest amount (per_request_max_atomic (l_budget l))
     else if unat (daily_max_atomic (l_budget l)) < day_total c now l + unat amount then
       ExceedsDailyBudget (of_nat (min (day_total c now l) (2 ^ 64 - 1))) (daily_max_atomic (l_budget l))
     else if unat (monthly_max_atomic (l_budget l)) < month_total c now l + unat amount then
       ExceedsMonthlyBudget (of_nat (min (month_total c now l) (2 ^ 64 - 1))) (monthly_max_atomic (l_budget l))
     else Allowed)"
  using assms by (rule check_budget_at_eq)

lemma latest_records_single [simp]: "latest_records [] = []" "latest_records [r] = [r]"
  by (simp_all add: latest_records_def latest_map_def)

theorem check_budget_exact_witness:
  "check_budget_at sample_chrono (sample_ledger\<lparr>l_records := [sample_record]\<rparr>) 5000 400 = ExceedsDailyBudget 700 1000 \<and>
   check_budget_at sample_chrono (sample_ledger\<lparr>l_records := [sample_record]\<rparr>) 5000 300 = Allowed"
proof -
  let ?l = "sample_ledger\<lparr>l_records := [sample_record]\<rparr>"
  have d: "day_total sample_chrono 5000 ?l = 700" "month_total sample_chrono 5000 ?l = 700"
    by (simp_all add: day_total_def month_total_def held_total_def counted_total_def sample_defs counts_daily_def
        counts_monthly_def day_window_def month_window_def is_unresolved_def overlaps_authorization_window_def
        authorization_window_end_def Let_def)
  show ?thesis
    using check_budget_exact [of ?l sample_chrono 5000 400] check_budget_exact [of ?l sample_chrono 5000 300]
    unfolding d by (simp add: sample_ledger_def)
qed

section \<open>Reserving\<close>

lemma admitted_within_caps:
  assumes "admitted c P now amount i l \<sigma>'"
    and "unat (daily_max_atomic (l_budget l)) < 2 ^ 64 - 1" and "unat (monthly_max_atomic (l_budget l)) < 2 ^ 64 - 1"
  shows "unat amount \<le> unat (per_request_max_atomic (l_budget l)) \<and>
    day_total c now (led \<sigma>') \<le> unat (daily_max_atomic (l_budget l)) \<and>
    month_total c now (led \<sigma>') \<le> unat (monthly_max_atomic (l_budget l))"
proof -
  let ?h = "\<lparr>hold_amount = amount, hold_expires_ms = i64_saturating_add (timestamp_millis c now) HOLD_TTL_MS\<rparr>"
  have "check_budget_at c l now amount = Allowed" using assms(1) by (simp add: admitted_def Let_def)
  then have "unat amount \<le> unat (per_request_max_atomic (l_budget l))"
      "day_total c now l + unat amount \<le> unat (daily_max_atomic (l_budget l))"
      "month_total c now l + unat amount \<le> unat (monthly_max_atomic (l_budget l))"
    unfolding check_budget_at_eq [OF assms(2,3)] by (simp_all split: if_splits)
  moreover have "held_total (l_holds (led \<sigma>')) \<le> held_total (l_holds l) + unat amount" "l_records (led \<sigma>') = l_records l"
    using assms(1) held_total_update [of _ ?h "l_holds l"] by (simp_all add: admitted_def Let_def)
  ultimately show ?thesis by (simp add: day_total_def month_total_def)
qed

lemma reserve_at_granted:
  assumes "reserve_at c P fuel now amount \<sigma> = (Inr (Inr i), \<sigma>')"
  shows "\<exists>l. same_owner (led \<sigma>) l \<and> admitted c P now amount i l \<sigma>'"
proof -
  have "reserve_loop c P fuel now amount HOLD_CAS_ATTEMPTS \<sigma> = (Inr (Inr i), \<sigma>')"
    using assms by (simp add: reserve_at_def split: if_splits)
  from reserve_loop_outcome [OF this] show ?thesis by auto
qed

text \<open>C11: Whenever \<open>reserve_at\<close> grants a reservation, on any storage and whatever other writers
  did meanwhile: the amount is within the per-request cap; the resulting ledger, the new hold
  included, is within the daily and the monthly cap; the ledger owns the reservation under the key
  built from its owner and the id, with the amount and the fifteen-minute lease; and exactly this
  hold document was accepted by a conditional write of the storage, the last thing to happen.\<close>

theorem reserve_within_caps:
  assumes "reserve_at c P fuel now amount \<sigma> = (Inr (Inr i), \<sigma>')"
    and "unat (daily_max_atomic (l_budget (led \<sigma>))) < 2 ^ 64 - 1"
    and "unat (monthly_max_atomic (l_budget (led \<sigma>))) < 2 ^ 64 - 1"
  shows "unat amount \<le> unat (per_request_max_atomic (l_budget (led \<sigma>))) \<and>
    day_total c now (led \<sigma>') \<le> unat (daily_max_atomic (l_budget (led \<sigma>))) \<and>
    month_total c now (led \<sigma>') \<le> unat (monthly_max_atomic (l_budget (led \<sigma>))) \<and>
    l_reservations (led \<sigma>') = AList.update i
      \<lparr>own_key = hold_key (l_owner (led \<sigma>)) i, own_amount = amount\<rparr> (l_reservations (led \<sigma>)) \<and>
    map_of (l_holds (led \<sigma>')) (hold_key (l_owner (led \<sigma>)) i) = Some
      \<lparr>hold_amount = amount, hold_expires_ms = i64_saturating_add (timestamp_millis c now) (15 * 60 * 1000)\<rparr> \<and>
    (\<exists>version body w. holds_to_value P (l_holds (led \<sigma>')) = Inr body \<and>
       doc_put_with P ''wallet.budgets'' ''holds'' body version w = (PortOk (), world \<sigma>'))"
proof -
  from reserve_at_granted [OF assms(1)] obtain l where l: "same_owner (led \<sigma>) l" "admitted c P now amount i l \<sigma>'" by auto
  have b: "l_budget l = l_budget (led \<sigma>)" "l_owner l = l_owner (led \<sigma>)" "l_reservations l = l_reservations (led \<sigma>)"
    using l(1) by (simp_all add: same_owner_def)
  from admitted_within_caps [OF l(2)] assms(2,3) l(2) show ?thesis
    by (simp add: b admitted_def Let_def update_conv' HOLD_TTL_MS_def BUDGETS_COLLECTION_def HOLDS_ID_def)
qed

lemma HOLD_CAS_ATTEMPTS_Suc: "HOLD_CAS_ATTEMPTS = Suc 15"
  by (simp add: HOLD_CAS_ATTEMPTS_def)

lemma mem_read_from_empty:
  "mem_stream w PAYMENTS_STREAM = [] \<Longrightarrow> read_from c mem_ports (Suc n) from w = (Inr ([], from), w)"
  by (simp add: read_from_def mem_ports_def mem_entries_def)

lemma sample_snapshot: "take_snapshot sample_chrono mem_ports (Suc n) now sample_sys = (Inr None, sample_sys)"
proof -
  have h: "on_world (load_holds mem_ports) sample_sys = (Inr (None, []), sample_sys)"
    by (simp add: on_world_def load_holds_def mem_ports_def sample_sys_def mem_empty_def)
  have "read_from sample_chrono mem_ports (Suc n) 0 mem_empty = (Inr ([], 0), mem_empty)"
    by (rule mem_read_from_empty) (simp add: mem_empty_def)
  then have "refresh_records sample_chrono mem_ports (Suc n) sample_sys = (Inr (), sample_sys)"
    by (simp add: refresh_records_def on_world_def absorb_def map_filter_simps sample_sys_def sample_ledger_def)
  with h show ?thesis by (simp add: take_snapshot_def live_holds_def sample_sys_def sample_ledger_def)
qed

lemma sample_check: "unat n \<le> 800 \<Longrightarrow> check_budget_at sample_chrono sample_ledger now n = Allowed"
proof -
  assume n: "unat n \<le> 800"
  have "day_total sample_chrono now sample_ledger = 0" "month_total sample_chrono now sample_ledger = 0"
    by (simp_all add: day_total_def month_total_def held_total_def counted_total_def sample_ledger_def)
  with n show ?thesis by (subst check_budget_at_eq) (simp_all add: sample_ledger_def)
qed

lemma sample_place_hold: "fst (place_hold sample_chrono mem_ports 5000 n None sample_sys) = Inr (Held 1)"
  by (simp add: place_hold_def Let_def on_world_def store_holds_def mem_ports_def sample_sys_def mem_empty_def)

lemma sample_reserve:
  assumes "unat n \<le> 800"
  shows "fst (reserve_at sample_chrono mem_ports 3 5000 n sample_sys) = Inr (Inr 1)"
proof -
  obtain \<sigma>' where e: "place_hold sample_chrono mem_ports 5000 n None sample_sys = (Inr (Held 1), \<sigma>')"
    using sample_place_hold by (metis prod.collapse)
  have l: "led sample_sys = sample_ledger" "\<not> per_request_max_atomic (l_budget sample_ledger) < n"
    using assms by (simp_all add: sample_sys_def sample_ledger_def word_less_nat_alt)
  have "reserve_attempt sample_chrono mem_ports (Suc 2) 5000 n sample_sys = (Inr (Held 1), \<sigma>')"
    unfolding reserve_attempt_def sample_snapshot by (simp add: l sample_check assms e)
  then show ?thesis unfolding reserve_at_def HOLD_CAS_ATTEMPTS_Suc reserve_loop.simps by (simp add: l)
qed

theorem reserve_within_caps_witness:
  "case reserve_at sample_chrono mem_ports 3 5000 400 sample_sys of
     (r, \<sigma>') \<Rightarrow> r = Inr (Inr 1) \<and> day_total sample_chrono 5000 (led \<sigma>') \<le> 1000"
proof -
  obtain \<sigma>' where e: "reserve_at sample_chrono mem_ports 3 5000 400 sample_sys = (Inr (Inr 1), \<sigma>')"
    using sample_reserve [of 400] by (simp add: prod_eq_iff)
  from reserve_within_caps [OF this] show ?thesis unfolding e by (simp add: sample_sys_def sample_ledger_def)
qed

text \<open>\<open>reserve_at\<close> that does not grant holds nothing: after a storage failure and after a
  refusal alike the ledger owns exactly the reservations it owned before and its limits are
  unchanged; and a refusal it returns is the one the budget check gives on the ledger it leaves,
  the snapshot the refusal was confirmed on. An amount above the per-request cap is refused without
  touching anything, the storage included.\<close>

theorem reserve_refusal_holds_nothing:
  "(case reserve_at c P fuel now amount \<sigma> of
      (Inl e, \<sigma>') \<Rightarrow> same_owner (led \<sigma>) (led \<sigma>')
    | (Inr (Inl r), \<sigma>') \<Rightarrow> same_owner (led \<sigma>) (led \<sigma>') \<and> refusal (check_budget_at c (led \<sigma>') now amount) = Some r
    | (Inr (Inr i), \<sigma>') \<Rightarrow> amount \<le> per_request_max_atomic (l_budget (led \<sigma>))) \<and>
   (if per_request_max_atomic (l_budget (led \<sigma>)) < amount then
      reserve_at c P fuel now amount \<sigma> = (Inr (Inl (PerRequest amount (per_request_max_atomic (l_budget (led \<sigma>))))), \<sigma>)
    else True)"
proof (cases "per_request_max_atomic (l_budget (led \<sigma>)) < amount")
  case True
  then show ?thesis by (simp add: reserve_at_def check_budget_at_def)
next
  case False
  obtain r \<sigma>' where "reserve_loop c P fuel now amount HOLD_CAS_ATTEMPTS \<sigma> = (r, \<sigma>')" by fastforce
  with False reserve_loop_outcome [OF this] show ?thesis
    by (auto simp: reserve_at_def split: sum.splits)
qed

section \<open>Committing\<close>

text \<open>C33: \<open>try_commit_reservation\<close> is all or nothing. If it fails, the ledger is exactly as it
  was: the record is not in memory and the reservation is still held. If it succeeds, the payment
  record, cut to milliseconds and carrying the reservation's hold key, was durably appended to the
  stream; the reservation is gone, and so is its hold from the ledger's snapshot; and its key is
  among the committed ones, so a stored hold that outlives it is not counted again.\<close>

theorem try_commit_all_or_nothing:
  "case try_commit_reservation c P fuel i r \<sigma> of
     (Inl e, \<sigma>') \<Rightarrow> led \<sigma>' = led \<sigma>
   | (Inr _, \<sigma>') \<Rightarrow>
       (\<exists>offset w. persist_append c P (at_millisecond_precision c r)
          (map_option own_key (map_of (l_reservations (led \<sigma>)) i)) (world \<sigma>) = (Inr offset, w)) \<and>
       map_of (l_reservations (led \<sigma>')) i = None \<and>
       (case map_of (l_reservations (led \<sigma>)) i of
          None \<Rightarrow> l_reservations (led \<sigma>') = l_reservations (led \<sigma>)
        | Some own \<Rightarrow> l_reservations (led \<sigma>') = AList.delete i (l_reservations (led \<sigma>)) \<and>
            own_key own \<in> l_committed_holds (led \<sigma>') \<and> map_of (l_holds (led \<sigma>')) (own_key own) = None)"
proof -
  let ?k = "map_option own_key (map_of (l_reservations (led \<sigma>)) i)"
  obtain res s1 where e: "append_record c P fuel r ?k \<sigma> = (res, s1)" by fastforce
  note a = append_record_outcome [OF e]
  show ?thesis
  proof (cases res)
    case (Inr u)
    then have keep: "l_reservations (led s1) = l_reservations (led \<sigma>)" using a by (simp add: same_owner_def)
    from a Inr e show ?thesis
      by (cases "map_of (l_reservations (led \<sigma>)) i")
        (auto simp: try_commit_reservation_def Let_def release_led keep delete_conv' split: option.splits)
  qed (use a e in \<open>simp add: try_commit_reservation_def Let_def\<close>)
qed

lemma counted_total_snoc:
  assumes "pr_id r \<notin> set (map pr_id rs)"
  shows "counted_total counts (rs @ [r]) = counted_total counts rs + (if counts r then unat (pr_amount_atomic r) else 0)"
  by (simp add: counted_total_def latest_records_fresh [OF assms])

text \<open>Committing a reservation swaps the hold for the record: if the append lands at the
  ledger's own stream position, under a payment id not seen before, for the held amount, then
  the daily total is the same before and after whenever the record counts today, and the monthly
  total whenever it counts this month. The amount is neither missing nor counted twice.\<close>

theorem commit_keeps_totals:
  assumes "map_of (l_reservations (led \<sigma>)) i = Some own"
    and "map_of (l_holds (led \<sigma>)) (own_key own) = Some h" and "distinct (map fst (l_holds (led \<sigma>)))"
    and "hold_amount h = pr_amount_atomic r"
    and "pr_id r \<notin> set (map pr_id (l_records (led \<sigma>)))"
    and "persist_append c P (at_millisecond_precision c r) (Some (own_key own)) (world \<sigma>) = (Inr (l_next_offset (led \<sigma>)), w)"
    and "counts_daily c now (at_millisecond_precision c r)" and "counts_monthly c now (at_millisecond_precision c r)"
  shows "case try_commit_reservation c P fuel i r \<sigma> of
     (res, \<sigma>') \<Rightarrow> res = Inr () \<and> day_total c now (led \<sigma>') = day_total c now (led \<sigma>) \<and>
       month_total c now (led \<sigma>') = month_total c now (led \<sigma>) \<and>
       l_records (led \<sigma>') = l_records (led \<sigma>) @ [at_millisecond_precision c r]"
proof -
  let ?r = "at_millisecond_precision c r"
  obtain res s1 where e: "append_record c P fuel r (Some (own_key own)) \<sigma> = (res, s1)" by fastforce
  have res: "res = Inr ()" using e assms(6)
    by (auto simp: append_record_def Let_def on_world_def)
  note a = append_record_outcome [OF e, unfolded res, simplified]
  have l: "l_records (led s1) = l_records (led \<sigma>) @ [?r]" "l_holds (led s1) = l_holds (led \<sigma>)"
      "l_reservations (led s1) = l_reservations (led \<sigma>)"
    using a assms(6) by (auto simp: same_owner_def)
  have fresh: "pr_id ?r \<notin> set (map pr_id (l_records (led \<sigma>)))" "pr_amount_atomic ?r = pr_amount_atomic r"
    using assms(5) by (simp_all add: at_millisecond_precision_def)
  have "held_total (AList.delete (own_key own) (l_holds (led \<sigma>))) + unat (pr_amount_atomic r) = held_total (l_holds (led \<sigma>))"
    using held_total_delete [OF assms(3,2)] by (simp add: assms(4))
  then show ?thesis
    using assms(1,7,8) e res
    by (simp add: try_commit_reservation_def Let_def release_led l day_total_def month_total_def
        counted_total_snoc [OF fresh(1)] fresh(2))
qed

definition sample_held :: "mem sys" where
  "sample_held = sample_sys\<lparr>led := sample_ledger\<lparr>
     l_reservations := [(1, \<lparr>own_key = ''o:1'', own_amount = 700\<rparr>)],
     l_holds := [(''o:1'', \<lparr>hold_amount = 700, hold_expires_ms = 900000\<rparr>)]\<rparr>\<rparr>"

theorem commit_keeps_totals_witness:
  "case try_commit_reservation sample_chrono mem_ports 3 1 sample_record sample_held of
     (res, \<sigma>') \<Rightarrow> res = Inr () \<and> day_total sample_chrono 5000 (led \<sigma>') = 700"
proof -
  let ?own = "\<lparr>own_key = ''o:1'', own_amount = 700\<rparr>"
  let ?h = "\<lparr>hold_amount = 700 :: u64, hold_expires_ms = 900000\<rparr>"
  have l: "l_reservations (led sample_held) = [(1, ?own)]" "l_holds (led sample_held) = [(''o:1'', ?h)]"
      "l_records (led sample_held) = []" "l_next_offset (led sample_held) = 0" "world sample_held = mem_empty"
    by (simp_all add: sample_held_def sample_sys_def sample_ledger_def)
  have r: "at_millisecond_precision sample_chrono sample_record = sample_record"
    by (simp add: at_millisecond_precision_def sample_record_def cut_def sample_chrono_def)
  obtain w where p: "persist_append sample_chrono mem_ports sample_record (Some ''o:1'') mem_empty = (Inr 0, w)"
    by (simp add: persist_append_def mem_ports_def mem_empty_def)
  have a: "pr_amount_atomic sample_record = 700" by (simp add: sample_record_def)
  have c: "counts_daily sample_chrono 5000 sample_record" "counts_monthly sample_chrono 5000 sample_record"
    by (simp_all add: counts_daily_def counts_monthly_def day_window_def month_window_def is_unresolved_def
        overlaps_authorization_window_def authorization_window_end_def Let_def sample_record_def sample_chrono_def)
  have t: "day_total sample_chrono 5000 (led sample_held) = 700"
    by (simp add: day_total_def l held_total_def counted_total_def)
  show ?thesis
    using commit_keeps_totals [of sample_held 1 ?own ?h sample_record sample_chrono mem_ports w 5000 3] p c
    by (simp add: l r t a split: prod.splits)
qed

section \<open>Opening\<close>

lemma from_persist_complete:
  assumes "window_law P w entries" and "length entries < fuel"
  shows "\<exists>l. from_persist c P fuel pid started gen session_id b w = (Inr l, w) \<and>
    l_records l = map lp_record (parse_entries c P entries) \<and>
    l_committed_holds l = set (List.map_filter lp_committed_hold (parse_entries c P entries)) \<and>
    l_reservations l = [] \<and> l_holds l = [] \<and> l_budget l = b \<and> (\<forall>x \<in> set entries. fst x < l_next_offset l)"
proof -
  have "length (filter (\<lambda>x. 0 \<le> fst x) entries) < fuel" using assms(2) by simp
  from read_loop_complete [OF assms(1) this, of c "[]"] show ?thesis
    by (auto simp: from_persist_def read_from_def)
qed

text \<open>C34: A ledger opened through a module grant has seen everything. If the host's readiness
  record is in order and the stream port serves windows as documented, then \<open>open_current\<close>
  succeeds with any fuel above the number of stored entries: it holds the record of every readable
  entry, in order, knows every committed hold key among them, stands past the last entry, and owns
  nothing yet. If the readiness record is missing, malformed, of another schema version or of
  another import epoch, it fails before reading any payment.\<close>

theorem open_current_complete:
  assumes "window_law P w entries" and "length entries < fuel"
    and "doc_get P ''wallet.budgets'' ''migration_ready'' w = (PortOk found, w)"
  shows "(case found of
      None \<Rightarrow> False
    | Some (_, body) \<Rightarrow> ready_from_value P body = Inr \<lparr>schema_version = 2, import_epoch = ''x402-payments-jsonl-v1''\<rparr>) =
    (\<exists>l. open_current c P fuel pid started gen session_id b w = (Inr l, w) \<and>
      l_records l = map lp_record (parse_entries c P entries) \<and>
      l_committed_holds l = set (List.map_filter lp_committed_hold (parse_entries c P entries)) \<and>
      l_reservations l = [] \<and> l_holds l = [] \<and> l_budget l = b \<and> (\<forall>x \<in> set entries. fst x < l_next_offset l))"
    (is "?ready = (\<exists>l. ?opened l)")
proof -
  note names = BUDGETS_COLLECTION_def MIGRATION_READY_ID_def STORAGE_SCHEMA_VERSION_def PAYMENTS_IMPORT_EPOCH_def
  have "require_migration_ready P w = (Inr (), w) \<longleftrightarrow> ?ready"
    using assms(3)
    by (auto simp: require_migration_ready_def names split: option.splits sum.splits prod.splits)
  moreover have "\<exists>e. require_migration_ready P w = (Inl e, w)" if "\<not> require_migration_ready P w = (Inr (), w)"
    using that assms(3)
    by (auto simp: require_migration_ready_def names split: option.splits sum.splits prod.splits if_splits)
  ultimately consider "?ready" "require_migration_ready P w = (Inr (), w)"
    | e where "\<not> ?ready" "require_migration_ready P w = (Inl e, w)" by blast
  then show ?thesis
  proof cases
    case 1
    then have "open_current c P fuel pid started gen session_id b w = from_persist c P fuel pid started gen session_id b w"
      by (simp add: open_current_def)
    with 1 from_persist_complete [OF assms(1,2)] show ?thesis by simp
  next
    case 2
    then have "open_current c P fuel pid started gen session_id b w = (Inl e, w)" by (simp add: open_current_def)
    with 2 show ?thesis by simp
  qed
qed

definition sample_ready :: mem where
  "sample_ready = \<lparr>mem_stream = (\<lambda>_. [JPayment (stored_payment sample_chrono sample_record (Some ''k''))]),
     mem_docs = (\<lambda>_ _. Some (1, JReady \<lparr>schema_version = 2, import_epoch = ''x402-payments-jsonl-v1''\<rparr>))\<rparr>"

lemma sample_window_law: "window_law mem_ports sample_ready (mem_entries sample_ready PAYMENTS_STREAM)"
proof -
  have "(0 :: u64) < - 1" by (simp add: word_less_nat_alt unsigned_minus_1_eq_mask mask_eq_exp_minus_1)
  then show ?thesis by (simp add: window_law_def mem_ports_def sample_ready_def mem_entries_def)
qed

theorem open_current_complete_witness:
  "\<exists>l. open_current sample_chrono mem_ports 2 7 8 9 ''s'' SpendingBudget_default sample_ready = (Inr l, sample_ready) \<and>
     l_records l = [sample_record] \<and> l_committed_holds l = {''k''}"
proof -
  let ?e = "mem_entries sample_ready PAYMENTS_STREAM"
  have "into_record sample_chrono (stored_payment sample_chrono sample_record (Some ''k'')) = Inr (sample_record, Some ''k'')"
    unfolding into_record_stored [OF sample_chrono_millis]
    by (simp add: at_millisecond_precision_def sample_record_def cut_def sample_chrono_def)
  then have p: "parse_entries sample_chrono mem_ports ?e = [\<lparr>lp_record = sample_record, lp_committed_hold = Some ''k''\<rparr>]"
    by (simp add: parse_entries_def parse_entry_def mem_ports_def sample_ready_def mem_entries_def map_filter_simps)
  have n: "length ?e < 2" by (simp add: mem_entries_def sample_ready_def)
  have g: "doc_get mem_ports ''wallet.budgets'' ''migration_ready'' sample_ready =
      (PortOk (Some (1, JReady \<lparr>schema_version = 2, import_epoch = ''x402-payments-jsonl-v1''\<rparr>)), sample_ready)"
    by (simp add: mem_ports_def sample_ready_def)
  have "ready_from_value mem_ports (JReady x) = Inr x" for x by (simp add: mem_ports_def)
  with open_current_complete [OF sample_window_law n g, of sample_chrono 7 8 9 "''s''" SpendingBudget_default] p
  show ?thesis by (auto simp: map_filter_simps)
qed

section \<open>What is stored comes back\<close>

text \<open>A recorded payment survives a restart. The entry written for a record, read back and
  parsed, is the record cut to whole milliseconds, with every other field and the committed hold
  key unchanged; and since the ledger mirrors exactly the cut record into memory, and cutting again
  changes nothing, the process that wrote it and the process that loads it count the same payment.\<close>

theorem payment_roundtrip:
  assumes "chrono_millis_law c" and "payment_to_value P (stored_payment c (at_millisecond_precision c r) k) = Inr body"
    and "payment_from_value P body = Inr (stored_payment c (at_millisecond_precision c r) k)"
  shows "parse_entry c P body = Some \<lparr>lp_record = at_millisecond_precision c r, lp_committed_hold = k\<rparr>"
  using assms(3) by (simp add: parse_entry_def into_record_stored [OF assms(1)] at_millisecond_precision_idem [OF assms(1)])

theorem payment_roundtrip_witness:
  "\<exists>body. payment_to_value mem_ports (stored_payment sample_chrono (at_millisecond_precision sample_chrono sample_record) None) = Inr body \<and>
     parse_entry sample_chrono mem_ports body =
       Some \<lparr>lp_record = at_millisecond_precision sample_chrono sample_record, lp_committed_hold = None\<rparr>"
proof -
  let ?s = "stored_payment sample_chrono (at_millisecond_precision sample_chrono sample_record) None"
  have "payment_to_value mem_ports ?s = Inr (JPayment ?s)" "payment_from_value mem_ports (JPayment ?s) = Inr ?s"
    by (simp_all add: mem_ports_def)
  with payment_roundtrip [OF sample_chrono_millis this] show ?thesis by blast
qed

end
