(* ===== verification/TW_Ledger_Concurrent.thy ===== *)
theory TW_Ledger_Concurrent
  imports TW_Ledger_Props
begin

text \<open>
  Several processes on one storage, as \<open>tinywallet-x402/src/ledger/store.rs\<close> lets them run: the
  hold document is written by compare-and-swap, the payments stream only grows, and between any
  two storage calls of one process every other process may take steps. A step of \<open>net_step\<close> is the
  part of an operation between two storage calls: \<open>reserve_at\<close> loads the hold document, then reads
  the stream and checks the budget, then swaps; \<open>try_commit_reservation\<close> appends the record, then
  deletes the hold; \<open>release\<close> deletes it; \<open>renew_holds_at\<close> re-places it. The check is the one of
  the sequential model, on the ledger a snapshot gives. The clock may advance as long as the day
  and the month stay the same and no process lets its lease lapse.
\<close>

section \<open>What is spent\<close>

definition spent :: "(PaymentRecord \<Rightarrow> bool) \<Rightarrow> int \<Rightarrow> string set \<Rightarrow> holds_doc \<Rightarrow> PaymentRecord list \<Rightarrow> nat" where
  "spent counts t K D rs = held_total (live_holds t K D) + counted_total counts rs"

lemma held_total_simps [simp]:
  "held_total [] = 0" "held_total (kh # hs) = unat (hold_amount (snd kh)) + held_total hs"
  "held_total (xs @ ys) = held_total xs + held_total ys"
  by (simp_all add: held_total_def case_prod_unfold)

lemma held_total_filter: "held_total (filter P hs) \<le> held_total hs"
  by (induction hs) auto

lemma live_holds_mono:
  "t \<le> t' \<Longrightarrow> K \<subseteq> K' \<Longrightarrow> held_total (live_holds t' K' D) \<le> held_total (live_holds t K D)"
  by (induction D) (auto simp: live_holds_def)

lemma live_holds_live:
  "t0 \<le> t \<Longrightarrow> K0 \<subseteq> K \<Longrightarrow> live_holds t K (live_holds t0 K0 D) = live_holds t K D"
  by (induction D) (auto simp: live_holds_def)

lemma live_holds_append: "live_holds t K (xs @ ys) = live_holds t K xs @ live_holds t K ys"
  by (simp add: live_holds_def)

lemma update_fresh: "k \<notin> fst ` set D \<Longrightarrow> AList.update k h D = D @ [(k, h)]"
  by (induction D) auto

lemma live_holds_keys: "fst ` set (live_holds t K D) \<subseteq> fst ` set D"
  by (auto simp: live_holds_def)

lemma distinct_filter_keys: "distinct (map fst D) \<Longrightarrow> distinct (map fst (filter P D))"
  by (induction D) auto

lemma map_of_live:
  assumes "distinct (map fst D)"
  shows "map_of (live_holds t K D) k =
    (case map_of D k of None \<Rightarrow> None | Some h \<Rightarrow> if hold_expires_ms h > t \<and> k \<notin> K then Some h else None)"
  using assms by (induction D) (auto simp: live_holds_def rev_image_eqI split: option.splits dest!: map_of_SomeD)

lemma live_holds_insert: "live_holds t (insert k K) D = AList.delete k (live_holds t K D)"
  by (induction D) (auto simp: live_holds_def AList.delete_eq)

lemma spent_record:
  assumes "distinct (map fst D)" and "map_of D k = Some h" and "hold_expires_ms h > t" and "k \<notin> K"
    and "hold_amount h = pr_amount_atomic r" and "pr_id r \<notin> set (map pr_id rs)"
  shows "spent counts t (insert k K) D (rs @ [r]) \<le> spent counts t K D rs"
proof -
  have "map_of (live_holds t K D) k = Some h" using assms(1-4) by (simp add: map_of_live)
  from held_total_delete [OF _ this] assms(1)
  have "held_total (live_holds t (insert k K) D) + unat (pr_amount_atomic r) = held_total (live_holds t K D)"
    by (simp add: live_holds_insert assms(5)) (simp add: live_holds_def distinct_filter_keys)
  then show ?thesis by (simp add: spent_def counted_total_snoc [OF assms(6)])
qed

lemma spent_place:
  assumes "t0 \<le> t" and "K0 \<subseteq> K" and "k \<notin> fst ` set D"
  shows "spent counts t K (AList.update k h (live_holds t0 K0 D)) rs \<le> spent counts t K D rs + unat (hold_amount h)"
proof -
  have "k \<notin> fst ` set (live_holds t0 K0 D)" using assms(3) live_holds_keys by blast
  then have "live_holds t K (AList.update k h (live_holds t0 K0 D)) = live_holds t K D @ live_holds t K [(k, h)]"
    by (simp add: update_fresh live_holds_append live_holds_live [OF assms(1,2)])
  then show ?thesis by (simp add: spent_def) (simp add: live_holds_def)
qed

lemma spent_delete: "spent counts t K (AList.delete k D) rs \<le> spent counts t K D rs"
proof -
  have "live_holds t K (AList.delete k D) = filter (\<lambda>(k', _). k \<noteq> k') (live_holds t K D)"
    by (induction D) (auto simp: live_holds_def AList.delete_eq)
  then show ?thesis by (simp add: spent_def held_total_filter)
qed

lemma spent_later: "t \<le> t' \<Longrightarrow> spent counts t' K D rs \<le> spent counts t K D rs"
  using live_holds_mono [of t t' K K D] by (simp add: spent_def)

lemma held_update_same:
  assumes "map_of D k = Some h" and "hold_amount h' = hold_amount h" and "distinct (map fst D)"
    and "t < hold_expires_ms h" and "k \<notin> K"
  shows "held_total (live_holds t K (AList.update k h' D)) \<le> held_total (live_holds t K D)"
  using assms by (induction D) (auto simp: live_holds_def split: if_splits)

text \<open>A payment whose status changes is appended again under its id.\<close>

lemma counted_total_sum:
  "counted_total counts rs =
     (\<Sum>i \<in> pr_id ` set rs. if counts (the (latest_map rs i)) then unat (pr_amount_atomic (the (latest_map rs i))) else 0)"
proof -
  have "counted_total counts rs = sum_list (map (\<lambda>i. if counts (the (latest_map rs i))
      then unat (pr_amount_atomic (the (latest_map rs i))) else 0) (remdups (map pr_id rs)))"
    unfolding counted_total_def latest_records_def
    by (simp add: sum_list_map_filter' filter_map comp_def)
  then show ?thesis by (simp add: sum_list_distinct_conv_sum_set)
qed

lemma counted_total_resolve:
  assumes "latest_map rs (pr_id r) = Some old" and "pr_id r \<in> set (map pr_id rs)"
    and "counts r \<longrightarrow> counts old \<and> pr_amount_atomic r = pr_amount_atomic old"
  shows "counted_total counts (rs @ [r]) \<le> counted_total counts rs"
proof -
  have "pr_id ` set (rs @ [r]) = pr_id ` set rs" using assms(2) by auto
  then show ?thesis
    unfolding counted_total_sum using assms(1,3) by (simp only:) (intro sum_mono, auto simp: latest_map_snoc)
qed

section \<open>Processes on one storage\<close>

record storage =
  st_entries :: "LoadedPayment list"
  st_doc :: holds_doc
  st_version :: nat

definition st_records :: "storage \<Rightarrow> PaymentRecord list" where
  "st_records s = map lp_record (st_entries s)"

definition st_committed :: "storage \<Rightarrow> string set" where
  "st_committed s = set (List.map_filter lp_committed_hold (st_entries s))"

text \<open>Where a process is: between operations; having loaded the hold document for an amount; having
  passed the check with the document it wants to write; holding; having recorded the payment.\<close>

datatype phase =
    Idle
  | Loaded nat holds_doc u64
  | Checked nat holds_doc string Hold
  | Holding string u64
  | Recorded string

fun key_of :: "phase \<Rightarrow> string option" where
  "key_of (Checked v d k h) = Some k"
| "key_of (Holding k n) = Some k"
| "key_of (Recorded k) = Some k"
| "key_of _ = None"

record net =
  n_storage :: storage
  n_clock :: int
  n_used :: "string set"
  n_phase :: "nat \<Rightarrow> phase"

text \<open>The ledger a process has after its snapshot: the records and committed holds of the stream, and
  what is live of the document it loaded.\<close>

definition snapshot :: "chrono \<Rightarrow> SpendingBudget \<Rightarrow> storage \<Rightarrow> int \<Rightarrow> holds_doc \<Rightarrow> PaymentLedger" where
  "snapshot c b s now d =
     \<lparr>l_generation = 0, l_records = st_records s, l_committed_holds = st_committed s,
      l_next_offset = of_nat (length (st_entries s)), l_budget = b, l_session_id = [], l_owner = [],
      l_reservations = [], l_holds = live_holds (timestamp_millis c now) (st_committed s) d\<rparr>"

abbreviation new_hold :: "chrono \<Rightarrow> int \<Rightarrow> u64 \<Rightarrow> Hold" where
  "new_hold c now n \<equiv> \<lparr>hold_amount = n, hold_expires_ms = i64_saturating_add (timestamp_millis c now) HOLD_TTL_MS\<rparr>"

text \<open>The lease a process relies on has not lapsed by the instant \<open>t\<close>.\<close>

fun lease_ok :: "int \<Rightarrow> holds_doc \<Rightarrow> phase \<Rightarrow> bool" where
  "lease_ok t D (Checked v d k h) \<longleftrightarrow> t < hold_expires_ms h"
| "lease_ok t D (Holding k n) \<longleftrightarrow> (case map_of D k of None \<Rightarrow> True | Some h \<Rightarrow> t < hold_expires_ms h)"
| "lease_ok t D _ \<longleftrightarrow> True"

definition same_windows :: "chrono \<Rightarrow> int \<Rightarrow> int \<Rightarrow> bool" where
  "same_windows c a b \<longleftrightarrow> day_window c a = day_window c b \<and> month_window c a = month_window c b \<and> year_month c a = year_month c b"

inductive net_step :: "chrono \<Rightarrow> SpendingBudget \<Rightarrow> net \<Rightarrow> net \<Rightarrow> bool" for c b where
  load: "n_phase s p = Idle \<Longrightarrow>
    net_step c b s (s\<lparr>n_phase := (n_phase s)(p := Loaded (st_version (n_storage s)) (st_doc (n_storage s)) n)\<rparr>)"
| refuse: "n_phase s p = Loaded v d n \<Longrightarrow> net_step c b s (s\<lparr>n_phase := (n_phase s)(p := Idle)\<rparr>)"
| check: "n_phase s p = Loaded v d n \<Longrightarrow>
    check_budget_at c (snapshot c b (n_storage s) (n_clock s) d) (n_clock s) n = Allowed \<Longrightarrow>
    k \<notin> n_used s \<Longrightarrow> timestamp_millis c (n_clock s) < hold_expires_ms (new_hold c (n_clock s) n) \<Longrightarrow>
    net_step c b s (s\<lparr>n_used := insert k (n_used s), n_phase := (n_phase s)(p := Checked v
      (AList.update k (new_hold c (n_clock s) n) (l_holds (snapshot c b (n_storage s) (n_clock s) d)))
      k (new_hold c (n_clock s) n))\<rparr>)"
| swap: "n_phase s p = Checked v d k h \<Longrightarrow> st_version (n_storage s) = v \<Longrightarrow>
    net_step c b s (s\<lparr>n_storage := (n_storage s)\<lparr>st_doc := d, st_version := v + 1\<rparr>,
      n_phase := (n_phase s)(p := Holding k (hold_amount h))\<rparr>)"
| lose: "n_phase s p = Checked v d k h \<Longrightarrow> st_version (n_storage s) \<noteq> v \<Longrightarrow>
    net_step c b s (s\<lparr>n_phase := (n_phase s)(p := Idle)\<rparr>)"
| recorded: "n_phase s p = Holding k n \<Longrightarrow> pr_amount_atomic r = n \<Longrightarrow>
    pr_id r \<notin> set (map pr_id (st_records (n_storage s))) \<Longrightarrow>
    net_step c b s (s\<lparr>n_storage := (n_storage s)\<lparr>st_entries := st_entries (n_storage s) @ [\<lparr>lp_record = r, lp_committed_hold = Some k\<rparr>]\<rparr>,
      n_phase := (n_phase s)(p := Recorded k)\<rparr>)"
| drop: "key_of (n_phase s p) = Some k \<Longrightarrow> (\<forall>v d h. n_phase s p \<noteq> Checked v d k h) \<Longrightarrow>
    net_step c b s (s\<lparr>n_storage := (n_storage s)\<lparr>st_doc := AList.delete k (st_doc (n_storage s)), st_version := st_version (n_storage s) + 1\<rparr>,
      n_phase := (n_phase s)(p := Idle)\<rparr>)"
| renew: "n_phase s p = Holding k n \<Longrightarrow> h = new_hold c (n_clock s) n \<Longrightarrow> timestamp_millis c (n_clock s) < hold_expires_ms h \<Longrightarrow>
    net_step c b s (s\<lparr>n_storage := (n_storage s)\<lparr>st_doc := AList.update k h (filter (\<lambda>(_, h). hold_expires_ms h > timestamp_millis c (n_clock s)) (st_doc (n_storage s))),
      st_version := st_version (n_storage s) + 1\<rparr>\<rparr>)"
| resolve: "latest_map (st_records (n_storage s)) (pr_id r) = Some old \<Longrightarrow> pr_id r \<in> set (map pr_id (st_records (n_storage s))) \<Longrightarrow>
    pr_amount_atomic r = pr_amount_atomic old \<Longrightarrow> (counts_daily c (n_clock s) r \<longrightarrow> counts_daily c (n_clock s) old) \<Longrightarrow>
    (counts_monthly c (n_clock s) r \<longrightarrow> counts_monthly c (n_clock s) old) \<Longrightarrow>
    net_step c b s (s\<lparr>n_storage := (n_storage s)\<lparr>st_entries := st_entries (n_storage s) @ [\<lparr>lp_record = r, lp_committed_hold = None\<rparr>]\<rparr>\<rparr>)"
| tick: "same_windows c (n_clock s) now \<Longrightarrow> timestamp_millis c (n_clock s) \<le> timestamp_millis c now \<Longrightarrow>
    (\<forall>p. lease_ok (timestamp_millis c now) (st_doc (n_storage s)) (n_phase s p)) \<Longrightarrow>
    net_step c b s (s\<lparr>n_clock := now\<rparr>)"

section \<open>The invariant\<close>

definition net_spent :: "chrono \<Rightarrow> (PaymentRecord \<Rightarrow> bool) \<Rightarrow> net \<Rightarrow> nat" where
  "net_spent c counts s = spent counts (timestamp_millis c (n_clock s)) (st_committed (n_storage s)) (st_doc (n_storage s))
     (st_records (n_storage s))"

definition room :: "chrono \<Rightarrow> SpendingBudget \<Rightarrow> net \<Rightarrow> nat \<Rightarrow> bool" where
  "room c b s n \<longleftrightarrow>
     net_spent c (counts_daily c (n_clock s)) s + n \<le> unat (daily_max_atomic b) \<and>
     net_spent c (counts_monthly c (n_clock s)) s + n \<le> unat (monthly_max_atomic b)"

fun phase_ok :: "chrono \<Rightarrow> SpendingBudget \<Rightarrow> net \<Rightarrow> phase \<Rightarrow> bool" where
  "phase_ok c b s Idle \<longleftrightarrow> True"
| "phase_ok c b s (Loaded v d n) \<longleftrightarrow>
     v \<le> st_version (n_storage s) \<and> (v = st_version (n_storage s) \<longrightarrow> d = st_doc (n_storage s))"
| "phase_ok c b s (Checked v d k h) \<longleftrightarrow>
     v \<le> st_version (n_storage s) \<and> k \<notin> fst ` set (st_doc (n_storage s)) \<and> k \<notin> st_committed (n_storage s) \<and>
     timestamp_millis c (n_clock s) < hold_expires_ms h \<and>
     (v = st_version (n_storage s) \<longrightarrow> room c b s (unat (hold_amount h)) \<and>
       (\<exists>t0 K0. t0 \<le> timestamp_millis c (n_clock s) \<and> K0 \<subseteq> st_committed (n_storage s) \<and>
          d = AList.update k h (live_holds t0 K0 (st_doc (n_storage s)))))"
| "phase_ok c b s (Holding k n) \<longleftrightarrow>
     (\<exists>h. map_of (st_doc (n_storage s)) k = Some h \<and> hold_amount h = n \<and>
        timestamp_millis c (n_clock s) < hold_expires_ms h \<and> k \<notin> st_committed (n_storage s))"
| "phase_ok c b s (Recorded k) \<longleftrightarrow> True"

definition net_inv :: "chrono \<Rightarrow> SpendingBudget \<Rightarrow> net \<Rightarrow> bool" where
  "net_inv c b s \<longleftrightarrow>
     room c b s 0 \<and> distinct (map fst (st_doc (n_storage s))) \<and>
     fst ` set (st_doc (n_storage s)) \<union> st_committed (n_storage s) \<subseteq> n_used s \<and>
     (\<forall>p. set_option (key_of (n_phase s p)) \<subseteq> n_used s) \<and>
     (\<forall>p q. p \<noteq> q \<longrightarrow> key_of (n_phase s p) = None \<or> key_of (n_phase s p) \<noteq> key_of (n_phase s q)) \<and>
     (\<forall>p. phase_ok c b s (n_phase s p))"

lemma st_simps [simp]:
  "st_records (s\<lparr>st_entries := st_entries s @ [e]\<rparr>) = st_records s @ [lp_record e]"
  "st_committed (s\<lparr>st_entries := st_entries s @ [e]\<rparr>) = st_committed s \<union> set_option (lp_committed_hold e)"
  "st_records (s\<lparr>st_doc := d, st_version := v\<rparr>) = st_records s"
  "st_committed (s\<lparr>st_doc := d, st_version := v\<rparr>) = st_committed s"
  by (auto simp: st_records_def st_committed_def map_filter_def split: option.splits)

lemma net_spent_phase [simp]: "net_spent c f (s\<lparr>n_phase := ph\<rparr>) = net_spent c f s" "net_spent c f (s\<lparr>n_used := u\<rparr>) = net_spent c f s"
  by (simp_all add: net_spent_def)

lemma room_phase [simp]: "room c b (s\<lparr>n_phase := ph\<rparr>) n = room c b s n" "room c b (s\<lparr>n_used := u\<rparr>) n = room c b s n"
  by (simp_all add: room_def)

lemma phase_ok_phase [simp]:
  "phase_ok c b (s\<lparr>n_phase := ph\<rparr>) x = phase_ok c b s x" "phase_ok c b (s\<lparr>n_used := u\<rparr>) x = phase_ok c b s x"
  by (cases x; simp)+

lemma net_invD:
  assumes "net_inv c b s"
  shows "room c b s 0" and "distinct (map fst (st_doc (n_storage s)))"
    and "fst ` set (st_doc (n_storage s)) \<union> st_committed (n_storage s) \<subseteq> n_used s"
    and "set_option (key_of (n_phase s p)) \<subseteq> n_used s"
    and "p \<noteq> q \<Longrightarrow> key_of (n_phase s p) = None \<or> key_of (n_phase s p) \<noteq> key_of (n_phase s q)"
    and "phase_ok c b s (n_phase s p)"
  using assms by (simp_all add: net_inv_def)

lemma net_inv_step:
  assumes "net_inv c b s" and ph: "n_phase s' = (n_phase s)(p := x)" and "n_used s \<subseteq> n_used s'"
    and "room c b s' 0" and "distinct (map fst (st_doc (n_storage s')))"
    and "fst ` set (st_doc (n_storage s')) \<union> st_committed (n_storage s') \<subseteq> n_used s'"
    and key: "key_of x = None \<or> key_of x = key_of (n_phase s p) \<or> (\<exists>k. key_of x = Some k \<and> k \<notin> n_used s \<and> k \<in> n_used s')"
    and "phase_ok c b s' x" and "\<And>q. q \<noteq> p \<Longrightarrow> phase_ok c b s' (n_phase s q)"
  shows "net_inv c b s'"
proof -
  note used = net_invD(4) [OF assms(1)] and uniq = net_invD(5) [OF assms(1)]
  have other: "key_of x = None \<or> key_of x \<noteq> key_of (n_phase s q)" if "q \<noteq> p" for q
  proof -
    have "key_of (n_phase s p) = None \<or> key_of (n_phase s p) \<noteq> key_of (n_phase s q)" using uniq [of p q] that by simp
    with key used [of q] show ?thesis by (cases "key_of (n_phase s q)") auto
  qed
  have "set_option (key_of x) \<subseteq> n_used s'" using key used [of p] assms(3) by auto
  then have "\<forall>q. set_option (key_of (n_phase s' q)) \<subseteq> n_used s'"
    using used assms(3) by (auto simp: ph)
  moreover have "key_of (n_phase s' q) = None \<or> key_of (n_phase s' q) \<noteq> key_of (n_phase s' q')" if "q \<noteq> q'" for q q'
  proof -
    have "key_of (n_phase s q) = None \<or> key_of (n_phase s q) \<noteq> key_of (n_phase s q')" using uniq that by simp
    then show ?thesis using other [of q] other [of q'] that by (auto simp: ph)
  qed
  moreover have "\<forall>q. phase_ok c b s' (n_phase s' q)" using assms(8,9) by (simp add: ph)
  ultimately show ?thesis unfolding net_inv_def using assms(4-6) by blast
qed

lemma room_mono:
  assumes "room c b s n" and "n_clock s' = n_clock s"
    and "\<And>counts. counts = counts_daily c (n_clock s) \<or> counts = counts_monthly c (n_clock s) \<Longrightarrow>
      net_spent c counts s' + m \<le> net_spent c counts s + n"
  shows "room c b s' m"
  using assms(1) assms(3) [of "counts_daily c (n_clock s)"] assms(3) [of "counts_monthly c (n_clock s)"]
  by (simp add: room_def assms(2))

text \<open>Replacing the hold document under a new version: processes that loaded or checked an older one
  have lost their race, and those that hold must find their hold again.\<close>

lemma phase_ok_new_doc:
  assumes "phase_ok c b s x" and "st = (n_storage s)\<lparr>st_doc := d, st_version := st_version (n_storage s) + 1\<rparr>"
    and "\<And>v d' k h. x = Checked v d' k h \<Longrightarrow> k \<notin> fst ` set d"
    and "\<And>k n h. x = Holding k n \<Longrightarrow> map_of (st_doc (n_storage s)) k = Some h \<Longrightarrow>
      timestamp_millis c (n_clock s) < hold_expires_ms h \<Longrightarrow> k \<notin> st_committed (n_storage s) \<Longrightarrow>
      \<exists>h'. map_of d k = Some h' \<and> hold_amount h' = hold_amount h \<and> timestamp_millis c (n_clock s) < hold_expires_ms h'"
  shows "phase_ok c b (s\<lparr>n_storage := st\<rparr>) x"
  using assms by (cases x) auto

lemma net_spent_doc:
  "net_spent c f (s\<lparr>n_storage := (n_storage s)\<lparr>st_doc := d, st_version := v\<rparr>\<rparr>) =
     spent f (timestamp_millis c (n_clock s)) (st_committed (n_storage s)) d (st_records (n_storage s))"
  by (simp add: net_spent_def)

lemma delete_keys: "fst ` set (AList.delete k D) = fst ` set D - {k}"
  by (auto simp: AList.delete_eq)

lemma distinct_delete: "distinct (map fst D) \<Longrightarrow> distinct (map fst (AList.delete k D))"
  by (simp add: AList.delete_eq distinct_filter_keys)

lemma update_keys: "fst ` set (AList.update k h D) = insert k (fst ` set D)"
  using AList.dom_update [of k h D] by (simp add: set_map [symmetric] del: set_map)

lemma distinct_live: "distinct (map fst D) \<Longrightarrow> distinct (map fst (live_holds t K D))"
  by (simp add: live_holds_def distinct_filter_keys)

text \<open>What the check says about the storage, on a document that is still the current one.\<close>

lemma check_room:
  assumes "check_budget_at c (snapshot c b (n_storage s) (n_clock s) (st_doc (n_storage s))) (n_clock s) n = Allowed"
    and "unat (daily_max_atomic b) < 2 ^ 64 - 1" and "unat (monthly_max_atomic b) < 2 ^ 64 - 1"
  shows "room c b s (unat n)"
proof -
  let ?l = "snapshot c b (n_storage s) (n_clock s) (st_doc (n_storage s))"
  have "l_budget ?l = b" by (simp add: snapshot_def)
  then have "day_total c (n_clock s) ?l + unat n \<le> unat (daily_max_atomic b) \<and>
      month_total c (n_clock s) ?l + unat n \<le> unat (monthly_max_atomic b)"
    using assms check_budget_at_eq [of ?l c "n_clock s" n] by (simp split: if_splits)
  then show ?thesis
    by (simp add: room_def net_spent_def spent_def day_total_def month_total_def snapshot_def)
qed

text \<open>Appending to the stream keeps the version: what was checked must still fit afterwards.\<close>

lemma phase_ok_append:
  assumes "phase_ok c b s x" and "st = (n_storage s)\<lparr>st_entries := st_entries (n_storage s) @ [e]\<rparr>"
    and "\<And>m. room c b s m \<Longrightarrow> room c b (s\<lparr>n_storage := st\<rparr>) m"
    and "\<And>k. lp_committed_hold e = Some k \<Longrightarrow> key_of x \<noteq> Some k"
  shows "phase_ok c b (s\<lparr>n_storage := st\<rparr>) x"
proof (cases x)
  case (Checked v d k h)
  then show ?thesis using assms by (auto 0 4)
next
  case (Holding k n)
  then show ?thesis using assms by (cases "lp_committed_hold e") auto
qed (use assms in auto)

lemma same_windows_counts:
  "same_windows c a t \<Longrightarrow> counts_daily c t = counts_daily c a \<and> counts_monthly c t = counts_monthly c a"
  by (auto simp: same_windows_def counts_daily_def counts_monthly_def fun_eq_iff)

lemma room_tick:
  assumes "room c b s m" and "same_windows c (n_clock s) now" and "timestamp_millis c (n_clock s) \<le> timestamp_millis c now"
  shows "room c b (s\<lparr>n_clock := now\<rparr>) m"
proof -
  have "net_spent c f (s\<lparr>n_clock := now\<rparr>) \<le> net_spent c f s" for f
    using spent_later [OF assms(3)] by (simp add: net_spent_def)
  from this [of "counts_daily c (n_clock s)"] this [of "counts_monthly c (n_clock s)"] assms(1) same_windows_counts [OF assms(2)]
  show ?thesis unfolding room_def by simp
qed

lemma phase_ok_tick:
  assumes "phase_ok c b s x" and "same_windows c (n_clock s) now" and "timestamp_millis c (n_clock s) \<le> timestamp_millis c now"
    and "lease_ok (timestamp_millis c now) (st_doc (n_storage s)) x"
  shows "phase_ok c b (s\<lparr>n_clock := now\<rparr>) x"
proof (cases x)
  case (Checked v d k h)
  then show ?thesis using assms room_tick [OF _ assms(2,3), of b "unat (hold_amount h)"] by (auto intro: order_trans)
qed (use assms in auto)

section \<open>Every step keeps it\<close>

lemma inv_swap:
  assumes inv: "net_inv c b s" and ph: "n_phase s p = Checked v d k h" and v: "st_version (n_storage s) = v"
  shows "net_inv c b (s\<lparr>n_storage := (n_storage s)\<lparr>st_doc := d, st_version := v + 1\<rparr>,
      n_phase := (n_phase s)(p := Holding k (hold_amount h))\<rparr>)"
proof -
  let ?D = "st_doc (n_storage s)" and ?t = "timestamp_millis c (n_clock s)" and ?K = "st_committed (n_storage s)"
  let ?s' = "s\<lparr>n_storage := (n_storage s)\<lparr>st_doc := d, st_version := v + 1\<rparr>, n_phase := (n_phase s)(p := Holding k (hold_amount h))\<rparr>"
  have ok: "k \<notin> fst ` set ?D" "k \<notin> ?K" "?t < hold_expires_ms h" "room c b s (unat (hold_amount h))"
    using net_invD(6) [OF inv, of p] v by (simp_all add: ph)
  obtain t0 K0 where d: "t0 \<le> ?t" "K0 \<subseteq> ?K" "d = AList.update k h (live_holds t0 K0 ?D)"
    using net_invD(6) [OF inv, of p] v by (auto simp: ph)
  have fresh: "k \<notin> fst ` set (live_holds t0 K0 ?D)" using ok(1) live_holds_keys by blast
  have keys: "fst ` set d \<subseteq> insert k (fst ` set ?D)" unfolding d(3) update_keys using live_holds_keys by blast
  show ?thesis
  proof (rule net_inv_step [OF inv, where p = p and x = "Holding k (hold_amount h)"])
    show "room c b ?s' 0"
    proof (rule room_mono [OF ok(4)])
      show "net_spent c f ?s' + 0 \<le> net_spent c f s + unat (hold_amount h)" for f
        using spent_place [OF d(1,2) ok(1)] by (simp add: net_spent_doc d(3)) (simp add: net_spent_def)
    qed simp
    show "distinct (map fst (st_doc (n_storage ?s')))"
      using distinct_live [OF net_invD(2) [OF inv]] by (simp add: d(3) AList.distinct_update)
    show "fst ` set (st_doc (n_storage ?s')) \<union> st_committed (n_storage ?s') \<subseteq> n_used ?s'"
      using keys net_invD(3) [OF inv] net_invD(4) [OF inv, of p] by (auto simp: ph)
    show "phase_ok c b ?s' (Holding k (hold_amount h))"
      using ok(2,3) by (simp add: d(3) AList.update_conv')
    fix q assume q: "q \<noteq> p"
    have nk: "key_of (n_phase s q) \<noteq> Some k" using net_invD(5) [OF inv, of p q] q by (auto simp: ph)
    have "phase_ok c b (s\<lparr>n_storage := (n_storage s)\<lparr>st_doc := d, st_version := v + 1\<rparr>\<rparr>) (n_phase s q)"
    proof (rule phase_ok_new_doc [OF net_invD(6) [OF inv]])
      fix v' d' k' h' assume e: "n_phase s q = Checked v' d' k' h'"
      then have "k' \<notin> fst ` set ?D" using net_invD(6) [OF inv, of q] by simp
      with keys nk e show "k' \<notin> fst ` set d" by auto
    next
      fix k' n' h' assume e: "n_phase s q = Holding k' n'" "map_of ?D k' = Some h'" "?t < hold_expires_ms h'" "k' \<notin> ?K"
      then have "map_of (live_holds t0 K0 ?D) k' = Some h'"
        using d(1,2) map_of_live [OF net_invD(2) [OF inv]] by auto
      with e nk show "\<exists>h''. map_of d k' = Some h'' \<and> hold_amount h'' = hold_amount h' \<and> ?t < hold_expires_ms h''"
        by (auto simp: d(3) AList.update_conv')
    qed (simp add: v)
    then show "phase_ok c b ?s' (n_phase s q)" by simp
  qed (simp_all add: ph)
qed

lemma inv_drop:
  assumes inv: "net_inv c b s" and k: "key_of (n_phase s p) = Some k"
  shows "net_inv c b (s\<lparr>n_storage := (n_storage s)\<lparr>st_doc := AList.delete k (st_doc (n_storage s)), st_version := st_version (n_storage s) + 1\<rparr>,
      n_phase := (n_phase s)(p := Idle)\<rparr>)"
proof -
  let ?D = "AList.delete k (st_doc (n_storage s))"
  let ?st = "(n_storage s)\<lparr>st_doc := ?D, st_version := st_version (n_storage s) + 1\<rparr>"
  let ?s' = "s\<lparr>n_storage := ?st, n_phase := (n_phase s)(p := Idle)\<rparr>"
  show ?thesis
  proof (rule net_inv_step [OF inv, where p = p and x = Idle])
    show "room c b ?s' 0"
      by (rule room_mono [OF net_invD(1) [OF inv]]) (simp_all add: net_spent_doc, simp add: net_spent_def spent_delete)
    show "distinct (map fst (st_doc (n_storage ?s')))" using net_invD(2) [OF inv] by (simp add: distinct_delete)
    show "fst ` set (st_doc (n_storage ?s')) \<union> st_committed (n_storage ?s') \<subseteq> n_used ?s'"
      using net_invD(3) [OF inv] by (auto simp: delete_keys)
    fix q assume q: "q \<noteq> p"
    have nk: "key_of (n_phase s q) \<noteq> Some k" using net_invD(5) [OF inv, of p q] q k by auto
    have "phase_ok c b (s\<lparr>n_storage := ?st\<rparr>) (n_phase s q)"
    proof (rule phase_ok_new_doc [OF net_invD(6) [OF inv]])
      fix v' d' k' h' assume "n_phase s q = Checked v' d' k' h'"
      then show "k' \<notin> fst ` set ?D" using net_invD(6) [OF inv, of q] by (simp add: delete_keys)
    next
      fix k' n' h' assume "n_phase s q = Holding k' n'" "map_of (st_doc (n_storage s)) k' = Some h'"
        "timestamp_millis c (n_clock s) < hold_expires_ms h'"
      with nk show "\<exists>h''. map_of ?D k' = Some h'' \<and> hold_amount h'' = hold_amount h' \<and> timestamp_millis c (n_clock s) < hold_expires_ms h''"
        by (auto simp: AList.delete_conv')
    qed simp
    then show "phase_ok c b ?s' (n_phase s q)" by simp
  qed simp_all
qed

lemma inv_check:
  assumes inv: "net_inv c b s" and ph: "n_phase s p = Loaded v d n"
    and ck: "check_budget_at c (snapshot c b (n_storage s) (n_clock s) d) (n_clock s) n = Allowed"
    and k: "k \<notin> n_used s" and h: "h = new_hold c (n_clock s) n" "timestamp_millis c (n_clock s) < hold_expires_ms h"
    and caps: "unat (daily_max_atomic b) < 2 ^ 64 - 1" "unat (monthly_max_atomic b) < 2 ^ 64 - 1"
  shows "net_inv c b (s\<lparr>n_used := insert k (n_used s), n_phase := (n_phase s)(p := Checked v
      (AList.update k h (l_holds (snapshot c b (n_storage s) (n_clock s) d))) k h)\<rparr>)"
    (is "net_inv c b ?s'")
proof (rule net_inv_step [OF inv, where p = p])
  let ?x = "Checked v (AList.update k h (l_holds (snapshot c b (n_storage s) (n_clock s) d))) k h"
  have ld: "v \<le> st_version (n_storage s)" "v = st_version (n_storage s) \<Longrightarrow> d = st_doc (n_storage s)"
    using net_invD(6) [OF inv, of p] by (simp_all add: ph)
  have "k \<notin> fst ` set (st_doc (n_storage s))" "k \<notin> st_committed (n_storage s)"
    using net_invD(3) [OF inv] k by auto
  moreover have "room c b s (unat (hold_amount h))" if "v = st_version (n_storage s)"
    using check_room [OF _ caps] ck ld(2) [OF that] h(1) by simp
  moreover have "l_holds (snapshot c b (n_storage s) (n_clock s) d) =
      live_holds (timestamp_millis c (n_clock s)) (st_committed (n_storage s)) d" by (simp add: snapshot_def)
  ultimately show "phase_ok c b ?s' ?x" using ld h(2) by auto
  show "n_phase ?s' = (n_phase s)(p := ?x)" by simp
qed (use net_invD [OF inv] k in \<open>auto\<close>)

lemma inv_recorded:
  assumes inv: "net_inv c b s" and ph: "n_phase s p = Holding k n" and r: "pr_amount_atomic r = n"
    "pr_id r \<notin> set (map pr_id (st_records (n_storage s)))"
  shows "net_inv c b (s\<lparr>n_storage := (n_storage s)\<lparr>st_entries := st_entries (n_storage s) @ [\<lparr>lp_record = r, lp_committed_hold = Some k\<rparr>]\<rparr>,
      n_phase := (n_phase s)(p := Recorded k)\<rparr>)"
proof -
  let ?e = "\<lparr>lp_record = r, lp_committed_hold = Some k\<rparr>"
  let ?st = "(n_storage s)\<lparr>st_entries := st_entries (n_storage s) @ [?e]\<rparr>"
  let ?s' = "s\<lparr>n_storage := ?st, n_phase := (n_phase s)(p := Recorded k)\<rparr>"
  obtain h where h: "map_of (st_doc (n_storage s)) k = Some h" "hold_amount h = n"
      "timestamp_millis c (n_clock s) < hold_expires_ms h" "k \<notin> st_committed (n_storage s)"
    using net_invD(6) [OF inv, of p] by (auto simp: ph)
  have sp: "net_spent c f (s\<lparr>n_storage := ?st\<rparr>) \<le> net_spent c f s" for f
    using spent_record [OF net_invD(2) [OF inv] h(1,3,4) _ r(2), of f] h(2) r(1) by (simp add: net_spent_def)
  have room: "room c b (s\<lparr>n_storage := ?st\<rparr>) m" if "room c b s m" for m
    using sp by (intro room_mono [OF that]) simp_all
  show ?thesis
  proof (rule net_inv_step [OF inv, where p = p and x = "Recorded k"])
    show "room c b ?s' 0" using room [OF net_invD(1) [OF inv]] by simp
    show "fst ` set (st_doc (n_storage ?s')) \<union> st_committed (n_storage ?s') \<subseteq> n_used ?s'"
      using net_invD(3) [OF inv] net_invD(4) [OF inv, of p] by (auto simp: ph)
    fix q assume "q \<noteq> p"
    then have nk: "key_of (n_phase s q) \<noteq> Some k" using net_invD(5) [OF inv, of p q] by (auto simp: ph)
    have "phase_ok c b (s\<lparr>n_storage := ?st\<rparr>) (n_phase s q)"
      by (rule phase_ok_append [OF net_invD(6) [OF inv] refl room]) (use nk in auto)
    then show "phase_ok c b ?s' (n_phase s q)" by simp
  qed (use net_invD(2) [OF inv] ph in simp_all)
qed

lemma inv_resolve:
  assumes inv: "net_inv c b s" and old: "latest_map (st_records (n_storage s)) (pr_id r) = Some old"
    "pr_id r \<in> set (map pr_id (st_records (n_storage s)))" "pr_amount_atomic r = pr_amount_atomic old"
    "counts_daily c (n_clock s) r \<longrightarrow> counts_daily c (n_clock s) old"
    "counts_monthly c (n_clock s) r \<longrightarrow> counts_monthly c (n_clock s) old"
  shows "net_inv c b (s\<lparr>n_storage := (n_storage s)\<lparr>st_entries := st_entries (n_storage s) @ [\<lparr>lp_record = r, lp_committed_hold = None\<rparr>]\<rparr>\<rparr>)"
proof -
  let ?e = "\<lparr>lp_record = r, lp_committed_hold = None\<rparr>"
  let ?st = "(n_storage s)\<lparr>st_entries := st_entries (n_storage s) @ [?e]\<rparr>"
  have "net_spent c f (s\<lparr>n_storage := ?st\<rparr>) \<le> net_spent c f s"
    if "f = counts_daily c (n_clock s) \<or> f = counts_monthly c (n_clock s)" for f
    using counted_total_resolve [OF old(1,2), of f] old(3-5) that by (auto simp: net_spent_def spent_def)
  then have room: "room c b (s\<lparr>n_storage := ?st\<rparr>) m" if "room c b s m" for m
    by (intro room_mono [OF that]) auto
  have "phase_ok c b (s\<lparr>n_storage := ?st\<rparr>) (n_phase s q)" for q
    by (rule phase_ok_append [OF net_invD(6) [OF inv] refl room]) simp_all
  then show ?thesis
    using room [OF net_invD(1) [OF inv]] inv by (simp add: net_inv_def)
qed

lemma inv_tick:
  assumes inv: "net_inv c b s" and w: "same_windows c (n_clock s) now" "timestamp_millis c (n_clock s) \<le> timestamp_millis c now"
    and l: "\<forall>p. lease_ok (timestamp_millis c now) (st_doc (n_storage s)) (n_phase s p)"
  shows "net_inv c b (s\<lparr>n_clock := now\<rparr>)"
  using room_tick [OF net_invD(1) [OF inv] w] phase_ok_tick [OF net_invD(6) [OF inv] w] l inv
  by (simp add: net_inv_def)

lemma inv_renew:
  assumes inv: "net_inv c b s" and ph: "n_phase s p = Holding k n" and h: "h = new_hold c (n_clock s) n"
    "timestamp_millis c (n_clock s) < hold_expires_ms h"
  shows "net_inv c b (s\<lparr>n_storage := (n_storage s)\<lparr>st_doc := AList.update k h (filter (\<lambda>(_, h). hold_expires_ms h > timestamp_millis c (n_clock s)) (st_doc (n_storage s))),
      st_version := st_version (n_storage s) + 1\<rparr>\<rparr>)"
proof -
  let ?t = "timestamp_millis c (n_clock s)" and ?D = "st_doc (n_storage s)" and ?K = "st_committed (n_storage s)"
  let ?F = "live_holds ?t {} ?D"
  let ?st = "(n_storage s)\<lparr>st_doc := AList.update k h ?F, st_version := st_version (n_storage s) + 1\<rparr>"
  let ?s' = "s\<lparr>n_storage := ?st\<rparr>"
  have F: "filter (\<lambda>(_, h). hold_expires_ms h > ?t) ?D = ?F" by (simp add: live_holds_def)
  obtain h0 where h0: "map_of ?D k = Some h0" "hold_amount h0 = n" "?t < hold_expires_ms h0" "k \<notin> ?K"
    using net_invD(6) [OF inv, of p] by (auto simp: ph)
  have dist: "distinct (map fst ?F)" using net_invD(2) [OF inv] by (rule distinct_live)
  have m: "map_of ?F k' = (case map_of ?D k' of None \<Rightarrow> None | Some h' \<Rightarrow> if hold_expires_ms h' > ?t then Some h' else None)" for k'
    by (simp add: map_of_live [OF net_invD(2) [OF inv]] cong: option.case_cong)
  have keys: "fst ` set (AList.update k h ?F) \<subseteq> fst ` set ?D"
    using live_holds_keys [of ?t "{}" ?D] map_of_SomeD [OF h0(1)] by (auto simp: update_keys intro: rev_image_eqI)
  have "held_total (live_holds ?t ?K (AList.update k h ?F)) \<le> held_total (live_holds ?t ?K ?F)"
    by (rule held_update_same [OF _ _ dist _ h0(4)]) (use m h0 h in auto)
  then have sp: "net_spent c f ?s' \<le> net_spent c f s" for f
    by (simp add: net_spent_doc) (simp add: net_spent_def spent_def live_holds_live)
  have "room c b ?s' 0" using sp by (intro room_mono [OF net_invD(1) [OF inv]]) simp_all
  moreover have "distinct (map fst (AList.update k h ?F))" using dist by (simp add: AList.distinct_update)
  moreover have "fst ` set (AList.update k h ?F) \<union> ?K \<subseteq> n_used s"
    using keys net_invD(3) [OF inv] by auto
  moreover have "phase_ok c b ?s' (n_phase s q)" for q
    proof (rule phase_ok_new_doc [OF net_invD(6) [OF inv] refl])
      fix v' d' k' h' assume "n_phase s q = Checked v' d' k' h'"
      then show "k' \<notin> fst ` set (AList.update k h ?F)" using keys net_invD(6) [OF inv, of q] by auto
    next
      fix k' n' h' assume "n_phase s q = Holding k' n'" "map_of ?D k' = Some h'" "?t < hold_expires_ms h'"
      then show "\<exists>h''. map_of (AList.update k h ?F) k' = Some h'' \<and> hold_amount h'' = hold_amount h' \<and> ?t < hold_expires_ms h''"
        using h h0 m by (auto simp: AList.update_conv')
    qed
  ultimately have "net_inv c b ?s'" using inv by (simp add: net_inv_def)
  then show ?thesis by (simp only: F)
qed

lemma net_step_inv:
  assumes "net_step c b s s'" and "net_inv c b s"
    and caps: "unat (daily_max_atomic b) < 2 ^ 64 - 1" "unat (monthly_max_atomic b) < 2 ^ 64 - 1"
  shows "net_inv c b s'"
  using assms(1,2)
proof (induction rule: net_step.induct)
  case (load s p n)
  show ?case
    by (rule net_inv_step [OF load(2), where p = p]) (use net_invD [OF load(2)] in auto)
next
  case (refuse s p v d n)
  show ?case by (rule net_inv_step [OF refuse(2), where p = p]) (use net_invD [OF refuse(2)] in auto)
next
  case (lose s p v d k h)
  show ?case by (rule net_inv_step [OF lose(3), where p = p]) (use net_invD [OF lose(3)] in auto)
next
  case (check s p v d n k)
  show ?case using inv_check [OF check(5,1,2,3) refl check(4) caps] .
qed (blast intro: inv_swap inv_recorded inv_drop inv_renew inv_resolve inv_tick)+

section \<open>No interleaving overspends\<close>

definition caps_ok :: "SpendingBudget \<Rightarrow> bool" where
  "caps_ok b \<longleftrightarrow> unat (daily_max_atomic b) < 2 ^ 64 - 1 \<and> unat (monthly_max_atomic b) < 2 ^ 64 - 1"

definition net_init :: "chrono \<Rightarrow> SpendingBudget \<Rightarrow> net \<Rightarrow> bool" where
  "net_init c b s \<longleftrightarrow>
     caps_ok b \<and> room c b s 0 \<and> (\<forall>p. n_phase s p = Idle) \<and> distinct (map fst (st_doc (n_storage s))) \<and>
     fst ` set (st_doc (n_storage s)) \<union> st_committed (n_storage s) \<subseteq> n_used s"

lemma net_init_inv: "net_init c b s \<Longrightarrow> caps_ok b \<and> net_inv c b s"
  by (simp add: net_init_def net_inv_def)

lemma net_step_keeps: "net_step c b s s' \<Longrightarrow> caps_ok b \<and> net_inv c b s \<Longrightarrow> caps_ok b \<and> net_inv c b s'"
  by (auto simp: caps_ok_def intro: net_step_inv)

interpretation ledger_net: stepped "net_init c b" "net_step c b" "\<lambda>s. caps_ok b \<and> net_inv c b s" for c b
  by unfold_locales (rule net_init_inv, assumption, rule net_step_keeps)


section \<open>The steps are those of the code\<close>

text \<open>What one process has read of the stream so far.\<close>

definition caught_up :: "chrono \<Rightarrow> ('s, 'v, 'n) ports \<Rightarrow> (u64 \<times> 'v) list \<Rightarrow> PaymentLedger \<Rightarrow> bool" where
  "caught_up c P entries l \<longleftrightarrow>
     (let old = parse_entries c P (filter (\<lambda>x. \<not> l_next_offset l \<le> fst x) entries) in
      l_records l = map lp_record old \<and> l_committed_holds l = set (List.map_filter lp_committed_hold old))"

lemma sorted_split:
  assumes "sorted_wrt (\<lambda>x y. fst x < fst y) (entries :: (u64 \<times> 'v) list)"
  shows "filter (\<lambda>x. \<not> n \<le> fst x) entries @ filter (\<lambda>x. n \<le> fst x) entries = entries"
  using assms
proof (induction entries)
  case (Cons x xs)
  show ?case
  proof (cases "n \<le> fst x")
    case True
    then have "filter (\<lambda>x. n \<le> fst x) xs = xs" "filter (\<lambda>x. \<not> n \<le> fst x) xs = []"
      using Cons.prems by (auto simp: filter_id_conv filter_empty_conv)
    with True show ?thesis by simp
  qed (use Cons in auto)
qed simp

lemma take_snapshot_snapshot:
  assumes "window_law P (world \<sigma>) entries" and "length entries < fuel" and "caught_up c P entries (led \<sigma>)"
    and "doc_get P BUDGETS_COLLECTION HOLDS_ID (world \<sigma>) = (PortOk (Some (v, body)), world \<sigma>)" and "holds_from_value P body = Inr d"
    and "st_entries st = parse_entries c P entries"
  shows "\<exists>\<sigma>'. take_snapshot c P fuel now \<sigma> = (Inr (Some v), \<sigma>') \<and> world \<sigma>' = world \<sigma> \<and>
    next_reservation \<sigma>' = next_reservation \<sigma> \<and> same_owner (led \<sigma>) (led \<sigma>') \<and> l_records (led \<sigma>') = st_records st \<and>
    l_holds (led \<sigma>') = live_holds (timestamp_millis c now) (st_committed st) d"
proof -
  let ?n = "l_next_offset (led \<sigma>)"
  let ?fresh = "parse_entries c P (filter (\<lambda>x. ?n \<le> fst x) entries)"
  have load: "on_world (load_holds P) \<sigma> = (Inr (Some v, d), \<sigma>)"
    using assms(4,5) by (simp add: on_world_def load_holds_def)
  have "length (filter (\<lambda>x. ?n \<le> fst x) entries) < fuel" using assms(2) by (meson le_less_trans length_filter_le)
  from read_loop_complete [OF assms(1) this, of c "[]"]
  obtain next' where "read_from c P fuel ?n (world \<sigma>) = (Inr (?fresh, next'), world \<sigma>)"
    by (auto simp: read_from_def)
  then have rf: "refresh_records c P fuel \<sigma> = (Inr (), upd_led (absorb ?fresh next') \<sigma>)"
    by (simp add: refresh_records_def on_world_def)
  have "parse_entries c P entries = parse_entries c P (filter (\<lambda>x. \<not> ?n \<le> fst x) entries) @ ?fresh"
    using sorted_split [of entries ?n] assms(1) parse_entries_append [of c P] unfolding window_law_def by metis
  then have r: "l_records (absorb ?fresh next' (led \<sigma>)) = st_records st"
      and k: "l_committed_holds (absorb ?fresh next' (led \<sigma>)) = st_committed st"
    using assms(3,6) by (simp_all add: absorb_def caught_up_def Let_def st_records_def st_committed_def map_filter_def)
  show ?thesis
    using load rf r k by (simp add: take_snapshot_def same_owner_def absorb_def)
qed


section \<open>A concrete interleaving\<close>

definition net0 :: net where
  "net0 = \<lparr>n_storage = \<lparr>st_entries = [], st_doc = [], st_version = 0\<rparr>, n_clock = 5000, n_used = {}, n_phase = (\<lambda>_. Idle)\<rparr>"

abbreviation sample_budget :: SpendingBudget where
  "sample_budget \<equiv> l_budget sample_ledger"

lemma net0_init: "net_init sample_chrono sample_budget net0"
  by (simp add: net_init_def caps_ok_def room_def net_spent_def spent_def live_holds_def counted_total_def net0_def
      st_records_def st_committed_def map_filter_simps sample_ledger_def)

text \<open>Two processes load the same document; one swaps and the other loses.\<close>

definition net1 :: net where
  "net1 = net0\<lparr>n_phase := (\<lambda>_. Idle)(0 := Loaded 0 [] 400, 1 := Loaded 0 [] 700)\<rparr>"

definition net2 :: net where
  "net2 = net1\<lparr>n_used := {''k''}, n_phase := (n_phase net1)(0 := Checked 0 [(''k'', new_hold sample_chrono 5000 400)] ''k'' (new_hold sample_chrono 5000 400))\<rparr>"

definition net3 :: net where
  "net3 = net2\<lparr>n_storage := (n_storage net2)\<lparr>st_doc := [(''k'', new_hold sample_chrono 5000 400)], st_version := 0 + 1\<rparr>,
     n_phase := (n_phase net2)(0 := Holding ''k'' (hold_amount (new_hold sample_chrono 5000 400)))\<rparr>"

lemma net1_steps: "(net_step sample_chrono sample_budget)\<^sup>*\<^sup>* net0 net1"
proof -
  let ?m = "net0\<lparr>n_phase := (n_phase net0)(0 := Loaded (st_version (n_storage net0)) (st_doc (n_storage net0)) 400)\<rparr>"
  have "net_step sample_chrono sample_budget net0 ?m" by (rule load) (simp add: net0_def)
  moreover have "net_step sample_chrono sample_budget ?m (?m\<lparr>n_phase := (n_phase ?m)(1 := Loaded (st_version (n_storage ?m)) (st_doc (n_storage ?m)) 700)\<rparr>)"
    by (rule load) (simp add: net0_def)
  moreover have "?m\<lparr>n_phase := (n_phase ?m)(1 := Loaded (st_version (n_storage ?m)) (st_doc (n_storage ?m)) 700)\<rparr> = net1"
    by (simp add: net1_def net0_def)
  ultimately show ?thesis by simp
qed

lemma empty_check:
  assumes "unat n \<le> 800"
  shows "check_budget_at sample_chrono (snapshot sample_chrono sample_budget \<lparr>st_entries = [], st_doc = d', st_version = v\<rparr> now []) now n = Allowed"
    (is "check_budget_at _ ?l _ _ = _")
proof -
  have "day_total sample_chrono now ?l = 0" "month_total sample_chrono now ?l = 0" "l_budget ?l = sample_budget"
    by (simp_all add: day_total_def month_total_def counted_total_def snapshot_def live_holds_def st_records_def)
  with assms show ?thesis by (subst check_budget_at_eq) (simp_all add: sample_ledger_def)
qed

lemma net2_step: "net_step sample_chrono sample_budget net1 net2"
proof -
  let ?h = "new_hold sample_chrono 5000 400"
  have s: "n_storage net1 = \<lparr>st_entries = [], st_doc = [], st_version = 0\<rparr>" "n_clock net1 = 5000" by (simp_all add: net1_def net0_def)
  have "check_budget_at sample_chrono (snapshot sample_chrono sample_budget (n_storage net1) (n_clock net1) []) (n_clock net1) 400 = Allowed"
    unfolding s by (rule empty_check) simp
  moreover have "timestamp_millis sample_chrono (n_clock net1) < hold_expires_ms (new_hold sample_chrono (n_clock net1) 400)"
    unfolding s by (simp add: sample_chrono_def i64_saturating_add_def HOLD_TTL_MS_def)
  ultimately have "net_step sample_chrono sample_budget net1 (net1\<lparr>n_used := insert ''k'' (n_used net1), n_phase := (n_phase net1)(0 := Checked 0
      (AList.update ''k'' (new_hold sample_chrono (n_clock net1) 400) (l_holds (snapshot sample_chrono sample_budget (n_storage net1) (n_clock net1) [])))
      ''k'' (new_hold sample_chrono (n_clock net1) 400))\<rparr>)"
    by (intro check) (simp_all add: net1_def net0_def)
  moreover have "l_holds (snapshot sample_chrono sample_budget (n_storage net1) (n_clock net1) []) = []" by (simp add: snapshot_def live_holds_def)
  ultimately show ?thesis unfolding net2_def by (simp add: s) (simp add: net1_def net0_def)
qed

lemma net3_step: "net_step sample_chrono sample_budget net2 net3"
  unfolding net3_def by (rule swap) (simp_all add: net2_def net1_def net0_def)


definition doc_world :: mem where
  "doc_world = \<lparr>mem_stream = (\<lambda>_. []), mem_docs = (\<lambda>_ _. Some (4, JHolds []))\<rparr>"


end
