(* ===== verification/TW_Json.thy ===== *)
theory TW_Json
  imports TW_Prelude
begin

text \<open>
  \<open>serde_json::Value\<close>: a number is a non-negative or negative integer or a float, an object an
  association list with the first entry of a key in force.
\<close>

text \<open>\<open>serde_json\<close> keeps a negative integer apart from the others: \<open>NegInt m\<close> is the number \<open>-m - 1\<close>.\<close>

datatype json_number = PosInt u64 | NegInt nat | Float string

datatype json = JNull | JBool bool | JNum json_number | JStr string | JArr "json list" | JObj "(string \<times> json) list"

text \<open>\<open>Value::get\<close>, \<open>as_object\<close>, \<open>as_u64\<close> and \<open>as_i64\<close>.\<close>

fun json_get :: "string \<Rightarrow> json \<Rightarrow> json option" where
  "json_get k (JObj kvs) = map_of kvs k"
| "json_get k _ = None"

fun as_object :: "json \<Rightarrow> (string \<times> json) list option" where
  "as_object (JObj kvs) = Some kvs"
| "as_object _ = None"

fun as_u64 :: "json \<Rightarrow> u64 option" where
  "as_u64 (JNum (PosInt n)) = Some n"
| "as_u64 _ = None"

fun as_i64 :: "json \<Rightarrow> int option" where
  "as_i64 (JNum (PosInt n)) = (if unat n < 2 ^ 63 then Some (int (unat n)) else None)"
| "as_i64 (JNum (NegInt m)) = Some (- int m - 1)"
| "as_i64 _ = None"

definition json_i64 :: "int \<Rightarrow> json" where
  "json_i64 n = JNum (if n < 0 then NegInt (nat (- n - 1)) else PosInt (of_int n))"

fun as_str :: "json \<Rightarrow> string option" where
  "as_str (JStr s) = Some s"
| "as_str _ = None"

definition is_null :: "json \<Rightarrow> bool" where
  "is_null v \<longleftrightarrow> v = JNull"

text \<open>The \<open>Display\<close> of a number; a float keeps its text.\<close>

fun number_to_string :: "json_number \<Rightarrow> string" where
  "number_to_string (PosInt n) = show_nat (unat n)"
| "number_to_string (NegInt m) = ''-'' @ show_nat (m + 1)"
| "number_to_string (Float s) = s"

lemma unat_less_int: "unat (n :: u64) < 9223372036854775808 \<longleftrightarrow> uint n < 9223372036854775808"
  using zless_nat_eq_int_zless [of "unat n" 9223372036854775808] by (simp only: of_nat_numeral nat_numeral uint_nat)

lemma as_i64_range: "as_i64 v = Some e \<Longrightarrow> e < 2 ^ 63"
  by (induction v rule: as_i64.induct) (auto split: if_splits simp: unat_less_int)

lemma as_i64_json_i64: "e < 2 ^ 63 \<Longrightarrow> as_i64 (json_i64 e) = Some e"
  by (cases "e < 0") (simp_all add: json_i64_def unat_word_ariths unsigned_of_int take_bit_int_eq_self nat_less_iff)

end
