(* ===== verification/TW_Migrate.thy ===== *)
theory TW_Migrate
  imports TW_Persist TW_Json
begin

text \<open>
  The v1-to-v2 migration of the x402 storage: \<open>tinywallet-x402/src/ledger/schema.rs\<close> and
  \<open>schema/legacy_payment.rs\<close>. The fields of a legacy entry, as \<open>serde\<close>
  reads them with instants still text, are the parameter \<open>raw_from_value\<close>.
\<close>

section \<open>RFC 3339 instants\<close>

definition rfc_digits :: "string \<Rightarrow> nat \<Rightarrow> nat \<Rightarrow> int option" where
  "rfc_digits text at len =
     (if at + len \<le> length text then
        let part = take len (drop at text) in
        if list_all is_ascii_digit part then Some (foldl (\<lambda>n d. n * 10 + int (of_char d - 48)) 0 part) else None
      else None)"

definition separator :: "string \<Rightarrow> nat \<Rightarrow> string \<Rightarrow> bool" where
  "separator text at want \<longleftrightarrow> at < length text \<and> text ! at \<in> set want"

definition leap_year :: "int \<Rightarrow> bool" where
  "leap_year year \<longleftrightarrow> year mod 4 = 0 \<and> (year mod 100 \<noteq> 0 \<or> year mod 400 = 0)"

definition days_in_month :: "int \<Rightarrow> int \<Rightarrow> int option" where
  "days_in_month year month =
     (if month = 2 then Some (if leap_year year then 29 else 28)
      else if month \<in> {4, 6, 9, 11} then Some 30
      else if month \<in> {1, 3, 5, 7, 8, 10, 12} then Some 31
      else None)"

text \<open>The fraction: the digits after a point, at least one, of which three count.\<close>

definition rfc_fraction :: "string \<Rightarrow> nat \<Rightarrow> (nat \<times> int) option" where
  "rfc_fraction text at =
     (if at < length text \<and> text ! at = CHR ''.'' then
        let digits = takeWhile is_ascii_digit (drop (at + 1) text) in
        if digits = [] then None
        else Some (at + 1 + length digits,
                   sum_list (map2 (\<lambda>d place. int (of_char d - 48) * place) (take 3 digits) [100, 10, 1]))
      else Some (at, 0))"

definition rfc_offset :: "string \<Rightarrow> nat \<Rightarrow> int option" where
  "rfc_offset text at =
     (if at \<ge> length text then None
      else if text ! at \<in> {CHR ''Z'', CHR ''z''} \<and> at + 1 = length text then Some 0
      else if text ! at \<in> {CHR ''+'', CHR ''-''} \<and> at + 6 = length text \<and> separator text (at + 3) '':'' then
        Option.bind (rfc_digits text (at + 1) 2) (\<lambda>hours.
        Option.bind (rfc_digits text (at + 4) 2) (\<lambda>minute_part.
          if hours > 23 \<or> minute_part > 59 then None
          else let minutes = hours * 60 + minute_part in
               Some (if text ! at = CHR ''-'' then - minutes else minutes)))
      else None)"

text \<open>Days from civil, by Howard Hinnant's algorithm.\<close>

definition days_from_civil :: "int \<Rightarrow> int \<Rightarrow> int \<Rightarrow> int" where
  "days_from_civil year month day =
     (let y = (if month \<le> 2 then year - 1 else year);
          era = y div 400;
          year_of_era = y - era * 400;
          day_of_year = (153 * ((month + 9) mod 12) + 2) div 5 + day - 1;
          day_of_era = year_of_era * 365 + year_of_era div 4 - year_of_era div 100 + day_of_year
      in era * 146097 + day_of_era - 719468)"

definition parse_rfc3339_ms :: "string \<Rightarrow> int option" where
  "parse_rfc3339_ms text =
     (if \<not> (separator text 4 ''-'' \<and> separator text 7 ''-'' \<and> separator text 10 ''Tt '' \<and>
             separator text 13 '':'' \<and> separator text 16 '':'') then None
      else
        Option.bind (rfc_digits text 0 4) (\<lambda>year. Option.bind (rfc_digits text 5 2) (\<lambda>month.
        Option.bind (rfc_digits text 8 2) (\<lambda>day. Option.bind (rfc_digits text 11 2) (\<lambda>hour.
        Option.bind (rfc_digits text 14 2) (\<lambda>minute. Option.bind (rfc_digits text 17 2) (\<lambda>second.
        Option.bind (days_in_month year month) (\<lambda>dim.
          if \<not> (1 \<le> day \<and> day \<le> dim) \<or> hour > 23 \<or> minute > 59 \<or> second > 60 then None
          else
            Option.bind (rfc_fraction text 19) (\<lambda>(at, millis).
            Option.bind (rfc_offset text at) (\<lambda>offset_minutes.
              let days = days_from_civil year month day;
                  seconds = days * 86400 + hour * 3600 + minute * 60 + second - offset_minutes * 60
              in Some (seconds * 1000 + millis)))))))))))"

section \<open>Legacy entries\<close>

record RawLegacyPayment =
  rl_id :: string
  rl_url :: string
  rl_asset :: string
  rl_amount_atomic :: u64
  rl_amount_display :: string
  rl_recipient :: string
  rl_network :: string
  rl_tx_signature :: "string option"
  rl_status :: StoredPaymentStatus
  rl_timestamp :: string
  rl_authorization_valid_until :: "string option"
  rl_solana_last_valid_block_height :: "u64 option"
  rl_authorization_expired_at :: "string option"
  rl_authorization_expiry_observed_height :: "u64 option"
  rl_session_id :: string
  rl_thread_id :: "string option"
  rl_committed_hold :: "string option"

definition instant_ms :: "string \<Rightarrow> string + int" where
  "instant_ms text = ok_or (''`'' @ text @ ''` is not an RFC 3339 instant'') (parse_rfc3339_ms text)"

definition optional_instant_ms :: "string option \<Rightarrow> string + int option" where
  "optional_instant_ms x = transpose_map instant_ms x"

text \<open>The instants are read while deserializing, and the fields then copied over.\<close>

definition legacy_to_stored :: "RawLegacyPayment \<Rightarrow> string + StoredPayment" where
  "legacy_to_stored r =
     rbind (instant_ms (rl_timestamp r)) (\<lambda>timestamp.
     rbind (optional_instant_ms (rl_authorization_valid_until r)) (\<lambda>valid_until.
     rbind (optional_instant_ms (rl_authorization_expired_at r)) (\<lambda>expired_at.
       Inr \<lparr>sp_id = rl_id r, sp_url = rl_url r, sp_asset = rl_asset r, sp_amount_atomic = rl_amount_atomic r,
            sp_amount_display = rl_amount_display r, sp_recipient = rl_recipient r, sp_network = rl_network r,
            sp_tx_signature = rl_tx_signature r, sp_status = rl_status r, sp_timestamp_ms = timestamp,
            sp_authorization_valid_until_ms = valid_until,
            sp_solana_last_valid_block_height = rl_solana_last_valid_block_height r,
            sp_authorization_expired_at_ms = expired_at,
            sp_authorization_expiry_observed_height = rl_authorization_expiry_observed_height r,
            sp_session_id = rl_session_id r, sp_thread_id = rl_thread_id r, sp_committed_hold = rl_committed_hold r\<rparr>)))"

text \<open>The loop of \<open>migrate_payments_stream\<close>: unreadable entries are skipped, an entry that cannot be
  written stops the step.\<close>

fun migrate_entries :: "('v \<Rightarrow> string + RawLegacyPayment) \<Rightarrow> (StoredPayment \<Rightarrow> string + 'v) \<Rightarrow> 'v list \<Rightarrow> string + 'v list" where
  "migrate_entries raw_from_value to_value [] = Inr []"
| "migrate_entries raw_from_value to_value (entry # entries) =
     (case rbind (raw_from_value entry) legacy_to_stored of
        Inl _ \<Rightarrow> migrate_entries raw_from_value to_value entries
      | Inr stored \<Rightarrow> rbind (to_value stored) (\<lambda>v. rbind (migrate_entries raw_from_value to_value entries) (\<lambda>vs. Inr (v # vs))))"

definition migrate_payments_stream :: "('v \<Rightarrow> string + RawLegacyPayment) \<Rightarrow> (StoredPayment \<Rightarrow> string + 'v) \<Rightarrow>
    string \<Rightarrow> 'v list \<Rightarrow> string + (string \<times> 'v list) option" where
  "migrate_payments_stream raw_from_value to_value source entries =
     (if source \<noteq> LEGACY_PAYMENTS_STREAM then Inr None
      else rbind (migrate_entries raw_from_value to_value entries) (\<lambda>migrated. Inr (Some (PAYMENTS_STREAM, migrated))))"

section \<open>Hold documents\<close>

definition renamed_hold :: "string \<times> json \<Rightarrow> (string \<times> json) option" where
  "renamed_hold = (\<lambda>(key, hold).
     Option.bind (Option.bind (json_get ''amount'' hold) as_u64) (\<lambda>n.
     Option.bind (Option.bind (json_get ''expires_at_ms'' hold) as_i64) (\<lambda>expires_ms.
       Some (key, JObj [(''amount'', JNum (PosInt n)), (''expires_ms'', json_i64 expires_ms)]))))"

fun collect_options :: "'a option list \<Rightarrow> 'a list option" where
  "collect_options [] = Some []"
| "collect_options (x # xs) = Option.bind x (\<lambda>y. Option.bind (collect_options xs) (\<lambda>ys. Some (y # ys)))"

definition renamed_holds :: "json \<Rightarrow> (string \<times> json) list option" where
  "renamed_holds body =
     (case json_get ''holds'' body of
        None \<Rightarrow> Some []
      | Some holds \<Rightarrow> Option.bind (as_object holds) (\<lambda>kvs. collect_options (map renamed_hold kvs)))"

record SourceRecord =
  src_id :: string
  src_body :: json
  src_created_ms :: int
  src_expires_ms :: "int option"

record TargetRecord =
  tgt_collection :: string
  tgt_id :: string
  tgt_body :: json
  tgt_created_ms :: int
  tgt_expires_ms :: "int option"

definition migrate_budget :: "SourceRecord \<Rightarrow> string + TargetRecord" where
  "migrate_budget r =
     rbind (ok_or (''legacy wallet budget document `'' @ src_id r @ ''` is malformed'') (renamed_holds (src_body r))) (\<lambda>holds.
       Inr \<lparr>tgt_collection = BUDGETS_COLLECTION, tgt_id = src_id r, tgt_body = JObj [(''holds'', JObj holds)],
            tgt_created_ms = src_created_ms r, tgt_expires_ms = src_expires_ms r\<rparr>)"

fun migrate_budgets :: "SourceRecord list \<Rightarrow> string + TargetRecord list" where
  "migrate_budgets [] = Inr []"
| "migrate_budgets (r # rs) = rbind (migrate_budget r) (\<lambda>t. rbind (migrate_budgets rs) (\<lambda>ts. Inr (t # ts)))"

section \<open>The calendar\<close>

text \<open>The reference: whole years, then whole months, then days, counted from the first of January of
  the year 0.\<close>

definition year_length :: "nat \<Rightarrow> int" where
  "year_length y = (if leap_year (int y) then 366 else 365)"

definition month_length :: "int \<Rightarrow> int \<Rightarrow> int" where
  "month_length year month = the (days_in_month year month)"

definition civil_days :: "nat \<Rightarrow> nat \<Rightarrow> nat \<Rightarrow> int" where
  "civil_days year month day =
     (\<Sum>y < year. year_length y) + (\<Sum>m \<leftarrow> [1..<month]. month_length (int year) (int m)) + int day - 1"

text \<open>Rounding up: the quotients of \<open>n\<close> and of \<open>n + 1\<close>.\<close>

lemma ceil_div:
  fixes n k :: int
  assumes "0 < k"
  shows "(n + (k - 1)) div k = n div k + (1 - (if n mod k = 0 then 1 else 0))"
proof -
  let ?r = "n mod k"
  have r: "0 \<le> ?r" "?r < k" using assms by simp_all
  have "n + (k - 1) = (?r + (k - 1)) + (n div k) * k" using div_mult_mod_eq [of n k] by linarith
  then have "(n + (k - 1)) div k = n div k + (?r + (k - 1)) div k"
    using assms by (simp only: div_mult_self1)
  moreover have "(?r + (k - 1)) div k = 1 - (if ?r = 0 then 1 else 0)"
  proof (cases "?r = 0")
    case False
    then have "?r + (k - 1) = (?r - 1) + 1 * k" "0 \<le> ?r - 1" "?r - 1 < k" using r by auto
    then show ?thesis using False assms by (simp only: div_mult_self1) simp
  qed (use assms in simp)
  ultimately show ?thesis by simp
qed

lemma ceil_succ:
  fixes n k :: int
  assumes "0 < k"
  shows "(n + 1 + (k - 1)) div k = (n + (k - 1)) div k + (if n mod k = 0 then 1 else 0)"
proof -
  have "(n + 1 + (k - 1)) div k = n div k + 1" using assms div_add_self2 [of k n] by (simp add: algebra_simps)
  then show ?thesis using ceil_div [OF assms, of n] by simp
qed

lemma floor_pred: "0 < k \<Longrightarrow> (n - 1) div k = (n + (k - 1)) div k - (1 :: int)"
  using div_add_self2 [of k "n - 1"] by (simp add: algebra_simps)

text \<open>The leap rule as three bits, of which each implies the one before.\<close>

definition leap_bit :: "int \<Rightarrow> int \<Rightarrow> int" where
  "leap_bit k y = (if y mod k = 0 then 1 else 0)"

lemma mod_dvd_0: "(y :: int) mod b = 0 \<Longrightarrow> a dvd b \<Longrightarrow> y mod a = 0"
  by (meson dvd_trans mod_0_imp_dvd dvd_imp_mod_0)

lemma nested_bits:
  "(B \<Longrightarrow> A) \<Longrightarrow> (C \<Longrightarrow> B) \<Longrightarrow>
     (if A \<and> (\<not> B \<or> C) then 1 else 0) = (if A then 1 else 0) - (if B then 1 else 0) + (if C then 1 else (0 :: int))"
  by auto

lemma leap_bits: "(if leap_year y then 1 else 0) = leap_bit 4 y - leap_bit 100 y + leap_bit 400 y"
  unfolding leap_year_def leap_bit_def
  by (rule nested_bits; erule mod_dvd_0) simp_all

lemmas ceil_bits = ceil_div [folded leap_bit_def] ceil_succ [folded leap_bit_def]

text \<open>The leap days of the years before \<open>n\<close>.\<close>

definition leap_days :: "int \<Rightarrow> int" where
  "leap_days n = (n + (4 - 1)) div 4 - (n + (100 - 1)) div 100 + (n + (400 - 1)) div 400"

lemma leap_days_succ: "leap_days (n + 1) = leap_days n + (if leap_year n then 1 else 0)"
proof -
  have alg: "(a + x) - (b + y) + (d + z) = (a - b + d) + (x - y + z :: int)" for a b d x y z by simp
  show ?thesis
    unfolding leap_days_def leap_bits ceil_bits(2) [of 4 n, OF zero_less_numeral] ceil_bits(2) [of 100 n, OF zero_less_numeral]
      ceil_bits(2) [of 400 n, OF zero_less_numeral] by (rule alg)
qed

lemma leap_days_floor: "n div 4 - n div 100 + n div 400 = leap_days n + (if leap_year n then 1 else 0) - 1"
proof -
  have alg: "a - b + d = (a + (1 - x)) - (b + (1 - y)) + (d + (1 - z)) + (x - y + z) - (1 :: int)" for a b d x y z by simp
  show ?thesis
    unfolding leap_days_def leap_bits ceil_bits(1) [of 4 n, OF zero_less_numeral] ceil_bits(1) [of 100 n, OF zero_less_numeral]
      ceil_bits(1) [of 400 n, OF zero_less_numeral] by (rule alg)
qed

lemma leap_days_pred: "(n - 1) div 4 - (n - 1) div 100 + (n - 1) div 400 = leap_days n - 1"
proof -
  have alg: "(a - 1) - (b - 1) + (d - 1) = a - b + d - (1 :: int)" for a b d by simp
  show ?thesis
    unfolding leap_days_def floor_pred [of 4 n, OF zero_less_numeral] floor_pred [of 100 n, OF zero_less_numeral]
      floor_pred [of 400 n, OF zero_less_numeral] by (rule alg)
qed

lemma years_closed: "(\<Sum>y < n. year_length y) = 365 * int n + leap_days (int n)"
proof (induction n)
  case 0
  then show ?case by (simp add: leap_days_def)
next
  case (Suc n)
  have "leap_days (int (Suc n)) = leap_days (int n) + (if leap_year (int n) then 1 else 0)"
    using leap_days_succ [of "int n"] by (simp only: of_nat_Suc add.commute)
  with Suc show ?case by (simp add: year_length_def)
qed

lemma era_split:
  fixes y :: int
  shows "y div 400 * 146097 + ((y - y div 400 * 400) * 365 + (y - y div 400 * 400) div 4 - (y - y div 400 * 400) div 100 + d)
      = 365 * y + (y div 4 - y div 100 + y div 400) + d"
proof -
  have "y = (y - y div 400 * 400) + (y div 400 * 100) * 4" "y = (y - y div 400 * 400) + (y div 400 * 4) * 100" by simp_all
  then have e: "y div 4 = y div 400 * 100 + (y - y div 400 * 400) div 4" "y div 100 = y div 400 * 4 + (y - y div 400 * 400) div 100"
    by (metis add.commute div_mult_self1 zero_neq_numeral)+
  have alg: "e * 146097 + ((y - e * 400) * 365 + q - r + d) = 365 * y + ((e * 100 + q) - (e * 4 + r) + e) + (d :: int)" for e q r by simp
  show ?thesis unfolding e by (rule alg)
qed

lemma days_from_civil_closed:
  "days_from_civil year month day =
     365 * (if month \<le> 2 then year - 1 else year) +
     (if month \<le> 2 then leap_days year - 1 else leap_days year + (if leap_year year then 1 else 0) - 1) +
     ((153 * ((month + 9) mod 12) + 2) div 5 + day - 1) - 719468"
proof (cases "month \<le> 2")
  case True
  then show ?thesis
    unfolding days_from_civil_def Let_def era_split by (simp only: leap_days_pred if_True)
next
  case False
  then show ?thesis
    unfolding days_from_civil_def Let_def era_split by (simp only: leap_days_floor if_False)
qed

lemma month_cases:
  fixes month :: nat
  assumes "1 \<le> month" and "month \<le> 12"
  shows "month \<in> {1, 2, 3, 4, 5, 6, 7, 8, 9, 10, 11, 12}"
  using assms by (simp; presburger)

lemma months_upto:
  assumes "1 \<le> month" and "month \<le> 12"
  shows "(\<Sum>m \<leftarrow> [1..<month]. month_length year (int m)) =
    (153 * ((int month + 9) mod 12) + 2) div 5 - (if month \<le> 2 then 306 else -59 - (if leap_year year then 1 else 0))"
  using month_cases [OF assms] by (elim insertE emptyE; hypsubst_thin) (simp_all add: upt_rec month_length_def days_in_month_def)

lemma month_length_le: "days_in_month year month = Some n \<Longrightarrow> n \<le> 31"
  by (auto simp: days_in_month_def split: if_splits)

text \<open>The equivalence, for every year the text can spell and every month.\<close>

lemma days_from_civil_reference:
  assumes "1 \<le> month" and "month \<le> 12"
  shows "days_from_civil (int year) (int month) (int day) = civil_days year month day - 719528"
proof -
  define m where "m = (153 * ((int month + 9) mod 12) + 2) div 5"
  show ?thesis
    unfolding days_from_civil_closed civil_days_def years_closed months_upto [OF assms] m_def [symmetric] by simp
qed

section \<open>Reading what was written\<close>

text \<open>The canonical text of an instant in UTC, with milliseconds.\<close>

definition digit_char :: "nat \<Rightarrow> char" where
  "digit_char d = char_of (48 + d)"

definition two_digits :: "nat \<Rightarrow> string" where
  "two_digits n = [digit_char (n div 10), digit_char (n mod 10)]"

definition rfc3339_text :: "nat \<Rightarrow> nat \<Rightarrow> nat \<Rightarrow> nat \<Rightarrow> nat \<Rightarrow> nat \<Rightarrow> nat \<Rightarrow> string" where
  "rfc3339_text year month day hour minute second ms =
     two_digits (year div 100) @ two_digits (year mod 100) @ ''-'' @ two_digits month @ ''-'' @ two_digits day @ ''T'' @
     two_digits hour @ '':'' @ two_digits minute @ '':'' @ two_digits second @ ''.'' @ digit_char (ms div 100) # two_digits (ms mod 100) @ ''Z''"

lemma digit_char [simp]:
  assumes "d < 10"
  shows "is_ascii_digit (digit_char d)" and "of_char (digit_char d) = 48 + d"
  using assms by (simp_all add: digit_char_def is_ascii_digit_def)

lemma of_digits [simp]:
  "n < 100 \<Longrightarrow> list_all is_ascii_digit (two_digits n)"
  "n < 100 \<Longrightarrow> foldl (\<lambda>n d. n * 10 + int (of_char d - 48)) x (two_digits n) = 100 * x + int n"
  by (simp_all add: two_digits_def digit_char of_nat_div of_nat_mod)

lemma length_two_digits [simp]: "length (two_digits n) = 2"
  by (simp add: two_digits_def)

lemma rfc_digits_append:
  assumes "s = pre @ part @ post" and "length pre = at" and "length part = len" and "list_all is_ascii_digit part"
  shows "rfc_digits s at len = Some (foldl (\<lambda>n d. n * 10 + int (of_char d - 48)) 0 part)"
  using assms by (simp add: rfc_digits_def)

lemma rfc_digits_two:
  "s = pre @ two_digits n @ post \<Longrightarrow> length pre = at \<Longrightarrow> n < 100 \<Longrightarrow> rfc_digits s at 2 = Some (int n)"
  using rfc_digits_append [of s pre "two_digits n" post at 2] by simp

lemma separator_append: "s = pre @ c # post \<Longrightarrow> length pre = at \<Longrightarrow> c \<in> set want \<Longrightarrow> separator s at want"
  by (auto simp: separator_def)

text \<open>The fields of the canonical s, each at its place.\<close>

lemma rfc3339_text_fields:
  assumes "year < 10000" "month < 100" "day < 100" "hour < 100" "minute < 100" "second < 100" "ms < 1000"
  defines "s \<equiv> rfc3339_text year month day hour minute second ms"
  shows "rfc_digits s 0 4 = Some (int year)" and "rfc_digits s 5 2 = Some (int month)"
    and "rfc_digits s 8 2 = Some (int day)" and "rfc_digits s 11 2 = Some (int hour)"
    and "rfc_digits s 14 2 = Some (int minute)" and "rfc_digits s 17 2 = Some (int second)"
proof -
  let ?date = "two_digits (year div 100) @ two_digits (year mod 100) @ ''-'' @ two_digits month @ ''-'' @ two_digits day @ ''T''"
  note t [simp] = s_def rfc3339_text_def
  show "rfc_digits s 0 4 = Some (int year)"
    using assms by (subst rfc_digits_append [of s "[]" "two_digits (year div 100) @ two_digits (year mod 100)"]) (simp_all add: of_nat_div of_nat_mod)
  show "rfc_digits s 5 2 = Some (int month)"
    by (rule rfc_digits_two [where pre = "two_digits (year div 100) @ two_digits (year mod 100) @ ''-''"]) (use assms in simp_all)
  show "rfc_digits s 8 2 = Some (int day)"
    by (rule rfc_digits_two [where pre = "two_digits (year div 100) @ two_digits (year mod 100) @ ''-'' @ two_digits month @ ''-''"])
      (use assms in simp_all)
  show "rfc_digits s 11 2 = Some (int hour)"
    by (rule rfc_digits_two [where pre = ?date]) (use assms in simp_all)
  show "rfc_digits s 14 2 = Some (int minute)"
    by (rule rfc_digits_two [where pre = "?date @ two_digits hour @ '':''"]) (use assms in simp_all)
  show "rfc_digits s 17 2 = Some (int second)"
    by (rule rfc_digits_two [where pre = "?date @ two_digits hour @ '':'' @ two_digits minute @ '':''"]) (use assms in simp_all)
qed

lemma rfc3339_text_marks:
  fixes year month day hour minute second ms :: nat
  defines "s \<equiv> rfc3339_text year month day hour minute second ms"
  shows "separator s 4 ''-'' \<and> separator s 7 ''-'' \<and> separator s 10 ''Tt '' \<and> separator s 13 '':'' \<and> separator s 16 '':''"
  by (simp add: s_def rfc3339_text_def separator_def two_digits_def)

lemma rfc3339_text_tail:
  fixes year month day hour minute second ms :: nat
  assumes "ms < 1000"
  defines "s \<equiv> rfc3339_text year month day hour minute second ms"
  shows "rfc_fraction s 19 = Some (23, int ms)" and "rfc_offset s 23 = Some 0"
proof -
  let ?digits = "digit_char (ms div 100) # two_digits (ms mod 100)"
  have d: "drop 20 s = ?digits @ ''Z''" "s ! 19 = CHR ''.''" "length s = 24" "s ! 23 = CHR ''Z''"
    by (simp_all add: s_def rfc3339_text_def two_digits_def)
  have "takeWhile is_ascii_digit (?digits @ ''Z'') = ?digits"
    using assms by (simp add: two_digits_def digit_char) (simp add: is_ascii_digit_def)
  moreover have "ms = 100 * (ms div 100) + 10 * (ms mod 100 div 10) + ms mod 100 mod 10" by simp
  then have "int ms = 100 * int (ms div 100) + 10 * int (ms mod 100 div 10) + int (ms mod 100 mod 10)" by linarith
  ultimately show "rfc_fraction s 19 = Some (23, int ms)"
    using assms d by (simp add: rfc_fraction_def Let_def) (simp add: two_digits_def digit_char del: of_nat_div of_nat_mod)
  show "rfc_offset s 23 = Some 0" using d by (simp add: rfc_offset_def)
qed

text \<open>
  The text of an instant is read back as its epoch milliseconds, counted over whole years, whole
  months and days of the calendar, for every year the text can spell.
\<close>

theorem parse_rfc3339_ms_calendar:
  assumes "year < 10000" and "1 \<le> month" and "month \<le> 12" and "1 \<le> day" and "int day \<le> month_length (int year) (int month)"
    and "hour < 24" and "minute < 60" and "second \<le> 60" and "ms < 1000"
  shows "parse_rfc3339_ms (rfc3339_text year month day hour minute second ms) =
    Some ((((civil_days year month day - 719528) * 24 + int hour) * 60 + int minute) * 60000 + int second * 1000 + int ms)"
proof -
  have dim: "days_in_month (int year) (int month) = Some (month_length (int year) (int month))"
    using month_cases [OF assms(2,3)] by (auto simp: month_length_def days_in_month_def)
  moreover have "day < 100" using assms(5) month_length_le [OF dim] by linarith
  ultimately show ?thesis
    using assms rfc3339_text_fields [of year month day hour minute second ms] rfc3339_text_marks rfc3339_text_tail [OF assms(9)]
    by (simp add: parse_rfc3339_ms_def Let_def days_from_civil_reference)
qed

theorem parse_rfc3339_ms_calendar_witness:
  "parse_rfc3339_ms ''2024-02-29T12:30:00.250Z'' = Some ((((civil_days 2024 2 29 - 719528) * 24 + 12) * 60 + 30) * 60000 + 250)"
  using parse_rfc3339_ms_calendar [of 2024 2 29 12 30 0 250]
  by (simp add: month_length_def days_in_month_def leap_year_def rfc3339_text_def two_digits_def digit_char_def char_of_def bit_0)

section \<open>No hold is lost\<close>

text \<open>The hold a document records under a key, its expiry being spelled \<open>field\<close>.\<close>

definition hold_at :: "string \<Rightarrow> string \<Rightarrow> json \<Rightarrow> (u64 \<times> int) option" where
  "hold_at field key body =
     Option.bind (Option.bind (json_get ''holds'' body) (json_get key)) (\<lambda>hold.
     Option.bind (Option.bind (json_get ''amount'' hold) as_u64) (\<lambda>n.
     Option.bind (Option.bind (json_get field hold) as_i64) (\<lambda>e. Some (n, e))))"

definition hold_ok :: "json \<Rightarrow> bool" where
  "hold_ok hold \<longleftrightarrow> Option.bind (json_get ''amount'' hold) as_u64 \<noteq> None \<and> Option.bind (json_get ''expires_at_ms'' hold) as_i64 \<noteq> None"

definition holds_ok :: "json \<Rightarrow> bool" where
  "holds_ok body = (case json_get ''holds'' body of None \<Rightarrow> True | Some (JObj kvs) \<Rightarrow> list_all (hold_ok \<circ> snd) kvs | Some _ \<Rightarrow> False)"

lemma collect_options_map: "collect_options (map Some ys) = Some ys"
  by (induction ys) simp_all

lemma collect_options_Some: "collect_options xs = Some ys \<longleftrightarrow> xs = map Some ys"
proof
  show "collect_options xs = Some ys \<Longrightarrow> xs = map Some ys"
    by (induction xs arbitrary: ys) (auto split: Option.bind_splits)
qed (simp add: collect_options_map)

lemma renamed_hold_Some:
  "renamed_hold kv = Some kv' \<longleftrightarrow> (\<exists>n e. Option.bind (json_get ''amount'' (snd kv)) as_u64 = Some n \<and>
     Option.bind (json_get ''expires_at_ms'' (snd kv)) as_i64 = Some e \<and>
     kv' = (fst kv, JObj [(''amount'', JNum (PosInt n)), (''expires_ms'', json_i64 e)]))"
  by (auto simp: renamed_hold_def split: prod.splits Option.bind_splits)

lemma renamed_hold_ok: "(\<exists>kv'. renamed_hold kv = Some kv') \<longleftrightarrow> hold_ok (snd kv)"
  by (auto simp: renamed_hold_Some hold_ok_def)

lemma renamed_map_of:
  assumes "map renamed_hold kvs = map Some kvs'"
  shows "map_of kvs' key = Option.bind (map_of kvs key) (\<lambda>hold. map_option snd (renamed_hold (key, hold)))"
  using assms
proof (induction kvs arbitrary: kvs')
  case (Cons kv kvs)
  then obtain kv' rest where s: "kvs' = kv' # rest" "renamed_hold kv = Some kv'" "map renamed_hold kvs = map Some rest" by auto
  then have "fst kv' = fst kv" "renamed_hold (fst kv, snd kv) = Some kv'" by (auto simp: renamed_hold_Some)
  with s Cons.IH [of rest] show ?case by (cases kv; cases kv') auto
qed simp

lemma renamed_holds_total: "(\<exists>holds. renamed_holds body = Some holds) \<longleftrightarrow> holds_ok body"
proof -
  have "(\<exists>ys. map renamed_hold kvs = map Some ys) \<longleftrightarrow> list_all (hold_ok \<circ> snd) kvs" for kvs
    by (induction kvs) (auto simp: Cons_eq_map_conv map_eq_Cons_conv renamed_hold_ok [symmetric])
  then show ?thesis
    by (auto simp: renamed_holds_def holds_ok_def collect_options_Some split: option.splits json.splits)
qed

lemma renamed_holds_keep:
  assumes "renamed_holds body = Some holds"
  shows "hold_at ''expires_ms'' key (JObj [(''holds'', JObj holds)]) = hold_at ''expires_at_ms'' key body"
proof (cases "json_get ''holds'' body")
  case s: (Some v)
  then obtain kvs where v: "v = JObj kvs" "map renamed_hold kvs = map Some holds"
    using assms by (cases v) (auto simp: renamed_holds_def collect_options_Some)
  have rt: "Option.bind (json_get ''expires_at_ms'' hold) as_i64 = Some e \<Longrightarrow> as_i64 (json_i64 e) = Some e" for hold e
    by (auto intro: as_i64_json_i64 as_i64_range split: Option.bind_splits)
  have ren: "\<exists>kv'. renamed_hold (key, hold) = Some kv'" if "map_of kvs key = Some hold" for hold
    using map_of_SomeD [OF that] v(2) by (metis (no_types, lifting) in_set_conv_nth length_map nth_map)
  show ?thesis
  proof (cases "map_of kvs key")
    case (Some hold)
    with renamed_map_of [OF v(2), of key] ren [OF Some]
    obtain kv' where kv: "renamed_hold (key, hold) = Some kv'" "map_of holds key = Some (snd kv')" by auto
    then obtain n e where "Option.bind (json_get ''amount'' hold) as_u64 = Some n"
      "Option.bind (json_get ''expires_at_ms'' hold) as_i64 = Some e"
      "snd kv' = JObj [(''amount'', JNum (PosInt n)), (''expires_ms'', json_i64 e)]"
      by (auto simp: renamed_hold_Some)
    with Some kv v s rt show ?thesis by (auto simp: hold_at_def Option.bind_eq_Some_conv)
  qed (use v s renamed_map_of [OF v(2), of key] in \<open>simp add: hold_at_def\<close>)
qed (use assms in \<open>simp add: renamed_holds_def hold_at_def\<close>)

lemma migrate_budget_Inr:
  "migrate_budget r = Inr t \<longleftrightarrow> (\<exists>holds. renamed_holds (src_body r) = Some holds \<and>
     t = \<lparr>tgt_collection = BUDGETS_COLLECTION, tgt_id = src_id r, tgt_body = JObj [(''holds'', JObj holds)],
          tgt_created_ms = src_created_ms r, tgt_expires_ms = src_expires_ms r\<rparr>)"
  by (cases "renamed_holds (src_body r)") (auto simp: migrate_budget_def)

lemma migrate_budget_keeps:
  "migrate_budget r = Inr t \<Longrightarrow> tgt_collection t = BUDGETS_COLLECTION \<and> tgt_id t = src_id r \<and>
     tgt_created_ms t = src_created_ms r \<and> tgt_expires_ms t = src_expires_ms r \<and>
     (\<forall>key. hold_at ''expires_ms'' key (tgt_body t) = hold_at ''expires_at_ms'' key (src_body r))"
  by (auto simp: migrate_budget_Inr renamed_holds_keep)

lemma migrate_budgets_Inr: "migrate_budgets batch = Inr targets \<longleftrightarrow> list_all2 (\<lambda>r t. migrate_budget r = Inr t) batch targets"
proof (induction batch arbitrary: targets)
  case (Cons r rs)
  then show ?case
    by (cases "migrate_budget r"; cases "migrate_budgets rs") (auto simp: list_all2_Cons1)
qed auto

text \<open>
  C35: the migration of the hold documents succeeds exactly when every hold of every document has an
  integer amount and expiry, and then gives one document per document, under the same id and with the
  same lifetime, which records under every key the same amount and expiry: no reservation is dropped.
\<close>

theorem migrate_budgets_keeps_holds:
  "if list_all (holds_ok \<circ> src_body) batch
   then \<exists>targets. migrate_budgets batch = Inr targets \<and>
     list_all2 (\<lambda>r t. tgt_collection t = BUDGETS_COLLECTION \<and> tgt_id t = src_id r \<and>
       tgt_created_ms t = src_created_ms r \<and> tgt_expires_ms t = src_expires_ms r \<and>
       (\<forall>key. hold_at ''expires_ms'' key (tgt_body t) = hold_at ''expires_at_ms'' key (src_body r))) batch targets
   else \<exists>e. migrate_budgets batch = Inl e"
proof (cases "list_all (holds_ok \<circ> src_body) batch")
  case True
  then have "\<exists>targets. list_all2 (\<lambda>r t. migrate_budget r = Inr t) batch targets"
    by (induction batch) (auto simp: migrate_budget_Inr list_all2_Cons1 renamed_holds_total [symmetric])
  then obtain targets where t: "migrate_budgets batch = Inr targets" by (auto simp: migrate_budgets_Inr)
  then have l: "list_all2 (\<lambda>r t. migrate_budget r = Inr t) batch targets" by (simp only: migrate_budgets_Inr)
  show ?thesis
    unfolding if_P [OF True] by (intro exI conjI, rule t, rule list_all2_mono [OF l], erule migrate_budget_keeps)
next
  case False
  then obtain r where r: "r \<in> set batch" "\<not> holds_ok (src_body r)" by (auto simp: list_all_iff)
  from r(1) obtain i where i: "i < length batch" "batch ! i = r" by (auto simp: in_set_conv_nth)
  have "migrate_budget r = Inr (targets ! i)" if "migrate_budgets batch = Inr targets" for targets
    using list_all2_nthD [OF that [unfolded migrate_budgets_Inr] i(1)] i(2) by simp
  then have "migrate_budgets batch \<noteq> Inr targets" for targets
    using r(2) by (auto simp: migrate_budget_Inr renamed_holds_total [symmetric])
  then show ?thesis using False by (cases "migrate_budgets batch") auto
qed

end
