(* ===== verification/TW_Types.thy ===== *)
theory TW_Types
  imports TW_Prelude
begin

text \<open>
  The vocabulary every chain component speaks: \<open>Chain\<close> and its textual form, the address
  errors of \<open>tinywallet-bus\<close>, the transaction errors of \<open>tinywallet-crypto\<close> and
  \<open>TronTransfer\<close>. A Rust panic inside a function that returns a transaction result is the
  extra constructor \<open>TxPanic\<close>.
\<close>

datatype Chain = Btc | Evm | Solana | Tron

definition Chain_ALL :: "Chain list" where
  "Chain_ALL = [Btc, Evm, Solana, Tron]"

fun chain_as_str :: "Chain \<Rightarrow> string" where
  "chain_as_str Btc = ''btc''"
| "chain_as_str Evm = ''evm''"
| "chain_as_str Solana = ''solana''"
| "chain_as_str Tron = ''tron''"

definition chain_from_str :: "string \<Rightarrow> string + Chain" where
  "chain_from_str s =
     (let t = to_ascii_lowercase (trim s) in
      if t = ''btc'' \<or> t = ''bitcoin'' then Inr Btc
      else if t = ''evm'' \<or> t = ''eth'' \<or> t = ''ethereum'' then Inr Evm
      else if t = ''solana'' \<or> t = ''sol'' then Inr Solana
      else if t = ''tron'' \<or> t = ''trx'' then Inr Tron
      else Inl t)"

datatype Error =
    EmptyAddress Chain
  | InvalidAddress Chain string string
  | WrongNetwork Chain string string string
  | UnsupportedAddressType Chain string string
  | ChainNotCompiled Chain

text \<open>The \<open>Display\<close> of an address error; a chain displays as its name.\<close>

fun error_to_string :: "Error \<Rightarrow> string" where
  "error_to_string (EmptyAddress chain) = chain_as_str chain @ '' address is empty''"
| "error_to_string (InvalidAddress chain address reason) =
     ''invalid '' @ chain_as_str chain @ '' address '' @ [CHR 0x27] @ address @ [CHR 0x27] @ '': '' @ reason"
| "error_to_string (WrongNetwork chain address expected reason) =
     chain_as_str chain @ '' address '' @ [CHR 0x27] @ address @ [CHR 0x27] @ '' is not on '' @ expected @ '': '' @ reason"
| "error_to_string (UnsupportedAddressType chain address reason) =
     chain_as_str chain @ '' address '' @ [CHR 0x27] @ address @ [CHR 0x27] @
     '' is not supported as a sender: '' @ reason"
| "error_to_string (ChainNotCompiled chain) =
     ''tinywallet was built without support for '' @ chain_as_str chain @ ''; enable the '' @
     [CHR 0x27] @ chain_as_str chain @ [CHR 0x27] @ '' feature to validate its addresses''"

datatype tx_error =
    TxAddress Error
  | InvalidField string string
  | InsufficientFunds u64 u64
  | UntrustedResponse string
  | Signing string
  | TxPanic

datatype TronTransfer = NativeSun u64 | Trc20 string

lemma chain_from_as_str: "chain_from_str (chain_as_str c) = Inr c"
  by (cases c; simp only:; code_simp)

lemma chain_as_str_inject: "chain_as_str c = chain_as_str d \<longleftrightarrow> c = d"
  by (cases c; cases d; simp)

end
