(* ===== verification/TW_Proto.thy ===== *)
theory TW_Proto
  imports TW_Types
begin

text \<open>
  The structural protobuf reader of \<open>tinywallet-crypto/src/tx/proto.rs\<close>: varints, the flat
  message parser and the singular accessors. The interface \<open>prefix_codec\<close> is the law a
  self-delimiting encoding satisfies; varints and whole fields are instances of it.
\<close>

section \<open>Self-delimiting encodings\<close>

locale prefix_codec =
  fixes enc :: "'a \<Rightarrow> bytes"
    and dec :: "bytes \<Rightarrow> 'e + ('a \<times> bytes)"
    and ok :: "'a \<Rightarrow> bool"
  assumes dec_enc: "ok x \<Longrightarrow> dec (enc x @ rest) = Inr (x, rest)"
begin

lemma enc_append_inject:
  assumes "ok x" and "ok y" and "enc x @ r = enc y @ s"
  shows "x = y \<and> r = s"
proof -
  have "dec (enc x @ r) = Inr (x, r)" "dec (enc x @ r) = Inr (y, s)"
    using dec_enc [OF assms(1), of r] dec_enc [OF assms(2), of s] by (simp_all only: assms(3))
  then have "(Inr (x, r) :: 'e + 'a \<times> bytes) = Inr (y, s)" by (rule trans [OF sym])
  then show ?thesis by simp
qed

lemma enc_prefix_free: "ok x \<Longrightarrow> ok y \<Longrightarrow> prefix (enc x) (enc y) \<Longrightarrow> x = y"
  using enc_append_inject [of x y _ "[]"] by (auto simp: prefix_def)

lemma concat_enc_inject:
  assumes "\<forall>x \<in> set xs. ok x" and "\<forall>y \<in> set ys. ok y" and "length xs = length ys"
    and "concat (map enc xs) @ r = concat (map enc ys) @ s"
  shows "xs = ys \<and> r = s"
  using assms(3,1,2,4)
proof (induction xs ys rule: list_induct2)
  case (Cons x xs y ys)
  from Cons.prems have "x = y \<and> concat (map enc xs) @ r = concat (map enc ys) @ s"
    by (intro enc_append_inject) simp_all
  with Cons.IH Cons.prems show ?case by simp
qed simp

end

section \<open>Model\<close>

datatype Value = Varint u64 | Bytes bytes | OtherValue

record Field =
  fld_number :: u64
  fld_value :: Value

definition invalid :: "string \<Rightarrow> tx_error" where
  "invalid reason = InvalidField ''protobuf'' reason"

function encode_varint :: "u64 \<Rightarrow> bytes" where
  "encode_varint value =
     (let byte = (ucast (value AND 0x7f) :: u8); rest = drop_bit 7 value in
      if rest \<noteq> 0 then (byte OR 0x80) # encode_varint rest else [byte])"
  by pat_completeness auto
termination
proof (relation "measure unat")
  fix v :: u64 and byte :: u8 and rest :: u64
  assume "rest = drop_bit 7 v" and "rest \<noteq> 0"
  then show "(rest, v) \<in> measure unat"
    by (auto simp: unat_drop_bit word_unat_eq_iff)
qed simp

declare encode_varint.simps [simp del]

text \<open>The loop \<open>for shift in (0..=63).step_by(7)\<close>, over the shifts that are left.\<close>

fun take_varint_loop :: "nat list \<Rightarrow> u64 \<Rightarrow> bytes \<Rightarrow> tx_error + (u64 \<times> bytes)" where
  "take_varint_loop [] value input = Inl (invalid ''varint is too long'')"
| "take_varint_loop (shift # shifts) value [] = Inl (invalid ''truncated varint'')"
| "take_varint_loop (shift # shifts) value (byte # input) =
     (let part = (ucast (byte AND 0x7f) :: u64) in
      if shift = 63 \<and> part > 1 then Inl (invalid ''varint overflows u64'')
      else let value = value OR push_bit shift part in
           if byte AND 0x80 = 0 then Inr (value, input)
           else take_varint_loop shifts value input)"

definition take_varint :: "bytes \<Rightarrow> tx_error + (u64 \<times> bytes)" where
  "take_varint input = take_varint_loop [0, 7, 14, 21, 28, 35, 42, 49, 56, 63] 0 input"

definition take_exact :: "bytes \<Rightarrow> nat \<Rightarrow> tx_error + (bytes \<times> bytes)" where
  "take_exact input len =
     (if length input < len then Inl (invalid ''truncated field'')
      else Inr (take len input, drop len input))"

text \<open>One turn of the loop of \<open>parse_fields\<close>, and the loop. On a 64-bit target the length
  conversion \<open>usize::try_from\<close> cannot fail.\<close>

definition take_field :: "bytes \<Rightarrow> tx_error + (Field \<times> bytes)" where
  "take_field input =
     rbind (take_varint input) (\<lambda>(key, input).
       let number = drop_bit 3 key; wire = key AND 0x07 in
       if number = 0 then Inl (invalid ''contains field zero'')
       else if wire = 0 then
         rbind (take_varint input) (\<lambda>(v, input).
           Inr (\<lparr>fld_number = number, fld_value = Varint v\<rparr>, input))
       else if wire = 1 then
         rbind (take_exact input 8) (\<lambda>(_, input).
           Inr (\<lparr>fld_number = number, fld_value = OtherValue\<rparr>, input))
       else if wire = 2 then
         rbind (take_varint input) (\<lambda>(len, input).
           rbind (take_exact input (unat len)) (\<lambda>(bs, input).
             Inr (\<lparr>fld_number = number, fld_value = Bytes bs\<rparr>, input)))
       else if wire = 5 then
         rbind (take_exact input 4) (\<lambda>(_, input).
           Inr (\<lparr>fld_number = number, fld_value = OtherValue\<rparr>, input))
       else Inl (invalid (''unsupported wire type '' @ show_nat (unat wire))))"

lemma take_varint_loop_shrinks:
  "take_varint_loop shifts v input = Inr (x, rest) \<Longrightarrow> length rest < length input"
  by (induction shifts v input rule: take_varint_loop.induct)
    (fastforce simp: Let_def split: if_splits intro: less_SucI)+

lemma take_varint_shrinks: "take_varint input = Inr (x, rest) \<Longrightarrow> length rest < length input"
  by (simp add: take_varint_def take_varint_loop_shrinks)

lemma take_exact_shrinks: "take_exact input n = Inr (x, rest) \<Longrightarrow> length rest \<le> length input"
  by (auto simp: take_exact_def split: if_splits)

lemma take_field_shrinks: "take_field input = Inr (f, rest) \<Longrightarrow> length rest < length input"
  by (auto simp: take_field_def result_simps Let_def split: if_splits
      dest!: take_varint_shrinks take_exact_shrinks)

lemma rbind_cong [fundef_cong]:
  "r = r' \<Longrightarrow> (\<And>x. r' = Inr x \<Longrightarrow> f x = g x) \<Longrightarrow> rbind r f = rbind r' g"
  by (cases r') auto

function parse_fields :: "bytes \<Rightarrow> tx_error + Field list" where
  "parse_fields input =
     (if input = [] then Inr []
      else rbind (take_field input) (\<lambda>(f, input).
             rbind (parse_fields input) (\<lambda>fs. Inr (f # fs))))"
  by pat_completeness auto
termination
  by (relation "measure length") (auto dest: take_field_shrinks)

declare parse_fields.simps [simp del]

text \<open>The singular accessors: exactly one field, or a refusal.\<close>

definition single :: "Field list \<Rightarrow> u64 \<Rightarrow> string \<Rightarrow> tx_error + Value" where
  "single flds number name =
     (case filter (\<lambda>f. fld_number f = number) flds of
        [] \<Rightarrow> Inl (invalid (''is missing '' @ name))
      | [f] \<Rightarrow> Inr (fld_value f)
      | _ \<Rightarrow> Inl (invalid (''repeats singular field '' @ name)))"

definition one_bytes :: "Field list \<Rightarrow> u64 \<Rightarrow> string \<Rightarrow> tx_error + bytes" where
  "one_bytes flds number name =
     rbind (single flds number name) (\<lambda>v.
       case v of Bytes b \<Rightarrow> Inr b
       | _ \<Rightarrow> Inl (invalid (''field '' @ name @ '' has the wrong wire type'')))"

definition optional_varint :: "Field list \<Rightarrow> u64 \<Rightarrow> string \<Rightarrow> tx_error + u64 option" where
  "optional_varint flds number name =
     (case filter (\<lambda>f. fld_number f = number) flds of
        [] \<Rightarrow> Inr None
      | [f] \<Rightarrow> (case fld_value f of
                 Varint v \<Rightarrow> Inr (Some v)
               | _ \<Rightarrow> Inl (invalid (''field '' @ name @ '' has the wrong wire type'')))
      | _ \<Rightarrow> Inl (invalid (''repeats singular field '' @ name)))"

definition one_varint :: "Field list \<Rightarrow> u64 \<Rightarrow> string \<Rightarrow> tx_error + u64" where
  "one_varint flds number name =
     rbind (optional_varint flds number name) (ok_or (invalid (''is missing '' @ name)))"

section \<open>Varints round-trip\<close>

lemma bit_varint_masks: "bit (0x7f :: int) n \<longleftrightarrow> n < 7" "bit (0x80 :: int) n \<longleftrightarrow> n = 7"
proof -
  have m: "(0x7f :: int) = mask 7" "(0x80 :: int) = 2 ^ 7"
    by (simp_all add: mask_eq_exp_minus_1)
  show "bit (0x7f :: int) n \<longleftrightarrow> n < 7"
    unfolding m by (auto simp: bit_mask_iff)
  show "bit (0x80 :: int) n \<longleftrightarrow> n = 7"
    unfolding m bit_exp_iff by auto
qed

lemma varint_byte_low:
  "(ucast ((ucast (v AND 0x7f) :: u8) AND 0x7f) :: u64) = v AND 0x7f"
  "(ucast (((ucast (v AND 0x7f) :: u8) OR 0x80) AND 0x7f) :: u64) = v AND 0x7f"
  by (rule bit_word_eqI, auto simp: bit_simps bit_varint_masks)+

lemma varint_byte_high:
  "(ucast (v AND 0x7f :: u64) :: u8) AND 0x80 = 0"
  "((ucast (v AND 0x7f :: u64) :: u8) OR 0x80) AND 0x80 \<noteq> 0"
proof -
  show "(ucast (v AND 0x7f :: u64) :: u8) AND 0x80 = 0"
    by (rule bit_word_eqI) (auto simp: bit_simps bit_varint_masks)
  have "bit (((ucast (v AND 0x7f :: u64) :: u8) OR 0x80) AND 0x80) 7"
    by (simp add: bit_simps bit_varint_masks)
  then show "((ucast (v AND 0x7f :: u64) :: u8) OR 0x80) AND 0x80 \<noteq> 0"
    by auto
qed

lemma varint_accumulate:
  "take_bit k x OR push_bit k (drop_bit k x AND 0x7f) = take_bit (k + 7) (x :: u64)"
  by (rule bit_word_eqI) (auto simp: bit_simps bit_varint_masks)

lemma drop_bit_0_take_bit: "drop_bit k (x :: u64) = 0 \<Longrightarrow> take_bit k x = x"
  using bits_ident [of k x] by simp

lemma drop_bit_63_le: "drop_bit 63 (x :: u64) AND 0x7f \<le> 1"
proof -
  have "unat x < 2 * 2 ^ 63" using unsigned_less [of x] by simp
  then have "unat x div 2 ^ 63 < 2" by (rule less_mult_imp_div_less)
  then have "unat (drop_bit 63 x) \<le> 1" by (simp add: unat_drop_bit)
  then have "drop_bit 63 x \<le> 1" by (simp add: word_le_nat_alt)
  then show ?thesis by (meson order_trans word_and_le2)
qed

text \<open>One turn of the decoder on a byte the encoder wrote.\<close>

lemma take_varint_loop_last:
  assumes "\<not> (k = 63 \<and> y AND 0x7f > 1)"
  shows "take_varint_loop (k # ks) v (ucast (y AND 0x7f) # input) = Inr (v OR push_bit k (y AND 0x7f), input)"
  using assms by (simp only: take_varint_loop.simps Let_def varint_byte_low varint_byte_high if_False if_True refl)

lemma take_varint_loop_more:
  assumes "\<not> (k = 63 \<and> y AND 0x7f > 1)"
  shows "take_varint_loop (k # ks) v ((ucast (y AND 0x7f) OR 0x80) # input) =
    take_varint_loop ks (v OR push_bit k (y AND 0x7f)) input"
  using assms by (simp only: take_varint_loop.simps Let_def varint_byte_low varint_byte_high if_False if_True refl)

lemma encode_varint_drop:
  "encode_varint (drop_bit k x) =
     (if drop_bit (k + 7) x = 0 then [ucast (drop_bit k x AND 0x7f)]
      else (ucast (drop_bit k x AND 0x7f) OR 0x80) # encode_varint (drop_bit (k + 7) x))"
proof -
  have "drop_bit 7 (drop_bit k x) = drop_bit (k + 7) x" by (simp add: add.commute)
  then show ?thesis by (simp only: encode_varint.simps [of "drop_bit k x"] Let_def) simp
qed

lemma take_varint_loop_encode:
  assumes "k = 7 * j" and "shifts = map (\<lambda>i. 7 * i) [j..<10]" and "j < 10"
  shows "take_varint_loop shifts (take_bit k x) (encode_varint (drop_bit k x) @ rest) = Inr (x, rest)"
  using assms
proof (induction "9 - j" arbitrary: shifts k j)
  case 0
  then have "j = 9" by simp
  with 0 have k: "k = 63" and sh: "shifts = [k]" by (auto simp: upt_rec)
  have z: "drop_bit (k + 7) x = 0" by (rule bit_word_eqI) (simp add: bit_simps k)
  have no_ovf: "\<not> (k = 63 \<and> drop_bit k x AND 0x7f > 1)"
    using drop_bit_63_le [of x] k by (simp only: not_less simp_thms)
  show ?case
    unfolding sh encode_varint_drop [of k x]
    by (simp only: z simp_thms if_True append.simps take_varint_loop_last [OF no_ovf] varint_accumulate
        drop_bit_0_take_bit [OF z])
next
  case (Suc d)
  then have j: "Suc j < 10" and sh: "shifts = k # map (\<lambda>i. 7 * i) [Suc j..<10]"
    by (auto simp: upt_rec [of j])
  have no_ovf: "\<not> (k = 63 \<and> drop_bit k x AND 0x7f > 1)" using Suc.prems(1) j by auto
  have IH: "take_varint_loop (map (\<lambda>i. 7 * i) [Suc j..<10]) (take_bit (k + 7) x)
      (encode_varint (drop_bit (k + 7) x) @ rest) = Inr (x, rest)"
    by (rule Suc.hyps(1) [where j = "Suc j"]) (use Suc in auto)
  show ?case
  proof (cases "drop_bit (k + 7) x = 0")
    case True
    then show ?thesis
      unfolding sh encode_varint_drop [of k x]
      by (simp only: simp_thms if_True append.simps take_varint_loop_last [OF no_ovf] varint_accumulate
          drop_bit_0_take_bit)
  next
    case False
    then show ?thesis
      unfolding sh encode_varint_drop [of k x]
      by (simp only: if_False append.simps take_varint_loop_more [OF no_ovf] varint_accumulate IH)
  qed
qed

lemma take_varint_encode [simp]: "take_varint (encode_varint x @ rest) = Inr (x, rest)"
proof -
  have "[0, 7, 14, 21, 28, 35, 42, 49, 56, 63] = map (\<lambda>i. 7 * i) [0..<10]"
    by (simp add: upt_rec)
  from take_varint_loop_encode [of 0 0, OF _ this, of x rest] show ?thesis
    by (simp add: take_varint_def)
qed

interpretation varint: prefix_codec encode_varint take_varint "\<lambda>_. True"
  by unfold_locales simp

section \<open>Messages round-trip\<close>

text \<open>
  The specification side: the canonical encoding of a field that holds a varint or a byte run.
  A field number has 61 bits, since the key carries the wire type in its low three.
\<close>

definition field_key :: "u64 \<Rightarrow> u64 \<Rightarrow> u64" where
  "field_key number wire = 8 * number + wire"

fun encode_field :: "Field \<Rightarrow> bytes" where
  "encode_field f =
     (case fld_value f of
        Varint v \<Rightarrow> encode_varint (field_key (fld_number f) 0) @ encode_varint v
      | Bytes bs \<Rightarrow> encode_varint (field_key (fld_number f) 2) @
                    encode_varint (of_nat (length bs)) @ bs
      | OtherValue \<Rightarrow> encode_varint (field_key (fld_number f) 1) @ replicate 8 0)"

definition field_ok :: "Field \<Rightarrow> bool" where
  "field_ok f \<longleftrightarrow>
     fld_number f \<noteq> 0 \<and> unat (fld_number f) < 2 ^ 61 \<and>
     (case fld_value f of Bytes bs \<Rightarrow> length bs < 2 ^ 64 | _ \<Rightarrow> True)"

definition encode_message :: "Field list \<Rightarrow> bytes" where
  "encode_message fs = concat (map encode_field fs)"

lemma unat_field_key:
  assumes "wire < 8" and "unat number < 2 ^ 61"
  shows "unat (field_key number wire) = 8 * unat number + unat wire"
proof -
  have "unat wire < 8" using assms(1) by (simp add: word_less_nat_alt)
  with assms(2) have "8 * unat number + unat wire < 2 ^ 64" by simp
  then show ?thesis
    by (simp add: field_key_def unat_word_ariths)
qed

lemma u64_and_7: "unat (x AND 7 :: u64) = unat x mod 8"
proof -
  have "(7 :: u64) = mask 3" by (simp add: mask_eq_exp_minus_1)
  then have "x AND 7 = take_bit 3 x" by (simp only: take_bit_eq_mask)
  then show ?thesis by (simp only: unsigned_take_bit_eq) (simp add: take_bit_eq_mod)
qed

lemma field_key_parts:
  assumes "wire < 8" and "unat number < 2 ^ 61"
  shows "drop_bit 3 (field_key number wire) = number" "field_key number wire AND 0x07 = wire"
proof -
  have "unat wire < 8" using assms(1) by (simp add: word_less_nat_alt)
  then show "drop_bit 3 (field_key number wire) = number" "field_key number wire AND 0x07 = wire"
    by (simp_all only: word_unat_eq_iff unat_drop_bit u64_and_7 unat_field_key [OF assms]) simp_all
qed

lemma take_exact_append [simp]: "length bs = n \<Longrightarrow> take_exact (bs @ rest) n = Inr (bs, rest)"
  by (auto simp: take_exact_def)

lemma take_field_encode: "field_ok f \<Longrightarrow> take_field (encode_field f @ rest) = Inr (f, rest)"
proof -
  assume ok: "field_ok f"
  then have n: "unat (fld_number f) < 2 ^ 61" "fld_number f \<noteq> 0" by (auto simp: field_ok_def)
  have key: "take_varint (encode_varint (field_key (fld_number f) w) @ r) =
      Inr (field_key (fld_number f) w, r)" for w r
    by simp
  show ?thesis
  proof (cases "fld_value f")
    case (Bytes bs)
    with ok have "unat (of_nat (length bs) :: u64) = length bs"
      by (simp add: field_ok_def unat_of_nat)
    with Bytes n show ?thesis
      by (simp add: take_field_def Let_def field_key_parts)
  next
    case OtherValue
    with n show ?thesis
      by (simp add: take_field_def Let_def field_key_parts)
  next
    case (Varint v)
    with n show ?thesis
      by (simp add: take_field_def Let_def field_key_parts)
  qed
qed

interpretation field: prefix_codec encode_field take_field field_ok
  by unfold_locales (rule take_field_encode)

lemma encode_varint_nonempty: "encode_varint v \<noteq> []"
  by (subst encode_varint.simps) (simp add: Let_def)

lemma encode_field_nonempty: "encode_field f \<noteq> []"
  by (cases "fld_value f") (auto simp: encode_varint_nonempty)

lemma parse_fields_encode: "\<forall>f \<in> set fs. field_ok f \<Longrightarrow> parse_fields (encode_message fs) = Inr fs"
proof (induction fs)
  case Nil
  show ?case by (simp add: encode_message_def parse_fields.simps)
next
  case (Cons f fs)
  have "encode_message (f # fs) = encode_field f @ encode_message fs"
    by (simp add: encode_message_def)
  with Cons show ?case
    by (subst parse_fields.simps) (simp add: encode_field_nonempty field.dec_enc del: encode_field.simps)
qed

section \<open>The singular accessors\<close>

definition occurrences :: "Field list \<Rightarrow> u64 \<Rightarrow> Field list" where
  "occurrences fs number = filter (\<lambda>f. fld_number f = number) fs"

lemma one_bytes_Inr:
  "one_bytes fs n name = Inr b \<longleftrightarrow> (\<exists>f. occurrences fs n = [f] \<and> fld_value f = Bytes b)"
  by (auto simp: one_bytes_def single_def occurrences_def result_simps
      split: list.splits Value.splits)

lemma optional_varint_Inr:
  "optional_varint fs n name = Inr v \<longleftrightarrow>
     (case v of None \<Rightarrow> occurrences fs n = []
      | Some x \<Rightarrow> (\<exists>f. occurrences fs n = [f] \<and> fld_value f = Varint x))"
  by (auto simp: optional_varint_def occurrences_def
      split: list.splits Value.splits option.splits)

lemma one_varint_Inr:
  "one_varint fs n name = Inr x \<longleftrightarrow> (\<exists>f. occurrences fs n = [f] \<and> fld_value f = Varint x)"
  by (auto simp: one_varint_def result_simps optional_varint_Inr split: option.splits)

lemma occurrences_simps [simp]:
  "occurrences [] n = []"
  "occurrences (f # fs) n = (if fld_number f = n then f # occurrences fs n else occurrences fs n)"
  by (simp_all add: occurrences_def)

lemma occurrences_append [simp]: "occurrences (fs @ gs) n = occurrences fs n @ occurrences gs n"
  by (simp add: occurrences_def)

end
