(* ===== verification/TW_Address.thy ===== *)
theory TW_Address
  imports TW_Types
begin

text \<open>
  Address validation, \<open>tinywallet-crypto/src/address\<close>. The third-party codecs and hashes the
  code calls (\<open>bs58\<close>, \<open>bech32\<close>, \<open>sha3\<close>, \<open>sha2\<close>) are the fields of the record
  \<open>prims\<close>, a parameter of every definition that uses one; a decoding failure is the text of
  the crate's error. What a theorem relies on is one of the named predicates on \<open>prims\<close>
  below, each the documented behaviour of the crate.
\<close>

record prims =
  bs58_decode :: "string \<Rightarrow> string + bytes"
  bs58_encode :: "bytes \<Rightarrow> string"
  bs58_check_decode :: "u8 option \<Rightarrow> string \<Rightarrow> string + bytes"
  bs58_check_encode :: "bytes \<Rightarrow> string"
  segwit_decode :: "string \<Rightarrow> string + (string \<times> u8 \<times> bytes)"
  segwit_encode_v0 :: "string \<Rightarrow> bytes \<Rightarrow> string + string"
  keccak256 :: "bytes \<Rightarrow> bytes"
  sha256 :: "bytes \<Rightarrow> bytes"

definition bs58_law :: "prims \<Rightarrow> bool" where
  "bs58_law p \<longleftrightarrow>
     (\<forall>bs. bs58_decode p (bs58_encode p bs) = Inr bs \<and>
           (\<forall>c \<in> set (bs58_encode p bs). is_graphic c) \<and>
           (bs \<noteq> [] \<longrightarrow> bs58_encode p bs \<noteq> []))"

definition bs58_check_law :: "prims \<Rightarrow> bool" where
  "bs58_check_law p \<longleftrightarrow>
     (\<forall>v bs. bs58_check_decode p (Some v) (bs58_check_encode p (v # bs)) = Inr (v # bs) \<and>
           (\<forall>c \<in> set (bs58_check_encode p (v # bs)). is_graphic c) \<and>
           bs58_check_encode p (v # bs) \<noteq> []) \<and>
     (\<forall>v s bs. bs58_check_decode p (Some v) s = Inr bs \<longrightarrow> bs \<noteq> [] \<and> hd bs = v)"

definition segwit_law :: "prims \<Rightarrow> bool" where
  "segwit_law p \<longleftrightarrow>
     (\<forall>h. length h = 20 \<longrightarrow>
       (\<exists>d. segwit_encode_v0 p ''bc'' h = Inr (''bc1'' @ d) \<and>
            (\<forall>c \<in> set d. is_graphic c \<and> c \<noteq> CHR ''1'' \<and> char_to_lower c = c) \<and>
            segwit_decode p (''bc1'' @ d) = Inr (''bc'', 0, h)))"

section \<open>EVM\<close>

definition ADDRESS_HEX_LEN :: nat where
  "ADDRESS_HEX_LEN = 40"

definition evm_strip_prefix :: "string \<Rightarrow> string" where
  "evm_strip_prefix address = (case strip_prefix ''0x'' address of Some b \<Rightarrow> b | None \<Rightarrow> address)"

text \<open>The character a \<open>str\<close> starts with: its first byte and the continuation bytes after it.\<close>

definition first_char :: "string \<Rightarrow> string" where
  "first_char s = (case s of [] \<Rightarrow> [] | c # cs \<Rightarrow> c # takeWhile is_continuation cs)"

definition evm_validate :: "string \<Rightarrow> Error + string" where
  "evm_validate address =
     (let trimmed = trim address in
      if trimmed = [] then Inl (EmptyAddress Evm)
      else let body = evm_strip_prefix trimmed in
        if length body \<noteq> ADDRESS_HEX_LEN then
          Inl (InvalidAddress Evm trimmed
            (''expected '' @ show_nat ADDRESS_HEX_LEN @ '' hex digits, got '' @ show_nat (length body)))
        else case dropWhile is_ascii_hexdigit body of
          [] \<Rightarrow> Inr trimmed
        | bad # rest \<Rightarrow>
            Inl (InvalidAddress Evm trimmed
              (''contains a non-hex character '' @ [CHR 0x27] @ first_char (bad # rest) @ [CHR 0x27])))"

definition hash_nibble :: "bytes \<Rightarrow> nat \<Rightarrow> nat" where
  "hash_nibble hash i =
     (if even i then unat (hash ! (i div 2)) div 16 else unat (hash ! (i div 2)) mod 16)"

definition checksum_char :: "bytes \<Rightarrow> nat \<Rightarrow> char \<Rightarrow> char" where
  "checksum_char hash i c =
     (if is_ascii_digit c \<or> hash_nibble hash i < 8 then c else char_to_upper c)"

definition to_checksummed :: "prims \<Rightarrow> string \<Rightarrow> Error + string" where
  "to_checksummed p address =
     rbind (evm_validate address) (\<lambda>validated.
       let lower = to_ascii_lowercase (evm_strip_prefix validated);
           hash = keccak256 p (str_bytes lower)
       in Inr (''0x'' @ map2 (checksum_char hash) [0..<length lower] lower))"

definition prefixed :: "string \<Rightarrow> string" where
  "prefixed body = ''0x'' @ body"

definition is_checksum_valid :: "prims \<Rightarrow> string \<Rightarrow> Error + bool" where
  "is_checksum_valid p address =
     rbind (evm_validate address) (\<lambda>validated.
       rbind (to_checksummed p validated) (\<lambda>canonical.
         Inr (canonical = prefixed (evm_strip_prefix validated))))"

section \<open>Bitcoin\<close>

definition MAINNET_HRP :: string where
  "MAINNET_HRP = ''bc''"

definition P2PKH_VERSION :: u8 where
  "P2PKH_VERSION = 0x00"

definition P2SH_VERSION :: u8 where
  "P2SH_VERSION = 0x05"

definition TEST_VERSIONS :: "u8 list" where
  "TEST_VERSIONS = [0x6f, 0xc4]"

datatype Kind = P2pkh | P2sh | P2wpkh | P2wsh | OtherWitness

definition trimmed_non_empty :: "string \<Rightarrow> Error + string" where
  "trimmed_non_empty address =
     (let trimmed = trim address in
      if trimmed = [] then Inl (EmptyAddress Btc) else Inr trimmed)"

definition wrong_network :: "string \<Rightarrow> string \<Rightarrow> Error" where
  "wrong_network address reason = WrongNetwork Btc address ''mainnet'' reason"

definition parse_bech32 :: "prims \<Rightarrow> string \<Rightarrow> Error + Kind" where
  "parse_bech32 p address =
     rbind (map_err (\<lambda>e. InvalidAddress Btc address e) (segwit_decode p address)) (\<lambda>(hrp, version, program).
       if hrp \<noteq> MAINNET_HRP then
         Inl (wrong_network address ''a non-mainnet human-readable part'')
       else if version \<noteq> 0 then Inr OtherWitness
       else if length program = 20 then Inr P2wpkh
       else if length program = 32 then Inr P2wsh
       else Inl (InvalidAddress Btc address
              (''witness v0 program must be 20 or 32 bytes, got '' @ show_nat (length program))))"

definition parse_base58 :: "prims \<Rightarrow> string \<Rightarrow> Error + Kind" where
  "parse_base58 p address =
     rbind (map_err (\<lambda>e. InvalidAddress Btc address e) (bs58_check_decode p None address)) (\<lambda>decoded.
       case decoded of
         [] \<Rightarrow> Inl (InvalidAddress Btc address ''empty base58check payload'')
       | version # payload \<Rightarrow>
           if version \<in> set TEST_VERSIONS then
             Inl (wrong_network address ''a test network version byte'')
           else if length payload \<noteq> 20 then
             Inl (InvalidAddress Btc address (''hash must be 20 bytes, got '' @ show_nat (length payload)))
           else if version = P2PKH_VERSION then Inr P2pkh
           else if version = P2SH_VERSION then Inr P2sh
           else Inl (InvalidAddress Btc address
                  (''unknown base58check version byte 0x'' @ hex_byte version)))"

text \<open>\<open>rfind('1')\<close>: what precedes the last \<open>1\<close>.\<close>

definition before_last_1 :: "string \<Rightarrow> string option" where
  "before_last_1 s =
     (if CHR ''1'' \<in> set s then Some (rev (tl (dropWhile (\<lambda>c. c \<noteq> CHR ''1'') (rev s)))) else None)"

definition btc_parse :: "prims \<Rightarrow> string \<Rightarrow> Error + Kind" where
  "btc_parse p address =
     (case before_last_1 (to_ascii_lowercase address) of
        Some hrp \<Rightarrow>
          if hrp \<noteq> [] \<and> list_all is_ascii_lower hrp then parse_bech32 p address
          else parse_base58 p address
      | None \<Rightarrow> parse_base58 p address)"

definition btc_validate :: "prims \<Rightarrow> string \<Rightarrow> Error + string" where
  "btc_validate p address =
     rbind (trimmed_non_empty address) (\<lambda>trimmed.
       rbind (btc_parse p trimmed) (\<lambda>_. Inr trimmed))"

definition btc_validate_sender :: "prims \<Rightarrow> string \<Rightarrow> Error + string" where
  "btc_validate_sender p address =
     rbind (trimmed_non_empty address) (\<lambda>trimmed.
       rbind (btc_parse p trimmed) (\<lambda>kind.
         if kind \<noteq> P2wpkh then
           Inl (UnsupportedAddressType Btc trimmed
             (''only P2WPKH (bc1q'' @ [CHR 0xE2, CHR 0x80, CHR 0xA6] @ '' native segwit) can be signed for''))
         else Inr trimmed))"

definition encode_p2wpkh :: "prims \<Rightarrow> bytes \<Rightarrow> Error + string" where
  "encode_p2wpkh p pubkey_hash =
     map_err (\<lambda>e. InvalidAddress Btc [] e) (segwit_encode_v0 p ''bc'' pubkey_hash)"

section \<open>Solana\<close>

definition SOLANA_ADDRESS_BYTES :: nat where
  "SOLANA_ADDRESS_BYTES = 32"

definition solana_decode :: "prims \<Rightarrow> string \<Rightarrow> Error + bytes" where
  "solana_decode p address =
     (let trimmed = trim address in
      if trimmed = [] then Inl (EmptyAddress Solana)
      else rbind (map_err (\<lambda>e. InvalidAddress Solana trimmed (''not valid base58: '' @ e))
               (bs58_decode p trimmed)) (\<lambda>decoded.
             if length decoded = SOLANA_ADDRESS_BYTES then Inr decoded
             else Inl (InvalidAddress Solana trimmed
               (''expected '' @ show_nat SOLANA_ADDRESS_BYTES @ '' bytes, got '' @ show_nat (length decoded)))))"

definition solana_validate :: "prims \<Rightarrow> string \<Rightarrow> Error + string" where
  "solana_validate p address = rbind (solana_decode p address) (\<lambda>_. Inr (trim address))"

definition solana_encode :: "prims \<Rightarrow> bytes \<Rightarrow> string" where
  "solana_encode p bs = bs58_encode p bs"

section \<open>Tron\<close>

definition MAINNET_PREFIX :: u8 where
  "MAINNET_PREFIX = 0x41"

definition TRON_ADDRESS_BYTES :: nat where
  "TRON_ADDRESS_BYTES = 21"

definition tron_decode :: "prims \<Rightarrow> string \<Rightarrow> Error + bytes" where
  "tron_decode p address =
     (let trimmed = trim address in
      if trimmed = [] then Inl (EmptyAddress Tron)
      else rbind (map_err (\<lambda>e. InvalidAddress Tron trimmed (''base58check decoding failed: '' @ e))
               (bs58_check_decode p (Some MAINNET_PREFIX) trimmed)) (\<lambda>decoded.
             if length decoded = TRON_ADDRESS_BYTES then Inr decoded
             else Inl (InvalidAddress Tron trimmed
               (''expected '' @ show_nat TRON_ADDRESS_BYTES @ '' bytes after base58check, got '' @
                show_nat (length decoded)))))"

definition tron_validate :: "prims \<Rightarrow> string \<Rightarrow> Error + string" where
  "tron_validate p address = rbind (tron_decode p address) (\<lambda>_. Inr (trim address))"

definition tron_to_hex :: "prims \<Rightarrow> string \<Rightarrow> Error + string" where
  "tron_to_hex p address = rbind (tron_decode p address) (\<lambda>bs. Inr (hex_encode bs))"

definition tron_encode :: "prims \<Rightarrow> bytes \<Rightarrow> Error + string" where
  "tron_encode p bs =
     (if bs ! 0 \<noteq> MAINNET_PREFIX then
        Inl (WrongNetwork Tron (hex_encode bs) ''mainnet''
          (''version prefix is 0x'' @ hex_byte (bs ! 0) @ '', expected 0x'' @ hex_byte MAINNET_PREFIX))
      else Inr (bs58_check_encode p bs))"

section \<open>Dispatch\<close>

text \<open>\<open>gates\<close> is the set of chain features the crate was built with.\<close>

definition address_validate :: "prims \<Rightarrow> Chain set \<Rightarrow> Chain \<Rightarrow> string \<Rightarrow> Error + string" where
  "address_validate p gates chain address =
     (if chain \<notin> gates then Inl (ChainNotCompiled chain)
      else case chain of
        Btc \<Rightarrow> btc_validate p address
      | Evm \<Rightarrow> evm_validate address
      | Solana \<Rightarrow> solana_validate p address
      | Tron \<Rightarrow> tron_validate p address)"

section \<open>Lemmas\<close>

lemma evm_validate_Inr:
  "evm_validate a = Inr v \<longleftrightarrow>
     v = trim a \<and> v \<noteq> [] \<and> length (evm_strip_prefix v) = 40 \<and>
     (\<forall>c \<in> set (evm_strip_prefix v). is_ascii_hexdigit c)"
proof (cases "dropWhile is_ascii_hexdigit (evm_strip_prefix (trim a)) = []")
  case True
  then have "\<forall>c \<in> set (evm_strip_prefix (trim a)). is_ascii_hexdigit c"
    by (simp add: dropWhile_eq_Nil_conv)
  moreover from True have "evm_validate a =
      (if trim a = [] then Inl (EmptyAddress Evm)
       else if length (evm_strip_prefix (trim a)) \<noteq> 40 then
         Inl (InvalidAddress Evm (trim a) (''expected '' @ show_nat ADDRESS_HEX_LEN @
           '' hex digits, got '' @ show_nat (length (evm_strip_prefix (trim a)))))
       else Inr (trim a))"
    by (simp only: evm_validate_def Let_def list.case ADDRESS_HEX_LEN_def)
  ultimately show ?thesis by auto
next
  case False
  then obtain b r where br: "dropWhile is_ascii_hexdigit (evm_strip_prefix (trim a)) = b # r"
    by (auto simp: neq_Nil_conv simp del: dropWhile_eq_Nil_conv)
  have "evm_validate a \<noteq> Inr v"
    by (simp add: evm_validate_def Let_def br)
  moreover from False have "\<not> (\<forall>c \<in> set (evm_strip_prefix (trim a)). is_ascii_hexdigit c)"
    by (simp add: dropWhile_eq_Nil_conv)
  ultimately show ?thesis by blast
qed

lemma evm_validate_prefixed:
  assumes "length body = 40" and "\<forall>c \<in> set body. is_ascii_hexdigit c"
  shows "evm_validate (prefixed body) = Inr (prefixed body)"
    and "evm_strip_prefix (prefixed body) = body"
proof -
  show strip: "evm_strip_prefix (prefixed body) = body"
    unfolding prefixed_def evm_strip_prefix_def by (simp only: strip_prefix_append option.case)
  have "\<forall>c \<in> set (prefixed body). is_graphic c"
    using assms(2) by (auto simp: prefixed_def hexdigit_graphic) (simp_all add: is_graphic_def)
  then have "trim (prefixed body) = prefixed body" by (rule trim_graphic)
  with assms strip show "evm_validate (prefixed body) = Inr (prefixed body)"
    by (simp add: evm_validate_Inr) (simp add: prefixed_def)
qed

text \<open>The canonical form of a valid body: each letter's case is set by the hash of its lowercase.\<close>

definition canonical_body :: "prims \<Rightarrow> string \<Rightarrow> string" where
  "canonical_body p body =
     (let lower = to_ascii_lowercase body
      in map2 (checksum_char (keccak256 p (str_bytes lower))) [0..<length lower] lower)"

lemma to_checksummed_canonical:
  "to_checksummed p a =
     rbind (evm_validate a) (\<lambda>v. Inr (prefixed (canonical_body p (evm_strip_prefix v))))"
  by (simp add: to_checksummed_def canonical_body_def prefixed_def Let_def)

lemma checksum_char_lower: "char_to_lower (checksum_char h i (char_to_lower c)) = char_to_lower c"
  by (simp add: checksum_char_def)

lemma canonical_body_lower:
  "to_ascii_lowercase (canonical_body p body) = to_ascii_lowercase body"
  by (rule nth_equalityI)
    (simp_all add: canonical_body_def to_ascii_lowercase_def Let_def checksum_char_lower)

lemma canonical_body_idem: "canonical_body p (canonical_body p body) = canonical_body p body"
  using canonical_body_lower [of p body] by (simp add: canonical_body_def [of p "canonical_body p body"])
    (simp add: canonical_body_def Let_def)

lemma hexdigits_lower:
  "(\<forall>c \<in> set (to_ascii_lowercase s). is_ascii_hexdigit c) \<longleftrightarrow> (\<forall>c \<in> set s. is_ascii_hexdigit c)"
  by (simp add: to_ascii_lowercase_def is_ascii_hexdigit_def)

lemma length_canonical_body: "length (canonical_body p body) = length body"
  by (simp add: canonical_body_def Let_def)

lemma canonical_body_hexdigits:
  "\<forall>c \<in> set body. is_ascii_hexdigit c \<Longrightarrow> \<forall>c \<in> set (canonical_body p body). is_ascii_hexdigit c"
  using hexdigits_lower [of "canonical_body p body"] hexdigits_lower [of body]
  by (simp add: canonical_body_lower)

lemma trimmed_non_empty_Inr: "trimmed_non_empty a = Inr s \<longleftrightarrow> s = trim a \<and> s \<noteq> []"
  by (auto simp: trimmed_non_empty_def Let_def)

lemma btc_validate_Inr:
  "btc_validate p a = Inr s \<longleftrightarrow> s = trim a \<and> s \<noteq> [] \<and> (\<exists>k. btc_parse p s = Inr k)"
  by (auto simp: btc_validate_def result_simps trimmed_non_empty_Inr)

lemma btc_validate_sender_Inr:
  "btc_validate_sender p a = Inr s \<longleftrightarrow> s = trim a \<and> s \<noteq> [] \<and> btc_parse p s = Inr P2wpkh"
  by (auto simp: btc_validate_sender_def result_simps trimmed_non_empty_Inr split: if_splits)

lemma solana_decode_Inr:
  "solana_decode p a = Inr bs \<longleftrightarrow>
     trim a \<noteq> [] \<and> bs58_decode p (trim a) = Inr bs \<and> length bs = 32"
  by (auto simp: solana_decode_def SOLANA_ADDRESS_BYTES_def Let_def result_simps split: if_splits)

lemma tron_decode_Inr:
  "tron_decode p a = Inr bs \<longleftrightarrow>
     trim a \<noteq> [] \<and> bs58_check_decode p (Some 0x41) (trim a) = Inr bs \<and> length bs = 21"
  by (auto simp: tron_decode_def TRON_ADDRESS_BYTES_def MAINNET_PREFIX_def Let_def result_simps
      split: if_splits)

lemma before_last_1_append:
  "CHR ''1'' \<notin> set d \<Longrightarrow> before_last_1 (h @ CHR ''1'' # d) = Some h"
proof -
  assume "CHR ''1'' \<notin> set d"
  then have "dropWhile (\<lambda>c. c \<noteq> CHR ''1'') (rev d @ CHR ''1'' # rev h) = CHR ''1'' # rev h"
    by (subst dropWhile_append2) auto
  then show ?thesis by (simp add: before_last_1_def)
qed

section \<open>Properties\<close>

text \<open>
  The EIP-55 rendering of a valid address is canonical. It is itself a valid address, spells
  the same digits, is left unchanged by a second rendering and carries a valid checksum.
\<close>

theorem checksum_canonical:
  assumes "evm_validate a = Inr v"
  shows "\<exists>c. to_checksummed p a = Inr c \<and> evm_validate c = Inr c \<and> to_checksummed p c = Inr c \<and>
    is_checksum_valid p c = Inr True \<and> eq_ignore_ascii_case c (prefixed (evm_strip_prefix v))"
proof -
  let ?b = "evm_strip_prefix v"
  let ?c = "prefixed (canonical_body p ?b)"
  from assms have b: "length ?b = 40" "\<forall>c \<in> set ?b. is_ascii_hexdigit c"
    by (auto simp: evm_validate_Inr)
  have v: "evm_validate ?c = Inr ?c" "evm_strip_prefix ?c = canonical_body p ?b"
    using evm_validate_prefixed [of "canonical_body p ?b"] b
    by (simp_all add: length_canonical_body canonical_body_hexdigits)
  have again: "to_checksummed p ?c = Inr ?c"
    by (simp add: to_checksummed_canonical v canonical_body_idem)
  have "eq_ignore_ascii_case ?c (prefixed ?b)"
    using canonical_body_lower [of p ?b]
    by (simp add: eq_ignore_ascii_case_def prefixed_def to_ascii_lowercase_def)
  with v again assms show ?thesis
    by (intro exI [of _ ?c]) (simp add: to_checksummed_canonical is_checksum_valid_def canonical_body_idem)
qed

theorem checksum_canonical_witness:
  "\<exists>c. to_checksummed
        \<lparr>bs58_decode = (\<lambda>s. Inl []), bs58_encode = (\<lambda>b. []), bs58_check_decode = (\<lambda>v s. Inl []),
         bs58_check_encode = (\<lambda>b. []), segwit_decode = (\<lambda>s. Inl []),
         segwit_encode_v0 = (\<lambda>h b. Inl []), keccak256 = (\<lambda>b. replicate 32 0xf7),
         sha256 = (\<lambda>b. replicate 32 0)\<rparr>
        ''52908400098527886e0f7030069857d2e4169ee7'' = Inr c \<and> evm_validate c = Inr c"
proof -
  have "evm_validate ''52908400098527886e0f7030069857d2e4169ee7'' =
      Inr ''52908400098527886e0f7030069857d2e4169ee7''"
    by code_simp
  from checksum_canonical [OF this] show ?thesis by blast
qed

text \<open>
  A validated address is the trimmed input and is a fixed point of validation, on every
  chain and under every set of feature gates; a chain whose gate is off never validates.
\<close>

theorem address_validate_idem:
  assumes "address_validate p gates chain a = Inr s"
  shows "chain \<in> gates \<and> s = trim a \<and> s \<noteq> [] \<and> address_validate p gates chain s = Inr s"
  using assms
  by (cases chain)
    (auto simp: address_validate_def evm_validate_Inr btc_validate_Inr solana_validate_def
      tron_validate_def result_simps solana_decode_Inr tron_decode_Inr split: if_splits)

theorem address_validate_idem_witness:
  "\<exists>s. address_validate undefined {Evm} Evm '' 0x52908400098527886E0F7030069857D2E4169EE7 '' = Inr s \<and>
       address_validate undefined {Evm} Evm s = Inr s"
proof -
  have "evm_validate '' 0x52908400098527886E0F7030069857D2E4169EE7 '' =
      Inr ''0x52908400098527886E0F7030069857D2E4169EE7''"
    by code_simp
  then have "address_validate undefined {Evm} Evm '' 0x52908400098527886E0F7030069857D2E4169EE7 '' =
      Inr ''0x52908400098527886E0F7030069857D2E4169EE7''"
    by (simp add: address_validate_def)
  with address_validate_idem [OF this] show ?thesis by blast
qed

lemma encode_p2wpkh_valid:
  assumes "segwit_law p" and "length h = 20"
  shows "\<exists>s. encode_p2wpkh p h = Inr s \<and> trim s = s \<and> btc_validate_sender p s = Inr s \<and> btc_validate p s = Inr s"
proof -
  from assms obtain d where d: "segwit_encode_v0 p ''bc'' h = Inr (''bc1'' @ d)"
      "\<forall>c \<in> set d. is_graphic c \<and> c \<noteq> CHR ''1'' \<and> char_to_lower c = c"
      "segwit_decode p (''bc1'' @ d) = Inr (''bc'', 0, h)"
    by (auto simp: segwit_law_def)
  let ?s = "''bc1'' @ d"
  have t: "trim ?s = ?s"
    by (rule trim_graphic) (use d(2) in \<open>auto simp: is_graphic_def\<close>)
  have "map char_to_lower d = d" using d(2) by (simp add: map_idI)
  moreover have "map char_to_lower ''bc1'' = ''bc1''" by (simp add: char_to_lower_def)
  ultimately have low: "to_ascii_lowercase ?s = ''bc'' @ CHR ''1'' # d"
    by (simp add: to_ascii_lowercase_def)
  have "before_last_1 (to_ascii_lowercase ?s) = Some ''bc''"
    unfolding low by (rule before_last_1_append) (use d(2) in auto)
  then have "btc_parse p ?s = Inr P2wpkh"
    using d(3) assms(2)
    by (simp add: btc_parse_def parse_bech32_def is_ascii_lower_def MAINNET_HRP_def)
  with t d(1) show ?thesis
    by (intro exI [of _ ?s]) (simp add: btc_validate_sender_Inr btc_validate_Inr encode_p2wpkh_def)
qed

text \<open>
  Every P2WPKH address the wallet encodes from a 20-byte key hash is accepted as a sender and
  as a recipient, and every accepted sender is an accepted recipient of kind P2WPKH.
\<close>

theorem p2wpkh_sender:
  assumes "segwit_law p"
  shows "(length h = 20 \<longrightarrow>
      (\<exists>s. encode_p2wpkh p h = Inr s \<and> btc_validate_sender p s = Inr s \<and> btc_validate p s = Inr s)) \<and>
    (btc_validate_sender p a = Inr t \<longrightarrow> btc_validate p a = Inr t \<and> btc_parse p t = Inr P2wpkh)"
  using encode_p2wpkh_valid [OF assms, of h] by (auto simp: btc_validate_sender_Inr btc_validate_Inr)

end
