(* ===== verification/TW_Instances.thy ===== *)
theory TW_Instances
  imports TW_Address
begin

text \<open>
  A concrete value of the parameter record \<open>prims\<close>, for the witnesses: each codec writes a byte
  as two letters \<open>a\<close> to \<open>p\<close>, which keeps the documented laws of the crates it stands for
  (round trip, printable output, the version check, the separator of a segwit address). Nothing
  in the model depends on it.
\<close>

definition letter :: "nat \<Rightarrow> char" where
  "letter n = char_of (97 + n)"

definition letters :: "bytes \<Rightarrow> string" where
  "letters bs = concat (map (\<lambda>b. [letter (unat b div 16), letter (unat b mod 16)]) bs)"

fun unletters :: "string \<Rightarrow> bytes option" where
  "unletters [] = Some []"
| "unletters [c] = None"
| "unletters (c # d # s) =
     (case unletters s of
        None \<Rightarrow> None
      | Some bs \<Rightarrow> Some (of_nat (16 * (of_char c - 97) + (of_char d - 97)) # bs))"

definition sample_hash :: "bytes \<Rightarrow> bytes" where
  "sample_hash bs = be_bytes 32 (be_val bs + length bs)"

definition sample_prims :: prims where
  "sample_prims =
     \<lparr>bs58_decode = (\<lambda>s. ok_or ''bad'' (unletters s)),
      bs58_encode = letters,
      bs58_check_decode = (\<lambda>v s. case unletters s of
          Some (w # bs) \<Rightarrow> (if v = None \<or> v = Some w then Inr (w # bs) else Inl ''version'')
        | _ \<Rightarrow> Inl ''bad''),
      bs58_check_encode = letters,
      segwit_decode = (\<lambda>s. case before_last_1 s of
          None \<Rightarrow> Inl ''bad''
        | Some h \<Rightarrow> (case unletters (drop (Suc (length h)) s) of
                      None \<Rightarrow> Inl ''bad'' | Some bs \<Rightarrow> Inr (h, 0, bs))),
      segwit_encode_v0 = (\<lambda>h bs. Inr (h @ ''1'' @ letters bs)),
      keccak256 = sample_hash,
      sha256 = sample_hash\<rparr>"

lemma letters_simps [simp]:
  "letters [] = []"
  "letters (b # bs) = letter (unat b div 16) # letter (unat b mod 16) # letters bs"
  by (simp_all add: letters_def)

lemma of_char_letter [simp]: "n < 16 \<Longrightarrow> (of_char (letter n) :: nat) = 97 + n"
  by (simp add: letter_def)

lemma nibbles_less: "unat (b :: u8) div 16 < 16" "unat (b :: u8) mod 16 < 16"
  using unat_u8_less [of b] by auto

lemma unletters_letters [simp]: "unletters (letters bs) = Some bs"
  by (induction bs) (simp_all add: nibbles_less)

lemma letter_props:
  "n < 16 \<Longrightarrow> is_graphic (letter n) \<and> letter n \<noteq> CHR ''1'' \<and> char_to_lower (letter n) = letter n"
proof (intro conjI notI)
  assume n: "n < 16" and "letter n = CHR ''1''"
  then have "(of_char (letter n) :: nat) = 49" by simp
  with n show False by simp
qed (simp_all add: is_graphic_def char_to_lower_def)

lemma letters_props:
  "\<forall>c \<in> set (letters bs). is_graphic c \<and> c \<noteq> CHR ''1'' \<and> char_to_lower c = c"
  by (induction bs) (auto simp: nibbles_less letter_props)

lemma letters_Nil_iff [simp]: "letters bs = [] \<longleftrightarrow> bs = []"
  by (cases bs) auto

lemma sample_bs58_law: "bs58_law sample_prims"
  using letters_props by (auto simp: bs58_law_def sample_prims_def)

lemma sample_bs58_check_law: "bs58_check_law sample_prims"
  using letters_props
  by (auto simp: bs58_check_law_def sample_prims_def nibbles_less letter_props
      split: option.splits list.splits if_splits)

lemma sample_segwit_law: "segwit_law sample_prims"
  unfolding segwit_law_def
proof (intro allI impI exI conjI)
  fix h :: bytes
  show "segwit_encode_v0 sample_prims ''bc'' h = Inr (''bc1'' @ letters h)"
    by (simp add: sample_prims_def)
  show "\<forall>c \<in> set (letters h). is_graphic c \<and> c \<noteq> CHR ''1'' \<and> char_to_lower c = c"
    by (rule letters_props)
  have "CHR ''1'' \<notin> set (letters h)" using letters_props [of h] by blast
  from before_last_1_append [OF this, of "''bc''"]
  have "before_last_1 (''bc1'' @ letters h) = Some ''bc''" by simp
  then show "segwit_decode sample_prims (''bc1'' @ letters h) = Inr (''bc'', 0, h)"
    by (simp add: sample_prims_def)
qed

theorem p2wpkh_sender_witness:
  "\<exists>s. encode_p2wpkh sample_prims (replicate 20 7) = Inr s \<and>
       btc_validate_sender sample_prims s = Inr s \<and> btc_validate sample_prims s = Inr s"
  using p2wpkh_sender [OF sample_segwit_law, of "replicate 20 7"] by simp

lemma length_sample_hash [simp]: "length (sample_hash bs) = 32"
  by (simp add: sample_hash_def)

end
