(* ===== verification/TW_Tron.thy ===== *)
theory TW_Tron
  imports TW_Proto TW_Instances
begin

text \<open>
  Checking a node-built Tron transaction before it is signed, \<open>tinywallet-crypto/src/tx/tron.rs\<close>,
  and signing it, \<open>src/tx/tron.rs\<close> of the root crate. The main results characterise exactly
  which bytes \<open>verify_contract\<close> accepts, show that accepted bytes determine the recipient and
  the amount, and that the canonical encoding of the requested transfer is accepted.
\<close>

section \<open>Text and bytes\<close>

definition bytes_str :: "bytes \<Rightarrow> string" where
  "bytes_str bs = map (\<lambda>b. char_of (unat b)) bs"

definition u8_cont :: "nat \<Rightarrow> bool" where
  "u8_cont n = (0x80 \<le> n \<and> n \<le> 0xBF)"

text \<open>\<open>str::from_utf8\<close>: the well-formed UTF-8 byte sequences.\<close>

fun utf8_valid :: "nat list \<Rightarrow> bool" where
  "utf8_valid [] = True"
| "utf8_valid (a # r) =
     (if a < 0x80 then utf8_valid r
      else if 0xC2 \<le> a \<and> a \<le> 0xDF then
        (case r of b # r1 \<Rightarrow> u8_cont b \<and> utf8_valid r1 | _ \<Rightarrow> False)
      else if 0xE0 \<le> a \<and> a \<le> 0xEF then
        (case r of
           b # c # r2 \<Rightarrow>
             u8_cont b \<and> (a = 0xE0 \<longrightarrow> 0xA0 \<le> b) \<and> (a = 0xED \<longrightarrow> b \<le> 0x9F) \<and>
             u8_cont c \<and> utf8_valid r2
         | _ \<Rightarrow> False)
      else if 0xF0 \<le> a \<and> a \<le> 0xF4 then
        (case r of
           b # c # d # r3 \<Rightarrow>
             u8_cont b \<and> (a = 0xF0 \<longrightarrow> 0x90 \<le> b) \<and> (a = 0xF4 \<longrightarrow> b \<le> 0x8F) \<and>
             u8_cont c \<and> u8_cont d \<and> utf8_valid r3
         | _ \<Rightarrow> False)
      else False)"

definition from_utf8 :: "bytes \<Rightarrow> string option" where
  "from_utf8 bs = (if utf8_valid (map unat bs) then Some (bytes_str bs) else None)"

text \<open>\<open>str::contains\<close> and \<open>windows(n).any(..)\<close>: a contiguous run.\<close>

fun contains_run :: "'a list \<Rightarrow> 'a list \<Rightarrow> bool" where
  "contains_run [] sub = (sub = [])"
| "contains_run (x # xs) sub = (take (length sub) (x # xs) = sub \<or> contains_run xs sub)"

section \<open>Verification\<close>

definition tron_decode_hex :: "string \<Rightarrow> tx_error + bytes" where
  "tron_decode_hex raw =
     (let body = trim raw in
      if odd (length body) then Inl (InvalidField ''raw_data_hex'' ''odd length'')
      else map_err (\<lambda>e. case e of
               HexPanic \<Rightarrow> TxPanic
             | HexInvalidDigit \<Rightarrow> InvalidField ''raw_data_hex'' ''invalid digit found in string'')
             (decode_hex_pairs body))"

definition recompute_txid :: "prims \<Rightarrow> string \<Rightarrow> tx_error + string" where
  "recompute_txid p raw_data_hex =
     rbind (tron_decode_hex raw_data_hex) (\<lambda>raw. Inr (hex_encode (sha256 p raw)))"

definition untrusted :: "string \<Rightarrow> tx_error" where
  "untrusted reason = UntrustedResponse reason"

definition verify_transfer ::
    "prims \<Rightarrow> string \<Rightarrow> string \<Rightarrow> string \<Rightarrow> TronTransfer \<Rightarrow> tx_error + unit" where
  "verify_transfer p raw_data_hex to txid transfer =
     rbind (recompute_txid p raw_data_hex) (\<lambda>expected_id.
     if \<not> eq_ignore_ascii_case expected_id (trim txid) then
       Inl (UntrustedResponse ''txID does not match sha256(raw_data); the response was altered'')
     else
     rbind (map_err TxAddress (tron_to_hex p to)) (\<lambda>to_hex.
     if \<not> contains_run (to_ascii_lowercase raw_data_hex) (to_ascii_lowercase to_hex) then
       Inl (UntrustedResponse (''the node'' @ [CHR 0x27] @
         ''s transaction does not pay the requested recipient''))
     else
     rbind (tron_decode_hex raw_data_hex) (\<lambda>raw.
     rbind (case transfer of
              NativeSun amount_sun \<Rightarrow> Inr (encode_varint amount_sun)
            | Trc20 parameter_hex \<Rightarrow> tron_decode_hex parameter_hex) (\<lambda>expected.
     if expected = [] \<or> \<not> contains_run raw expected then
       Inl (UntrustedResponse (''the node'' @ [CHR 0x27] @
         ''s transaction does not contain the requested '' @
         (case transfer of NativeSun _ \<Rightarrow> ''amount'' | Trc20 _ \<Rightarrow> ''TRC20 transfer parameter'')))
     else Inr ()))))"

definition CONTRACT_TYPE_TRANSFER :: u64 where
  "CONTRACT_TYPE_TRANSFER = 1"

definition CONTRACT_TYPE_TRIGGER_SMART_CONTRACT :: u64 where
  "CONTRACT_TYPE_TRIGGER_SMART_CONTRACT = 31"

definition TRC20_TRANSFER_SELECTOR_HEX :: string where
  "TRC20_TRANSFER_SELECTOR_HEX = ''a9059cbb''"

record ParsedContract =
  pc_kind :: u64
  pc_type_url :: string
  pc_payload :: bytes

definition parse_single_contract :: "Field list \<Rightarrow> tx_error + ParsedContract" where
  "parse_single_contract raw_fields =
     rbind (one_bytes raw_fields 11 ''Transaction.raw.contract'') (\<lambda>contract_bytes.
     rbind (parse_fields contract_bytes) (\<lambda>contract_fields.
     rbind (one_varint contract_fields 1 ''Transaction.Contract.type'') (\<lambda>kind.
     rbind (one_bytes contract_fields 2 ''Transaction.Contract.parameter'') (\<lambda>any_bytes.
     rbind (parse_fields any_bytes) (\<lambda>any_fields.
     rbind (one_bytes any_fields 1 ''Any.type_url'') (\<lambda>url_bytes.
     rbind (ok_or (InvalidField ''Any.type_url'' ''is not UTF-8'') (from_utf8 url_bytes)) (\<lambda>type_url.
     rbind (one_bytes any_fields 2 ''Any.value'') (\<lambda>payload.
       Inr \<lparr>pc_kind = kind, pc_type_url = type_url, pc_payload = payload\<rparr>))))))))"

text \<open>The \<open>match transfer\<close> of \<open>verify_contract\<close>, then the function.\<close>

definition check_contract ::
    "TronTransfer \<Rightarrow> u64 option \<Rightarrow> bytes \<Rightarrow> Field list \<Rightarrow> ParsedContract \<Rightarrow> tx_error + unit" where
  "check_contract transfer fee_limit_sun expected_recipient raw_fields contract =
     (case transfer of
       NativeSun amount_sun \<Rightarrow>
         if pc_kind contract \<noteq> CONTRACT_TYPE_TRANSFER \<or>
            \<not> ends_with (pc_type_url contract) ''.TransferContract'' then
           Inl (untrusted ''the transaction is not a native transfer'')
         else
         rbind (parse_fields (pc_payload contract)) (\<lambda>payload.
         rbind (one_bytes payload 2 ''TransferContract.to_address'') (\<lambda>to_address.
         if to_address \<noteq> expected_recipient then
           Inl (untrusted ''the transaction does not pay the requested recipient'')
         else
         rbind (one_varint payload 3 ''TransferContract.amount'') (\<lambda>amount.
         if amount \<noteq> amount_sun then
           Inl (untrusted ''the transaction has a different native amount'')
         else Inr ())))
     | Trc20 parameter_hex \<Rightarrow>
         if pc_kind contract \<noteq> CONTRACT_TYPE_TRIGGER_SMART_CONTRACT \<or>
            \<not> ends_with (pc_type_url contract) ''.TriggerSmartContract'' then
           Inl (untrusted ''the transaction is not a smart-contract trigger'')
         else
         rbind (parse_fields (pc_payload contract)) (\<lambda>payload.
         rbind (one_bytes payload 2 ''TriggerSmartContract.contract_address'') (\<lambda>contract_address.
         if contract_address \<noteq> expected_recipient then
           Inl (untrusted ''the transaction targets a different contract'')
         else
         rbind (optional_varint payload 3 ''TriggerSmartContract.call_value'') (\<lambda>call_value.
         if (case call_value of None \<Rightarrow> 0 | Some v \<Rightarrow> v) \<noteq> 0 then
           Inl (untrusted ''the transaction has a non-zero TRC20 call_value'')
         else
         rbind (optional_varint raw_fields 18 ''Transaction.raw.fee_limit'') (\<lambda>fee_limit.
         if (case (fee_limit_sun, fee_limit) of
               (Some expected, Some actual) \<Rightarrow> actual \<noteq> expected | _ \<Rightarrow> False) then
           Inl (untrusted ''the transaction has a different fee_limit'')
         else
         rbind (tron_decode_hex TRC20_TRANSFER_SELECTOR_HEX) (\<lambda>selector.
         rbind (tron_decode_hex parameter_hex) (\<lambda>parameter.
         rbind (one_bytes payload 4 ''TriggerSmartContract.data'') (\<lambda>data.
         if data \<noteq> selector @ parameter then
           Inl (untrusted ''the transaction has different TRC20 transfer data'')
         else Inr ()))))))))"

definition verify_contract ::
    "prims \<Rightarrow> string \<Rightarrow> string \<Rightarrow> string \<Rightarrow> TronTransfer \<Rightarrow> u64 option \<Rightarrow> tx_error + unit" where
  "verify_contract p raw_data_hex to txid transfer fee_limit_sun =
     rbind (recompute_txid p raw_data_hex) (\<lambda>expected_id.
     if \<not> eq_ignore_ascii_case expected_id (trim txid) then
       Inl (untrusted ''txID does not match sha256(raw_data); the response was altered'')
     else
     rbind (tron_decode_hex raw_data_hex) (\<lambda>raw.
     rbind (map_err TxAddress (tron_to_hex p to)) (\<lambda>to_hex.
     rbind (tron_decode_hex to_hex) (\<lambda>expected_recipient.
     rbind (parse_fields raw) (\<lambda>raw_fields.
     rbind (parse_single_contract raw_fields) (\<lambda>contract.
       check_contract transfer fee_limit_sun expected_recipient raw_fields contract))))))"

section \<open>Signing\<close>

definition tron_digest :: "prims \<Rightarrow> string \<Rightarrow> tx_error + bytes" where
  "tron_digest p raw_data_hex = rbind (tron_decode_hex raw_data_hex) (\<lambda>raw. Inr (sha256 p raw))"

definition tron_attach_signature :: "bytes \<Rightarrow> u8 \<Rightarrow> tx_error + bytes" where
  "tron_attach_signature rs recovery_id =
     (if recovery_id > 3 then
        Inl (Signing (''recovery id must be 0..=3, got '' @ show_nat (unat recovery_id)))
      else Inr (rs @ [recovery_id]))"

definition signature_hex :: "bytes \<Rightarrow> string" where
  "signature_hex signature = hex_encode signature"

text \<open>The \<open>secp256k1\<close> library: which 32 bytes are a key, and the recoverable signature, a
  recovery id (an \<open>i32\<close>) and 64 bytes.\<close>

record secp =
  secp_key_ok :: "bytes \<Rightarrow> bool"
  secp_sign_recoverable :: "bytes \<Rightarrow> bytes \<Rightarrow> int \<times> bytes"

definition recovery_byte :: "int \<Rightarrow> tx_error + u8" where
  "recovery_byte i =
     (if 0 \<le> i \<and> i < 256 then Inr (of_int i) else Inl (Signing ''unexpected recovery id''))"

definition tron_sign :: "prims \<Rightarrow> secp \<Rightarrow> string \<Rightarrow> bytes \<Rightarrow> tx_error + bytes" where
  "tron_sign p c raw_data_hex secret_key =
     (if \<not> secp_key_ok c secret_key then Inl (Signing ''not a valid secp256k1 secret key'')
      else rbind (tron_digest p raw_data_hex) (\<lambda>message.
        case secp_sign_recoverable c secret_key message of
          (recovery_id, compact) \<Rightarrow>
            rbind (recovery_byte recovery_id) (\<lambda>recovery. tron_attach_signature compact recovery)))"

section \<open>What a transaction carries\<close>

text \<open>
  The specification side. \<open>carries raw kind url rf payload\<close>: the bytes parse, they hold one
  contract and no second one, of type \<open>kind\<close>, whose \<open>Any\<close> holds one type URL and one value,
  and that value parses to the fields \<open>payload\<close>; \<open>rf\<close> are the outer fields.
\<close>

definition has_bytes :: "Field list \<Rightarrow> u64 \<Rightarrow> bytes \<Rightarrow> bool" where
  "has_bytes fs n b \<longleftrightarrow> (\<exists>f. occurrences fs n = [f] \<and> fld_value f = Bytes b)"

definition has_varint :: "Field list \<Rightarrow> u64 \<Rightarrow> u64 \<Rightarrow> bool" where
  "has_varint fs n v \<longleftrightarrow> (\<exists>f. occurrences fs n = [f] \<and> fld_value f = Varint v)"

definition carries :: "bytes \<Rightarrow> u64 \<Rightarrow> string \<Rightarrow> Field list \<Rightarrow> Field list \<Rightarrow> bool" where
  "carries raw kind url rf payload \<longleftrightarrow>
     parse_fields raw = Inr rf \<and>
     (\<exists>cb cf ab af ub pb.
        has_bytes rf 11 cb \<and> parse_fields cb = Inr cf \<and> has_varint cf 1 kind \<and>
        has_bytes cf 2 ab \<and> parse_fields ab = Inr af \<and> has_bytes af 1 ub \<and>
        from_utf8 ub = Some url \<and> has_bytes af 2 pb \<and> parse_fields pb = Inr payload)"

text \<open>The checks both kinds of transfer share: the id and the addressee.\<close>

definition authentic :: "prims \<Rightarrow> string \<Rightarrow> string \<Rightarrow> string \<Rightarrow> bytes \<Rightarrow> bytes \<Rightarrow> bool" where
  "authentic p raw_data_hex to txid raw recipient \<longleftrightarrow>
     tron_decode_hex raw_data_hex = Inr raw \<and>
     eq_ignore_ascii_case (hex_encode (sha256 p raw)) (trim txid) \<and>
     tron_decode p to = Inr recipient"

lemma has_bytes_unique: "has_bytes fs n a \<Longrightarrow> has_bytes fs n b \<Longrightarrow> a = b"
  by (auto simp: has_bytes_def)

lemma has_varint_unique: "has_varint fs n a \<Longrightarrow> has_varint fs n b \<Longrightarrow> a = b"
  by (auto simp: has_varint_def)

lemma carries_unique:
  assumes "carries raw k u rf pl" and "carries raw k' u' rf' pl'"
  shows "k = k' \<and> u = u' \<and> rf = rf' \<and> pl = pl'"
  using assms unfolding carries_def
  by (metis has_bytes_unique has_varint_unique option.inject sum.inject(2))

lemma trim_hex_encode [simp]: "trim (hex_encode bs) = hex_encode bs"
  by (rule trim_graphic) (use hex_encode_hexdigits in \<open>blast intro: hexdigit_graphic\<close>)

lemma tron_decode_hex_encode [simp]: "tron_decode_hex (hex_encode bs) = Inr bs"
  by (simp add: tron_decode_hex_def length_hex_encode decode_hex_pairs_encode)

lemma selector_decode: "tron_decode_hex TRC20_TRANSFER_SELECTOR_HEX = Inr [0xa9, 0x05, 0x9c, 0xbb]"
  by code_simp

lemma parse_single_contract_carries:
  assumes "parse_fields raw = Inr rf"
  shows "carries raw k u rf pl \<longleftrightarrow>
    (\<exists>c. parse_single_contract rf = Inr c \<and> pc_kind c = k \<and> pc_type_url c = u \<and>
         parse_fields (pc_payload c) = Inr pl)"
  using assms
  by (auto simp: parse_single_contract_def carries_def result_simps one_bytes_Inr one_varint_Inr
      has_bytes_def has_varint_def)

lemma call_value_guard:
  "(case cv of None \<Rightarrow> 0 | Some v \<Rightarrow> v) \<noteq> (0 :: u64) \<longleftrightarrow> \<not> (cv = None \<or> cv = Some 0)"
  by (cases cv) auto

lemma fee_guard:
  "(case (fee, fl) of (Some expected, Some actual) \<Rightarrow> actual \<noteq> expected | _ \<Rightarrow> False) \<longleftrightarrow>
   \<not> (fee = None \<or> fl = None \<or> fee = fl)"
  by (auto split: option.splits)

lemma verify_contract_shared:
  "verify_contract p hex to txid t fee = Inr () \<longleftrightarrow>
     (\<exists>raw rcpt rf c. authentic p hex to txid raw rcpt \<and> parse_fields raw = Inr rf \<and>
        parse_single_contract rf = Inr c \<and> check_contract t fee rcpt rf c = Inr ())"
  by (auto simp: verify_contract_def authentic_def recompute_txid_def tron_to_hex_def result_simps)

lemma carries_contract:
  "carries raw k u rf pl \<longleftrightarrow>
     parse_fields raw = Inr rf \<and>
     (\<exists>c. parse_single_contract rf = Inr c \<and> pc_kind c = k \<and> pc_type_url c = u \<and>
          parse_fields (pc_payload c) = Inr pl)"
proof (cases "parse_fields raw = Inr rf")
  case True
  with parse_single_contract_carries [OF True] show ?thesis by blast
next
  case False
  then show ?thesis by (simp only: carries_def simp_thms)
qed

lemma one_bytes_has: "one_bytes fs n name = Inr b \<longleftrightarrow> has_bytes fs n b"
  by (simp add: one_bytes_Inr has_bytes_def)

lemma one_varint_has: "one_varint fs n name = Inr v \<longleftrightarrow> has_varint fs n v"
  by (simp add: one_varint_Inr has_varint_def)

lemma check_contract_native:
  "check_contract (NativeSun amt) fee rcpt rf c = Inr () \<longleftrightarrow>
     (\<exists>pl. pc_kind c = 1 \<and> parse_fields (pc_payload c) = Inr pl \<and>
       ends_with (pc_type_url c) ''.TransferContract'' \<and> has_bytes pl 2 rcpt \<and> has_varint pl 3 amt)"
  by (auto simp: check_contract_def result_simps one_bytes_has one_varint_has CONTRACT_TYPE_TRANSFER_def)

lemma check_contract_trc20:
  "check_contract (Trc20 param) fee rcpt rf c = Inr () \<longleftrightarrow>
     (\<exists>pl cv fl args. pc_kind c = 31 \<and> parse_fields (pc_payload c) = Inr pl \<and>
        ends_with (pc_type_url c) ''.TriggerSmartContract'' \<and> has_bytes pl 2 rcpt \<and>
        optional_varint pl 3 ''TriggerSmartContract.call_value'' = Inr cv \<and> (cv = None \<or> cv = Some 0) \<and>
        optional_varint rf 18 ''Transaction.raw.fee_limit'' = Inr fl \<and> (fee = None \<or> fl = None \<or> fee = fl) \<and>
        tron_decode_hex param = Inr args \<and> has_bytes pl 4 ([0xa9, 0x05, 0x9c, 0xbb] @ args))"
  unfolding check_contract_def TronTransfer.case call_value_guard fee_guard selector_decode
  by (auto simp: result_simps one_bytes_has CONTRACT_TYPE_TRIGGER_SMART_CONTRACT_def)

lemma verify_contract_native:
  "verify_contract p hex to txid (NativeSun amt) fee = Inr () \<longleftrightarrow>
     (\<exists>raw rcpt url rf payload. authentic p hex to txid raw rcpt \<and> carries raw 1 url rf payload \<and>
        ends_with url ''.TransferContract'' \<and> has_bytes payload 2 rcpt \<and> has_varint payload 3 amt)"
  unfolding verify_contract_shared check_contract_native carries_contract by blast

lemma verify_contract_trc20:
  "verify_contract p hex to txid (Trc20 param) fee = Inr () \<longleftrightarrow>
     (\<exists>raw rcpt url rf payload cv fl args.
        authentic p hex to txid raw rcpt \<and> carries raw 31 url rf payload \<and>
        ends_with url ''.TriggerSmartContract'' \<and> has_bytes payload 2 rcpt \<and>
        optional_varint payload 3 ''TriggerSmartContract.call_value'' = Inr cv \<and> (cv = None \<or> cv = Some 0) \<and>
        optional_varint rf 18 ''Transaction.raw.fee_limit'' = Inr fl \<and> (fee = None \<or> fl = None \<or> fee = fl) \<and>
        tron_decode_hex param = Inr args \<and> has_bytes payload 4 ([0xa9, 0x05, 0x9c, 0xbb] @ args))"
  unfolding verify_contract_shared check_contract_trc20 carries_contract by blast

section \<open>Canonical transactions\<close>

text \<open>
  The specification side: the bytes an honest node returns. \<open>before\<close> and \<open>after\<close> are the outer
  fields around the contract (block reference, expiration, timestamp, fee limit).
\<close>

definition contract_tx :: "Field list \<Rightarrow> Field list \<Rightarrow> u64 \<Rightarrow> string \<Rightarrow> Field list \<Rightarrow> bytes" where
  "contract_tx before after kind url payload =
     encode_message (before @
       [\<lparr>fld_number = 11, fld_value = Bytes (encode_message
          [\<lparr>fld_number = 1, fld_value = Varint kind\<rparr>,
           \<lparr>fld_number = 2, fld_value = Bytes (encode_message
              [\<lparr>fld_number = 1, fld_value = Bytes (str_bytes url)\<rparr>,
               \<lparr>fld_number = 2, fld_value = Bytes (encode_message payload)\<rparr>])\<rparr>])\<rparr>] @ after)"

definition TRANSFER_URL :: string where
  "TRANSFER_URL = ''type.googleapis.com/protocol.TransferContract''"

definition TRIGGER_URL :: string where
  "TRIGGER_URL = ''type.googleapis.com/protocol.TriggerSmartContract''"

lemma length_encode_varint_bound: "unat x < 2 ^ (7 * Suc k) \<Longrightarrow> length (encode_varint x) \<le> Suc k"
proof (induction k arbitrary: x)
  case 0
  then have "drop_bit 7 x = 0" by (simp add: word_unat_eq_iff unat_drop_bit)
  then show ?case by (subst encode_varint.simps) (simp add: Let_def)
next
  case (Suc k)
  have "2 ^ (7 * Suc (Suc k)) = (2 ^ (7 * Suc k) :: nat) * 2 ^ 7" by (simp add: power_add)
  with Suc.prems have "unat x < 2 ^ (7 * Suc k) * 2 ^ 7" by (simp only:)
  then have "unat x div 2 ^ 7 < 2 ^ (7 * Suc k)" by (rule less_mult_imp_div_less)
  then have "length (encode_varint (drop_bit 7 x)) \<le> Suc k"
    by (intro Suc.IH) (simp only: unat_drop_bit)
  then show ?case by (subst encode_varint.simps) (simp add: Let_def)
qed

lemma length_encode_varint: "length (encode_varint x) \<le> 10"
proof -
  have "unat x < 2 ^ 64" using unsigned_less [of x] by simp
  then have "unat x < 2 ^ (7 * Suc 9)" by simp
  from length_encode_varint_bound [OF this] show ?thesis by simp
qed

lemma length_encode_field:
  "length (encode_field f) \<le> 28 + (case fld_value f of Bytes b \<Rightarrow> length b | _ \<Rightarrow> 0)"
  using length_encode_varint [of "field_key (fld_number f) 0"]
    length_encode_varint [of "field_key (fld_number f) 1"]
    length_encode_varint [of "field_key (fld_number f) 2"]
  by (auto split: Value.split intro: add_mono [OF _ add_mono [OF length_encode_varint order_refl], THEN order_trans]
      add_mono [OF _ length_encode_varint, THEN order_trans])

lemma encode_message_simps [simp]:
  "encode_message [] = []" "encode_message (f # fs) = encode_field f @ encode_message fs"
  by (simp_all add: encode_message_def)

lemma carries_contract_tx:
  assumes outer: "\<forall>f \<in> set (before @ after). field_ok f \<and> fld_number f \<noteq> 11"
    and pay: "\<forall>f \<in> set payload. field_ok f" "length (encode_message payload) < 2 ^ 32"
    and url: "from_utf8 (str_bytes url) = Some url" "length url < 2 ^ 16"
  shows "\<exists>rf. parse_fields (contract_tx before after kind url payload) = Inr rf \<and>
    carries (contract_tx before after kind url payload) kind url rf payload \<and>
    (\<forall>n. n \<noteq> 11 \<longrightarrow> occurrences rf n = occurrences (before @ after) n)"
proof -
  let ?any = "[\<lparr>fld_number = 1, fld_value = Bytes (str_bytes url)\<rparr>,
               \<lparr>fld_number = 2, fld_value = Bytes (encode_message payload)\<rparr>]"
  let ?con = "[\<lparr>fld_number = 1, fld_value = Varint kind\<rparr>,
               \<lparr>fld_number = 2, fld_value = Bytes (encode_message ?any)\<rparr>]"
  let ?mid = "\<lparr>fld_number = 11, fld_value = Bytes (encode_message ?con)\<rparr>"
  let ?rf = "before @ [?mid] @ after"
  have any_ok: "\<forall>f \<in> set ?any. field_ok f"
    using pay(2) url(2) by (auto simp: field_ok_def str_bytes_def)
  have any_len: "length (encode_message ?any) < 2 ^ 33"
    using length_encode_field [of "?any ! 0"] length_encode_field [of "?any ! 1"] pay(2) url(2)
    by (simp add: str_bytes_def del: encode_field.simps)
  have con_ok: "\<forall>f \<in> set ?con. field_ok f"
    using any_len by (auto simp: field_ok_def simp del: encode_message_simps)
  have con_len: "length (encode_message ?con) < 2 ^ 34"
    using length_encode_field [of "?con ! 0"] length_encode_field [of "?con ! 1"] any_len
    by (simp del: encode_field.simps)
  have rf_ok: "\<forall>f \<in> set ?rf. field_ok f"
    using con_len outer by (auto simp: field_ok_def simp del: encode_message_simps)
  have parse: "parse_fields (contract_tx before after kind url payload) = Inr ?rf"
    unfolding contract_tx_def by (rule parse_fields_encode [OF rf_ok])
  have none: "occurrences before 11 = []" "occurrences after 11 = []"
    using outer by (auto simp: occurrences_def filter_empty_conv)
  have "has_bytes ?rf 11 (encode_message ?con)"
    by (simp add: has_bytes_def none del: encode_message_simps encode_field.simps)
  moreover have "has_varint ?con 1 kind" "has_bytes ?con 2 (encode_message ?any)"
    by (simp_all add: has_varint_def has_bytes_def del: encode_message_simps encode_field.simps)
  moreover have "has_bytes ?any 1 (str_bytes url)" "has_bytes ?any 2 (encode_message payload)"
    by (simp_all add: has_bytes_def del: encode_message_simps encode_field.simps)
  ultimately have "carries (contract_tx before after kind url payload) kind url ?rf payload"
    unfolding carries_def using parse parse_fields_encode [OF con_ok] parse_fields_encode [OF any_ok]
      parse_fields_encode [OF pay(1)] url(1) by blast
  moreover have "\<forall>n. n \<noteq> 11 \<longrightarrow> occurrences ?rf n = occurrences (before @ after) n"
    by (simp del: encode_message_simps encode_field.simps)
  ultimately show ?thesis using parse by blast
qed

lemma authentic_encode:
  "tron_decode p to = Inr rcpt \<Longrightarrow>
   authentic p (hex_encode raw) to (hex_encode (sha256 p raw)) raw rcpt"
  by (simp add: authentic_def eq_ignore_ascii_case_def)

lemma from_utf8_ascii:
  assumes "list_all (\<lambda>c. (of_char c :: nat) < 128) s"
  shows "from_utf8 (str_bytes s) = Some s"
proof -
  have codes: "map unat (str_bytes s) = map of_char s"
    by (simp add: str_bytes_def unat_of_nat)
  have "utf8_valid (map of_char t)" if "list_all (\<lambda>c. (of_char c :: nat) < 128) t" for t
    using that by (induction t) auto
  with assms codes have "utf8_valid (map unat (str_bytes s))" by simp
  moreover have "bytes_str (str_bytes s) = s"
    by (simp add: bytes_str_def str_bytes_def unat_of_nat comp_def)
  ultimately show ?thesis by (simp only: from_utf8_def if_True)
qed

lemma transfer_urls:
  "from_utf8 (str_bytes TRANSFER_URL) = Some TRANSFER_URL" "length TRANSFER_URL < 2 ^ 16"
  "ends_with TRANSFER_URL ''.TransferContract''"
  "from_utf8 (str_bytes TRIGGER_URL) = Some TRIGGER_URL" "length TRIGGER_URL < 2 ^ 16"
  "ends_with TRIGGER_URL ''.TriggerSmartContract''"
  by (rule from_utf8_ascii | simp add: TRANSFER_URL_def TRIGGER_URL_def ends_with_def)+

lemma tron_decode_length: "tron_decode p to = Inr rcpt \<Longrightarrow> length rcpt = 21"
  by (simp add: tron_decode_Inr)

definition native_payload :: "bytes \<Rightarrow> bytes \<Rightarrow> u64 \<Rightarrow> Field list" where
  "native_payload owner rcpt amt =
     [\<lparr>fld_number = 1, fld_value = Bytes owner\<rparr>, \<lparr>fld_number = 2, fld_value = Bytes rcpt\<rparr>,
      \<lparr>fld_number = 3, fld_value = Varint amt\<rparr>]"

definition trc20_payload :: "bytes \<Rightarrow> bytes \<Rightarrow> bytes \<Rightarrow> Field list" where
  "trc20_payload owner rcpt args =
     [\<lparr>fld_number = 1, fld_value = Bytes owner\<rparr>, \<lparr>fld_number = 2, fld_value = Bytes rcpt\<rparr>,
      \<lparr>fld_number = 4, fld_value = Bytes ([0xa9, 0x05, 0x9c, 0xbb] @ args)\<rparr>]"

lemma payload_ok:
  assumes "length owner < 2 ^ 16" and "length rcpt = 21" and "length args < 2 ^ 16"
  shows "\<forall>f \<in> set (native_payload owner rcpt amt). field_ok f"
    "length (encode_message (native_payload owner rcpt amt)) < 2 ^ 32"
    "\<forall>f \<in> set (trc20_payload owner rcpt args). field_ok f"
    "length (encode_message (trc20_payload owner rcpt args)) < 2 ^ 32"
proof -
  show "\<forall>f \<in> set (native_payload owner rcpt amt). field_ok f"
    "\<forall>f \<in> set (trc20_payload owner rcpt args). field_ok f"
    using assms by (auto simp: native_payload_def trc20_payload_def field_ok_def)
  let ?n = "native_payload owner rcpt amt" and ?t = "trc20_payload owner rcpt args"
  show "length (encode_message ?n) < 2 ^ 32"
    using assms length_encode_field [of "?n ! 0"] length_encode_field [of "?n ! 1"]
      length_encode_field [of "?n ! 2"]
    by (simp add: native_payload_def del: encode_field.simps)
  show "length (encode_message ?t) < 2 ^ 32"
    using assms length_encode_field [of "?t ! 0"] length_encode_field [of "?t ! 1"]
      length_encode_field [of "?t ! 2"]
    by (simp add: trc20_payload_def del: encode_field.simps)
qed

lemma honest_native:
  assumes "tron_decode p to = Inr rcpt" and "length owner < 2 ^ 16"
    and "\<forall>f \<in> set (before @ after). field_ok f \<and> fld_number f \<noteq> 11"
    and "raw = contract_tx before after 1 TRANSFER_URL (native_payload owner rcpt amt)"
  shows "verify_contract p (hex_encode raw) to (hex_encode (sha256 p raw)) (NativeSun amt) fee = Inr ()"
proof -
  have len: "length rcpt = 21" by (rule tron_decode_length [OF assms(1)])
  have "length ([] :: bytes) < 2 ^ 16" by simp
  note ok = payload_ok(1,2) [OF assms(2) len this]
  obtain rf where "carries raw 1 TRANSFER_URL rf (native_payload owner rcpt amt)"
    using carries_contract_tx [OF assms(3) ok(1) ok(2) transfer_urls(1,2)] assms(4) by blast
  moreover have "has_bytes (native_payload owner rcpt amt) 2 rcpt"
    "has_varint (native_payload owner rcpt amt) 3 amt"
    by (simp_all add: native_payload_def has_bytes_def has_varint_def)
  ultimately show ?thesis
    unfolding verify_contract_native using authentic_encode [OF assms(1)] transfer_urls(3) by blast
qed

lemma honest_trc20:
  assumes "tron_decode p to = Inr rcpt" and "length owner < 2 ^ 16" and "length args < 2 ^ 16"
    and "\<forall>f \<in> set (before @ after). field_ok f \<and> fld_number f \<noteq> 11"
    and "raw = contract_tx before after 31 TRIGGER_URL (trc20_payload owner rcpt args)"
    and "optional_varint (before @ after) 18 ''Transaction.raw.fee_limit'' = Inr fl"
    and "fee = None \<or> fl = None \<or> fee = fl"
  shows "verify_contract p (hex_encode raw) to (hex_encode (sha256 p raw)) (Trc20 (hex_encode args)) fee = Inr ()"
proof -
  have len: "length rcpt = 21" by (rule tron_decode_length [OF assms(1)])
  note ok = payload_ok(3,4) [OF assms(2) len assms(3)]
  obtain rf where c: "carries raw 31 TRIGGER_URL rf (trc20_payload owner rcpt args)"
      "\<forall>n. n \<noteq> 11 \<longrightarrow> occurrences rf n = occurrences (before @ after) n"
    using carries_contract_tx [OF assms(4) ok(1) ok(2) transfer_urls(4,5)] assms(5) by blast
  have "optional_varint rf 18 ''Transaction.raw.fee_limit'' = Inr fl"
    using assms(6) c(2) unfolding optional_varint_Inr by (simp split: option.splits)
  moreover have "has_bytes (trc20_payload owner rcpt args) 2 rcpt"
    "has_bytes (trc20_payload owner rcpt args) 4 ([0xa9, 0x05, 0x9c, 0xbb] @ args)"
    "optional_varint (trc20_payload owner rcpt args) 3 ''TriggerSmartContract.call_value'' = Inr None"
    by (simp_all add: trc20_payload_def has_bytes_def optional_varint_def)
  ultimately show ?thesis
    unfolding verify_contract_trc20
    using authentic_encode [OF assms(1)] transfer_urls(6) c(1) assms(7) tron_decode_hex_encode by blast
qed

text \<open>A concrete recipient for the witnesses.\<close>

definition sample_to :: string where
  "sample_to = letters (0x41 # replicate 20 1)"

lemma sample_to_decode: "tron_decode sample_prims sample_to = Inr (0x41 # replicate 20 1)"
proof -
  have t: "trim sample_to = sample_to" unfolding sample_to_def
    by (rule trim_graphic) (use letters_props in blast)
  show ?thesis
    unfolding tron_decode_Inr t unfolding sample_to_def
    by (simp add: sample_prims_def del: letters_simps replicate.simps)
qed

section \<open>Properties\<close>

text \<open>
  C8: \<open>verify_contract\<close> accepts a native transfer exactly when the id is the hash of the bytes
  and the bytes hold one contract, of type 1 and a \<open>TransferContract\<close> URL, whose single
  \<open>to_address\<close> is the requested recipient and whose single \<open>amount\<close> is the requested amount.
\<close>

theorem verify_contract_native_iff:
  "verify_contract p hex to txid (NativeSun amt) fee = Inr () \<longleftrightarrow>
     (\<exists>raw rcpt url rf payload. authentic p hex to txid raw rcpt \<and> carries raw 1 url rf payload \<and>
        ends_with url ''.TransferContract'' \<and> has_bytes payload 2 rcpt \<and> has_varint payload 3 amt)"
  by (rule verify_contract_native)

text \<open>
  C9: \<open>verify_contract\<close> accepts a TRC-20 transfer exactly when the bytes hold one smart-contract
  trigger to the requested token contract, whose calldata is the \<open>transfer\<close> selector followed by
  the requested arguments, which moves no TRX, and whose fee limit, where the bytes and the caller
  both name one, is the caller's.
\<close>

theorem verify_contract_trc20_iff:
  "verify_contract p hex to txid (Trc20 param) fee = Inr () \<longleftrightarrow>
     (\<exists>raw rcpt url rf payload cv fl args.
        authentic p hex to txid raw rcpt \<and> carries raw 31 url rf payload \<and>
        ends_with url ''.TriggerSmartContract'' \<and> has_bytes payload 2 rcpt \<and>
        optional_varint payload 3 ''TriggerSmartContract.call_value'' = Inr cv \<and> (cv = None \<or> cv = Some 0) \<and>
        optional_varint rf 18 ''Transaction.raw.fee_limit'' = Inr fl \<and> (fee = None \<or> fl = None \<or> fee = fl) \<and>
        tron_decode_hex param = Inr args \<and> has_bytes payload 4 ([0xa9, 0x05, 0x9c, 0xbb] @ args))"
  by (rule verify_contract_trc20)

text \<open>The bytes and transfer kind fix what is paid.\<close>

fun transfer_kind :: "TronTransfer \<Rightarrow> u64" where
  "transfer_kind (NativeSun _) = 1"
| "transfer_kind (Trc20 _) = 31"

lemma verify_contract_carries:
  assumes "verify_contract p hex to txid t fee = Inr ()"
  shows "\<exists>raw rcpt url rf pl. authentic p hex to txid raw rcpt \<and>
    carries raw (transfer_kind t) url rf pl \<and> has_bytes pl 2 rcpt \<and>
    (case t of NativeSun amt \<Rightarrow> has_varint pl 3 amt
     | Trc20 param \<Rightarrow> \<exists>args. tron_decode_hex param = Inr args \<and> has_bytes pl 4 ([0xa9, 0x05, 0x9c, 0xbb] @ args))"
proof (cases t)
  case (NativeSun amt)
  with assms [unfolded NativeSun verify_contract_native] show ?thesis
    unfolding NativeSun transfer_kind.simps TronTransfer.case by blast
next
  case (Trc20 param)
  with assms [unfolded Trc20 verify_contract_trc20] show ?thesis
    unfolding Trc20 transfer_kind.simps TronTransfer.case by blast
qed

text \<open>
  One byte string cannot be passed off as two transfers. If the same bytes verify for two
  requests then both are of the same kind, name the same recipient, and ask for the same amount
  (native) or the same decoded calldata (TRC-20).
\<close>

theorem verify_contract_binding:
  assumes "verify_contract p hex to txid t fee = Inr ()"
    and "verify_contract p hex to' txid' t' fee' = Inr ()"
  shows "tron_decode p to = tron_decode p to' \<and>
    (case (t, t') of
       (NativeSun a, NativeSun a') \<Rightarrow> a = a'
     | (Trc20 x, Trc20 x') \<Rightarrow> tron_decode_hex x = tron_decode_hex x'
     | _ \<Rightarrow> False)"
proof -
  obtain raw rcpt url rf pl where a: "authentic p hex to txid raw rcpt"
      "carries raw (transfer_kind t) url rf pl" "has_bytes pl 2 rcpt"
      "case t of NativeSun amt \<Rightarrow> has_varint pl 3 amt
       | Trc20 param \<Rightarrow> \<exists>args. tron_decode_hex param = Inr args \<and> has_bytes pl 4 ([0xa9, 0x05, 0x9c, 0xbb] @ args)"
    using verify_contract_carries [OF assms(1)] by blast
  obtain raw' rcpt' url' rf' pl' where b: "authentic p hex to' txid' raw' rcpt'"
      "carries raw' (transfer_kind t') url' rf' pl'" "has_bytes pl' 2 rcpt'"
      "case t' of NativeSun amt \<Rightarrow> has_varint pl' 3 amt
       | Trc20 param \<Rightarrow> \<exists>args. tron_decode_hex param = Inr args \<and> has_bytes pl' 4 ([0xa9, 0x05, 0x9c, 0xbb] @ args)"
    using verify_contract_carries [OF assms(2)] by blast
  have raw: "raw = raw'" using a(1) b(1) by (simp add: authentic_def)
  with carries_unique [OF a(2)] b(2) have pl: "pl = pl'" "transfer_kind t = transfer_kind t'"
    by blast+
  have "rcpt = rcpt'" using has_bytes_unique a(3) b(3) pl by blast
  then have "tron_decode p to = tron_decode p to'" using a(1) b(1) by (simp add: authentic_def)
  with a(4) b(4) pl show ?thesis
    by (cases t; cases t') (auto dest: has_varint_unique has_bytes_unique)
qed

theorem verify_contract_binding_witness:
  "\<exists>hex txid. verify_contract sample_prims hex sample_to txid (NativeSun 5) None = Inr () \<and>
     tron_decode sample_prims sample_to = tron_decode sample_prims sample_to"
proof -
  note h = honest_native [OF sample_to_decode, of "[]" "[]" "[]" _ 5 None, OF _ _ refl, simplified]
  from h verify_contract_binding [OF h h] show ?thesis by blast
qed

text \<open>
  An honest node is accepted. The canonical encoding of the requested native or TRC-20
  transfer, with any other outer fields around it, passes \<open>verify_contract\<close>; for TRC-20 the fee
  limit in the bytes, if any, must be the pinned one.
\<close>

theorem honest_transfer_accepted:
  assumes "tron_decode p to = Inr rcpt" and "length owner < 2 ^ 16" and "length args < 2 ^ 16"
    and "\<forall>f \<in> set (before @ after). field_ok f \<and> fld_number f \<noteq> 11"
    and "optional_varint (before @ after) 18 ''Transaction.raw.fee_limit'' = Inr fl"
    and "fee = None \<or> fl = None \<or> fee = fl"
  shows "(let raw = contract_tx before after 1 TRANSFER_URL (native_payload owner rcpt amt)
     in verify_contract p (hex_encode raw) to (hex_encode (sha256 p raw)) (NativeSun amt) fee = Inr ()) \<and>
    (let raw = contract_tx before after 31 TRIGGER_URL (trc20_payload owner rcpt args)
     in verify_contract p (hex_encode raw) to (hex_encode (sha256 p raw)) (Trc20 (hex_encode args)) fee = Inr ())"
  unfolding Let_def
  using honest_native [OF assms(1,2,4) refl] honest_trc20 [OF assms(1-4) refl assms(5,6)] by blast

theorem honest_transfer_accepted_witness:
  "verify_contract sample_prims
     (hex_encode (contract_tx [] [] 1 TRANSFER_URL (native_payload [] (0x41 # replicate 20 1) 5)))
     sample_to
     (hex_encode (sha256 sample_prims
        (contract_tx [] [] 1 TRANSFER_URL (native_payload [] (0x41 # replicate 20 1) 5))))
     (NativeSun 5) None = Inr ()"
proof -
  have "optional_varint ([] @ []) 18 ''Transaction.raw.fee_limit'' = Inr None"
    by (simp add: optional_varint_def)
  from honest_transfer_accepted [OF sample_to_decode _ _ _ this, of "[]" "[]" None 5]
  show ?thesis by (simp only: Let_def) simp
qed

text \<open>
  A pinned fee limit is compared only when the transaction names one. If TRC-20 bytes verify
  with no pinned limit and name no \<open>fee_limit\<close>, they verify for every pinned limit.
\<close>

theorem absent_fee_limit_accepted:
  assumes "verify_contract p hex to txid (Trc20 x) None = Inr ()"
    and "tron_decode_hex hex = Inr raw" and "parse_fields raw = Inr rf" and "occurrences rf 18 = []"
  shows "verify_contract p hex to txid (Trc20 x) (Some limit) = Inr ()"
proof -
  have "optional_varint rf 18 ''Transaction.raw.fee_limit'' = Inr fl \<longleftrightarrow> fl = None" for fl
    using assms(4) by (auto simp: optional_varint_Inr split: option.splits)
  moreover have "rf' = rf" if "authentic p hex to txid raw' rcpt" "carries raw' k u rf' pl" for raw' rcpt k u rf' pl
    using that assms(2,3) by (auto simp: authentic_def carries_def)
  ultimately show ?thesis
    using assms(1) unfolding verify_contract_trc20 by (metis option.distinct(1))
qed

theorem absent_fee_limit_accepted_witness:
  "\<exists>hex txid. verify_contract sample_prims hex sample_to txid (Trc20 []) (Some 7) = Inr ()"
proof -
  let ?raw = "contract_tx [] [] 31 TRIGGER_URL (trc20_payload [] (0x41 # replicate 20 1) [])"
  have fl: "optional_varint ([] @ []) 18 ''Transaction.raw.fee_limit'' = Inr None"
    by (simp add: optional_varint_def)
  have v: "verify_contract sample_prims (hex_encode ?raw) sample_to (hex_encode (sha256 sample_prims ?raw))
      (Trc20 []) None = Inr ()"
    using honest_trc20 [OF sample_to_decode _ _ _ refl fl, of "[]" "[]" None] by simp
  obtain rf where "parse_fields ?raw = Inr rf" "occurrences rf 18 = []"
    using carries_contract_tx [of "[]" "[]" "trc20_payload [] (0x41 # replicate 20 1) []" TRIGGER_URL 31]
      payload_ok(3,4) [of "[]" "0x41 # replicate 20 1" "[]"] transfer_urls(4,5) by auto
  from absent_fee_limit_accepted [OF v tron_decode_hex_encode this] show ?thesis by blast
qed

text \<open>
  The hex reader of the Tron path. It inverts lowercase hex; but it also reads \<open>+f\<close> as the
  byte 15, and panics on text whose byte pairs split a character, so a node's answer can panic
  every entry point that decodes it.
\<close>

theorem tron_hex_reader:
  "tron_decode_hex (hex_encode bs) = Inr bs \<and> tron_decode_hex ''+f'' = Inr [0x0f] \<and>
   recompute_txid p [CHR 0xE2, CHR 0x82, CHR 0xAC, CHR ''a''] = Inl TxPanic \<and>
   verify_contract p [CHR 0xE2, CHR 0x82, CHR 0xAC, CHR ''a''] to txid t fee = Inl TxPanic"
proof -
  have "tron_decode_hex ''+f'' = Inr [0x0f]" by code_simp
  moreover have "tron_decode_hex [CHR 0xE2, CHR 0x82, CHR 0xAC, CHR ''a''] = Inl TxPanic"
    by code_simp
  ultimately show ?thesis
    by (simp add: recompute_txid_def verify_contract_def)
qed

end
