(* ===== verification/TW_Evm.thy ===== *)
theory TW_Evm
  imports TW_Tron
begin

text \<open>
  EVM legacy transactions: the RLP encoder of \<open>src/tx/rlp.rs\<close> and the transaction building and
  EIP-155 signing of \<open>src/tx/evm.rs\<close>. An RLP reader written from the RLP specification serves
  as the reference; the encoder is an instance of the interface \<open>prefix_codec\<close> with it.
\<close>

section \<open>RLP\<close>

text \<open>\<open>&bytes[first..]\<close> where \<open>first\<close> is the position of the first non-zero byte.\<close>

definition strip_zeros :: "bytes \<Rightarrow> bytes" where
  "strip_zeros bs = dropWhile (\<lambda>b. b = 0) bs"

definition encode_length :: "nat \<Rightarrow> u8 \<Rightarrow> bytes" where
  "encode_length len off =
     (if len \<le> 55 then [off + of_nat len]
      else let significant = strip_zeros (be_bytes 8 len) in
           (off + 55 + of_nat (length significant)) # significant)"

definition encode_bytes :: "bytes \<Rightarrow> bytes" where
  "encode_bytes bs =
     (if length bs = 1 \<and> hd bs < 0x80 then [hd bs] else encode_length (length bs) 0x80 @ bs)"

definition encode_list :: "bytes list \<Rightarrow> bytes" where
  "encode_list items = (let payload = concat items in encode_length (length payload) 0xc0 @ payload)"

definition encode_uint :: "u128 \<Rightarrow> bytes" where
  "encode_uint v = encode_bytes (strip_zeros (be_bytes 16 (unat v)))"

definition encode_uint_bytes :: "bytes \<Rightarrow> bytes" where
  "encode_uint_bytes bs = encode_bytes (strip_zeros bs)"

section \<open>Legacy transactions\<close>

record LegacyTransaction =
  tx_nonce :: u128
  tx_gas_price :: u128
  tx_gas_limit :: u128
  tx_to :: "string option"
  tx_value :: u128
  tx_data :: bytes
  tx_chain_id :: u64

definition evm_decode_hex :: "string \<Rightarrow> tx_error + bytes option" where
  "evm_decode_hex body =
     (if odd (length body) then Inr None
      else case decode_hex_pairs body of
             Inl HexPanic \<Rightarrow> Inl TxPanic
           | Inl HexInvalidDigit \<Rightarrow> Inr None
           | Inr bs \<Rightarrow> Inr (Some bs))"

definition require_hex :: "bytes option \<Rightarrow> string \<Rightarrow> tx_error + bytes" where
  "require_hex decoded to = ok_or (InvalidField ''to'' (''not hex: '' @ to)) decoded"

definition to_bytes :: "LegacyTransaction \<Rightarrow> tx_error + bytes" where
  "to_bytes t =
     (case tx_to t of
        None \<Rightarrow> Inr []
      | Some to \<Rightarrow>
          rbind (map_err TxAddress (evm_validate to)) (\<lambda>validated.
            let body = (case strip_prefix ''0x'' validated of Some b \<Rightarrow> b | None \<Rightarrow> validated) in
            rbind (evm_decode_hex body) (\<lambda>decoded. require_hex decoded to)))"

definition base_items :: "LegacyTransaction \<Rightarrow> tx_error + bytes list" where
  "base_items t =
     rbind (to_bytes t) (\<lambda>to.
       Inr [encode_uint (tx_nonce t), encode_uint (tx_gas_price t), encode_uint (tx_gas_limit t),
            encode_bytes to, encode_uint (tx_value t), encode_bytes (tx_data t)])"

definition signing_payload :: "LegacyTransaction \<Rightarrow> tx_error + bytes" where
  "signing_payload t =
     rbind (base_items t) (\<lambda>items.
       Inr (encode_list (items @ [encode_uint (ucast (tx_chain_id t)), encode_uint 0, encode_uint 0])))"

definition evm_digest :: "prims \<Rightarrow> LegacyTransaction \<Rightarrow> tx_error + bytes" where
  "evm_digest p t = rbind (signing_payload t) (\<lambda>b. Inr (keccak256 p b))"

definition recovery_as_u64 :: "int \<Rightarrow> tx_error + u64" where
  "recovery_as_u64 recovery =
     (if recovery < 0 then Inl (Signing ''negative recovery id'') else Inr (of_int recovery))"

definition checked_v :: "u64 \<Rightarrow> u64 \<Rightarrow> tx_error + u64" where
  "checked_v recovery chain_id =
     rbind (ok_or (InvalidField ''chain_id'' (show_nat (unat chain_id) @ '' overflows EIP-155 v''))
              (case checked_mul chain_id 2 of None \<Rightarrow> None | Some d \<Rightarrow> checked_add d 35)) (\<lambda>chain_component.
       ok_or (InvalidField ''chain_id'' ''overflows EIP-155 v'') (checked_add recovery chain_component))"

definition evm_attach_signature :: "LegacyTransaction \<Rightarrow> bytes \<Rightarrow> u8 \<Rightarrow> tx_error + bytes" where
  "evm_attach_signature t rs recovery_id =
     (if recovery_id > 3 then
        Inl (Signing (''recovery id must be 0..=3, got '' @ show_nat (unat recovery_id)))
      else rbind (recovery_as_u64 (uint recovery_id)) (\<lambda>recovery.
        rbind (checked_v recovery (tx_chain_id t)) (\<lambda>v.
          rbind (base_items t) (\<lambda>items.
            Inr (encode_list (items @
              [encode_uint (ucast v), encode_uint_bytes (take 32 rs), encode_uint_bytes (drop 32 rs)]))))))"

definition evm_sign :: "prims \<Rightarrow> secp \<Rightarrow> LegacyTransaction \<Rightarrow> bytes \<Rightarrow> tx_error + bytes" where
  "evm_sign p c t secret_key =
     (if \<not> secp_key_ok c secret_key then Inl (Signing ''not a valid secp256k1 secret key'')
      else rbind (evm_digest p t) (\<lambda>message.
        case secp_sign_recoverable c secret_key message of
          (recovery_id, bs) \<Rightarrow>
            if recovery_id < 0 \<or> 255 < recovery_id then Inl (Signing ''negative recovery id'')
            else evm_attach_signature t bs (of_int recovery_id)))"

definition hash_of :: "prims \<Rightarrow> bytes \<Rightarrow> string" where
  "hash_of p raw = ''0x'' @ hex_encode (keccak256 p raw)"

definition SELECTOR :: bytes where
  "SELECTOR = [0xa9, 0x05, 0x9c, 0xbb]"

definition encode_erc20_transfer :: "string \<Rightarrow> u128 \<Rightarrow> tx_error + bytes" where
  "encode_erc20_transfer to amount =
     rbind (map_err TxAddress (evm_validate to)) (\<lambda>validated.
       let body = (case strip_prefix ''0x'' validated of Some b \<Rightarrow> b | None \<Rightarrow> validated) in
       rbind (evm_decode_hex body) (\<lambda>decoded.
         rbind (require_hex decoded to) (\<lambda>address.
           Inr (SELECTOR @ replicate 12 0 @ address @ replicate 16 0 @ be_bytes 16 (unat amount)))))"

section \<open>The RLP specification\<close>

text \<open>A reader of one RLP item, from the RLP specification: a string, or a list with its
  payload still encoded.\<close>

datatype rlp = RStr bytes | RList bytes

definition rlp_long :: "(bytes \<Rightarrow> rlp) \<Rightarrow> nat \<Rightarrow> bytes \<Rightarrow> unit + (rlp \<times> bytes)" where
  "rlp_long con k input =
     (let n = be_val (take k input); body = drop k input in
      if length input < k \<or> length body < n then Inl () else Inr (con (take n body), drop n body))"

definition rlp_short :: "(bytes \<Rightarrow> rlp) \<Rightarrow> nat \<Rightarrow> bytes \<Rightarrow> unit + (rlp \<times> bytes)" where
  "rlp_short con n input =
     (if length input < n then Inl () else Inr (con (take n input), drop n input))"

fun rlp_take :: "bytes \<Rightarrow> unit + (rlp \<times> bytes)" where
  "rlp_take [] = Inl ()"
| "rlp_take (b # input) =
     (let n = unat b in
      if n < 0x80 then Inr (RStr [b], input)
      else if n \<le> 0xb7 then rlp_short RStr (n - 0x80) input
      else if n < 0xc0 then rlp_long RStr (n - 0xb7) input
      else if n \<le> 0xf7 then rlp_short RList (n - 0xc0) input
      else rlp_long RList (n - 0xf7) input)"

fun rlp_encode :: "rlp \<Rightarrow> bytes" where
  "rlp_encode (RStr bs) = encode_bytes bs"
| "rlp_encode (RList payload) = encode_length (length payload) 0xc0 @ payload"

fun rlp_ok :: "rlp \<Rightarrow> bool" where
  "rlp_ok (RStr bs) \<longleftrightarrow> length bs < 2 ^ 64"
| "rlp_ok (RList bs) \<longleftrightarrow> length bs < 2 ^ 64"

lemma be_val_strip_zeros [simp]: "be_val (strip_zeros bs) = be_val bs"
  by (induction bs) (auto simp: strip_zeros_def be_val_Cons)

lemma length_strip_zeros: "length (strip_zeros bs) \<le> length bs"
  by (simp add: strip_zeros_def length_dropWhile_le)

lemma strip_zeros_be_bytes_inject:
  assumes "strip_zeros (be_bytes k m) = strip_zeros (be_bytes k n)" and "m < 256 ^ k" and "n < 256 ^ k"
  shows "m = n"
proof -
  have "be_val (be_bytes k m) = be_val (be_bytes k n)"
    using arg_cong [OF assms(1), of be_val] by (simp only: be_val_strip_zeros)
  with assms(2,3) show ?thesis by (simp add: be_val_be_bytes)
qed

lemma unat_off_add:
  assumes "unat (off :: u8) + n < 256"
  shows "unat (off + of_nat n) = unat off + n"
  using assms by (simp add: unat_word_ariths unat_of_nat)

lemma rlp_long_significant:
  assumes "length bs < 2 ^ 64"
  shows "rlp_long con (length (strip_zeros (be_bytes 8 (length bs))))
           (strip_zeros (be_bytes 8 (length bs)) @ bs @ rest) = Inr (con bs, rest)"
proof -
  have "be_val (strip_zeros (be_bytes 8 (length bs))) = length bs"
    using assms by (simp add: be_val_be_bytes)
  then show ?thesis by (simp add: rlp_long_def)
qed

lemma strip_zeros_pos:
  assumes "0 < n" and "n < 2 ^ 64"
  shows "0 < length (strip_zeros (be_bytes 8 n))" "length (strip_zeros (be_bytes 8 n)) \<le> 8"
proof -
  have "be_val (strip_zeros (be_bytes 8 n)) = n"
    using assms by (simp add: be_val_be_bytes)
  with assms show "0 < length (strip_zeros (be_bytes 8 n))" by (cases "strip_zeros (be_bytes 8 n)") auto
  show "length (strip_zeros (be_bytes 8 n)) \<le> 8"
    using length_strip_zeros [of "be_bytes 8 n"] by simp
qed

text \<open>The prefix of a payload of either kind is read back; the offset tells the kind.\<close>

lemma rlp_take_encode_length:
  assumes len: "length bs < 2 ^ 64"
    and kind: "(off, con) = (0x80, RStr) \<and> \<not> (length bs = 1 \<and> hd bs < 0x80) \<or> (off, con) = (0xc0, RList)"
  shows "rlp_take (encode_length (length bs) off @ bs @ rest) = Inr (con bs, rest)"
proof (cases "length bs \<le> 55")
  case True
  have "unat (off + of_nat (length bs)) = unat off + length bs"
    using True kind by (intro unat_off_add) auto
  with True kind show ?thesis
    by (auto simp: encode_length_def rlp_short_def Let_def)
next
  case False
  let ?k = "length (strip_zeros (be_bytes 8 (length bs)))"
  have k: "0 < ?k" "?k \<le> 8" using strip_zeros_pos [of "length bs"] False len by linarith+
  have "unat (off + 55 + of_nat ?k) = unat off + 55 + ?k"
    using kind k by (subst unat_off_add) auto
  with False kind k show ?thesis
    by (auto simp: encode_length_def Let_def rlp_long_significant [OF len])
qed

lemma rlp_take_encode: "rlp_ok x \<Longrightarrow> rlp_take (rlp_encode x @ rest) = Inr (x, rest)"
proof (cases x)
  case (RStr bs)
  assume "rlp_ok x"
  show ?thesis
  proof (cases "length bs = 1 \<and> hd bs < 0x80")
    case True
    then obtain b where "bs = [b]" by (cases bs) auto
    with True RStr show ?thesis by (simp add: encode_bytes_def word_less_nat_alt)
  next
    case False
    with RStr \<open>rlp_ok x\<close> show ?thesis
      using rlp_take_encode_length [of bs "0x80" RStr rest] by (auto simp: encode_bytes_def)
  qed
next
  case (RList bs)
  assume "rlp_ok x"
  with RList show ?thesis
    using rlp_take_encode_length [of bs "0xc0" RList rest] by auto
qed

interpretation rlp: prefix_codec rlp_encode rlp_take rlp_ok
  by unfold_locales (rule rlp_take_encode)

text \<open>The reader of a whole transaction: one list of \<open>n\<close> strings and nothing after it.\<close>

fun rlp_strings :: "nat \<Rightarrow> bytes \<Rightarrow> unit + bytes list" where
  "rlp_strings 0 input = (if input = [] then Inr [] else Inl ())"
| "rlp_strings (Suc n) input =
     rbind (rlp_take input) (\<lambda>(x, rest).
       case x of RList _ \<Rightarrow> Inl () | RStr bs \<Rightarrow> rbind (rlp_strings n rest) (\<lambda>bss. Inr (bs # bss)))"

definition rlp_read_list :: "nat \<Rightarrow> bytes \<Rightarrow> unit + bytes list" where
  "rlp_read_list n input =
     rbind (rlp_take input) (\<lambda>(x, rest).
       case x of RStr _ \<Rightarrow> Inl () | RList p \<Rightarrow> if rest = [] then rlp_strings n p else Inl ())"

lemma rlp_strings_encode:
  "\<forall>bs \<in> set bss. length bs < 2 ^ 64 \<Longrightarrow>
     rlp_strings (length bss) (concat (map encode_bytes bss)) = Inr bss"
proof (induction bss)
  case (Cons bs bss)
  then show ?case using rlp.dec_enc [of "RStr bs"] by simp
qed simp

lemma length_encode_length: "len < 2 ^ 64 \<Longrightarrow> length (encode_length len off) \<le> 9"
  using length_strip_zeros [of "be_bytes 8 len"] by (simp add: encode_length_def Let_def)

lemma length_encode_bytes: "length bs < 2 ^ 64 \<Longrightarrow> length (encode_bytes bs) \<le> length bs + 9"
  using length_encode_length [of "length bs" "0x80"] by (simp add: encode_bytes_def)

lemma length_concat_encode_bytes:
  "\<forall>bs \<in> set bss. length bs < 2 ^ 64 \<Longrightarrow>
     length (concat (map encode_bytes bss)) \<le> sum_list (map length bss) + 9 * length bss"
proof (induction bss)
  case (Cons bs bss)
  then show ?case using length_encode_bytes [of bs] by fastforce
qed simp

lemma rlp_read_list_encode:
  assumes "sum_list (map length bss) + 9 * length bss < 2 ^ 64"
  shows "rlp_read_list (length bss) (encode_list (map encode_bytes bss)) = Inr bss"
proof -
  have small: "\<forall>bs \<in> set bss. length bs < 2 ^ 64"
  proof
    fix bs assume "bs \<in> set bss"
    then have "length bs \<le> sum_list (map length bss)" by (simp add: member_le_sum_list)
    with assms show "length bs < 2 ^ 64" by linarith
  qed
  have len: "rlp_ok (RList (concat (map encode_bytes bss)))"
    using length_concat_encode_bytes [OF small] assms by (simp add: length_concat)
  show ?thesis
    using rlp.dec_enc [OF len, of "[]"] rlp_strings_encode [OF small]
    by (simp add: rlp_read_list_def encode_list_def Let_def)
qed

section \<open>Transactions read back\<close>

definition min_be :: "nat \<Rightarrow> bytes" where
  "min_be n = strip_zeros (be_bytes 16 n)"

definition core_fields :: "LegacyTransaction \<Rightarrow> bytes \<Rightarrow> bytes list" where
  "core_fields t to =
     [min_be (unat (tx_nonce t)), min_be (unat (tx_gas_price t)), min_be (unat (tx_gas_limit t)),
      to, min_be (unat (tx_value t)), tx_data t]"

lemma length_min_be: "length (min_be n) \<le> 16"
  using length_strip_zeros [of "be_bytes 16 n"] by (simp add: min_be_def)

lemma unat_u128_bytes: "unat (x :: u128) < 256 ^ 16"
  using unsigned_less [of x] by simp

lemma min_be_inject: "m < 256 ^ 16 \<Longrightarrow> n < 256 ^ 16 \<Longrightarrow> min_be m = min_be n \<longleftrightarrow> m = n"
  using strip_zeros_be_bytes_inject [of 16 m n] by (auto simp: min_be_def)

lemma min_be_u128 [simp]: "min_be (unat (x :: u128)) = min_be (unat y) \<longleftrightarrow> x = y"
  using min_be_inject [OF unat_u128_bytes unat_u128_bytes, of x y] by (simp add: word_unat_eq_iff)

lemma be_val_min_be: "n < 256 ^ 16 \<Longrightarrow> be_val (min_be n) = n"
  by (simp add: min_be_def be_val_be_bytes)

lemma evm_decode_validated:
  assumes "evm_validate to = Inr v"
  shows "\<exists>bs. length bs = 20 \<and> evm_decode_hex (evm_strip_prefix v) = Inr (Some bs)"
proof -
  from assms have v: "length (evm_strip_prefix v) = 40" "\<forall>c \<in> set (evm_strip_prefix v). is_ascii_hexdigit c"
    unfolding evm_validate_Inr by blast+
  then obtain bs where bs: "decode_hex_pairs (evm_strip_prefix v) = Inr bs"
    using decode_hex_pairs_hexdigits [of "evm_strip_prefix v"] by auto
  with v(1) have "length bs = 20" using decode_hex_pairs_length by fastforce
  with bs v(1) show ?thesis by (simp add: evm_decode_hex_def)
qed

lemma to_bytes_Inr:
  "to_bytes t = Inr to \<longleftrightarrow>
     (case tx_to t of
        None \<Rightarrow> to = []
      | Some a \<Rightarrow> (\<exists>v. evm_validate a = Inr v \<and> evm_decode_hex (evm_strip_prefix v) = Inr (Some to)))"
  by (auto simp: to_bytes_def require_hex_def evm_strip_prefix_def [symmetric] Let_def result_simps
      split: option.splits)

lemma to_bytes_length: "to_bytes t = Inr to \<Longrightarrow> length to \<le> 20"
  using evm_decode_validated by (fastforce simp: to_bytes_Inr split: option.splits)

lemma base_items_Inr:
  "base_items t = Inr items \<longleftrightarrow>
     (\<exists>to. to_bytes t = Inr to \<and> items = map encode_bytes (core_fields t to))"
  by (auto simp: base_items_def core_fields_def encode_uint_def min_be_def result_simps)

lemma unat_ucast_u64 [simp]: "unat (ucast (x :: u64) :: u128) = unat x"
  by (simp add: unat_ucast_wider)

lemma signing_payload_Inr:
  "signing_payload t = Inr raw \<longleftrightarrow>
     (\<exists>to. to_bytes t = Inr to \<and>
        raw = encode_list (map encode_bytes
                (core_fields t to @ [min_be (unat (tx_chain_id t)), min_be 0, min_be 0])))"
  by (auto simp: signing_payload_def base_items_Inr result_simps encode_uint_def min_be_def)

lemma checked_v_eq:
  assumes "unat r + 2 * unat c + 35 < 2 ^ 64"
  shows "checked_v r c = Inr (of_nat (unat r + 2 * unat c + 35))"
proof -
  have "checked_mul c 2 = Some (of_nat (2 * unat c))"
    using assms by (simp add: checked_mul_def mult.commute)
  moreover have "checked_add (of_nat (2 * unat c) :: u64) 35 = Some (of_nat (2 * unat c + 35))"
    using assms by (simp add: checked_add_def unat_of_nat unat_word_ariths)
  moreover have "checked_add r (of_nat (2 * unat c + 35)) = Some (of_nat (unat r + 2 * unat c + 35))"
    using assms by (simp add: checked_add_def unat_of_nat unat_word_ariths)
  ultimately show ?thesis by (simp only: checked_v_def option.case ok_or_simps rbind_Inr)
qed

lemma checked_v_Inr:
  "checked_v r c = Inr v \<longleftrightarrow>
     unat r + 2 * unat c + 35 < 2 ^ 64 \<and> v = of_nat (unat r + 2 * unat c + 35)"
proof (cases "unat r + 2 * unat c + 35 < 2 ^ 64")
  case True
  with checked_v_eq [OF True] show ?thesis by auto
next
  case False
  have "checked_v r c \<noteq> Inr v"
  proof
    assume "checked_v r c = Inr v"
    then obtain d e where "checked_mul c 2 = Some d" "checked_add d 35 = Some e" "checked_add r e = Some v"
      by (auto simp: checked_v_def result_simps split: option.splits)
    with False show False by (simp add: word_simps)
  qed
  with False show ?thesis by blast
qed

lemma checked_v_unat: "checked_v r c = Inr v \<Longrightarrow> unat v = unat r + 2 * unat c + 35"
  by (auto simp only: checked_v_Inr unat_of_nat) simp

lemma recovery_small:
  "recovery_id \<le> (3 :: u8) \<Longrightarrow>
     recovery_as_u64 (uint recovery_id) = Inr (ucast recovery_id) \<and>
     unat (ucast recovery_id :: u64) = unat recovery_id"
  by (simp add: recovery_as_u64_def unat_ucast_wider)

lemma evm_attach_signature_Inr:
  "evm_attach_signature t rs recovery_id = Inr raw \<longleftrightarrow>
     recovery_id \<le> 3 \<and> unat recovery_id + 2 * unat (tx_chain_id t) + 35 < 2 ^ 64 \<and>
     (\<exists>to. to_bytes t = Inr to \<and>
        raw = encode_list (map encode_bytes (core_fields t to @
                [min_be (unat recovery_id + 2 * unat (tx_chain_id t) + 35),
                 strip_zeros (take 32 rs), strip_zeros (drop 32 rs)])))"
proof (cases "recovery_id \<le> 3 \<and> unat recovery_id + 2 * unat (tx_chain_id t) + 35 < 2 ^ 64")
  case True
  let ?n = "unat recovery_id + 2 * unat (tx_chain_id t) + 35"
  have r: "recovery_as_u64 (uint recovery_id) = Inr (ucast recovery_id)"
      "checked_v (ucast recovery_id) (tx_chain_id t) = Inr (of_nat ?n)"
    using recovery_small [of recovery_id] True by (simp_all add: checked_v_Inr)
  have n: "unat (of_nat ?n :: u64) = ?n" using True by (simp only: unat_of_nat) simp
  have "evm_attach_signature t rs recovery_id = rbind (base_items t) (\<lambda>items.
      Inr (encode_list (items @ map encode_bytes
        [min_be ?n, strip_zeros (take 32 rs), strip_zeros (drop 32 rs)])))"
    using True
    by (simp only: evm_attach_signature_def r rbind_Inr linorder_not_less [symmetric] if_False simp_thms
        encode_uint_def encode_uint_bytes_def unat_ucast_u64 n min_be_def list.map)
  then show ?thesis
    using True by (auto simp: rbind_eq_Inr base_items_Inr)
next
  case False
  have "evm_attach_signature t rs recovery_id \<noteq> Inr raw"
    using False recovery_small [of recovery_id]
    by (auto simp: evm_attach_signature_def rbind_eq_Inr checked_v_Inr split: if_splits)
  with False show ?thesis by blast
qed

section \<open>Properties\<close>

lemma core_fields_bound:
  assumes "to_bytes t = Inr to" and "length (tx_data t) < 2 ^ 63"
    and "length a \<le> 32" "length b \<le> 32" "length c \<le> 32"
  shows "rlp_read_list 9 (encode_list (map encode_bytes (core_fields t to @ [a, b, c]))) =
           Inr (core_fields t to @ [a, b, c])"
proof -
  have "length (min_be (unat (tx_nonce t))) \<le> 16" "length (min_be (unat (tx_gas_price t))) \<le> 16"
    "length (min_be (unat (tx_gas_limit t))) \<le> 16" "length (min_be (unat (tx_value t))) \<le> 16"
    by (rule length_min_be)+
  with assms to_bytes_length [OF assms(1)]
  have "sum_list (map length (core_fields t to @ [a, b, c])) + 9 * length (core_fields t to @ [a, b, c]) < 2 ^ 64"
    by (simp add: core_fields_def)
  moreover have "length (core_fields t to @ [a, b, c]) = 9" by (simp add: core_fields_def)
  ultimately show ?thesis using rlp_read_list_encode by metis
qed

lemma core_fields_inject:
  "core_fields t to @ xs = core_fields t' to' @ ys \<Longrightarrow>
     tx_nonce t = tx_nonce t' \<and> tx_gas_price t = tx_gas_price t' \<and> tx_gas_limit t = tx_gas_limit t' \<and>
     to = to' \<and> tx_value t = tx_value t' \<and> tx_data t = tx_data t' \<and> xs = ys"
  by (simp add: core_fields_def)

lemma min_be_canonical: "min_be n = [] \<or> hd (min_be n) \<noteq> 0"
  using hd_dropWhile [of "\<lambda>b. b = 0" "be_bytes 16 n"] by (auto simp: min_be_def strip_zeros_def)

lemma to_bytes_error:
  "to_bytes t = Inl e \<longleftrightarrow> (\<exists>a err. tx_to t = Some a \<and> evm_validate a = Inl err \<and> e = TxAddress err)"
proof (cases "tx_to t")
  case (Some a)
  show ?thesis
  proof (cases "evm_validate a")
    case (Inr v)
    then show ?thesis
      using evm_decode_validated [OF Inr] Some
      by (auto simp: to_bytes_def require_hex_def Let_def evm_strip_prefix_def [symmetric])
  qed (use Some in \<open>auto simp: to_bytes_def\<close>)
qed (simp add: to_bytes_def)

text \<open>
  C26: a signed transaction reads back, by an independent RLP reader, as the list of nine strings
  the yellow paper prescribes: the requested nonce, gas price, gas limit, recipient, value and
  data, then \<open>v = recovery_id + 2 * chain_id + 35\<close> computed without wrap-around, then r and s.
  Every integer is the shortest big-endian string of its value (no leading zero byte).
\<close>

theorem signed_transaction_readback:
  assumes "evm_attach_signature t rs recovery_id = Inr raw"
    and "length rs = 64" and "length (tx_data t) < 2 ^ 63"
  shows "\<exists>n g l to val v r s.
    rlp_read_list 9 raw = Inr [n, g, l, to, val, tx_data t, v, r, s] \<and> to_bytes t = Inr to \<and>
    be_val n = unat (tx_nonce t) \<and> be_val g = unat (tx_gas_price t) \<and>
    be_val l = unat (tx_gas_limit t) \<and> be_val val = unat (tx_value t) \<and>
    be_val v = unat recovery_id + 2 * unat (tx_chain_id t) + 35 \<and>
    be_val r = be_val (take 32 rs) \<and> be_val s = be_val (drop 32 rs) \<and>
    (\<forall>x \<in> {n, g, l, val, v, r, s}. x = [] \<or> hd x \<noteq> 0)"
proof -
  let ?v = "unat recovery_id + 2 * unat (tx_chain_id t) + 35"
  obtain to where to: "to_bytes t = Inr to" and v: "?v < 2 ^ 64"
    and raw: "raw = encode_list (map encode_bytes (core_fields t to @
      [min_be ?v, strip_zeros (take 32 rs), strip_zeros (drop 32 rs)]))"
    using assms(1) by (auto simp: evm_attach_signature_Inr)
  have vals: "be_val (min_be ?v) = ?v" "\<And>x :: u128. be_val (min_be (unat x)) = unat x"
    using v unat_u128_bytes by (auto intro!: be_val_min_be)
  have zeros: "strip_zeros xs = [] \<or> hd (strip_zeros xs) \<noteq> 0" for xs
    using hd_dropWhile [of "\<lambda>b. b = 0" xs] by (auto simp: strip_zeros_def)
  have "rlp_read_list 9 raw = Inr (core_fields t to @
      [min_be ?v, strip_zeros (take 32 rs), strip_zeros (drop 32 rs)])"
    unfolding raw using assms(2,3) to length_min_be [of ?v]
      length_strip_zeros [of "take 32 rs"] length_strip_zeros [of "drop 32 rs"]
    by (intro core_fields_bound) auto
  then show ?thesis
    using to vals zeros min_be_canonical unfolding core_fields_def append.simps
    by (intro exI conjI) (assumption | simp)+
qed

definition sample_tx :: LegacyTransaction where
  "sample_tx = \<lparr>tx_nonce = 9, tx_gas_price = 20, tx_gas_limit = 21000, tx_to = None,
     tx_value = 5, tx_data = [1], tx_chain_id = 1\<rparr>"

lemma sample_tx_to [simp]: "to_bytes sample_tx = Inr []"
  by (simp add: to_bytes_def sample_tx_def)

lemma sample_tx_attach: "\<exists>raw. evm_attach_signature sample_tx (replicate 64 7) 1 = Inr raw"
proof -
  have "evm_attach_signature sample_tx (replicate 64 7) 1 =
      Inr (encode_list (map encode_bytes (core_fields sample_tx [] @
        [min_be 38, strip_zeros (take 32 (replicate 64 7)), strip_zeros (drop 32 (replicate 64 7))])))"
    unfolding evm_attach_signature_Inr by (simp add: sample_tx_def to_bytes_def)
  then show ?thesis by blast
qed

theorem signed_transaction_readback_witness:
  "\<exists>raw n g l to val v r s. evm_attach_signature sample_tx (replicate 64 7) 1 = Inr raw \<and>
     rlp_read_list 9 raw = Inr [n, g, l, to, val, [1], v, r, s] \<and> be_val v = 38 \<and> be_val n = 9"
proof -
  obtain raw where raw: "evm_attach_signature sample_tx (replicate 64 7) 1 = Inr raw"
    using sample_tx_attach by blast
  from signed_transaction_readback [OF raw] raw show ?thesis
    by (fastforce simp: sample_tx_def)
qed

text \<open>
  C25: replay protection. The signing payload is injective: two transactions with the same payload
  have the same nonce, gas price, gas limit, recipient bytes, value, data and chain id, so the
  digest signed for one network is (up to a hash collision) never that of another.
\<close>

theorem signing_payload_inject:
  assumes "signing_payload t = Inr x" and "signing_payload t' = Inr x"
    and "length (tx_data t) < 2 ^ 63" and "length (tx_data t') < 2 ^ 63"
  shows "tx_nonce t = tx_nonce t' \<and> tx_gas_price t = tx_gas_price t' \<and>
    tx_gas_limit t = tx_gas_limit t' \<and> to_bytes t = to_bytes t' \<and> tx_value t = tx_value t' \<and>
    tx_data t = tx_data t' \<and> tx_chain_id t = tx_chain_id t'"
proof -
  obtain to where t: "to_bytes t = Inr to" "x = encode_list (map encode_bytes
      (core_fields t to @ [min_be (unat (tx_chain_id t)), min_be 0, min_be 0]))"
    using assms(1) by (auto simp: signing_payload_Inr)
  obtain to' where t': "to_bytes t' = Inr to'" "x = encode_list (map encode_bytes
      (core_fields t' to' @ [min_be (unat (tx_chain_id t')), min_be 0, min_be 0]))"
    using assms(2) by (auto simp: signing_payload_Inr)
  have le: "length (min_be n) \<le> 32" for n using length_min_be [of n] by simp
  have "core_fields t to @ [min_be (unat (tx_chain_id t)), min_be 0, min_be 0] =
      core_fields t' to' @ [min_be (unat (tx_chain_id t')), min_be 0, min_be 0]"
    using core_fields_bound [OF t(1) assms(3) le le le] core_fields_bound [OF t'(1) assms(4) le le le]
      t(2) t'(2) by (metis sum.inject(2))
  note eq = core_fields_inject [OF this]
  have "unat c < 256 ^ 16" for c :: u64
    by (rule order_less_le_trans [OF unsigned_less]) simp
  then have "tx_chain_id t = tx_chain_id t'"
    using eq min_be_inject [of "unat (tx_chain_id t)" "unat (tx_chain_id t')"]
    by (simp add: word_unat_eq_iff)
  with eq t(1) t'(1) show ?thesis by simp
qed

theorem signing_payload_inject_witness:
  "\<exists>x. signing_payload sample_tx = Inr x \<and> tx_chain_id sample_tx = tx_chain_id sample_tx"
proof -
  obtain x where x: "signing_payload sample_tx = Inr x"
    by (simp add: signing_payload_def base_items_def)
  from signing_payload_inject [OF x x] x show ?thesis by (simp add: sample_tx_def)
qed

text \<open>
  What \<open>v\<close> says of the chain. With recovery ids 0 and 1 the value \<open>v\<close> determines both the
  recovery id and the chain id. The code also accepts 2 and 3, and there it does not: the raw
  transaction for one chain with recovery id 2 or 3 is byte for byte the raw transaction of the
  next chain id with recovery id 0 or 1.
\<close>

theorem v_identifies_chain:
  "(\<forall>r c r' c' v. checked_v r c = Inr v \<and> checked_v r' c' = Inr v \<and> r < 2 \<and> r' < 2 \<longrightarrow> r = r' \<and> c = c') \<and>
   (\<forall>t rs k raw. k < 2 \<and> tx_chain_id t \<noteq> - 1 \<and>
      evm_attach_signature (t\<lparr>tx_chain_id := tx_chain_id t + 1\<rparr>) rs k = Inr raw \<longrightarrow>
      evm_attach_signature t rs (k + 2) = Inr raw)"
proof (intro conjI allI impI)
  fix r c r' c' v :: u64
  assume a: "checked_v r c = Inr v \<and> checked_v r' c' = Inr v \<and> r < 2 \<and> r' < 2"
  then have "unat r + 2 * unat c + 35 = unat r' + 2 * unat c' + 35"
    using checked_v_unat [of r c v] checked_v_unat [of r' c' v] by simp
  moreover have "unat r < 2" "unat r' < 2" using a by (auto simp: word_less_nat_alt)
  ultimately have "unat r = unat r'" "unat c = unat c'" by presburger+
  then show "r = r'" "c = c'" by (simp_all add: word_unat_eq_iff)
next
  fix t :: LegacyTransaction and rs raw and k :: u8
  let ?t = "t\<lparr>tx_chain_id := tx_chain_id t + 1\<rparr>"
  assume k: "k < 2 \<and> tx_chain_id t \<noteq> - 1 \<and> evm_attach_signature ?t rs k = Inr raw"
  have c: "unat (tx_chain_id t + 1) = unat (tx_chain_id t) + 1"
    using k unatSuc [of "tx_chain_id t"] by (simp add: add.commute eq_neg_iff_add_eq_0)
  have k2: "unat (k + 2) = unat k + 2" "k + 2 \<le> 3" "k \<le> 3"
    using k by (auto simp: word_less_nat_alt word_le_nat_alt unat_word_ariths)
  have f: "to_bytes ?t = to_bytes t" "core_fields ?t to = core_fields t to" for to
    by (simp_all add: to_bytes_def core_fields_def)
  from k show "evm_attach_signature t rs (k + 2) = Inr raw"
    unfolding evm_attach_signature_Inr f by (simp add: c [simplified add.commute] c k2 algebra_simps)
qed

theorem v_identifies_chain_witness:
  "\<exists>raw. evm_attach_signature (sample_tx\<lparr>tx_chain_id := 0\<rparr>) (replicate 64 7) 3 = Inr raw \<and>
         evm_attach_signature sample_tx (replicate 64 7) 1 = Inr raw"
proof -
  let ?t = "sample_tx\<lparr>tx_chain_id := 0\<rparr>"
  obtain raw where raw: "evm_attach_signature sample_tx (replicate 64 7) 1 = Inr raw"
    using sample_tx_attach by blast
  have "?t\<lparr>tx_chain_id := tx_chain_id ?t + 1\<rparr> = sample_tx" by (simp add: sample_tx_def)
  with raw v_identifies_chain [THEN conjunct2, THEN spec [of _ ?t],
      THEN spec [of _ "replicate 64 7"], THEN spec [of _ 1], THEN spec [of _ raw]]
  show ?thesis by auto
qed

lemma erc20_words:
  assumes "evm_validate to = Inr v"
  shows "\<exists>addr. decode_hex_pairs (evm_strip_prefix v) = Inr addr \<and> length addr = 20 \<and>
    encode_erc20_transfer to amount = Inr (SELECTOR @ be_bytes 32 (be_val addr) @ be_bytes 32 (unat amount))"
proof -
  obtain addr where a: "length addr = 20" "evm_decode_hex (evm_strip_prefix v) = Inr (Some addr)"
    using evm_decode_validated [OF assms] by blast
  then have d: "decode_hex_pairs (evm_strip_prefix v) = Inr addr"
    by (auto simp: evm_decode_hex_def split: if_splits sum.splits hex_failure.splits)
  have "be_bytes (12 + 20) (be_val addr) = replicate 12 0 @ addr"
    using a(1) be_val_less [of addr] by (simp only: be_bytes_pad be_bytes_be_val)
  moreover have "be_bytes (16 + 16) (unat amount) = replicate 16 0 @ be_bytes 16 (unat amount)"
    by (rule be_bytes_pad [OF unat_u128_bytes])
  ultimately have w: "be_bytes 32 (be_val addr) = replicate 12 0 @ addr"
      "be_bytes 32 (unat amount) = replicate 16 0 @ be_bytes 16 (unat amount)"
    by simp_all
  have "encode_erc20_transfer to amount = Inr (SELECTOR @ be_bytes 32 (be_val addr) @ be_bytes 32 (unat amount))"
    unfolding w encode_erc20_transfer_def assms map_err_Inr rbind_Inr Let_def
      evm_strip_prefix_def [symmetric] a(2) require_hex_def ok_or_simps by simp
  with a(1) d show ?thesis by blast
qed

end
