(* ===== verification/TW_Eip712.thy ===== *)
theory TW_Eip712
  imports TW_Evm
begin

text \<open>
  EIP-712 typed-data hashing and the ERC-20 calldata of the x402 crate:
  \<open>tinywallet-x402/src/eip712/mod.rs\<close> and \<open>tinywallet-x402/src/abi/mod.rs\<close>. Keccak-256 is the
  parameter of \<open>prims\<close>; a \<open>U256Bytes\<close> is a list of 32 bytes.
\<close>

section \<open>256-bit integers\<close>

definition u256_from_u64 :: "u64 \<Rightarrow> bytes" where
  "u256_from_u64 v = replicate 24 0 @ be_bytes 8 (unat v)"

text \<open>\<open>out = out * 10 + digit\<close>: the inner loop, over the bytes from the least significant one.\<close>

fun mul10_add :: "bytes \<Rightarrow> u32 \<Rightarrow> bytes \<times> u32" where
  "mul10_add [] carry = ([], carry)"
| "mul10_add (b # bs) carry =
     (let product = ucast b * 10 + carry;
          low = product AND 0xff;
          b' = (if low \<le> 255 then ucast low else 0);
          (bs', carry') = mul10_add bs (drop_bit 8 product)
      in (b' # bs', carry'))"

fun u256_digits :: "string \<Rightarrow> bytes \<Rightarrow> string + bytes" where
  "u256_digits [] out = Inr out"
| "u256_digits (c # cs) out =
     (case mul10_add (rev out) (of_nat (of_char c - 48)) of
        (out', carry) \<Rightarrow>
          if carry \<noteq> 0 then Inl ''value does not fit in 256 bits'' else u256_digits cs (rev out'))"

definition u256_from_decimal :: "string \<Rightarrow> string + bytes" where
  "u256_from_decimal v =
     (let trimmed = trim v in
      if trimmed = [] \<or> \<not> list_all is_ascii_digit trimmed then Inl ''expected a base-10 integer''
      else u256_digits trimmed (replicate 32 0))"

section \<open>Typed data\<close>

definition DOMAIN_TYPE_HASH :: bytes where
  "DOMAIN_TYPE_HASH =
    [0x8b, 0x73, 0xc3, 0xc6, 0x9b, 0xb8, 0xfe, 0x3d, 0x51, 0x2e, 0xcc, 0x4c, 0xf7, 0x59, 0xcc, 0x79,
     0x23, 0x9f, 0x7b, 0x17, 0x9b, 0x0f, 0xfa, 0xca, 0xa9, 0xa7, 0x5d, 0x52, 0x2b, 0x39, 0x40, 0x0f]"

definition TRANSFER_WITH_AUTHORIZATION_TYPE :: string where
  "TRANSFER_WITH_AUTHORIZATION_TYPE = ''TransferWithAuthorization(address from,address to,uint256 value,uint256 validAfter,uint256 validBefore,bytes32 nonce)''"

definition left_pad_address :: "bytes \<Rightarrow> bytes" where
  "left_pad_address address = replicate 12 0 @ address"

definition domain_separator :: "prims \<Rightarrow> bytes \<Rightarrow> u64 \<Rightarrow> string \<Rightarrow> string \<Rightarrow> bytes" where
  "domain_separator p verifying_contract chain_id name version =
     keccak256 p (DOMAIN_TYPE_HASH @ keccak256 p (str_bytes name) @ keccak256 p (str_bytes version) @
       u256_from_u64 chain_id @ left_pad_address verifying_contract)"

definition transfer_with_authorization_hash ::
    "prims \<Rightarrow> bytes \<Rightarrow> bytes \<Rightarrow> bytes \<Rightarrow> bytes \<Rightarrow> bytes \<Rightarrow> bytes \<Rightarrow> bytes" where
  "transfer_with_authorization_hash p from to v valid_after valid_before nonce =
     keccak256 p (keccak256 p (str_bytes TRANSFER_WITH_AUTHORIZATION_TYPE) @
       left_pad_address from @ left_pad_address to @ v @ valid_after @ valid_before @ nonce)"

definition signing_digest :: "prims \<Rightarrow> bytes \<Rightarrow> bytes \<Rightarrow> bytes" where
  "signing_digest p separator struct_hash =
     keccak256 p ([0x19, 0x01] @ separator @ struct_hash)"

section \<open>ERC-20 calldata as text\<close>

datatype abi_error = InvalidRecipient string | InvalidAmount string

definition TRANSFER_SELECTOR :: bytes where
  "TRANSFER_SELECTOR = [0xa9, 0x05, 0x9c, 0xbb]"

text \<open>\<open>body.get(range)\<close>: absent past the end and off a character boundary.\<close>

definition str_get :: "string \<Rightarrow> nat \<Rightarrow> nat \<Rightarrow> string option" where
  "str_get s i j =
     (if j \<le> length s \<and> (i < length s \<longrightarrow> \<not> is_continuation (s ! i)) \<and>
         (j < length s \<longrightarrow> \<not> is_continuation (s ! j))
      then Some (take (j - i) (drop i s)) else None)"

definition decode_pair :: "string \<Rightarrow> nat \<Rightarrow> abi_error + u8" where
  "decode_pair body index =
     rbind (ok_or (InvalidRecipient ''address is shorter than 20 bytes'')
              (str_get body (index * 2) (index * 2 + 2))) (\<lambda>pair.
       ok_or (InvalidRecipient ''address is not hex'') (u8_from_str_radix_16 pair))"

fun collect_results :: "('e + 'a) list \<Rightarrow> 'e + 'a list" where
  "collect_results [] = Inr []"
| "collect_results (r # rs) = rbind r (\<lambda>x. rbind (collect_results rs) (\<lambda>xs. Inr (x # xs)))"

definition decode_evm_address :: "string \<Rightarrow> abi_error + bytes" where
  "decode_evm_address address =
     (let body = (case strip_prefix ''0x'' address of Some b \<Rightarrow> b | None \<Rightarrow> address) in
      collect_results (map (decode_pair body) [0..<20]))"

definition abi_encode_erc20_transfer :: "string \<Rightarrow> string \<Rightarrow> abi_error + string" where
  "abi_encode_erc20_transfer to amount =
     rbind (map_err (\<lambda>e. InvalidRecipient (error_to_string e)) (evm_validate to)) (\<lambda>recipient.
       rbind (decode_evm_address recipient) (\<lambda>bs.
         rbind (map_err (\<lambda>e. InvalidAmount (''invalid amount: '' @ e)) (u256_from_decimal amount)) (\<lambda>v.
           Inr (''0x'' @ hex_encode TRANSFER_SELECTOR @ hex_encode (left_pad_address bs) @ hex_encode v))))"

section \<open>Long multiplication is multiplication\<close>

lemma length_mul10_add [simp]: "length (fst (mul10_add bs carry)) = length bs"
  by (induction bs carry rule: mul10_add.induct) (simp_all add: Let_def case_prod_beta)

lemma mul10_step:
  fixes b :: u8 and carry :: u32
  assumes "unat carry < 10"
  defines "product \<equiv> ucast b * 10 + carry :: u32"
  shows "unat product = unat b * 10 + unat carry"
    and "unat (ucast (product AND 0xff) :: u8) = unat product mod 256"
    and "unat (drop_bit 8 product) = unat product div 256"
    and "product AND 0xff \<le> 255"
    and "unat product div 256 < 10"
proof -
  have b: "unat (ucast b :: u32) = unat b" by (simp add: unat_ucast_wider)
  show p: "unat product = unat b * 10 + unat carry"
    unfolding product_def using b assms(1) unat_u8_less [of b]
    by (simp add: unat_word_ariths)
  have m: "product AND 0xff = take_bit 8 product"
    by (simp add: take_bit_eq_mask mask_eq_exp_minus_1)
  have mu: "unat (product AND 0xff) = unat product mod 256"
    by (simp only: m unsigned_take_bit_eq) (simp add: take_bit_eq_mod)
  then show "product AND 0xff \<le> 255"
    by (simp add: word_le_nat_alt)
  show "unat (ucast (product AND 0xff) :: u8) = unat product mod 256"
    using mu by (simp add: unsigned_ucast_eq take_bit_eq_mod)
  show "unat (drop_bit 8 product) = unat product div 256"
    by (simp add: unat_drop_bit)
  show "unat product div 256 < 10"
    using p assms(1) unat_u8_less [of b] by simp
qed

lemma mul10_add_val:
  assumes "unat carry < 10"
  shows "le_val (fst (mul10_add bs carry)) + 256 ^ length bs * unat (snd (mul10_add bs carry)) =
           10 * le_val bs + unat carry"
  using assms
proof (induction bs arbitrary: carry)
  case (Cons b bs)
  let ?p = "ucast b * 10 + carry :: u32"
  note s = mul10_step [OF Cons.prems, of b]
  have "unat (drop_bit 8 ?p) < 10" using s(3,5) by simp
  note ih = Cons.IH [OF this]
  have "le_val (fst (mul10_add (b # bs) carry)) + 256 ^ length (b # bs) * unat (snd (mul10_add (b # bs) carry)) =
      unat ?p mod 256 + 256 * (le_val (fst (mul10_add bs (drop_bit 8 ?p))) +
        256 ^ length bs * unat (snd (mul10_add bs (drop_bit 8 ?p))))"
    using s(2,4) by (simp add: Let_def case_prod_beta algebra_simps)
  also have "\<dots> = 10 * le_val (b # bs) + unat carry"
    unfolding ih s(3) using s(1) by (simp add: algebra_simps)
  finally show ?case .
qed simp

lemma u256_digits_val:
  assumes "list_all is_ascii_digit s" and "length out = 32"
  shows "u256_digits s out = Inr r \<longleftrightarrow>
     (let n = foldl (\<lambda>acc c. acc * 10 + (of_char c - 48)) (be_val out) s in n < 2 ^ 256 \<and> r = be_bytes 32 n)"
  using assms
proof (induction s arbitrary: out)
  case Nil
  then show ?case using be_val_less [of out] be_bytes_be_val [of out 32] by (auto simp: Let_def)
next
  case (Cons c s)
  let ?d = "of_char c - 48 :: nat" and ?m = "mul10_add (rev out) (of_nat (of_char c - 48))"
  let ?f = "\<lambda>acc c. acc * 10 + (of_char c - 48 :: nat)"
  have "?d < 10" using Cons.prems(1) by (auto simp: is_ascii_digit_def Let_def)
  then have d: "?d < 10" "unat (of_nat ?d :: u32) = ?d" by (simp_all only: unat_of_nat) simp
  have v: "be_val (rev (fst ?m)) + 2 ^ 256 * unat (snd ?m) = be_val out * 10 + ?d"
    using mul10_add_val [of "of_nat ?d" "rev out"] d Cons.prems(2) by (simp add: be_val_def)
  have len: "length (rev (fst ?m)) = 32" using Cons.prems(2) by simp
  have lt: "be_val (rev (fst ?m)) < 2 ^ 256" using be_val_less [of "rev (fst ?m)"] len by simp
  show ?case
  proof (cases "snd ?m = 0")
    case True
    with v have "be_val (rev (fst ?m)) = be_val out * 10 + ?d" by simp
    with Cons.IH [OF _ len] Cons.prems(1) True show ?thesis
      by (simp add: case_prod_beta)
  next
    case False
    then have "1 \<le> unat (snd ?m)" by (simp add: Suc_le_eq unat_gt_0)
    then have "(2 :: nat) ^ 256 * 1 \<le> 2 ^ 256 * unat (snd ?m)" by (rule mult_le_mono2)
    with v have "2 ^ 256 \<le> be_val out * 10 + ?d" by linarith
    with dec_fold_mono [of "be_val out * 10 + ?d" s] have "\<not> foldl ?f (be_val out) (c # s) < 2 ^ 256"
      by (simp only: foldl.simps)
    with False show ?thesis by (simp add: case_prod_beta Let_def)
  qed
qed

lemma u256_from_decimal_Inr:
  "u256_from_decimal v = Inr r \<longleftrightarrow>
     trim v \<noteq> [] \<and> list_all is_ascii_digit (trim v) \<and> dec_val (trim v) < 2 ^ 256 \<and>
     r = be_bytes 32 (dec_val (trim v))"
  using u256_digits_val [of "trim v" "replicate 32 0" r] be_val_replicate_0 [of 32 "[]"]
  by (auto simp: u256_from_decimal_def Let_def dec_val_def)

section \<open>Calldata\<close>

lemma decode_pair_Suc: "decode_pair (c # d # body) (Suc i) = decode_pair body i"
  by (auto simp: decode_pair_def str_get_def)

lemma decode_pair_0:
  "\<forall>x \<in> set (c # d # body). is_ascii_hexdigit x \<Longrightarrow>
     decode_pair (c # d # body) 0 = ok_or (InvalidRecipient ''address is not hex'') (u8_from_str_radix_16 [c, d])"
  by (cases body) (simp_all add: decode_pair_def str_get_def hexdigit_not_continuation)

lemma collect_decode_pairs:
  assumes "length body = 2 * n" and "\<forall>c \<in> set body. is_ascii_hexdigit c"
    and "decode_hex_pairs body = Inr bs"
  shows "collect_results (map (decode_pair body) [0..<n]) = Inr bs"
  using assms
proof (induction body arbitrary: n bs rule: decode_hex_pairs.induct)
  case (3 c d body)
  then obtain k where n: "n = Suc k" by (cases n) auto
  have cont: "\<not> (body \<noteq> [] \<and> is_continuation (hd body))"
    using 3(3) by (cases body) (auto simp: hexdigit_not_continuation)
  from 3(4) cont obtain b bs' where b: "u8_from_str_radix_16 [c, d] = Some b" "decode_hex_pairs body = Inr bs'"
      "bs = b # bs'"
    by (auto simp: result_simps split: if_splits option.splits)
  have ih: "collect_results (map (decode_pair body) [0..<k]) = Inr bs'"
    using 3(1) [OF cont b(1) _ _ b(2)] 3(2,3) n by simp
  have "[0..<n] = 0 # map Suc [0..<k]" by (simp only: n upt_conv_Cons map_Suc_upt zero_less_Suc)
  then show ?case
    using 3(3) ih b by (simp add: decode_pair_0 decode_pair_Suc comp_def)
qed simp_all

lemma decode_evm_address_validated:
  assumes "evm_validate to = Inr v" and "decode_hex_pairs (evm_strip_prefix v) = Inr bs"
  shows "decode_evm_address v = Inr bs"
proof -
  from assms(1) have "length (evm_strip_prefix v) = 2 * 20" "\<forall>c \<in> set (evm_strip_prefix v). is_ascii_hexdigit c"
    unfolding evm_validate_Inr by auto
  from collect_decode_pairs [OF this assms(2)] show ?thesis
    by (simp add: decode_evm_address_def evm_strip_prefix_def)
qed

lemma left_pad_be_bytes: "length a = 20 \<Longrightarrow> left_pad_address a = be_bytes 32 (be_val a)"
  using be_bytes_pad [of "be_val a" 20 12] be_val_less [of a] be_bytes_be_val [of a 20]
  by (simp add: left_pad_address_def)

text \<open>
  Decimal amounts. \<open>u256_from_decimal\<close>, which multiplies by ten byte by byte with a carry,
  accepts exactly the texts that are, after trimming, a non-empty string of decimal digits whose
  value is below \<open>2 ^ 256\<close>, and returns the 32-byte big-endian form of that value.
\<close>

theorem u256_from_decimal_exact:
  "(u256_from_decimal s = Inr r \<longleftrightarrow>
      trim s \<noteq> [] \<and> list_all is_ascii_digit (trim s) \<and> dec_val (trim s) < 2 ^ 256 \<and>
      r = be_bytes 32 (dec_val (trim s))) \<and>
   (u256_from_decimal s = Inl ''value does not fit in 256 bits'' \<longleftrightarrow>
      trim s \<noteq> [] \<and> list_all is_ascii_digit (trim s) \<and> 2 ^ 256 \<le> dec_val (trim s))"
proof (intro conjI)
  show "u256_from_decimal s = Inr r \<longleftrightarrow>
      trim s \<noteq> [] \<and> list_all is_ascii_digit (trim s) \<and> dec_val (trim s) < 2 ^ 256 \<and>
      r = be_bytes 32 (dec_val (trim s))"
    by (rule u256_from_decimal_Inr)
  have err: "u256_digits t out = Inl e \<Longrightarrow> e = ''value does not fit in 256 bits''" for t out e
    by (induction t arbitrary: out) (auto split: prod.splits if_splits)
  show "u256_from_decimal s = Inl ''value does not fit in 256 bits'' \<longleftrightarrow>
      trim s \<noteq> [] \<and> list_all is_ascii_digit (trim s) \<and> 2 ^ 256 \<le> dec_val (trim s)"
  proof (cases "trim s = [] \<or> \<not> list_all is_ascii_digit (trim s)")
    case False
    then have eq: "u256_from_decimal s = u256_digits (trim s) (replicate 32 0)"
      by (auto simp: u256_from_decimal_def Let_def)
    have ok: "(\<exists>r. u256_from_decimal s = Inr r) \<longleftrightarrow> \<not> 2 ^ 256 \<le> dec_val (trim s)"
      using False u256_from_decimal_Inr [of s] unfolding not_le by blast
    show ?thesis
    proof (cases "u256_from_decimal s")
      case (Inl e)
      then have "e = ''value does not fit in 256 bits''" using err eq by metis
      moreover have "\<not> (\<exists>r. u256_from_decimal s = Inr r)" using Inl by simp
      ultimately show ?thesis using Inl False ok by blast
    next
      case (Inr r)
      then have "u256_from_decimal s \<noteq> Inl ''value does not fit in 256 bits''" by simp
      with Inr ok show ?thesis by blast
    qed
  qed (auto simp: u256_from_decimal_def Let_def)
qed

text \<open>
  The two ERC-20 encoders agree. For a valid recipient the calldata is the selector and two
  32-byte big-endian words, the recipient and the amount; the textual encoder of the x402 crate
  gives the hex of the bytes that the transaction builder gives, for the amount its decimal
  argument spells; and both fail on the same recipients.
\<close>

theorem erc20_encoders_agree:
  assumes "trim s \<noteq> []" and "list_all is_ascii_digit (trim s)" and "dec_val (trim s) = unat amount"
  shows "case evm_validate to of
      Inl e \<Rightarrow>
        encode_erc20_transfer to amount = Inl (TxAddress e) \<and>
        abi_encode_erc20_transfer to s = Inl (InvalidRecipient (error_to_string e))
    | Inr v \<Rightarrow>
        \<exists>a. decode_hex_pairs (evm_strip_prefix v) = Inr a \<and> length a = 20 \<and>
          (let calldata = SELECTOR @ be_bytes 32 (be_val a) @ be_bytes 32 (unat amount) in
           length calldata = 68 \<and> encode_erc20_transfer to amount = Inr calldata \<and>
           abi_encode_erc20_transfer to s = Inr (''0x'' @ hex_encode calldata))"
proof (cases "evm_validate to")
  case (Inl e)
  then show ?thesis by (simp add: encode_erc20_transfer_def abi_encode_erc20_transfer_def)
next
  case (Inr v)
  have "unat amount < 2 ^ 256" using unsigned_less [of amount] by (rule order_less_le_trans) simp
  then have amt: "u256_from_decimal s = Inr (be_bytes 32 (unat amount))"
    using assms by (simp add: u256_from_decimal_Inr)
  obtain a where a: "decode_hex_pairs (evm_strip_prefix v) = Inr a" "length a = 20"
      "encode_erc20_transfer to amount = Inr (SELECTOR @ be_bytes 32 (be_val a) @ be_bytes 32 (unat amount))"
    using erc20_words [OF Inr, of amount] by blast
  have "abi_encode_erc20_transfer to s =
      Inr (''0x'' @ hex_encode (SELECTOR @ be_bytes 32 (be_val a) @ be_bytes 32 (unat amount)))"
    using decode_evm_address_validated [OF Inr a(1)] Inr amt left_pad_be_bytes [OF a(2)]
    by (simp add: abi_encode_erc20_transfer_def hex_encode_append TRANSFER_SELECTOR_def SELECTOR_def)
  with a show ?thesis
    by (simp only: Inr sum.case Let_def) (simp add: SELECTOR_def)
qed

theorem erc20_encoders_agree_witness:
  "\<exists>calldata. encode_erc20_transfer ''52908400098527886e0f7030069857d2e4169ee7'' 7 = Inr calldata \<and>
     abi_encode_erc20_transfer ''52908400098527886e0f7030069857d2e4169ee7'' '' 7'' =
       Inr (''0x'' @ hex_encode calldata)"
proof -
  have v: "evm_validate ''52908400098527886e0f7030069857d2e4169ee7'' =
      Inr ''52908400098527886e0f7030069857d2e4169ee7''"
    by code_simp
  have t: "trim '' 7'' = ''7''" by code_simp
  have "trim '' 7'' \<noteq> []" "list_all is_ascii_digit (trim '' 7'')" "dec_val (trim '' 7'') = unat (7 :: u128)"
    unfolding t by (simp_all add: is_ascii_digit_def dec_val_def)
  from erc20_encoders_agree [OF this, of "''52908400098527886e0f7030069857d2e4169ee7''"]
  show ?thesis unfolding v sum.case Let_def by blast
qed

section \<open>What the signed digest commits to\<close>

record authorization =
  auth_contract :: bytes
  auth_chain_id :: u64
  auth_name :: string
  auth_version :: string
  auth_from :: bytes
  auth_to :: bytes
  auth_value :: bytes
  auth_after :: bytes
  auth_before :: bytes
  auth_nonce :: bytes

definition auth_ok :: "authorization \<Rightarrow> bool" where
  "auth_ok a \<longleftrightarrow> length (auth_contract a) = 20 \<and> length (auth_from a) = 20 \<and> length (auth_to a) = 20 \<and>
     length (auth_value a) = 32 \<and> length (auth_after a) = 32 \<and> length (auth_before a) = 32 \<and>
     length (auth_nonce a) = 32"

definition auth_domain :: "prims \<Rightarrow> authorization \<Rightarrow> bytes" where
  "auth_domain p a = domain_separator p (auth_contract a) (auth_chain_id a) (auth_name a) (auth_version a)"

definition auth_struct :: "prims \<Rightarrow> authorization \<Rightarrow> bytes" where
  "auth_struct p a = transfer_with_authorization_hash p (auth_from a) (auth_to a) (auth_value a)
     (auth_after a) (auth_before a) (auth_nonce a)"

definition auth_digest :: "prims \<Rightarrow> authorization \<Rightarrow> bytes" where
  "auth_digest p a = signing_digest p (auth_domain p a) (auth_struct p a)"

text \<open>The byte strings that are hashed on the way to the digest.\<close>

definition digest_inputs :: "prims \<Rightarrow> authorization \<Rightarrow> bytes set" where
  "digest_inputs p a =
     {str_bytes (auth_name a), str_bytes (auth_version a),
      DOMAIN_TYPE_HASH @ keccak256 p (str_bytes (auth_name a)) @ keccak256 p (str_bytes (auth_version a)) @
        u256_from_u64 (auth_chain_id a) @ left_pad_address (auth_contract a),
      keccak256 p (str_bytes TRANSFER_WITH_AUTHORIZATION_TYPE) @ left_pad_address (auth_from a) @
        left_pad_address (auth_to a) @ auth_value a @ auth_after a @ auth_before a @ auth_nonce a,
      [0x19, 0x01] @ auth_domain p a @ auth_struct p a}"

lemma u256_from_u64_be: "u256_from_u64 v = be_bytes 32 (unat v)"
proof -
  have "unat v < 256 ^ 8" using unsigned_less [of v] by simp
  from be_bytes_pad [OF this, of 24] show ?thesis by (simp add: u256_from_u64_def)
qed

lemma u256_from_u64_inject [simp]: "u256_from_u64 v = u256_from_u64 w \<longleftrightarrow> v = w"
proof
  assume "u256_from_u64 v = u256_from_u64 w"
  then have "be_bytes 8 (unat v) = be_bytes 8 (unat w)" by (simp add: u256_from_u64_def)
  with be_bytes_inject [of 8 "unat v" "unat w"] show "v = w"
    using unsigned_less [of v] unsigned_less [of w] by (simp add: word_unat_eq_iff)
qed simp

lemma left_pad_address_simps [simp]:
  "length (left_pad_address a) = 12 + length a" "left_pad_address a = left_pad_address b \<longleftrightarrow> a = b"
  by (simp_all add: left_pad_address_def)

lemma length_u256_from_u64 [simp]: "length (u256_from_u64 v) = 32"
  by (simp add: u256_from_u64_def)

text \<open>
  C31: the digest commits to the payment. Two EIP-3009 authorizations with the same signing digest
  agree on token contract, chain id, domain name and version, payer, payee, amount, validity
  window and nonce, provided Keccak-256 has 32-byte outputs and no collision among the few byte
  strings hashed for these two digests.
\<close>

theorem signing_digest_binding:
  assumes "auth_digest p a = auth_digest p b" and "auth_ok a" and "auth_ok b"
    and len: "\<And>x. length (keccak256 p x) = 32"
    and inj: "inj_on (keccak256 p) (digest_inputs p a \<union> digest_inputs p b)"
  shows "a = b"
proof -
  note eq = inj_on_eq_iff [OF inj]
  have outer: "auth_domain p a @ auth_struct p a = auth_domain p b @ auth_struct p b"
    using assms(1) eq [of "[0x19, 0x01] @ auth_domain p a @ auth_struct p a"
        "[0x19, 0x01] @ auth_domain p b @ auth_struct p b"]
    by (simp add: auth_digest_def signing_digest_def digest_inputs_def)
  have "length (auth_domain p a) = length (auth_domain p b)"
    by (simp add: auth_domain_def domain_separator_def len)
  with outer have d: "auth_domain p a = auth_domain p b" and st: "auth_struct p a = auth_struct p b"
    by simp_all
  from d have "keccak256 p (str_bytes (auth_name a)) @ keccak256 p (str_bytes (auth_version a)) @
        u256_from_u64 (auth_chain_id a) @ left_pad_address (auth_contract a) =
      keccak256 p (str_bytes (auth_name b)) @ keccak256 p (str_bytes (auth_version b)) @
        u256_from_u64 (auth_chain_id b) @ left_pad_address (auth_contract b)"
    unfolding auth_domain_def domain_separator_def by (subst (asm) eq) (simp_all add: digest_inputs_def)
  then have "keccak256 p (str_bytes (auth_name a)) = keccak256 p (str_bytes (auth_name b))"
      "keccak256 p (str_bytes (auth_version a)) = keccak256 p (str_bytes (auth_version b))"
      and dom: "auth_chain_id a = auth_chain_id b" "auth_contract a = auth_contract b"
    by (simp_all add: len)
  then have names: "auth_name a = auth_name b" "auth_version a = auth_version b"
    using eq [of "str_bytes (auth_name a)" "str_bytes (auth_name b)"]
      eq [of "str_bytes (auth_version a)" "str_bytes (auth_version b)"]
    by (simp_all add: digest_inputs_def)
  from st have "left_pad_address (auth_from a) @ left_pad_address (auth_to a) @ auth_value a @
        auth_after a @ auth_before a @ auth_nonce a =
      left_pad_address (auth_from b) @ left_pad_address (auth_to b) @ auth_value b @
        auth_after b @ auth_before b @ auth_nonce b"
    unfolding auth_struct_def transfer_with_authorization_hash_def
    by (subst (asm) eq) (simp_all add: digest_inputs_def)
  then have "auth_from a = auth_from b" "auth_to a = auth_to b" "auth_value a = auth_value b"
      "auth_after a = auth_after b" "auth_before a = auth_before b" "auth_nonce a = auth_nonce b"
    using assms(2,3) by (simp_all add: auth_ok_def)
  with dom names show ?thesis by simp
qed

definition length_prims :: prims where
  "length_prims = sample_prims\<lparr>keccak256 := (\<lambda>b. be_bytes 32 (length b))\<rparr>"

definition sample_auth :: authorization where
  "sample_auth = \<lparr>auth_contract = replicate 20 1, auth_chain_id = 8453, auth_name = ''USD Coin'',
     auth_version = ''2'', auth_from = replicate 20 2, auth_to = replicate 20 3,
     auth_value = u256_from_u64 5, auth_after = u256_from_u64 0, auth_before = u256_from_u64 9,
     auth_nonce = replicate 32 4\<rparr>"

lemma length_prims_keccak [simp]: "keccak256 length_prims x = be_bytes 32 (length x)"
  by (simp add: length_prims_def)

lemma sample_digest_inputs:
  shows "x \<in> digest_inputs length_prims sample_auth \<Longrightarrow> length x < 256 ^ 32"
    and "inj_on length (digest_inputs length_prims sample_auth)"
  by (auto simp: inj_on_def digest_inputs_def auth_domain_def auth_struct_def domain_separator_def
      transfer_with_authorization_hash_def sample_auth_def DOMAIN_TYPE_HASH_def)

theorem signing_digest_binding_witness:
  "inj_on (keccak256 length_prims) (digest_inputs length_prims sample_auth) \<and> auth_ok sample_auth \<and>
   (\<exists>b. auth_digest length_prims sample_auth = auth_digest length_prims b \<and> sample_auth = b)"
proof -
  have "inj_on (keccak256 length_prims) (digest_inputs length_prims sample_auth)"
  proof (rule inj_onI)
    fix x y
    assume xy: "x \<in> digest_inputs length_prims sample_auth" "y \<in> digest_inputs length_prims sample_auth"
      and "keccak256 length_prims x = keccak256 length_prims y"
    then have "length x = length y"
      using be_bytes_inject [of 32 "length x" "length y"] sample_digest_inputs(1) by simp
    then show "x = y" using inj_onD [OF sample_digest_inputs(2) _ xy] by simp
  qed
  moreover have "auth_ok sample_auth" by (simp add: auth_ok_def sample_auth_def)
  ultimately show ?thesis
    using signing_digest_binding [of length_prims sample_auth sample_auth, OF refl] by simp
qed

end
