(* ===== verification/TW_Solana.thy ===== *)
theory TW_Solana
  imports TW_Eip712
begin

text \<open>
  Solana transactions: the native transfer of \<open>src/tx/solana.rs\<close>, the hand-built wire format
  of \<open>tinywallet-web3/src/crypto/chains/solana/wire.rs\<close> and the signing of an externally built
  transaction of \<open>versioned.rs\<close>. The ed25519 operations are the parameter record \<open>ed25519\<close>;
  base58 and SHA-256 are those of \<open>prims\<close>.
\<close>

record ed25519 =
  on_curve :: "bytes \<Rightarrow> bool"
  ed_public :: "bytes \<Rightarrow> bytes"
  ed_sign :: "bytes \<Rightarrow> bytes \<Rightarrow> bytes"

section \<open>Compact-u16 lengths\<close>

text \<open>
  The loop that writes a length seven bits at a time. The program has it three times, on \<open>u16\<close>,
  on \<open>u32\<close> and on \<open>usize\<close>; here it is one function, at any width. Masked to seven bits, the
  narrowing to \<open>u8\<close> cannot fail.
\<close>

function shortvec :: "'a::len word \<Rightarrow> bytes" where
  "shortvec v =
     (let byte = (ucast (v AND 0x7f) :: u8); rest = drop_bit 7 v in
      if rest = 0 then [byte] else (byte OR 0x80) # shortvec rest)"
  by pat_completeness auto
termination
proof (relation "measure unat")
  fix v :: "'a word" and byte :: u8 and rest :: "'a word"
  assume "rest = drop_bit 7 v" and "rest \<noteq> 0"
  then show "(rest, v) \<in> measure unat"
    by (auto simp: unat_drop_bit word_unat_eq_iff)
qed simp

declare shortvec.simps [simp del]

definition tx_encode_shortvec :: "u16 \<Rightarrow> bytes" where
  "tx_encode_shortvec v = shortvec v"

definition wire_encode_shortvec :: "u16 \<Rightarrow> bytes" where
  "wire_encode_shortvec v = shortvec (ucast v :: u32)"

text \<open>The one of \<open>tinywallet-x402/src/crypto/solana_payment.rs\<close>, on \<open>usize\<close>.\<close>

definition x402_encode_shortvec :: "nat \<Rightarrow> bytes" where
  "x402_encode_shortvec v = shortvec (of_nat v :: u64)"

fun decode_shortvec_loop :: "nat \<Rightarrow> u32 \<Rightarrow> bytes \<Rightarrow> string + (u16 \<times> nat)" where
  "decode_shortvec_loop i v [] = Inl ''shortvec truncated''"
| "decode_shortvec_loop i v (byte # bs) =
     (if i \<ge> 3 then Inl ''shortvec too long''
      else let v' = v OR push_bit (7 * i) (ucast (byte AND 0x7f)) in
           if byte AND 0x80 = 0 then
             (if unat v' < 2 ^ 16 then Inr (ucast v', i + 1) else Inl ''shortvec exceeds u16 range'')
           else decode_shortvec_loop (i + 1) v' bs)"

definition decode_shortvec :: "bytes \<Rightarrow> string + (u16 \<times> nat)" where
  "decode_shortvec bs = decode_shortvec_loop 0 0 bs"

definition u16_from_len :: "nat \<Rightarrow> u16" where
  "u16_from_len len = (if len < 2 ^ 16 then of_nat len else - 1)"

definition shortvec_len :: "nat \<Rightarrow> bytes" where
  "shortvec_len len = wire_encode_shortvec (u16_from_len len)"

section \<open>Native transfers\<close>

definition SYSTEM_PROGRAM_ID :: bytes where
  "SYSTEM_PROGRAM_ID = replicate 32 0"

definition SYSTEM_TRANSFER_INDEX :: u32 where
  "SYSTEM_TRANSFER_INDEX = 2"

record NativeTransfer =
  nt_from :: string
  nt_to :: string
  nt_lamports :: u64
  nt_recent_blockhash :: string

definition decode_blockhash :: "prims \<Rightarrow> string \<Rightarrow> tx_error + bytes" where
  "decode_blockhash p raw =
     rbind (map_err (\<lambda>e. InvalidField ''recent_blockhash'' (''not base58: '' @ e))
              (bs58_decode p (trim raw))) (\<lambda>decoded.
       if length decoded = 32 then Inr decoded
       else Inl (InvalidField ''recent_blockhash'' (''expected 32 bytes, got '' @ show_nat (length decoded))))"

definition nt_message :: "prims \<Rightarrow> NativeTransfer \<Rightarrow> tx_error + bytes" where
  "nt_message p t =
     rbind (map_err TxAddress (solana_decode p (nt_from t))) (\<lambda>from.
     rbind (map_err TxAddress (solana_decode p (nt_to t))) (\<lambda>to.
     rbind (decode_blockhash p (nt_recent_blockhash t)) (\<lambda>blockhash.
       let data = le_bytes 4 (unat SYSTEM_TRANSFER_INDEX) @ le_bytes 8 (unat (nt_lamports t)) in
       Inr ([1, 0, 1] @
            tx_encode_shortvec 3 @ from @ to @ SYSTEM_PROGRAM_ID @
            blockhash @
            tx_encode_shortvec 1 @ [2] @
            tx_encode_shortvec 2 @ [0, 1] @
            tx_encode_shortvec (u16_from_len (length data)) @ data))))"

definition nt_attach_signature :: "prims \<Rightarrow> NativeTransfer \<Rightarrow> bytes \<Rightarrow> tx_error + bytes" where
  "nt_attach_signature p t signature =
     rbind (nt_message p t) (\<lambda>message. Inr (tx_encode_shortvec 1 @ signature @ message))"

definition nt_sign :: "prims \<Rightarrow> ed25519 \<Rightarrow> NativeTransfer \<Rightarrow> bytes \<Rightarrow> tx_error + bytes" where
  "nt_sign p ed t secret_key =
     (if length secret_key \<noteq> 32 then Inl (Signing ''ed25519 secret key must be 32 bytes'')
      else if solana_encode p (ed_public ed secret_key) \<noteq> trim (nt_from t) then
        Inl (Signing ''secret key does not control the `from` address'')
      else rbind (nt_message p t) (\<lambda>message. nt_attach_signature p t (ed_sign ed secret_key message)))"

section \<open>The web3 wire format\<close>

definition TOKEN_PROGRAM_B58 :: string where
  "TOKEN_PROGRAM_B58 = ''TokenkegQfeZyiNwAJbNbGKPFXCWuBvf9Ss623VQ5DA''"

definition ATA_PROGRAM_B58 :: string where
  "ATA_PROGRAM_B58 = ''ATokenGPvbdGVxr1b2hvZbsiqW5xWH25efTNsLJA8knL''"

definition b58_to_pubkey :: "prims \<Rightarrow> string \<Rightarrow> string + bytes" where
  "b58_to_pubkey p addr =
     rbind (map_err (\<lambda>e. ''invalid base58 '' @ [CHR 0x27] @ addr @ [CHR 0x27] @ '': '' @ e)
              (bs58_decode p addr)) (\<lambda>v.
       if length v = 32 then Inr v
       else Inl (''expected 32-byte pubkey, got '' @ show_nat (length v)))"

definition pubkey_to_b58 :: "prims \<Rightarrow> bytes \<Rightarrow> string" where
  "pubkey_to_b58 p pubkey = bs58_encode p pubkey"

definition token_program_id :: "prims \<Rightarrow> string + bytes" where
  "token_program_id p = b58_to_pubkey p TOKEN_PROGRAM_B58"

definition ata_program_id :: "prims \<Rightarrow> string + bytes" where
  "ata_program_id p = b58_to_pubkey p ATA_PROGRAM_B58"

record CompiledInstruction =
  ci_program_id_index :: u8
  ci_accounts :: bytes
  ci_data :: bytes

definition encode_compiled_instruction :: "CompiledInstruction \<Rightarrow> bytes" where
  "encode_compiled_instruction ins =
     [ci_program_id_index ins] @ shortvec_len (length (ci_accounts ins)) @ ci_accounts ins @
     shortvec_len (length (ci_data ins)) @ ci_data ins"

definition solana_encode_message ::
    "bytes \<Rightarrow> bytes list \<Rightarrow> bytes \<Rightarrow> CompiledInstruction list \<Rightarrow> bytes" where
  "solana_encode_message header account_keys recent_blockhash instructions =
     header @ shortvec_len (length account_keys) @ concat account_keys @ recent_blockhash @
     shortvec_len (length instructions) @ concat (map encode_compiled_instruction instructions)"

text \<open>The loop \<open>for bump in (0..=255).rev()\<close>.\<close>

definition pda_candidate :: "prims \<Rightarrow> bytes list \<Rightarrow> bytes \<Rightarrow> nat \<Rightarrow> bytes" where
  "pda_candidate p seeds program_id bump =
     sha256 p (concat seeds @ [of_nat bump] @ program_id @ str_bytes ''ProgramDerivedAddress'')"

fun find_bump :: "prims \<Rightarrow> ed25519 \<Rightarrow> bytes list \<Rightarrow> bytes \<Rightarrow> nat list \<Rightarrow> bytes option" where
  "find_bump p ed seeds program_id [] = None"
| "find_bump p ed seeds program_id (bump # bumps) =
     (let candidate = pda_candidate p seeds program_id bump in
      if \<not> on_curve ed candidate then Some candidate else find_bump p ed seeds program_id bumps)"

definition find_program_address :: "prims \<Rightarrow> ed25519 \<Rightarrow> bytes list \<Rightarrow> bytes \<Rightarrow> string + bytes" where
  "find_program_address p ed seeds program_id =
     ok_or ''no off-curve PDA found'' (find_bump p ed seeds program_id (rev [0..<256]))"

definition associated_token_account :: "prims \<Rightarrow> ed25519 \<Rightarrow> bytes \<Rightarrow> bytes \<Rightarrow> string + bytes" where
  "associated_token_account p ed owner mint =
     rbind (token_program_id p) (\<lambda>token_program.
     rbind (ata_program_id p) (\<lambda>ata_program.
       find_program_address p ed [owner, token_program, mint] ata_program))"

definition build_native_transfer_message :: "bytes \<Rightarrow> bytes \<Rightarrow> u64 \<Rightarrow> bytes \<Rightarrow> bytes" where
  "build_native_transfer_message from to lamports recent_blockhash =
     solana_encode_message [1, 0, 1] [from, to, SYSTEM_PROGRAM_ID] recent_blockhash
       [\<lparr>ci_program_id_index = 2, ci_accounts = [0, 1],
         ci_data = [2, 0, 0, 0] @ le_bytes 8 (unat lamports)\<rparr>]"

definition build_spl_transfer_message ::
    "prims \<Rightarrow> bytes \<Rightarrow> bytes \<Rightarrow> bytes \<Rightarrow> u64 \<Rightarrow> bytes \<Rightarrow> string + bytes" where
  "build_spl_transfer_message p from_owner src_ata dst_ata amount recent_blockhash =
     rbind (token_program_id p) (\<lambda>token_program.
       Inr (solana_encode_message [1, 0, 1] [from_owner, src_ata, dst_ata, token_program] recent_blockhash
         [\<lparr>ci_program_id_index = 3, ci_accounts = [1, 2, 0],
           ci_data = [3] @ le_bytes 8 (unat amount)\<rparr>]))"

section \<open>Signing an externally built transaction\<close>

text \<open>A slice past the end panics; the panic is a value of its own.\<close>

datatype fault = Msg string | Panic

definition slice :: "bytes \<Rightarrow> nat \<Rightarrow> nat \<Rightarrow> fault + bytes" where
  "slice bs i j = (if i \<le> j \<and> j \<le> length bs then Inr (take (j - i) (drop i bs)) else Inl Panic)"

definition copy_from_slice :: "bytes \<Rightarrow> nat \<Rightarrow> bytes \<Rightarrow> fault + bytes" where
  "copy_from_slice bs i src =
     (if i + length src \<le> length bs then Inr (take i bs @ src @ drop (i + length src) bs) else Inl Panic)"

record Layout =
  sigs_start :: nat
  num_signatures :: nat
  message_start :: nat
  keys_start :: nat
  signer_keys :: nat

text \<open>\<open>parse_layout\<close> from the message header on, and the whole.\<close>

definition parse_signer_keys :: "bytes \<Rightarrow> nat \<Rightarrow> nat \<Rightarrow> nat \<Rightarrow> nat \<Rightarrow> fault + Layout" where
  "parse_signer_keys message header_off sig_start ns ms =
     (if length message < header_off + 3 then Inl (Msg ''Solana message header truncated'')
      else let required = unat (message ! header_off) in
        if required = 0 then Inl (Msg ''Solana message declares zero required signatures'')
        else let keys_off = header_off + 3 in
          rbind (map_err Msg (decode_shortvec (drop keys_off message))) (\<lambda>(account_count, count_len).
            let ks = keys_off + count_len; sk = min required (unat account_count) in
            if ks + sk * 32 > length message then Inl (Msg ''Solana account keys region truncated'')
            else Inr \<lparr>sigs_start = sig_start, num_signatures = ns, message_start = ms,
                      keys_start = ks, signer_keys = sk\<rparr>))"

definition parse_layout :: "bytes \<Rightarrow> fault + Layout" where
  "parse_layout wire =
     rbind (map_err Msg (decode_shortvec wire)) (\<lambda>(n, sig_count_len).
       let ns = unat n; ms = sig_count_len + ns * 64 in
       if ms > length wire then Inl (Msg ''Solana tx blob truncated before message'')
       else let message = drop ms wire in
         if message = [] then Inl (Msg ''Solana tx blob has empty message'')
         else let header_off = (if hd message AND 0x80 \<noteq> 0 then 1 else 0) in
           parse_signer_keys message header_off sig_count_len ns ms)"

text \<open>\<open>(0..n).find(..)\<close> over the key slices.\<close>

fun find_key :: "bytes \<Rightarrow> nat \<Rightarrow> bytes \<Rightarrow> nat list \<Rightarrow> fault + nat option" where
  "find_key message start key [] = Inr None"
| "find_key message start key (i # is) =
     rbind (slice message (start + i * 32) (start + i * 32 + 32)) (\<lambda>k.
       if k = key then Inr (Some i) else find_key message start key is)"

definition sign_versioned ::
    "prims \<Rightarrow> bytes \<Rightarrow> (fault + bytes) \<Rightarrow> (bytes \<Rightarrow> fault + bytes) \<Rightarrow> fault + bytes" where
  "sign_versioned p wire signer_pubkey solana_sign =
     rbind (parse_layout wire) (\<lambda>layout.
     rbind signer_pubkey (\<lambda>our_pubkey.
       let message = drop (message_start layout) wire in
       rbind (find_key message (keys_start layout) our_pubkey [0..<signer_keys layout]) (\<lambda>found.
       rbind (ok_or (Msg (''wallet Solana address '' @ pubkey_to_b58 p our_pubkey @
                '' is not a required signer of this transaction'')) found) (\<lambda>our_index.
         if our_index \<ge> num_signatures layout then
           Inl (Msg ''Solana signer index exceeds signature slot count'')
         else rbind (solana_sign message) (\<lambda>sig_bytes.
           copy_from_slice wire (sigs_start layout + our_index * 64) sig_bytes)))))"

record RawBroadcastResult =
  rb_transaction_hash :: string
  rb_explorer_url :: "string option"
  rb_fee_raw :: "string option"

text \<open>The whole operation. The wallet engine's calls (\<open>signer_pubkey\<close>, \<open>solana_sign\<close>,
  \<open>broadcast_solana\<close>, \<open>explorer_url\<close>) and the \<open>hex\<close> crate are arguments.\<close>

definition sign_and_broadcast_versioned ::
    "prims \<Rightarrow> (string \<Rightarrow> string + bytes) \<Rightarrow> (fault + bytes) \<Rightarrow> (bytes \<Rightarrow> fault + bytes) \<Rightarrow>
     (bytes \<Rightarrow> fault + string) \<Rightarrow> (string \<Rightarrow> string option) \<Rightarrow> string \<Rightarrow> fault + RawBroadcastResult" where
  "sign_and_broadcast_versioned p hex_dec signer_pubkey solana_sign broadcast explorer_url tx_blob_hex =
     (let trimmed = trim tx_blob_hex;
          normalized = (case strip_prefix ''0x'' trimmed of Some b \<Rightarrow> b | None \<Rightarrow> trimmed) in
      rbind (map_err (\<lambda>e. Msg (''invalid Solana transaction hex blob: '' @ e)) (hex_dec normalized)) (\<lambda>wire.
      rbind (sign_versioned p wire signer_pubkey solana_sign) (\<lambda>signed_wire.
      rbind (broadcast signed_wire) (\<lambda>tx_sig.
        Inr \<lparr>rb_transaction_hash = tx_sig, rb_explorer_url = explorer_url tx_sig, rb_fee_raw = None\<rparr>))))"

section \<open>Lengths round-trip\<close>

text \<open>The specification: base-128 digits, least significant first, a set top bit on all but the
  last.\<close>

fun vlq :: "nat \<Rightarrow> bytes" where
  "vlq n = (if n < 128 then [of_nat n] else of_nat (128 + n mod 128) # vlq (n div 128))"

declare vlq.simps [simp del]

lemma mask_127: "(v :: 'a::len word) AND 0x7f = take_bit 7 v"
  by (simp add: take_bit_eq_mask mask_eq_exp_minus_1)

lemma unat_low7: "unat (ucast ((v :: 'a::len word) AND 0x7f) :: u8) = unat v mod 128"
proof -
  have "unat (ucast (v AND 0x7f) :: u8) = take_bit LENGTH(8) (take_bit 7 (unat v))"
    by (simp only: mask_127 unsigned_ucast_eq unsigned_take_bit_eq) (simp add: take_bit_take_bit)
  also have "\<dots> = take_bit 7 (unat v)" by (simp only: take_bit_take_bit) simp
  finally show ?thesis by (simp add: take_bit_eq_mod)
qed

lemma or_128: "unat (b :: u8) < 128 \<Longrightarrow> unat (b OR 0x80) = 128 + unat b"
proof -
  assume b: "unat b < 128"
  have tb: "take_bit 7 b = b" using b by (simp only: word_unat_eq_iff unsigned_take_bit_eq) (simp add: take_bit_eq_mod)
  have "\<not> bit b n \<or> \<not> bit (0x80 :: u8) n" for n
  proof -
    have "bit (0x80 :: u8) n \<longleftrightarrow> n = 7" using bit_varint_masks(2) [of n] by (auto simp: bit_simps)
    moreover have "\<not> bit b 7" by (subst tb [symmetric]) (simp add: bit_take_bit_iff)
    ultimately show ?thesis by auto
  qed
  then have "b OR 0x80 = b + 0x80" by (simp add: disjunctive_add)
  with b show ?thesis by (simp add: unat_word_ariths)
qed

lemma shortvec_vlq: "shortvec (v :: 'a::len word) = vlq (unat v)"
proof (induction v rule: shortvec.induct)
  case (1 v)
  have z: "drop_bit 7 v = 0 \<longleftrightarrow> unat v < 128"
    by (simp add: word_unat_eq_iff unat_drop_bit div_eq_0_iff)
  let ?b = "ucast (v AND 0x7f) :: u8"
  have b: "?b = of_nat (unat v mod 128)"
    by (simp add: word_unat_eq_iff unat_low7 unat_of_nat)
  have c: "?b OR 0x80 = of_nat (128 + unat v mod 128)"
    using or_128 [of ?b] by (simp only: word_unat_eq_iff unat_of_nat unat_low7) simp
  show ?case
  proof (cases "drop_bit 7 v = 0")
    case True
    with z b show ?thesis
      by (simp only: shortvec.simps [of v] vlq.simps [of "unat v"] Let_def if_True) simp
  next
    case False
    from 1 [OF refl refl False] have "shortvec (drop_bit 7 v) = vlq (unat v div 128)"
      by (simp add: unat_drop_bit)
    with False z c show ?thesis
      by (simp only: shortvec.simps [of v] vlq.simps [of "unat v"] Let_def if_False)
  qed
qed

lemma or_push_bit:
  fixes v :: u32 and b :: u8
  assumes "i < 3" and "unat v < 2 ^ (7 * i)" and "unat b < 128"
  shows "unat (v OR push_bit (7 * i) (ucast b)) = unat v + 2 ^ (7 * i) * unat b"
proof -
  have tv: "take_bit (7 * i) v = v"
    using assms(2) by (simp only: word_unat_eq_iff unsigned_take_bit_eq) (simp add: take_bit_eq_mod)
  have "\<not> bit v n \<or> \<not> bit (push_bit (7 * i) (ucast b :: u32)) n" for n
    by (subst tv [symmetric]) (simp add: bit_take_bit_iff bit_push_bit_iff)
  then have eq: "v OR push_bit (7 * i) (ucast b) = v + push_bit (7 * i) (ucast b)"
    by (simp add: disjunctive_add)
  have pw: "(2 :: nat) ^ (7 * i) \<le> 2 ^ 14"
    using assms(1) by (intro power_increasing) auto
  have "2 ^ (7 * i) * unat b \<le> 2 ^ 14 * unat b" using pw by (rule mult_le_mono1)
  moreover have "(2 :: nat) ^ 14 * unat b < 2 ^ 21" using assms(3) by simp
  ultimately have small: "2 ^ (7 * i) * unat b < 2 ^ 21" by (rule order_le_less_trans)
  have "unat (push_bit (7 * i) (ucast b :: u32)) = 2 ^ (7 * i) * unat b"
    using small
    by (simp only: unsigned_push_bit_eq) (simp add: push_bit_eq_mult take_bit_eq_mod unat_ucast_wider mult.commute)
  moreover have "unat v < 2 ^ 14" using assms(2) pw by linarith
  ultimately show ?thesis using small by (simp add: eq unat_word_ariths)
qed

lemma and_128: "(b :: u8) AND 0x80 = 0 \<longleftrightarrow> unat b < 128"
proof -
  have "b AND 0x80 = push_bit 7 (drop_bit 7 b)"
  proof (rule bit_word_eqI)
    fix n assume "n < LENGTH(8)"
    then show "bit (b AND 0x80) n \<longleftrightarrow> bit (push_bit 7 (drop_bit 7 b)) n"
      using bit_varint_masks(2) [of n] by (auto simp: bit_simps)
  qed
  moreover have "push_bit 7 (drop_bit 7 b) = 0 \<longleftrightarrow> drop_bit 7 b = 0"
  proof
    assume "push_bit 7 (drop_bit 7 b) = 0"
    then have "\<not> bit (push_bit 7 (drop_bit 7 b)) 7" by simp
    then have "\<not> bit b 7" by (simp add: bit_simps)
    then have "bit (drop_bit 7 b) n \<longleftrightarrow> bit (0 :: u8) n" for n
      using bit_imp_le_length [of b "7 + n"] by (cases n) (auto simp: bit_drop_bit_eq)
    then show "drop_bit 7 b = 0" by (intro bit_word_eqI) blast
  qed simp
  ultimately show ?thesis
    by (simp only:) (simp add: word_unat_eq_iff unat_drop_bit div_eq_0_iff)
qed

lemma unat_and_127: "unat ((b :: u8) AND 0x7f) = unat b mod 128"
  by (simp only: mask_127 unsigned_take_bit_eq) (simp add: take_bit_eq_mod)

lemma decode_shortvec_loop_vlq:
  assumes "i < 3" and "unat v < 2 ^ (7 * i)" and "unat v + 2 ^ (7 * i) * m < 2 ^ 16"
  shows "decode_shortvec_loop i v (vlq m @ rest) = Inr (of_nat (unat v + 2 ^ (7 * i) * m), i + length (vlq m))"
  using assms
proof (induction m arbitrary: i v rule: vlq.induct)
  case (1 m)
  show ?case
  proof (cases "m < 128")
    case True
    let ?b = "of_nat m :: u8"
    have b: "unat (?b AND 0x7f) = m" "unat ?b < 128" using True by (simp_all add: unat_and_127 unat_of_nat)
    let ?v = "v OR push_bit (7 * i) (ucast (?b AND 0x7f))"
    have v: "unat ?v = unat v + 2 ^ (7 * i) * m"
      using or_push_bit [of i v "?b AND 0x7f"] 1(2,3) b True by simp
    then have "(ucast ?v :: u16) = of_nat (unat v + 2 ^ (7 * i) * m)"
      by (simp only: word_unat_eq_iff unsigned_ucast_eq unat_of_nat) (simp add: take_bit_eq_mod)
    with v b(2) 1(2,4) True show ?thesis
      by (simp add: vlq.simps [of m] and_128 Let_def)
  next
    case False
    let ?b = "of_nat (128 + m mod 128) :: u8"
    have ub: "unat ?b = 128 + m mod 128" by (simp only: unat_of_nat) simp
    then have b: "unat (?b AND 0x7f) = m mod 128" "\<not> unat ?b < 128" by (simp_all only: unat_and_127) simp_all
    let ?v = "v OR push_bit (7 * i) (ucast (?b AND 0x7f))"
    have v: "unat ?v = unat v + 2 ^ (7 * i) * (m mod 128)"
      using or_push_bit [of i v "?b AND 0x7f"] 1(2,3) b by simp
    have eq: "unat ?v + 2 ^ (7 * (i + 1)) * (m div 128) = unat v + 2 ^ (7 * i) * m"
    proof -
      have "2 ^ (7 * (i + 1)) * (m div 128) = 2 ^ (7 * i) * (128 * (m div 128))" by (simp add: power_add)
      then show ?thesis using v by (metis add.assoc add_mult_distrib2 mod_mult_div_eq)
    qed
    have i: "i + 1 < 3"
    proof (rule ccontr)
      assume "\<not> i + 1 < 3"
      with 1(2) have "i = 2" by simp
      with 1(4) False show False by simp
    qed
    have "2 ^ (7 * i) * (m mod 128) \<le> 2 ^ (7 * i) * (127 :: nat)" by (intro mult_le_mono2) simp
    moreover have "(2 :: nat) ^ (7 * (i + 1)) = 2 ^ (7 * i) * 127 + 2 ^ (7 * i)" by (simp add: power_add)
    ultimately have lt: "unat ?v < 2 ^ (7 * (i + 1))" using v 1(3) by linarith
    have "decode_shortvec_loop (i + 1) ?v (vlq (m div 128) @ rest) =
        Inr (of_nat (unat v + 2 ^ (7 * i) * m), i + 1 + length (vlq (m div 128)))"
      using 1(1) [OF False i lt] 1(4) unfolding eq by blast
    with b False 1(2) show ?thesis
      by (simp only: vlq.simps [of m] if_False append.simps decode_shortvec_loop.simps Let_def and_128 not_le
          list.size) simp
  qed
qed

lemma decode_shortvec_vlq:
  "n < 2 ^ 16 \<Longrightarrow> decode_shortvec (vlq n @ rest) = Inr (of_nat n, length (vlq n))"
  using decode_shortvec_loop_vlq [of 0 0 n rest] by (simp add: decode_shortvec_def)

definition take_shortvec :: "bytes \<Rightarrow> string + (u16 \<times> bytes)" where
  "take_shortvec bs = rbind (decode_shortvec bs) (\<lambda>(v, k). Inr (v, drop k bs))"

lemma wire_encode_shortvec_vlq: "wire_encode_shortvec v = vlq (unat v)"
  by (simp add: wire_encode_shortvec_def shortvec_vlq unat_ucast_wider)

lemma unat_u16_less: "unat (v :: u16) < 2 ^ 16"
  using unsigned_less [of v] by simp

interpretation compact_u16: prefix_codec wire_encode_shortvec take_shortvec "\<lambda>_. True"
  by unfold_locales (simp add: take_shortvec_def wire_encode_shortvec_vlq decode_shortvec_vlq [OF unat_u16_less])

section \<open>Layout and slots\<close>

lemma length_vlq: "n < 2 ^ 16 \<Longrightarrow> length (vlq n) \<le> 3"
proof -
  assume n: "n < 2 ^ 16"
  then have "n div 128 div 128 < 128" by simp
  then show ?thesis
    by (subst vlq.simps, subst vlq.simps, subst vlq.simps) simp
qed

lemma shortvec_len_vlq: "n < 2 ^ 16 \<Longrightarrow> shortvec_len n = vlq n"
  by (simp add: shortvec_len_def u16_from_len_def wire_encode_shortvec_vlq unat_of_nat)

lemma decode_shortvec_count: "decode_shortvec bs = Inr (v, k) \<Longrightarrow> k \<le> length bs"
proof -
  have "decode_shortvec_loop i w bs = Inr (v, k) \<Longrightarrow> k \<le> i + length bs" for i w
    by (induction i w bs rule: decode_shortvec_loop.induct) (auto simp: Let_def split: if_splits)
  then show "decode_shortvec bs = Inr (v, k) \<Longrightarrow> k \<le> length bs" by (fastforce simp: decode_shortvec_def)
qed

lemma parse_signer_keys_Inr:
  "parse_signer_keys message h ss ns ms = Inr l \<Longrightarrow>
     sigs_start l = ss \<and> num_signatures l = ns \<and> message_start l = ms \<and>
     keys_start l + signer_keys l * 32 \<le> length message"
  by (auto simp: parse_signer_keys_def result_simps Let_def split: if_splits prod.splits)

lemma parse_layout_Inr:
  assumes "parse_layout wire = Inr l"
  shows "sigs_start l + num_signatures l * 64 = message_start l" and "message_start l \<le> length wire"
    and "keys_start l + signer_keys l * 32 \<le> length wire - message_start l"
  using assms
  by (auto simp: parse_layout_def result_simps Let_def split: if_splits dest: parse_signer_keys_Inr)

text \<open>The slot is inside the signature area, so the copy never panics.\<close>

lemma sign_versioned_slot:
  assumes "parse_layout wire = Inr l" and "i < num_signatures l" and "length sig = 64"
  shows "copy_from_slice wire (sigs_start l + i * 64) sig =
    Inr (take (sigs_start l + i * 64) wire @ sig @ drop (sigs_start l + i * 64 + 64) wire)"
    and "sigs_start l + i * 64 + 64 \<le> message_start l"
proof -
  have "(i + 1) * 64 \<le> num_signatures l * 64" using assms(2) by (intro mult_le_mono1) simp
  then show le: "sigs_start l + i * 64 + 64 \<le> message_start l"
    using parse_layout_Inr(1) [OF assms(1)] by simp
  then show "copy_from_slice wire (sigs_start l + i * 64) sig =
      Inr (take (sigs_start l + i * 64) wire @ sig @ drop (sigs_start l + i * 64 + 64) wire)"
    using parse_layout_Inr(2) [OF assms(1)] assms(3) by (simp add: copy_from_slice_def)
qed

lemma sign_versioned_eq:
  assumes l: "parse_layout wire = Inr l" and sg: "\<forall>m s. sg m = Inr s \<longrightarrow> length s = 64"
  defines "message \<equiv> drop (message_start l) wire"
  shows "sign_versioned p wire (Inr our) sg =
    (case List.find (\<lambda>i. take 32 (drop (keys_start l + i * 32) message) = our) [0..<signer_keys l] of
       None \<Rightarrow> Inl (Msg (''wallet Solana address '' @ pubkey_to_b58 p our @ '' is not a required signer of this transaction''))
     | Some i \<Rightarrow>
         if i \<ge> num_signatures l then Inl (Msg ''Solana signer index exceeds signature slot count'')
         else rbind (sg message) (\<lambda>s.
           Inr (take (sigs_start l + i * 64) wire @ s @ drop (sigs_start l + i * 64 + 64) wire)))"
proof -
  let ?P = "\<lambda>i. take 32 (drop (keys_start l + i * 32) message) = our"
  have len: "keys_start l + signer_keys l * 32 \<le> length message"
    using parse_layout_Inr(3) [OF l] by (simp add: message_def)
  have "find_key message (keys_start l) our xs = Inr (List.find ?P xs)" if "\<forall>i \<in> set xs. i < signer_keys l" for xs
    using that
  proof (induction xs)
    case (Cons i xs)
    have "(i + 1) * 32 \<le> signer_keys l * 32" using Cons.prems by (intro mult_le_mono1) auto
    then have "keys_start l + i * 32 + 32 \<le> length message" using len by simp
    with Cons show ?case by (simp add: slice_def)
  qed simp
  then have f: "find_key message (keys_start l) our [0..<signer_keys l] = Inr (List.find ?P [0..<signer_keys l])"
    by simp
  show ?thesis
  proof (cases "List.find ?P [0..<signer_keys l]")
    case (Some i)
    show ?thesis
    proof (cases "i \<ge> num_signatures l")
      case False
      then show ?thesis
        using sign_versioned_slot(1) [OF l, of i] sg
        by (cases "sg message")
          (simp_all add: sign_versioned_def l Let_def message_def [symmetric] f Some)
    qed (simp add: sign_versioned_def l Let_def message_def [symmetric] f Some)
  qed (simp add: sign_versioned_def l Let_def message_def [symmetric] f)
qed

section \<open>Transactions built elsewhere\<close>

lemma length_concat_const: "\<forall>x \<in> set xs. length x = k \<Longrightarrow> length (concat xs) = length xs * k"
  by (induction xs) auto

lemma chunk_nth:
  "\<forall>x \<in> set xs. length x = k \<Longrightarrow> i < length xs \<Longrightarrow> take k (drop (i * k) (concat xs @ rest)) = xs ! i"
proof (induction xs arbitrary: i)
  case (Cons x xs)
  then show ?case by (cases i) auto
qed simp

lemma chunk_take:
  "\<forall>x \<in> set xs. length x = k \<Longrightarrow> i \<le> length xs \<Longrightarrow> take (i * k) (concat xs) = concat (take i xs)"
proof (induction xs arbitrary: i)
  case (Cons x xs)
  then show ?case by (cases i) auto
qed simp

lemma chunk_drop:
  "\<forall>x \<in> set xs. length x = k \<Longrightarrow> i \<le> length xs \<Longrightarrow> drop (i * k) (concat xs) = concat (drop i xs)"
proof (induction xs arbitrary: i)
  case (Cons x xs)
  then show ?case by (cases i) auto
qed simp

lemma chunk_update:
  assumes "\<forall>x \<in> set xs. length x = k" and "i < length xs"
  shows "take (i * k) (concat xs) @ y @ drop (i * k + k) (concat xs) = concat (xs[i := y])"
proof -
  have "drop (i * k + k) (concat xs) = concat (drop (Suc i) xs)"
    using chunk_drop [OF assms(1), of "Suc i"] assms(2) by (simp add: add.commute)
  then show ?thesis
    using chunk_take [OF assms(1), of i] assms(2) by (simp add: upd_conv_take_nth_drop)
qed

definition built_tx :: "bytes list \<Rightarrow> bytes \<Rightarrow> bytes" where
  "built_tx sigs message = vlq (length sigs) @ concat sigs @ message"

lemma parse_layout_built:
  assumes "length sigs < 2 ^ 16" and "\<forall>s \<in> set sigs. length s = 64"
    and "length keys < 2 ^ 16" and "\<forall>k \<in> set keys. length k = 32"
    and "0 < unat req" and "unat req < 128"
  shows "parse_layout (built_tx sigs (solana_encode_message [req, a, b] keys bh ins)) =
    Inr \<lparr>sigs_start = length (vlq (length sigs)), num_signatures = length sigs,
         message_start = length (vlq (length sigs)) + length sigs * 64,
         keys_start = 3 + length (vlq (length keys)), signer_keys = min (unat req) (length keys)\<rparr>"
proof -
  let ?msg = "solana_encode_message [req, a, b] keys bh ins"
  let ?wire = "built_tx sigs ?msg"
  have n: "unat (of_nat (length sigs) :: u16) = length sigs" "unat (of_nat (length keys) :: u16) = length keys"
    using assms(1,3) by (simp_all add: unat_of_nat)
  have d: "decode_shortvec ?wire = Inr (of_nat (length sigs), length (vlq (length sigs)))"
    unfolding built_tx_def by (rule decode_shortvec_vlq [OF assms(1)])
  have m: "drop (length (vlq (length sigs)) + length sigs * 64) ?wire = ?msg"
    using length_concat_const [OF assms(2)] by (simp add: built_tx_def)
  have hd: "hd ?msg AND 0x80 = 0" "?msg \<noteq> []" using assms(6) by (simp_all add: solana_encode_message_def and_128)
  have k: "decode_shortvec (drop 3 ?msg) = Inr (of_nat (length keys), length (vlq (length keys)))"
    using decode_shortvec_vlq [OF assms(3)] by (simp add: solana_encode_message_def shortvec_len_vlq [OF assms(3)])
  have lm: "3 + length (vlq (length keys)) + min (unat req) (length keys) * 32 \<le> length ?msg"
    using length_concat_const [OF assms(4)]
    by (simp add: solana_encode_message_def shortvec_len_vlq [OF assms(3)])
  have pk: "parse_signer_keys ?msg 0 ss ns ms = Inr \<lparr>sigs_start = ss, num_signatures = ns,
      message_start = ms, keys_start = 3 + length (vlq (length keys)),
      signer_keys = min (unat req) (length keys)\<rparr>" for ss ns ms
  proof -
    have "?msg ! 0 = req" by (simp add: solana_encode_message_def)
    then show ?thesis
      using lm k n assms(5) by (simp add: parse_signer_keys_def Let_def not_less)
  qed
  have "length (vlq (length sigs)) + length sigs * 64 \<le> length ?wire"
    using length_concat_const [OF assms(2)] by (simp add: built_tx_def)
  then show ?thesis
    using hd pk by (simp add: parse_layout_def d n Let_def m not_less)
qed

text \<open>
  The program's three compact-length encoders (on \<open>u16\<close>, \<open>u32\<close> and \<open>usize\<close>) write the same
  bytes, at most three, and the decoder reads the value back and counts exactly those bytes,
  whatever follows them.
\<close>

theorem shortvec_roundtrip:
  "tx_encode_shortvec v = wire_encode_shortvec v \<and> x402_encode_shortvec (unat v) = wire_encode_shortvec v \<and>
   length (wire_encode_shortvec v) \<le> 3 \<and>
   decode_shortvec (wire_encode_shortvec v @ rest) = Inr (v, length (wire_encode_shortvec v))"
proof -
  have "unat v < 2 ^ 64" by (rule order_less_le_trans [OF unat_u16_less]) simp
  then have "x402_encode_shortvec (unat v) = vlq (unat v)"
    by (simp only: x402_encode_shortvec_def shortvec_vlq unat_of_nat) simp
  then show ?thesis
    using length_vlq [OF unat_u16_less, of v] decode_shortvec_vlq [OF unat_u16_less, of v rest]
    by (simp add: tx_encode_shortvec_def shortvec_vlq wire_encode_shortvec_vlq)
qed

lemma vlq_small: "n < 128 \<Longrightarrow> vlq n = [of_nat n]"
  by (simp add: vlq.simps)

lemma build_native_eq:
  "build_native_transfer_message from to lamports h =
     [1, 0, 1, 3] @ from @ to @ SYSTEM_PROGRAM_ID @ h @ [1, 2, 2, 0, 1, 12, 2, 0, 0, 0] @ le_bytes 8 (unat lamports)"
  by (simp add: build_native_transfer_message_def solana_encode_message_def
      encode_compiled_instruction_def shortvec_len_vlq vlq_small)

lemma nt_message_Inr:
  "nt_message p t = Inr m \<longleftrightarrow>
     (\<exists>from to h. solana_decode p (nt_from t) = Inr from \<and> solana_decode p (nt_to t) = Inr to \<and>
        decode_blockhash p (nt_recent_blockhash t) = Inr h \<and>
        m = build_native_transfer_message from to (nt_lamports t) h)"
proof -
  have four: "(4 :: nat) = Suc (Suc (Suc (Suc 0)))" by simp
  have "le_bytes 4 (unat SYSTEM_TRANSFER_INDEX) = [2, 0, 0, 0]"
    unfolding four by (simp add: SYSTEM_TRANSFER_INDEX_def)
  then have "[1, 0, 1] @ tx_encode_shortvec 3 @ f @ g @ SYSTEM_PROGRAM_ID @ h @ tx_encode_shortvec 1 @ [2] @
      tx_encode_shortvec 2 @ [0, 1] @ tx_encode_shortvec (u16_from_len (length
        (le_bytes 4 (unat SYSTEM_TRANSFER_INDEX) @ le_bytes 8 (unat (nt_lamports t))))) @
      le_bytes 4 (unat SYSTEM_TRANSFER_INDEX) @ le_bytes 8 (unat (nt_lamports t)) =
      build_native_transfer_message f g (nt_lamports t) h" for f g h
    by (simp add: build_native_eq tx_encode_shortvec_def shortvec_vlq vlq_small u16_from_len_def)
  then show ?thesis
    unfolding nt_message_def Let_def rbind_eq_Inr map_err_eq_Inr by (auto simp only: sum.inject)
qed

lemma build_native_inject:
  assumes "build_native_transfer_message f t l h = build_native_transfer_message f' t' l' h'"
    and "length f = 32" "length t = 32" "length h = 32" "length f' = 32" "length t' = 32" "length h' = 32"
  shows "f = f' \<and> t = t' \<and> l = l' \<and> h = h'"
proof -
  have "f = f' \<and> t = t' \<and> h = h' \<and> le_bytes 8 (unat l) = le_bytes 8 (unat l')"
    using assms by (simp add: build_native_eq)
  moreover have "le_bytes 8 (unat l) = le_bytes 8 (unat l') \<Longrightarrow> l = l'"
  proof -
    assume "le_bytes 8 (unat l) = le_bytes 8 (unat l')"
    then have "unat l mod 256 ^ 8 = unat l' mod 256 ^ 8"
      using le_val_le_bytes [of 8 "unat l"] le_val_le_bytes [of 8 "unat l'"] by (simp only:)
    moreover have "unat x mod 256 ^ 8 = unat x" for x :: u64
      using unsigned_less [where 'a = nat, of x] by simp
    ultimately show "l = l'" by (simp only: word_unat_eq_iff)
  qed
  ultimately show ?thesis by blast
qed

text \<open>
  One native transfer, one message. The message of \<open>NativeTransfer\<close> is the one the web3 wire
  module builds from the decoded keys, blockhash and amount; and that message determines them: two
  transfers with the same message move the same lamports between the same accounts under the same
  blockhash.
\<close>

theorem native_transfer_message:
  "(nt_message p t = Inr m \<longleftrightarrow>
      (\<exists>from to h. solana_decode p (nt_from t) = Inr from \<and> solana_decode p (nt_to t) = Inr to \<and>
         decode_blockhash p (nt_recent_blockhash t) = Inr h \<and>
         m = build_native_transfer_message from to (nt_lamports t) h)) \<and>
   (nt_message p t = Inr m \<and> nt_message p t' = Inr m \<longrightarrow>
      solana_decode p (nt_from t) = solana_decode p (nt_from t') \<and>
      solana_decode p (nt_to t) = solana_decode p (nt_to t') \<and> nt_lamports t = nt_lamports t' \<and>
      decode_blockhash p (nt_recent_blockhash t) = decode_blockhash p (nt_recent_blockhash t'))"
proof -
  have "solana_decode p a = Inr f \<Longrightarrow> length f = 32" "decode_blockhash p a = Inr f \<Longrightarrow> length f = 32" for a f
    by (auto simp: solana_decode_Inr decode_blockhash_def result_simps split: if_splits)
  note len = this
  have "solana_decode p (nt_from t) = solana_decode p (nt_from t') \<and>
      solana_decode p (nt_to t) = solana_decode p (nt_to t') \<and> nt_lamports t = nt_lamports t' \<and>
      decode_blockhash p (nt_recent_blockhash t) = decode_blockhash p (nt_recent_blockhash t')"
    if "nt_message p t = Inr m" "nt_message p t' = Inr m"
  proof -
    from that obtain f g h f' g' h' where
        t: "solana_decode p (nt_from t) = Inr f" "solana_decode p (nt_to t) = Inr g"
          "decode_blockhash p (nt_recent_blockhash t) = Inr h"
      and t': "solana_decode p (nt_from t') = Inr f'" "solana_decode p (nt_to t') = Inr g'"
          "decode_blockhash p (nt_recent_blockhash t') = Inr h'"
      and eq: "build_native_transfer_message f g (nt_lamports t) h = build_native_transfer_message f' g' (nt_lamports t') h'"
      unfolding nt_message_Inr by blast
    from build_native_inject [OF eq] t t' len show ?thesis by simp
  qed
  then show ?thesis using nt_message_Inr by blast
qed

lemma sample_bs58_decode: "bs58_decode sample_prims (trim (letters bs)) = Inr bs"
  using letters_props [of bs] trim_graphic [of "letters bs"] sample_bs58_law
  by (auto simp: sample_prims_def)

definition sample_transfer :: NativeTransfer where
  "sample_transfer = \<lparr>nt_from = letters (replicate 32 1), nt_to = letters (replicate 32 2),
     nt_lamports = 7, nt_recent_blockhash = letters (replicate 32 3)\<rparr>"

theorem native_transfer_message_witness:
  "\<exists>m. nt_message sample_prims sample_transfer = Inr m \<and>
       m = build_native_transfer_message (replicate 32 1) (replicate 32 2) 7 (replicate 32 3)"
proof -
  have "trim (letters bs) = letters bs" for bs using letters_props [of bs] by (auto intro!: trim_graphic)
  then have "solana_decode sample_prims (letters (replicate 32 1)) = Inr (replicate 32 1)"
      "solana_decode sample_prims (letters (replicate 32 2)) = Inr (replicate 32 2)"
      "decode_blockhash sample_prims (letters (replicate 32 3)) = Inr (replicate 32 3)"
    using sample_bs58_decode by (simp_all add: solana_decode_Inr decode_blockhash_def)
  with conjunct1 [OF native_transfer_message [of sample_prims sample_transfer
      "build_native_transfer_message (replicate 32 1) (replicate 32 2) 7 (replicate 32 3)" sample_transfer]]
  show ?thesis by (simp add: sample_transfer_def)
qed

text \<open>
  Signing a transaction built elsewhere. Given a signer that returns 64-byte signatures, the
  operation never panics, whatever the bytes; and when it succeeds it changed one thing: the
  64-byte slot of the first signer key equal to the wallet's key now holds the signature of the
  whole message, while the length, the other slots and the message are as they were.
\<close>

theorem sign_versioned_frame:
  assumes "\<forall>m s. sg m = Inr s \<longrightarrow> length s = 64" and "\<forall>m. sg m \<noteq> Inl Panic"
  shows "sign_versioned p wire (Inr our) sg \<noteq> Inl Panic \<and>
    (sign_versioned p wire (Inr our) sg = Inr out \<longrightarrow>
      (\<exists>l i s. parse_layout wire = Inr l \<and> i < num_signatures l \<and> i < signer_keys l \<and>
         (let message = drop (message_start l) wire; slot = sigs_start l + i * 64 in
          take 32 (drop (keys_start l + i * 32) message) = our \<and> sg message = Inr s \<and>
          (\<forall>j < i. take 32 (drop (keys_start l + j * 32) message) \<noteq> our) \<and>
          length out = length wire \<and> drop (message_start l) out = message \<and>
          take slot out = take slot wire \<and> take 64 (drop slot out) = s \<and>
          drop (slot + 64) out = drop (slot + 64) wire)))"
proof (cases "parse_layout wire")
  case (Inl e)
  then have "e \<noteq> Panic"
    by (auto simp: parse_layout_def parse_signer_keys_def map_err_def result_simps Let_def
        split: if_splits sum.splits prod.splits)
  with Inl show ?thesis by (simp add: sign_versioned_def)
next
  case (Inr l)
  let ?m = "drop (message_start l) wire"
  let ?P = "\<lambda>i. take 32 (drop (keys_start l + i * 32) ?m) = our"
  note eq = sign_versioned_eq [where p = p and our = our, OF Inr assms(1)]
  have np: "sign_versioned p wire (Inr our) sg \<noteq> Inl Panic"
    unfolding eq using assms(2) [rule_format, of ?m] by (cases "sg ?m") (auto split: option.splits if_splits)
  have "\<exists>i s. i < num_signatures l \<and> i < signer_keys l \<and> ?P i \<and> sg ?m = Inr s \<and> (\<forall>j < i. \<not> ?P j) \<and>
      out = take (sigs_start l + i * 64) wire @ s @ drop (sigs_start l + i * 64 + 64) wire"
    if "sign_versioned p wire (Inr our) sg = Inr out"
  proof -
    from that obtain i s where i: "List.find ?P [0..<signer_keys l] = Some i" "i < num_signatures l" "sg ?m = Inr s"
        "out = take (sigs_start l + i * 64) wire @ s @ drop (sigs_start l + i * 64 + 64) wire"
      unfolding eq by (auto simp: result_simps split: option.splits if_splits)
    then have "i < signer_keys l" "?P i" "\<forall>j < i. \<not> ?P j"
      by (auto simp: find_Some_iff)
    with i show ?thesis by blast
  qed
  moreover have "length out = length wire \<and> drop (message_start l) out = ?m \<and>
      take (sigs_start l + i * 64) out = take (sigs_start l + i * 64) wire \<and>
      take 64 (drop (sigs_start l + i * 64) out) = s \<and>
      drop (sigs_start l + i * 64 + 64) out = drop (sigs_start l + i * 64 + 64) wire"
    if "i < num_signatures l" "length s = 64"
      "out = take (sigs_start l + i * 64) wire @ s @ drop (sigs_start l + i * 64 + 64) wire" for i s
  proof -
    note le = sign_versioned_slot(2) [OF Inr that(1,2)] parse_layout_Inr(2) [OF Inr]
    then obtain k where "message_start l = sigs_start l + i * 64 + 64 + k" using le_Suc_ex by blast
    with le that(2) show ?thesis unfolding that(3) by (simp add: min_def add.commute add.left_commute)
  qed
  ultimately show ?thesis using np Inr assms(1) unfolding Let_def by metis
qed

lemma built_key:
  assumes "length sigs < 2 ^ 16" "\<forall>s \<in> set sigs. length s = 64" "length keys < 2 ^ 16"
    "\<forall>k \<in> set keys. length k = 32" "j < length keys"
  shows "take 32 (drop (3 + length (vlq (length keys)) + j * 32) (solana_encode_message [req, a, b] keys bh ins)) = keys ! j"
proof -
  let ?pre = "[req, a, b] @ vlq (length keys)"
  obtain rest where m: "solana_encode_message [req, a, b] keys bh ins = ?pre @ concat keys @ rest"
    by (simp add: solana_encode_message_def shortvec_len_vlq [OF assms(3)])
  have "3 + length (vlq (length keys)) + j * 32 = length ?pre + j * 32" by simp
  then have "drop (3 + length (vlq (length keys)) + j * 32) (?pre @ concat keys @ rest) = drop (j * 32) (concat keys @ rest)"
    by (simp only: drop_append) simp
  with m show ?thesis using chunk_nth [OF assms(4,5), of rest] by (simp only:)
qed

lemma sign_built:
  assumes "length sigs < 2 ^ 16" and "\<forall>s \<in> set sigs. length s = 64" and "length keys < 2 ^ 16"
    and "\<forall>k \<in> set keys. length k = 32" and "distinct keys" and "unat req < 128"
    and "i < unat req" and "i < length keys" and "i < length sigs"
    and "\<forall>m s. sg m = Inr s \<longrightarrow> length s = 64"
    and "sg (solana_encode_message [req, a, b] keys bh ins) = Inr s"
  shows "sign_versioned p (built_tx sigs (solana_encode_message [req, a, b] keys bh ins)) (Inr (keys ! i)) sg =
    Inr (built_tx (sigs[i := s]) (solana_encode_message [req, a, b] keys bh ins))"
proof -
  let ?m = "solana_encode_message [req, a, b] keys bh ins"
  let ?v = "vlq (length sigs)"
  note l = parse_layout_built [OF assms(1-4), of req a b bh ins]
  have m: "drop (length ?v + length sigs * 64) (built_tx sigs ?m) = ?m"
    using length_concat_const [OF assms(2)] by (simp add: built_tx_def)
  let ?P = "\<lambda>j. take 32 (drop (3 + length (vlq (length keys)) + j * 32) ?m) = keys ! i"
  have P: "?P j \<longleftrightarrow> j = i" if "j < length keys" for j
    using built_key [OF assms(1-4) that, of req a b bh ins] assms(5,8) that by (simp add: nth_eq_iff_index_eq)
  have f: "List.find ?P [0..<min (unat req) (length keys)] = Some i"
    unfolding find_Some_iff using assms(7,8) P by (intro exI [of _ i]) auto
  have cs: "take (length ?v + i * 64) (built_tx sigs ?m) @ s @ drop (length ?v + i * 64 + 64) (built_tx sigs ?m) =
      built_tx (sigs[i := s]) ?m"
  proof -
    have "(i + 1) * 64 \<le> length sigs * 64" using assms(9) by (intro mult_le_mono1) simp
    then have "i * 64 + 64 \<le> length (concat sigs)" using length_concat_const [OF assms(2)] by simp
    then show ?thesis
      using arg_cong [OF chunk_update [OF assms(2,9), of s], of "\<lambda>x. ?v @ x @ ?m"]
      by (simp add: built_tx_def add.assoc)
  qed
  have "parse_layout (built_tx sigs ?m) = Inr \<lparr>sigs_start = length ?v, num_signatures = length sigs,
      message_start = length ?v + length sigs * 64, keys_start = 3 + length (vlq (length keys)),
      signer_keys = min (unat req) (length keys)\<rparr>"
    using l assms(6,7) by simp
  from sign_versioned_eq [where p = p and our = "keys ! i", OF this assms(10)]
  show ?thesis using f assms(9,11) by (simp add: m cs)
qed

text \<open>
  A well-formed transaction that names the wallet is signed. For a transaction laid out by the
  wire format, with \<open>req\<close> required signers, distinct 32-byte keys and a slot per signature, the
  wallet whose key is the i-th signer key gets exactly its own slot replaced.
\<close>

theorem sign_versioned_built:
  assumes "length sigs < 2 ^ 16" and "\<forall>s \<in> set sigs. length s = 64" and "length keys < 2 ^ 16"
    and "\<forall>k \<in> set keys. length k = 32" and "distinct keys" and "unat req < 128"
    and "i < unat req" and "i < length keys" and "i < length sigs"
    and "\<forall>m s. sg m = Inr s \<longrightarrow> length s = 64"
    and "sg (solana_encode_message [req, a, b] keys bh ins) = Inr s"
  shows "sign_versioned p (built_tx sigs (solana_encode_message [req, a, b] keys bh ins)) (Inr (keys ! i)) sg =
    Inr (built_tx (sigs[i := s]) (solana_encode_message [req, a, b] keys bh ins))"
  by (rule sign_built [OF assms])

theorem sign_versioned_built_witness:
  "sign_versioned sample_prims
     (built_tx [replicate 64 0] (solana_encode_message [1, 0, 1] [replicate 32 1, replicate 32 2] (replicate 32 3) []))
     (Inr (replicate 32 1)) (\<lambda>m. Inr (replicate 64 9)) =
   Inr (built_tx [replicate 64 9] (solana_encode_message [1, 0, 1] [replicate 32 1, replicate 32 2] (replicate 32 3) []))"
proof -
  have "replicate 32 (1 :: u8) \<noteq> replicate 32 2"
    by (simp add: replicate_eq_replicate)
  then show ?thesis
    using sign_versioned_built [of "[replicate 64 0]" "[replicate 32 1, replicate 32 2]" 1 0
        "\<lambda>m. Inr (replicate 64 9)" 0 1 "replicate 32 3" "[]" "replicate 64 9" sample_prims]
    by simp
qed

theorem sign_versioned_frame_witness:
  "\<exists>out l. sign_versioned sample_prims
     (built_tx [replicate 64 0] (solana_encode_message [1, 0, 1] [replicate 32 1] (replicate 32 3) []))
     (Inr (replicate 32 1)) (\<lambda>m. Inr (replicate 64 9)) = Inr out \<and>
   parse_layout (built_tx [replicate 64 0] (solana_encode_message [1, 0, 1] [replicate 32 1] (replicate 32 3) [])) = Inr l \<and>
   drop (message_start l) out = solana_encode_message [1, 0, 1] [replicate 32 1] (replicate 32 3) []"
proof -
  let ?m = "solana_encode_message [1, 0, 1] [replicate 32 1] (replicate 32 3) []"
  let ?w = "built_tx [replicate 64 0] ?m" and ?sg = "\<lambda>m. Inr (replicate 64 9) :: fault + bytes"
  have pl: "parse_layout ?w = Inr \<lparr>sigs_start = length (vlq (length [replicate 64 (0 :: u8)])),
      num_signatures = length [replicate 64 (0 :: u8)],
      message_start = length (vlq (length [replicate 64 (0 :: u8)])) + length [replicate 64 (0 :: u8)] * 64,
      keys_start = 3 + length (vlq (length [replicate 32 (1 :: u8)])),
      signer_keys = min (unat (1 :: u8)) (length [replicate 32 (1 :: u8)])\<rparr>"
    by (rule parse_layout_built) simp_all
  have dm: "drop (length (vlq (length [replicate 64 (0 :: u8)])) + length [replicate 64 (0 :: u8)] * 64) ?w = ?m"
    by (simp add: built_tx_def)
  obtain out where out: "sign_versioned sample_prims ?w (Inr (replicate 32 1)) ?sg = Inr out"
    using sign_built [of "[replicate 64 0]" "[replicate 32 1]" 1 0 ?sg 0 1 "replicate 32 3" "[]" "replicate 64 9" sample_prims]
    by simp
  from sign_versioned_frame [of ?sg sample_prims ?w "replicate 32 1" out] out pl dm
  show ?thesis by (auto simp: Let_def)
qed

text \<open>
  Program-derived addresses. \<open>find_program_address\<close> returns the candidate of the highest bump
  seed whose hash is off the curve, so never a valid public key, and fails exactly when all 256
  candidates are on it; the associated token account is that address for owner, token program and
  mint.
\<close>

theorem find_program_address_spec:
  "(find_program_address p ed seeds prog = Inr a \<longleftrightarrow>
      (\<exists>bump < 256. a = pda_candidate p seeds prog bump \<and> \<not> on_curve ed a \<and>
         (\<forall>b < 256. bump < b \<longrightarrow> on_curve ed (pda_candidate p seeds prog b)))) \<and>
   (find_program_address p ed seeds prog = Inl ''no off-curve PDA found'' \<longleftrightarrow>
      (\<forall>b < 256. on_curve ed (pda_candidate p seeds prog b)))"
proof -
  let ?Q = "\<lambda>b. \<not> on_curve ed (pda_candidate p seeds prog b)"
  have fb: "find_bump p ed seeds prog bs = map_option (pda_candidate p seeds prog) (List.find ?Q bs)" for bs
    by (induction bs) (simp_all add: Let_def)
  have rev: "List.find ?Q (rev [0..<n]) = Some b \<longleftrightarrow> b < n \<and> ?Q b \<and> (\<forall>c < n. b < c \<longrightarrow> \<not> ?Q c)" for n b
  proof (induction n)
    case (Suc n)
    show ?case
    proof (cases "?Q n")
      case False
      then have "List.find ?Q (rev [0..<Suc n]) = List.find ?Q (rev [0..<n])" by simp
      with Suc False show ?thesis by (auto simp: less_Suc_eq)
    qed (auto simp: less_Suc_eq)
  qed simp
  have none: "List.find ?Q (rev [0..<256]) = None \<longleftrightarrow> (\<forall>b < 256. \<not> ?Q b)"
    by (simp only: find_None_iff set_rev atLeast_upt [symmetric]) auto
  have "find_program_address p ed seeds prog = Inr a \<longleftrightarrow>
      (\<exists>b. List.find ?Q (rev [0..<256]) = Some b \<and> a = pda_candidate p seeds prog b)"
    unfolding find_program_address_def fb by (cases "List.find ?Q (rev [0..<256])") auto
  moreover have "find_program_address p ed seeds prog = Inl ''no off-curve PDA found'' \<longleftrightarrow>
      List.find ?Q (rev [0..<256]) = None"
    unfolding find_program_address_def fb by (cases "List.find ?Q (rev [0..<256])") auto
  ultimately show ?thesis unfolding none rev by blast
qed

theorem find_program_address_spec_witness:
  "find_program_address sample_prims \<lparr>on_curve = (\<lambda>b. False), ed_public = id, ed_sign = (\<lambda>k m. m)\<rparr> [] [] =
     Inr (pda_candidate sample_prims [] [] 255)"
  by (subst find_program_address_spec [THEN conjunct1]) (rule exI [of _ 255], simp)

end
