(* ===== verification/TW_Key.thy ===== *)
theory TW_Key
  imports TW_Solana
begin

text \<open>
  Key derivation, \<open>src/key\<close>: a recovery phrase and a derivation path become a signing key and the
  address it controls. The walk on ed25519 (SLIP-0010) and its path reader are the repository's own; the
  phrase (\<open>coins_bip39\<close>), the BIP-32 walk (\<open>coins_bip32\<close>), HMAC and RIPEMD-160 are crates, the fields of
  the record \<open>key_crates\<close>. An extended key is opaque: the bytes that stand for it are only passed on.
\<close>

section \<open>The crates\<close>

record key_crates =
  bip39_parse :: "string \<Rightarrow> bytes option"
  bip39_to_seed :: "bytes \<Rightarrow> bytes option"
  bip39_generate :: "nat \<Rightarrow> string option"
  xpriv_root :: "bytes \<Rightarrow> bytes option"
  path_from_str :: "string \<Rightarrow> string + u32 list"
  xpriv_derive_path :: "bytes \<Rightarrow> u32 list \<Rightarrow> bytes option"
  xpriv_secret :: "bytes \<Rightarrow> bytes"
  sk_uncompressed :: "bytes \<Rightarrow> bytes"
  sk_compressed :: "bytes \<Rightarrow> bytes"
  sec1_uncompressed :: "bytes \<Rightarrow> bytes option"
  hmac_sha512 :: "bytes \<Rightarrow> bytes \<Rightarrow> bytes option"
  ripemd160 :: "bytes \<Rightarrow> bytes"

text \<open>The widths the crates document, and that an HMAC takes a key of any length.\<close>

definition key_crates_law :: "key_crates \<Rightarrow> bool" where
  "key_crates_law k \<longleftrightarrow>
     (\<forall>x. length (xpriv_secret k x) = 32) \<and> (\<forall>b. length (ripemd160 k b) = 20) \<and>
     (\<forall>key msg. \<exists>d. hmac_sha512 k key msg = Some d \<and> length d = 64)"

section \<open>Errors and derived keys\<close>

datatype key_error =
    InvalidMnemonic
  | InvalidMnemonicWordCount nat
  | InvalidPublicKey
  | InvalidPath string string
  | UnhardenedSolanaPath string
  | Derivation string
  | KeyChainNotCompiled Chain

fun key_error_to_string :: "key_error \<Rightarrow> string" where
  "key_error_to_string InvalidMnemonic = ''invalid BIP-39 mnemonic''"
| "key_error_to_string (InvalidMnemonicWordCount n) = ''unsupported BIP-39 mnemonic word count '' @ show_nat n"
| "key_error_to_string InvalidPublicKey = ''invalid SEC1 public key''"
| "key_error_to_string (InvalidPath path reason) = ''invalid derivation path '' @ apostrophes path @ '': '' @ reason"
| "key_error_to_string (UnhardenedSolanaPath path) =
     ''Solana path '' @ apostrophes path @ '' has a non-hardened segment; ed25519 (SLIP-0010) supports hardened '' @
     ''derivation only, so every segment needs a trailing '' @ [CHR 0x27]"
| "key_error_to_string (Derivation step) = ''key derivation failed at '' @ step"
| "key_error_to_string (KeyChainNotCompiled chain) =
     ''tinywallet was built without support for '' @ chain_as_str chain @ ''; enable the '' @
     apostrophes (chain_as_str chain) @ '' feature to derive its keys''"

record DerivedKey =
  dk_chain :: Chain
  dk_address :: string
  dk_secret :: bytes

section \<open>Recovery phrases\<close>

definition generate_mnemonic :: "key_crates \<Rightarrow> nat \<Rightarrow> key_error + string" where
  "generate_mnemonic k word_count = ok_or (InvalidMnemonicWordCount word_count) (bip39_generate k word_count)"

definition mnemonic_seed :: "key_crates \<Rightarrow> string \<Rightarrow> key_error + bytes" where
  "mnemonic_seed k phrase =
     rbind (ok_or InvalidMnemonic (bip39_parse k (trim phrase))) (\<lambda>parsed.
       ok_or InvalidMnemonic (bip39_to_seed k parsed))"

definition MNEMONIC_WORD_COUNTS :: "u8 list" where
  "MNEMONIC_WORD_COUNTS = [12, 15, 18, 21, 24]"

definition validate_mnemonic_word_count :: "u8 \<Rightarrow> nat + u8" where
  "validate_mnemonic_word_count count = (if count \<in> set MNEMONIC_WORD_COUNTS then Inr count else Inl (unat count))"

definition validate_mnemonic_word_count_usize :: "nat \<Rightarrow> nat + u8" where
  "validate_mnemonic_word_count_usize count =
     (if count < 256 then
        (case validate_mnemonic_word_count (of_nat count) of Inr narrow \<Rightarrow> Inr narrow | Inl _ \<Rightarrow> Inl count)
      else Inl count)"

section \<open>The walk on secp256k1\<close>

definition bip32_derive :: "key_crates \<Rightarrow> bytes \<Rightarrow> string \<Rightarrow> key_error + bytes" where
  "bip32_derive k seed path =
     rbind (ok_or (Derivation ''BIP-32 master key'') (xpriv_root k seed)) (\<lambda>master.
     rbind (map_err (InvalidPath path) (path_from_str k path)) (\<lambda>parsed.
       if 255 < length parsed then
         Inl (InvalidPath path (''BIP-32 depth is limited to 255 levels, got '' @ show_nat (length parsed)))
       else rbind (ok_or (Derivation ''BIP-32 child key'') (xpriv_derive_path k master parsed)) (\<lambda>child.
         Inr (xpriv_secret k child))))"

section \<open>The walk on ed25519\<close>

definition CURVE_SEED :: bytes where
  "CURVE_SEED = str_bytes ''ed25519 seed''"

text \<open>\<open>str::split(char)\<close>.\<close>

fun split_on :: "char \<Rightarrow> string \<Rightarrow> string list" where
  "split_on c [] = [[]]"
| "split_on c (x # xs) =
     (if x = c then [] # split_on c xs
      else case split_on c xs of [] \<Rightarrow> [[x]] | p # ps \<Rightarrow> (x # p) # ps)"

fun parse_segments :: "string \<Rightarrow> string list \<Rightarrow> key_error + u32 list" where
  "parse_segments path [] = Inr []"
| "parse_segments path (segment # rest) =
     (if segment = [] \<or> last segment \<noteq> CHR 0x27 then Inl (UnhardenedSolanaPath path)
      else rbind (map_err (\<lambda>e. InvalidPath path (''segment '' @ apostrophes segment @ '': '' @ e))
                    (parse_uint (2 ^ 32) (butlast segment))) (\<lambda>index.
        if 0x80000000 \<le> index then
          Inl (InvalidPath path (''segment '' @ apostrophes segment @ '' exceeds the maximum raw index''))
        else rbind (parse_segments path rest) (\<lambda>indices. Inr (of_nat index # indices))))"

definition parse_path :: "string \<Rightarrow> key_error + u32 list" where
  "parse_path path =
     (let segments = split_on (CHR ''/'') (trim path) in
      if hd segments \<noteq> ''m'' then Inl (InvalidPath path (''must start with '' @ apostrophes ''m''))
      else rbind (parse_segments path (tl segments)) (\<lambda>out.
        if out = [] then Inl (InvalidPath path ''has no segments'') else Inr out))"

definition split_digest :: "bytes \<Rightarrow> bytes \<times> bytes" where
  "split_digest digest = (take 32 digest, drop 32 digest)"

fun slip10_walk :: "key_crates \<Rightarrow> u32 list \<Rightarrow> bytes \<times> bytes \<Rightarrow> key_error + bytes" where
  "slip10_walk k [] (key, chain_code) = Inr key"
| "slip10_walk k (index # indices) (key, chain_code) =
     rbind (ok_or (Derivation ''SLIP-0010 child HMAC'')
              (hmac_sha512 k chain_code ([0] @ key @ be_bytes 4 (unat (index OR 0x80000000))))) (\<lambda>digest.
       slip10_walk k indices (split_digest digest))"

definition slip10_derive :: "key_crates \<Rightarrow> bytes \<Rightarrow> string \<Rightarrow> key_error + bytes" where
  "slip10_derive k seed path =
     rbind (parse_path path) (\<lambda>indices.
     rbind (ok_or (Derivation ''SLIP-0010 master HMAC'') (hmac_sha512 k CURVE_SEED seed)) (\<lambda>digest.
       slip10_walk k indices (split_digest digest)))"

section \<open>One derivation per chain\<close>

definition hash160 :: "prims \<Rightarrow> key_crates \<Rightarrow> bytes \<Rightarrow> bytes" where
  "hash160 p k data = ripemd160 k (sha256 p data)"

definition btc_derive :: "prims \<Rightarrow> key_crates \<Rightarrow> string \<Rightarrow> string \<Rightarrow> key_error + DerivedKey" where
  "btc_derive p k phrase path =
     rbind (mnemonic_seed k phrase) (\<lambda>seed.
     rbind (bip32_derive k seed path) (\<lambda>secret.
     rbind (map_err (\<lambda>_. Derivation ''BTC P2WPKH address'') (encode_p2wpkh p (hash160 p k (sk_compressed k secret)))) (\<lambda>address.
       Inr \<lparr>dk_chain = Btc, dk_address = address, dk_secret = secret\<rparr>)))"

definition evm_address_from_public :: "prims \<Rightarrow> bytes \<Rightarrow> string" where
  "evm_address_from_public p uncompressed =
     (let body = hex_encode (drop 12 (keccak256 p (drop 1 uncompressed)))
      in case to_checksummed p body of Inr address \<Rightarrow> address | Inl _ \<Rightarrow> ''0x'' @ body)"

definition evm_derive :: "prims \<Rightarrow> key_crates \<Rightarrow> string \<Rightarrow> string \<Rightarrow> key_error + DerivedKey" where
  "evm_derive p k phrase path =
     rbind (mnemonic_seed k phrase) (\<lambda>seed.
     rbind (bip32_derive k seed path) (\<lambda>secret.
       Inr \<lparr>dk_chain = Evm, dk_address = evm_address_from_public p (sk_uncompressed k secret), dk_secret = secret\<rparr>))"

definition evm_address_from_public_key :: "prims \<Rightarrow> key_crates \<Rightarrow> bytes \<Rightarrow> key_error + string" where
  "evm_address_from_public_key p k public =
     rbind (ok_or InvalidPublicKey (sec1_uncompressed k public)) (\<lambda>encoded.
       if length encoded \<noteq> 65 then Inl InvalidPublicKey else Inr (evm_address_from_public p encoded))"

definition solana_derive :: "prims \<Rightarrow> ed25519 \<Rightarrow> key_crates \<Rightarrow> string \<Rightarrow> string \<Rightarrow> key_error + DerivedKey" where
  "solana_derive p ed k phrase path =
     rbind (mnemonic_seed k phrase) (\<lambda>seed.
     rbind (slip10_derive k seed path) (\<lambda>secret.
       Inr \<lparr>dk_chain = Solana, dk_address = solana_encode p (ed_public ed secret), dk_secret = secret\<rparr>))"

definition tron_address_from_public :: "prims \<Rightarrow> bytes \<Rightarrow> key_error + string" where
  "tron_address_from_public p uncompressed =
     map_err (\<lambda>_. Derivation ''Tron address encoding'')
       (tron_encode p (MAINNET_PREFIX # drop 12 (keccak256 p (drop 1 uncompressed))))"

definition tron_derive :: "prims \<Rightarrow> key_crates \<Rightarrow> string \<Rightarrow> string \<Rightarrow> key_error + DerivedKey" where
  "tron_derive p k phrase path =
     rbind (mnemonic_seed k phrase) (\<lambda>seed.
     rbind (bip32_derive k seed path) (\<lambda>secret.
     rbind (tron_address_from_public p (sk_uncompressed k secret)) (\<lambda>address.
       Inr \<lparr>dk_chain = Tron, dk_address = address, dk_secret = secret\<rparr>)))"

definition key_derive :: "prims \<Rightarrow> ed25519 \<Rightarrow> key_crates \<Rightarrow> Chain set \<Rightarrow> Chain \<Rightarrow> string \<Rightarrow> string \<Rightarrow> key_error + DerivedKey" where
  "key_derive p ed k gates chain phrase path =
     (if chain \<notin> gates then Inl (KeyChainNotCompiled chain)
      else case chain of
        Btc \<Rightarrow> btc_derive p k phrase path
      | Evm \<Rightarrow> evm_derive p k phrase path
      | Solana \<Rightarrow> solana_derive p ed k phrase path
      | Tron \<Rightarrow> tron_derive p k phrase path)"

section \<open>Derivation paths\<close>

text \<open>The reference: SLIP-0010's master key and hardened child key, over child numbers from \<open>2 ^ 31\<close> on.\<close>

definition hmac_total :: "key_crates \<Rightarrow> bytes \<Rightarrow> bytes \<Rightarrow> bytes" where
  "hmac_total k key msg = (case hmac_sha512 k key msg of Some d \<Rightarrow> d | None \<Rightarrow> [])"

definition slip10_child :: "key_crates \<Rightarrow> bytes \<times> bytes \<Rightarrow> nat \<Rightarrow> bytes \<times> bytes" where
  "slip10_child k node child =
     (let i = hmac_total k (snd node) ([0] @ fst node @ be_bytes 4 child) in (take 32 i, drop 32 i))"

definition slip10_reference :: "key_crates \<Rightarrow> bytes \<Rightarrow> nat list \<Rightarrow> bytes" where
  "slip10_reference k seed children =
     fst (foldl (slip10_child k) (let i = hmac_total k (str_bytes ''ed25519 seed'') seed in (take 32 i, drop 32 i)) children)"

text \<open>How a fully hardened path is written.\<close>

definition hardened_path :: "nat list \<Rightarrow> string" where
  "hardened_path ns = ''m'' @ concat (map (\<lambda>n. CHR ''/'' # show_nat n @ [CHR 0x27]) ns)"

lemma split_on_last: "c \<notin> set a \<Longrightarrow> split_on c a = [a]"
  by (induction a) auto

lemma split_on_append: "c \<notin> set a \<Longrightarrow> split_on c (a @ c # b) = a # split_on c b"
  by (induction a) auto

lemma split_on_join:
  "c \<notin> set a \<Longrightarrow> \<forall>s \<in> set segs. c \<notin> set s \<Longrightarrow> split_on c (a @ concat (map (\<lambda>s. c # s) segs)) = a # segs"
  by (induction segs arbitrary: a) (simp_all add: split_on_last split_on_append)

lemma split_on_not_Nil: "split_on c s \<noteq> []"
  by (induction s) (auto split: list.splits)

lemma split_hardened_path:
  "split_on (CHR ''/'') (hardened_path ns) = ''m'' # map (\<lambda>n. show_nat n @ [CHR 0x27]) ns"
proof -
  have "CHR ''/'' \<notin> set (show_nat n)" for n
    using show_nat_digits [of n] by (auto simp: list_all_iff is_ascii_digit_def)
  then show ?thesis
    using split_on_join [of "CHR ''/''" "''m''" "map (\<lambda>n. show_nat n @ [CHR 0x27]) ns"]
    by (simp add: hardened_path_def comp_def)
qed

lemma trim_hardened_path: "trim (hardened_path ns) = hardened_path ns"
proof (rule trim_graphic)
  have "is_graphic c" if "c \<in> set (show_nat n)" for c n
    using show_nat_digits [of n] that by (auto simp: list_all_iff digit_graphic)
  then show "\<forall>c \<in> set (hardened_path ns). is_graphic c"
    by (auto simp: hardened_path_def) (simp_all add: is_graphic_def)
qed

lemma parse_segments_hardened:
  assumes "\<forall>n \<in> set ns. n < 2 ^ 31"
  shows "parse_segments path (map (\<lambda>n. show_nat n @ [CHR 0x27]) ns) = Inr (map of_nat ns)"
  using assms
proof (induction ns)
  case (Cons n ns)
  then have n: "n < 2147483648" "n < 2 ^ 32" by simp_all
  show ?case using Cons n(1) parse_uint_show [OF n(2)] by simp
qed simp

lemma parse_hardened_path:
  assumes "ns \<noteq> []" and "\<forall>n \<in> set ns. n < 2 ^ 31"
  shows "parse_path (hardened_path ns) = Inr (map of_nat ns)"
  using assms parse_segments_hardened [OF assms(2)]
  by (simp add: parse_path_def trim_hardened_path split_hardened_path)

lemma parse_segments_bound:
  "parse_segments path segs = Inr is \<Longrightarrow> length is = length segs \<and> (\<forall>i \<in> set is. i < 0x80000000)"
proof (induction segs arbitrary: "is")
  case (Cons s segs)
  then obtain n js where n: "n < 0x80000000" "is = of_nat n # js" "parse_segments path segs = Inr js"
    by (auto simp: result_simps not_le split: if_splits)
  have "(of_nat n :: u32) < 0x80000000"
    using n(1) by (simp add: word_less_nat_alt unat_of_nat)
  with n Cons.IH [OF n(3)] show ?case by simp
qed simp

lemma unat_hardened:
  assumes "i < 0x80000000"
  shows "unat (i OR 0x80000000 :: u32) = unat i + 2 ^ 31"
proof -
  have "unat (take_bit 31 i) = unat i"
    using assms by (simp add: unsigned_take_bit_eq take_bit_nat_eq_self word_less_nat_alt)
  then have "take_bit 31 i = i" by (simp only: unsigned_word_eqI)
  then have "i AND (2 ^ 31) = 0"
    by (metis and_exp_eq_0_iff_not_bit bit_take_bit_iff order_less_irrefl)
  then have "i OR 0x80000000 = i + 0x80000000" using disjunctive_add_eq_or [of i "2 ^ 31"] by simp
  moreover have "unat i + unat (0x80000000 :: u32) < 2 ^ 32"
    using assms by (simp add: word_less_nat_alt)
  ultimately show ?thesis by (simp add: unat_word_ariths)
qed

lemma slip10_walk_reference:
  assumes "key_crates_law k" and "\<forall>n \<in> set ns. n < 2 ^ 31"
  shows "slip10_walk k (map of_nat ns) node = Inr (fst (foldl (slip10_child k) node (map (\<lambda>n. n + 2 ^ 31) ns)))"
  using assms(2)
proof (induction ns arbitrary: node)
  case Nil
  then show ?case by (cases node) simp
next
  case (Cons n ns)
  obtain key cc where node: "node = (key, cc)" by (cases node)
  let ?msg = "[0] @ key @ be_bytes 4 (n + 2 ^ 31)"
  from assms(1) obtain d where d: "hmac_sha512 k cc ?msg = Some d" unfolding key_crates_law_def by blast
  have n: "(of_nat n :: u32) < 0x80000000" "unat (of_nat n :: u32) = n"
    using Cons.prems by (simp_all add: word_less_nat_alt unat_of_nat)
  have "slip10_walk k (map of_nat (n # ns)) node = slip10_walk k (map of_nat ns) (slip10_child k node (n + 2 ^ 31))"
    using d unfolding node slip10_child_def hmac_total_def split_digest_def
    by (simp add: unat_hardened [OF n(1)] n(2) ok_or_def split_digest_def)
  with Cons show ?case by simp
qed

text \<open>
  C24: A Solana key is derived exactly as SLIP-0010 says. For every non-empty list of account indices
  below \<open>2 ^ 31\<close>, the path written with each index hardened is read back, and the secret is the
  reference key at the child numbers \<open>index + 2 ^ 31\<close>; the walk never fails. Of whatever path is
  accepted, every index leaves the hardening bit clear, so setting it never makes two indices meet.
\<close>

theorem slip10_derive_reference:
  assumes "key_crates_law k" and "ns \<noteq> []" and "\<forall>n \<in> set ns. n < 2 ^ 31"
  shows "parse_path (hardened_path ns) = Inr (map of_nat ns) \<and>
    slip10_derive k seed (hardened_path ns) = Inr (slip10_reference k seed (map (\<lambda>n. n + 2 ^ 31) ns)) \<and>
    (parse_path path = Inr is \<longrightarrow> is \<noteq> [] \<and> map (\<lambda>i. unat (i OR 0x80000000)) is = map (\<lambda>i. unat i + 2 ^ 31) is)"
proof -
  have "is \<noteq> [] \<and> map (\<lambda>i. unat (i OR 0x80000000)) is = map (\<lambda>i. unat i + 2 ^ 31) is" if "parse_path path = Inr is"
  proof -
    from that obtain segs where "parse_segments path segs = Inr is" "is \<noteq> []"
      by (auto simp: parse_path_def result_simps Let_def split: if_splits)
    with parse_segments_bound [OF this(1)] show ?thesis by (simp add: unat_hardened del: power_numeral)
  qed
  moreover from assms(1) obtain d where "hmac_sha512 k CURVE_SEED seed = Some d" unfolding key_crates_law_def by blast
  ultimately show ?thesis
    using slip10_walk_reference [OF assms(1,3), of "split_digest d"]
    by (simp add: slip10_derive_def parse_hardened_path [OF assms(2,3)] ok_or_def slip10_reference_def
        hmac_total_def CURVE_SEED_def split_digest_def)
qed

definition sample_key_crates :: key_crates where
  "sample_key_crates =
     \<lparr>bip39_parse = (\<lambda>s. if s = [] then None else Some (str_bytes s)), bip39_to_seed = Some,
      bip39_generate = (\<lambda>n. if n = 12 then Some ''phrase'' else None),
      xpriv_root = Some, path_from_str = (\<lambda>s. if s = ''m'' then Inr [] else Inr [of_nat (length s)]),
      xpriv_derive_path = (\<lambda>x is. Some (x @ concat (map (be_bytes 4 \<circ> unat) is))),
      xpriv_secret = (\<lambda>x. take 32 (x @ replicate 32 1)),
      sk_uncompressed = (\<lambda>s. 4 # s @ s), sk_compressed = (\<lambda>s. 2 # s), sec1_uncompressed = (\<lambda>b. Some (4 # tl b @ tl b)),
      hmac_sha512 = (\<lambda>key msg. Some (take 64 (msg @ key @ replicate 64 0))), ripemd160 = (\<lambda>b. take 20 (b @ replicate 20 0))\<rparr>"

lemma sample_key_crates_law: "key_crates_law sample_key_crates"
  by (auto simp: key_crates_law_def sample_key_crates_def min_def)

theorem slip10_derive_reference_witness:
  "parse_path (hardened_path [44, 501, 0, 0]) = Inr [44, 501, 0, 0] \<and>
   (\<exists>secret. slip10_derive sample_key_crates [7] (hardened_path [44, 501, 0, 0]) = Inr secret)"
  using slip10_derive_reference [OF sample_key_crates_law, of "[44, 501, 0, 0]"] by simp

section \<open>The derived address\<close>

lemma bip32_derive_Inr:
  "bip32_derive k seed path = Inr secret \<longleftrightarrow>
     (\<exists>master parsed child. xpriv_root k seed = Some master \<and> path_from_str k path = Inr parsed \<and>
        length parsed \<le> 255 \<and> xpriv_derive_path k master parsed = Some child \<and> secret = xpriv_secret k child)"
  by (auto simp: bip32_derive_def result_simps ok_or_def split: if_splits option.splits)

lemma slip10_walk_length:
  "key_crates_law k \<Longrightarrow> length (fst node) = 32 \<Longrightarrow> slip10_walk k is node = Inr key \<Longrightarrow> length key = 32"
proof (induction "is" arbitrary: node)
  case Nil
  then show ?case by (cases node) simp
next
  case (Cons i "is")
  obtain key0 cc where node: "node = (key0, cc)" by (cases node)
  from Cons.prems(1) obtain d where
    "hmac_sha512 k cc ([0] @ key0 @ be_bytes 4 (unat (i OR 0x80000000))) = Some d" "length d = 64"
    unfolding key_crates_law_def by blast
  with Cons.prems Cons.IH [of "split_digest d"] show ?case by (simp add: node split_digest_def ok_or_def)
qed

lemma slip10_derive_length:
  assumes "key_crates_law k" and "slip10_derive k seed path = Inr secret"
  shows "length secret = 32"
proof -
  from assms(1) obtain d where "hmac_sha512 k CURVE_SEED seed = Some d" "length d = 64"
    unfolding key_crates_law_def by blast
  with assms(2) obtain "is" where "slip10_walk k is (split_digest d) = Inr secret" "length (fst (split_digest d)) = 32"
    by (auto simp: slip10_derive_def result_simps ok_or_def split_digest_def)
  with slip10_walk_length [OF assms(1)] show ?thesis by blast
qed

lemma evm_address_from_public_valid:
  assumes "\<forall>b. length (keccak256 p b) = 32"
  shows "evm_validate (evm_address_from_public p public) = Inr (evm_address_from_public p public)"
proof -
  let ?body = "hex_encode (drop 12 (keccak256 p (drop (Suc 0) public)))"
  have b: "length ?body = 40" "\<forall>c \<in> set ?body. is_ascii_hexdigit c"
    using assms by (simp add: length_hex_encode) (rule hex_encode_hexdigits)
  have t: "trim ?body = ?body" by (rule trim_graphic) (use b(2) hexdigit_graphic in blast)
  have "strip_prefix ''0x'' ?body = None"
    using b(2) by (auto simp: strip_prefix_Some is_ascii_hexdigit_def hex_val_def simp flip: not_Some_eq)
  then have s: "evm_strip_prefix ?body = ?body" by (simp add: evm_strip_prefix_def)
  have "evm_validate ?body = Inr ?body" using b t s by (auto simp: evm_validate_Inr)
  then have "evm_address_from_public p public = prefixed (canonical_body p ?body)"
    by (simp add: evm_address_from_public_def to_checksummed_canonical s Let_def)
  with evm_validate_prefixed(1) [of "canonical_body p ?body"] b show ?thesis
    by (simp add: length_canonical_body canonical_body_hexdigits)
qed

lemma solana_address_valid:
  assumes "bs58_law p" and "length public = 32"
  shows "solana_validate p (solana_encode p public) = Inr (solana_encode p public)"
proof -
  let ?a = "bs58_encode p public"
  have "public \<noteq> []" using assms(2) by auto
  with assms(1) have a: "bs58_decode p ?a = Inr public" "\<forall>c \<in> set ?a. is_graphic c" "?a \<noteq> []"
    unfolding bs58_law_def by blast+
  note a = a trim_graphic [OF a(2)]
  then show ?thesis using assms(2)
    by (simp add: solana_validate_def solana_encode_def) (simp add: solana_decode_def SOLANA_ADDRESS_BYTES_def)
qed

lemma tron_address_valid:
  assumes "bs58_check_law p" and "\<forall>b. length (keccak256 p b) = 32"
  shows "\<exists>a. tron_address_from_public p public = Inr a \<and> tron_validate p a = Inr a"
proof -
  let ?bs = "MAINNET_PREFIX # drop 12 (keccak256 p (drop 1 public))"
  let ?a = "bs58_check_encode p ?bs"
  have a: "bs58_check_decode p (Some MAINNET_PREFIX) ?a = Inr ?bs" "\<forall>c \<in> set ?a. is_graphic c" "?a \<noteq> []"
    using assms(1) unfolding bs58_check_law_def by blast+
  have t: "trim ?a = ?a" by (rule trim_graphic [OF a(2)])
  have l: "length ?bs = TRON_ADDRESS_BYTES" using assms(2) by (simp add: TRON_ADDRESS_BYTES_def)
  have "tron_decode p ?a = Inr ?bs"
    unfolding tron_decode_def Let_def t a(1) using a(3) l by simp
  then have "tron_validate p ?a = Inr ?a" by (simp only: tron_validate_def rbind_Inr t)
  moreover have "tron_address_from_public p public = Inr ?a"
    by (simp add: tron_address_from_public_def tron_encode_def)
  ultimately show ?thesis by blast
qed

text \<open>What the primitives promise of the address encodings.\<close>

definition address_laws :: "prims \<Rightarrow> ed25519 \<Rightarrow> bool" where
  "address_laws p ed \<longleftrightarrow>
     bs58_law p \<and> bs58_check_law p \<and> segwit_law p \<and> (\<forall>b. length (keccak256 p b) = 32) \<and>
     (\<forall>s. length (ed_public ed s) = 32)"

lemma btc_derive_valid:
  assumes "segwit_law p" and "key_crates_law k" and "btc_derive p k phrase path = Inr d"
  shows "dk_chain d = Btc \<and> length (dk_secret d) = 32 \<and> btc_validate_sender p (dk_address d) = Inr (dk_address d) \<and>
    btc_validate p (dk_address d) = Inr (dk_address d)"
proof -
  from assms(3) obtain seed secret a where d: "bip32_derive k seed path = Inr secret"
      "encode_p2wpkh p (hash160 p k (sk_compressed k secret)) = Inr a"
      "d = \<lparr>dk_chain = Btc, dk_address = a, dk_secret = secret\<rparr>"
    by (auto simp: btc_derive_def result_simps)
  have "length (hash160 p k (sk_compressed k secret)) = 20"
    using assms(2) by (simp add: key_crates_law_def hash160_def)
  from encode_p2wpkh_valid [OF assms(1) this] d(2) have "btc_validate_sender p a = Inr a" "btc_validate p a = Inr a"
    by auto
  moreover from d(1) assms(2) have "length secret = 32" by (auto simp: bip32_derive_Inr key_crates_law_def)
  ultimately show ?thesis using d(3) by simp
qed

text \<open>
  The address that comes with a derived key is a valid address of the chain it was derived for,
  in canonical form, on every chain; on Bitcoin it is one the wallet can spend from. The secret is
  32 bytes, and a chain whose gate is off derives nothing.
\<close>

theorem derived_address_valid:
  assumes "address_laws p ed" and "key_crates_law k"
    and "key_derive p ed k gates chain phrase path = Inr d"
  shows "chain \<in> gates \<and> dk_chain d = chain \<and> length (dk_secret d) = 32 \<and>
    address_validate p gates chain (dk_address d) = Inr (dk_address d) \<and>
    (chain = Btc \<longrightarrow> btc_validate_sender p (dk_address d) = Inr (dk_address d))"
proof -
  note laws = assms(1) [unfolded address_laws_def]
  have gate: "chain \<in> gates" using assms(3) by (auto simp: key_derive_def split: if_splits)
  show ?thesis
  proof (cases chain)
    case Btc
    with assms(3) gate have "btc_derive p k phrase path = Inr d" by (simp add: key_derive_def)
    from btc_derive_valid [OF _ assms(2) this] laws Btc gate show ?thesis by (simp add: address_validate_def)
  next
    case Evm
    with assms(3) gate obtain seed secret where "bip32_derive k seed path = Inr secret"
        "d = \<lparr>dk_chain = Evm, dk_address = evm_address_from_public p (sk_uncompressed k secret), dk_secret = secret\<rparr>"
      by (auto simp: key_derive_def evm_derive_def result_simps)
    with Evm gate assms(2) evm_address_from_public_valid [of p] laws show ?thesis
      by (auto simp: address_validate_def bip32_derive_Inr key_crates_law_def)
  next
    case Solana
    with assms(3) gate obtain seed secret where s: "slip10_derive k seed path = Inr secret"
        "d = \<lparr>dk_chain = Solana, dk_address = solana_encode p (ed_public ed secret), dk_secret = secret\<rparr>"
      by (auto simp: key_derive_def solana_derive_def result_simps)
    have "length (ed_public ed secret) = 32" using laws by blast
    from solana_address_valid [OF _ this, of p] laws s Solana gate slip10_derive_length [OF assms(2) s(1)]
    show ?thesis by (simp add: address_validate_def)
  next
    case Tron
    with assms(3) gate obtain seed secret a where s: "bip32_derive k seed path = Inr secret"
        "tron_address_from_public p (sk_uncompressed k secret) = Inr a"
        "d = \<lparr>dk_chain = Tron, dk_address = a, dk_secret = secret\<rparr>"
      by (auto simp: key_derive_def tron_derive_def result_simps)
    from tron_address_valid [of p "sk_uncompressed k secret"] laws s(2) have "tron_validate p a = Inr a" by auto
    with s(1,3) Tron gate assms(2) show ?thesis
      by (auto simp: address_validate_def bip32_derive_Inr key_crates_law_def)
  qed
qed

definition sample_ed :: ed25519 where
  "sample_ed = \<lparr>on_curve = (\<lambda>b. True), ed_public = (\<lambda>s. take 32 (s @ replicate 32 0)), ed_sign = (\<lambda>s m. take 64 (s @ m @ replicate 64 0))\<rparr>"

lemma sample_address_laws: "address_laws sample_prims sample_ed"
  using sample_bs58_law sample_bs58_check_law sample_segwit_law
  by (auto simp: address_laws_def sample_ed_def sample_prims_def min_def)

theorem derived_address_valid_witness:
  "\<exists>d. key_derive sample_prims sample_ed sample_key_crates {Btc} Btc ''phrase'' ''m/84'' = Inr d \<and>
     btc_validate_sender sample_prims (dk_address d) = Inr (dk_address d)"
proof -
  have "trim ''phrase'' = ''phrase''" by code_simp
  then obtain seed where "mnemonic_seed sample_key_crates ''phrase'' = Inr seed"
    by (simp add: mnemonic_seed_def sample_key_crates_def ok_or_def)
  then obtain d where "key_derive sample_prims sample_ed sample_key_crates {Btc} Btc ''phrase'' ''m/84'' = Inr d"
    by (simp add: key_derive_def btc_derive_def bip32_derive_def encode_p2wpkh_def sample_prims_def
        sample_key_crates_def ok_or_def)
  with derived_address_valid [OF sample_address_laws sample_key_crates_law this] show ?thesis by blast
qed

end
