(* ===== verification/TW_Asset.thy ===== *)
theory TW_Asset
  imports TW_Types TW_Json
begin

text \<open>
  Networks and the assets that exist on them: \<open>tinywallet-crypto/src/asset/mod.rs\<close>, the identifiers of
  \<open>tinywallet-bus/src/wire/wallet.rs\<close>, the catalogues of \<open>tinywallet-web3/src/crypto/defaults\<close> and the
  transport vocabulary of \<open>tinywallet-crypto/src/rpc/mod.rs\<close>. The two crates keep the same reference
  data twice; the theorems say where the two agree and where they do not.
\<close>

section \<open>The catalogue of tinywallet-crypto\<close>

datatype CryptoEvmNetwork = Ethereum | Base | Arbitrum | Optimism | Polygon | Bsc

definition CryptoEvmNetwork_ALL :: "CryptoEvmNetwork list" where
  "CryptoEvmNetwork_ALL = [Ethereum, Base, Arbitrum, Optimism, Polygon, Bsc]"

fun c_chain_id :: "CryptoEvmNetwork \<Rightarrow> u64" where
  "c_chain_id Ethereum = 1"
| "c_chain_id Base = 8453"
| "c_chain_id Arbitrum = 42161"
| "c_chain_id Optimism = 10"
| "c_chain_id Polygon = 137"
| "c_chain_id Bsc = 56"

fun c_as_str :: "CryptoEvmNetwork \<Rightarrow> string" where
  "c_as_str Ethereum = ''ethereum_mainnet''"
| "c_as_str Base = ''base_mainnet''"
| "c_as_str Arbitrum = ''arbitrum_one''"
| "c_as_str Optimism = ''optimism_mainnet''"
| "c_as_str Polygon = ''polygon_mainnet''"
| "c_as_str Bsc = ''bsc_mainnet''"

definition from_chain_id :: "u64 \<Rightarrow> CryptoEvmNetwork option" where
  "from_chain_id n = List.find (\<lambda>net. c_chain_id net = n) CryptoEvmNetwork_ALL"

fun c_native :: "CryptoEvmNetwork \<Rightarrow> string \<times> string" where
  "c_native Polygon = (''POL'', ''Polygon'')"
| "c_native Bsc = (''BNB'', ''BNB'')"
| "c_native _ = (''ETH'', ''Ether'')"

fun c_default_rpc_url :: "CryptoEvmNetwork \<Rightarrow> string" where
  "c_default_rpc_url Ethereum = ''https://ethereum-rpc.publicnode.com''"
| "c_default_rpc_url Base = ''https://mainnet.base.org''"
| "c_default_rpc_url Arbitrum = ''https://arb1.arbitrum.io/rpc''"
| "c_default_rpc_url Optimism = ''https://mainnet.optimism.io''"
| "c_default_rpc_url Polygon = ''https://polygon-rpc.com''"
| "c_default_rpc_url Bsc = ''https://bsc-dataseed.binance.org''"

fun c_explorer_tx_base :: "CryptoEvmNetwork \<Rightarrow> string" where
  "c_explorer_tx_base Ethereum = ''https://etherscan.io/tx/''"
| "c_explorer_tx_base Base = ''https://basescan.org/tx/''"
| "c_explorer_tx_base Arbitrum = ''https://arbiscan.io/tx/''"
| "c_explorer_tx_base Optimism = ''https://optimistic.etherscan.io/tx/''"
| "c_explorer_tx_base Polygon = ''https://polygonscan.com/tx/''"
| "c_explorer_tx_base Bsc = ''https://bscscan.com/tx/''"

fun c_network_label :: "CryptoEvmNetwork \<Rightarrow> string" where
  "c_network_label Ethereum = ''ethereum-mainnet''"
| "c_network_label Base = ''base-mainnet''"
| "c_network_label Arbitrum = ''arbitrum-one''"
| "c_network_label Optimism = ''optimism-mainnet''"
| "c_network_label Polygon = ''polygon-mainnet''"
| "c_network_label Bsc = ''bsc-mainnet''"

datatype CryptoSolanaCluster = CMainnet | CDevnet

fun cl_rpc_url :: "CryptoSolanaCluster \<Rightarrow> string" where
  "cl_rpc_url CMainnet = ''https://api.mainnet-beta.solana.com''"
| "cl_rpc_url CDevnet = ''https://api.devnet.solana.com''"

fun cl_network_label :: "CryptoSolanaCluster \<Rightarrow> string" where
  "cl_network_label CMainnet = ''solana-mainnet-beta''"
| "cl_network_label CDevnet = ''solana-devnet''"

fun cl_explorer_tx_suffix :: "CryptoSolanaCluster \<Rightarrow> string" where
  "cl_explorer_tx_suffix CMainnet = []"
| "cl_explorer_tx_suffix CDevnet = ''?cluster=devnet''"

definition cl_explorer_tx_base :: "CryptoSolanaCluster \<Rightarrow> string" where
  "cl_explorer_tx_base cluster = ''https://solscan.io/tx/''"

fun cl_usdc_mint :: "CryptoSolanaCluster \<Rightarrow> string" where
  "cl_usdc_mint CMainnet = ''EPjFWdd5AufqSSqeM2qN1xzybapC8G4wEGGkZwyTDt1v''"
| "cl_usdc_mint CDevnet = ''4zMMC9srt5Ri5X14GAgXhaHii3GnPAEERYPJgZJDncDU''"

datatype Network = NetBtc | NetEvm CryptoEvmNetwork | NetSolana CryptoSolanaCluster | NetTron

fun network_chain :: "Network \<Rightarrow> Chain" where
  "network_chain NetBtc = Btc"
| "network_chain (NetEvm _) = Evm"
| "network_chain (NetSolana _) = Solana"
| "network_chain NetTron = Tron"

fun network_chain_id :: "Network \<Rightarrow> u64 option" where
  "network_chain_id (NetEvm net) = Some (c_chain_id net)"
| "network_chain_id _ = None"

fun network_explorer_tx_url :: "Network \<Rightarrow> string \<Rightarrow> string option" where
  "network_explorer_tx_url NetBtc tx_hash = Some (''https://blockstream.info/tx/'' @ tx_hash)"
| "network_explorer_tx_url (NetEvm net) tx_hash = Some (c_explorer_tx_base net @ tx_hash)"
| "network_explorer_tx_url (NetSolana cluster) tx_hash = Some (cl_explorer_tx_base cluster @ tx_hash)"
| "network_explorer_tx_url NetTron tx_hash = Some (''https://tronscan.org/#/transaction/'' @ tx_hash)"

fun network_to_string :: "Network \<Rightarrow> string" where
  "network_to_string (NetEvm net) = c_as_str net"
| "network_to_string NetBtc = ''bitcoin_mainnet''"
| "network_to_string (NetSolana CMainnet) = ''solana_mainnet''"
| "network_to_string (NetSolana CDevnet) = ''solana_devnet''"
| "network_to_string NetTron = ''tron_mainnet''"

record Asset =
  ast_network :: Network
  ast_symbol :: string
  ast_name :: string
  ast_native :: bool
  ast_decimals :: u8
  ast_contract_address :: "string option"

definition native_asset :: "Network \<Rightarrow> string \<Rightarrow> string \<Rightarrow> u8 \<Rightarrow> Asset" where
  "native_asset net symbol name decimals = \<lparr>ast_network = net, ast_symbol = symbol, ast_name = name, ast_native = True,
     ast_decimals = decimals, ast_contract_address = None\<rparr>"

definition token_asset :: "Network \<Rightarrow> string \<Rightarrow> string \<Rightarrow> u8 \<Rightarrow> string \<Rightarrow> Asset" where
  "token_asset net symbol name decimals contract = \<lparr>ast_network = net, ast_symbol = symbol, ast_name = name,
     ast_native = False, ast_decimals = decimals, ast_contract_address = Some contract\<rparr>"

text \<open>The EVM half: the native asset, the six-decimal USDC, then what only one network has.\<close>

fun usdc_6dp :: "CryptoEvmNetwork \<Rightarrow> string option" where
  "usdc_6dp Ethereum = Some ''0xA0b86991c6218b36c1d19D4a2e9Eb0cE3606eB48''"
| "usdc_6dp Base = Some ''0x833589fCD6eDb6E08f4c7C32D4f71b54bdA02913''"
| "usdc_6dp Arbitrum = Some ''0xaf88d065e77c8cC2239327C5EDb3A432268e5831''"
| "usdc_6dp Optimism = Some ''0x0b2C639c533813f4Aa9D7837CAf62653d097Ff85''"
| "usdc_6dp Polygon = Some ''0x3c499c542cEF5E3811e1192ce70d8cC03d5c3359''"
| "usdc_6dp Bsc = None"

fun evm_extra :: "Network \<Rightarrow> CryptoEvmNetwork \<Rightarrow> Asset list" where
  "evm_extra net Bsc =
     [token_asset net ''USDT'' ''Tether USD (BEP20)'' 18 ''0x55d398326f99059fF775485246999027B3197955'',
      token_asset net ''USDC'' ''USD Coin (BEP20)'' 18 ''0x8AC76a51cc950d9822D68b83fE1Ad97B32Cd580d'']"
| "evm_extra net Ethereum =
     [token_asset net ''USDT'' ''Tether USD'' 6 ''0xdAC17F958D2ee523a2206206994597C13D831ec7'',
      token_asset net ''DAI'' ''Dai'' 18 ''0x6B175474E89094C44Da98b954EedeAC495271d0F'',
      token_asset net ''WETH'' ''Wrapped Ether'' 18 ''0xC02aaA39b223FE8D0A0e5C4F27eAD9083C756Cc2'']"
| "evm_extra net _ = []"

definition evm_catalog :: "Network \<Rightarrow> CryptoEvmNetwork \<Rightarrow> Asset list" where
  "evm_catalog net evm =
     [native_asset net (fst (c_native evm)) (snd (c_native evm)) 18] @
     (case usdc_6dp evm of Some contract \<Rightarrow> [token_asset net ''USDC'' ''USD Coin'' 6 contract] | None \<Rightarrow> []) @
     evm_extra net evm"

fun catalog :: "Network \<Rightarrow> Asset list" where
  "catalog NetBtc = [native_asset NetBtc ''BTC'' ''Bitcoin'' 8]"
| "catalog NetTron =
     [native_asset NetTron ''TRX'' ''Tron'' 6,
      token_asset NetTron ''USDT'' ''Tether USD (TRC20)'' 6 ''TR7NHqjeKQxGTCi8q8ZY4pL8otSzgjLj6t'']"
| "catalog (NetSolana cluster) =
     [native_asset (NetSolana cluster) ''SOL'' ''Solana'' 9,
      token_asset (NetSolana cluster) ''USDC'' ''USD Coin (Solana)'' 6 (cl_usdc_mint cluster)]"
| "catalog (NetEvm evm) = evm_catalog (NetEvm evm) evm"

definition asset_find :: "Network \<Rightarrow> string \<Rightarrow> Asset option" where
  "asset_find net symbol = List.find (\<lambda>a. eq_ignore_ascii_case (ast_symbol a) (trim symbol)) (catalog net)"

definition networks :: "CryptoSolanaCluster \<Rightarrow> Network list" where
  "networks solana = map NetEvm CryptoEvmNetwork_ALL @ [NetBtc, NetSolana solana, NetTron]"

section \<open>The identifiers of the bus and the catalogue of tinywallet-web3\<close>

datatype WalletChain = WEvm | WBtc | WSolana | WTron

fun wallet_chain_as_str :: "WalletChain \<Rightarrow> string" where
  "wallet_chain_as_str WEvm = ''evm''"
| "wallet_chain_as_str WBtc = ''btc''"
| "wallet_chain_as_str WSolana = ''solana''"
| "wallet_chain_as_str WTron = ''tron''"

fun to_chain :: "WalletChain \<Rightarrow> Chain" where
  "to_chain WEvm = Evm"
| "to_chain WBtc = Btc"
| "to_chain WSolana = Solana"
| "to_chain WTron = Tron"

datatype EvmNetwork = EthereumMainnet | BaseMainnet | ArbitrumOne | OptimismMainnet | PolygonMainnet | BscMainnet

definition EvmNetwork_ALL :: "EvmNetwork list" where
  "EvmNetwork_ALL = [EthereumMainnet, BaseMainnet, ArbitrumOne, OptimismMainnet, PolygonMainnet, BscMainnet]"

fun evm_as_str :: "EvmNetwork \<Rightarrow> string" where
  "evm_as_str EthereumMainnet = ''ethereum_mainnet''"
| "evm_as_str BaseMainnet = ''base_mainnet''"
| "evm_as_str ArbitrumOne = ''arbitrum_one''"
| "evm_as_str OptimismMainnet = ''optimism_mainnet''"
| "evm_as_str PolygonMainnet = ''polygon_mainnet''"
| "evm_as_str BscMainnet = ''bsc_mainnet''"

fun evm_chain_id_of :: "EvmNetwork \<Rightarrow> u64" where
  "evm_chain_id_of EthereumMainnet = 1"
| "evm_chain_id_of BaseMainnet = 8453"
| "evm_chain_id_of ArbitrumOne = 42161"
| "evm_chain_id_of OptimismMainnet = 10"
| "evm_chain_id_of PolygonMainnet = 137"
| "evm_chain_id_of BscMainnet = 56"

datatype SolanaCluster = Mainnet | Devnet

datatype RpcSource = DefaultSource | EnvOverride

fun crypto_evm_network :: "EvmNetwork \<Rightarrow> CryptoEvmNetwork" where
  "crypto_evm_network EthereumMainnet = Ethereum"
| "crypto_evm_network BaseMainnet = Base"
| "crypto_evm_network ArbitrumOne = Arbitrum"
| "crypto_evm_network OptimismMainnet = Optimism"
| "crypto_evm_network PolygonMainnet = Polygon"
| "crypto_evm_network BscMainnet = Bsc"

fun crypto_solana_cluster :: "SolanaCluster \<Rightarrow> CryptoSolanaCluster" where
  "crypto_solana_cluster Mainnet = CMainnet"
| "crypto_solana_cluster Devnet = CDevnet"

definition default_rpc_url_for_evm :: "EvmNetwork \<Rightarrow> string" where
  "default_rpc_url_for_evm n = c_default_rpc_url (crypto_evm_network n)"

definition explorer_tx_base_for_evm :: "EvmNetwork \<Rightarrow> string" where
  "explorer_tx_base_for_evm n = c_explorer_tx_base (crypto_evm_network n)"

definition network_label_for_evm :: "EvmNetwork \<Rightarrow> string" where
  "network_label_for_evm n = c_network_label (crypto_evm_network n)"

definition default_rpc_url_for_solana :: "SolanaCluster \<Rightarrow> string" where
  "default_rpc_url_for_solana cluster = cl_rpc_url (crypto_solana_cluster cluster)"

definition network_label_for_solana :: "SolanaCluster \<Rightarrow> string" where
  "network_label_for_solana cluster = cl_network_label (crypto_solana_cluster cluster)"

definition explorer_tx_suffix_for_solana :: "SolanaCluster \<Rightarrow> string" where
  "explorer_tx_suffix_for_solana cluster = cl_explorer_tx_suffix (crypto_solana_cluster cluster)"

definition usdc_mint_for_solana :: "SolanaCluster \<Rightarrow> string" where
  "usdc_mint_for_solana cluster = cl_usdc_mint (crypto_solana_cluster cluster)"

definition BLOCKSTREAM_TX_BASE :: string where "BLOCKSTREAM_TX_BASE = ''https://blockstream.info/tx/''"
definition SOLSCAN_TX_BASE :: string where "SOLSCAN_TX_BASE = ''https://solscan.io/tx/''"
definition TRONSCAN_TX_BASE :: string where "TRONSCAN_TX_BASE = ''https://tronscan.org/#/transaction/''"

fun default_rpc_url :: "WalletChain \<Rightarrow> SolanaCluster \<Rightarrow> string" where
  "default_rpc_url WEvm cluster = default_rpc_url_for_evm EthereumMainnet"
| "default_rpc_url WBtc cluster = ''https://blockstream.info/api''"
| "default_rpc_url WSolana cluster = default_rpc_url_for_solana cluster"
| "default_rpc_url WTron cluster = ''https://api.trongrid.io''"

fun explorer_tx_url :: "WalletChain \<Rightarrow> SolanaCluster \<Rightarrow> string \<Rightarrow> string option" where
  "explorer_tx_url WEvm cluster tx_hash = Some (explorer_tx_base_for_evm EthereumMainnet @ tx_hash)"
| "explorer_tx_url WBtc cluster tx_hash = Some (BLOCKSTREAM_TX_BASE @ tx_hash)"
| "explorer_tx_url WSolana cluster tx_hash = Some (SOLSCAN_TX_BASE @ tx_hash @ explorer_tx_suffix_for_solana cluster)"
| "explorer_tx_url WTron cluster tx_hash = Some (TRONSCAN_TX_BASE @ tx_hash)"

definition explorer_tx_url_for_evm_network :: "EvmNetwork \<Rightarrow> string \<Rightarrow> string option" where
  "explorer_tx_url_for_evm_network n tx_hash = Some (explorer_tx_base_for_evm n @ tx_hash)"

record WalletAssetDefinition =
  wad_chain :: WalletChain
  wad_evm_network :: "EvmNetwork option"
  wad_symbol :: string
  wad_name :: string
  wad_native :: bool
  wad_decimals :: u8
  wad_contract_address :: "string option"

definition wallet_asset :: "WalletChain \<Rightarrow> EvmNetwork option \<Rightarrow> string \<Rightarrow> string \<Rightarrow> u8 \<Rightarrow> string option \<Rightarrow> WalletAssetDefinition" where
  "wallet_asset chain net symbol name decimals contract =
     \<lparr>wad_chain = chain, wad_evm_network = net, wad_symbol = symbol, wad_name = name, wad_native = (contract = None),
      wad_decimals = decimals, wad_contract_address = contract\<rparr>"

fun evm_usdc :: "EvmNetwork \<Rightarrow> string option" where
  "evm_usdc EthereumMainnet = Some ''0xA0b86991c6218b36c1d19D4a2e9Eb0cE3606eB48''"
| "evm_usdc BaseMainnet = Some ''0x833589fCD6eDb6E08f4c7C32D4f71b54bdA02913''"
| "evm_usdc ArbitrumOne = Some ''0xaf88d065e77c8cC2239327C5EDb3A432268e5831''"
| "evm_usdc OptimismMainnet = Some ''0x0b2C639c533813f4Aa9D7837CAf62653d097Ff85''"
| "evm_usdc PolygonMainnet = Some ''0x3c499c542cEF5E3811e1192ce70d8cC03d5c3359''"
| "evm_usdc BscMainnet = None"

definition evm_asset_catalog :: "EvmNetwork \<Rightarrow> WalletAssetDefinition list" where
  "evm_asset_catalog n =
     (let evm = wallet_asset WEvm (Some n);
          (native_symbol, native_name) = (case n of PolygonMainnet \<Rightarrow> (''POL'', ''Polygon'') | BscMainnet \<Rightarrow> (''BNB'', ''BNB'')
                                            | _ \<Rightarrow> (''ETH'', ''Ether''))
      in [evm native_symbol native_name 18 None] @
         (case evm_usdc n of Some usdc \<Rightarrow> [evm ''USDC'' ''USD Coin'' 6 (Some usdc)] | None \<Rightarrow> []) @
         (if n = BscMainnet then
            [evm ''USDT'' ''Tether USD (BEP20)'' 18 (Some ''0x55d398326f99059fF775485246999027B3197955''),
             evm ''USDC'' ''USD Coin (BEP20)'' 18 (Some ''0x8AC76a51cc950d9822D68b83fE1Ad97B32Cd580d'')] else []) @
         (if n = EthereumMainnet then
            [evm ''USDT'' ''Tether USD'' 6 (Some ''0xdAC17F958D2ee523a2206206994597C13D831ec7''),
             evm ''DAI'' ''Dai'' 18 (Some ''0x6B175474E89094C44Da98b954EedeAC495271d0F''),
             evm ''WETH'' ''Wrapped Ether'' 18 (Some ''0xC02aaA39b223FE8D0A0e5C4F27eAD9083C756Cc2'')] else []))"

fun asset_catalog :: "WalletChain \<Rightarrow> SolanaCluster \<Rightarrow> WalletAssetDefinition list" where
  "asset_catalog WEvm cluster = evm_asset_catalog EthereumMainnet"
| "asset_catalog WBtc cluster = [wallet_asset WBtc None ''BTC'' ''Bitcoin'' 8 None]"
| "asset_catalog WSolana cluster =
     [wallet_asset WSolana None ''SOL'' ''Solana'' 9 None,
      wallet_asset WSolana None ''USDC'' ''USD Coin (Solana)'' 6 (Some (usdc_mint_for_solana cluster))]"
| "asset_catalog WTron cluster =
     [wallet_asset WTron None ''TRX'' ''Tron'' 6 None,
      wallet_asset WTron None ''USDT'' ''Tether USD (TRC20)'' 6 (Some ''TR7NHqjeKQxGTCi8q8ZY4pL8otSzgjLj6t'')]"

definition find_asset_for_network :: "WalletChain \<Rightarrow> EvmNetwork option \<Rightarrow> string \<Rightarrow> SolanaCluster \<Rightarrow> WalletAssetDefinition option" where
  "find_asset_for_network chain net symbol cluster =
     (let cat = (case (chain, net) of
                   (WEvm, Some n) \<Rightarrow> evm_asset_catalog n
                 | (WEvm, None) \<Rightarrow> evm_asset_catalog EthereumMainnet
                 | (other, _) \<Rightarrow> asset_catalog other cluster)
      in List.find (\<lambda>a. eq_ignore_ascii_case (wad_symbol a) (trim symbol)) cat)"

definition find_asset :: "WalletChain \<Rightarrow> string \<Rightarrow> SolanaCluster \<Rightarrow> WalletAssetDefinition option" where
  "find_asset chain symbol cluster = find_asset_for_network chain None symbol cluster"

record WalletNetworkDefaults =
  wnd_chain :: WalletChain
  wnd_evm_network :: "EvmNetwork option"
  wnd_network :: string
  wnd_chain_id :: "u64 option"
  wnd_rpc_url :: string
  wnd_rpc_source :: RpcSource
  wnd_explorer_tx_url_base :: string
  wnd_explorer_tx_url_suffix :: "string option"
  wnd_supports_broadcast :: bool
  wnd_supports_token_transfers :: bool
  wnd_supports_contract_calls :: bool
  wnd_assets :: "WalletAssetDefinition list"

text \<open>The seam \<open>RpcEndpoints\<close>.\<close>

record RpcEndpoints =
  ep_url :: "WalletChain \<Rightarrow> EvmNetwork option \<Rightarrow> string"
  ep_source :: "WalletChain \<Rightarrow> EvmNetwork option \<Rightarrow> RpcSource"
  ep_solana_cluster :: SolanaCluster

definition network_defaults :: "RpcEndpoints \<Rightarrow> WalletNetworkDefaults list" where
  "network_defaults ep =
     (let cluster = ep_solana_cluster ep in
      map (\<lambda>n. \<lparr>wnd_chain = WEvm, wnd_evm_network = Some n, wnd_network = network_label_for_evm n,
                wnd_chain_id = Some (evm_chain_id_of n), wnd_rpc_url = ep_url ep WEvm (Some n),
                wnd_rpc_source = ep_source ep WEvm (Some n), wnd_explorer_tx_url_base = explorer_tx_base_for_evm n,
                wnd_explorer_tx_url_suffix = None, wnd_supports_broadcast = True, wnd_supports_token_transfers = True,
                wnd_supports_contract_calls = True, wnd_assets = evm_asset_catalog n\<rparr>) EvmNetwork_ALL @
      map (\<lambda>(chain, label, explorer, suffix).
              \<lparr>wnd_chain = chain, wnd_evm_network = None, wnd_network = label, wnd_chain_id = None,
               wnd_rpc_url = ep_url ep chain None, wnd_rpc_source = ep_source ep chain None,
               wnd_explorer_tx_url_base = explorer,
               wnd_explorer_tx_url_suffix = (if suffix \<noteq> [] then Some suffix else None), wnd_supports_broadcast = True,
               wnd_supports_token_transfers = (chain \<noteq> WBtc), wnd_supports_contract_calls = False,
               wnd_assets = asset_catalog chain cluster\<rparr>)
        [(WBtc, ''bitcoin-mainnet'', BLOCKSTREAM_TX_BASE, []),
         (WSolana, network_label_for_solana cluster, SOLSCAN_TX_BASE, explorer_tx_suffix_for_solana cluster),
         (WTron, ''tron-mainnet'', TRONSCAN_TX_BASE, [])])"

section \<open>The transport seam\<close>

record NetworkId =
  nid_chain :: Chain
  nid_evm_chain_id :: "u64 option"

definition NetworkId_chain :: "Chain \<Rightarrow> NetworkId" where
  "NetworkId_chain chain = \<lparr>nid_chain = chain, nid_evm_chain_id = None\<rparr>"

definition NetworkId_evm :: "u64 \<Rightarrow> NetworkId" where
  "NetworkId_evm chain_id = \<lparr>nid_chain = Evm, nid_evm_chain_id = Some chain_id\<rparr>"

definition network_id_to_string :: "NetworkId \<Rightarrow> string" where
  "network_id_to_string n =
     (case nid_evm_chain_id n of
        Some i \<Rightarrow> chain_as_str (nid_chain n) @ '':'' @ show_nat (unat i)
      | None \<Rightarrow> chain_as_str (nid_chain n))"

datatype TransportError = Unreachable NetworkId string | Rpc NetworkId string

fun is_retryable :: "TransportError \<Rightarrow> bool" where
  "is_retryable (Unreachable _ _) \<longleftrightarrow> True"
| "is_retryable (Rpc _ _) \<longleftrightarrow> False"

fun error_network :: "TransportError \<Rightarrow> NetworkId" where
  "error_network (Unreachable n _) = n"
| "error_network (Rpc n _) = n"

fun transport_message :: "TransportError \<Rightarrow> string" where
  "transport_message (Unreachable _ message) = message"
| "transport_message (Rpc _ message) = message"

fun network_id :: "WalletChain \<Rightarrow> EvmNetwork option \<Rightarrow> NetworkId" where
  "network_id WEvm n = NetworkId_evm (evm_chain_id_of (case n of Some n \<Rightarrow> n | None \<Rightarrow> EthereumMainnet))"
| "network_id other n = NetworkId_chain (to_chain other)"

section \<open>Two catalogues, one content\<close>

text \<open>The network the wallet's chain, network and cluster select, and an asset of the one catalogue as
  the other describes it.\<close>

fun wallet_network :: "WalletChain \<Rightarrow> EvmNetwork option \<Rightarrow> SolanaCluster \<Rightarrow> Network" where
  "wallet_network WEvm n cluster = NetEvm (crypto_evm_network (case n of Some n \<Rightarrow> n | None \<Rightarrow> EthereumMainnet))"
| "wallet_network WBtc n cluster = NetBtc"
| "wallet_network WSolana n cluster = NetSolana (crypto_solana_cluster cluster)"
| "wallet_network WTron n cluster = NetTron"

definition as_wallet :: "WalletChain \<Rightarrow> EvmNetwork option \<Rightarrow> Asset \<Rightarrow> WalletAssetDefinition" where
  "as_wallet chain n a =
     \<lparr>wad_chain = chain, wad_evm_network = (if chain = WEvm then Some (case n of Some n \<Rightarrow> n | None \<Rightarrow> EthereumMainnet) else None),
      wad_symbol = ast_symbol a, wad_name = ast_name a, wad_native = ast_native a, wad_decimals = ast_decimals a,
      wad_contract_address = ast_contract_address a\<rparr>"

lemmas asset_simps = as_wallet_def native_asset_def token_asset_def wallet_asset_def usdc_mint_for_solana_def

lemma evm_catalogs_agree: "map (as_wallet WEvm (Some n)) (catalog (NetEvm (crypto_evm_network n))) = evm_asset_catalog n"
  by (cases n) (simp_all add: evm_catalog_def evm_asset_catalog_def asset_simps)

lemma chain_catalogs_agree:
  "chain \<noteq> WEvm \<Longrightarrow> map (as_wallet chain n) (catalog (wallet_network chain n cluster)) = asset_catalog chain cluster"
  by (cases chain) (simp_all add: asset_simps)

lemma find_map: "List.find P (map f xs) = map_option f (List.find (P \<circ> f) xs)"
  by (induction xs) auto

lemma as_wallet_symbol [simp]: "wad_symbol (as_wallet chain n a) = ast_symbol a"
  by (simp add: as_wallet_def)

lemma as_wallet_None: "as_wallet WEvm (Some EthereumMainnet) = as_wallet WEvm None"
  by (rule ext) (simp add: as_wallet_def)

text \<open>
  Looking an asset up by its symbol in the wallet's catalogue and in the catalogue of the chain
  library gives the same answer, on every network and cluster: the same contract and the same decimals.
\<close>

theorem asset_lookup_agrees:
  "find_asset_for_network chain n symbol cluster =
     map_option (as_wallet chain n) (asset_find (wallet_network chain n cluster) symbol)"
proof (cases "chain = WEvm")
  case True
  then show ?thesis
    by (cases n)
      (simp_all add: find_asset_for_network_def asset_find_def evm_catalogs_agree [symmetric] as_wallet_None find_map comp_def)
next
  case False
  then have "find_asset_for_network chain n symbol cluster =
      List.find (\<lambda>a. eq_ignore_ascii_case (wad_symbol a) (trim symbol)) (asset_catalog chain cluster)"
    by (cases chain) (simp_all add: find_asset_for_network_def)
  then show ?thesis
    unfolding chain_catalogs_agree [OF False, of n, symmetric] by (simp add: asset_find_def find_map comp_def)
qed

text \<open>Chain ids name networks, and the two crates number them alike.\<close>

lemma from_chain_id_iff: "from_chain_id i = Some n \<longleftrightarrow> c_chain_id n = i"
  by (cases n) (auto simp: from_chain_id_def CryptoEvmNetwork_ALL_def)

lemma chain_ids_agree: "c_chain_id (crypto_evm_network n) = evm_chain_id_of n" "c_as_str (crypto_evm_network n) = evm_as_str n"
  by (cases n; simp)+

lemma evm_chain_id_of_inject: "evm_chain_id_of m = evm_chain_id_of n \<longleftrightarrow> m = n"
  by (cases m; cases n; simp)

text \<open>The network a request is bound for determines the chain, and on the EVM the network.\<close>

lemma network_id_inject:
  "network_id chain n = network_id chain' n' \<longleftrightarrow> chain = chain' \<and>
     (chain = WEvm \<longrightarrow> (case n of Some n \<Rightarrow> n | None \<Rightarrow> EthereumMainnet) = (case n' of Some n \<Rightarrow> n | None \<Rightarrow> EthereumMainnet))"
  by (cases chain; cases chain') (auto simp: NetworkId_evm_def NetworkId_chain_def evm_chain_id_of_inject)

text \<open>Every asset list starts with its one native asset, which is the one without a contract, and no two
  assets of a network share a symbol up to case.\<close>

lemma catalog_wf:
  "\<exists>a rest. catalog net = a # rest \<and> ast_native a \<and> ast_contract_address a = None \<and>
     list_all (\<lambda>b. \<not> ast_native b \<and> ast_contract_address b \<noteq> None) rest \<and>
     distinct (map (to_ascii_lowercase \<circ> ast_symbol) (catalog net))"
proof (cases net)
  case (NetEvm evm)
  then show ?thesis
    by (cases evm) (simp_all add: evm_catalog_def asset_simps to_ascii_lowercase_def char_to_lower_def)
qed (simp_all add: asset_simps to_ascii_lowercase_def char_to_lower_def)

text \<open>The two explorer links agree except for a Solana devnet transaction, whose link from the chain
  library lacks the cluster and so opens on mainnet.\<close>

lemma explorer_links_agree:
  "explorer_tx_url chain cluster h = network_explorer_tx_url (wallet_network chain None cluster) h \<longleftrightarrow>
     chain \<noteq> WSolana \<or> cluster = Mainnet"
  by (cases chain; cases cluster)
    (simp_all add: explorer_tx_base_for_evm_def BLOCKSTREAM_TX_BASE_def SOLSCAN_TX_BASE_def TRONSCAN_TX_BASE_def
      explorer_tx_suffix_for_solana_def cl_explorer_tx_base_def)

end
