(* ===== verification/TW_Quote.thy ===== *)
theory TW_Quote
  imports TW_Prelude "HOL-Library.Multiset"
begin

text \<open>
  The rail-neutral half of confirm-then-execute: \<open>tinywallet-web3/src/quote/store.rs\<close> and
  \<open>quote/types.rs\<close>. The trait \<open>Quoted\<close> is the record \<open>quoted\<close> of what the store asks of a quote,
  its contract the locale \<open>quoted_laws\<close>. Every reading of the clock is an argument. The flow of
  preparing, taking, finishing and handing back quotes is a step relation over the operations of the
  store, and the lemmas of the locale show that no quote is ever executed twice.
\<close>

section \<open>The store\<close>

record QuoteOwner =
  thread_id :: string
  client_id :: string

text \<open>The trait \<open>Quoted\<close>.\<close>

record 't quoted =
  q_id :: "'t \<Rightarrow> string"
  q_owner :: "'t \<Rightarrow> QuoteOwner option"
  q_expires_at_ms :: "'t \<Rightarrow> u64"
  q_set_expires_at_ms :: "u64 \<Rightarrow> 't \<Rightarrow> 't"
  q_is_consumed :: "'t \<Rightarrow> bool"

record 't QuoteStore =
  qs_prefix :: string
  qs_ttl_ms :: u64
  qs_cap :: nat
  qs_counter :: u64
  qs_quotes :: "'t list"

definition QuoteStore_new :: "string \<Rightarrow> u64 \<Rightarrow> nat \<Rightarrow> 't QuoteStore" where
  "QuoteStore_new pre ttl cap = \<lparr>qs_prefix = pre, qs_ttl_ms = ttl, qs_cap = cap, qs_counter = 1, qs_quotes = []\<rparr>"

definition quote_id_text :: "string \<Rightarrow> u64 \<Rightarrow> u64 \<Rightarrow> string" where
  "quote_id_text pre now n = pre @ ''_'' @ show_nat (unat now) @ ''_'' @ show_nat (unat n)"

text \<open>\<open>fetch_add\<close> returns the old count and wraps around.\<close>

definition next_id :: "u64 \<Rightarrow> 't QuoteStore \<Rightarrow> string \<times> 't QuoteStore" where
  "next_id now s = (quote_id_text (qs_prefix s) now (qs_counter s), s\<lparr>qs_counter := qs_counter s + 1\<rparr>)"

definition quote_live :: "'t quoted \<Rightarrow> u64 \<Rightarrow> 't \<Rightarrow> bool" where
  "quote_live ops now q \<longleftrightarrow> q_expires_at_ms ops q > now \<and> \<not> q_is_consumed ops q"

text \<open>\<open>remove(0)\<close> drops the oldest quote. On an empty vector, which is full only for a capacity of 0,
  it panics; the stores of the program have the capacity 64.\<close>

definition insert_quote :: "'t quoted \<Rightarrow> u64 \<Rightarrow> 't \<Rightarrow> 't QuoteStore \<Rightarrow> 't QuoteStore" where
  "insert_quote ops now q s =
     (let kept = filter (quote_live ops now) (qs_quotes s);
          kept = (if length kept \<ge> qs_cap s then drop 1 kept else kept)
      in s\<lparr>qs_quotes := kept @ [q]\<rparr>)"

text \<open>\<open>restore\<close> reads the clock twice: for the new expiry, and again inside \<open>insert\<close>.\<close>

definition restore_quote :: "'t quoted \<Rightarrow> u64 \<Rightarrow> u64 \<Rightarrow> 't \<Rightarrow> 't QuoteStore \<Rightarrow> 't QuoteStore" where
  "restore_quote ops now now' q s =
     insert_quote ops now' (q_set_expires_at_ms ops (saturating_add now (qs_ttl_ms s)) q) s"

fun position :: "('t \<Rightarrow> bool) \<Rightarrow> 't list \<Rightarrow> nat option" where
  "position P [] = None"
| "position P (x # xs) = (if P x then Some 0 else map_option Suc (position P xs))"

definition remove_at :: "nat \<Rightarrow> 't list \<Rightarrow> 't list" where
  "remove_at i xs = take i xs @ drop (Suc i) xs"

definition not_found_text :: "string \<Rightarrow> string" where
  "not_found_text i = ''quote '' @ [CHR 0x27] @ i @ [CHR 0x27] @ '' not found''"

definition executed_text :: "string \<Rightarrow> string" where
  "executed_text i = ''quote '' @ [CHR 0x27] @ i @ [CHR 0x27] @ '' already executed''"

definition expired_text :: "string \<Rightarrow> string" where
  "expired_text i = ''quote '' @ [CHR 0x27] @ i @ [CHR 0x27] @ '' expired''"

definition take_for :: "'t quoted \<Rightarrow> u64 \<Rightarrow> string \<Rightarrow> QuoteOwner option \<Rightarrow> 't QuoteStore \<Rightarrow> (string + 't) \<times> 't QuoteStore" where
  "take_for ops now i caller s =
     (case position (\<lambda>q. q_id ops q = i) (qs_quotes s) of
        None \<Rightarrow> (Inl (not_found_text i), s)
      | Some pos \<Rightarrow>
          let q = qs_quotes s ! pos in
          if q_owner ops q \<noteq> caller then (Inl (not_found_text i), s)
          else let s = s\<lparr>qs_quotes := remove_at pos (qs_quotes s)\<rparr> in
            if q_is_consumed ops q then (Inl (executed_text i), s)
            else if q_expires_at_ms ops q \<le> now then (Inl (expired_text i), s)
            else (Inr q, s))"

definition get_for :: "'t quoted \<Rightarrow> u64 \<Rightarrow> string \<Rightarrow> QuoteOwner option \<Rightarrow> 't QuoteStore \<Rightarrow> string + 't" where
  "get_for ops now i caller s =
     (case List.find (\<lambda>q. q_id ops q = i) (qs_quotes s) of
        None \<Rightarrow> Inl (not_found_text i)
      | Some q \<Rightarrow>
          if q_owner ops q \<noteq> caller then Inl (not_found_text i)
          else if q_is_consumed ops q then Inl (executed_text i)
          else if q_expires_at_ms ops q \<le> now then Inl (expired_text i)
          else Inr q)"

definition live_quotes :: "'t quoted \<Rightarrow> u64 \<Rightarrow> 't QuoteStore \<Rightarrow> 't list" where
  "live_quotes ops now s = filter (quote_live ops now) (qs_quotes s)"

section \<open>Taking and inspecting\<close>

lemma position_Some:
  "position P xs = Some i \<Longrightarrow> i < length xs \<and> P (xs ! i) \<and> (\<forall>j < i. \<not> P (xs ! j)) \<and> List.find P xs = Some (xs ! i)"
proof (induction xs arbitrary: i)
  case (Cons x xs)
  then show ?case by (cases i) (auto split: if_splits simp: less_Suc_eq_0_disj)
qed simp

lemma position_None: "position P xs = None \<longleftrightarrow> (\<forall>x \<in> set xs. \<not> P x)"
  by (induction xs) auto

lemma find_position: "List.find P xs = map_option ((!) xs) (position P xs)"
proof (cases "position P xs")
  case None
  then show ?thesis using position_None [of P xs] by (simp add: find_None_iff)
next
  case (Some i)
  then show ?thesis using position_Some [OF Some] by simp
qed

lemma remove_at_split: "i < length xs \<Longrightarrow> xs = take i xs @ xs ! i # drop (Suc i) xs"
  by (rule id_take_nth_drop)

lemma mset_remove_at: "i < length xs \<Longrightarrow> mset xs = add_mset (xs ! i) (mset (remove_at i xs))"
  by (subst (1) remove_at_split) (simp_all add: remove_at_def)

text \<open>Taking succeeds exactly where inspecting does, and gives the same quote.\<close>

lemma take_for_get_for: "fst (take_for ops now i caller s) = get_for ops now i caller s"
  by (auto simp: take_for_def get_for_def find_position Let_def split: option.splits)

lemma take_for_Inr:
  assumes "take_for ops now i caller s = (Inr q, s')"
  shows "q_id ops q = i" and "q_owner ops q = caller" and "quote_live ops now q"
    and "mset (qs_quotes s) = add_mset q (mset (qs_quotes s'))" and "s' = s\<lparr>qs_quotes := qs_quotes s'\<rparr>"
proof -
  from assms obtain pos where "position (\<lambda>q. q_id ops q = i) (qs_quotes s) = Some pos"
    "q = qs_quotes s ! pos" "q_owner ops q = caller" "\<not> q_is_consumed ops q" "\<not> q_expires_at_ms ops q \<le> now"
    "s' = s\<lparr>qs_quotes := remove_at pos (qs_quotes s)\<rparr>"
    by (auto simp: take_for_def Let_def split: option.splits if_splits)
  then show "q_id ops q = i" "q_owner ops q = caller" "quote_live ops now q"
    "mset (qs_quotes s) = add_mset q (mset (qs_quotes s'))" "s' = s\<lparr>qs_quotes := qs_quotes s'\<rparr>"
    using position_Some [of "\<lambda>q. q_id ops q = i" "qs_quotes s" pos] mset_remove_at [of pos "qs_quotes s"]
    by (auto simp: quote_live_def)
qed

lemma take_for_mset: "mset (qs_quotes (snd (take_for ops now i caller s))) \<subseteq># mset (qs_quotes s)"
proof (cases "position (\<lambda>q. q_id ops q = i) (qs_quotes s)")
  case (Some pos)
  then have "mset (qs_quotes s) = add_mset (qs_quotes s ! pos) (mset (remove_at pos (qs_quotes s)))"
    using position_Some by (blast intro: mset_remove_at)
  with Some show ?thesis by (simp add: take_for_def Let_def)
qed (simp add: take_for_def)

lemma take_for_frame:
  "qs_counter (snd (take_for ops now i caller s)) = qs_counter s" "qs_prefix (snd (take_for ops now i caller s)) = qs_prefix s"
  by (simp_all add: take_for_def Let_def split: option.splits)

lemma insert_quote_frame [simp]:
  "qs_counter (insert_quote ops now q s) = qs_counter s" "qs_prefix (insert_quote ops now q s) = qs_prefix s"
  "qs_cap (insert_quote ops now q s) = qs_cap s"
  by (simp_all add: insert_quote_def Let_def)

lemma insert_quote_mset: "mset (qs_quotes (insert_quote ops now q s)) \<subseteq># add_mset q (mset (qs_quotes s))"
proof -
  let ?kept = "filter (quote_live ops now) (qs_quotes s)"
  have "mset (drop 1 ?kept) \<subseteq># mset ?kept"
    by (metis append_take_drop_id mset_append mset_subset_eq_add_right)
  also have "\<dots> \<subseteq># mset (qs_quotes s)" by (simp add: mset_filter)
  finally have "mset (drop 1 ?kept) \<subseteq># mset (qs_quotes s)" .
  then show ?thesis by (simp add: insert_quote_def Let_def mset_filter)
qed

lemma restore_frame:
  "qs_counter (restore_quote ops now now' q s) = qs_counter s" "qs_prefix (restore_quote ops now now' q s) = qs_prefix s"
  by (simp_all add: restore_quote_def)

text \<open>The quote just stored is there, and the store never outgrows its capacity.\<close>

lemma insert_quote_stored: "q \<in> set (qs_quotes (insert_quote ops now q s))"
  by (simp add: insert_quote_def Let_def)

lemma insert_quote_bounded:
  "0 < qs_cap s \<Longrightarrow> length (qs_quotes s) \<le> qs_cap s \<Longrightarrow> length (qs_quotes (insert_quote ops now q s)) \<le> qs_cap s"
proof -
  assume "0 < qs_cap s" "length (qs_quotes s) \<le> qs_cap s"
  then have "length (filter (quote_live ops now) (qs_quotes s)) \<le> qs_cap s" by (blast intro: le_trans length_filter_le)
  with \<open>0 < qs_cap s\<close> show ?thesis by (auto simp: insert_quote_def Let_def)
qed

section \<open>The flow\<close>

text \<open>The store, the quotes that were taken and are being executed, and the ids whose execution
  succeeded. A quote is prepared under the next id of the store; taking it starts an execution, which
  ends by succeeding or by handing the quote back. The count of ids does not wrap around.\<close>

record 't flow =
  f_store :: "'t QuoteStore"
  f_out :: "'t list"
  f_done :: "string list"

inductive flow_step :: "'t quoted \<Rightarrow> 't flow \<Rightarrow> 't flow \<Rightarrow> bool" for ops where
  prepare: "next_id now (f_store f) = (i, s) \<Longrightarrow> qs_counter (f_store f) < - 1 \<Longrightarrow> q_id ops q = i \<Longrightarrow>
    flow_step ops f (f\<lparr>f_store := insert_quote ops now' q s\<rparr>)"
| taken: "take_for ops now i caller (f_store f) = (Inr q, s) \<Longrightarrow>
    flow_step ops f (f\<lparr>f_store := s, f_out := q # f_out f\<rparr>)"
| refused: "take_for ops now i caller (f_store f) = (Inl e, s) \<Longrightarrow> flow_step ops f (f\<lparr>f_store := s\<rparr>)"
| finished: "q \<in> set (f_out f) \<Longrightarrow> flow_step ops f (f\<lparr>f_out := remove1 q (f_out f), f_done := q_id ops q # f_done f\<rparr>)"
| handed_back: "q \<in> set (f_out f) \<Longrightarrow>
    flow_step ops f (f\<lparr>f_out := remove1 q (f_out f), f_store := restore_quote ops now now' q (f_store f)\<rparr>)"

definition flow_start :: "'t flow \<Rightarrow> bool" where
  "flow_start f \<longleftrightarrow> (\<exists>pre ttl cap. f = \<lparr>f_store = QuoteStore_new pre ttl cap, f_out = [], f_done = []\<rparr>)"

definition flow_ids :: "'t quoted \<Rightarrow> 't flow \<Rightarrow> string multiset" where
  "flow_ids ops f = image_mset (q_id ops) (mset (qs_quotes (f_store f)) + mset (f_out f)) + mset (f_done f)"

definition numbered :: "'t QuoteStore \<Rightarrow> string \<Rightarrow> bool" where
  "numbered s i \<longleftrightarrow> (\<exists>t n. i = quote_id_text (qs_prefix s) t n \<and> n < qs_counter s)"

definition flow_inv :: "'t quoted \<Rightarrow> 't flow \<Rightarrow> bool" where
  "flow_inv ops f \<longleftrightarrow> (\<forall>i. count (flow_ids ops f) i \<le> 1) \<and> (\<forall>i \<in># flow_ids ops f. numbered (f_store f) i)"

text \<open>A confirmed execution, from taking the quote to its end, with whatever other tasks do meanwhile.\<close>

lemma confirmed_run:
  assumes "take_for ops now i caller s = (Inr q, s1)"
    and "(flow_step ops)\<^sup>*\<^sup>* \<lparr>f_store = s1, f_out = q # out, f_done = fin\<rparr> \<lparr>f_store = s2, f_out = q # out2, f_done = fin2\<rparr>"
  shows "(flow_step ops)\<^sup>*\<^sup>* \<lparr>f_store = s, f_out = out, f_done = fin\<rparr> \<lparr>f_store = s2, f_out = q # out2, f_done = fin2\<rparr>"
    and "(flow_step ops)\<^sup>*\<^sup>* \<lparr>f_store = s, f_out = out, f_done = fin\<rparr> \<lparr>f_store = s2, f_out = out2, f_done = i # fin2\<rparr>"
    and "(flow_step ops)\<^sup>*\<^sup>* \<lparr>f_store = s, f_out = out, f_done = fin\<rparr>
      \<lparr>f_store = restore_quote ops t t' q s2, f_out = out2, f_done = fin2\<rparr>"
proof -
  let ?f = "\<lparr>f_store = s, f_out = out, f_done = fin\<rparr>" and ?f2 = "\<lparr>f_store = s2, f_out = q # out2, f_done = fin2\<rparr>"
  have "flow_step ops ?f \<lparr>f_store = s1, f_out = q # out, f_done = fin\<rparr>"
    using flow_step.taken [of ops now i caller ?f q s1] assms(1) by simp
  then show run: "(flow_step ops)\<^sup>*\<^sup>* ?f ?f2" using assms(2) by (rule converse_rtranclp_into_rtranclp)
  have "q_id ops q = i" using assms(1) by (rule take_for_Inr(1))
  then have "flow_step ops ?f2 \<lparr>f_store = s2, f_out = out2, f_done = i # fin2\<rparr>"
    using flow_step.finished [of q ?f2 ops] by simp
  with run show "(flow_step ops)\<^sup>*\<^sup>* ?f \<lparr>f_store = s2, f_out = out2, f_done = i # fin2\<rparr>" by (rule rtranclp.rtrancl_into_rtrancl)
  have "flow_step ops ?f2 \<lparr>f_store = restore_quote ops t t' q s2, f_out = out2, f_done = fin2\<rparr>"
    using flow_step.handed_back [of q ?f2 ops t t'] by simp
  with run show "(flow_step ops)\<^sup>*\<^sup>* ?f \<lparr>f_store = restore_quote ops t t' q s2, f_out = out2, f_done = fin2\<rparr>"
    by (rule rtranclp.rtrancl_into_rtrancl)
qed

text \<open>An id determines its number.\<close>

lemma quote_id_text_inject: "quote_id_text pre t n = quote_id_text pre t' n' \<longleftrightarrow> t = t' \<and> n = n'"
proof -
  have "CHR ''_'' \<notin> set (show_nat k)" for k
    using show_nat_digits [of k] by (auto simp: list_all_iff is_ascii_digit_def)
  then show ?thesis by (auto simp: quote_id_text_def append_Cons_eq_iff word_unat_eq_iff)
qed

lemma counter_succ: "(c :: u64) < - 1 \<Longrightarrow> unat (c + 1) = unat c + 1"
proof -
  assume "c < - 1"
  then have "unat c < unat (- 1 :: u64)" by (simp add: word_less_nat_alt)
  moreover have "unat (- 1 :: u64) < 2 ^ 64" by (rule unat_u64_less)
  ultimately have "unat c + 1 < 2 ^ 64" by linarith
  then show ?thesis by (simp add: unat_word_ariths)
qed

lemma numbered_fresh: "\<not> numbered s (quote_id_text (qs_prefix s) now (qs_counter s))"
  by (auto simp: numbered_def quote_id_text_inject)

lemma flow_inv_mono:
  assumes "flow_inv ops f" and "flow_ids ops f' \<subseteq># flow_ids ops f"
    and "qs_counter (f_store f) = qs_counter (f_store f')" "qs_prefix (f_store f) = qs_prefix (f_store f')"
  shows "flow_inv ops f'"
proof -
  have "count (flow_ids ops f') i \<le> 1" for i
    using assms(1) mset_subset_eq_count [OF assms(2), of i] unfolding flow_inv_def by (meson le_trans)
  moreover have "numbered (f_store f') i" if "i \<in># flow_ids ops f'" for i
    using assms(1) mset_subset_eqD [OF assms(2) that] assms(3,4) by (auto simp: flow_inv_def numbered_def)
  ultimately show ?thesis by (simp add: flow_inv_def)
qed

text \<open>The contract of a quote type: moving the expiry changes nothing else.\<close>

locale quoted_laws =
  fixes ops :: "'t quoted"
  assumes set_expires: "q_expires_at_ms ops (q_set_expires_at_ms ops e q) = e"
    and set_id: "q_id ops (q_set_expires_at_ms ops e q) = q_id ops q"
    and set_owner: "q_owner ops (q_set_expires_at_ms ops e q) = q_owner ops q"
    and set_consumed: "q_is_consumed ops (q_set_expires_at_ms ops e q) = q_is_consumed ops q"
begin

lemma restore_ids:
  "image_mset (q_id ops) (mset (qs_quotes (restore_quote ops now now' q s)))
     \<subseteq># add_mset (q_id ops q) (image_mset (q_id ops) (mset (qs_quotes s)))"
  using image_mset_subseteq_mono [OF insert_quote_mset, of "q_id ops" ops now' "q_set_expires_at_ms ops (saturating_add now (qs_ttl_ms s)) q" s]
  by (simp add: restore_quote_def set_id)

lemma step_keeps:
  assumes "flow_step ops f f'" and inv: "flow_inv ops f"
  shows "flow_inv ops f'"
  using assms(1)
proof cases
  case (prepare now i s q now')
  let ?c = "qs_counter (f_store f)"
  from prepare(2) have s: "s = (f_store f)\<lparr>qs_counter := ?c + 1\<rparr>" and i: "i = quote_id_text (qs_prefix (f_store f)) now ?c"
    by (auto simp: next_id_def)
  have less: "n < ?c \<Longrightarrow> n < ?c + 1" "?c < ?c + 1" for n
    using counter_succ [OF prepare(3)] by (simp_all add: word_less_nat_alt)
  have num: "numbered s j" if "numbered (f_store f) j" for j
    using that less unfolding numbered_def s by auto
  have "numbered s i" unfolding numbered_def s i using less by auto
  moreover have sub: "flow_ids ops f' \<subseteq># add_mset i (flow_ids ops f)"
    using image_mset_subseteq_mono [OF insert_quote_mset, of "q_id ops" ops now' q s]
    by (simp add: flow_ids_def prepare s)
  moreover have "count (flow_ids ops f) i = 0"
    using inv numbered_fresh [of "f_store f" now] i by (auto simp: flow_inv_def count_eq_zero_iff)
  moreover have "count (flow_ids ops f) j \<le> 1" for j using inv by (simp add: flow_inv_def)
  ultimately have "count (flow_ids ops f') j \<le> 1" for j
    using mset_subset_eq_count [OF sub, of j] by (cases "j = i") (auto intro: le_trans)
  moreover have "numbered (f_store f') j" if "j \<in># flow_ids ops f'" for j
    using mset_subset_eqD [OF sub that] inv num \<open>numbered s i\<close>
    by (auto simp: flow_inv_def numbered_def prepare)
  ultimately show ?thesis by (simp add: flow_inv_def)
next
  case (taken now i caller q s)
  then show ?thesis
    using take_for_Inr(4,5) [OF taken(2)] take_for_frame [of ops now i caller "f_store f"]
    by (intro flow_inv_mono [OF inv]) (auto simp: flow_ids_def)
next
  case (refused now i caller e s)
  then show ?thesis
    using image_mset_subseteq_mono [OF take_for_mset, of "q_id ops" ops now i caller "f_store f"] take_for_frame [of ops now i caller "f_store f"]
    by (intro flow_inv_mono [OF inv]) (auto simp: flow_ids_def)
next
  case (finished q)
  define rest where "rest = remove1 q (f_out f)"
  have "mset (f_out f) = add_mset q (mset rest)" using finished(2) by (simp add: rest_def)
  then show ?thesis
    by (intro flow_inv_mono [OF inv]) (simp_all add: flow_ids_def finished rest_def [symmetric])
next
  case (handed_back q now now')
  define rest where "rest = remove1 q (f_out f)"
  have "mset (f_out f) = add_mset q (mset rest)" using handed_back(2) by (simp add: rest_def)
  then show ?thesis
    using restore_ids [of now now' q "f_store f"]
    by (intro flow_inv_mono [OF inv])
      (simp_all add: flow_ids_def handed_back rest_def [symmetric] subset_mset.add_right_mono restore_frame)
qed

lemma start_numbered: "flow_start f \<Longrightarrow> flow_inv ops f"
  by (auto simp: flow_start_def flow_inv_def flow_ids_def QuoteStore_new_def)

text \<open>A quote that was handed back can be taken again by its owner, until its new expiry.\<close>

lemma restored_taken:
  assumes "\<forall>p \<in> set (qs_quotes s). q_id ops p \<noteq> q_id ops q" and "\<not> q_is_consumed ops q"
    and "t < saturating_add now (qs_ttl_ms s)"
  shows "\<exists>s'. take_for ops t (q_id ops q) (q_owner ops q) (restore_quote ops now now' q s) =
    (Inr (q_set_expires_at_ms ops (saturating_add now (qs_ttl_ms s)) q), s')"
proof -
  let ?q = "q_set_expires_at_ms ops (saturating_add now (qs_ttl_ms s)) q"
  let ?r = "restore_quote ops now now' q s"
  obtain kept where k: "qs_quotes ?r = kept @ [?q]" "set kept \<subseteq> set (qs_quotes s)"
  proof
    show "qs_quotes ?r = butlast (qs_quotes ?r) @ [?q]" "set (butlast (qs_quotes ?r)) \<subseteq> set (qs_quotes s)"
      by (auto simp: restore_quote_def insert_quote_def Let_def dest: in_set_dropD)
  qed
  have "position P (xs @ [y]) = Some (length xs)" if "\<forall>x \<in> set xs. \<not> P x" "P y" for P xs and y :: 't
    using that by (induction xs) auto
  from this [of kept "\<lambda>p. q_id ops p = q_id ops q" ?q] k assms(1)
  have "position (\<lambda>p. q_id ops p = q_id ops q) (qs_quotes ?r) = Some (length kept)" by (auto simp: set_id)
  then show ?thesis using assms(2,3) k(1) by (simp add: take_for_def Let_def set_owner set_consumed set_expires not_le)
qed

end

text \<open>So the flow keeps its invariant, whatever the type of the quotes.\<close>

sublocale quoted_laws \<subseteq> flow: stepped flow_start "flow_step ops" "flow_inv ops"
  by unfold_locales (fact start_numbered, fact step_keeps)

context quoted_laws
begin

text \<open>No id is stored twice, is being executed twice, was executed twice, or is in two of these places.\<close>

lemma executed_once:
  assumes "flow_start f" and "(flow_step ops)\<^sup>*\<^sup>* f f'"
  shows "distinct (map (q_id ops) (qs_quotes (f_store f')) @ map (q_id ops) (f_out f') @ f_done f')"
proof -
  have "flow_inv ops f'" using flow.reached_inv [OF assms] .
  then have "\<forall>i. count (mset (map (q_id ops) (qs_quotes (f_store f')) @ map (q_id ops) (f_out f') @ f_done f')) i \<le> 1"
    by (simp add: flow_inv_def flow_ids_def add.assoc)
  then show ?thesis unfolding distinct_count_atmost_1
    by (metis One_nat_def count_mset_0_iff le_antisym le_less_linear less_one not_less)
qed

end

end
