(* ===== verification/TW_Btc.thy ===== *)
theory TW_Btc
  imports TW_Instances "HOL-Library.Multiset"
begin

text \<open>
  Bitcoin P2WPKH transfers, \<open>src/tx/btc.rs\<close>: coin selection, transaction building, the digests
  to sign and the assembly of the signed transaction. The \<open>bitcoin\<close> crate (script of an address,
  txid parsing, BIP-143 sighash, signature parsing and normalisation, serialisation, key
  derivation) is the parameter record \<open>bitcoin\<close>; its transaction type is the record below.
\<close>

record Utxo =
  utxo_txid :: string
  utxo_vout :: u32
  utxo_value :: u64

record BtcTransfer =
  bt_from :: string
  bt_to :: string
  bt_amount :: u64
  bt_fee :: u64

record Selection =
  sel_inputs :: "Utxo list"
  sel_change :: u64

record TxIn =
  in_txid :: bytes
  in_vout :: u32
  in_sequence :: u32
  in_witness :: "bytes list"

record TxOut =
  out_value :: u64
  out_script :: bytes

record BtcTransaction =
  btx_version :: nat
  btx_lock_time :: nat
  btx_input :: "TxIn list"
  btx_output :: "TxOut list"

record bitcoin =
  address_script :: "string \<Rightarrow> string + bytes"
  txid_from_str :: "string \<Rightarrow> string + bytes"
  pubkey_ok :: "bytes \<Rightarrow> bool"
  p2wpkh_address :: "bytes \<Rightarrow> string"
  p2wpkh_sighash :: "BtcTransaction \<Rightarrow> nat \<Rightarrow> bytes \<Rightarrow> u64 \<Rightarrow> string + bytes"
  normalized_der :: "bytes \<Rightarrow> bytes option"
  serialize_hex :: "BtcTransaction \<Rightarrow> string"
  seckey_ok :: "bytes \<Rightarrow> bool"
  compressed_public :: "bytes \<Rightarrow> bytes option"
  ecdsa_sign :: "bytes \<Rightarrow> bytes \<Rightarrow> bytes"

section \<open>Coin selection\<close>

definition DUST_THRESHOLD :: u64 where
  "DUST_THRESHOLD = 546"

fun select_loop :: "Utxo list \<Rightarrow> u64 \<Rightarrow> Utxo list \<Rightarrow> u64 \<Rightarrow> tx_error + Selection" where
  "select_loop [] acc chosen target = Inl (InsufficientFunds acc target)"
| "select_loop (utxo # rest) acc chosen target =
     rbind (ok_or (InvalidField ''utxos'' ''total value overflows'') (checked_add acc (utxo_value utxo)))
       (\<lambda>acc.
          let chosen = chosen @ [utxo] in
          if acc \<ge> target then
            let surplus = acc - target;
                change = (if surplus > DUST_THRESHOLD then surplus else 0)
            in Inr \<lparr>sel_inputs = chosen, sel_change = change\<rparr>
          else select_loop rest acc chosen target)"

text \<open>\<open>sort_by_key(Reverse(value))\<close> is the stable sort by descending value.\<close>

definition sort_descending :: "Utxo list \<Rightarrow> Utxo list" where
  "sort_descending utxos = sort_key (\<lambda>u. - int (unat (utxo_value u))) utxos"

definition select_coins :: "Utxo list \<Rightarrow> u64 \<Rightarrow> tx_error + Selection" where
  "select_coins utxos target = select_loop (sort_descending utxos) 0 [] target"

section \<open>Building and signing\<close>

definition script_pubkey :: "bitcoin \<Rightarrow> string \<Rightarrow> tx_error + bytes" where
  "script_pubkey b address = map_err (\<lambda>e. InvalidField ''address'' e) (address_script b address)"

definition ENABLE_RBF_NO_LOCKTIME :: u32 where
  "ENABLE_RBF_NO_LOCKTIME = 0xFFFFFFFD"

fun build_inputs :: "bitcoin \<Rightarrow> Utxo list \<Rightarrow> tx_error + TxIn list" where
  "build_inputs b [] = Inr []"
| "build_inputs b (utxo # rest) =
     rbind (map_err (\<lambda>e. InvalidField ''utxo.txid'' (utxo_txid utxo @ '': '' @ e))
              (txid_from_str b (utxo_txid utxo))) (\<lambda>txid.
       rbind (build_inputs b rest) (\<lambda>ins.
         Inr (\<lparr>in_txid = txid, in_vout = utxo_vout utxo, in_sequence = ENABLE_RBF_NO_LOCKTIME,
               in_witness = []\<rparr> # ins)))"

definition btc_build :: "prims \<Rightarrow> bitcoin \<Rightarrow> BtcTransfer \<Rightarrow> Utxo list \<Rightarrow> tx_error + (BtcTransaction \<times> Selection)" where
  "btc_build p b t utxos =
     rbind (map_err TxAddress (btc_validate_sender p (bt_from t))) (\<lambda>from.
     rbind (map_err TxAddress (btc_validate p (bt_to t))) (\<lambda>to.
     rbind (ok_or (InvalidField ''amount'' ''amount + fee overflows'')
              (checked_add (bt_amount t) (bt_fee t))) (\<lambda>target.
     rbind (select_coins utxos target) (\<lambda>selection.
     rbind (script_pubkey b from) (\<lambda>from_spk.
     rbind (script_pubkey b to) (\<lambda>to_spk.
     rbind (build_inputs b (sel_inputs selection)) (\<lambda>ins.
       let outs = [\<lparr>out_value = bt_amount t, out_script = to_spk\<rparr>] @
                  (if sel_change selection > 0
                   then [\<lparr>out_value = sel_change selection, out_script = from_spk\<rparr>] else [])
       in Inr (\<lparr>btx_version = 2, btx_lock_time = 0, btx_input = ins, btx_output = outs\<rparr>, selection))))))))"

definition check_controls_from :: "bitcoin \<Rightarrow> BtcTransfer \<Rightarrow> bytes \<Rightarrow> tx_error + unit" where
  "check_controls_from b t public_key =
     (if \<not> pubkey_ok b public_key then
        Inl (Signing ''not a valid compressed secp256k1 public key'')
      else if p2wpkh_address b public_key \<noteq> trim (bt_from t) then
        Inl (Signing ''public key does not control the `from` address'')
      else Inr ())"

fun sighash_loop :: "bitcoin \<Rightarrow> BtcTransaction \<Rightarrow> bytes \<Rightarrow> nat \<Rightarrow> Utxo list \<Rightarrow> tx_error + bytes list" where
  "sighash_loop b tx spk index [] = Inr []"
| "sighash_loop b tx spk index (utxo # rest) =
     rbind (map_err (\<lambda>e. Signing (''sighash failed: '' @ e)) (p2wpkh_sighash b tx index spk (utxo_value utxo)))
       (\<lambda>digest. rbind (sighash_loop b tx spk (Suc index) rest) (\<lambda>digests. Inr (digest # digests)))"

definition sighashes :: "prims \<Rightarrow> bitcoin \<Rightarrow> BtcTransfer \<Rightarrow> Utxo list \<Rightarrow> bytes \<Rightarrow> tx_error + (Selection \<times> bytes list)" where
  "sighashes p b t utxos public_key =
     rbind (check_controls_from b t public_key) (\<lambda>_.
     rbind (btc_build p b t utxos) (\<lambda>(tx, selection).
     rbind (map_err TxAddress (btc_validate_sender p (bt_from t))) (\<lambda>from.
     rbind (script_pubkey b from) (\<lambda>from_spk.
     rbind (sighash_loop b tx from_spk 0 (sel_inputs selection)) (\<lambda>digests.
       Inr (selection, digests))))))"

definition SIGHASH_ALL :: u8 where
  "SIGHASH_ALL = 1"

fun attach_witnesses :: "bitcoin \<Rightarrow> bytes \<Rightarrow> TxIn list \<Rightarrow> bytes list \<Rightarrow> tx_error + TxIn list" where
  "attach_witnesses b public_key (i # ins) (compact # sigs) =
     rbind (ok_or (Signing ''signature is not a valid secp256k1 (r, s) pair'') (normalized_der b compact)) (\<lambda>der.
       rbind (attach_witnesses b public_key ins sigs) (\<lambda>ins'.
         Inr (i\<lparr>in_witness := [der @ [SIGHASH_ALL], public_key]\<rparr> # ins')))"
| "attach_witnesses b public_key ins sigs = Inr ins"

definition attach_signatures :: "prims \<Rightarrow> bitcoin \<Rightarrow> BtcTransfer \<Rightarrow> Utxo list \<Rightarrow> bytes \<Rightarrow> bytes list \<Rightarrow> tx_error + string" where
  "attach_signatures p b t utxos public_key signatures =
     rbind (check_controls_from b t public_key) (\<lambda>_.
     rbind (btc_build p b t utxos) (\<lambda>(tx, selection).
       if length signatures \<noteq> length (sel_inputs selection) then
         Inl (Signing (''expected '' @ show_nat (length (sel_inputs selection)) @ '' signatures for '' @
           show_nat (length (sel_inputs selection)) @ '' inputs, got '' @ show_nat (length signatures)))
       else rbind (attach_witnesses b public_key (btx_input tx) signatures) (\<lambda>ins.
         Inr (serialize_hex b (tx\<lparr>btx_input := ins\<rparr>)))))"

definition btc_sign :: "prims \<Rightarrow> bitcoin \<Rightarrow> BtcTransfer \<Rightarrow> Utxo list \<Rightarrow> bytes \<Rightarrow> tx_error + string" where
  "btc_sign p b t utxos secret_key =
     (if \<not> seckey_ok b secret_key then Inl (Signing ''not a valid secp256k1 secret key'')
      else rbind (ok_or (Signing ''could not derive the public key'') (compressed_public b secret_key)) (\<lambda>public.
        if p2wpkh_address b public \<noteq> trim (bt_from t) then
          Inl (Signing ''secret key does not control the `from` address'')
        else rbind (sighashes p b t utxos public) (\<lambda>(_, digests).
          attach_signatures p b t utxos public (map (ecdsa_sign b secret_key) digests))))"

section \<open>What selection chooses\<close>

abbreviation sat :: "Utxo \<Rightarrow> nat" where
  "sat u \<equiv> unat (utxo_value u)"

definition total_sat :: "Utxo list \<Rightarrow> nat" where
  "total_sat us = sum_list (map sat us)"

lemma total_sat_simps [simp]:
  "total_sat [] = 0" "total_sat (u # us) = sat u + total_sat us"
  "total_sat (us @ vs) = total_sat us + total_sat vs"
  by (simp_all add: total_sat_def)

lemma sort_descending_props:
  "mset (sort_descending us) = mset us" "length (sort_descending us) = length us"
  "set (sort_descending us) = set us" "total_sat (sort_descending us) = total_sat us"
  "sorted_wrt (\<ge>) (map sat (sort_descending us))"
proof -
  show m: "mset (sort_descending us) = mset us" by (simp add: sort_descending_def)
  then show "length (sort_descending us) = length us" "set (sort_descending us) = set us"
    by (metis size_mset, metis set_mset_mset)
  show "total_sat (sort_descending us) = total_sat us"
    unfolding total_sat_def using m by (metis mset_map sum_mset_sum_list)
  have "sorted (map (\<lambda>u. - int (sat u)) (sort_descending us))" by (simp add: sort_descending_def)
  then show "sorted_wrt (\<ge>) (map sat (sort_descending us))"
    by (simp add: sorted_wrt_map word_le_def [symmetric] word_le_nat_alt)
qed

definition change_of :: "nat \<Rightarrow> nat" where
  "change_of surplus = (if surplus > 546 then surplus else 0)"

text \<open>The loop stops at the shortest covering prefix, if the sum fits a \<open>u64\<close> up to there.\<close>

definition chooses :: "Utxo list \<Rightarrow> u64 \<Rightarrow> Selection \<Rightarrow> bool" where
  "chooses inputs target sel \<longleftrightarrow>
     sel_inputs sel = inputs \<and> unat target \<le> total_sat inputs \<and> total_sat inputs < 2 ^ 64 \<and>
     (length inputs = 1 \<or> total_sat (butlast inputs) < unat target) \<and>
     unat (sel_change sel) = change_of (total_sat inputs - unat target)"

lemma unat_sub_le: "b \<le> a \<Longrightarrow> unat (a - b :: u64) = unat a - unat b"
  by (simp add: unat_sub_if_size word_le_nat_alt word_size)

lemma change_word:
  assumes "target \<le> acc"
  shows "unat (if acc - target > DUST_THRESHOLD then acc - target else 0 :: u64) = change_of (unat acc - unat target)"
  using unat_sub_le [OF assms] by (auto simp: change_of_def DUST_THRESHOLD_def word_less_nat_alt)

lemma select_loop_cases:
  assumes "unat acc = total_sat chosen"
  shows "select_loop (u # rest) acc chosen target =
    (if 2 ^ 64 \<le> total_sat chosen + sat u then Inl (InvalidField ''utxos'' ''total value overflows'')
     else if unat target \<le> total_sat chosen + sat u then
       Inr \<lparr>sel_inputs = chosen @ [u], sel_change = of_nat (change_of (total_sat chosen + sat u - unat target))\<rparr>
     else select_loop rest (acc + utxo_value u) (chosen @ [u]) target)"
proof (cases "2 ^ 64 \<le> total_sat chosen + sat u")
  case True
  then have "checked_add acc (utxo_value u) = None" using assms by (simp add: checked_add_None)
  with True show ?thesis by simp
next
  case False
  then have sum: "checked_add acc (utxo_value u) = Some (acc + utxo_value u)"
      "unat (acc + utxo_value u) = total_sat chosen + sat u"
    using assms by (simp_all add: checked_add_def unat_word_ariths)
  show ?thesis
  proof (cases "target \<le> acc + utxo_value u")
    case True
    have "x = of_nat n" if "unat x = n" for x :: u64 and n using that by auto
    from this [OF change_word [OF True]] sum(2)
    have "(if acc + utxo_value u - target > DUST_THRESHOLD then acc + utxo_value u - target else 0) =
        of_nat (change_of (total_sat chosen + sat u - unat target))"
      by (simp only:)
    with True False sum show ?thesis
      by (simp add: Let_def word_le_nat_alt)
  qed (use False sum in \<open>simp add: Let_def word_le_nat_alt\<close>)
qed

lemma butlast_take_Suc:
  "0 < k \<Longrightarrow> k \<le> length rest \<Longrightarrow> butlast (xs @ take k rest) = xs @ take (k - 1) rest"
  by (auto simp: butlast_append butlast_take)

lemma select_loop_Inr:
  assumes "unat acc = total_sat chosen" and "chosen = [] \<or> total_sat chosen < unat target"
  shows "select_loop rest acc chosen target = Inr sel \<longleftrightarrow>
    (\<exists>k. 0 < k \<and> k \<le> length rest \<and> chooses (chosen @ take k rest) target sel)"
  using assms
proof (induction rest arbitrary: acc chosen)
  case (Cons u rest)
  note eq = select_loop_cases [OF Cons.prems(1), of u rest target]
  have split: "(\<exists>k. 0 < k \<and> k \<le> length (u # rest) \<and> P (take k (u # rest))) \<longleftrightarrow>
      P [u] \<or> (\<exists>k. 0 < k \<and> k \<le> length rest \<and> P (u # take k rest))" for P
  proof safe
    fix k assume k: "0 < k" "k \<le> length (u # rest)" "P (take k (u # rest))"
      and none: "\<nexists>k. 0 < k \<and> k \<le> length rest \<and> P (u # take k rest)"
    then obtain j where "k = Suc j" by (cases k) auto
    with k none show "P [u]" by (cases j) auto
  next
    assume "P [u]"
    then show "\<exists>k. 0 < k \<and> k \<le> length (u # rest) \<and> P (take k (u # rest))" by (intro exI [of _ 1]) simp
  next
    fix k assume "0 < k" "k \<le> length rest" "P (u # take k rest)"
    then show "\<exists>k. 0 < k \<and> k \<le> length (u # rest) \<and> P (take k (u # rest))" by (intro exI [of _ "Suc k"]) simp
  qed
  note split = split [of "\<lambda>xs. chooses (chosen @ xs) target sel"]
  show ?case
  proof (cases "2 ^ 64 \<le> total_sat chosen + sat u \<or> unat target \<le> total_sat chosen + sat u")
    case True
    have "\<not> chooses (chosen @ u # take k rest) target sel" if "0 < k" "k \<le> length rest" for k
      using True that butlast_take_Suc [of k rest "chosen @ [u]"] by (auto simp: chooses_def)
    then have r: "(\<exists>k. 0 < k \<and> k \<le> length (u # rest) \<and> chooses (chosen @ take k (u # rest)) target sel) \<longleftrightarrow>
        chooses (chosen @ [u]) target sel"
      unfolding split by blast
    show ?thesis
    proof (cases "2 ^ 64 \<le> total_sat chosen + sat u")
      case True
      then show ?thesis unfolding r eq by (simp add: chooses_def)
    next
      case False
      have "change_of (total_sat chosen + sat u - unat target) < 2 ^ 64" using False by (simp only: change_of_def not_le split: if_split) (simp add: less_imp_diff_less)
      then have "unat (of_nat (change_of (total_sat chosen + sat u - unat target)) :: u64) =
          change_of (total_sat chosen + sat u - unat target)" by (simp only: unat_of_nat) simp
      then have "sel_change sel = of_nat (change_of (total_sat chosen + sat u - unat target)) \<longleftrightarrow>
          unat (sel_change sel) = change_of (total_sat chosen + sat u - unat target)"
        by (metis word_unat_eq_iff)
      then show ?thesis
        unfolding r eq using True False Cons.prems(2)
        by (cases sel) (auto simp: chooses_def)
    qed
  next
    case False
    then have acc: "unat (acc + utxo_value u) = total_sat (chosen @ [u])"
      using Cons.prems(1) by (simp add: unat_word_ariths)
    from False have "\<not> chooses (chosen @ [u]) target sel" by (simp add: chooses_def)
    then show ?thesis
      unfolding split eq using False Cons.IH [OF acc] by simp
  qed
qed simp

lemma select_coins_Inr:
  "select_coins utxos target = Inr sel \<longleftrightarrow>
     (\<exists>k. 0 < k \<and> k \<le> length utxos \<and> chooses (take k (sort_descending utxos)) target sel)"
  using select_loop_Inr [of 0 "[]" target "sort_descending utxos" sel]
  by (simp add: select_coins_def sort_descending_props(2))

lemma select_loop_error:
  assumes "unat acc = total_sat chosen" and "total_sat chosen + total_sat rest < 2 ^ 64"
    and "select_loop rest acc chosen target = Inl e"
  shows "e = InsufficientFunds (of_nat (total_sat chosen + total_sat rest)) target \<and>
    (rest \<noteq> [] \<longrightarrow> total_sat chosen + total_sat rest < unat target)"
  using assms
proof (induction rest arbitrary: acc chosen)
  case Nil
  then have "acc = of_nat (total_sat chosen)" by (metis word_unat_eq_iff of_nat_unat ucast_id)
  with Nil show ?case by simp
next
  case (Cons u rest)
  then have acc: "unat (acc + utxo_value u) = total_sat (chosen @ [u])" by (simp add: unat_word_ariths)
  have "select_loop rest (acc + utxo_value u) (chosen @ [u]) target = Inl e"
    and "total_sat chosen + sat u < unat target"
    using Cons.prems(2,3) unfolding select_loop_cases [OF Cons.prems(1)] by (simp_all split: if_splits)
  with Cons.IH [OF acc] Cons.prems(2) show ?case
    by (cases rest) (simp_all add: add.assoc)
qed

text \<open>No sub-multiset of coins has more value than as many of the largest ones.\<close>

lemma largest_prefix_dominates:
  assumes "sorted_wrt (\<ge>) (map f xs)" and "M \<subseteq># mset xs"
  shows "sum_mset (image_mset f M) \<le> sum_list (map f (take (size M) xs) :: nat list)"
  using assms
proof (induction xs arbitrary: M)
  case (Cons x xs)
  show ?case
  proof (cases "M = {#}")
    case False
    obtain y where y: "y \<in># M" "f y \<le> f x" "M - {#y#} \<subseteq># mset xs"
    proof (cases "x \<in># M")
      case True
      with Cons.prems(2) that [of x] show ?thesis by (simp add: subset_eq_diff_conv)
    next
      case x: False
      from False obtain y where y: "y \<in># M" by blast
      from Cons.prems(2) x have sub: "M \<subseteq># mset xs"
        by (metis add_mset_remove_trivial_eq diff_single_trivial insert_noteq_member mset.simps(2) subset_eq_diff_conv subset_mset.diff_diff_right subset_mset.order_refl add_mset_add_single)
      with y have "y \<in> set xs" by (metis mset_subset_eqD set_mset_mset)
      with Cons.prems(1) have "f y \<le> f x" by simp
      with y sub that [of y] show ?thesis by (meson diff_subset_eq_self subset_mset.order_trans)
    qed
    then obtain M' where M: "M = add_mset y M'" by (metis multi_member_split)
    with y Cons have "sum_mset (image_mset f M') \<le> sum_list (map f (take (size M') xs))" by simp
    with y(2) M show ?thesis by simp
  qed simp
qed simp

lemma chooses_conservation:
  assumes "chooses inputs target sel"
  shows "\<exists>dust \<le> 546. total_sat inputs = unat target + unat (sel_change sel) + dust \<and>
    (sel_change sel = 0 \<or> dust = 0 \<and> 546 < unat (sel_change sel))"
  using assms
  by (intro exI [of _ "total_sat inputs - unat target - unat (sel_change sel)"])
    (auto simp: chooses_def change_of_def word_unat_eq_iff split: if_splits)

lemma total_sat_mset: "total_sat us = (\<Sum>u \<in># mset us. sat u)"
  by (simp add: total_sat_def sum_mset_sum_list flip: mset_map)

text \<open>
  C10: conservation. A selection spends coins of the wallet, at least one, each at most as often as
  it was given; their value is the target plus the change plus a remainder of at most 546 satoshi
  that goes to the fee, and that remainder is zero whenever there is change. No surplus above the
  dust threshold is ever lost to the fee.
\<close>

theorem select_coins_conserves:
  assumes "select_coins utxos target = Inr sel"
  shows "sel_inputs sel \<noteq> [] \<and> mset (sel_inputs sel) \<subseteq># mset utxos \<and>
    (\<exists>dust \<le> 546. total_sat (sel_inputs sel) = unat target + unat (sel_change sel) + dust \<and>
      (sel_change sel = 0 \<or> dust = 0 \<and> 546 < unat (sel_change sel)))"
proof -
  obtain k where k: "0 < k" "k \<le> length utxos" "chooses (take k (sort_descending utxos)) target sel"
    using assms by (auto simp: select_coins_Inr)
  then have "sel_inputs sel = take k (sort_descending utxos)" by (simp add: chooses_def)
  moreover have "mset (take k (sort_descending utxos)) \<subseteq># mset utxos"
    by (metis append_take_drop_id mset_append mset_subset_eq_add_left sort_descending_props(1))
  moreover have "take k (sort_descending utxos) \<noteq> []"
    using k sort_descending_props(2) [of utxos] by auto
  ultimately show ?thesis using chooses_conservation [OF k(3)] by simp
qed

text \<open>
  Fewest inputs. No non-empty set of the wallet's coins that covers the target is smaller
  than the selected one.
\<close>

theorem select_coins_fewest:
  assumes "select_coins utxos target = Inr sel"
    and "M \<subseteq># mset utxos" and "M \<noteq> {#}" and "unat target \<le> (\<Sum>u \<in># M. sat u)"
  shows "length (sel_inputs sel) \<le> size M"
proof (rule ccontr)
  assume "\<not> length (sel_inputs sel) \<le> size M"
  then have big: "size M < length (sel_inputs sel)" by simp
  obtain k where k: "0 < k" "k \<le> length utxos" "chooses (take k (sort_descending utxos)) target sel"
    using assms(1) by (auto simp: select_coins_Inr)
  let ?s = "sort_descending utxos"
  have in_eq: "sel_inputs sel = take k ?s" and len: "length (take k ?s) = k"
    using k sort_descending_props(2) [of utxos] by (simp_all add: chooses_def)
  have "0 < size M" using assms(3) by (simp add: nonempty_has_size)
  with big in_eq len k(3) have short: "total_sat (butlast (take k ?s)) < unat target"
    by (auto simp: chooses_def)
  have "size M \<le> k - 1" using big in_eq len by auto
  have "unat target \<le> total_sat (take (size M) ?s)"
    using largest_prefix_dominates [OF sort_descending_props(5), of M utxos] assms(2,4)
    by (simp add: sort_descending_props(1) total_sat_def)
  also have "\<dots> \<le> total_sat (take (k - 1) ?s)"
  proof -
    obtain d where "k - 1 = size M + d" using \<open>size M \<le> k - 1\<close> le_Suc_ex by blast
    then show ?thesis by (simp add: take_add)
  qed
  also have "take (k - 1) ?s = butlast (take k ?s)"
    using k sort_descending_props(2) [of utxos] by (simp add: butlast_take)
  finally show False using short by simp
qed

text \<open>
  Selection succeeds exactly when it can. If the coins' total value fits a \<open>u64\<close>, selection
  returns for every non-empty list of coins whose total covers the target, and otherwise reports
  insufficient funds with that total; so for an empty list even a zero target is refused.
\<close>

theorem select_coins_complete:
  assumes "total_sat utxos < 2 ^ 64"
  shows "if utxos \<noteq> [] \<and> unat target \<le> total_sat utxos
    then \<exists>sel. select_coins utxos target = Inr sel
    else select_coins utxos target = Inl (InsufficientFunds (of_nat (total_sat utxos)) target)"
proof (cases "select_coins utxos target")
  case (Inl e)
  note props = sort_descending_props [of utxos]
  from Inl have "e = InsufficientFunds (of_nat (total_sat utxos)) target \<and>
      (utxos \<noteq> [] \<longrightarrow> total_sat utxos < unat target)"
    using select_loop_error [of 0 "[]" "sort_descending utxos" target e] assms props(2,4)
    by (auto simp: select_coins_def)
  with Inl show ?thesis by auto
next
  case (Inr sel)
  then obtain k where k: "0 < k" "k \<le> length utxos" "chooses (take k (sort_descending utxos)) target sel"
    by (auto simp: select_coins_Inr)
  have "total_sat (take k (sort_descending utxos)) \<le> total_sat utxos"
    using sort_descending_props(4) [of utxos] append_take_drop_id [of k "sort_descending utxos"]
    by (metis le_add1 total_sat_simps(3))
  with k Inr show ?thesis by (auto simp: chooses_def)
qed

definition sample_coins :: "Utxo list" where
  "sample_coins = [\<lparr>utxo_txid = ''a'', utxo_vout = 0, utxo_value = 500\<rparr>,
     \<lparr>utxo_txid = ''b'', utxo_vout = 1, utxo_value = 9000\<rparr>]"

lemma sample_selection:
  "select_coins sample_coins 1000 =
     Inr \<lparr>sel_inputs = [\<lparr>utxo_txid = ''b'', utxo_vout = 1, utxo_value = 9000\<rparr>], sel_change = 8000\<rparr>"
  by (simp add: select_coins_def sample_coins_def sort_descending_def sort_key_def checked_add_def
      DUST_THRESHOLD_def)

theorem select_coins_conserves_witness:
  "\<exists>sel. select_coins sample_coins 1000 = Inr sel \<and> total_sat (sel_inputs sel) = 1000 + 8000"
  using select_coins_conserves [OF sample_selection] sample_selection by auto

theorem select_coins_fewest_witness:
  "\<exists>sel. select_coins sample_coins 1000 = Inr sel \<and> length (sel_inputs sel) \<le> size (mset sample_coins)"
  using select_coins_fewest [OF sample_selection, of "mset sample_coins"] sample_selection
  by (auto simp: sample_coins_def)

theorem select_coins_complete_witness:
  "select_coins sample_coins 10000 = Inl (InsufficientFunds 9500 10000)"
  using select_coins_complete [of sample_coins 10000] by (simp add: sample_coins_def)

section \<open>Transactions\<close>

lemma build_inputs_Inr:
  "build_inputs b us = Inr ins \<longleftrightarrow>
     list_all2 (\<lambda>u i. txid_from_str b (utxo_txid u) = Inr (in_txid i) \<and> in_vout i = utxo_vout u \<and>
       in_sequence i = ENABLE_RBF_NO_LOCKTIME \<and> in_witness i = []) us ins"
proof (induction us arbitrary: ins)
  case (Cons u us)
  show ?case
  proof (cases ins)
    case (Cons i rest)
    then show ?thesis
      using Cons.IH by (cases i) (auto simp: result_simps)
  qed (simp add: result_simps)
qed auto

lemma btc_build_Inr:
  "btc_build p b t utxos = Inr (tx, sel) \<longleftrightarrow>
     (\<exists>from to from_spk to_spk. btc_validate_sender p (bt_from t) = Inr from \<and> btc_validate p (bt_to t) = Inr to \<and>
        unat (bt_amount t) + unat (bt_fee t) < 2 ^ 64 \<and>
        select_coins utxos (bt_amount t + bt_fee t) = Inr sel \<and>
        address_script b from = Inr from_spk \<and> address_script b to = Inr to_spk \<and>
        btx_version tx = 2 \<and> btx_lock_time tx = 0 \<and> build_inputs b (sel_inputs sel) = Inr (btx_input tx) \<and>
        btx_output tx = \<lparr>out_value = bt_amount t, out_script = to_spk\<rparr> #
          (if sel_change sel = 0 then [] else [\<lparr>out_value = sel_change sel, out_script = from_spk\<rparr>]))"
  unfolding btc_build_def script_pubkey_def rbind_eq_Inr map_err_eq_Inr ok_or_eq_Inr checked_add_def Let_def
  by (cases tx) (auto simp: word_neq_0_conv split: if_splits)

definition outputs_sat :: "BtcTransaction \<Rightarrow> nat" where
  "outputs_sat tx = sum_list (map (\<lambda>o'. unat (out_value o')) (btx_output tx))"

text \<open>
  What a built transaction pays. The first output pays the requested amount to the recipient's
  script and the only other possible output returns the change to the sender's; the inputs are the
  selected coins, in order; and the fee the miners get, inputs minus outputs, is the requested fee
  plus at most 546 satoshi.
\<close>

theorem btc_build_fee:
  assumes "btc_build p b t utxos = Inr (tx, sel)"
  shows "\<exists>to to_spk from from_spk change.
    btc_validate p (bt_to t) = Inr to \<and> address_script b to = Inr to_spk \<and>
    btc_validate_sender p (bt_from t) = Inr from \<and> address_script b from = Inr from_spk \<and>
    btx_output tx = \<lparr>out_value = bt_amount t, out_script = to_spk\<rparr> # change \<and>
    (change = [] \<or> change = [\<lparr>out_value = sel_change sel, out_script = from_spk\<rparr>]) \<and>
    list_all2 (\<lambda>u i. txid_from_str b (utxo_txid u) = Inr (in_txid i) \<and> in_vout i = utxo_vout u)
      (sel_inputs sel) (btx_input tx) \<and>
    mset (sel_inputs sel) \<subseteq># mset utxos \<and>
    outputs_sat tx + unat (bt_fee t) \<le> total_sat (sel_inputs sel) \<and>
    total_sat (sel_inputs sel) \<le> outputs_sat tx + unat (bt_fee t) + 546"
proof -
  obtain from' to from_spk to_spk where
      v: "btc_validate_sender p (bt_from t) = Inr from'" "btc_validate p (bt_to t) = Inr to"
        "address_script b from' = Inr from_spk" "address_script b to = Inr to_spk"
    and ov: "unat (bt_amount t) + unat (bt_fee t) < 2 ^ 64"
    and sel: "select_coins utxos (bt_amount t + bt_fee t) = Inr sel"
    and ins: "build_inputs b (sel_inputs sel) = Inr (btx_input tx)"
    and outs: "btx_output tx = \<lparr>out_value = bt_amount t, out_script = to_spk\<rparr> #
        (if sel_change sel = 0 then [] else [\<lparr>out_value = sel_change sel, out_script = from_spk\<rparr>])"
    using assms unfolding btc_build_Inr by blast
  obtain k where k: "chooses (take k (sort_descending utxos)) (bt_amount t + bt_fee t) sel"
    using sel unfolding select_coins_Inr by blast
  then have in_eq: "sel_inputs sel = take k (sort_descending utxos)" by (simp add: chooses_def)
  have "unat (bt_amount t + bt_fee t) = unat (bt_amount t) + unat (bt_fee t)"
    using ov by (simp add: unat_word_ariths)
  moreover have "outputs_sat tx = unat (bt_amount t) + unat (sel_change sel)"
    by (simp add: outputs_sat_def outs)
  ultimately have "outputs_sat tx + unat (bt_fee t) \<le> total_sat (sel_inputs sel) \<and>
      total_sat (sel_inputs sel) \<le> outputs_sat tx + unat (bt_fee t) + 546"
    using chooses_conservation [OF k] in_eq by auto
  moreover have "mset (sel_inputs sel) \<subseteq># mset utxos" unfolding in_eq
    by (metis append_take_drop_id mset_append mset_subset_eq_add_left sort_descending_props(1))
  moreover have "list_all2 (\<lambda>u i. txid_from_str b (utxo_txid u) = Inr (in_txid i) \<and> in_vout i = utxo_vout u)
      (sel_inputs sel) (btx_input tx)"
    using ins unfolding build_inputs_Inr by (rule list_all2_mono) blast
  ultimately show ?thesis using v outs by fastforce
qed

lemma sighash_loop_Inr:
  "sighash_loop b tx spk index us = Inr ds \<longleftrightarrow>
     length ds = length us \<and>
     (\<forall>i < length us. p2wpkh_sighash b tx (index + i) spk (utxo_value (us ! i)) = Inr (ds ! i))"
proof (induction us arbitrary: index ds)
  case (Cons u us)
  show ?case
    by (cases ds) (auto simp: result_simps Cons.IH nth_Cons' less_Suc_eq_0_disj)
qed auto

lemma attach_witnesses_Inr:
  "length ins = length sigs \<Longrightarrow>
   attach_witnesses b pk ins sigs = Inr ins' \<longleftrightarrow>
     list_all2 (\<lambda>(i, sig) i'. \<exists>der. normalized_der b sig = Some der \<and> i' = i\<lparr>in_witness := [der @ [SIGHASH_ALL], pk]\<rparr>)
       (zip ins sigs) ins'"
proof (induction ins sigs arbitrary: ins' rule: list_induct2)
  case (Cons i ins sig sigs)
  then show ?case by (cases ins') (auto simp: result_simps)
qed auto

text \<open>
  One signature per input, over the right digest. Signing succeeds only for a key whose P2WPKH
  address is the sender; then the digests are, input by input, the BIP-143 digests of the built
  transaction at that index with the sender's script and that coin's value, and what is serialised
  is the built transaction with each input's witness set to the normalised signature of its own
  digest, tagged \<open>SIGHASH_ALL\<close>, and the public key.
\<close>

theorem btc_sign_spec:
  "btc_sign p b t utxos secret = Inr raw \<longleftrightarrow>
     (\<exists>public tx sel from from_spk digests ins.
        seckey_ok b secret \<and> compressed_public b secret = Some public \<and> pubkey_ok b public \<and>
        p2wpkh_address b public = trim (bt_from t) \<and> btc_build p b t utxos = Inr (tx, sel) \<and>
        btc_validate_sender p (bt_from t) = Inr from \<and> address_script b from = Inr from_spk \<and>
        length digests = length (sel_inputs sel) \<and>
        (\<forall>i < length digests.
           p2wpkh_sighash b tx i from_spk (utxo_value (sel_inputs sel ! i)) = Inr (digests ! i)) \<and>
        list_all2 (\<lambda>(i, d) i'. \<exists>der. normalized_der b (ecdsa_sign b secret d) = Some der \<and>
             i' = i\<lparr>in_witness := [der @ [SIGHASH_ALL], public]\<rparr>) (zip (btx_input tx) digests) ins \<and>
        raw = serialize_hex b (tx\<lparr>btx_input := ins\<rparr>))"
proof -
  have len: "length (btx_input tx) = length (sel_inputs sel)" if "btc_build p b t utxos = Inr (tx, sel)" for tx sel
    using that unfolding btc_build_Inr build_inputs_Inr by (auto dest: list_all2_lengthD)
  have zip: "list_all2 (\<lambda>(i, sig) i'. \<exists>der. normalized_der b sig = Some der \<and> i' = i\<lparr>in_witness := [der @ [SIGHASH_ALL], pk]\<rparr>)
       (zip xs (map f ds)) ins \<longleftrightarrow>
     list_all2 (\<lambda>(i, d) i'. \<exists>der. normalized_der b (f d) = Some der \<and> i' = i\<lparr>in_witness := [der @ [SIGHASH_ALL], pk]\<rparr>)
       (zip xs ds) ins" for xs ds ins pk f
    by (simp add: zip_map2 list_all2_map1 case_prod_unfold)
  have attach: "attach_signatures p b t utxos public (map f digests) = Inr raw \<longleftrightarrow>
      (\<exists>ins. list_all2 (\<lambda>(i, d) i'. \<exists>der. normalized_der b (f d) = Some der \<and>
           i' = i\<lparr>in_witness := [der @ [SIGHASH_ALL], public]\<rparr>) (zip (btx_input tx) digests) ins \<and>
         raw = serialize_hex b (tx\<lparr>btx_input := ins\<rparr>))"
    if "check_controls_from b t public = Inr ()" "btc_build p b t utxos = Inr (tx, sel)"
      "length digests = length (sel_inputs sel)" for public tx sel digests f
    using that len [OF that(2)]
    by (auto simp: attach_signatures_def result_simps attach_witnesses_Inr zip)
  have ctl: "check_controls_from b t public = Inr () \<longleftrightarrow> pubkey_ok b public \<and> p2wpkh_address b public = trim (bt_from t)" for public
    by (simp add: check_controls_from_def)
  have sh: "sighashes p b t utxos public = Inr (sel, digests) \<longleftrightarrow>
      check_controls_from b t public = Inr () \<and> (\<exists>tx from from_spk. btc_build p b t utxos = Inr (tx, sel) \<and>
        btc_validate_sender p (bt_from t) = Inr from \<and> address_script b from = Inr from_spk \<and>
        length digests = length (sel_inputs sel) \<and>
        (\<forall>i < length digests.
           p2wpkh_sighash b tx i from_spk (utxo_value (sel_inputs sel ! i)) = Inr (digests ! i)))" for public sel digests
    by (auto simp: sighashes_def result_simps script_pubkey_def sighash_loop_Inr)
  have sign: "btc_sign p b t utxos secret = Inr raw \<longleftrightarrow>
      seckey_ok b secret \<and> (\<exists>public sel digests. compressed_public b secret = Some public \<and>
        p2wpkh_address b public = trim (bt_from t) \<and> sighashes p b t utxos public = Inr (sel, digests) \<and>
        attach_signatures p b t utxos public (map (ecdsa_sign b secret) digests) = Inr raw)"
    by (auto simp: btc_sign_def result_simps)
  show ?thesis (is "_ \<longleftrightarrow> ?R")
  proof
    assume "btc_sign p b t utxos secret = Inr raw"
    then obtain public sel digests where s: "seckey_ok b secret" "compressed_public b secret = Some public"
        "p2wpkh_address b public = trim (bt_from t)" "sighashes p b t utxos public = Inr (sel, digests)"
        "attach_signatures p b t utxos public (map (ecdsa_sign b secret) digests) = Inr raw"
      unfolding sign by blast
    from s(4) obtain tx from' spk where h: "check_controls_from b t public = Inr ()" "btc_build p b t utxos = Inr (tx, sel)"
        "btc_validate_sender p (bt_from t) = Inr from'" "address_script b from' = Inr spk"
        "length digests = length (sel_inputs sel)"
        "\<forall>i < length digests. p2wpkh_sighash b tx i spk (utxo_value (sel_inputs sel ! i)) = Inr (digests ! i)"
      unfolding sh by blast
    from s(5) obtain ins where "list_all2 (\<lambda>(i, d) i'. \<exists>der. normalized_der b (ecdsa_sign b secret d) = Some der \<and>
           i' = i\<lparr>in_witness := [der @ [SIGHASH_ALL], public]\<rparr>) (zip (btx_input tx) digests) ins"
        "raw = serialize_hex b (tx\<lparr>btx_input := ins\<rparr>)"
      unfolding attach [OF h(1,2,5)] by blast
    with s h ctl show ?R by blast
  next
    assume ?R
    then obtain public tx sel from' spk digests ins where
        r: "seckey_ok b secret" "compressed_public b secret = Some public" "pubkey_ok b public"
          "p2wpkh_address b public = trim (bt_from t)" "btc_build p b t utxos = Inr (tx, sel)"
          "btc_validate_sender p (bt_from t) = Inr from'" "address_script b from' = Inr spk"
          "length digests = length (sel_inputs sel)"
          "\<forall>i < length digests. p2wpkh_sighash b tx i spk (utxo_value (sel_inputs sel ! i)) = Inr (digests ! i)"
      and w: "list_all2 (\<lambda>(i, d) i'. \<exists>der. normalized_der b (ecdsa_sign b secret d) = Some der \<and>
           i' = i\<lparr>in_witness := [der @ [SIGHASH_ALL], public]\<rparr>) (zip (btx_input tx) digests) ins"
        "raw = serialize_hex b (tx\<lparr>btx_input := ins\<rparr>)"
      by blast
    have c: "check_controls_from b t public = Inr ()" unfolding ctl using r(3,4) by blast
    from c r(5-9) have "sighashes p b t utxos public = Inr (sel, digests)" unfolding sh by blast
    moreover from w have "attach_signatures p b t utxos public (map (ecdsa_sign b secret) digests) = Inr raw"
      unfolding attach [OF c r(5,8)] by blast
    ultimately show "btc_sign p b t utxos secret = Inr raw" unfolding sign using r(1,2,4) by blast
  qed
qed

text \<open>A concrete \<open>bitcoin\<close> for the witnesses.\<close>

definition sample_bitcoin :: "string \<Rightarrow> bitcoin" where
  "sample_bitcoin address =
     \<lparr>address_script = (\<lambda>a. Inr (str_bytes a)), txid_from_str = (\<lambda>s. Inr (str_bytes s)),
      pubkey_ok = (\<lambda>k. True), p2wpkh_address = (\<lambda>k. address),
      p2wpkh_sighash = (\<lambda>tx i spk v. Inr (le_bytes 8 (unat v))), normalized_der = (\<lambda>s. Some s),
      serialize_hex = (\<lambda>tx. hex_encode (concat (map in_txid (btx_input tx)))),
      seckey_ok = (\<lambda>k. True), compressed_public = (\<lambda>k. Some k), ecdsa_sign = (\<lambda>k d. d)\<rparr>"

lemma sample_btc_build:
  assumes "btc_validate_sender sample_prims s = Inr s" and "btc_validate sample_prims s = Inr s"
  shows "\<exists>tx sel. btc_build sample_prims (sample_bitcoin s)
    \<lparr>bt_from = s, bt_to = s, bt_amount = 900, bt_fee = 100\<rparr> sample_coins = Inr (tx, sel) \<and>
    sel_inputs sel = [\<lparr>utxo_txid = ''b'', utxo_vout = 1, utxo_value = 9000\<rparr>] \<and> length (btx_input tx) = 1"
proof -
  have "select_coins sample_coins (900 + 100) = Inr \<lparr>sel_inputs = [\<lparr>utxo_txid = ''b'', utxo_vout = 1, utxo_value = 9000\<rparr>], sel_change = 8000\<rparr>"
    using sample_selection by simp
  with assms show ?thesis
    by (simp add: btc_build_def script_pubkey_def sample_bitcoin_def checked_add_def)
qed

theorem btc_build_fee_witness:
  "\<exists>s tx sel. btc_build sample_prims (sample_bitcoin s)
     \<lparr>bt_from = s, bt_to = s, bt_amount = 900, bt_fee = 100\<rparr> sample_coins = Inr (tx, sel) \<and>
     outputs_sat tx + 100 \<le> total_sat (sel_inputs sel)"
proof -
  obtain s where "btc_validate_sender sample_prims s = Inr s" "btc_validate sample_prims s = Inr s"
    using encode_p2wpkh_valid [OF sample_segwit_law, of "replicate 20 1"] by auto
  from sample_btc_build [OF this] obtain tx sel where b: "btc_build sample_prims (sample_bitcoin s)
     \<lparr>bt_from = s, bt_to = s, bt_amount = 900, bt_fee = 100\<rparr> sample_coins = Inr (tx, sel)" by blast
  from btc_build_fee [OF b] b show ?thesis by auto
qed

theorem btc_sign_spec_witness:
  "\<exists>s raw. btc_sign sample_prims (sample_bitcoin s)
     \<lparr>bt_from = s, bt_to = s, bt_amount = 900, bt_fee = 100\<rparr> sample_coins [1] = Inr raw"
proof -
  obtain s where s: "trim s = s" "btc_validate_sender sample_prims s = Inr s" "btc_validate sample_prims s = Inr s"
    using encode_p2wpkh_valid [OF sample_segwit_law, of "replicate 20 1"] by auto
  let ?t = "\<lparr>bt_from = s, bt_to = s, bt_amount = 900, bt_fee = 100\<rparr>"
  let ?b = "sample_bitcoin s"
  from sample_btc_build [OF s(2,3)] obtain tx sel i where b: "btc_build sample_prims ?b ?t sample_coins = Inr (tx, sel)"
      "sel_inputs sel = [\<lparr>utxo_txid = ''b'', utxo_vout = 1, utxo_value = 9000\<rparr>]" "btx_input tx = [i]"
    by (auto simp: length_Suc_conv)
  have "btc_sign sample_prims ?b ?t sample_coins [1] = Inr (serialize_hex ?b (tx\<lparr>btx_input :=
      [i\<lparr>in_witness := [le_bytes 8 9000 @ [SIGHASH_ALL], [1]]\<rparr>]\<rparr>))"
    unfolding btc_sign_spec
    by (rule exI [of _ "[1]"], rule exI [of _ tx], rule exI [of _ sel], rule exI [of _ s],
        rule exI [of _ "str_bytes s"], rule exI [of _ "[le_bytes 8 9000]"],
        rule exI [of _ "[i\<lparr>in_witness := [le_bytes 8 9000 @ [SIGHASH_ALL], [1]]\<rparr>]"])
      (use s b in \<open>simp add: sample_bitcoin_def\<close>)
  then show ?thesis by blast
qed

end
