(* ===== verification/TW_Engine.thy ===== *)
theory TW_Engine
  imports TW_Asset TW_Quote TW_Solana TW_Btc
begin

text \<open>
  The wallet engine of \<open>tinywallet-web3\<close>: the wire types of a prepared transfer, validation and
  formatting (\<open>execution/validate.rs\<close>), account resolution (\<open>execution/accounts.rs\<close>), preparing a
  transfer (\<open>execution/transfer.rs\<close>) and the typed helpers over the transport (\<open>chains/rpc.rs\<close>).
  What a host supplies is the record \<open>seams\<close>: every call that is awaited is a function on the whole
  engine state, since other tasks run meanwhile; the decoding and printing of JSON text is \<open>serde_json\<close>'s.
\<close>

section \<open>Wire types\<close>

datatype PreparedKind = NativeTransferKind | TokenTransferKind

datatype PreparedStatus = AwaitingConfirmation | Broadcasted | Consumed

record PreparedTransaction =
  pt_quote_id :: string
  pt_kind :: PreparedKind
  pt_chain :: WalletChain
  pt_evm_network :: "EvmNetwork option"
  pt_from_address :: string
  pt_to_address :: string
  pt_asset_symbol :: string
  pt_amount_raw :: string
  pt_amount_formatted :: string
  pt_receive_symbol :: "string option"
  pt_min_receive_raw :: "string option"
  pt_calldata :: "string option"
  pt_token_address :: "string option"
  pt_estimated_fee_raw :: string
  pt_status :: PreparedStatus
  pt_created_at_ms :: u64
  pt_expires_at_ms :: u64
  pt_notes :: "string list"

record PreparedTransferQuote =
  ptq_transaction :: PreparedTransaction
  ptq_owner :: "QuoteOwner option"

text \<open>\<open>impl Quoted for PreparedTransferQuote\<close>.\<close>

definition transfer_quoted :: "PreparedTransferQuote quoted" where
  "transfer_quoted =
     \<lparr>q_id = \<lambda>q. pt_quote_id (ptq_transaction q),
      q_owner = ptq_owner,
      q_expires_at_ms = \<lambda>q. pt_expires_at_ms (ptq_transaction q),
      q_set_expires_at_ms = \<lambda>e q. q\<lparr>ptq_transaction := (ptq_transaction q)\<lparr>pt_expires_at_ms := e\<rparr>\<rparr>,
      q_is_consumed = \<lambda>q. pt_status (ptq_transaction q) = Consumed\<rparr>"

interpretation transfers: quoted_laws transfer_quoted
  by unfold_locales (simp_all add: transfer_quoted_def)

record ExecutionResult =
  er_quote_id :: string
  er_status :: PreparedStatus
  er_chain :: WalletChain
  er_evm_network :: "EvmNetwork option"
  er_transaction_hash :: string
  er_explorer_url :: "string option"
  er_transaction :: PreparedTransaction

record PrepareTransferParams =
  tp_chain :: WalletChain
  tp_to_address :: string
  tp_amount_raw :: string
  tp_asset_symbol :: "string option"
  tp_evm_network :: "EvmNetwork option"

record ExecutePreparedParams =
  xp_quote_id :: string
  xp_confirmed :: bool

record WalletAccount =
  wa_chain :: WalletChain
  wa_address :: string
  wa_derivation_path :: string

datatype WalletSetupSource = Generated | Imported

record WalletStatus =
  ws_configured :: bool
  ws_onboarding_completed :: bool
  ws_consent_granted :: bool
  ws_secret_stored :: bool
  ws_source :: "WalletSetupSource option"
  ws_mnemonic_word_count :: "u8 option"
  ws_accounts :: "WalletAccount list"
  ws_updated_at_ms :: "u64 option"

text \<open>A transaction to build, per chain, as it is handed to the signer.\<close>

datatype TransactionSpec =
    BtcSpec (spec_from: string) (spec_to: string) (spec_amount_sat: u64) (spec_fee_sat: u64) (spec_utxos: "Utxo list")
  | EvmSpec (spec_to: string) (spec_value_wei: string) (spec_data_hex: string) (spec_nonce: u64) (spec_gas_limit: u64)
      (spec_gas_price_wei: string) (spec_chain_id: u64)
  | SolanaSpec (spec_from: string) (spec_to: string) (spec_lamports: u64) (spec_recent_blockhash: string)
  | TronSpec (spec_raw_data_hex: string) (spec_expected_to: string) (spec_expected_txid: string) (spec_transfer: TronTransfer)

datatype Scheme = Secp256k1Prehash | Ed25519Message

datatype Signature = Secp256k1Signature string u8 | Ed25519Signature string

record SignedTransaction =
  st_raw :: string
  st_txid :: "string option"

record DerivedAccount =
  da_address :: string
  da_public_key :: string

section \<open>The engine and its seams\<close>

record 'w engine =
  en_quotes :: "PreparedTransferQuote QuoteStore"
  en_world :: 'w

record 'g seams =
  sm_json_rpc :: "NetworkId \<Rightarrow> string \<Rightarrow> json \<Rightarrow> 'g \<Rightarrow> (TransportError + json) \<times> 'g"
  sm_rest_get :: "NetworkId \<Rightarrow> string \<Rightarrow> 'g \<Rightarrow> (TransportError + string) \<times> 'g"
  sm_rest_post :: "NetworkId \<Rightarrow> string \<Rightarrow> string \<Rightarrow> string \<Rightarrow> 'g \<Rightarrow> (TransportError + string) \<times> 'g"
  sm_derive_account :: "WalletChain \<Rightarrow> 'g \<Rightarrow> (string + DerivedAccount) \<times> 'g"
  sm_sign_transaction :: "WalletChain \<Rightarrow> TransactionSpec \<Rightarrow> 'g \<Rightarrow> (string + SignedTransaction) \<times> 'g"
  sm_sign_message :: "WalletChain \<Rightarrow> bytes \<Rightarrow> Scheme \<Rightarrow> 'g \<Rightarrow> (string + Signature) \<times> 'g"
  sm_status :: "'g \<Rightarrow> (string + WalletStatus) \<times> 'g"
  sm_endpoints :: RpcEndpoints
  sm_current_owner :: "'g \<Rightarrow> QuoteOwner option"
  sm_now_ms :: "'g \<Rightarrow> u64"
  sm_json_text :: "json \<Rightarrow> string"
  sm_json_parse :: "string \<Rightarrow> string + json"
  sm_serde_error :: "json \<Rightarrow> string"

definition QUOTE_TTL_MS :: u64 where "QUOTE_TTL_MS = 5 * 60 * 1000"
definition QUOTE_STORE_CAP :: nat where "QUOTE_STORE_CAP = 64"

definition engine_new :: "'w \<Rightarrow> 'w engine" where
  "engine_new w = \<lparr>en_quotes = QuoteStore_new ''q'' QUOTE_TTL_MS QUOTE_STORE_CAP, en_world = w\<rparr>"

definition prepared_quotes :: "'w engine seams \<Rightarrow> 'w engine \<Rightarrow> PreparedTransaction list" where
  "prepared_quotes S g = map ptq_transaction (live_quotes transfer_quoted (sm_now_ms S g) (en_quotes g))"

definition prepared_quote_for_owner :: "'w engine seams \<Rightarrow> string \<Rightarrow> QuoteOwner option \<Rightarrow> 'w engine \<Rightarrow> string + PreparedTransaction" where
  "prepared_quote_for_owner S i owner g =
     rbind (get_for transfer_quoted (sm_now_ms S g) i owner (en_quotes g)) (\<lambda>q. Inr (ptq_transaction q))"

definition explorer_url :: "'g seams \<Rightarrow> WalletChain \<Rightarrow> string \<Rightarrow> string option" where
  "explorer_url S chain tx_hash = explorer_tx_url chain (ep_solana_cluster (sm_endpoints S)) tx_hash"

text \<open>The typed helpers over the transport; a decoder is what \<open>serde\<close> derives for the wanted type.\<close>

definition json_rpc :: "'g seams \<Rightarrow> (json \<Rightarrow> 'a option) \<Rightarrow> NetworkId \<Rightarrow> string \<Rightarrow> json \<Rightarrow> 'g \<Rightarrow> (string + 'a) \<times> 'g" where
  "json_rpc S decode net method params g =
     (case sm_json_rpc S net method params g of
        (Inl e, g) \<Rightarrow> (Inl (transport_message e), g)
      | (Inr v, g) \<Rightarrow> (ok_or (''wallet RPC invalid result for '' @ method @ '': '' @ sm_serde_error S v) (decode v), g))"

definition rpc_call :: "'g seams \<Rightarrow> (json \<Rightarrow> 'a option) \<Rightarrow> WalletChain \<Rightarrow> string \<Rightarrow> json \<Rightarrow> 'g \<Rightarrow> (string + 'a) \<times> 'g" where
  "rpc_call S decode chain = json_rpc S decode (network_id chain None)"

definition evm_rpc_call :: "'g seams \<Rightarrow> (json \<Rightarrow> 'a option) \<Rightarrow> EvmNetwork \<Rightarrow> string \<Rightarrow> json \<Rightarrow> 'g \<Rightarrow> (string + 'a) \<times> 'g" where
  "evm_rpc_call S decode n = json_rpc S decode (network_id WEvm (Some n))"

definition rest_get_text :: "'g seams \<Rightarrow> WalletChain \<Rightarrow> string \<Rightarrow> 'g \<Rightarrow> (string + string) \<times> 'g" where
  "rest_get_text S chain path g =
     (case sm_rest_get S (network_id chain None) path g of
        (Inl e, g) \<Rightarrow> (Inl (transport_message e), g)
      | (Inr body, g) \<Rightarrow> (Inr body, g))"

definition decode_text :: "'g seams \<Rightarrow> (json \<Rightarrow> 'a option) \<Rightarrow> string \<Rightarrow> string + 'a" where
  "decode_text S decode body = rbind (sm_json_parse S body) (\<lambda>v. ok_or (sm_serde_error S v) (decode v))"

definition rest_get_json :: "'g seams \<Rightarrow> (json \<Rightarrow> 'a option) \<Rightarrow> WalletChain \<Rightarrow> string \<Rightarrow> 'g \<Rightarrow> (string + 'a) \<times> 'g" where
  "rest_get_json S decode chain path g =
     sbind (rest_get_text S chain path g) (\<lambda>body g.
       (map_err (\<lambda>e. ''wallet REST GET decode failed: '' @ e @ ''; body='' @ body) (decode_text S decode body), g))"

definition rest_post_text :: "'g seams \<Rightarrow> WalletChain \<Rightarrow> string \<Rightarrow> string \<Rightarrow> string \<Rightarrow> 'g \<Rightarrow> (string + string) \<times> 'g" where
  "rest_post_text S chain path body content_type g =
     (case sm_rest_post S (network_id chain None) path body content_type g of
        (Inl e, g) \<Rightarrow> (Inl (transport_message e), g)
      | (Inr reply, g) \<Rightarrow> (Inr reply, g))"

definition rest_post_json :: "'g seams \<Rightarrow> (json \<Rightarrow> 'a option) \<Rightarrow> WalletChain \<Rightarrow> string \<Rightarrow> json \<Rightarrow> 'g \<Rightarrow> (string + 'a) \<times> 'g" where
  "rest_post_json S decode chain path body g =
     sbind (rest_post_text S chain path (sm_json_text S body) ''application/json'' g) (\<lambda>reply g.
       (map_err (\<lambda>e. ''wallet REST POST decode failed: '' @ e @ ''; body='' @ reply) (decode_text S decode reply), g))"

section \<open>Validation and formatting\<close>

definition validate_amount :: "string \<Rightarrow> string + u128" where
  "validate_amount raw =
     (let trimmed = trim raw in
      if trimmed = [] then Inl ''amount is empty''
      else case parse_uint (2 ^ 128) trimmed of
        Inl _ \<Rightarrow> Inl (''amount '' @ apostrophes trimmed @ '' is not a valid non-negative integer'')
      | Inr n \<Rightarrow> Inr (of_nat n))"

definition validate_address :: "prims \<Rightarrow> Chain set \<Rightarrow> WalletChain \<Rightarrow> string \<Rightarrow> string + string" where
  "validate_address p gates chain addr = map_err error_to_string (address_validate p gates (to_chain chain) addr)"

definition validate_calldata :: "string \<Rightarrow> string + string" where
  "validate_calldata data =
     (let trimmed = trim data in
      case strip_prefix ''0x'' trimmed of
        None \<Rightarrow> Inl ''calldata must be 0x-prefixed hex''
      | Some body \<Rightarrow>
          if length body mod 2 \<noteq> 0 then Inl ''calldata hex must be byte-aligned''
          else if \<not> list_all is_ascii_hexdigit body then Inl ''calldata contains non-hex characters''
          else Inr trimmed)"

definition format_amount :: "u128 \<Rightarrow> u8 \<Rightarrow> string" where
  "format_amount raw decimals =
     (if decimals = 0 then show_nat (unat raw)
      else let digits = show_nat (unat raw); width = unat decimals in
        if length digits \<le> width then ''0.'' @ replicate (width - length digits) (CHR ''0'') @ digits
        else let split = length digits - width in take split digits @ ''.'' @ drop split digits)"

fun estimated_fee :: "WalletChain \<Rightarrow> PreparedKind \<Rightarrow> nat" where
  "estimated_fee WEvm NativeTransferKind = 21000 * 30000000000"
| "estimated_fee WEvm TokenTransferKind = 65000 * 30000000000"
| "estimated_fee WBtc _ = 5000"
| "estimated_fee WSolana _ = 5000"
| "estimated_fee WTron NativeTransferKind = 1000000"
| "estimated_fee WTron TokenTransferKind = 15000000"

definition estimated_fee_raw :: "WalletChain \<Rightarrow> PreparedKind \<Rightarrow> string" where
  "estimated_fee_raw chain kind = show_nat (estimated_fee chain kind)"

text \<open>\<open>from_str_radix(_, 16)\<close>, as \<open>parse_uint\<close> for the digits of sixteen.\<close>

fun from_hex_digits :: "nat \<Rightarrow> nat \<Rightarrow> string \<Rightarrow> string + nat" where
  "from_hex_digits bound acc [] = Inr acc"
| "from_hex_digits bound acc (c # cs) =
     (case hex_val c of
        None \<Rightarrow> Inl ''invalid digit found in string''
      | Some d \<Rightarrow> if acc * 16 + d < bound then from_hex_digits bound (acc * 16 + d) cs
                  else Inl ''number too large to fit in target type'')"

definition parse_hex_uint :: "nat \<Rightarrow> string \<Rightarrow> string + nat" where
  "parse_hex_uint bound s =
     (case s of
        [] \<Rightarrow> Inl ''cannot parse integer from empty string''
      | [c] \<Rightarrow> if c = CHR ''+'' \<or> c = CHR ''-'' then Inl ''invalid digit found in string''
               else from_hex_digits bound 0 [c]
      | c # cs \<Rightarrow> if c = CHR ''+'' then from_hex_digits bound 0 cs else from_hex_digits bound 0 (c # cs))"

definition hex_to_u128 :: "string \<Rightarrow> string + u128" where
  "hex_to_u128 hex_value =
     (let trimmed = trim hex_value;
          normalized = (case strip_prefix ''0x'' trimmed of Some b \<Rightarrow> b | None \<Rightarrow> trimmed)
      in rbind (map_err (\<lambda>e. ''invalid hex quantity '' @ apostrophes hex_value @ '': '' @ e)
                 (parse_hex_uint (2 ^ 128) normalized)) (\<lambda>n. Inr (of_nat n)))"

fun show_hex :: "nat \<Rightarrow> string" where
  "show_hex n = (if n < 16 then [hex_char n] else show_hex (n div 16) @ [hex_char (n mod 16)])"

declare show_hex.simps [simp del]

definition u128_to_hex :: "u128 \<Rightarrow> string" where
  "u128_to_hex v = ''0x'' @ show_hex (unat v)"

definition hex_to_bytes :: "hex_crate \<Rightarrow> string \<Rightarrow> string + bytes" where
  "hex_to_bytes h v =
     (let trimmed = trim v;
          normalized = (case strip_prefix ''0x'' trimmed of Some b \<Rightarrow> b | None \<Rightarrow> trimmed)
      in map_err (\<lambda>e. ''invalid hex bytes '' @ apostrophes v @ '': '' @ e) (hexc_decode h normalized))"

section \<open>Accounts\<close>

definition WALLET_NOT_CONFIGURED_MESSAGE :: string where
  "WALLET_NOT_CONFIGURED_MESSAGE = ''wallet is not configured; run wallet setup first''"

definition require_account :: "'g seams \<Rightarrow> WalletChain \<Rightarrow> 'g \<Rightarrow> (string + WalletAccount) \<times> 'g" where
  "require_account S chain g =
     sbind (sm_status S g) (\<lambda>status g.
       if \<not> ws_configured status then (Inl WALLET_NOT_CONFIGURED_MESSAGE, g)
       else (ok_or (''no wallet account derived for chain '' @ apostrophes (wallet_chain_as_str chain))
               (List.find (\<lambda>a. wa_chain a = chain) (ws_accounts status)), g))"

definition require_evm_account :: "'g seams \<Rightarrow> 'g \<Rightarrow> (string + string) \<times> 'g" where
  "require_evm_account S g = sbind (require_account S WEvm g) (\<lambda>a g. (Inr (wa_address a), g))"

section \<open>Preparing a transfer\<close>

text \<open>The network an EVM transfer uses; another chain has none.\<close>

definition transfer_network :: "PrepareTransferParams \<Rightarrow> EvmNetwork option" where
  "transfer_network params =
     (if tp_chain params = WEvm then Some (case tp_evm_network params of Some n \<Rightarrow> n | None \<Rightarrow> EthereumMainnet) else None)"

definition resolve_asset :: "SolanaCluster \<Rightarrow> PrepareTransferParams \<Rightarrow> string + WalletAssetDefinition" where
  "resolve_asset cluster params =
     (let net = transfer_network params; chain = tp_chain params in
      case map_option trim (tp_asset_symbol params) of
        None \<Rightarrow>
          ok_or (''native asset metadata missing for '' @ apostrophes (wallet_chain_as_str chain))
            (List.find wad_native (case net of Some n \<Rightarrow> evm_asset_catalog n | None \<Rightarrow> asset_catalog chain cluster))
      | Some symbol \<Rightarrow>
          if symbol = [] then
            ok_or (''native asset metadata missing for '' @ apostrophes (wallet_chain_as_str chain))
              (List.find wad_native (case net of Some n \<Rightarrow> evm_asset_catalog n | None \<Rightarrow> asset_catalog chain cluster))
          else
            ok_or (''unsupported asset_symbol '' @ apostrophes symbol @ '' for chain '' @ apostrophes (wallet_chain_as_str chain))
              (find_asset_for_network chain net symbol cluster))"

text \<open>The quote: the clock is read for the creation time, for the id and again by \<open>insert\<close>, with no
  await in between. The expiry is the wrapping sum of a release build.\<close>

definition prepared_transaction :: "'w engine seams \<Rightarrow> PrepareTransferParams \<Rightarrow> string \<Rightarrow> string \<Rightarrow> u128 \<Rightarrow> string \<Rightarrow>
    WalletAssetDefinition \<Rightarrow> 'w engine \<Rightarrow> PreparedTransaction" where
  "prepared_transaction S params quote_id to amount from_address a g =
     (let net = transfer_network params;
          chain = tp_chain params;
          kind = (if wad_native a then NativeTransferKind else TokenTransferKind);
          now = sm_now_ms S g;
          label = (case net of
                     Some n \<Rightarrow> wallet_chain_as_str chain @ '' ('' @ network_label_for_evm n @ '')''
                   | None \<Rightarrow> wallet_chain_as_str chain)
      in \<lparr>pt_quote_id = quote_id, pt_kind = kind, pt_chain = chain, pt_evm_network = net, pt_from_address = from_address,
          pt_to_address = to, pt_asset_symbol = wad_symbol a, pt_amount_raw = show_nat (unat amount),
          pt_amount_formatted = format_amount amount (wad_decimals a), pt_receive_symbol = None, pt_min_receive_raw = None,
          pt_calldata = None, pt_token_address = wad_contract_address a, pt_estimated_fee_raw = estimated_fee_raw chain kind,
          pt_status = AwaitingConfirmation, pt_created_at_ms = now, pt_expires_at_ms = now + qs_ttl_ms (en_quotes g),
          pt_notes = [''Prepared '' @ wad_symbol a @ '' transfer on '' @ label @ '' using default network settings.'']\<rparr>)"

definition prepare_transfer :: "prims \<Rightarrow> Chain set \<Rightarrow> 'w engine seams \<Rightarrow> PrepareTransferParams \<Rightarrow> 'w engine \<Rightarrow>
    (string + PreparedTransaction) \<times> 'w engine" where
  "prepare_transfer p gates S params g =
     (case validate_address p gates (tp_chain params) (tp_to_address params) of
        Inl e \<Rightarrow> (Inl e, g)
      | Inr to \<Rightarrow>
        (case validate_amount (tp_amount_raw params) of
           Inl e \<Rightarrow> (Inl e, g)
         | Inr amount \<Rightarrow>
           if amount = 0 then (Inl ''transfer amount must be greater than zero'', g)
           else sbind (require_account S (tp_chain params) g) (\<lambda>account g.
             case resolve_asset (ep_solana_cluster (sm_endpoints S)) params of
               Inl e \<Rightarrow> (Inl e, g)
             | Inr a \<Rightarrow>
               if tp_chain params = WBtc \<and> \<not> wad_native a then (Inl ''token transfers are not supported on Bitcoin'', g)
               else
                 let (quote_id, store) = next_id (sm_now_ms S g) (en_quotes g);
                     transaction = prepared_transaction S params quote_id to amount (wa_address account) a g;
                     quote = \<lparr>ptq_transaction = transaction, ptq_owner = sm_current_owner S g\<rparr>
                 in (Inr transaction, g\<lparr>en_quotes := insert_quote transfer_quoted (sm_now_ms S g) quote store\<rparr>))))"

section \<open>What queries report\<close>

datatype TxState = TxPending | TxConfirmed | TxFailed | TxNotFound

record TxStatusInfo =
  ts_chain :: WalletChain
  ts_evm_network :: "EvmNetwork option"
  ts_hash :: string
  ts_state :: TxState
  ts_confirmations :: "u64 option"
  ts_block_number :: "u64 option"

record TxReceiptInfo =
  tr_chain :: WalletChain
  tr_evm_network :: "EvmNetwork option"
  tr_hash :: string
  tr_found :: bool
  tr_success :: "bool option"
  tr_block_number :: "u64 option"
  tr_gas_used :: "string option"
  tr_fee_raw :: "string option"
  tr_raw :: json

record TxLookupInfo =
  tl_chain :: WalletChain
  tl_evm_network :: "EvmNetwork option"
  tl_hash :: string
  tl_found :: bool
  tl_raw :: json

fun as_bool :: "json \<Rightarrow> bool option" where
  "as_bool (JBool b) = Some b"
| "as_bool _ = None"

definition u64_saturating_sub :: "u64 \<Rightarrow> u64 \<Rightarrow> u64" where
  "u64_saturating_sub a b = (if b \<le> a then a - b else 0)"

definition confirmations_of :: "u64 \<Rightarrow> u64 \<Rightarrow> u64" where
  "confirmations_of head block = saturating_add (u64_saturating_sub head block) 1"

definition option_or :: "'a \<Rightarrow> 'a option \<Rightarrow> 'a" where
  "option_or d x = (case x of None \<Rightarrow> d | Some v \<Rightarrow> v)"

definition missing_receipt :: "WalletChain \<Rightarrow> EvmNetwork option \<Rightarrow> string \<Rightarrow> bool \<Rightarrow> TxReceiptInfo" where
  "missing_receipt chain net hash found =
     \<lparr>tr_chain = chain, tr_evm_network = net, tr_hash = hash, tr_found = found, tr_success = None, tr_block_number = None,
      tr_gas_used = None, tr_fee_raw = None, tr_raw = JNull\<rparr>"

section \<open>Shared helpers\<close>

definition parse_field_u64 :: "string \<Rightarrow> string \<Rightarrow> string + u64" where
  "parse_field_u64 what raw = map_err (\<lambda>e. ''invalid '' @ what @ '' amount '' @ apostrophes raw @ '': '' @ e) (parse_u64 raw)"

definition decode_string :: "json \<Rightarrow> string option" where
  "decode_string = as_str"

section \<open>A host for concrete runs\<close>

text \<open>A node that answers every call with the quantity 1 and every REST request with an empty body, and
  a signer that signs everything.\<close>

definition sample_seams :: "'g seams" where
  "sample_seams =
     \<lparr>sm_json_rpc = \<lambda>_ _ _ g. (Inr (JStr ''0x1''), g),
      sm_rest_get = \<lambda>_ _ g. (Inr [], g),
      sm_rest_post = \<lambda>_ _ _ _ g. (Inr [], g),
      sm_derive_account = \<lambda>_ g. (Inr \<lparr>da_address = [], da_public_key = []\<rparr>, g),
      sm_sign_transaction = \<lambda>_ _ g. (Inr \<lparr>st_raw = ''0xsigned'', st_txid = None\<rparr>, g),
      sm_sign_message = \<lambda>_ _ _ g. (Inr (Ed25519Signature []), g),
      sm_status = \<lambda>g. (Inr \<lparr>ws_configured = True, ws_onboarding_completed = True, ws_consent_granted = True, ws_secret_stored = True,
         ws_source = Some Generated, ws_mnemonic_word_count = Some 12,
         ws_accounts = [\<lparr>wa_chain = WEvm, wa_address = ''0x0000000000000000000000000000000000000001'', wa_derivation_path = []\<rparr>],
         ws_updated_at_ms = None\<rparr>, g),
      sm_endpoints = \<lparr>ep_url = \<lambda>_ _. [], ep_source = \<lambda>_ _. DefaultSource, ep_solana_cluster = Mainnet\<rparr>,
      sm_current_owner = \<lambda>_. None, sm_now_ms = \<lambda>_. 1000,
      sm_json_text = \<lambda>_. [], sm_json_parse = \<lambda>_. Inr JNull, sm_serde_error = \<lambda>_. []\<rparr>"

definition sample_quote :: "PreparedTransaction" where
  "sample_quote =
     \<lparr>pt_quote_id = ''q_1000_1'', pt_kind = NativeTransferKind, pt_chain = WEvm, pt_evm_network = Some EthereumMainnet,
      pt_from_address = ''0x0000000000000000000000000000000000000001'', pt_to_address = ''0x0000000000000000000000000000000000000002'',
      pt_asset_symbol = ''ETH'', pt_amount_raw = ''7'', pt_amount_formatted = [], pt_receive_symbol = None, pt_min_receive_raw = None,
      pt_calldata = None, pt_token_address = None, pt_estimated_fee_raw = [], pt_status = AwaitingConfirmation,
      pt_created_at_ms = 1000, pt_expires_at_ms = 301000, pt_notes = []\<rparr>"

end
