(* ===== verification/TW_Chain_Tron.thy ===== *)
theory TW_Chain_Tron
  imports TW_Engine TW_Tron
begin

text \<open>
  Tron transfers of the wallet engine: \<open>tinywallet-web3/src/crypto/chains/tron/mod.rs\<close>. The node builds
  the transaction; what it returns is verified against the request before the signer sees it. A panic of
  the hex reader on malformed text ends the task, which is the fault \<open>Panic\<close>.
\<close>

definition TRC20_FEE_LIMIT_SUN :: u64 where "TRC20_FEE_LIMIT_SUN = 15000000"

text \<open>The \<open>Display\<close> of a transaction error.\<close>

fun tx_error_to_string :: "tx_error \<Rightarrow> string" where
  "tx_error_to_string (TxAddress e) = error_to_string e"
| "tx_error_to_string (InvalidField field reason) = ''invalid transaction field '' @ apostrophes field @ '': '' @ reason"
| "tx_error_to_string (InsufficientFunds available required) =
     ''insufficient funds: have '' @ show_nat (unat available) @ '', need '' @ show_nat (unat required)"
| "tx_error_to_string (UntrustedResponse reason) = ''untrusted node response: '' @ reason"
| "tx_error_to_string (Signing reason) = ''signing failed: '' @ reason"
| "tx_error_to_string TxPanic = []"

definition tx_fault :: "string \<Rightarrow> tx_error \<Rightarrow> fault" where
  "tx_fault what e = (if e = TxPanic then Panic else Msg (what @ tx_error_to_string e))"

definition told :: "(string + 'a) \<times> 'g \<Rightarrow> (fault + 'a) \<times> 'g" where
  "told m = (map_err Msg (fst m), snd m)"

definition validate_tron_address :: "prims \<Rightarrow> string \<Rightarrow> string + string" where
  "validate_tron_address p addr = map_err error_to_string (tron_validate p addr)"

definition tron_address_to_hex :: "prims \<Rightarrow> string \<Rightarrow> string + string" where
  "tron_address_to_hex p addr = map_err error_to_string (tron_to_hex p addr)"

definition tron_native_balance :: "prims \<Rightarrow> 'g seams \<Rightarrow> string \<Rightarrow> 'g \<Rightarrow> (string + u128) \<times> 'g" where
  "tron_native_balance p S address g =
     (case rbind (validate_tron_address p address) (\<lambda>_. tron_address_to_hex p address) of
        Inl e \<Rightarrow> (Inl e, g)
      | Inr hex \<Rightarrow>
          sbind (rest_post_json S Some WTron ''wallet/getaccount'' (JObj [(''address'', JStr hex), (''visible'', JBool False)]) g)
            (\<lambda>resp g. (Inr (ucast (option_or 0 (Option.bind (json_get ''balance'' resp) as_u64))), g)))"

record CreateTransactionResponse =
  ct_tx_id :: string
  ct_raw_data :: json
  ct_raw_data_hex :: string

definition decode_create_transaction :: "json \<Rightarrow> CreateTransactionResponse option" where
  "decode_create_transaction v =
     Option.bind (Option.bind (json_get ''txID'' v) as_str) (\<lambda>tx_id.
     Option.bind (json_get ''raw_data'' v) (\<lambda>raw_data.
     Option.bind (Option.bind (json_get ''raw_data_hex'' v) as_str) (\<lambda>hex.
       Some \<lparr>ct_tx_id = tx_id, ct_raw_data = raw_data, ct_raw_data_hex = hex\<rparr>)))"

definition decode_trigger :: "json \<Rightarrow> CreateTransactionResponse option" where
  "decode_trigger v = Option.bind (json_get ''transaction'' v) decode_create_transaction"

definition tron_transaction_spec :: "prims \<Rightarrow> CreateTransactionResponse \<Rightarrow> string \<Rightarrow> TronTransfer \<Rightarrow> fault + TransactionSpec" where
  "tron_transaction_spec p raw_tx expected_to transfer =
     rbind (map_err (tx_fault ''invalid Tron raw_data_hex: '') (recompute_txid p (ct_raw_data_hex raw_tx))) (\<lambda>recomputed_txid.
     let fee_limit_sun = (case transfer of NativeSun _ \<Rightarrow> None | Trc20 _ \<Rightarrow> Some TRC20_FEE_LIMIT_SUN) in
     rbind (map_err (tx_fault ''Tron node response rejected: '')
              (verify_contract p (ct_raw_data_hex raw_tx) expected_to (ct_tx_id raw_tx) transfer fee_limit_sun)) (\<lambda>_.
       Inr (TronSpec (ct_raw_data_hex raw_tx) expected_to recomputed_txid transfer)))"

definition pad_left_32 :: "bytes \<Rightarrow> bytes" where
  "pad_left_32 bs = (if length bs \<le> 32 then replicate (32 - length bs) 0 @ bs else drop (length bs - 32) bs)"

definition encode_trc20_transfer_param :: "hex_crate \<Rightarrow> string \<Rightarrow> u128 \<Rightarrow> string + string" where
  "encode_trc20_transfer_param h to_hex amount =
     rbind (map_err (\<lambda>e. ''invalid hex addr: '' @ e) (hexc_decode h to_hex)) (\<lambda>addr_bytes.
     if length addr_bytes \<noteq> 21 then Inl (''expected 21-byte Tron address, got '' @ show_nat (length addr_bytes))
     else Inr (hexc_encode h (replicate 12 0 @ drop 1 addr_bytes @ pad_left_32 (be_bytes 16 (unat amount)))))"

definition create_native_transaction :: "'g seams \<Rightarrow> string \<Rightarrow> string \<Rightarrow> u64 \<Rightarrow> 'g \<Rightarrow> (string + CreateTransactionResponse) \<times> 'g" where
  "create_native_transaction S owner_hex to_hex amount_sun =
     rest_post_json S decode_create_transaction WTron ''wallet/createtransaction''
       (JObj [(''owner_address'', JStr owner_hex), (''to_address'', JStr to_hex), (''amount'', JNum (PosInt amount_sun)),
              (''visible'', JBool False)])"

definition trigger_trc20_transfer :: "'g seams \<Rightarrow> string \<Rightarrow> string \<Rightarrow> string \<Rightarrow> 'g \<Rightarrow> (string + CreateTransactionResponse) \<times> 'g" where
  "trigger_trc20_transfer S owner_hex contract_hex parameter_hex =
     rest_post_json S decode_trigger WTron ''wallet/triggersmartcontract''
       (JObj [(''owner_address'', JStr owner_hex), (''contract_address'', JStr contract_hex),
              (''function_selector'', JStr ''transfer(address,uint256)''), (''parameter'', JStr parameter_hex),
              (''fee_limit'', JNum (PosInt TRC20_FEE_LIMIT_SUN)), (''call_value'', JNum (PosInt 0)), (''visible'', JBool False)])"

definition build_transaction :: "prims \<Rightarrow> hex_crate \<Rightarrow> 'g seams \<Rightarrow> PreparedTransaction \<Rightarrow> string \<Rightarrow> string \<Rightarrow> u128 \<Rightarrow> 'g \<Rightarrow>
    (string + (string \<times> TronTransfer \<times> CreateTransactionResponse)) \<times> 'g" where
  "build_transaction p h S quote owner_hex to_hex amount g =
     (case pt_kind quote of
        NativeTransferKind \<Rightarrow>
          if 2 ^ 64 \<le> unat amount then (Inl (''Tron amount '' @ show_nat (unat amount) @ '' exceeds u64''), g)
          else sbind (create_native_transaction S owner_hex to_hex (ucast amount) g) (\<lambda>raw g.
            (Inr (pt_to_address quote, NativeSun (ucast amount), raw), g))
      | TokenTransferKind \<Rightarrow>
          (case rbind (ok_or ''TRC20 transfer missing token_address'' (pt_token_address quote)) (\<lambda>contract.
                rbind (validate_tron_address p contract) (\<lambda>_.
                rbind (tron_address_to_hex p contract) (\<lambda>contract_hex.
                rbind (encode_trc20_transfer_param h to_hex amount) (\<lambda>parameter. Inr (contract, contract_hex, parameter))))) of
             Inl e \<Rightarrow> (Inl e, g)
           | Inr (contract, contract_hex, parameter) \<Rightarrow>
               sbind (trigger_trc20_transfer S owner_hex contract_hex parameter g) (\<lambda>raw g.
                 (Inr (contract, Trc20 parameter, raw), g))))"

definition signed_broadcast_body :: "CreateTransactionResponse \<Rightarrow> string \<Rightarrow> json" where
  "signed_broadcast_body raw_tx signature =
     JObj [(''txID'', JStr (ct_tx_id raw_tx)), (''raw_data'', ct_raw_data raw_tx), (''raw_data_hex'', JStr (ct_raw_data_hex raw_tx)),
           (''signature'', JArr [JStr signature]), (''visible'', JBool False)]"

definition parse_field_u128 :: "string \<Rightarrow> string \<Rightarrow> string + u128" where
  "parse_field_u128 what raw =
     rbind (map_err (\<lambda>e. ''invalid '' @ what @ '' amount '' @ apostrophes raw @ '': '' @ e) (parse_uint (2 ^ 128) raw))
       (\<lambda>n. Inr (of_nat n))"

text \<open>The checks before anything is awaited: the two addresses, the amount, and the two hex forms.\<close>

definition tron_quote_fields :: "prims \<Rightarrow> PreparedTransaction \<Rightarrow> string + (u128 \<times> string \<times> string)" where
  "tron_quote_fields p quote =
     rbind (validate_tron_address p (pt_from_address quote)) (\<lambda>_.
     rbind (validate_tron_address p (pt_to_address quote)) (\<lambda>_.
     rbind (parse_field_u128 ''Tron'' (pt_amount_raw quote)) (\<lambda>amount.
     rbind (tron_address_to_hex p (pt_from_address quote)) (\<lambda>owner_hex.
     rbind (tron_address_to_hex p (pt_to_address quote)) (\<lambda>to_hex. Inr (amount, owner_hex, to_hex))))))"

definition broadcast_verdict :: "string \<Rightarrow> json \<Rightarrow> string + string" where
  "broadcast_verdict tx_id response =
     (if option_or False (Option.bind (json_get ''result'' response) as_bool)
      then Inr (option_or tx_id (Option.bind (json_get ''txid'' response) as_str))
      else Inl (''Tron broadcast rejected: code='' @ option_or [] (Option.bind (json_get ''code'' response) as_str) @
                '' message='' @ option_or [] (Option.bind (json_get ''message'' response) as_str)))"

text \<open>The second half: verify, sign, broadcast.\<close>

definition tron_verify_and_send :: "prims \<Rightarrow> 'g seams \<Rightarrow> PreparedTransaction \<Rightarrow> string \<times> TronTransfer \<times> CreateTransactionResponse \<Rightarrow>
    'g \<Rightarrow> (fault + ExecutionResult) \<times> 'g" where
  "tron_verify_and_send p S quote = (\<lambda>(verified_recipient, transfer, raw_tx) g.
     case tron_transaction_spec p raw_tx verified_recipient transfer of
       Inl e \<Rightarrow> (Inl e, g)
     | Inr transaction \<Rightarrow>
         sbind (told (sm_sign_transaction S WTron transaction g)) (\<lambda>signed_tx g.
         sbind (told (rest_post_json S Some WTron ''wallet/broadcasttransaction''
                  (signed_broadcast_body raw_tx (st_raw signed_tx)) g)) (\<lambda>response g.
           case broadcast_verdict (ct_tx_id raw_tx) response of
             Inl e \<Rightarrow> (Inl (Msg e), g)
           | Inr txid \<Rightarrow>
               let quote = quote\<lparr>pt_status := Broadcasted\<rparr> in
               (Inr \<lparr>er_quote_id = pt_quote_id quote, er_status = Broadcasted, er_chain = WTron, er_evm_network = None,
                     er_transaction_hash = txid, er_explorer_url = explorer_url S WTron txid,
                     er_transaction = quote\<rparr>, g))))"

definition execute_tron_quote :: "prims \<Rightarrow> hex_crate \<Rightarrow> 'g seams \<Rightarrow> PreparedTransaction \<Rightarrow> 'g \<Rightarrow> (fault + ExecutionResult) \<times> 'g" where
  "execute_tron_quote p h S quote g =
     (case tron_quote_fields p quote of
        Inl e \<Rightarrow> (Inl (Msg e), g)
      | Inr (amount, owner_hex, to_hex) \<Rightarrow>
          sbind (told (sm_derive_account S WTron g)) (\<lambda>account g.
          if da_address account \<noteq> pt_from_address quote then
            (Inl (Msg (''Tron key derivation mismatch: derived '' @ da_address account @ '' but expected '' @ pt_from_address quote)), g)
          else
          sbind (told (build_transaction p h S quote owner_hex to_hex amount g)) (tron_verify_and_send p S quote)))"

section \<open>Queries\<close>

definition tron_post :: "'g seams \<Rightarrow> string \<Rightarrow> json \<Rightarrow> 'g \<Rightarrow> (string + json) \<times> 'g" where
  "tron_post S path body = rest_post_json S Some WTron (dropWhile (\<lambda>c. c = CHR ''/'') path) body"

definition is_known_tx :: "json \<Rightarrow> bool" where
  "is_known_tx tx \<longleftrightarrow> json_get ''txID'' tx \<noteq> None \<or> json_get ''raw_data'' tx \<noteq> None"

definition receipt_result :: "json \<Rightarrow> string option" where
  "receipt_result info = Option.bind (Option.bind (json_get ''receipt'' info) (json_get ''result'')) as_str"

definition tron_tx_status :: "'g seams \<Rightarrow> string \<Rightarrow> 'g \<Rightarrow> (string + TxStatusInfo) \<times> 'g" where
  "tron_tx_status S hash g =
     (let row = (\<lambda>state block. \<lparr>ts_chain = WTron, ts_evm_network = None, ts_hash = hash, ts_state = state,
                                 ts_confirmations = None, ts_block_number = block\<rparr>) in
      sbind (tron_post S ''wallet/gettransactioninfobyid'' (JObj [(''value'', JStr hash)]) g) (\<lambda>info g.
        case Option.bind (json_get ''blockNumber'' info) as_u64 of
          Some bn \<Rightarrow>
            (Inr (row (if receipt_result info = Some ''SUCCESS'' \<or> receipt_result info = None then TxConfirmed else TxFailed) (Some bn)), g)
        | None \<Rightarrow>
            sbind (tron_post S ''wallet/gettransactionbyid'' (JObj [(''value'', JStr hash)]) g) (\<lambda>tx g.
              (Inr (row (if is_known_tx tx then TxPending else TxNotFound) None), g))))"

definition tron_tx_receipt :: "'g seams \<Rightarrow> string \<Rightarrow> 'g \<Rightarrow> (string + TxReceiptInfo) \<times> 'g" where
  "tron_tx_receipt S hash g =
     sbind (tron_post S ''wallet/gettransactioninfobyid'' (JObj [(''value'', JStr hash)]) g) (\<lambda>info g.
       case Option.bind (json_get ''blockNumber'' info) as_u64 of
         None \<Rightarrow> (Inr (missing_receipt WTron None hash False), g)
       | Some bn \<Rightarrow>
           (Inr \<lparr>tr_chain = WTron, tr_evm_network = None, tr_hash = hash, tr_found = True,
                 tr_success = Some (receipt_result info = Some ''SUCCESS'' \<or> receipt_result info = None),
                 tr_block_number = Some bn,
                 tr_gas_used = map_option (\<lambda>u. show_nat (unat u))
                   (Option.bind (Option.bind (json_get ''receipt'' info) (json_get ''energy_usage_total'')) as_u64),
                 tr_fee_raw = map_option (\<lambda>f. show_nat (unat f)) (Option.bind (json_get ''fee'' info) as_u64), tr_raw = info\<rparr>, g))"

definition tron_lookup_tx :: "'g seams \<Rightarrow> string \<Rightarrow> 'g \<Rightarrow> (string + TxLookupInfo) \<times> 'g" where
  "tron_lookup_tx S hash g =
     sbind (tron_post S ''wallet/gettransactionbyid'' (JObj [(''value'', JStr hash)]) g) (\<lambda>tx g.
       (Inr \<lparr>tl_chain = WTron, tl_evm_network = None, tl_hash = hash, tl_found = is_known_tx tx, tl_raw = tx\<rparr>, g))"

section \<open>The signer sees only what was asked for\<close>

text \<open>The bytes of the transaction pay the quote: one contract, which is the transfer of the amount to the
  recipient, or the call of the token contract with the selector, the recipient and the amount.\<close>

definition tron_pays :: "prims \<Rightarrow> PreparedTransaction \<Rightarrow> TransactionSpec \<Rightarrow> bool" where
  "tron_pays p quote spec \<longleftrightarrow>
     (case pt_kind quote of
        NativeTransferKind \<Rightarrow>
          (\<exists>txid raw rcpt url rf payload amt. authentic p (spec_raw_data_hex spec) (pt_to_address quote) txid raw rcpt \<and>
             carries raw 1 url rf payload \<and> has_bytes payload 2 rcpt \<and> has_varint payload 3 amt \<and>
             parse_uint (2 ^ 128) (pt_amount_raw quote) = Inr (unat amt))
      | TokenTransferKind \<Rightarrow>
          (\<exists>token txid raw contract to_bytes url rf payload amount. pt_token_address quote = Some token \<and>
             authentic p (spec_raw_data_hex spec) token txid raw contract \<and> tron_decode p (pt_to_address quote) = Inr to_bytes \<and>
             parse_uint (2 ^ 128) (pt_amount_raw quote) = Inr amount \<and> carries raw 31 url rf payload \<and> has_bytes payload 2 contract \<and>
             has_bytes payload 4 ([0xa9, 0x05, 0x9c, 0xbb] @ replicate 12 0 @ drop 1 to_bytes @ be_bytes 32 amount)))"

lemma parse_field_u128_Inr:
  "parse_field_u128 what raw = Inr v \<Longrightarrow> parse_uint (2 ^ 128) raw = Inr (unat v)"
proof -
  assume "parse_field_u128 what raw = Inr v"
  then obtain n where n: "parse_uint (2 ^ 128) raw = Inr n" "v = of_nat n" by (auto simp: parse_field_u128_def result_simps)
  then have "n < 2 ^ 128" by (rule_tac parse_uint_less) auto
  with n show ?thesis by (simp add: unat_of_nat)
qed

lemma unat_u128_less: "unat (x :: u128) < 2 ^ 128"
  using unsigned_less [of x] by simp

lemma pad_left_32_amount: "pad_left_32 (be_bytes 16 (unat (amount :: u128))) = be_bytes 32 (unat amount)"
  using be_bytes_pad [of "unat amount" 16 16] unat_u128_less [of amount] by (simp add: pad_left_32_def)

lemma hexc_decode_encode: "hex_crate_law h \<Longrightarrow> hexc_decode h (hex_encode bs) = Inr bs"
  using decode_hex_pairs_encode hex_encode_hexdigits by (auto simp: hex_crate_law_def)

lemma built_spec_pays:
  assumes law: "hex_crate_law h" "\<forall>bs. hexc_encode h bs = hex_encode bs"
    and fields: "tron_quote_fields p quote = Inr (amount, owner_hex, to_hex)"
    and built: "build_transaction p h S quote owner_hex to_hex amount g = (Inr (recipient, transfer, raw_tx), g')"
    and spec: "tron_transaction_spec p raw_tx recipient transfer = Inr spec"
  shows "tron_pays p quote spec"
proof -
  from spec obtain fee where v: "verify_contract p (ct_raw_data_hex raw_tx) recipient (ct_tx_id raw_tx) transfer fee = Inr ()"
    and hex: "spec_raw_data_hex spec = ct_raw_data_hex raw_tx"
    by (auto simp: tron_transaction_spec_def result_simps Let_def)
  have amount: "parse_uint (2 ^ 128) (pt_amount_raw quote) = Inr (unat amount)"
    by (rule parse_field_u128_Inr [of "''Tron''"]) (use fields in \<open>auto simp: tron_quote_fields_def result_simps\<close>)
  show ?thesis
  proof (cases "pt_kind quote")
    case NativeTransferKind
    with built have r: "recipient = pt_to_address quote" "transfer = NativeSun (ucast amount)" "unat amount < 2 ^ 64"
      by (auto simp: build_transaction_def result_simps split: if_splits)
    then have "unat amount = unat (ucast amount :: u64)" by (simp add: unsigned_ucast_eq take_bit_nat_eq_self)
    with r(1,2) v amount NativeTransferKind show ?thesis
      unfolding tron_pays_def hex by (simp add: verify_contract_native) blast
  next
    case TokenTransferKind
    with built obtain param where r: "pt_token_address quote = Some recipient" "transfer = Trc20 param"
      "encode_trc20_transfer_param h to_hex amount = Inr param"
      by (auto simp: build_transaction_def result_simps split: sum.splits)
    obtain to_bytes where t: "tron_decode p (pt_to_address quote) = Inr to_bytes" "to_hex = hex_encode to_bytes"
      using fields by (auto simp: tron_quote_fields_def tron_address_to_hex_def tron_to_hex_def result_simps)
    have "param = hex_encode (replicate 12 0 @ drop 1 to_bytes @ be_bytes 32 (unat amount))"
      using r(3) law by (auto simp: encode_trc20_transfer_param_def t(2) hexc_decode_encode result_simps pad_left_32_amount split: if_splits)
    then have "tron_decode_hex param = Inr (replicate 12 0 @ drop 1 to_bytes @ be_bytes 32 (unat amount))" by simp
    with v obtain raw contract url rf payload where "authentic p (ct_raw_data_hex raw_tx) recipient (ct_tx_id raw_tx) raw contract"
      "carries raw 31 url rf payload" "has_bytes payload 2 contract"
      "has_bytes payload 4 ([0xa9, 0x05, 0x9c, 0xbb] @ replicate 12 0 @ drop 1 to_bytes @ be_bytes 32 (unat amount))"
      unfolding r(2) verify_contract_trc20 by auto
    with r(1) t(1) amount show ?thesis
      unfolding tron_pays_def hex TokenTransferKind PreparedKind.case by blast
  qed
qed

lemma told_Inr: "told m = (Inr x, g) \<longleftrightarrow> m = (Inr x, g)"
  by (cases m) (auto simp: told_def)

text \<open>Replacing the signer changes nothing else.\<close>

lemma resign_frame [simp]:
  "rest_post_json (S\<lparr>sm_sign_transaction := sg\<rparr>) = (rest_post_json S :: (json \<Rightarrow> 'a option) \<Rightarrow> _)"
  by (intro ext) (simp add: rest_post_json_def rest_post_text_def decode_text_def)

lemma resign_explorer [simp]: "explorer_url (S\<lparr>sm_sign_transaction := sg\<rparr>) = explorer_url S"
  by (intro ext) (simp add: explorer_url_def)

lemma resign_build [simp]: "build_transaction p h (S\<lparr>sm_sign_transaction := sg\<rparr>) = build_transaction p h S"
  by (intro ext) (unfold build_transaction_def create_native_transaction_def trigger_trc20_transfer_def resign_frame, rule refl)

text \<open>
  C16: Whatever the node answers, the signer is only ever asked for a Tron transaction whose bytes pay the
  quote: replacing the signer by one that behaves differently on every other transaction changes nothing,
  in successful and in failing runs.
\<close>

theorem tron_signer_sees_only_requested:
  assumes "hex_crate_law h" and "\<forall>bs. hexc_encode h bs = hex_encode bs"
    and "\<And>spec g. tron_pays p quote spec \<Longrightarrow> sg WTron spec g = sm_sign_transaction S WTron spec g"
  shows "execute_tron_quote p h (S\<lparr>sm_sign_transaction := sg\<rparr>) quote g = execute_tron_quote p h S quote g"
proof (cases "tron_quote_fields p quote")
  case (Inr f)
  then obtain amount owner_hex to_hex where f: "tron_quote_fields p quote = Inr (amount, owner_hex, to_hex)" by (cases f) auto
  have "tron_verify_and_send p (S\<lparr>sm_sign_transaction := sg\<rparr>) quote built g2 = tron_verify_and_send p S quote built g2"
    if "told (build_transaction p h S quote owner_hex to_hex amount g1) = (Inr built, g2)" for g1 g2 built
  proof -
    obtain recipient transfer raw_tx where b: "built = (recipient, transfer, raw_tx)" by (cases built) auto
    with that have "build_transaction p h S quote owner_hex to_hex amount g1 = (Inr (recipient, transfer, raw_tx), g2)"
      by (simp add: told_Inr)
    from assms(3) built_spec_pays [OF assms(1,2) f this] show ?thesis
      unfolding tron_verify_and_send_def b prod.case resign_frame resign_explorer by (auto split: sum.split)
  qed
  then show ?thesis
    unfolding execute_tron_quote_def f sum.case prod.case resign_build by (auto intro!: sbind_cong)
qed (simp add: execute_tron_quote_def)

text \<open>A transfer of 5 SUN against a node that answers with one transaction object.\<close>

definition sample_hex :: hex_crate where
  "sample_hex = \<lparr>hexc_encode = hex_encode, hexc_decode = \<lambda>s. case decode_hex_pairs s of Inl _ \<Rightarrow> Inl [] | Inr bs \<Rightarrow> Inr bs\<rparr>"

definition tron_quote :: PreparedTransaction where
  "tron_quote = sample_quote\<lparr>pt_chain := WTron, pt_evm_network := None, pt_from_address := sample_to, pt_to_address := sample_to,
     pt_amount_raw := ''5''\<rparr>"

definition tron_node :: "string \<Rightarrow> string \<Rightarrow> unit seams" where
  "tron_node hex txid = sample_seams\<lparr>sm_derive_account := \<lambda>_ g. (Inr \<lparr>da_address = sample_to, da_public_key = []\<rparr>, g),
     sm_json_parse := \<lambda>_. Inr (JObj [(''txID'', JStr txid), (''raw_data'', JNull), (''raw_data_hex'', JStr hex), (''result'', JBool True)])\<rparr>"

lemma tron_node_run:
  assumes "verify_contract sample_prims hex sample_to txid (NativeSun 5) None = Inr ()"
  shows "\<exists>r. execute_tron_quote sample_prims sample_hex (tron_node hex txid) tron_quote () = (Inr r, ())"
proof -
  have fields: "tron_quote_fields sample_prims tron_quote = Inr (5, hex_encode (0x41 # replicate 20 1), hex_encode (0x41 # replicate 20 1))"
    by (simp add: tron_quote_fields_def tron_quote_def validate_tron_address_def tron_validate_def tron_address_to_hex_def tron_to_hex_def
        sample_to_decode parse_field_u128_def parse_uint_def is_ascii_digit_def)
  obtain t where t: "recompute_txid sample_prims hex = Inr t"
    using assms by (auto simp: verify_contract_def result_simps)
  let ?raw = "\<lparr>ct_tx_id = txid, ct_raw_data = JNull, ct_raw_data_hex = hex\<rparr>"
  let ?S = "tron_node hex txid"
  have der: "sm_derive_account ?S WTron () = (Inr \<lparr>da_address = sample_to, da_public_key = []\<rparr>, ())"
    and sgn: "sm_sign_transaction ?S c spec () = (Inr \<lparr>st_raw = ''0xsigned'', st_txid = None\<rparr>, ())" for c spec
    by (simp_all add: tron_node_def sample_seams_def)
  have q: "pt_from_address tron_quote = sample_to" "pt_to_address tron_quote = sample_to" "pt_kind tron_quote = NativeTransferKind"
    by (simp_all add: tron_quote_def sample_quote_def)
  have "rest_post_json ?S dec WTron path body () =
      (map_err (\<lambda>e. ''wallet REST POST decode failed: '' @ e @ ''; body='')
        (ok_or [] (dec (JObj [(''txID'', JStr txid), (''raw_data'', JNull), (''raw_data_hex'', JStr hex), (''result'', JBool True)]))), ())"
    for dec :: "json \<Rightarrow> 'a option" and path body
    by (simp add: rest_post_json_def rest_post_text_def decode_text_def tron_node_def sample_seams_def)
  note post = this
  have built: "build_transaction sample_prims sample_hex ?S tron_quote x y 5 () = (Inr (sample_to, NativeSun 5, ?raw), ())" for x y
    by (simp add: build_transaction_def q create_native_transaction_def post decode_create_transaction_def)
  have "\<exists>r. tron_verify_and_send sample_prims ?S tron_quote (sample_to, NativeSun 5, ?raw) () = (Inr r, ())"
    by (simp add: tron_verify_and_send_def tron_transaction_spec_def t assms sgn told_def post broadcast_verdict_def option_or_def)
  then show ?thesis by (simp add: execute_tron_quote_def fields der told_def q built)
qed

theorem tron_signer_sees_only_requested_witness:
  "\<exists>(S :: unit seams) r. execute_tron_quote sample_prims sample_hex
     (S\<lparr>sm_sign_transaction := \<lambda>c spec g. if tron_pays sample_prims tron_quote spec
        then sm_sign_transaction S c spec g else (Inl ''refused'', g)\<rparr>) tron_quote () = (Inr r, ())"
proof -
  have h: "\<exists>hex txid. verify_contract sample_prims hex sample_to txid (NativeSun 5) None = Inr ()"
    using honest_native [OF sample_to_decode, of "[]" "[]" "[]" _ 5 None, OF _ _ refl, simplified] by blast
  then obtain hex txid where v: "verify_contract sample_prims hex sample_to txid (NativeSun 5) None = Inr ()" by blast
  obtain r where "execute_tron_quote sample_prims sample_hex (tron_node hex txid) tron_quote () = (Inr r, ())"
    using tron_node_run [OF v] by blast
  moreover have "hex_crate_law sample_hex" "\<forall>bs. hexc_encode sample_hex bs = hex_encode bs"
    by (simp_all add: hex_crate_law_def sample_hex_def)
  ultimately show ?thesis
    using tron_signer_sees_only_requested [of sample_hex sample_prims tron_quote
        "\<lambda>c spec g. if tron_pays sample_prims tron_quote spec then sm_sign_transaction (tron_node hex txid) c spec g else (Inl ''refused'', g)"
        "tron_node hex txid" "()"] by auto
qed

end
