(* ===== verification/TW_Sign.thy ===== *)
theory TW_Sign
  imports TW_Key TW_Chain_Tron
begin

text \<open>
  The stateless signing surface of the module, \<open>tinywallet-module/src/service/mod.rs\<close>: reporting what
  must be signed, assembling a transaction from signatures, and the one-shot operations that take a
  recovery phrase; and the construction of EVM transactions with their approval facts,
  \<open>service/construction/mod.rs\<close>. The crates are the fields of \<open>crates\<close>.
\<close>

section \<open>The wire\<close>

record SigningPayload =
  pay_bytes_hex :: string
  pay_scheme :: Scheme

record SecretMaterial =
  sec_mnemonic :: string
  sec_derivation_path :: string
  sec_chain :: Chain

record ExportedKey =
  ek_secret_key_hex :: string
  ek_address :: string

fun spec_chain :: "TransactionSpec \<Rightarrow> Chain" where
  "spec_chain (BtcSpec _ _ _ _ _) = Btc"
| "spec_chain (EvmSpec _ _ _ _ _ _ _) = Evm"
| "spec_chain (SolanaSpec _ _ _ _) = Solana"
| "spec_chain (TronSpec _ _ _ _) = Tron"

text \<open>The libraries the module is linked with; \<open>cr_secp_public\<close> is the compressed public key of a secret.\<close>

record crates =
  cr_prims :: prims
  cr_bitcoin :: bitcoin
  cr_secp :: secp
  cr_ed :: ed25519
  cr_keys :: key_crates
  cr_secp_public :: "bytes \<Rightarrow> bytes"
  cr_gates :: "Chain set"

text \<open>Why a call failed; a panic of the code it calls is a value of its own.\<close>

datatype Failure = FailInvalidInput string | FailBuildFailed string | FailPanic

datatype BusError = MethodFailed string string | BusPanic

definition INVALID_INPUT_ERROR :: string where
  "INVALID_INPUT_ERROR = ''ai.tinyhumans.tinywallet.Error.InvalidInput''"

definition BUILD_FAILED_ERROR :: string where
  "BUILD_FAILED_ERROR = ''ai.tinyhumans.tinywallet.Error.BuildFailed''"

fun into_bus_error :: "Failure \<Rightarrow> BusError" where
  "into_bus_error (FailInvalidInput message) = MethodFailed INVALID_INPUT_ERROR message"
| "into_bus_error (FailBuildFailed message) = MethodFailed BUILD_FAILED_ERROR message"
| "into_bus_error FailPanic = BusPanic"

definition failure_message :: "Failure \<Rightarrow> string" where
  "failure_message f = (case f of FailInvalidInput message \<Rightarrow> message | FailBuildFailed message \<Rightarrow> message | FailPanic \<Rightarrow> [])"

definition build_failed :: "tx_error \<Rightarrow> Failure" where
  "build_failed e = (if e = TxPanic then FailPanic else FailBuildFailed (tx_error_to_string e))"

definition untrusted_input :: "tx_error \<Rightarrow> Failure" where
  "untrusted_input e = (if e = TxPanic then FailPanic else FailInvalidInput (tx_error_to_string e))"

section \<open>Text and bytes\<close>

definition fixed_hex :: "nat \<Rightarrow> string \<Rightarrow> string \<Rightarrow> Failure + bytes" where
  "fixed_hex N v what =
     (let body = (case strip_prefix ''0x'' v of Some b \<Rightarrow> b | None \<Rightarrow> v) in
      if length body \<noteq> N * 2 then
        Inl (FailInvalidInput (what @ '' must be '' @ show_nat N @ '' bytes, got '' @ show_nat (length body) @ '' hex characters''))
      else collect_results (map (\<lambda>index.
        rbind (ok_or (FailInvalidInput (what @ '' is truncated'')) (str_get body (index * 2) (index * 2 + 2))) (\<lambda>pair.
          ok_or (FailInvalidInput (what @ '' is not hex'')) (u8_from_str_radix_16 pair))) [0..<N]))"

definition svc_decode_hex :: "string \<Rightarrow> Failure + bytes" where
  "svc_decode_hex v =
     (let body = trim (case strip_prefix ''0x'' v of Some b \<Rightarrow> b | None \<Rightarrow> v) in
      if body = [] then Inr []
      else if odd (length body) then Inl (FailInvalidInput ''call data has an odd number of hex characters'')
      else collect_results (map (\<lambda>index.
        rbind (ok_or (FailInvalidInput ''call data is not hex'') (str_get body (index * 2) (index * 2 + 2))) (\<lambda>pair.
          ok_or (FailInvalidInput ''call data is not hex'') (u8_from_str_radix_16 pair))) [0..<length body div 2]))"

definition decimal_u128 :: "string \<Rightarrow> string \<Rightarrow> Failure + u128" where
  "decimal_u128 v field =
     rbind (map_err (\<lambda>_. FailInvalidInput (field @ '' is not a base-10 integer that fits in 128 bits''))
              (parse_uint (2 ^ 128) (trim v))) (\<lambda>n. Inr (of_nat n))"

definition B64_TABLE :: string where
  "B64_TABLE = ''ABCDEFGHIJKLMNOPQRSTUVWXYZabcdefghijklmnopqrstuvwxyz0123456789+/''"

definition b64_triple :: "u8 \<Rightarrow> u8 \<Rightarrow> u8 \<Rightarrow> u32" where
  "b64_triple b0 b1 b2 = push_bit 16 (ucast b0) OR push_bit 8 (ucast b1) OR ucast b2"

definition b64_char :: "u32 \<Rightarrow> nat \<Rightarrow> char" where
  "b64_char triple k = B64_TABLE ! unat (drop_bit k triple AND 0x3f)"

fun base64 :: "bytes \<Rightarrow> string" where
  "base64 [] = []"
| "base64 [b0] = (let t = b64_triple b0 0 0 in [b64_char t 18, b64_char t 12, CHR ''='', CHR ''=''])"
| "base64 [b0, b1] = (let t = b64_triple b0 b1 0 in [b64_char t 18, b64_char t 12, b64_char t 6, CHR ''=''])"
| "base64 (b0 # b1 # b2 # rest) =
     (let t = b64_triple b0 b1 b2 in [b64_char t 18, b64_char t 12, b64_char t 6, b64_char t 0] @ base64 rest)"

section \<open>What a chain's builder takes\<close>

definition compressed_public_key :: "string \<Rightarrow> Failure + bytes" where
  "compressed_public_key key_hex = fixed_hex 33 key_hex ''public key''"

definition btc_transfer :: "string \<Rightarrow> string \<Rightarrow> u64 \<Rightarrow> u64 \<Rightarrow> BtcTransfer" where
  "btc_transfer from_address to amount_sat fee_sat =
     \<lparr>bt_from = from_address, bt_to = to, bt_amount = amount_sat, bt_fee = fee_sat\<rparr>"

fun evm_transaction :: "TransactionSpec \<Rightarrow> Failure + LegacyTransaction" where
  "evm_transaction (EvmSpec to value_wei data_hex nonce gas_limit gas_price_wei chain_id) =
     rbind (decimal_u128 gas_price_wei ''gas_price_wei'') (\<lambda>gas_price.
     rbind (decimal_u128 value_wei ''value_wei'') (\<lambda>v.
     rbind (svc_decode_hex data_hex) (\<lambda>data.
       Inr \<lparr>tx_nonce = ucast nonce, tx_gas_price = gas_price, tx_gas_limit = ucast gas_limit,
            tx_to = (if trim to = [] then None else Some to), tx_value = v, tx_data = data, tx_chain_id = chain_id\<rparr>)))"
| "evm_transaction spec = Inl (FailInvalidInput ''expected an EVM transaction'')"

fun solana_transfer :: "TransactionSpec \<Rightarrow> Failure + NativeTransfer" where
  "solana_transfer (SolanaSpec from_address to lamports recent_blockhash) =
     Inr \<lparr>nt_from = from_address, nt_to = to, nt_lamports = lamports, nt_recent_blockhash = recent_blockhash\<rparr>"
| "solana_transfer spec = Inl (FailInvalidInput ''expected a Solana transaction'')"

definition secp256k1_payload :: "bytes \<Rightarrow> SigningPayload" where
  "secp256k1_payload digest = \<lparr>pay_bytes_hex = hex_encode digest, pay_scheme = Secp256k1Prehash\<rparr>"

fun secp256k1_rs :: "Signature \<Rightarrow> Failure + bytes" where
  "secp256k1_rs (Secp256k1Signature rs_hex _) = fixed_hex 64 rs_hex ''signature''"
| "secp256k1_rs (Ed25519Signature _) = Inl (FailInvalidInput ''expected a secp256k1 signature, got an ed25519 one'')"

fun recovery_of :: "Signature \<Rightarrow> u8" where
  "recovery_of (Secp256k1Signature _ recovery_id) = recovery_id"
| "recovery_of (Ed25519Signature _) = 0"

definition single_secp256k1 :: "Signature list \<Rightarrow> Failure + (bytes \<times> u8)" where
  "single_secp256k1 signatures =
     (case signatures of
        [only] \<Rightarrow> rbind (secp256k1_rs only) (\<lambda>rs. Inr (rs, recovery_of only))
      | _ \<Rightarrow> Inl (FailInvalidInput (''expected exactly one signature, got '' @ show_nat (length signatures))))"

definition single_ed25519 :: "Signature list \<Rightarrow> Failure + bytes" where
  "single_ed25519 signatures =
     (case signatures of
        [Ed25519Signature sig_hex] \<Rightarrow> fixed_hex 64 sig_hex ''signature''
      | _ \<Rightarrow> Inl (FailInvalidInput ''expected exactly one ed25519 signature''))"

section \<open>The split flow\<close>

fun build_unsigned :: "crates \<Rightarrow> TransactionSpec \<Rightarrow> string \<Rightarrow> Failure + SigningPayload list" where
  "build_unsigned cr (BtcSpec from_address to amount_sat fee_sat utxos) key_hex =
     rbind (compressed_public_key key_hex) (\<lambda>public.
     rbind (map_err build_failed
              (sighashes (cr_prims cr) (cr_bitcoin cr) (btc_transfer from_address to amount_sat fee_sat) utxos public)) (\<lambda>(_, digests).
       Inr (map secp256k1_payload digests)))"
| "build_unsigned cr (EvmSpec to value_wei data_hex nonce gas_limit gas_price_wei chain_id) key_hex =
     rbind (evm_transaction (EvmSpec to value_wei data_hex nonce gas_limit gas_price_wei chain_id)) (\<lambda>t.
     rbind (map_err build_failed (evm_digest (cr_prims cr) t)) (\<lambda>digest. Inr [secp256k1_payload digest]))"
| "build_unsigned cr (SolanaSpec from_address to lamports blockhash) key_hex =
     rbind (solana_transfer (SolanaSpec from_address to lamports blockhash)) (\<lambda>t.
     rbind (map_err build_failed (nt_message (cr_prims cr) t)) (\<lambda>message.
       Inr [\<lparr>pay_bytes_hex = hex_encode message, pay_scheme = Ed25519Message\<rparr>]))"
| "build_unsigned cr (TronSpec raw_data_hex expected_to expected_txid transfer) key_hex =
     rbind (map_err untrusted_input (verify_contract (cr_prims cr) raw_data_hex expected_to expected_txid transfer None)) (\<lambda>_.
     rbind (map_err build_failed (tron_digest (cr_prims cr) raw_data_hex)) (\<lambda>digest. Inr [secp256k1_payload digest]))"

fun attach_signature :: "crates \<Rightarrow> TransactionSpec \<Rightarrow> string \<Rightarrow> Signature list \<Rightarrow> Failure + SignedTransaction" where
  "attach_signature cr (BtcSpec from_address to amount_sat fee_sat utxos) key_hex signatures =
     rbind (compressed_public_key key_hex) (\<lambda>public.
     rbind (collect_results (map secp256k1_rs signatures)) (\<lambda>sigs.
     rbind (map_err build_failed
              (attach_signatures (cr_prims cr) (cr_bitcoin cr) (btc_transfer from_address to amount_sat fee_sat) utxos public sigs)) (\<lambda>raw.
       Inr \<lparr>st_raw = raw, st_txid = None\<rparr>)))"
| "attach_signature cr (EvmSpec to value_wei data_hex nonce gas_limit gas_price_wei chain_id) key_hex signatures =
     rbind (single_secp256k1 signatures) (\<lambda>(rs, recovery).
     rbind (evm_transaction (EvmSpec to value_wei data_hex nonce gas_limit gas_price_wei chain_id)) (\<lambda>t.
     rbind (map_err build_failed (evm_attach_signature t rs recovery)) (\<lambda>sgd.
       Inr \<lparr>st_raw = ''0x'' @ hex_encode sgd, st_txid = Some (hash_of (cr_prims cr) sgd)\<rparr>)))"
| "attach_signature cr (SolanaSpec from_address to lamports blockhash) key_hex signatures =
     rbind (single_ed25519 signatures) (\<lambda>signature.
     rbind (solana_transfer (SolanaSpec from_address to lamports blockhash)) (\<lambda>t.
     rbind (map_err build_failed (nt_attach_signature (cr_prims cr) t signature)) (\<lambda>sgd.
       Inr \<lparr>st_raw = base64 sgd, st_txid = Some (bs58_encode (cr_prims cr) signature)\<rparr>)))"
| "attach_signature cr (TronSpec raw_data_hex expected_to expected_txid transfer) key_hex signatures =
     rbind (map_err untrusted_input (verify_contract (cr_prims cr) raw_data_hex expected_to expected_txid transfer None)) (\<lambda>_.
     rbind (single_secp256k1 signatures) (\<lambda>(rs, recovery).
     rbind (map_err build_failed (tron_attach_signature rs recovery)) (\<lambda>signature.
       Inr \<lparr>st_raw = signature_hex signature, st_txid = Some expected_txid\<rparr>)))"

section \<open>The one-shot flow\<close>

fun derive_failure :: "key_error \<Rightarrow> Failure" where
  "derive_failure InvalidMnemonic = FailInvalidInput ''recovery phrase is not valid BIP-39''"
| "derive_failure (InvalidPath _ _) = FailInvalidInput ''derivation path is malformed''"
| "derive_failure (UnhardenedSolanaPath _) = FailInvalidInput ''Solana derivation path must be fully hardened''"
| "derive_failure (KeyChainNotCompiled _) = FailInvalidInput ''key derivation failed: chain not compiled into this module''"
| "derive_failure _ = FailInvalidInput ''key derivation failed: unsupported''"

definition svc_derive :: "crates \<Rightarrow> SecretMaterial \<Rightarrow> Failure + DerivedKey" where
  "svc_derive cr secret =
     map_err derive_failure
       (key_derive (cr_prims cr) (cr_ed cr) (cr_keys cr) (cr_gates cr) (sec_chain secret) (sec_mnemonic secret)
          (sec_derivation_path secret))"

definition ed25519_signing_key :: "bytes \<Rightarrow> Failure + bytes" where
  "ed25519_signing_key secret =
     (if length secret = 32 then Inr secret else Inl (FailBuildFailed ''derived ed25519 key is not 32 bytes''))"

definition public_key_hex :: "crates \<Rightarrow> Chain \<Rightarrow> bytes \<Rightarrow> Failure + string" where
  "public_key_hex cr chain secret =
     (if chain = Solana then rbind (ed25519_signing_key secret) (\<lambda>key. Inr (hex_encode (ed_public (cr_ed cr) key)))
      else if secp_key_ok (cr_secp cr) secret then Inr (hex_encode (cr_secp_public cr secret))
      else Inl (FailBuildFailed ''derived key is not a valid scalar''))"

definition sign_payload :: "crates \<Rightarrow> SigningPayload \<Rightarrow> bytes \<Rightarrow> Failure + Signature" where
  "sign_payload cr payload secret =
     rbind (svc_decode_hex (pay_bytes_hex payload)) (\<lambda>bs.
       case pay_scheme payload of
         Secp256k1Prehash \<Rightarrow>
           if length bs \<noteq> 32 then Inl (FailBuildFailed ''secp256k1 payload is not a 32-byte digest'')
           else if \<not> secp_key_ok (cr_secp cr) secret then Inl (FailBuildFailed ''derived key is not a valid scalar'')
           else (case secp_sign_recoverable (cr_secp cr) secret bs of
             (recovery_id, compact) \<Rightarrow>
               if recovery_id < 0 \<or> 255 < recovery_id then Inl (FailBuildFailed ''recovery id out of range'')
               else Inr (Secp256k1Signature (hex_encode compact) (of_int recovery_id)))
       | Ed25519Message \<Rightarrow>
           rbind (ed25519_signing_key secret) (\<lambda>key. Inr (Ed25519Signature (hex_encode (ed_sign (cr_ed cr) key bs)))))"

definition svc_derive_account :: "crates \<Rightarrow> SecretMaterial \<Rightarrow> Failure + DerivedAccount" where
  "svc_derive_account cr secret =
     rbind (svc_derive cr secret) (\<lambda>derived.
     rbind (public_key_hex cr (sec_chain secret) (dk_secret derived)) (\<lambda>key_hex.
       Inr \<lparr>da_address = dk_address derived, da_public_key = key_hex\<rparr>))"

definition svc_sign_transaction :: "crates \<Rightarrow> SecretMaterial \<Rightarrow> TransactionSpec \<Rightarrow> Failure + SignedTransaction" where
  "svc_sign_transaction cr secret spec =
     rbind (svc_derive cr secret) (\<lambda>derived.
       if sec_chain secret \<noteq> spec_chain spec then
         Inl (FailInvalidInput (''derivation chain does not match the transaction'' @ [CHR 0x27] @ ''s chain''))
       else
     rbind (public_key_hex cr (sec_chain secret) (dk_secret derived)) (\<lambda>public_key.
     rbind (build_unsigned cr spec public_key) (\<lambda>payloads.
     rbind (collect_results (map (\<lambda>payload. sign_payload cr payload (dk_secret derived)) payloads)) (\<lambda>signatures.
       attach_signature cr spec public_key signatures))))"

definition svc_sign_message :: "crates \<Rightarrow> SecretMaterial \<Rightarrow> string \<Rightarrow> Scheme \<Rightarrow> Failure + Signature" where
  "svc_sign_message cr secret message_hex scheme =
     rbind (svc_derive cr secret) (\<lambda>derived.
       sign_payload cr \<lparr>pay_bytes_hex = message_hex, pay_scheme = scheme\<rparr> (dk_secret derived))"

definition export_key :: "crates \<Rightarrow> SecretMaterial \<Rightarrow> Failure + ExportedKey" where
  "export_key cr secret =
     rbind (svc_derive cr secret) (\<lambda>derived.
       Inr \<lparr>ek_secret_key_hex = hex_encode (dk_secret derived), ek_address = dk_address derived\<rparr>)"

text \<open>\<open>ValidateAddress\<close>: with the narrower rule for the sender of a Bitcoin transfer.\<close>

definition svc_validate_address :: "crates \<Rightarrow> Chain \<Rightarrow> string \<Rightarrow> bool \<Rightarrow> Error + string" where
  "svc_validate_address cr chain address sender =
     (if sender \<and> chain = Btc then btc_validate_sender (cr_prims cr) address
      else address_validate (cr_prims cr) (cr_gates cr) chain address)"

section \<open>Hexadecimal text is read back\<close>

lemma collect_results_map_err:
  "collect_results (map (\<lambda>x. map_err f (r x)) xs) = map_err f (collect_results (map r xs))"
proof (induction xs)
  case (Cons x xs)
  then show ?case by (cases "r x"; cases "collect_results (map r xs)") simp_all
qed simp

lemma collect_results_Inr: "collect_results (map (\<lambda>x. Inr (f x)) xs) = Inr (map f xs)"
  by (induction xs) simp_all

text \<open>Reading pairs of digits at each even offset, whatever the two errors say.\<close>

lemma collect_hex_pairs:
  assumes "length body = 2 * n" and "\<forall>c \<in> set body. is_ascii_hexdigit c" and "decode_hex_pairs body = Inr bs"
  shows "collect_results (map (\<lambda>index. rbind (ok_or short (str_get body (index * 2) (index * 2 + 2)))
    (\<lambda>pair. ok_or bad (u8_from_str_radix_16 pair))) [0..<n]) = Inr bs"
proof -
  let ?f = "\<lambda>e. if e = InvalidRecipient ''address is shorter than 20 bytes'' then short else bad"
  have "(\<lambda>index. rbind (ok_or short (str_get body (index * 2) (index * 2 + 2)))
      (\<lambda>pair. ok_or bad (u8_from_str_radix_16 pair))) = (\<lambda>index. map_err ?f (decode_pair body index))"
    by (rule ext) (simp add: decode_pair_def ok_or_def split: option.splits)
  then show ?thesis
    using collect_decode_pairs [OF assms] by (simp only: collect_results_map_err) simp
qed

lemma hex_encode_no_prefix: "strip_prefix ''0x'' (hex_encode bs) = None"
  using hex_encode_hexdigits [of bs]
  by (auto simp: strip_prefix_Some is_ascii_hexdigit_def hex_val_def simp flip: not_Some_eq)

lemma fixed_hex_encode: "length bs = N \<Longrightarrow> fixed_hex N (hex_encode bs) what = Inr bs"
  using collect_hex_pairs [of "hex_encode bs" N bs] hex_encode_hexdigits [of bs]
  by (simp add: fixed_hex_def hex_encode_no_prefix length_hex_encode decode_hex_pairs_encode Let_def)

lemma svc_decode_hex_body:
  assumes "(case strip_prefix ''0x'' v of Some b \<Rightarrow> b | None \<Rightarrow> v) = s"
    and "\<forall>c \<in> set s. is_ascii_hexdigit c" and "decode_hex_pairs s = Inr bs"
  shows "svc_decode_hex v = Inr bs"
proof -
  have t: "trim s = s" by (rule trim_graphic) (use assms(2) hexdigit_graphic in blast)
  note l = decode_hex_pairs_length [OF assms(3)]
  show ?thesis
  proof (cases "s = []")
    case True
    with assms(3) have "bs = []" by simp
    moreover have "svc_decode_hex v = Inr []" unfolding svc_decode_hex_def assms(1) t Let_def using True by simp
    ultimately show ?thesis by simp
  next
    case False
    show ?thesis
      unfolding svc_decode_hex_def assms(1) t Let_def using collect_hex_pairs [OF l assms(2,3)] l False by simp
  qed
qed

lemma svc_decode_hex_prefixed:
  "\<forall>c \<in> set s. is_ascii_hexdigit c \<Longrightarrow> decode_hex_pairs s = Inr bs \<Longrightarrow> svc_decode_hex (''0x'' @ s) = Inr bs"
  by (rule svc_decode_hex_body [of _ s]) (simp_all only: strip_prefix_append option.case)

lemma svc_decode_hex_encode: "svc_decode_hex (hex_encode bs) = Inr bs"
  by (rule svc_decode_hex_body [of _ "hex_encode bs"])
    (simp_all add: hex_encode_no_prefix hex_encode_hexdigits decode_hex_pairs_encode)

lemma decimal_u128_show: "decimal_u128 (show_nat (unat (v :: u128))) field = Inr v"
  unfolding decimal_u128_def trim_show_nat parse_uint_show [OF unat_u128_less] by simp

section \<open>Base64\<close>

text \<open>The reference: a reader of RFC 4648 base64 with padding, on sextets as natural numbers.\<close>

definition b64_val :: "char \<Rightarrow> nat" where
  "b64_val c = length (takeWhile (\<lambda>x. x \<noteq> c) B64_TABLE)"

definition byte_of :: "nat \<Rightarrow> u8" where
  "byte_of n = of_nat (n mod 256)"

fun unbase64 :: "string \<Rightarrow> bytes" where
  "unbase64 (a # b # c # d # rest) =
     (let hi = b64_val a * 2 ^ 18 + b64_val b * 2 ^ 12 in
      if c = CHR ''='' then [byte_of (hi div 65536)]
      else if d = CHR ''='' then [byte_of (hi div 65536), byte_of ((hi + b64_val c * 64) div 256)]
      else let n = hi + b64_val c * 64 + b64_val d
           in [byte_of (n div 65536), byte_of (n div 256), byte_of n] @ unbase64 rest)"
| "unbase64 _ = []"

lemma unat_b64_triple: "unat (b64_triple b0 b1 b2) = unat b0 * 65536 + unat b1 * 256 + unat b2"
proof -
  have b: "unat (ucast b :: u32) = unat b" for b :: u8 by (simp add: unat_ucast_wider)
  have "push_bit 8 (ucast b1) AND ucast b2 = (0 :: u32)"
    by (rule bit_word_eqI) (auto simp: bit_simps dest: bit_imp_le_length)
  then have low: "push_bit 8 (ucast b1) OR ucast b2 = push_bit 8 (ucast b1) + (ucast b2 :: u32)"
    by (simp add: disjunctive_add_eq_or)
  have "push_bit 16 (ucast b0) AND (push_bit 8 (ucast b1) OR ucast b2) = (0 :: u32)"
    by (rule bit_word_eqI) (auto simp: bit_simps dest: bit_imp_le_length)
  then have "b64_triple b0 b1 b2 = push_bit 16 (ucast b0) + (push_bit 8 (ucast b1) + ucast b2)"
    unfolding b64_triple_def by (simp add: disjunctive_add_eq_or low [symmetric])
  also have "unat \<dots> = unat b0 * 65536 + unat b1 * 256 + unat b2"
    using unat_u8_less [of b0] unat_u8_less [of b1] unat_u8_less [of b2]
    by (simp add: push_bit_eq_mult unat_word_ariths b)
  finally show ?thesis .
qed

lemma b64_table_facts: "length B64_TABLE = 64" "distinct B64_TABLE" "CHR ''='' \<notin> set B64_TABLE"
  by code_simp+

lemma b64_val_nth: "i < 64 \<Longrightarrow> b64_val (B64_TABLE ! i) = i"
proof -
  assume i: "i < 64"
  have "takeWhile (\<lambda>x. x \<noteq> B64_TABLE ! i) B64_TABLE = take i B64_TABLE"
    by (rule takeWhile_eq_take_P_nth) (use i b64_table_facts in \<open>auto simp: nth_eq_iff_index_eq\<close>)
  with i show ?thesis by (simp add: b64_val_def b64_table_facts)
qed

lemma b64_char_sextet:
  "b64_val (b64_char t k) = unat t div 2 ^ k mod 64" "b64_char t k \<noteq> CHR ''=''"
proof -
  have "drop_bit k t AND 0x3f = take_bit 6 (drop_bit k t)" by (simp add: take_bit_eq_mask mask_eq_exp_minus_1)
  then have i: "unat (drop_bit k t AND 0x3f) = unat t div 2 ^ k mod 64"
    by (simp only: unsigned_take_bit_eq) (simp add: take_bit_eq_mod unat_drop_bit)
  then show "b64_val (b64_char t k) = unat t div 2 ^ k mod 64" by (simp add: b64_char_def b64_val_nth)
  have "b64_char t k \<in> set B64_TABLE" unfolding b64_char_def i by (rule nth_mem) (simp add: b64_table_facts)
  then show "b64_char t k \<noteq> CHR ''=''" using b64_table_facts(3) by auto
qed

text \<open>Splitting a 24-bit number into sextets and back into bytes.\<close>

lemma scaled: "q * 64 + r = (m :: nat) \<Longrightarrow> q * (64 * k) + r * k = m * k"
  by (auto simp: algebra_simps)

lemma sextets:
  fixes n :: nat
  assumes "n < 2 ^ 24"
  shows "n div 2 ^ 18 mod 64 * 2 ^ 18 + n div 2 ^ 12 mod 64 * 2 ^ 12 = n div 4096 * 4096"
    and "n div 4096 * 4096 + n div 2 ^ 6 mod 64 * 64 = n div 64 * 64"
proof -
  have d: "n div 262144 = n div 4096 div 64" "n div 4096 = n div 64 div 64" by (simp_all add: div_mult2_eq [symmetric])
  have small: "n div 4096 div 64 < 64" using assms by (simp add: div_mult2_eq [symmetric] div_less_iff_less_mult)
  show "n div 2 ^ 18 mod 64 * 2 ^ 18 + n div 2 ^ 12 mod 64 * 2 ^ 12 = n div 4096 * 4096"
    using scaled [OF div_mult_mod_eq [of "n div 4096" 64], of 4096] small by (simp add: d(1))
  show "n div 4096 * 4096 + n div 2 ^ 6 mod 64 * 64 = n div 64 * 64"
    using scaled [OF div_mult_mod_eq [of "n div 64" 64], of 64] by (simp add: d(2))
qed

lemma byte_of_unat [simp]: "byte_of (unat b) = b"
  using unat_u8_less [of b] by (simp add: byte_of_def)

lemma b64_group:
  assumes "unat t < 2 ^ 24"
  shows "b64_val (b64_char t 18) * 2 ^ 18 + b64_val (b64_char t 12) * 2 ^ 12 = unat t div 4096 * 4096"
    and "unat t div 4096 * 4096 + b64_val (b64_char t 6) * 64 = unat t div 64 * 64"
    and "unat t div 64 * 64 + b64_val (b64_char t 0) = unat t"
  using sextets [OF assms] unfolding b64_char_sextet by simp_all

lemma bytes_of_triple:
  assumes "n = unat a * 65536 + unat b * 256 + unat c"
  shows "byte_of (n div 4096 * 4096 div 65536) = a" and "byte_of (n div 64 * 64 div 256) = b"
    and "byte_of (n div 65536) = a" and "byte_of (n div 256) = b" and "byte_of n = c" and "n < 2 ^ 24"
proof -
  note l = unat_u8_less [of a] unat_u8_less [of b] unat_u8_less [of c]
  have n: "n div 256 = unat a * 256 + unat b" "n div 65536 = unat a" "n mod 256 = unat c"
    using assms l by (simp_all add: mod_add_eq [symmetric])
  show "n < 2 ^ 24" using assms l by simp
  show v: "byte_of (n div 65536) = a" "byte_of (n div 256) = b" "byte_of n = c"
    using n l by (simp_all add: byte_of_def)
  have "n div 4096 * 4096 div 65536 = n div 4096 * 4096 div 4096 div 16" by (simp only: div_mult2_eq [symmetric]) simp
  then have "n div 4096 * 4096 div 65536 = n div 65536" by (simp add: div_mult2_eq [symmetric])
  with v(1) show "byte_of (n div 4096 * 4096 div 65536) = a" by simp
  have "n div 64 * 64 div 256 = n div 64 * 64 div 64 div 4" by (simp only: div_mult2_eq [symmetric]) simp
  then have "n div 64 * 64 div 256 = n div 256" by (simp add: div_mult2_eq [symmetric])
  with v(2) show "byte_of (n div 64 * 64 div 256) = b" by simp
qed

text \<open>
  The hand-written base64 of the module is base64: an RFC 4648 reader gives the bytes back, and the
  text has four characters for every started group of three bytes.
\<close>

theorem base64_roundtrip: "unbase64 (base64 bs) = bs \<and> length (base64 bs) = 4 * ((length bs + 2) div 3)"
proof (induction bs rule: base64.induct)
  case (2 b0)
  note v = bytes_of_triple [OF unat_b64_triple [of b0 0 0]]
  have "unbase64 (base64 [b0]) = [b0]"
    unfolding base64.simps Let_def unbase64.simps b64_group(1) [OF v(6)] using v by simp
  then show ?case by (simp add: Let_def)
next
  case (3 b0 b1)
  note v = bytes_of_triple [OF unat_b64_triple [of b0 b1 0]]
  have "unbase64 (base64 [b0, b1]) = [b0, b1]"
    unfolding base64.simps Let_def unbase64.simps b64_group(1,2) [OF v(6)] using v b64_char_sextet(2) by simp
  then show ?case by (simp add: Let_def)
next
  case (4 b0 b1 b2 rest)
  note v = bytes_of_triple [OF unat_b64_triple [of b0 b1 b2]]
  have "unbase64 (base64 (b0 # b1 # b2 # rest)) = b0 # b1 # b2 # unbase64 (base64 rest)"
    unfolding base64.simps Let_def append.simps unbase64.simps b64_group [OF v(6)] using v b64_char_sextet(2) by simp
  moreover have "length (base64 (b0 # b1 # b2 # rest)) = 4 + length (base64 rest)" by (simp add: Let_def)
  moreover have "(length (b0 # b1 # b2 # rest) + 2) div 3 = Suc ((length rest + 2) div 3)"
    by simp
  ultimately show ?case using 4 by (simp only:) simp
qed simp

section \<open>One call signs what the library signs\<close>

text \<open>What the signing crates document: widths, recovery ids, and that the two views of secp256k1,
  the recoverable and the plain signature, are the same deterministic signature.\<close>

definition signing_laws :: "crates \<Rightarrow> bool" where
  "signing_laws cr \<longleftrightarrow>
     (\<forall>s m. length (snd (secp_sign_recoverable (cr_secp cr) s m)) = 64 \<and>
            0 \<le> fst (secp_sign_recoverable (cr_secp cr) s m) \<and> fst (secp_sign_recoverable (cr_secp cr) s m) \<le> 3) \<and>
     (\<forall>b. length (keccak256 (cr_prims cr) b) = 32 \<and> length (sha256 (cr_prims cr) b) = 32) \<and>
     (\<forall>s m. length (ed_sign (cr_ed cr) s m) = 64) \<and>
     (\<forall>s. length (cr_secp_public cr s) = 33) \<and>
     (\<forall>s. seckey_ok (cr_bitcoin cr) s = secp_key_ok (cr_secp cr) s) \<and>
     (\<forall>s. compressed_public (cr_bitcoin cr) s = Some (cr_secp_public cr s)) \<and>
     (\<forall>s m. ecdsa_sign (cr_bitcoin cr) s m = snd (secp_sign_recoverable (cr_secp cr) s m)) \<and>
     (\<forall>t i spk v d. p2wpkh_sighash (cr_bitcoin cr) t i spk v = Inr d \<longrightarrow> length d = 32)"

text \<open>The reference: the signing routine the library has for each chain, given the secret itself.\<close>

fun library_sign :: "crates \<Rightarrow> TransactionSpec \<Rightarrow> bytes \<Rightarrow> SignedTransaction option" where
  "library_sign cr (BtcSpec from_address to amount_sat fee_sat utxos) secret =
     (case btc_sign (cr_prims cr) (cr_bitcoin cr) (btc_transfer from_address to amount_sat fee_sat) utxos secret of
        Inr raw \<Rightarrow> Some \<lparr>st_raw = raw, st_txid = None\<rparr> | Inl _ \<Rightarrow> None)"
| "library_sign cr (EvmSpec to value_wei data_hex nonce gas_limit gas_price_wei chain_id) secret =
     (case evm_transaction (EvmSpec to value_wei data_hex nonce gas_limit gas_price_wei chain_id) of
        Inl _ \<Rightarrow> None
      | Inr t \<Rightarrow> (case evm_sign (cr_prims cr) (cr_secp cr) t secret of
            Inl _ \<Rightarrow> None
          | Inr sgd \<Rightarrow> Some \<lparr>st_raw = ''0x'' @ hex_encode sgd, st_txid = Some (hash_of (cr_prims cr) sgd)\<rparr>))"
| "library_sign cr (SolanaSpec from_address to lamports blockhash) secret =
     (case nt_sign (cr_prims cr) (cr_ed cr)
         \<lparr>nt_from = from_address, nt_to = to, nt_lamports = lamports, nt_recent_blockhash = blockhash\<rparr> secret of
        Inl _ \<Rightarrow> None
      | Inr sgd \<Rightarrow> Some \<lparr>st_raw = base64 sgd, st_txid = Some (bs58_encode (cr_prims cr) (take 64 (drop 1 sgd)))\<rparr>)"
| "library_sign cr (TronSpec raw_data_hex expected_to expected_txid transfer) secret =
     (case verify_contract (cr_prims cr) raw_data_hex expected_to expected_txid transfer None of
        Inl _ \<Rightarrow> None
      | Inr _ \<Rightarrow> (case tron_sign (cr_prims cr) (cr_secp cr) raw_data_hex secret of
            Inl _ \<Rightarrow> None
          | Inr signature \<Rightarrow> Some \<lparr>st_raw = hex_encode signature, st_txid = Some expected_txid\<rparr>))"

fun controls_from :: "crates \<Rightarrow> TransactionSpec \<Rightarrow> bytes \<Rightarrow> bool" where
  "controls_from cr (SolanaSpec from_address to lamports blockhash) secret =
     (solana_encode (cr_prims cr) (ed_public (cr_ed cr) secret) = trim from_address)"
| "controls_from cr spec secret = True"

lemma sign_secp_payload:
  assumes "signing_laws cr" and "length digest = 32"
  shows "sign_payload cr (secp256k1_payload digest) secret =
    (if secp_key_ok (cr_secp cr) secret then
       (case secp_sign_recoverable (cr_secp cr) secret digest of
          (r, rs) \<Rightarrow> Inr (Secp256k1Signature (hex_encode rs) (of_int r)))
     else Inl (FailBuildFailed ''derived key is not a valid scalar''))"
proof -
  obtain r rs where rs: "secp_sign_recoverable (cr_secp cr) secret digest = (r, rs)" by force
  with assms(1) have "0 \<le> r" "r \<le> 3" by (auto simp: signing_laws_def) (metis fst_conv)+
  with rs assms(2) show ?thesis
    by (simp add: sign_payload_def secp256k1_payload_def svc_decode_hex_encode)
qed

lemma recoverable_bounds:
  assumes "signing_laws cr" and "secp_sign_recoverable (cr_secp cr) s m = (r, rs)"
  shows "length rs = 64" and "0 \<le> r" and "r \<le> 3"
  using assms unfolding signing_laws_def by (metis fst_conv snd_conv)+

lemma evm_one_shot:
  assumes "signing_laws cr" and "svc_derive cr secret = Inr d" and "sec_chain secret = Evm"
    and spec: "spec = EvmSpec to value_wei data_hex nonce gas_limit gas_price_wei chain_id"
  shows "svc_sign_transaction cr secret spec = Inr st \<longleftrightarrow> library_sign cr spec (dk_secret d) = Some st"
proof (cases "secp_key_ok (cr_secp cr) (dk_secret d)")
  case ok: True
  show ?thesis
  proof (cases "evm_transaction spec")
    case (Inr t)
    show ?thesis
    proof (cases "evm_digest (cr_prims cr) t")
      case digest: (Inr digest)
      obtain r rs where rs: "secp_sign_recoverable (cr_secp cr) (dk_secret d) digest = (r, rs)" by force
      note b = recoverable_bounds [OF assms(1) rs]
      have "length digest = 32"
        using digest assms(1) by (auto simp: evm_digest_def result_simps signing_laws_def)
      from sign_secp_payload [OF assms(1) this] ok rs have
        "sign_payload cr (secp256k1_payload digest) (dk_secret d) = Inr (Secp256k1Signature (hex_encode rs) (of_int r))"
        by simp
      with assms Inr digest ok rs b show ?thesis
        by (cases "evm_attach_signature t rs (of_int r)")
          (simp_all add: svc_sign_transaction_def public_key_hex_def single_secp256k1_def fixed_hex_encode evm_sign_def
            del: evm_transaction.simps)
    qed (use assms Inr ok in \<open>simp add: svc_sign_transaction_def public_key_hex_def evm_sign_def del: evm_transaction.simps\<close>)
  qed (use assms ok in \<open>simp add: svc_sign_transaction_def public_key_hex_def del: evm_transaction.simps\<close>)
next
  case False
  with assms show ?thesis
    by (cases "evm_transaction spec")
      (simp_all add: svc_sign_transaction_def public_key_hex_def evm_sign_def del: evm_transaction.simps)
qed

lemma tron_one_shot:
  assumes "signing_laws cr" and "svc_derive cr secret = Inr d" and "sec_chain secret = Tron"
    and spec: "spec = TronSpec raw_data_hex expected_to expected_txid transfer"
  shows "svc_sign_transaction cr secret spec = Inr st \<longleftrightarrow> library_sign cr spec (dk_secret d) = Some st"
proof (cases "secp_key_ok (cr_secp cr) (dk_secret d)")
  case ok: True
  show ?thesis
  proof (cases "verify_contract (cr_prims cr) raw_data_hex expected_to expected_txid transfer None")
    case verified: (Inr u)
    show ?thesis
    proof (cases "tron_digest (cr_prims cr) raw_data_hex")
      case digest: (Inr digest)
      obtain r rs where rs: "secp_sign_recoverable (cr_secp cr) (dk_secret d) digest = (r, rs)" by force
      note b = recoverable_bounds [OF assms(1) rs]
      have "length digest = 32"
        using digest assms(1) by (auto simp: tron_digest_def result_simps signing_laws_def)
      from sign_secp_payload [OF assms(1) this] ok rs have
        "sign_payload cr (secp256k1_payload digest) (dk_secret d) = Inr (Secp256k1Signature (hex_encode rs) (of_int r))"
        by simp
      with assms verified digest ok rs b show ?thesis
        by (cases "tron_attach_signature rs (of_int r)")
          (simp_all add: svc_sign_transaction_def public_key_hex_def single_secp256k1_def fixed_hex_encode tron_sign_def
            recovery_byte_def signature_hex_def)
    qed (use assms verified ok in \<open>simp add: svc_sign_transaction_def public_key_hex_def tron_sign_def\<close>)
  qed (use assms ok in \<open>simp add: svc_sign_transaction_def public_key_hex_def\<close>)
next
  case False
  with assms show ?thesis
    by (cases "verify_contract (cr_prims cr) raw_data_hex expected_to expected_txid transfer None")
      (simp_all add: svc_sign_transaction_def public_key_hex_def tron_sign_def)
qed

lemma tx_encode_shortvec_1: "tx_encode_shortvec 1 = [1]"
  by code_simp

lemma solana_one_shot:
  assumes "signing_laws cr" and "svc_derive cr secret = Inr d" and "sec_chain secret = Solana"
    and spec: "spec = SolanaSpec from_address to lamports blockhash" and "controls_from cr spec (dk_secret d)"
  shows "svc_sign_transaction cr secret spec = Inr st \<longleftrightarrow> library_sign cr spec (dk_secret d) = Some st"
proof (cases "length (dk_secret d) = 32")
  case l: True
  let ?t = "\<lparr>nt_from = from_address, nt_to = to, nt_lamports = lamports, nt_recent_blockhash = blockhash\<rparr>"
  show ?thesis
  proof (cases "nt_message (cr_prims cr) ?t")
    case (Inr message)
    let ?sig = "ed_sign (cr_ed cr) (dk_secret d) message"
    have "length ?sig = 64" using assms(1) by (simp add: signing_laws_def)
    with assms l Inr show ?thesis
      by (simp add: svc_sign_transaction_def public_key_hex_def ed25519_signing_key_def sign_payload_def
          svc_decode_hex_encode single_ed25519_def fixed_hex_encode nt_attach_signature_def nt_sign_def tx_encode_shortvec_1)
  qed (use assms l in \<open>simp add: svc_sign_transaction_def public_key_hex_def ed25519_signing_key_def nt_sign_def\<close>)
next
  case False
  with assms show ?thesis
    by (simp add: svc_sign_transaction_def public_key_hex_def ed25519_signing_key_def nt_sign_def)
qed

lemma sighash_length: "signing_laws cr \<Longrightarrow> p2wpkh_sighash (cr_bitcoin cr) t i spk v = Inr d \<Longrightarrow> length d = 32"
  unfolding signing_laws_def by blast

lemma sighash_loop_length:
  "signing_laws cr \<Longrightarrow> sighash_loop (cr_bitcoin cr) tx spk i us = Inr ds \<Longrightarrow> \<forall>d \<in> set ds. length d = 32"
  by (induction us arbitrary: i ds) (auto simp: result_simps dest: sighash_length)

lemma sighashes_length:
  assumes "signing_laws cr" and "sighashes p (cr_bitcoin cr) t us pub = Inr (sel, ds)"
  shows "\<forall>d \<in> set ds. length d = 32"
proof -
  from assms(2) obtain tx spk i where "sighash_loop (cr_bitcoin cr) tx spk i (sel_inputs sel) = Inr ds"
    by (auto simp: sighashes_def result_simps)
  from sighash_loop_length [OF assms(1) this] show ?thesis .
qed

lemma sign_secp_payloads:
  assumes "signing_laws cr" and "secp_key_ok (cr_secp cr) secret" and "\<forall>d \<in> set ds. length d = 32"
  shows "\<exists>sigs. collect_results (map (\<lambda>payload. sign_payload cr payload secret) (map secp256k1_payload ds)) = Inr sigs \<and>
    collect_results (map secp256k1_rs sigs) = Inr (map (ecdsa_sign (cr_bitcoin cr) secret) ds)"
  using assms(3)
proof (induction ds)
  case (Cons d ds)
  then obtain sigs where ih:
      "collect_results (map (\<lambda>payload. sign_payload cr payload secret) (map secp256k1_payload ds)) = Inr sigs"
      "collect_results (map secp256k1_rs sigs) = Inr (map (ecdsa_sign (cr_bitcoin cr) secret) ds)"
    by auto
  obtain r rs where rs: "secp_sign_recoverable (cr_secp cr) secret d = (r, rs)" by force
  have e: "ecdsa_sign (cr_bitcoin cr) secret d = rs" using assms(1) rs by (simp add: signing_laws_def)
  have "sign_payload cr (secp256k1_payload d) secret = Inr (Secp256k1Signature (hex_encode rs) (of_int r))"
    using sign_secp_payload [OF assms(1)] Cons.prems assms(2) rs by simp
  with ih e recoverable_bounds(1) [OF assms(1) rs] show ?case
    by (intro exI [of _ "Secp256k1Signature (hex_encode rs) (of_int r) # sigs"]) (simp add: fixed_hex_encode)
qed simp

lemma btc_one_shot:
  assumes "signing_laws cr" and "svc_derive cr secret = Inr d" and "sec_chain secret = Btc"
    and spec: "spec = BtcSpec from_address to amount_sat fee_sat utxos"
  shows "svc_sign_transaction cr secret spec = Inr st \<longleftrightarrow> library_sign cr spec (dk_secret d) = Some st"
proof (cases "secp_key_ok (cr_secp cr) (dk_secret d)")
  case ok: True
  let ?t = "btc_transfer from_address to amount_sat fee_sat" and ?pub = "cr_secp_public cr (dk_secret d)"
  let ?p = "cr_prims cr" and ?b = "cr_bitcoin cr"
  have law: "length ?pub = 33" "seckey_ok ?b (dk_secret d)" "compressed_public ?b (dk_secret d) = Some ?pub"
    using assms(1) ok by (simp_all add: signing_laws_def)
  show ?thesis
  proof (cases "sighashes ?p ?b ?t utxos ?pub")
    case (Inl e)
    with assms ok law show ?thesis
      by (simp add: svc_sign_transaction_def public_key_hex_def compressed_public_key_def fixed_hex_encode btc_sign_def ok_or_def
          split: sum.splits if_splits)
  next
    case (Inr r)
    then obtain sel ds where sd: "sighashes ?p ?b ?t utxos ?pub = Inr (sel, ds)" by (cases r) auto
    then have c: "p2wpkh_address ?b ?pub = trim (bt_from ?t)"
      by (auto simp: sighashes_def check_controls_from_def result_simps split: if_splits)
    from sign_secp_payloads [OF assms(1) ok sighashes_length [OF assms(1) sd]] obtain sigs where
      "collect_results (map (\<lambda>payload. sign_payload cr payload (dk_secret d)) (map secp256k1_payload ds)) = Inr sigs"
      "collect_results (map secp256k1_rs sigs) = Inr (map (ecdsa_sign ?b (dk_secret d)) ds)"
      by blast
    with assms ok law sd c show ?thesis
      by (cases "attach_signatures ?p ?b ?t utxos ?pub (map (ecdsa_sign ?b (dk_secret d)) ds)")
        (simp_all add: svc_sign_transaction_def public_key_hex_def compressed_public_key_def fixed_hex_encode btc_sign_def ok_or_def)
  qed
next
  case False
  moreover have "\<not> seckey_ok (cr_bitcoin cr) (dk_secret d)" using assms(1) False by (simp add: signing_laws_def)
  ultimately show ?thesis using assms
    by (simp add: svc_sign_transaction_def public_key_hex_def btc_sign_def)
qed


text \<open>
  The public key a host names is compared with nothing on EVM, Solana and Tron: what is to be signed
  and what is assembled do not depend on it.
\<close>

theorem public_key_unchecked:
  assumes "spec_chain spec \<noteq> Btc"
  shows "build_unsigned cr spec key_hex = build_unsigned cr spec other_hex \<and>
    attach_signature cr spec key_hex sigs = attach_signature cr spec other_hex sigs"
  using assms by (cases spec) simp_all

text \<open>Concrete crates for the witnesses.\<close>

definition sample_secp :: secp where
  "sample_secp = \<lparr>secp_key_ok = (\<lambda>s. True), secp_sign_recoverable = (\<lambda>s m. (0, take 64 (m @ s @ replicate 64 0)))\<rparr>"

definition sample_crates :: crates where
  "sample_crates =
     \<lparr>cr_prims = sample_prims,
      cr_bitcoin = (sample_bitcoin [])
        \<lparr>p2wpkh_sighash := (\<lambda>t i spk v. Inr (replicate 24 0 @ le_bytes 8 (unat v))),
         compressed_public := (\<lambda>s. Some (take 33 (2 # s @ replicate 33 0))),
         ecdsa_sign := (\<lambda>s m. take 64 (m @ s @ replicate 64 0))\<rparr>,
      cr_secp = sample_secp, cr_ed = sample_ed, cr_keys = sample_key_crates,
      cr_secp_public = (\<lambda>s. take 33 (2 # s @ replicate 33 0)), cr_gates = UNIV\<rparr>"

lemma sample_crates_simps [simp]:
  "cr_prims sample_crates = sample_prims" "cr_secp sample_crates = sample_secp" "cr_ed sample_crates = sample_ed"
  "cr_keys sample_crates = sample_key_crates" "cr_gates sample_crates = UNIV"
  by (simp_all add: sample_crates_def)

lemma sample_signing_laws: "signing_laws sample_crates"
  by (auto simp: signing_laws_def sample_crates_def sample_secp_def sample_prims_def sample_ed_def sample_bitcoin_def min_def
      codec_simps)

definition sample_secret :: SecretMaterial where
  "sample_secret = \<lparr>sec_mnemonic = ''phrase'', sec_derivation_path = ''m/44'', sec_chain = Evm\<rparr>"

definition sample_spec :: TransactionSpec where
  "sample_spec = EvmSpec ''0x52908400098527886E0F7030069857D2E4169EE7'' (show_nat 7) [] 1 21000 (show_nat 2) 1"

lemma sample_derive: "\<exists>d. svc_derive sample_crates sample_secret = Inr d"
proof -
  have "trim ''phrase'' = ''phrase''" by code_simp
  then obtain seed where "mnemonic_seed sample_key_crates ''phrase'' = Inr seed"
    by (simp add: mnemonic_seed_def sample_key_crates_def ok_or_def)
  then show ?thesis
    by (simp add: svc_derive_def sample_secret_def key_derive_def evm_derive_def bip32_derive_def sample_key_crates_def ok_or_def)
qed

lemma sample_spec_transaction: "\<exists>t. evm_transaction sample_spec = Inr t \<and> tx_to t = Some ''0x52908400098527886E0F7030069857D2E4169EE7'' \<and> tx_chain_id t = 1"
proof -
  have "decimal_u128 (show_nat 2) field = Inr 2" "decimal_u128 (show_nat 7) field = Inr 7" for field
    using decimal_u128_show [of 2 field] decimal_u128_show [of 7 field] by simp_all
  moreover have "svc_decode_hex [] = Inr []" "trim ''0x52908400098527886E0F7030069857D2E4169EE7'' \<noteq> []" by code_simp+
  ultimately show ?thesis by (simp add: sample_spec_def)
qed

lemma sample_library_sign: "\<exists>st. library_sign sample_crates sample_spec secret = Some st"
proof -
  obtain t where t: "evm_transaction sample_spec = Inr t" "tx_to t = Some ''0x52908400098527886E0F7030069857D2E4169EE7''"
      "tx_chain_id t = 1"
    using sample_spec_transaction by blast
  have "evm_validate ''0x52908400098527886E0F7030069857D2E4169EE7'' = Inr ''0x52908400098527886E0F7030069857D2E4169EE7''"
    by code_simp
  with t(2) obtain to where to: "to_bytes t = Inr to" using to_bytes_error [of t] by (cases "to_bytes t") auto
  then obtain digest where digest: "evm_digest sample_prims t = Inr digest" by (auto simp: evm_digest_def signing_payload_Inr result_simps)
  obtain raw where "evm_attach_signature t (take 64 (digest @ secret @ replicate 64 0)) 0 = Inr raw"
    unfolding evm_attach_signature_Inr t(3) using to by auto
  then show ?thesis
    using t(1) digest unfolding sample_spec_def by (simp add: evm_sign_def sample_secp_def del: evm_transaction.simps take_append)
qed


theorem public_key_unchecked_witness:
  "build_unsigned sample_crates sample_spec ''00'' = build_unsigned sample_crates sample_spec ''11''"
  using public_key_unchecked [of sample_spec sample_crates "''00''" "''11''" "[]"] by (simp add: sample_spec_def)

end
