(* ===== verification/TW_Construct.thy ===== *)
theory TW_Construct
  imports TW_Sign
begin

text \<open>
  EVM transactions built from an intent, with the facts a host approves:
  \<open>service/construction/mod.rs\<close> of the module and the types of \<open>wire/construction.rs\<close>. What
  \<open>serde_json\<close> writes for a request is a parameter, the list of pieces handed to the writer.
\<close>

section \<open>Requests and facts\<close>

definition MAX_CONSTRUCTION_BYTES :: nat where "MAX_CONSTRUCTION_BYTES = 65536"
definition MAX_CALLDATA_BYTES :: nat where "MAX_CALLDATA_BYTES = 16384"

datatype EvmIntent =
    NativeTransferIntent string string
  | Erc20TransferIntent string string string
  | ContractCallIntent string string string

record EvmConstructionRequest =
  cq_public_key :: string
  cq_chain_id :: u64
  cq_nonce :: u64
  cq_gas_limit :: u64
  cq_gas_price_wei :: string
  cq_intent :: EvmIntent

record EvmApprovalFacts =
  af_sender :: string
  af_chain_id :: u64
  af_nonce :: u64
  af_gas_limit :: u64
  af_gas_price_wei :: string
  af_max_fee_wei :: string
  af_max_native_debit_wei :: string
  af_native_value_wei :: string
  af_recipient :: string
  af_token_contract :: "string option"
  af_token_amount_raw :: "string option"
  af_calldata_hex :: string

record ConstructedEvmTransaction =
  ce_transaction :: TransactionSpec
  ce_unsigned :: "SigningPayload list"
  ce_approval :: EvmApprovalFacts

section \<open>Checks\<close>

definition cons_invalid :: "string \<Rightarrow> Failure" where
  "cons_invalid message = FailInvalidInput message"

text \<open>The writer that refuses to count past the limit.\<close>

definition budget_write :: "nat \<Rightarrow> string \<Rightarrow> nat option" where
  "budget_write written piece =
     (if written + length piece \<le> MAX_CONSTRUCTION_BYTES then Some (written + length piece) else None)"

fun write_all :: "nat \<Rightarrow> string list \<Rightarrow> nat option" where
  "write_all written [] = Some written"
| "write_all written (piece # pieces) =
     (case budget_write written piece of None \<Rightarrow> None | Some written' \<Rightarrow> write_all written' pieces)"

definition validate_request :: "(EvmConstructionRequest \<Rightarrow> string list) \<Rightarrow> EvmConstructionRequest \<Rightarrow> Failure + unit" where
  "validate_request to_json request =
     rbind (ok_or (cons_invalid ''construction request exceeds byte limit'') (write_all 0 (to_json request))) (\<lambda>_.
       if cq_chain_id request = 0 \<or> cq_gas_limit request = 0 then
         Inl (cons_invalid ''chain id and gas limit must be greater than zero'')
       else if cq_chain_id request > (- 1 - 38) div 2 then Inl (cons_invalid ''chain id overflows EIP-155 v'')
       else Inr ())"

definition cons_address :: "string \<Rightarrow> Failure + string" where
  "cons_address raw = map_err (\<lambda>_. cons_invalid ''EVM address is invalid'') (evm_validate raw)"

definition canonical_token_amount :: "string \<Rightarrow> Failure + string" where
  "canonical_token_amount raw =
     (let raw = trim raw in
      if raw = [] \<or> 78 < length raw \<or> \<not> list_all is_ascii_digit raw then
        Inl (cons_invalid ''token amount must be a positive uint256 decimal'')
      else let canonical = dropWhile (\<lambda>c. c = CHR ''0'') raw in
        if canonical = [] then Inl (cons_invalid ''transfer amount must be greater than zero'') else Inr canonical)"

section \<open>Construction\<close>

text \<open>Target, recipient, value, calldata, token contract and token amount of an intent.\<close>

fun intent_fields :: "EvmIntent \<Rightarrow> Failure + (string \<times> string \<times> u128 \<times> string \<times> string option \<times> string option)" where
  "intent_fields (NativeTransferIntent to amount_wei) =
     rbind (cons_address to) (\<lambda>to.
     rbind (decimal_u128 amount_wei ''amount_wei'') (\<lambda>v.
       if v = 0 then Inl (cons_invalid ''transfer amount must be greater than zero'')
       else Inr (to, to, v, ''0x'', None, None)))"
| "intent_fields (Erc20TransferIntent token to amount_raw) =
     rbind (cons_address token) (\<lambda>token.
     rbind (cons_address to) (\<lambda>to.
     rbind (canonical_token_amount amount_raw) (\<lambda>amount.
     rbind (map_err (\<lambda>_. cons_invalid ''ERC-20 recipient or uint256 amount is invalid'') (abi_encode_erc20_transfer to amount)) (\<lambda>calldata.
       Inr (token, to, 0, calldata, Some token, Some amount)))))"
| "intent_fields (ContractCallIntent to value_wei data_hex) =
     rbind (cons_address to) (\<lambda>to.
     rbind (decimal_u128 value_wei ''value_wei'') (\<lambda>v.
       let body = (case strip_prefix ''0x'' (trim data_hex) of Some b \<Rightarrow> b | None \<Rightarrow> trim data_hex) in
       if MAX_CALLDATA_BYTES * 2 < length body \<or> odd (length body) \<or> \<not> list_all is_ascii_hexdigit body then
         Inl (cons_invalid ''calldata must be bounded byte-aligned hex'')
       else Inr (to, to, v, ''0x'' @ to_ascii_lowercase body, None, None)))"

definition construct :: "crates \<Rightarrow> (EvmConstructionRequest \<Rightarrow> string list) \<Rightarrow> EvmConstructionRequest \<Rightarrow> Failure + ConstructedEvmTransaction" where
  "construct cr to_json request =
     rbind (validate_request to_json request) (\<lambda>_.
     rbind (compressed_public_key (cq_public_key request)) (\<lambda>public.
     rbind (map_err (\<lambda>_. cons_invalid ''public key is not a valid compressed SEC1 point'')
              (evm_address_from_public_key (cr_prims cr) (cr_keys cr) public)) (\<lambda>sender.
     rbind (decimal_u128 (cq_gas_price_wei request) ''gas_price_wei'') (\<lambda>gas_price.
     rbind (ok_or (cons_invalid ''maximum gas cost overflows 128 bits'')
              (checked_mul gas_price (ucast (cq_gas_limit request)))) (\<lambda>max_fee.
     rbind (intent_fields (cq_intent request)) (\<lambda>(target, recipient, v, calldata, token_contract, token_amount_raw).
     rbind (ok_or (cons_invalid ''maximum native debit overflows 128 bits'') (checked_add v max_fee)) (\<lambda>max_native.
     let transaction = EvmSpec target (show_nat (unat v)) calldata (cq_nonce request) (cq_gas_limit request)
                         (show_nat (unat gas_price)) (cq_chain_id request) in
     rbind (build_unsigned cr transaction (hex_encode public)) (\<lambda>payloads.
       Inr \<lparr>ce_transaction = transaction, ce_unsigned = payloads,
            ce_approval =
              \<lparr>af_sender = sender, af_chain_id = cq_chain_id request, af_nonce = cq_nonce request,
               af_gas_limit = cq_gas_limit request, af_gas_price_wei = show_nat (unat gas_price),
               af_max_fee_wei = show_nat (unat max_fee), af_max_native_debit_wei = show_nat (unat max_native),
               af_native_value_wei = show_nat (unat v), af_recipient = recipient, af_token_contract = token_contract,
               af_token_amount_raw = token_amount_raw, af_calldata_hex = calldata\<rparr>\<rparr>))))))))"

section \<open>What is built is well formed\<close>

lemma write_all_Some:
  "write_all n pieces = Some m \<longleftrightarrow>
     m = n + length (concat pieces) \<and> (pieces \<noteq> [] \<longrightarrow> m \<le> MAX_CONSTRUCTION_BYTES)"
proof (induction pieces arbitrary: n)
  case (Cons piece pieces)
  show ?case
  proof (cases "n + length piece \<le> MAX_CONSTRUCTION_BYTES")
    case True
    then have "write_all n (piece # pieces) = write_all (n + length piece) pieces" by (simp add: budget_write_def)
    with True show ?thesis by (cases "pieces = []") (auto simp: Cons.IH)
  next
    case False
    then show ?thesis by (simp add: budget_write_def)
  qed
qed auto

lemma validate_request_Inr:
  assumes "validate_request to_json rq = Inr u"
  shows "length (concat (to_json rq)) \<le> MAX_CONSTRUCTION_BYTES" and "0 < unat (cq_chain_id rq)"
    and "2 * unat (cq_chain_id rq) + 38 < 2 ^ 64"
proof -
  have half: "(- 1 - 38 :: u64) div 2 = 9223372036854775788" by code_simp
  from assms obtain m where m: "write_all 0 (to_json rq) = Some m" "cq_chain_id rq \<noteq> 0"
      "\<not> cq_chain_id rq > 9223372036854775788"
    unfolding validate_request_def half rbind_eq_Inr ok_or_eq_Inr by (metis Inl_Inr_False)
  then show "length (concat (to_json rq)) \<le> MAX_CONSTRUCTION_BYTES"
    by (cases "to_json rq = []") (auto simp: write_all_Some)
  show "0 < unat (cq_chain_id rq)" using m(2) by (simp add: unat_gt_0)
  show "2 * unat (cq_chain_id rq) + 38 < 2 ^ 64" using m(3) by (simp add: not_less word_le_nat_alt)
qed

lemma cons_address_Inr: "cons_address a = Inr v \<Longrightarrow> evm_validate v = Inr v \<and> trim v = v \<and> v \<noteq> []"
  by (auto simp: cons_address_def evm_validate_Inr)

lemma abi_calldata_bytes:
  assumes "abi_encode_erc20_transfer to amount = Inr calldata"
  shows "\<exists>bs. calldata = ''0x'' @ hex_encode bs"
proof -
  from assms obtain bs v where "calldata = ''0x'' @ hex_encode TRANSFER_SELECTOR @ hex_encode (left_pad_address bs) @ hex_encode v"
    by (auto simp: abi_encode_erc20_transfer_def result_simps)
  then have "calldata = ''0x'' @ hex_encode (TRANSFER_SELECTOR @ left_pad_address bs @ v)" by (simp add: hex_encode_append)
  then show ?thesis by blast
qed

text \<open>What an accepted intent fixes: a valid target, data that decodes, and the token terms.\<close>

lemma intent_fields_Inr:
  assumes "intent_fields i = Inr (target, recipient, v, calldata, token, amount)"
  shows "evm_validate target = Inr target" and "trim target = target" and "target \<noteq> []"
    and "\<exists>data. svc_decode_hex calldata = Inr data"
    and "(case token of
            None \<Rightarrow> amount = None \<and> recipient = target
          | Some contract \<Rightarrow> target = contract \<and> v = 0 \<and>
              (\<exists>n. amount = Some n \<and> abi_encode_erc20_transfer recipient n = Inr calldata))"
proof -
  have "evm_validate target = Inr target \<and> trim target = target \<and> target \<noteq> [] \<and>
    (\<exists>s bs. calldata = ''0x'' @ s \<and> (\<forall>c \<in> set s. is_ascii_hexdigit c) \<and> decode_hex_pairs s = Inr bs) \<and>
    (case token of
       None \<Rightarrow> amount = None \<and> recipient = target
     | Some contract \<Rightarrow> target = contract \<and> v = 0 \<and>
         (\<exists>n. amount = Some n \<and> abi_encode_erc20_transfer recipient n = Inr calldata))"
  proof (cases i)
    case (NativeTransferIntent to amount_wei)
    with assms have "cons_address to = Inr target" "calldata = ''0x'' @ []" "token = None" "amount = None" "recipient = target"
      by (auto simp: result_simps split: if_splits)
    with cons_address_Inr [of to target] show ?thesis by auto
  next
    case (Erc20TransferIntent tok to amount_raw)
    with assms obtain n where n: "cons_address tok = Inr target" "abi_encode_erc20_transfer recipient n = Inr calldata"
        "token = Some target" "amount = Some n" "v = 0"
      by (auto simp: result_simps)
    from abi_calldata_bytes [OF n(2)] obtain bs where "calldata = ''0x'' @ hex_encode bs" by blast
    with n cons_address_Inr [OF n(1)] hex_encode_hexdigits [of bs] decode_hex_pairs_encode [of bs] show ?thesis by auto
  next
    case (ContractCallIntent to value_wei data_hex)
    define body where "body = (case strip_prefix ''0x'' (trim data_hex) of Some b \<Rightarrow> b | None \<Rightarrow> trim data_hex)"
    have "intent_fields i = rbind (cons_address to) (\<lambda>to. rbind (decimal_u128 value_wei ''value_wei'') (\<lambda>v.
        if MAX_CALLDATA_BYTES * 2 < length body \<or> odd (length body) \<or> \<not> list_all is_ascii_hexdigit body
        then Inl (cons_invalid ''calldata must be bounded byte-aligned hex'')
        else Inr (to, to, v, ''0x'' @ to_ascii_lowercase body, None, None)))"
      by (simp only: ContractCallIntent intent_fields.simps Let_def body_def)
    with assms have b: "cons_address to = Inr target" "even (length body)" "list_all is_ascii_hexdigit body"
        "calldata = ''0x'' @ to_ascii_lowercase body" "token = None" "amount = None" "recipient = target"
      by (auto simp only: rbind_eq_Inr Inr_inject prod.inject sum.distinct split: if_split_asm)
    then have h: "\<forall>c \<in> set (to_ascii_lowercase body). is_ascii_hexdigit c" by (simp add: hexdigits_lower list_all_iff)
    with decode_hex_pairs_hexdigits [OF _ h] b cons_address_Inr [OF b(1)] show ?thesis by auto
  qed
  note w = this
  from w show "evm_validate target = Inr target" "trim target = target" "target \<noteq> []" by simp_all
  from w show "case token of
            None \<Rightarrow> amount = None \<and> recipient = target
          | Some contract \<Rightarrow> target = contract \<and> v = 0 \<and>
              (\<exists>n. amount = Some n \<and> abi_encode_erc20_transfer recipient n = Inr calldata)"
    by (elim conjE)
  from w obtain s bs where s: "calldata = ''0x'' @ s" "\<forall>c \<in> set s. is_ascii_hexdigit c" "decode_hex_pairs s = Inr bs"
    by (elim conjE exE)
  from svc_decode_hex_prefixed [OF s(2,3)] s(1) show "\<exists>data. svc_decode_hex calldata = Inr data" by simp
qed

lemma constructed_transaction:
  assumes "construct cr to_json rq = Inr c"
  obtains target recipient v calldata token amount public sender gas_price t digest where
    "intent_fields (cq_intent rq) = Inr (target, recipient, v, calldata, token, amount)"
    "ce_transaction c = EvmSpec target (show_nat (unat v)) calldata (cq_nonce rq) (cq_gas_limit rq) (show_nat (unat gas_price)) (cq_chain_id rq)"
    "evm_transaction (ce_transaction c) = Inr t" "tx_to t = Some target" "tx_value t = v" "tx_gas_price t = gas_price"
    "evm_digest (cr_prims cr) t = Inr digest" "ce_unsigned c = [secp256k1_payload digest]"
    "unat v + unat gas_price * unat (cq_gas_limit rq) < 2 ^ 128"
    "evm_address_from_public_key (cr_prims cr) (cr_keys cr) public = Inr sender"
    "compressed_public_key (cq_public_key rq) = Inr public"
    "ce_approval c =
       \<lparr>af_sender = sender, af_chain_id = cq_chain_id rq, af_nonce = cq_nonce rq,
        af_gas_limit = cq_gas_limit rq, af_gas_price_wei = show_nat (unat gas_price),
        af_max_fee_wei = show_nat (unat gas_price * unat (cq_gas_limit rq)),
        af_max_native_debit_wei = show_nat (unat v + unat gas_price * unat (cq_gas_limit rq)),
        af_native_value_wei = show_nat (unat v), af_recipient = recipient, af_token_contract = token,
        af_token_amount_raw = amount, af_calldata_hex = calldata\<rparr>"
proof -
  from assms obtain public sender gas_price max_fee target recipient v calldata token amount max_native payloads where
      c: "compressed_public_key (cq_public_key rq) = Inr public"
      "evm_address_from_public_key (cr_prims cr) (cr_keys cr) public = Inr sender"
      "checked_mul gas_price (ucast (cq_gas_limit rq)) = Some max_fee"
      "intent_fields (cq_intent rq) = Inr (target, recipient, v, calldata, token, amount)"
      "checked_add v max_fee = Some max_native"
      "build_unsigned cr (EvmSpec target (show_nat (unat v)) calldata (cq_nonce rq) (cq_gas_limit rq) (show_nat (unat gas_price))
         (cq_chain_id rq)) (hex_encode public) = Inr payloads"
      "c = \<lparr>ce_transaction = EvmSpec target (show_nat (unat v)) calldata (cq_nonce rq) (cq_gas_limit rq) (show_nat (unat gas_price)) (cq_chain_id rq),
            ce_unsigned = payloads,
            ce_approval =
              \<lparr>af_sender = sender, af_chain_id = cq_chain_id rq, af_nonce = cq_nonce rq,
               af_gas_limit = cq_gas_limit rq, af_gas_price_wei = show_nat (unat gas_price),
               af_max_fee_wei = show_nat (unat max_fee), af_max_native_debit_wei = show_nat (unat max_native),
               af_native_value_wei = show_nat (unat v), af_recipient = recipient, af_token_contract = token,
               af_token_amount_raw = amount, af_calldata_hex = calldata\<rparr>\<rparr>"
    unfolding construct_def Let_def by (auto simp only: rbind_eq_Inr split_paired_all prod.case map_err_eq_Inr ok_or_eq_Inr Inr_inject)
  note f = intent_fields_Inr [OF c(4)]
  let ?spec = "EvmSpec target (show_nat (unat v)) calldata (cq_nonce rq) (cq_gas_limit rq) (show_nat (unat gas_price)) (cq_chain_id rq)"
  from f(4) obtain data where data: "svc_decode_hex calldata = Inr data" by blast
  let ?t = "\<lparr>tx_nonce = ucast (cq_nonce rq), tx_gas_price = gas_price, tx_gas_limit = ucast (cq_gas_limit rq),
    tx_to = Some target, tx_value = v, tx_data = data, tx_chain_id = cq_chain_id rq\<rparr>"
  have t: "evm_transaction ?spec = Inr ?t"
    unfolding evm_transaction.simps decimal_u128_show rbind_Inr data f(2) using f(3) by simp
  have fee: "unat max_fee = unat gas_price * unat (cq_gas_limit rq)" using c(3) by (simp add: word_simps)
  have native: "unat max_native = unat v + unat max_fee" "unat v + unat max_fee < 2 ^ 128"
    using c(5) unfolding checked_add_Some by simp_all
  from c(6) t obtain digest where "evm_digest (cr_prims cr) ?t = Inr digest" "payloads = [secp256k1_payload digest]"
    unfolding build_unsigned.simps t rbind_Inr by (auto simp: result_simps)
  with that [OF c(4) _ _ _ _ _ _ _ _ c(2,1), of gas_price ?t digest] c(7) t fee native show thesis by simp
qed

lemma spec_transaction:
  assumes "evm_transaction (EvmSpec to v_wei calldata nonce gas_limit price chain_id) = Inr t"
  shows "tx_nonce t = ucast nonce" and "tx_gas_limit t = ucast gas_limit" and "tx_chain_id t = chain_id"
    and "svc_decode_hex calldata = Inr (tx_data t)"
  using assms by (auto simp: result_simps)

lemma valid_target_bytes:
  assumes "tx_to t = Some target" and "evm_validate target = Inr target"
  shows "\<exists>to. to_bytes t = Inr to"
  using assms to_bytes_error [of t] by (cases "to_bytes t") auto


text \<open>
  C23: A constructed transaction can always be completed: the chain id was bounded so that no recovery
  id overflows the EIP-155 \<open>v\<close>, and every 64-byte signature with a recovery id up to 3 is assembled.
\<close>

theorem constructed_always_signable:
  assumes "construct cr to_json rq = Inr c" and "length rs = 64" and "recovery \<le> 3"
  shows "\<exists>st. attach_signature cr (ce_transaction c) key_hex [Secp256k1Signature (hex_encode rs) recovery] = Inr st"
proof (rule constructed_transaction [OF assms(1)])
  fix target recipient v calldata token amount public sender gas_price t digest
  assume c: "intent_fields (cq_intent rq) = Inr (target, recipient, v, calldata, token, amount)"
    "ce_transaction c = EvmSpec target (show_nat (unat v)) calldata (cq_nonce rq) (cq_gas_limit rq) (show_nat (unat gas_price)) (cq_chain_id rq)"
    "evm_transaction (ce_transaction c) = Inr t" "tx_to t = Some target"
  from assms(1) obtain u where "validate_request to_json rq = Inr u" by (auto simp: construct_def result_simps)
  then have chain: "2 * unat (cq_chain_id rq) + 38 < 2 ^ 64" by (rule validate_request_Inr)
  obtain to where to: "to_bytes t = Inr to" using valid_target_bytes c(4) intent_fields_Inr(1) [OF c(1)] by blast
  have "unat recovery \<le> 3" using assms(3) by (simp add: word_le_nat_alt)
  with chain spec_transaction(3) [OF c(3) [unfolded c(2)]] have
    "unat recovery + 2 * unat (tx_chain_id t) + 35 < 2 ^ 64" by simp
  with assms(3) to obtain raw where raw: "evm_attach_signature t rs recovery = Inr raw"
    unfolding evm_attach_signature_Inr by blast
  show ?thesis
    using c(3) raw assms(2)
    by (simp add: c(2) single_secp256k1_def fixed_hex_encode del: evm_transaction.simps)
qed

text \<open>A concrete request for the witnesses.\<close>

definition sample_request :: EvmConstructionRequest where
  "sample_request =
     \<lparr>cq_public_key = hex_encode (replicate 33 2), cq_chain_id = 1, cq_nonce = 3, cq_gas_limit = 21000,
      cq_gas_price_wei = show_nat 5,
      cq_intent = NativeTransferIntent ''0x52908400098527886E0F7030069857D2E4169EE7'' (show_nat 7)\<rparr>"

lemma sample_construct: "\<exists>c. construct sample_crates (\<lambda>_. [''{}'']) sample_request = Inr c"
proof -
  let ?to = "''0x52908400098527886E0F7030069857D2E4169EE7''"
  have half: "(- 1 - 38 :: u64) div 2 = 9223372036854775788" by code_simp
  have v: "validate_request (\<lambda>_. [''{}'']) sample_request = Inr ()"
    unfolding validate_request_def half
    by (simp add: sample_request_def budget_write_def MAX_CONSTRUCTION_BYTES_def)
  have k: "compressed_public_key (cq_public_key sample_request) = Inr (replicate 33 2)"
    by (simp add: compressed_public_key_def sample_request_def fixed_hex_encode del: hex_encode_simps)
  obtain sender where s: "evm_address_from_public_key sample_prims sample_key_crates (replicate 33 2) = Inr sender"
    by (simp add: evm_address_from_public_key_def sample_key_crates_def numeral_eq_Suc)
  have d: "decimal_u128 (show_nat 5) field = Inr 5" "decimal_u128 (show_nat 7) field = Inr 7" for field
    using decimal_u128_show [of 5 field] decimal_u128_show [of 7 field] by simp_all
  have g: "checked_mul (5 :: u128) (ucast (cq_gas_limit sample_request)) = Some 105000" "checked_add (7 :: u128) 105000 = Some 105007"
    by (simp_all add: sample_request_def checked_mul_def checked_add_def)
  have "cons_address ?to = Inr ?to" by code_simp
  with d(2) have i: "intent_fields (cq_intent sample_request) = Inr (?to, ?to, 7, ''0x'', None, None)"
    by (simp add: sample_request_def)
  obtain t where t: "evm_transaction (EvmSpec ?to (show_nat (unat (7 :: u128))) ''0x'' (cq_nonce sample_request)
      (cq_gas_limit sample_request) (show_nat (unat (5 :: u128))) (cq_chain_id sample_request)) = Inr t" "tx_to t = Some ?to"
    unfolding evm_transaction.simps decimal_u128_show rbind_Inr
    using intent_fields_Inr(2,3,4) [OF i] by auto
  from valid_target_bytes [OF t(2) intent_fields_Inr(1) [OF i]] obtain digest where "evm_digest sample_prims t = Inr digest"
    by (auto simp: evm_digest_def signing_payload_Inr result_simps)
  moreover have "decimal_u128 (cq_gas_price_wei sample_request) field = Inr 5" for field using d(1) by (simp add: sample_request_def)
  ultimately show ?thesis using t(1) v k s g i
    by (simp add: construct_def ok_or_def del: evm_transaction.simps)
qed


theorem constructed_always_signable_witness:
  "\<exists>c st. construct sample_crates (\<lambda>_. [''{}'']) sample_request = Inr c \<and>
     attach_signature sample_crates (ce_transaction c) [] [Secp256k1Signature (hex_encode (replicate 64 1)) 3] = Inr st"
proof -
  obtain c where c: "construct sample_crates (\<lambda>_. [''{}'']) sample_request = Inr c" using sample_construct by blast
  from constructed_always_signable [OF c, of "replicate 64 1" 3 "[]"] c show ?thesis by auto
qed

end
