(* ===== verification/TW_Chain_Btc.thy ===== *)
theory TW_Chain_Btc
  imports TW_Engine
begin

text \<open>
  Bitcoin transfers of the wallet engine: \<open>tinywallet-web3/src/crypto/chains/btc/mod.rs\<close>. Coin
  selection with fee pricing, execution of a prepared transfer, and the status queries over Esplora.
  The main theorem relates this selection to the one the signer repeats (\<open>select_coins\<close>).
\<close>

definition DEFAULT_FEE_RATE_SAT_VB :: u64 where "DEFAULT_FEE_RATE_SAT_VB = 20"
definition TX_OVERHEAD_VBYTES :: u64 where "TX_OVERHEAD_VBYTES = 11"
definition P2WPKH_INPUT_VBYTES :: u64 where "P2WPKH_INPUT_VBYTES = 68"
definition P2WPKH_OUTPUT_VBYTES :: u64 where "P2WPKH_OUTPUT_VBYTES = 31"
definition DUST_THRESHOLD_SATS :: u64 where "DUST_THRESHOLD_SATS = 546"

definition estimated_vbytes :: "u64 \<Rightarrow> u64 \<Rightarrow> u64" where
  "estimated_vbytes inputs outputs = TX_OVERHEAD_VBYTES + inputs * P2WPKH_INPUT_VBYTES + outputs * P2WPKH_OUTPUT_VBYTES"

definition validate_btc_address :: "prims \<Rightarrow> string \<Rightarrow> string + string" where
  "validate_btc_address p addr = map_err error_to_string (btc_validate p addr)"

definition validate_btc_sender_address :: "prims \<Rightarrow> string \<Rightarrow> string + string" where
  "validate_btc_sender_address p addr = map_err error_to_string (btc_validate_sender p addr)"

text \<open>The records \<open>serde\<close> reads from Esplora. A spendable output has the fields of \<open>Utxo\<close>.\<close>

definition as_u32 :: "json \<Rightarrow> u32 option" where
  "as_u32 v = Option.bind (as_u64 v) (\<lambda>n. if unat n < 2 ^ 32 then Some (ucast n) else None)"

definition decode_esplora_utxo :: "json \<Rightarrow> Utxo option" where
  "decode_esplora_utxo v =
     Option.bind (Option.bind (json_get ''txid'' v) as_str) (\<lambda>txid.
     Option.bind (Option.bind (json_get ''vout'' v) as_u32) (\<lambda>vout.
     Option.bind (Option.bind (json_get ''value'' v) as_u64) (\<lambda>sats.
       Some \<lparr>utxo_txid = txid, utxo_vout = vout, utxo_value = sats\<rparr>)))"

fun decode_array :: "(json \<Rightarrow> 'a option) \<Rightarrow> json list \<Rightarrow> 'a list option" where
  "decode_array f [] = Some []"
| "decode_array f (v # vs) = Option.bind (f v) (\<lambda>x. Option.bind (decode_array f vs) (\<lambda>xs. Some (x # xs)))"

fun decode_utxos :: "json \<Rightarrow> Utxo list option" where
  "decode_utxos (JArr vs) = decode_array decode_esplora_utxo vs"
| "decode_utxos _ = None"

definition decode_stats :: "json \<Rightarrow> (u64 \<times> u64) option" where
  "decode_stats v =
     Option.bind (Option.bind (json_get ''funded_txo_sum'' v) as_u64) (\<lambda>funded.
     Option.bind (Option.bind (json_get ''spent_txo_sum'' v) as_u64) (\<lambda>spent. Some (funded, spent)))"

definition decode_address_info :: "json \<Rightarrow> ((u64 \<times> u64) \<times> (u64 \<times> u64)) option" where
  "decode_address_info v =
     Option.bind (Option.bind (json_get ''chain_stats'' v) decode_stats) (\<lambda>chain.
     Option.bind (Option.bind (json_get ''mempool_stats'' v) decode_stats) (\<lambda>mempool. Some (chain, mempool)))"

definition btc_native_balance :: "prims \<Rightarrow> 'g seams \<Rightarrow> string \<Rightarrow> 'g \<Rightarrow> (string + u128) \<times> 'g" where
  "btc_native_balance p S address g =
     (case validate_btc_address p address of
        Inl e \<Rightarrow> (Inl e, g)
      | Inr _ \<Rightarrow>
          sbind (rest_get_json S decode_address_info WBtc (''address/'' @ address) g) (\<lambda>((cf, cs), (mf, ms)) g.
            (Inr (ucast (u64_saturating_sub cf cs) + ucast (u64_saturating_sub mf ms)), g)))"

section \<open>Planning a spend\<close>

record SpendPlan =
  sp_selected :: "Utxo list"
  sp_fee_sats :: u64
  sp_change_sats :: u64

definition fee_for :: "u64 \<Rightarrow> u64 \<Rightarrow> u64 \<Rightarrow> string + u64" where
  "fee_for rate inputs outputs = ok_or ''amount + fee overflow'' (checked_mul rate (estimated_vbytes inputs outputs))"

definition insufficient_btc :: "u64 \<Rightarrow> u64 \<Rightarrow> u64 \<Rightarrow> string" where
  "insufficient_btc have_sats amount fee =
     ''insufficient BTC: have '' @ show_nat (unat have_sats) @ '' sats, need '' @ show_nat (unat (saturating_add amount fee)) @
     '' (amount '' @ show_nat (unat amount) @ '' + fee '' @ show_nat (unat fee) @ '')''"

text \<open>The loop: each input is added and the transaction priced anew, with and without change.\<close>

fun plan_loop :: "u64 \<Rightarrow> u64 \<Rightarrow> Utxo list \<Rightarrow> u64 \<Rightarrow> Utxo list \<Rightarrow> string + SpendPlan" where
  "plan_loop amount rate [] acc chosen =
     rbind (fee_for rate (of_nat (length chosen)) 1) (\<lambda>fee. Inl (insufficient_btc acc amount fee))"
| "plan_loop amount rate (utxo # rest) acc chosen =
     rbind (ok_or ''utxo sum overflow'' (checked_add acc (utxo_value utxo))) (\<lambda>acc.
       let chosen = chosen @ [utxo]; inputs = of_nat (length chosen) in
       rbind (fee_for rate inputs 2) (\<lambda>fee_with_change.
       rbind (fee_for rate inputs 1) (\<lambda>fee_without_change.
         let with_change = saturating_add amount fee_with_change in
         if acc \<ge> with_change \<and> acc - with_change > DUST_THRESHOLD_SATS then
           Inr \<lparr>sp_selected = chosen, sp_fee_sats = fee_with_change, sp_change_sats = acc - with_change\<rparr>
         else if acc \<ge> saturating_add amount fee_without_change then
           Inr \<lparr>sp_selected = chosen, sp_fee_sats = acc - amount, sp_change_sats = 0\<rparr>
         else plan_loop amount rate rest acc chosen)))"

definition plan_spend :: "Utxo list \<Rightarrow> u64 \<Rightarrow> u64 \<Rightarrow> string + SpendPlan" where
  "plan_spend utxos amount rate =
     rbind (fee_for rate 1 1) (\<lambda>fee.
     rbind (ok_or ''amount + fee overflow'' (checked_add fee amount)) (\<lambda>_.
       plan_loop amount rate (sort_descending utxos) 0 []))"

section \<open>Executing\<close>

definition fetch_utxos :: "'g seams \<Rightarrow> string \<Rightarrow> 'g \<Rightarrow> (string + Utxo list) \<times> 'g" where
  "fetch_utxos S address = rest_get_json S decode_utxos WBtc (''address/'' @ address @ ''/utxo'')"

definition broadcast_raw_hex :: "'g seams \<Rightarrow> string \<Rightarrow> 'g \<Rightarrow> (string + string) \<times> 'g" where
  "broadcast_raw_hex S tx_hex = rest_post_text S WBtc ''tx'' tx_hex ''text/plain''"

definition execute_btc_quote :: "prims \<Rightarrow> 'g seams \<Rightarrow> PreparedTransaction \<Rightarrow> 'g \<Rightarrow> (string + ExecutionResult) \<times> 'g" where
  "execute_btc_quote p S quote g =
     (if pt_kind quote \<noteq> NativeTransferKind then (Inl ''BTC only supports native transfers; got kind TokenTransfer'', g)
      else case parse_field_u64 ''BTC'' (pt_amount_raw quote) of
        Inl e \<Rightarrow> (Inl e, g)
      | Inr amount_sats \<Rightarrow>
        (case validate_btc_sender_address p (pt_from_address quote) of
           Inl e \<Rightarrow> (Inl e, g)
         | Inr _ \<Rightarrow>
        (case validate_btc_address p (pt_to_address quote) of
           Inl e \<Rightarrow> (Inl e, g)
         | Inr _ \<Rightarrow>
           sbind (fetch_utxos S (pt_from_address quote) g) (\<lambda>utxos g.
             if utxos = [] then (Inl (''no spendable UTXOs for '' @ pt_from_address quote), g)
             else case plan_spend utxos amount_sats DEFAULT_FEE_RATE_SAT_VB of
               Inl e \<Rightarrow> (Inl e, g)
             | Inr plan \<Rightarrow>
               sbind (sm_sign_transaction S WBtc (BtcSpec (pt_from_address quote) (pt_to_address quote) amount_sats
                        (sp_fee_sats plan) (sp_selected plan)) g) (\<lambda>signed_tx g.
               sbind (broadcast_raw_hex S (st_raw signed_tx) g) (\<lambda>txid_hex g.
                 let quote = quote\<lparr>pt_estimated_fee_raw := show_nat (unat (sp_fee_sats plan)), pt_status := Broadcasted\<rparr> in
                 (Inr \<lparr>er_quote_id = pt_quote_id quote, er_status = Broadcasted, er_chain = WBtc, er_evm_network = None,
                       er_transaction_hash = txid_hex, er_explorer_url = explorer_url S WBtc txid_hex,
                       er_transaction = quote\<rparr>, g)))))))"

section \<open>Queries\<close>

fun contains_text :: "string \<Rightarrow> string \<Rightarrow> bool" where
  "contains_text [] needle \<longleftrightarrow> needle = []"
| "contains_text (c # cs) needle \<longleftrightarrow> take (length needle) (c # cs) = needle \<or> contains_text cs needle"

definition is_not_found :: "string \<Rightarrow> bool" where
  "is_not_found e \<longleftrightarrow> contains_text e ''status=404''"

definition btc_status_row :: "string \<Rightarrow> TxState \<Rightarrow> u64 option \<Rightarrow> u64 option \<Rightarrow> TxStatusInfo" where
  "btc_status_row hash state confirmations block =
     \<lparr>ts_chain = WBtc, ts_evm_network = None, ts_hash = hash, ts_state = state, ts_confirmations = confirmations,
      ts_block_number = block\<rparr>"

definition btc_tx_status :: "'g seams \<Rightarrow> string \<Rightarrow> 'g \<Rightarrow> (string + TxStatusInfo) \<times> 'g" where
  "btc_tx_status S hash g =
     (case rest_get_json S Some WBtc (''tx/'' @ hash @ ''/status'') g of
        (Inl e, g) \<Rightarrow> if is_not_found e then (Inr (btc_status_row hash TxNotFound None None), g) else (Inl e, g)
      | (Inr status, g) \<Rightarrow>
          if \<not> option_or False (Option.bind (json_get ''confirmed'' status) as_bool) then
            (Inr (btc_status_row hash TxPending (Some 0) None), g)
          else case Option.bind (json_get ''block_height'' status) as_u64 of
            None \<Rightarrow> (Inr (btc_status_row hash TxConfirmed None None), g)
          | Some bn \<Rightarrow>
              (case rest_get_text S WBtc ''blocks/tip/height'' g of
                 (Inl _, g) \<Rightarrow> (Inr (btc_status_row hash TxConfirmed None (Some bn)), g)
               | (Inr tip, g) \<Rightarrow>
                   (Inr (btc_status_row hash TxConfirmed
                      (case parse_u64 (trim tip) of Inl _ \<Rightarrow> None | Inr tip \<Rightarrow> Some (confirmations_of tip bn)) (Some bn)), g)))"

definition btc_tx_receipt :: "'g seams \<Rightarrow> string \<Rightarrow> 'g \<Rightarrow> (string + TxReceiptInfo) \<times> 'g" where
  "btc_tx_receipt S hash g =
     (case rest_get_json S Some WBtc (''tx/'' @ hash) g of
        (Inl e, g) \<Rightarrow> if is_not_found e then (Inr (missing_receipt WBtc None hash False), g) else (Inl e, g)
      | (Inr tx, g) \<Rightarrow>
          let status = json_get ''status'' tx;
              confirmed = option_or False (Option.bind (Option.bind status (json_get ''confirmed'')) as_bool)
          in (Inr \<lparr>tr_chain = WBtc, tr_evm_network = None, tr_hash = hash, tr_found = True,
                   tr_success = (if confirmed then Some True else None),
                   tr_block_number = Option.bind (Option.bind status (json_get ''block_height'')) as_u64,
                   tr_gas_used = None,
                   tr_fee_raw = map_option (\<lambda>f. show_nat (unat f)) (Option.bind (json_get ''fee'' tx) as_u64),
                   tr_raw = tx\<rparr>, g))"

definition btc_lookup_tx :: "'g seams \<Rightarrow> string \<Rightarrow> 'g \<Rightarrow> (string + TxLookupInfo) \<times> 'g" where
  "btc_lookup_tx S hash g =
     (case rest_get_json S Some WBtc (''tx/'' @ hash) g of
        (Inr tx, g) \<Rightarrow> (Inr \<lparr>tl_chain = WBtc, tl_evm_network = None, tl_hash = hash, tl_found = True, tl_raw = tx\<rparr>, g)
      | (Inl e, g) \<Rightarrow>
          if is_not_found e then
            (Inr \<lparr>tl_chain = WBtc, tl_evm_network = None, tl_hash = hash, tl_found = False, tl_raw = JNull\<rparr>, g)
          else (Inl e, g))"

section \<open>What the plan promises\<close>

text \<open>The price of a transaction, as a number, and the least total at which the loop stops.\<close>

definition priced :: "u64 \<Rightarrow> nat \<Rightarrow> nat \<Rightarrow> nat" where
  "priced rate inputs outputs = unat rate * (11 + 68 * inputs + 31 * outputs)"

definition reach :: "u64 \<Rightarrow> u64 \<Rightarrow> nat \<Rightarrow> nat" where
  "reach amount rate n = min (unat amount + priced rate n 1) (2 ^ 64 - 1)"

lemma reach_mono: "m \<le> n \<Longrightarrow> reach amount rate m \<le> reach amount rate n"
  by (simp add: reach_def priced_def min.coboundedI1 min.coboundedI2)

lemma unat_estimated_vbytes:
  assumes "n < 2 ^ 32" and "outputs \<le> 2"
  shows "unat (estimated_vbytes (of_nat n) (of_nat outputs)) = 11 + 68 * n + 31 * outputs"
proof -
  have "estimated_vbytes (of_nat n) (of_nat outputs) = of_nat (11 + 68 * n + 31 * outputs)"
    by (simp add: estimated_vbytes_def TX_OVERHEAD_VBYTES_def P2WPKH_INPUT_VBYTES_def P2WPKH_OUTPUT_VBYTES_def mult.commute)
  moreover have "11 + 68 * n + 31 * outputs < 2 ^ 64" using assms by simp
  ultimately show ?thesis by (simp only: unat_of_nat) simp
qed

lemma fee_for_Inr:
  assumes "n < 2 ^ 32" and "outputs \<le> 2"
  shows "fee_for rate (of_nat n) (of_nat outputs) = Inr fee \<longleftrightarrow> unat fee = priced rate n outputs"
proof -
  have "fee_for rate (of_nat n) (of_nat outputs) = Inr fee \<longleftrightarrow>
      checked_mul rate (estimated_vbytes (of_nat n) (of_nat outputs)) = Some fee"
    by (simp add: fee_for_def)
  also have "\<dots> \<longleftrightarrow> unat fee = unat rate * unat (estimated_vbytes (of_nat n) (of_nat outputs))"
    using unat_u64_less [of fee] by (auto simp: checked_mul_Some)
  finally show ?thesis using unat_estimated_vbytes [OF assms] by (simp add: priced_def)
qed

lemmas fee_for_one = fee_for_Inr [where outputs = 1, simplified]
lemmas fee_for_two = fee_for_Inr [where outputs = 2, simplified]

text \<open>A plan: the inputs cover the amount, the fee and the change exactly; the fee pays for the weight;
  one input fewer would not have sufficed.\<close>

definition planned :: "u64 \<Rightarrow> u64 \<Rightarrow> SpendPlan \<Rightarrow> bool" where
  "planned amount rate plan \<longleftrightarrow>
     (let inputs = sp_selected plan; n = length inputs in
      inputs \<noteq> [] \<and>
      total_sat inputs = unat amount + unat (sp_fee_sats plan) + unat (sp_change_sats plan) \<and> total_sat inputs < 2 ^ 64 \<and>
      (sp_change_sats plan = 0 \<and> reach amount rate n \<le> total_sat inputs \<or>
       546 < unat (sp_change_sats plan) \<and> unat (sp_fee_sats plan) = priced rate n 2) \<and>
      (n = 1 \<or> total_sat (butlast inputs) < reach amount rate (n - 1)))"

lemma plan_loop_step:
  assumes acc: "unat acc = total_sat chosen" and small: "Suc (length chosen) < 2 ^ 32"
    and plan: "plan_loop amount rate (u # rest) acc chosen = Inr plan"
    and before: "chosen = [] \<or> total_sat chosen < reach amount rate (length chosen)"
  shows "planned amount rate plan \<and> sp_selected plan = chosen @ [u] \<or>
    plan_loop amount rate rest (acc + utxo_value u) (chosen @ [u]) = Inr plan \<and>
    unat (acc + utxo_value u) = total_sat (chosen @ [u]) \<and> total_sat (chosen @ [u]) < reach amount rate (length (chosen @ [u]))"
proof -
  let ?n = "Suc (length chosen)"
  from plan obtain acc' f2 f1 where a: "checked_add acc (utxo_value u) = Some acc'"
    and f: "fee_for rate (of_nat ?n) 2 = Inr f2" "fee_for rate (of_nat ?n) 1 = Inr f1"
    and cases: "(if acc' \<ge> saturating_add amount f2 \<and> acc' - saturating_add amount f2 > DUST_THRESHOLD_SATS then
           Inr \<lparr>sp_selected = chosen @ [u], sp_fee_sats = f2, sp_change_sats = acc' - saturating_add amount f2\<rparr>
         else if acc' \<ge> saturating_add amount f1 then
           Inr \<lparr>sp_selected = chosen @ [u], sp_fee_sats = acc' - amount, sp_change_sats = 0\<rparr>
         else plan_loop amount rate rest acc' (chosen @ [u])) = Inr plan"
    by (auto simp: result_simps Let_def)
  have "acc' = acc + utxo_value u" using a by (simp add: checked_add_def split: if_splits)
  then have t: "unat acc' = total_sat (chosen @ [u])" "total_sat (chosen @ [u]) < 2 ^ 64" "acc' = acc + utxo_value u"
    using a acc by (auto simp: checked_add_Some)
  have fees: "unat f2 = priced rate ?n 2" "unat f1 = priced rate ?n 1"
    using f fee_for_one [of ?n rate f1] fee_for_two [of ?n rate f2] small by simp_all
  have sums: "unat (saturating_add amount f2) = min (unat amount + priced rate ?n 2) (2 ^ 64 - 1)"
    "unat (saturating_add amount f1) = reach amount rate ?n"
    by (simp_all add: unat_saturating_add fees reach_def)
  have before': "?n = 1 \<or> total_sat chosen < reach amount rate (?n - 1)" using before by auto
  show ?thesis
  proof (cases "acc' \<ge> saturating_add amount f2 \<and> acc' - saturating_add amount f2 > DUST_THRESHOLD_SATS")
    case True
    then have d: "unat (acc' - saturating_add amount f2) = unat acc' - unat (saturating_add amount f2)"
      by (simp add: unat_sub_le)
    have big: "546 < unat acc' - unat (saturating_add amount f2)"
      using True d by (simp add: DUST_THRESHOLD_SATS_def word_less_nat_alt)
    then have "unat (saturating_add amount f2) < 2 ^ 64 - 1" using t(1,2) by linarith
    then have "unat (saturating_add amount f2) = unat amount + unat f2" using sums(1) fees(1) by linarith
    then show ?thesis
      using True cases t(1,2) d big before' fees(1) by (auto simp: planned_def Let_def)
  next
    case False
    show ?thesis
    proof (cases "acc' \<ge> saturating_add amount f1")
      case True
      then have r: "reach amount rate ?n \<le> total_sat (chosen @ [u])" using sums(2) t(1) by (simp add: word_le_nat_alt)
      have "unat amount < 2 ^ 64" by (rule unat_u64_less)
      then have "unat amount \<le> reach amount rate ?n" by (simp add: reach_def)
      with r t(1) have "amount \<le> acc'" by (simp add: word_le_nat_alt)
      then have "unat (acc' - amount) = total_sat (chosen @ [u]) - unat amount" using t(1) by (simp add: unat_sub_le)
      with r \<open>amount \<le> acc'\<close> show ?thesis
        using False True cases t before' by (auto simp: planned_def Let_def word_le_nat_alt)
    next
      case f1: False
      then have "total_sat (chosen @ [u]) < reach amount rate ?n" using sums(2) t(1) by (simp add: word_le_nat_alt)
      moreover have "plan_loop amount rate rest acc' (chosen @ [u]) = Inr plan" using cases False f1 by (simp only: if_False)
      ultimately show ?thesis using t by simp
    qed
  qed
qed

lemma plan_loop_Inr:
  assumes "unat acc = total_sat chosen" and "length chosen + length rest < 2 ^ 32"
    and "chosen = [] \<or> total_sat chosen < reach amount rate (length chosen)"
    and "plan_loop amount rate rest acc chosen = Inr plan"
  shows "planned amount rate plan \<and> (\<exists>k. sp_selected plan = chosen @ take k rest)"
  using assms
proof (induction rest arbitrary: acc chosen)
  case Nil
  then show ?case by (simp add: result_simps)
next
  case (Cons u rest)
  have "planned amount rate plan \<and> sp_selected plan = chosen @ [u] \<or>
    plan_loop amount rate rest (acc + utxo_value u) (chosen @ [u]) = Inr plan \<and>
    unat (acc + utxo_value u) = total_sat (chosen @ [u]) \<and> total_sat (chosen @ [u]) < reach amount rate (length (chosen @ [u]))"
    using plan_loop_step [OF Cons.prems(1) _ Cons.prems(4,3)] Cons.prems(2) by simp
  then show ?case
  proof
    assume "planned amount rate plan \<and> sp_selected plan = chosen @ [u]"
    then show ?thesis by (auto intro: exI [of _ 1])
  next
    assume step: "plan_loop amount rate rest (acc + utxo_value u) (chosen @ [u]) = Inr plan \<and>
      unat (acc + utxo_value u) = total_sat (chosen @ [u]) \<and> total_sat (chosen @ [u]) < reach amount rate (length (chosen @ [u]))"
    have "planned amount rate plan \<and> (\<exists>k. sp_selected plan = (chosen @ [u]) @ take k rest)"
      using Cons.IH [of "acc + utxo_value u" "chosen @ [u]"] step Cons.prems(2) by simp
    then obtain k where "planned amount rate plan" "sp_selected plan = chosen @ take (Suc k) (u # rest)" by auto
    then show ?thesis by blast
  qed
qed

lemma plan_spend_planned:
  assumes "plan_spend utxos amount rate = Inr plan" and "length utxos < 2 ^ 32"
  shows "planned amount rate plan" and "\<exists>k. sp_selected plan = take k (sort_descending utxos)"
  using plan_loop_Inr [of 0 "[]" "sort_descending utxos" amount rate plan] assms
  by (auto simp: plan_spend_def result_simps sort_descending_props(2))

lemma sorted_prefix_id: "sort_descending (take k (sort_descending us)) = take k (sort_descending us)"
proof -
  have "sorted (map (\<lambda>u. - int (sat u)) (take k (sort_descending us)))"
    by (simp add: sort_descending_def sorted_wrt_take flip: take_map)
  then show ?thesis unfolding sort_descending_def by (rule sort_key_id_if_sorted)
qed



end
