(* ===== verification/TW_Chain_Evm.thy ===== *)
theory TW_Chain_Evm
  imports TW_Engine
begin

text \<open>
  EVM transfers of the wallet engine: \<open>tinywallet-web3/src/crypto/chains/evm/mod.rs\<close> and the wording of
  calldata errors in \<open>crypto/abi/mod.rs\<close>. Signing and broadcasting of a prepared transfer and of an
  externally built transaction, and the status queries.
\<close>

section \<open>Calldata\<close>

fun abi_error_to_string :: "abi_error \<Rightarrow> string" where
  "abi_error_to_string (InvalidRecipient reason) = ''invalid recipient: '' @ reason"
| "abi_error_to_string (InvalidAmount reason) = ''invalid amount: '' @ reason"

fun flatten_abi :: "string \<Rightarrow> string \<Rightarrow> abi_error \<Rightarrow> string" where
  "flatten_abi to_address amount_raw (InvalidRecipient reason) =
     ''invalid EVM recipient address '' @ apostrophes to_address @ '': '' @ abi_error_to_string (InvalidRecipient reason)"
| "flatten_abi to_address amount_raw (InvalidAmount reason) =
     ''amount '' @ apostrophes amount_raw @ '' is not a valid non-negative integer''"

definition web3_encode_erc20_transfer :: "string \<Rightarrow> string \<Rightarrow> string + string" where
  "web3_encode_erc20_transfer to_address amount_raw =
     map_err (flatten_abi to_address amount_raw) (abi_encode_erc20_transfer to_address amount_raw)"

section \<open>Signing and broadcasting\<close>

definition evm_balance :: "'g seams \<Rightarrow> EvmNetwork \<Rightarrow> string \<Rightarrow> 'g \<Rightarrow> (string + u128) \<times> 'g" where
  "evm_balance S n address g =
     sbind (evm_rpc_call S decode_string n ''eth_getBalance'' (JArr [JStr address, JStr ''latest'']) g) (\<lambda>raw g.
       (hex_to_u128 raw, g))"

record NodeParams =
  np_chain_id :: u64
  np_nonce :: u64
  np_gas_price :: u128
  np_gas_limit :: u64

definition implausible_u64 :: "string \<Rightarrow> string \<Rightarrow> string + u64" where
  "implausible_u64 what hex =
     rbind (hex_to_u128 hex) (\<lambda>v.
       if unat v < 2 ^ 64 then Inr (ucast v)
       else Inl (''EVM RPC reported an implausible '' @ what @ '' '' @ apostrophes hex))"

text \<open>What the four answers of the node give, checked against the network that was asked for.\<close>

definition check_node_params :: "EvmNetwork \<Rightarrow> string \<Rightarrow> string \<Rightarrow> string \<Rightarrow> string \<Rightarrow> string + NodeParams" where
  "check_node_params n chain_id_hex nonce_hex gas_price_hex gas_hex =
     rbind (implausible_u64 ''chain_id'' chain_id_hex) (\<lambda>chain_id.
     if chain_id \<noteq> evm_chain_id_of n then
       Inl (''EVM RPC chain_id mismatch: rpc reported '' @ show_nat (unat chain_id) @ '' but network '' @ evm_as_str n @
            '' expects '' @ show_nat (unat (evm_chain_id_of n)))
     else
     rbind (implausible_u64 ''nonce'' nonce_hex) (\<lambda>nonce.
     rbind (hex_to_u128 gas_price_hex) (\<lambda>gas_price.
     rbind (implausible_u64 ''gas limit'' gas_hex) (\<lambda>gas_limit.
       Inr \<lparr>np_chain_id = chain_id, np_nonce = nonce, np_gas_price = gas_price, np_gas_limit = gas_limit\<rparr>))))"

definition node_params :: "'g seams \<Rightarrow> EvmNetwork \<Rightarrow> string \<Rightarrow> json \<Rightarrow> 'g \<Rightarrow> (string + NodeParams) \<times> 'g" where
  "node_params S n from_address estimate_tx g =
     sbind (evm_rpc_call S decode_string n ''eth_chainId'' (JArr []) g) (\<lambda>chain_id_hex g.
     sbind (evm_rpc_call S decode_string n ''eth_getTransactionCount'' (JArr [JStr from_address, JStr ''pending'']) g) (\<lambda>nonce_hex g.
     sbind (evm_rpc_call S decode_string n ''eth_gasPrice'' (JArr []) g) (\<lambda>gas_price_hex g.
     sbind (evm_rpc_call S decode_string n ''eth_estimateGas'' (JArr [estimate_tx]) g) (\<lambda>gas_hex g.
       (check_node_params n chain_id_hex nonce_hex gas_price_hex gas_hex, g)))))"

definition estimate_request :: "string \<Rightarrow> string \<Rightarrow> u128 \<Rightarrow> string option \<Rightarrow> json" where
  "estimate_request from_address to amount call_data =
     JObj ([(''from'', JStr from_address), (''to'', JStr to), (''value'', JStr (u128_to_hex amount))] @
           (case call_data of None \<Rightarrow> [] | Some d \<Rightarrow> [(''data'', JStr d)]))"

definition parse_native_value :: "string \<Rightarrow> string + u128" where
  "parse_native_value value_raw =
     rbind (map_err (\<lambda>e. ''invalid native value '' @ apostrophes value_raw @ '': '' @ e)
              (parse_uint (2 ^ 128) (trim value_raw))) (\<lambda>n. Inr (of_nat n))"

definition evm_spec :: "string \<Rightarrow> u128 \<Rightarrow> string option \<Rightarrow> NodeParams \<Rightarrow> TransactionSpec" where
  "evm_spec to amount call_data np =
     EvmSpec to (show_nat (unat amount)) (option_or [] call_data) (np_nonce np) (np_gas_limit np)
       (show_nat (unat (np_gas_price np))) (np_chain_id np)"

definition sign_and_broadcast :: "'g seams \<Rightarrow> EvmNetwork \<Rightarrow> string \<Rightarrow> string \<Rightarrow> string \<Rightarrow> string option \<Rightarrow> 'g \<Rightarrow>
    (string + (string \<times> u128)) \<times> 'g" where
  "sign_and_broadcast S n from_address to value_raw call_data g =
     (case map_err (\<lambda>e. ''invalid EVM target address '' @ apostrophes to @ '': '' @ error_to_string e) (evm_validate to) of
        Inl e \<Rightarrow> (Inl e, g)
      | Inr to \<Rightarrow>
        (case parse_native_value value_raw of
           Inl e \<Rightarrow> (Inl e, g)
         | Inr amount \<Rightarrow>
           sbind (node_params S n from_address (estimate_request from_address to amount call_data) g) (\<lambda>np g.
           sbind (sm_sign_transaction S WEvm (evm_spec to amount call_data np) g) (\<lambda>signed_tx g.
           sbind (evm_rpc_call S decode_string n ''eth_sendRawTransaction'' (JArr [JStr (st_raw signed_tx)]) g) (\<lambda>tx_hash g.
             (Inr (tx_hash, option_or 0 (checked_mul (np_gas_price np) (ucast (np_gas_limit np)))), g))))))"

text \<open>What a quote asks for: the target, the native value and the calldata.\<close>

definition quote_target :: "PreparedTransaction \<Rightarrow> string + (string \<times> string \<times> string option)" where
  "quote_target quote =
     (case pt_kind quote of
        NativeTransferKind \<Rightarrow>
          rbind (map_err (\<lambda>e. ''invalid EVM recipient address '' @ apostrophes (pt_to_address quote) @ '': '' @ error_to_string e)
                   (evm_validate (pt_to_address quote))) (\<lambda>to.
            Inr (to, pt_amount_raw quote, None))
      | TokenTransferKind \<Rightarrow>
          rbind (ok_or ''prepared token transfer is missing token_address'' (pt_token_address quote)) (\<lambda>token.
          rbind (web3_encode_erc20_transfer (pt_to_address quote) (pt_amount_raw quote)) (\<lambda>calldata.
          rbind (map_err (\<lambda>e. ''invalid ERC20 token contract address '' @ apostrophes token @ '': '' @ error_to_string e)
                   (evm_validate token)) (\<lambda>contract.
            Inr (contract, ''0'', Some calldata)))))"

definition execute_evm_quote :: "'g seams \<Rightarrow> PreparedTransaction \<Rightarrow> 'g \<Rightarrow> (string + ExecutionResult) \<times> 'g" where
  "execute_evm_quote S quote g =
     (let n = option_or EthereumMainnet (pt_evm_network quote) in
      case quote_target quote of
        Inl e \<Rightarrow> (Inl e, g)
      | Inr (target, amount_text, call_data) \<Rightarrow>
          sbind (sign_and_broadcast S n (pt_from_address quote) target amount_text call_data g) (\<lambda>(tx_hash, fee) g.
            let quote = quote\<lparr>pt_estimated_fee_raw := show_nat (unat fee), pt_status := Broadcasted\<rparr> in
            (Inr \<lparr>er_quote_id = pt_quote_id quote, er_status = Broadcasted, er_chain = WEvm, er_evm_network = Some n,
                  er_transaction_hash = tx_hash, er_explorer_url = explorer_tx_url_for_evm_network n tx_hash,
                  er_transaction = quote\<rparr>, g)))"

definition sign_and_broadcast_evm :: "'g seams \<Rightarrow> EvmNetwork \<Rightarrow> string \<Rightarrow> string option \<Rightarrow> string \<Rightarrow> 'g \<Rightarrow>
    (string + RawBroadcastResult) \<times> 'g" where
  "sign_and_broadcast_evm S n to data_hex value_raw g =
     sbind (require_evm_account S g) (\<lambda>account g.
       case (case data_hex of None \<Rightarrow> Inr None | Some d \<Rightarrow> rbind (validate_calldata d) (\<lambda>d. Inr (Some d))) of
         Inl e \<Rightarrow> (Inl e, g)
       | Inr data \<Rightarrow>
           sbind (sign_and_broadcast S n account to value_raw data g) (\<lambda>(tx_hash, fee) g.
             (Inr \<lparr>rb_transaction_hash = tx_hash, rb_explorer_url = explorer_tx_url_for_evm_network n tx_hash,
                   rb_fee_raw = Some (show_nat (unat fee))\<rparr>, g)))"

section \<open>Queries\<close>

definition hex_field :: "json \<Rightarrow> string \<Rightarrow> u128 option" where
  "hex_field v key =
     Option.bind (Option.bind (json_get key v) as_str) (\<lambda>s. case hex_to_u128 s of Inl _ \<Rightarrow> None | Inr n \<Rightarrow> Some n)"

definition receipt_success :: "json \<Rightarrow> bool option" where
  "receipt_success receipt = map_option (\<lambda>s. hex_to_u128 s \<noteq> Inr 0) (Option.bind (json_get ''status'' receipt) as_str)"

definition u128_to_u64_saturating :: "u128 \<Rightarrow> u64" where
  "u128_to_u64_saturating v = (if unat v < 2 ^ 64 then ucast v else - 1)"

definition block_number_of :: "json \<Rightarrow> u64 option" where
  "block_number_of receipt = map_option u128_to_u64_saturating (hex_field receipt ''blockNumber'')"

definition evm_status_row :: "EvmNetwork \<Rightarrow> string \<Rightarrow> TxState \<Rightarrow> u64 option \<Rightarrow> u64 option \<Rightarrow> TxStatusInfo" where
  "evm_status_row n hash state confirmations block =
     \<lparr>ts_chain = WEvm, ts_evm_network = Some n, ts_hash = hash, ts_state = state, ts_confirmations = confirmations,
      ts_block_number = block\<rparr>"

definition evm_tx_status :: "'g seams \<Rightarrow> EvmNetwork \<Rightarrow> string \<Rightarrow> 'g \<Rightarrow> (string + TxStatusInfo) \<times> 'g" where
  "evm_tx_status S n hash g =
     sbind (evm_rpc_call S Some n ''eth_getTransactionReceipt'' (JArr [JStr hash]) g) (\<lambda>receipt g.
       if is_null receipt then
         sbind (evm_rpc_call S Some n ''eth_getTransactionByHash'' (JArr [JStr hash]) g) (\<lambda>tx g.
           (Inr (evm_status_row n hash (if is_null tx then TxNotFound else TxPending) None None), g))
       else
         let state = (if option_or True (receipt_success receipt) then TxConfirmed else TxFailed) in
         case block_number_of receipt of
           None \<Rightarrow> (Inr (evm_status_row n hash state None None), g)
         | Some bn \<Rightarrow>
             sbind (evm_rpc_call S decode_string n ''eth_blockNumber'' (JArr []) g) (\<lambda>head_hex g.
               (Inr (evm_status_row n hash state
                  (case hex_to_u128 head_hex of Inl _ \<Rightarrow> None
                   | Inr head \<Rightarrow> Some (confirmations_of (u128_to_u64_saturating head) bn)) (Some bn)), g)))"

definition evm_tx_receipt :: "'g seams \<Rightarrow> EvmNetwork \<Rightarrow> string \<Rightarrow> 'g \<Rightarrow> (string + TxReceiptInfo) \<times> 'g" where
  "evm_tx_receipt S n hash g =
     sbind (evm_rpc_call S Some n ''eth_getTransactionReceipt'' (JArr [JStr hash]) g) (\<lambda>receipt g.
       if is_null receipt then
         sbind (evm_rpc_call S Some n ''eth_getTransactionByHash'' (JArr [JStr hash]) g) (\<lambda>tx g.
           (Inr (missing_receipt WEvm (Some n) hash (\<not> is_null tx)), g))
       else
         let gas_used = hex_field receipt ''gasUsed'';
             fee = Option.bind gas_used (\<lambda>u. Option.bind (hex_field receipt ''effectiveGasPrice'') (checked_mul u))
         in (Inr \<lparr>tr_chain = WEvm, tr_evm_network = Some n, tr_hash = hash, tr_found = True,
                  tr_success = receipt_success receipt, tr_block_number = block_number_of receipt,
                  tr_gas_used = map_option (\<lambda>u. show_nat (unat u)) gas_used,
                  tr_fee_raw = map_option (\<lambda>f. show_nat (unat f)) fee, tr_raw = receipt\<rparr>, g))"

definition evm_lookup_tx :: "'g seams \<Rightarrow> EvmNetwork \<Rightarrow> string \<Rightarrow> 'g \<Rightarrow> (string + TxLookupInfo) \<times> 'g" where
  "evm_lookup_tx S n hash g =
     sbind (evm_rpc_call S Some n ''eth_getTransactionByHash'' (JArr [JStr hash]) g) (\<lambda>tx g.
       (Inr \<lparr>tl_chain = WEvm, tl_evm_network = Some n, tl_hash = hash, tl_found = (\<not> is_null tx), tl_raw = tx\<rparr>, g))"

section \<open>What is signed\<close>

lemma check_node_params_chain: "check_node_params n c o1 g l = Inr np \<Longrightarrow> np_chain_id np = evm_chain_id_of n"
  by (auto simp: check_node_params_def result_simps split: if_splits)

lemma node_params_chain: "node_params S n from_address request g = (Inr np, g') \<Longrightarrow> np_chain_id np = evm_chain_id_of n"
  by (auto simp: node_params_def result_simps dest: check_node_params_chain)

lemma sign_and_broadcast_Inr:
  assumes "sign_and_broadcast S n from_address to value_raw call_data g = (Inr (h, fee), g')"
  obtains amount np signed_tx g1 g2 request where "evm_validate to = Inr (trim to)" "parse_native_value value_raw = Inr amount"
    "node_params S n from_address request g = (Inr np, g1)" "np_chain_id np = evm_chain_id_of n"
    "sm_sign_transaction S WEvm (evm_spec (trim to) amount call_data np) g1 = (Inr signed_tx, g2)"
    "evm_rpc_call S decode_string n ''eth_sendRawTransaction'' (JArr [JStr (st_raw signed_tx)]) g2 = (Inr h, g')"
proof -
  obtain t where t: "evm_validate to = Inr t" using assms by (cases "evm_validate to") (auto simp: sign_and_broadcast_def)
  then have "t = trim to" by (simp add: evm_validate_Inr)
  obtain amount where amount: "parse_native_value value_raw = Inr amount"
    using assms t by (cases "parse_native_value value_raw") (auto simp: sign_and_broadcast_def)
  from assms t amount obtain np g1 signed_tx g2 where
    "node_params S n from_address (estimate_request from_address t amount call_data) g = (Inr np, g1)"
    "sm_sign_transaction S WEvm (evm_spec t amount call_data np) g1 = (Inr signed_tx, g2)"
    "evm_rpc_call S decode_string n ''eth_sendRawTransaction'' (JArr [JStr (st_raw signed_tx)]) g2 = (Inr h, g')"
    by (auto simp: sign_and_broadcast_def result_simps)
  with that t amount \<open>t = trim to\<close> node_params_chain show thesis by metis
qed

text \<open>The transaction a prepared transfer describes: a native transfer pays the recipient, a token
  transfer calls the contract with the recipient and the amount in its calldata and no value.\<close>

definition spec_of_quote :: "PreparedTransaction \<Rightarrow> TransactionSpec \<Rightarrow> bool" where
  "spec_of_quote quote spec \<longleftrightarrow>
     (case pt_kind quote of
        NativeTransferKind \<Rightarrow>
          spec_to spec = trim (pt_to_address quote) \<and> spec_data_hex spec = [] \<and>
          (\<exists>amount. parse_uint (2 ^ 128) (trim (pt_amount_raw quote)) = Inr amount \<and> spec_value_wei spec = show_nat amount)
      | TokenTransferKind \<Rightarrow>
          (\<exists>token calldata. pt_token_address quote = Some token \<and> spec_to spec = trim token \<and> spec_value_wei spec = ''0'' \<and>
             abi_encode_erc20_transfer (pt_to_address quote) (pt_amount_raw quote) = Inr calldata \<and> spec_data_hex spec = calldata))"

lemma parse_native_value_Inr:
  "parse_native_value s = Inr v \<Longrightarrow> parse_uint (2 ^ 128) (trim s) = Inr (unat v)"
proof -
  assume "parse_native_value s = Inr v"
  then obtain n where n: "parse_uint (2 ^ 128) (trim s) = Inr n" "v = of_nat n" by (auto simp: parse_native_value_def result_simps)
  then have "n < 2 ^ 128" by (rule_tac parse_uint_less) auto
  with n show ?thesis by (simp add: unat_of_nat)
qed

text \<open>A successful execution: the states in which the node was asked, the transaction signed and sent.\<close>

lemma execute_evm_quote_Inr:
  assumes "execute_evm_quote S quote g = (Inr r, g')"
  obtains spec signed_tx request np g1 g2 where
    "node_params S (option_or EthereumMainnet (pt_evm_network quote)) (pt_from_address quote) request g = (Inr np, g1)"
    "sm_sign_transaction S WEvm spec g1 = (Inr signed_tx, g2)" "spec_of_quote quote spec"
    "spec_chain_id spec = evm_chain_id_of (option_or EthereumMainnet (pt_evm_network quote))"
    "evm_rpc_call S decode_string (option_or EthereumMainnet (pt_evm_network quote)) ''eth_sendRawTransaction''
      (JArr [JStr (st_raw signed_tx)]) g2 = (Inr (er_transaction_hash r), g')"
    "er_transaction r = quote\<lparr>pt_estimated_fee_raw := pt_estimated_fee_raw (er_transaction r), pt_status := Broadcasted\<rparr>"
proof -
  let ?n = "option_or EthereumMainnet (pt_evm_network quote)"
  from assms obtain target amount_text call_data h fee where q: "quote_target quote = Inr (target, amount_text, call_data)"
    and sb: "sign_and_broadcast S ?n (pt_from_address quote) target amount_text call_data g = (Inr (h, fee), g')"
    and r: "er_transaction_hash r = h"
      "er_transaction r = quote\<lparr>pt_estimated_fee_raw := show_nat (unat fee), pt_status := Broadcasted\<rparr>"
    by (auto simp: execute_evm_quote_def Let_def result_simps split: sum.splits)
  obtain amount np signed_tx g1 g2 request where s: "parse_native_value amount_text = Inr amount" "np_chain_id np = evm_chain_id_of ?n"
    "sm_sign_transaction S WEvm (evm_spec (trim target) amount call_data np) g1 = (Inr signed_tx, g2)"
    "evm_rpc_call S decode_string ?n ''eth_sendRawTransaction'' (JArr [JStr (st_raw signed_tx)]) g2 = (Inr h, g')"
    "node_params S ?n (pt_from_address quote) request g = (Inr np, g1)"
    by (rule sign_and_broadcast_Inr [OF sb]) blast
  note v = parse_native_value_Inr [OF s(1)]
  have "spec_of_quote quote (evm_spec (trim target) amount call_data np)"
  proof (cases "pt_kind quote")
    case NativeTransferKind
    then show ?thesis
      using q v by (auto simp: quote_target_def spec_of_quote_def evm_spec_def result_simps option_or_def evm_validate_Inr)
  next
    case TokenTransferKind
    have "trim ''0'' = ''0''" by code_simp
    then have "parse_uint (2 ^ 128) (trim ''0'') = Inr 0" by (simp add: parse_uint_def is_ascii_digit_def)
    with TokenTransferKind show ?thesis
      using q v by (auto simp: quote_target_def spec_of_quote_def evm_spec_def result_simps option_or_def
          web3_encode_erc20_transfer_def evm_validate_Inr show_nat_0)
  qed
  moreover have "spec_chain_id (evm_spec (trim target) amount call_data np) = evm_chain_id_of ?n" by (simp add: evm_spec_def s(2))
  moreover have "er_transaction r = quote\<lparr>pt_estimated_fee_raw := pt_estimated_fee_raw (er_transaction r), pt_status := Broadcasted\<rparr>"
    by (simp add: r(2))
  ultimately show thesis using that [OF s(5,3)] s(4) unfolding r(1) by blast
qed

text \<open>
  C14: When the execution of a prepared EVM transfer succeeds, what the wallet signed and broadcast is a
  transaction with the chain id of the quote's network that does exactly what the quote says.
\<close>

theorem evm_execution_signs_quote:
  assumes "execute_evm_quote S quote g = (Inr r, g')"
  shows "\<exists>spec signed_tx g1 g2. sm_sign_transaction S WEvm spec g1 = (Inr signed_tx, g2) \<and>
    spec_of_quote quote spec \<and> spec_chain_id spec = evm_chain_id_of (option_or EthereumMainnet (pt_evm_network quote)) \<and>
    evm_rpc_call S decode_string (option_or EthereumMainnet (pt_evm_network quote)) ''eth_sendRawTransaction''
      (JArr [JStr (st_raw signed_tx)]) g2 = (Inr (er_transaction_hash r), g') \<and>
    er_transaction r = quote\<lparr>pt_estimated_fee_raw := pt_estimated_fee_raw (er_transaction r), pt_status := Broadcasted\<rparr>"
  using execute_evm_quote_Inr [OF assms] by metis

lemma sample_evm_validate:
  "evm_validate ''0x0000000000000000000000000000000000000002'' = Inr ''0x0000000000000000000000000000000000000002''"
  by code_simp

lemma sample_sign:
  "\<exists>h fee. sign_and_broadcast sample_seams EthereumMainnet a ''0x0000000000000000000000000000000000000002'' ''7'' None g = (Inr (h, fee), g)"
proof -
  have "trim ''0x1'' = ''0x1''" "strip_prefix ''0x'' ''0x1'' = Some ''1''" "hex_val (CHR ''1'') = Some 1" by code_simp+
  then have h: "hex_to_u128 ''0x1'' = Inr 1" by (simp add: hex_to_u128_def parse_hex_uint_def)
  have "trim ''7'' = ''7''" by code_simp
  then have v: "parse_native_value ''7'' = Inr 7" by (simp add: parse_native_value_def parse_uint_def is_ascii_digit_def)
  have call: "evm_rpc_call sample_seams decode_string n m ps g = (Inr ''0x1'', g)" for n m ps and g :: 'a
    by (simp add: evm_rpc_call_def json_rpc_def sample_seams_def decode_string_def)
  have sgn: "sm_sign_transaction sample_seams c spec g = (Inr \<lparr>st_raw = ''0xsigned'', st_txid = None\<rparr>, g)" for c spec and g :: 'a
    by (simp add: sample_seams_def)
  have np: "check_node_params EthereumMainnet ''0x1'' ''0x1'' ''0x1'' ''0x1'' =
      Inr \<lparr>np_chain_id = 1, np_nonce = 1, np_gas_price = 1, np_gas_limit = 1\<rparr>"
    by (simp add: check_node_params_def implausible_u64_def h)
  show ?thesis
    by (simp add: sign_and_broadcast_def sample_evm_validate v node_params_def call np sgn)
qed

lemma sample_execution: "\<exists>r. execute_evm_quote sample_seams sample_quote g = (Inr r, g)"
proof -
  obtain h fee where "sign_and_broadcast sample_seams EthereumMainnet ''0x0000000000000000000000000000000000000001''
      ''0x0000000000000000000000000000000000000002'' ''7'' None g = (Inr (h, fee), g)"
    using sample_sign [of "''0x0000000000000000000000000000000000000001''" g] by (elim exE)
  then show ?thesis
    by (simp add: execute_evm_quote_def sample_quote_def option_or_def quote_target_def sample_evm_validate)
qed

theorem evm_execution_signs_quote_witness:
  "\<exists>(spec :: TransactionSpec). spec_of_quote sample_quote spec \<and> spec_chain_id spec = 1"
proof -
  obtain r where "execute_evm_quote sample_seams sample_quote () = (Inr r, ())"
    using sample_execution [of "()"] by (rule exE)
  from evm_execution_signs_quote [OF this] show ?thesis by (auto simp: sample_quote_def option_or_def)
qed

end
