(* ===== verification/TW_Chain_Solana.thy ===== *)
theory TW_Chain_Solana
  imports TW_Engine TW_Chain_Tron
begin

text \<open>
  Solana transfers of the wallet engine: \<open>tinywallet-web3/src/crypto/chains/solana/mod.rs\<close>,
  \<open>versioned.rs\<close> over the engine's seams, and \<open>queries.rs\<close>. The \<open>base64\<close> crate is \<open>b64_crate\<close>.
\<close>

record b64_crate =
  b64_encode :: "bytes \<Rightarrow> string"
  b64_decode :: "string \<Rightarrow> string + bytes"

definition decode_value_u64 :: "json \<Rightarrow> u64 option" where
  "decode_value_u64 v = Option.bind (json_get ''value'' v) as_u64"

definition decode_value :: "json \<Rightarrow> json option" where
  "decode_value v = json_get ''value'' v"

definition decode_blockhash_response :: "json \<Rightarrow> string option" where
  "decode_blockhash_response v = Option.bind (Option.bind (json_get ''value'' v) (json_get ''blockhash'')) as_str"

definition validate_solana_address :: "prims \<Rightarrow> string \<Rightarrow> string + string" where
  "validate_solana_address p addr = map_err error_to_string (solana_validate p addr)"

definition solana_native_balance :: "prims \<Rightarrow> 'g seams \<Rightarrow> string \<Rightarrow> 'g \<Rightarrow> (string + u128) \<times> 'g" where
  "solana_native_balance p S address g =
     (case validate_solana_address p address of
        Inl e \<Rightarrow> (Inl e, g)
      | Inr _ \<Rightarrow> sbind (rpc_call S decode_value_u64 WSolana ''getBalance'' (JArr [JStr address]) g) (\<lambda>v g. (Inr (ucast v), g)))"

definition signer_pubkey :: "prims \<Rightarrow> 'g seams \<Rightarrow> 'g \<Rightarrow> (string + bytes) \<times> 'g" where
  "signer_pubkey p S g = sbind (sm_derive_account S WSolana g) (\<lambda>account g. (b58_to_pubkey p (da_address account), g))"

text \<open>The local hex reader: a character that is not ASCII at a pair boundary is an error, not a panic.\<close>

fun hex_pairs :: "string \<Rightarrow> string + bytes" where
  "hex_pairs (a # b # rest) =
     (if is_continuation a \<or> (rest \<noteq> [] \<and> is_continuation (hd rest)) then Inl ''invalid hex from the wallet module: not ascii''
      else rbind (ok_or ''invalid hex from the wallet module: invalid digit found in string'' (u8_from_str_radix_16 [a, b])) (\<lambda>x.
        rbind (hex_pairs rest) (\<lambda>xs. Inr (x # xs))))"
| "hex_pairs _ = Inr []"

definition module_hex_to_bytes :: "string \<Rightarrow> string + bytes" where
  "module_hex_to_bytes v = (if length v mod 2 \<noteq> 0 then Inl ''odd-length hex from the wallet module'' else hex_pairs v)"

definition solana_sign :: "'g seams \<Rightarrow> bytes \<Rightarrow> 'g \<Rightarrow> (string + bytes) \<times> 'g" where
  "solana_sign S message g =
     sbind (sm_sign_message S WSolana message Ed25519Message g) (\<lambda>signature g.
       case signature of
         Secp256k1Signature _ _ \<Rightarrow> (Inl ''the wallet module returned a non-ed25519 Solana signature'', g)
       | Ed25519Signature sig_hex \<Rightarrow>
           (rbind (module_hex_to_bytes sig_hex) (\<lambda>bs.
              if length bs = 64 then Inr bs else Inl ''the wallet module returned a malformed Solana signature''), g))"

definition account_exists :: "'g seams \<Rightarrow> string \<Rightarrow> 'g \<Rightarrow> (string + bool) \<times> 'g" where
  "account_exists S address_b58 g =
     sbind (rpc_call S decode_value WSolana ''getAccountInfo'' (JArr [JStr address_b58, JObj [(''encoding'', JStr ''base64'')]]) g) (\<lambda>v g.
       (Inr (\<not> is_null v), g))"

definition solana_recent_blockhash :: "prims \<Rightarrow> 'g seams \<Rightarrow> 'g \<Rightarrow> (string + bytes) \<times> 'g" where
  "solana_recent_blockhash p S g =
     sbind (rpc_call S decode_blockhash_response WSolana ''getLatestBlockhash'' (JArr [JObj [(''commitment'', JStr ''finalized'')]]) g) (\<lambda>bh g.
       (b58_to_pubkey p bh, g))"

definition broadcast_solana :: "b64_crate \<Rightarrow> 'g seams \<Rightarrow> bytes \<Rightarrow> 'g \<Rightarrow> (string + string) \<times> 'g" where
  "broadcast_solana b S wire =
     rpc_call S decode_string WSolana ''sendTransaction''
       (JArr [JStr (b64_encode b wire), JObj [(''encoding'', JStr ''base64''), (''preflightCommitment'', JStr ''processed'')]])"

definition transfer_message :: "prims \<Rightarrow> ed25519 \<Rightarrow> 'g seams \<Rightarrow> PreparedTransaction \<Rightarrow> bytes \<Rightarrow> bytes \<Rightarrow> u64 \<Rightarrow> 'g \<Rightarrow> (string + bytes) \<times> 'g" where
  "transfer_message p ed S quote from_pk to_pubkey amount g =
     sbind (solana_recent_blockhash p S g) (\<lambda>recent_blockhash g.
       case pt_kind quote of
         NativeTransferKind \<Rightarrow> (Inr (build_native_transfer_message from_pk to_pubkey amount recent_blockhash), g)
       | TokenTransferKind \<Rightarrow>
           (case rbind (ok_or ''SPL transfer missing token_address (mint)'' (pt_token_address quote)) (\<lambda>mint_addr.
                 rbind (b58_to_pubkey p mint_addr) (\<lambda>mint.
                 rbind (associated_token_account p ed from_pk mint) (\<lambda>src_ata.
                 rbind (associated_token_account p ed to_pubkey mint) (\<lambda>dst_ata. Inr (mint_addr, src_ata, dst_ata))))) of
              Inl e \<Rightarrow> (Inl e, g)
            | Inr (mint_addr, src_ata, dst_ata) \<Rightarrow>
                sbind (account_exists S (pubkey_to_b58 p dst_ata) g) (\<lambda>found g.
                  if \<not> found then
                    (Inl (''SPL preflight: destination Associated Token Account does not exist for mint '' @ mint_addr @ '' owner '' @
                          pubkey_to_b58 p to_pubkey @ ''; create it before transferring''), g)
                  else (build_spl_transfer_message p from_pk src_ata dst_ata amount recent_blockhash, g))))"

text \<open>The signed wire transaction: a native transfer is described to the signer, an SPL transfer is
  assembled here and signed as a message.\<close>

definition solana_wire :: "prims \<Rightarrow> ed25519 \<Rightarrow> b64_crate \<Rightarrow> 'g seams \<Rightarrow> PreparedTransaction \<Rightarrow> bytes \<Rightarrow> u64 \<Rightarrow> 'g \<Rightarrow> (string + bytes) \<times> 'g" where
  "solana_wire p ed b S quote from_pk amount g =
     (case pt_kind quote of
        NativeTransferKind \<Rightarrow>
          sbind (solana_recent_blockhash p S g) (\<lambda>recent_blockhash g.
          sbind (sm_sign_transaction S WSolana
                   (SolanaSpec (pt_from_address quote) (pt_to_address quote) amount (pubkey_to_b58 p recent_blockhash)) g) (\<lambda>signed_tx g.
            (map_err (\<lambda>e. ''invalid signed Solana transaction: '' @ e) (b64_decode b (st_raw signed_tx)), g)))
      | TokenTransferKind \<Rightarrow>
          (case b58_to_pubkey p (pt_to_address quote) of
             Inl e \<Rightarrow> (Inl e, g)
           | Inr to_pubkey \<Rightarrow>
               sbind (transfer_message p ed S quote from_pk to_pubkey amount g) (\<lambda>message g.
               sbind (solana_sign S message g) (\<lambda>sig_bytes g.
                 (Inr (wire_encode_shortvec 1 @ sig_bytes @ message), g)))))"

definition execute_solana_quote :: "prims \<Rightarrow> ed25519 \<Rightarrow> b64_crate \<Rightarrow> 'g seams \<Rightarrow> PreparedTransaction \<Rightarrow> 'g \<Rightarrow>
    (string + ExecutionResult) \<times> 'g" where
  "execute_solana_quote p ed b S quote g =
     (case rbind (validate_solana_address p (pt_from_address quote)) (\<lambda>_.
           rbind (validate_solana_address p (pt_to_address quote)) (\<lambda>_.
             parse_field_u64 ''Solana'' (pt_amount_raw quote))) of
        Inl e \<Rightarrow> (Inl e, g)
      | Inr amount \<Rightarrow>
          sbind (signer_pubkey p S g) (\<lambda>from_pk g.
          case b58_to_pubkey p (pt_from_address quote) of
            Inl e \<Rightarrow> (Inl e, g)
          | Inr expected_from \<Rightarrow>
              if from_pk \<noteq> expected_from then
                (Inl (''Solana key derivation mismatch: derived '' @ pubkey_to_b58 p from_pk @ '' but expected '' @ pt_from_address quote), g)
              else
              sbind (solana_wire p ed b S quote from_pk amount g) (\<lambda>wire g.
              sbind (broadcast_solana b S wire g) (\<lambda>tx_sig g.
                let quote = quote\<lparr>pt_status := Broadcasted\<rparr> in
                (Inr \<lparr>er_quote_id = pt_quote_id quote, er_status = Broadcasted, er_chain = WSolana, er_evm_network = None,
                      er_transaction_hash = tx_sig, er_explorer_url = explorer_url S WSolana tx_sig,
                      er_transaction = quote\<rparr>, g)))))"

section \<open>Externally built transactions\<close>

text \<open>\<open>sign_and_broadcast_versioned\<close> over the seams, with the layout and slot operations of the wire
  format; a slice out of range would be a panic.\<close>

definition sign_and_broadcast_solana :: "prims \<Rightarrow> hex_crate \<Rightarrow> b64_crate \<Rightarrow> 'g seams \<Rightarrow> string \<Rightarrow> 'g \<Rightarrow> (fault + RawBroadcastResult) \<times> 'g" where
  "sign_and_broadcast_solana p h b S tx_blob_hex g =
     (let trimmed = trim tx_blob_hex;
          normalized = (case strip_prefix ''0x'' trimmed of Some body \<Rightarrow> body | None \<Rightarrow> trimmed) in
      case rbind (map_err (\<lambda>e. Msg (''invalid Solana transaction hex blob: '' @ e)) (hexc_decode h normalized)) (\<lambda>wire.
           rbind (parse_layout wire) (\<lambda>layout. Inr (wire, layout))) of
        Inl e \<Rightarrow> (Inl e, g)
      | Inr (wire, layout) \<Rightarrow>
          sbind (told (signer_pubkey p S g)) (\<lambda>our_pubkey g.
          let message = drop (message_start layout) wire in
          case rbind (find_key message (keys_start layout) our_pubkey [0..<signer_keys layout]) (\<lambda>found.
               rbind (ok_or (Msg (''wallet Solana address '' @ pubkey_to_b58 p our_pubkey @
                        '' is not a required signer of this transaction'')) found) (\<lambda>our_index.
                 if our_index \<ge> num_signatures layout then Inl (Msg ''Solana signer index exceeds signature slot count'')
                 else Inr our_index)) of
            Inl e \<Rightarrow> (Inl e, g)
          | Inr our_index \<Rightarrow>
              sbind (told (solana_sign S message g)) (\<lambda>sig_bytes g.
              case copy_from_slice wire (sigs_start layout + our_index * 64) sig_bytes of
                Inl e \<Rightarrow> (Inl e, g)
              | Inr wire \<Rightarrow>
                  sbind (told (broadcast_solana b S wire g)) (\<lambda>tx_sig g.
                    (Inr \<lparr>rb_transaction_hash = tx_sig, rb_explorer_url = explorer_url S WSolana tx_sig, rb_fee_raw = None\<rparr>, g)))))"

section \<open>Queries\<close>

record SigStatus =
  ss_slot :: u64
  ss_confirmations :: "u64 option"
  ss_err :: "json option"

text \<open>An \<open>Option\<close> field is absent when the key is missing or null.\<close>

definition decode_option_u64 :: "json option \<Rightarrow> u64 option option" where
  "decode_option_u64 v =
     (case v of None \<Rightarrow> Some None | Some v \<Rightarrow> if is_null v then Some None else map_option Some (as_u64 v))"

definition decode_sig_status :: "json \<Rightarrow> SigStatus option option" where
  "decode_sig_status v =
     (if is_null v then Some None
      else Option.bind (Option.bind (json_get ''slot'' v) as_u64) (\<lambda>slot.
           Option.bind (decode_option_u64 (json_get ''confirmations'' v)) (\<lambda>confirmations.
             Some (Some \<lparr>ss_slot = slot, ss_confirmations = confirmations,
                        ss_err = Option.bind (json_get ''err'' v) (\<lambda>e. if is_null e then None else Some e)\<rparr>))))"

fun decode_all :: "(json \<Rightarrow> 'a option) \<Rightarrow> json list \<Rightarrow> 'a list option" where
  "decode_all f [] = Some []"
| "decode_all f (v # vs) = Option.bind (f v) (\<lambda>x. Option.bind (decode_all f vs) (\<lambda>xs. Some (x # xs)))"

definition decode_status_resp :: "json \<Rightarrow> SigStatus option list option" where
  "decode_status_resp v = Option.bind (json_get ''value'' v) (\<lambda>a. case a of JArr vs \<Rightarrow> decode_all decode_sig_status vs | _ \<Rightarrow> None)"

definition solana_tx_status :: "'g seams \<Rightarrow> string \<Rightarrow> 'g \<Rightarrow> (string + TxStatusInfo) \<times> 'g" where
  "solana_tx_status S hash g =
     sbind (rpc_call S decode_status_resp WSolana ''getSignatureStatuses''
              (JArr [JArr [JStr hash], JObj [(''searchTransactionHistory'', JBool True)]]) g) (\<lambda>resp g.
       let entry = (case resp of [] \<Rightarrow> None | e # _ \<Rightarrow> e);
           (state, confirmations, block) =
             (case entry of
                None \<Rightarrow> (TxNotFound, None, None)
              | Some st \<Rightarrow>
                  (if ss_err st \<noteq> None then TxFailed else if ss_confirmations st = None then TxConfirmed else TxPending,
                   ss_confirmations st, Some (ss_slot st)))
       in (Inr \<lparr>ts_chain = WSolana, ts_evm_network = None, ts_hash = hash, ts_state = state, ts_confirmations = confirmations,
                ts_block_number = block\<rparr>, g))"

definition get_transaction :: "'g seams \<Rightarrow> string \<Rightarrow> 'g \<Rightarrow> (string + json) \<times> 'g" where
  "get_transaction S hash =
     rpc_call S Some WSolana ''getTransaction''
       (JArr [JStr hash, JObj [(''maxSupportedTransactionVersion'', JNum (PosInt 0)), (''encoding'', JStr ''json'')]])"

definition solana_tx_receipt :: "'g seams \<Rightarrow> string \<Rightarrow> 'g \<Rightarrow> (string + TxReceiptInfo) \<times> 'g" where
  "solana_tx_receipt S hash g =
     sbind (get_transaction S hash g) (\<lambda>tx g.
       if is_null tx then (Inr (missing_receipt WSolana None hash False), g)
       else
         let meta = json_get ''meta'' tx in
         (Inr \<lparr>tr_chain = WSolana, tr_evm_network = None, tr_hash = hash, tr_found = True,
               tr_success = map_option (\<lambda>m. case json_get ''err'' m of None \<Rightarrow> True | Some e \<Rightarrow> is_null e) meta,
               tr_block_number = Option.bind (json_get ''slot'' tx) as_u64, tr_gas_used = None,
               tr_fee_raw = map_option (\<lambda>f. show_nat (unat f)) (Option.bind (Option.bind meta (json_get ''fee'')) as_u64),
               tr_raw = tx\<rparr>, g))"

definition solana_lookup_tx :: "'g seams \<Rightarrow> string \<Rightarrow> 'g \<Rightarrow> (string + TxLookupInfo) \<times> 'g" where
  "solana_lookup_tx S hash g =
     sbind (get_transaction S hash g) (\<lambda>tx g.
       (Inr \<lparr>tl_chain = WSolana, tl_evm_network = None, tl_hash = hash, tl_found = (\<not> is_null tx), tl_raw = tx\<rparr>, g))"

end
