(* ===== verification/TW_Execute.thy ===== *)
theory TW_Execute
  imports TW_Chain_Btc TW_Chain_Evm TW_Chain_Solana
begin

text \<open>
  The engine's calls that span the chains: executing a prepared transfer
  (\<open>tinywallet-web3/src/crypto/execution/broadcast.rs\<close>), assets, provider status and balances
  (\<open>queries.rs\<close>, \<open>probe.rs\<close>) and transaction lookups (\<open>tx_lookup.rs\<close>). The lemmas on \<open>seams_keep\<close> carry
  a property of the engine state over every awaited call, so that a whole execution can be placed in
  the flow of quotes however other tasks run in between.
\<close>

section \<open>Executing a prepared transfer\<close>

definition execute_on_chain :: "prims \<Rightarrow> ed25519 \<Rightarrow> hex_crate \<Rightarrow> b64_crate \<Rightarrow> 'g seams \<Rightarrow> PreparedTransaction \<Rightarrow> 'g \<Rightarrow>
    (fault + ExecutionResult) \<times> 'g" where
  "execute_on_chain p ed h b S transaction g =
     (case pt_chain transaction of
        WEvm \<Rightarrow> told (execute_evm_quote S transaction g)
      | WBtc \<Rightarrow> told (execute_btc_quote p S transaction g)
      | WSolana \<Rightarrow> told (execute_solana_quote p ed b S transaction g)
      | WTron \<Rightarrow> execute_tron_quote p h S transaction g)"

text \<open>A failure hands the quote back; a panic unwinds past that line.\<close>

definition execute_prepared :: "prims \<Rightarrow> ed25519 \<Rightarrow> hex_crate \<Rightarrow> b64_crate \<Rightarrow> 'w engine seams \<Rightarrow> ExecutePreparedParams \<Rightarrow>
    'w engine \<Rightarrow> (fault + ExecutionResult) \<times> 'w engine" where
  "execute_prepared p ed h b S params g =
     (if \<not> xp_confirmed params then (Inl (Msg ''execute_prepared requires `confirmed: true`''), g)
      else
        (case take_for transfer_quoted (sm_now_ms S g) (xp_quote_id params) (sm_current_owner S g) (en_quotes g) of
           (Inl e, store) \<Rightarrow> (Inl (Msg e), g\<lparr>en_quotes := store\<rparr>)
         | (Inr quote, store) \<Rightarrow>
             (case execute_on_chain p ed h b S (ptq_transaction quote) (g\<lparr>en_quotes := store\<rparr>) of
                (Inl Panic, g) \<Rightarrow> (Inl Panic, g)
              | (Inl (Msg e), g) \<Rightarrow>
                  (Inl (Msg e), g\<lparr>en_quotes := restore_quote transfer_quoted (sm_now_ms S g) (sm_now_ms S g) quote (en_quotes g)\<rparr>)
              | (Inr res, g) \<Rightarrow>
                  (Inr (if er_explorer_url res = None
                        then res\<lparr>er_explorer_url := explorer_url S (pt_chain (ptq_transaction quote)) (er_transaction_hash res)\<rparr>
                        else res), g))))"

section \<open>Assets, provider status and balances\<close>

datatype ProviderStatus = Ready | Missing

record ChainStatus =
  cs_chain :: WalletChain
  cs_evm_network :: "EvmNetwork option"
  cs_configured :: bool
  cs_provider_status :: ProviderStatus
  cs_rpc_url :: string
  cs_error :: "string option"

record SupportedAsset =
  sa_chain :: WalletChain
  sa_evm_network :: "EvmNetwork option"
  sa_symbol :: string
  sa_name :: string
  sa_native :: bool
  sa_decimals :: u8
  sa_contract_address :: "string option"

record BalanceInfo =
  bi_chain :: WalletChain
  bi_evm_network :: "EvmNetwork option"
  bi_address :: string
  bi_asset_symbol :: string
  bi_decimals :: u8
  bi_raw :: string
  bi_formatted :: string
  bi_provider_status :: ProviderStatus

definition EVM_BALANCE_NETWORKS :: "EvmNetwork list" where
  "EVM_BALANCE_NETWORKS = [EthereumMainnet, BaseMainnet, BscMainnet]"

definition asset_to_supported :: "WalletAssetDefinition \<Rightarrow> SupportedAsset" where
  "asset_to_supported a =
     \<lparr>sa_chain = wad_chain a, sa_evm_network = wad_evm_network a, sa_symbol = wad_symbol a, sa_name = wad_name a,
      sa_native = wad_native a, sa_decimals = wad_decimals a, sa_contract_address = wad_contract_address a\<rparr>"

definition supported_assets :: "'g seams \<Rightarrow> SupportedAsset list" where
  "supported_assets S =
     map asset_to_supported (concat (map evm_asset_catalog EvmNetwork_ALL)) @
     map asset_to_supported
       (concat (map (\<lambda>chain. asset_catalog chain (ep_solana_cluster (sm_endpoints S))) [WBtc, WSolana, WTron]))"

definition probe_provider :: "'g seams \<Rightarrow> WalletChain \<Rightarrow> EvmNetwork option \<Rightarrow> 'g \<Rightarrow> (string + unit) \<times> 'g" where
  "probe_provider S chain net g =
     (case chain of
        WEvm \<Rightarrow>
          sbind (evm_rpc_call S decode_string (option_or EthereumMainnet net) ''eth_blockNumber'' (JArr []) g) (\<lambda>height g.
            (rbind (map_err (\<lambda>e. ''eth_blockNumber did not return a block number: '' @ e) (hex_to_u128 height)) (\<lambda>_. Inr ()), g))
      | WSolana \<Rightarrow> sbind (rpc_call S Some WSolana ''getHealth'' (JArr []) g) (\<lambda>_ g. (Inr (), g))
      | WBtc \<Rightarrow>
          sbind (rest_get_text S WBtc ''blocks/tip/height'' g) (\<lambda>body g.
            (rbind (map_err (\<lambda>_. ''BTC chain tip height was not a number'') (parse_u64 (trim body))) (\<lambda>_. Inr ()), g))
      | WTron \<Rightarrow>
          sbind (rest_post_json S Some WTron ''wallet/getnowblock'' (JObj []) g) (\<lambda>block g.
            (rbind (ok_or ''Tron getnowblock returned no block'' (Option.bind (json_get ''blockID'' block) as_str)) (\<lambda>_. Inr ()), g)))"

definition chain_status_row :: "'g seams \<Rightarrow> WalletChain \<Rightarrow> EvmNetwork option \<Rightarrow> bool \<Rightarrow> 'g \<Rightarrow> ChainStatus \<times> 'g" where
  "chain_status_row S chain net has_account g =
     (let (provider_status, err, g) =
            (if has_account then
               (case probe_provider S chain net g of (Inr _, g) \<Rightarrow> (Ready, None, g) | (Inl e, g) \<Rightarrow> (Missing, Some e, g))
             else (Missing, None, g))
      in (\<lparr>cs_chain = chain, cs_evm_network = net, cs_configured = has_account, cs_provider_status = provider_status,
           cs_rpc_url = ep_url (sm_endpoints S) chain net, cs_error = err\<rparr>, g))"

text \<open>The rows are probed one after the other.\<close>

fun chain_status_rows :: "'g seams \<Rightarrow> (WalletChain \<Rightarrow> bool) \<Rightarrow> (WalletChain \<times> EvmNetwork option) list \<Rightarrow> 'g \<Rightarrow> ChainStatus list \<times> 'g" where
  "chain_status_rows S has [] g = ([], g)"
| "chain_status_rows S has ((chain, net) # rest) g =
     (let (row, g) = chain_status_row S chain net (has chain) g; (rows, g) = chain_status_rows S has rest g in (row # rows, g))"

definition chain_status :: "'g seams \<Rightarrow> 'g \<Rightarrow> (string + ChainStatus list) \<times> 'g" where
  "chain_status S g =
     sbind (sm_status S g) (\<lambda>status g.
       let (rows, g) = chain_status_rows S (\<lambda>chain. list_ex (\<lambda>a. wa_chain a = chain) (ws_accounts status))
             (map (\<lambda>n. (WEvm, Some n)) EvmNetwork_ALL @ [(WBtc, None), (WSolana, None), (WTron, None)]) g
       in (Inr rows, g))"

definition native_asset_for :: "'g seams \<Rightarrow> WalletChain \<Rightarrow> string + WalletAssetDefinition" where
  "native_asset_for S chain =
     ok_or (''native asset metadata missing for '' @ apostrophes (wallet_chain_as_str chain))
       (List.find wad_native (asset_catalog chain (ep_solana_cluster (sm_endpoints S))))"

definition read_balance :: "prims \<Rightarrow> 'g seams \<Rightarrow> WalletAccount \<Rightarrow> EvmNetwork option \<Rightarrow> 'g \<Rightarrow> (string + u128) \<times> 'g" where
  "read_balance p S account net g =
     (case wa_chain account of
        WEvm \<Rightarrow> evm_balance S (option_or EthereumMainnet net) (wa_address account) g
      | WBtc \<Rightarrow> btc_native_balance p S (wa_address account) g
      | WSolana \<Rightarrow> solana_native_balance p S (wa_address account) g
      | WTron \<Rightarrow> tron_native_balance p S (wa_address account) g)"

definition balance_row :: "prims \<Rightarrow> 'g seams \<Rightarrow> WalletAccount \<Rightarrow> EvmNetwork option \<Rightarrow> WalletAssetDefinition \<Rightarrow> 'g \<Rightarrow> BalanceInfo \<times> 'g" where
  "balance_row p S account net a g =
     (let (outcome, g) = read_balance p S account net g;
          (raw, provider_status) = (case outcome of Inr balance \<Rightarrow> (show_nat (unat balance), Ready) | Inl _ \<Rightarrow> (''0'', Missing));
          raw_u128 = (case parse_uint (2 ^ 128) raw of Inr n \<Rightarrow> of_nat n | Inl _ \<Rightarrow> 0)
      in (\<lparr>bi_chain = wa_chain account, bi_evm_network = net, bi_address = wa_address account, bi_asset_symbol = wad_symbol a,
           bi_decimals = wad_decimals a, bi_raw = raw, bi_formatted = format_amount raw_u128 (wad_decimals a),
           bi_provider_status = provider_status\<rparr>, g))"

fun evm_balance_rows :: "prims \<Rightarrow> 'g seams \<Rightarrow> WalletAccount \<Rightarrow> EvmNetwork list \<Rightarrow> 'g \<Rightarrow> (string + BalanceInfo list) \<times> 'g" where
  "evm_balance_rows p S account [] g = (Inr [], g)"
| "evm_balance_rows p S account (n # ns) g =
     (case List.find wad_native (evm_asset_catalog n) of
        None \<Rightarrow> (Inl (''native asset metadata missing for evm network '' @ apostrophes (evm_as_str n)), g)
      | Some a \<Rightarrow>
          let (row, g) = balance_row p S account (Some n) a g in
          sbind (evm_balance_rows p S account ns g) (\<lambda>rows g. (Inr (row # rows), g)))"

fun account_rows :: "prims \<Rightarrow> 'g seams \<Rightarrow> WalletAccount list \<Rightarrow> 'g \<Rightarrow> (string + BalanceInfo list) \<times> 'g" where
  "account_rows p S [] g = (Inr [], g)"
| "account_rows p S (account # rest) g =
     sbind
       (if wa_chain account = WEvm then evm_balance_rows p S account EVM_BALANCE_NETWORKS g
        else (case native_asset_for S (wa_chain account) of
                Inl e \<Rightarrow> (Inl e, g)
              | Inr a \<Rightarrow> let (row, g) = balance_row p S account None a g in (Inr [row], g)))
       (\<lambda>rows g. sbind (account_rows p S rest g) (\<lambda>more g. (Inr (rows @ more), g)))"

definition balances :: "prims \<Rightarrow> 'g seams \<Rightarrow> 'g \<Rightarrow> (string + BalanceInfo list) \<times> 'g" where
  "balances p S g =
     sbind (sm_status S g) (\<lambda>status g.
       if \<not> ws_configured status then (Inl WALLET_NOT_CONFIGURED_MESSAGE, g) else account_rows p S (ws_accounts status) g)"

section \<open>Transaction lookups\<close>

definition clean_hash :: "string \<Rightarrow> string + string" where
  "clean_hash hash = (let hash = trim hash in if hash = [] then Inl ''tx hash is empty'' else Inr hash)"

definition read_network :: "EvmNetwork option \<Rightarrow> EvmNetwork" where
  "read_network net = option_or EthereumMainnet net"

definition tx_status :: "'g seams \<Rightarrow> WalletChain \<Rightarrow> EvmNetwork option \<Rightarrow> string \<Rightarrow> 'g \<Rightarrow> (string + TxStatusInfo) \<times> 'g" where
  "tx_status S chain net hash g =
     (case clean_hash hash of
        Inl e \<Rightarrow> (Inl e, g)
      | Inr hash \<Rightarrow>
          (case chain of
             WEvm \<Rightarrow> evm_tx_status S (read_network net) hash g
           | WBtc \<Rightarrow> btc_tx_status S hash g
           | WSolana \<Rightarrow> solana_tx_status S hash g
           | WTron \<Rightarrow> tron_tx_status S hash g))"

definition tx_receipt :: "'g seams \<Rightarrow> WalletChain \<Rightarrow> EvmNetwork option \<Rightarrow> string \<Rightarrow> 'g \<Rightarrow> (string + TxReceiptInfo) \<times> 'g" where
  "tx_receipt S chain net hash g =
     (case clean_hash hash of
        Inl e \<Rightarrow> (Inl e, g)
      | Inr hash \<Rightarrow>
          (case chain of
             WEvm \<Rightarrow> evm_tx_receipt S (read_network net) hash g
           | WBtc \<Rightarrow> btc_tx_receipt S hash g
           | WSolana \<Rightarrow> solana_tx_receipt S hash g
           | WTron \<Rightarrow> tron_tx_receipt S hash g))"

definition lookup_tx :: "'g seams \<Rightarrow> WalletChain \<Rightarrow> EvmNetwork option \<Rightarrow> string \<Rightarrow> 'g \<Rightarrow> (string + TxLookupInfo) \<times> 'g" where
  "lookup_tx S chain net hash g =
     (case clean_hash hash of
        Inl e \<Rightarrow> (Inl e, g)
      | Inr hash \<Rightarrow>
          (case chain of
             WEvm \<Rightarrow> evm_lookup_tx S (read_network net) hash g
           | WBtc \<Rightarrow> btc_lookup_tx S hash g
           | WSolana \<Rightarrow> solana_lookup_tx S hash g
           | WTron \<Rightarrow> tron_lookup_tx S hash g))"

section \<open>What every awaited call keeps\<close>

text \<open>A program over the engine state keeps a property, if it ends in a state that has it whenever it
  starts in one.\<close>

definition keeps :: "('g \<Rightarrow> bool) \<Rightarrow> ('g \<Rightarrow> 'r \<times> 'g) \<Rightarrow> bool" where
  "keeps I m \<longleftrightarrow> (\<forall>g. I g \<longrightarrow> I (snd (m g)))"

definition seams_keep :: "('g \<Rightarrow> bool) \<Rightarrow> 'g seams \<Rightarrow> bool" where
  "seams_keep I S \<longleftrightarrow>
     (\<forall>net m ps. keeps I (sm_json_rpc S net m ps)) \<and> (\<forall>net path. keeps I (sm_rest_get S net path)) \<and>
     (\<forall>net path body ty. keeps I (sm_rest_post S net path body ty)) \<and> (\<forall>c. keeps I (sm_derive_account S c)) \<and>
     (\<forall>c spec. keeps I (sm_sign_transaction S c spec)) \<and> (\<forall>c msg sc. keeps I (sm_sign_message S c msg sc)) \<and>
     keeps I (sm_status S)"

named_theorems keeps_intros

lemma keepsD: "keeps I m \<Longrightarrow> I g \<Longrightarrow> m g = (r, g') \<Longrightarrow> I g'"
  unfolding keeps_def by (metis snd_conv)

lemma keeps_return [keeps_intros]: "keeps I (\<lambda>g. (r, g))"
  by (simp add: keeps_def)

lemma keeps_sbind [keeps_intros]: "keeps I m \<Longrightarrow> (\<And>x. keeps I (f x)) \<Longrightarrow> keeps I (\<lambda>g. sbind (m g) f)"
  unfolding keeps_def sbind_def by (fastforce split: sum.splits prod.splits)

lemma keeps_case_sum [keeps_intros]:
  "(\<And>x. keeps I (l x)) \<Longrightarrow> (\<And>x. keeps I (r x)) \<Longrightarrow> keeps I (\<lambda>g. case v of Inl x \<Rightarrow> l x g | Inr x \<Rightarrow> r x g)"
  by (cases v) simp_all

lemma keeps_case_option [keeps_intros]:
  "keeps I n \<Longrightarrow> (\<And>x. keeps I (s x)) \<Longrightarrow> keeps I (\<lambda>g. case v of None \<Rightarrow> n g | Some x \<Rightarrow> s x g)"
  by (cases v) simp_all

lemma keeps_if [keeps_intros]: "keeps I a \<Longrightarrow> keeps I b \<Longrightarrow> keeps I (\<lambda>g. if c then a g else b g)"
  by (cases c) simp_all

lemma keeps_case_prod [keeps_intros]: "(\<And>a b. keeps I (f a b)) \<Longrightarrow> keeps I (\<lambda>g. case v of (a, b) \<Rightarrow> f a b g)"
  by (cases v) simp

lemma keeps_case_kind [keeps_intros]:
  "keeps I a \<Longrightarrow> keeps I b \<Longrightarrow> keeps I (\<lambda>g. case k of NativeTransferKind \<Rightarrow> a g | TokenTransferKind \<Rightarrow> b g)"
  by (cases k) simp_all

lemma keeps_case_signature [keeps_intros]:
  "(\<And>x y. keeps I (a x y)) \<Longrightarrow> (\<And>x. keeps I (b x)) \<Longrightarrow>
   keeps I (\<lambda>g. case s of Secp256k1Signature x y \<Rightarrow> a x y g | Ed25519Signature x \<Rightarrow> b x g)"
  by (cases s) simp_all

lemma keeps_told [keeps_intros]: "keeps I m \<Longrightarrow> keeps I (\<lambda>g. told (m g))"
  by (auto simp: keeps_def told_def split: prod.splits)

lemma seams_keepD [keeps_intros]:
  assumes "seams_keep I S"
  shows "keeps I (sm_json_rpc S net m ps)" "keeps I (sm_rest_get S net path)" "keeps I (sm_rest_post S net path body ty)"
    "keeps I (sm_derive_account S c)" "keeps I (sm_sign_transaction S c spec)" "keeps I (sm_sign_message S c msg sc)"
    "keeps I (sm_status S)"
  using assms by (simp_all add: seams_keep_def)

text \<open>A call whose result only is converted.\<close>

lemma keeps_converted: "keeps I m \<Longrightarrow> (\<And>g. snd (m' g) = snd (m g)) \<Longrightarrow> keeps I m'"
  by (simp add: keeps_def)

lemma transport_keeps [keeps_intros]:
  assumes "seams_keep I S"
  shows "keeps I (json_rpc S d net m ps)" "keeps I (rest_get_text S c path)" "keeps I (rest_post_text S c path body ty)"
  using seams_keepD(1,2,3) [OF assms]
  by (auto simp: keeps_def json_rpc_def rest_get_text_def rest_post_text_def split: prod.splits sum.splits) (metis snd_conv)+

lemma typed_calls_keep [keeps_intros]:
  assumes "seams_keep I S"
  shows "keeps I (rpc_call S d c m ps)" "keeps I (evm_rpc_call S d n m ps)" "keeps I (rest_get_json S d c path)"
    "keeps I (rest_post_json S d c path js)"
  unfolding rpc_call_def evm_rpc_call_def rest_get_json_def rest_post_json_def
  using assms by (auto intro!: keeps_intros)

lemma account_calls_keep [keeps_intros]:
  assumes "seams_keep I S"
  shows "keeps I (require_account S c)" "keeps I (require_evm_account S)"
proof -
  show *: "keeps I (require_account S c)" for c
    unfolding require_account_def using assms by (auto intro!: keeps_intros)
  show "keeps I (require_evm_account S)"
    unfolding require_evm_account_def using * by (auto intro!: keeps_intros)
qed

lemma evm_keeps [keeps_intros]:
  assumes "seams_keep I S"
  shows "keeps I (sign_and_broadcast S n a to v d)" "keeps I (execute_evm_quote S q)"
    "keeps I (sign_and_broadcast_evm S n to d v)"
proof -
  have "keeps I (node_params S n a r)" for n a r
    unfolding node_params_def using assms by (auto intro!: keeps_intros)
  then show *: "keeps I (sign_and_broadcast S n a to v d)" for n a to v d
    unfolding sign_and_broadcast_def using assms by (auto intro!: keeps_intros)
  show "keeps I (execute_evm_quote S q)"
    unfolding execute_evm_quote_def Let_def using * by (auto intro!: keeps_intros)
  show "keeps I (sign_and_broadcast_evm S n to d v)"
    unfolding sign_and_broadcast_evm_def using * assms by (auto intro!: keeps_intros)
qed

lemma btc_keeps [keeps_intros]:
  assumes "seams_keep I S"
  shows "keeps I (execute_btc_quote p S q)"
  unfolding execute_btc_quote_def fetch_utxos_def broadcast_raw_hex_def Let_def
  using assms by (auto intro!: keeps_intros)

lemma tron_keeps [keeps_intros]:
  assumes "seams_keep I S"
  shows "keeps I (execute_tron_quote p h S q)"
  unfolding execute_tron_quote_def tron_verify_and_send_def build_transaction_def create_native_transaction_def
    trigger_trc20_transfer_def Let_def
  using assms by (auto intro!: keeps_intros)

lemma solana_keeps [keeps_intros]:
  assumes "seams_keep I S"
  shows "keeps I (execute_solana_quote p ed b S q)" "keeps I (sign_and_broadcast_solana p h b S blob)"
  unfolding execute_solana_quote_def sign_and_broadcast_solana_def solana_wire_def transfer_message_def signer_pubkey_def
    solana_sign_def account_exists_def solana_recent_blockhash_def broadcast_solana_def Let_def
  using assms by (auto intro!: keeps_intros)

lemma execute_on_chain_keeps:
  assumes "seams_keep I S"
  shows "keeps I (execute_on_chain p ed h b S q)"
  unfolding execute_on_chain_def by (cases "pt_chain q") (auto intro!: keeps_intros assms)

section \<open>Executions in the flow of quotes\<close>

text \<open>The flow of a store of quotes: its quotes, the quotes under execution (\<open>mine\<close> and those of the other
  tasks) and the ids executed so far; \<open>out\<close> and \<open>fin\<close> read the last two off the state.\<close>

definition flow_at :: "('g \<Rightarrow> 't QuoteStore) \<Rightarrow> ('g \<Rightarrow> 't list) \<Rightarrow> ('g \<Rightarrow> string list) \<Rightarrow> 't list \<Rightarrow> 'g \<Rightarrow> 't flow" where
  "flow_at store out fin mine g = \<lparr>f_store = store g, f_out = mine @ out g, f_done = fin g\<rparr>"

text \<open>What other tasks do while a call is awaited are steps of the flow that leave \<open>mine\<close> alone.\<close>

definition others_step :: "'t quoted \<Rightarrow> ('t list \<Rightarrow> 'g \<Rightarrow> 't flow) \<Rightarrow> 'g seams \<Rightarrow> bool" where
  "others_step ops flow S \<longleftrightarrow> (\<forall>mine g0. seams_keep (\<lambda>g. (flow_step ops)\<^sup>*\<^sup>* (flow mine g0) (flow mine g)) S)"

lemma others_stepD:
  assumes "others_step ops flow S" and "\<And>I. seams_keep I S \<Longrightarrow> keeps I m" and "m g = (r, g')"
  shows "(flow_step ops)\<^sup>*\<^sup>* (flow mine g) (flow mine g')"
  using assms(1) keepsD [OF assms(2) _ assms(3)] unfolding others_step_def by blast

text \<open>Where a confirmed execution ends, by its result.\<close>

definition ends_in :: "('t list \<Rightarrow> 'g \<Rightarrow> 't flow) \<Rightarrow> string \<Rightarrow> fault + 'r \<Rightarrow> 'g \<Rightarrow> 't flow \<Rightarrow> bool" where
  "ends_in flow i r g' f \<longleftrightarrow>
     (case r of
        Inr _ \<Rightarrow> f = (flow [] g')\<lparr>f_done := i # f_done (flow [] g')\<rparr>
      | Inl (Msg _) \<Rightarrow> f = flow [] g'
      | Inl Panic \<Rightarrow> \<exists>q. f = flow [q] g')"

text \<open>The engine's store; the other tasks are in its world.\<close>

abbreviation flow_of :: "('w \<Rightarrow> PreparedTransferQuote list) \<Rightarrow> ('w \<Rightarrow> string list) \<Rightarrow> PreparedTransferQuote list \<Rightarrow> 'w engine \<Rightarrow>
    PreparedTransferQuote flow" where
  "flow_of out fin \<equiv> flow_at en_quotes (\<lambda>g. out (en_world g)) (\<lambda>g. fin (en_world g))"

abbreviation tasks_flow :: "('w \<Rightarrow> PreparedTransferQuote list) \<Rightarrow> ('w \<Rightarrow> string list) \<Rightarrow> 'w engine seams \<Rightarrow> bool" where
  "tasks_flow out fin \<equiv> others_step transfer_quoted (flow_of out fin)"

lemma execute_prepared_flow:
  assumes tasks: "tasks_flow out fin S" and run: "execute_prepared p ed h b S params g = (r, g')"
  shows "\<exists>f. (flow_step transfer_quoted)\<^sup>*\<^sup>* (flow_of out fin [] g) f \<and> ends_in (flow_of out fin) (xp_quote_id params) r g' f"
proof (cases "xp_confirmed params")
  case False
  with run show ?thesis by (auto simp: execute_prepared_def ends_in_def)
next
  case True
  let ?take = "take_for transfer_quoted (sm_now_ms S g) (xp_quote_id params) (sm_current_owner S g) (en_quotes g)"
  obtain t store where t: "?take = (t, store)" by (cases ?take)
  show ?thesis
  proof (cases t)
    case (Inl e)
    then have "flow_step transfer_quoted (flow_of out fin [] g) (flow_of out fin [] (g\<lparr>en_quotes := store\<rparr>))"
      using t flow_step.refused [where f = "flow_of out fin [] g"] by (fastforce simp: flow_at_def)
    then show ?thesis using True run t Inl by (auto simp: execute_prepared_def ends_in_def)
  next
    case (Inr q)
    obtain r2 g2 where c: "execute_on_chain p ed h b S (ptq_transaction q) (g\<lparr>en_quotes := store\<rparr>) = (r2, g2)"
      by (cases "execute_on_chain p ed h b S (ptq_transaction q) (g\<lparr>en_quotes := store\<rparr>)")
    have "(flow_step transfer_quoted)\<^sup>*\<^sup>* (flow_of out fin [q] (g\<lparr>en_quotes := store\<rparr>)) (flow_of out fin [q] g2)"
      by (rule others_stepD [where m = "execute_on_chain p ed h b S (ptq_transaction q)", OF tasks execute_on_chain_keeps c])
    note steps = confirmed_run [OF t [unfolded Inr] this [unfolded flow_at_def, simplified]]
    show ?thesis using steps run True t Inr c
      by (auto simp: execute_prepared_def ends_in_def flow_at_def split: sum.splits fault.splits)
  qed
qed


text \<open>
  C3: In an engine that was started empty, a quote whose execution succeeds was never executed before,
  by this task or any other, and it is neither stored nor being executed when its execution ends.
\<close>

theorem no_double_execution:
  assumes "tasks_flow out fin S" and "flow_start (flow_of out fin [] g0)"
    and "(flow_step transfer_quoted)\<^sup>*\<^sup>* (flow_of out fin [] g0) (flow_of out fin [] g)"
    and "execute_prepared p ed h b S params g = (Inr res, g')"
  shows "xp_quote_id params \<notin> set (fin (en_world g')) \<and>
    xp_quote_id params \<notin> set (map (q_id transfer_quoted) (qs_quotes (en_quotes g') @ out (en_world g')))"
proof -
  from execute_prepared_flow [OF assms(1,4)] assms(3)
  have "(flow_step transfer_quoted)\<^sup>*\<^sup>* (flow_of out fin [] g0) (flow_of out (\<lambda>w. xp_quote_id params # fin w) [] g')"
    by (auto simp: ends_in_def flow_at_def)
  from transfers.executed_once [OF assms(2) this] show ?thesis by (auto simp: flow_at_def)
qed

section \<open>A run\<close>

text \<open>The sample quote in the store of an engine, and its execution while nothing else runs.\<close>

definition sample_engine :: "unit engine" where
  "sample_engine =
     (engine_new ())\<lparr>en_quotes :=
        insert_quote transfer_quoted 1000 \<lparr>ptq_transaction = sample_quote, ptq_owner = None\<rparr> (snd (next_id 1000 (en_quotes (engine_new ()))))\<rparr>"

abbreviation no_tasks :: "unit \<Rightarrow> 'a list" where
  "no_tasks w \<equiv> []"

lemma sample_tasks_flow: "tasks_flow no_tasks no_tasks sample_seams"
  by (simp add: others_step_def seams_keep_def keeps_def sample_seams_def)

lemma sample_engine_quotes: "qs_quotes (en_quotes sample_engine) = [\<lparr>ptq_transaction = sample_quote, ptq_owner = None\<rparr>]"
  by (simp add: sample_engine_def engine_new_def QuoteStore_new_def next_id_def insert_quote_def QUOTE_STORE_CAP_def)

lemma sample_start: "flow_start (flow_of no_tasks no_tasks [] (engine_new ()))"
  by (auto simp: flow_start_def flow_at_def engine_new_def)

lemma sample_prepared:
  "(flow_step transfer_quoted)\<^sup>*\<^sup>* (flow_of no_tasks no_tasks [] (engine_new ())) (flow_of no_tasks no_tasks [] sample_engine)"
proof -
  let ?f = "flow_of no_tasks no_tasks [] (engine_new ())" and ?q = "\<lparr>ptq_transaction = sample_quote, ptq_owner = None\<rparr>"
  have "quote_id_text ''q'' 1000 1 = ''q_1000_1''" by code_simp
  then have "q_id transfer_quoted ?q = fst (next_id 1000 (f_store ?f))"
    by (simp add: transfer_quoted_def sample_quote_def next_id_def flow_at_def engine_new_def QuoteStore_new_def)
  moreover have "(1 :: u64) < - 1" by code_simp
  then have "qs_counter (f_store ?f) < - 1" by (simp add: flow_at_def engine_new_def QuoteStore_new_def)
  ultimately have "flow_step transfer_quoted ?f (?f\<lparr>f_store := insert_quote transfer_quoted 1000 ?q (snd (next_id 1000 (f_store ?f)))\<rparr>)"
    using flow_step.prepare [of 1000 ?f "fst (next_id 1000 (f_store ?f))" "snd (next_id 1000 (f_store ?f))" transfer_quoted ?q 1000] by simp
  also have "?f\<lparr>f_store := insert_quote transfer_quoted 1000 ?q (snd (next_id 1000 (f_store ?f)))\<rparr> = flow_of no_tasks no_tasks [] sample_engine"
    by (simp add: flow_at_def sample_engine_def)
  finally show ?thesis by (rule r_into_rtranclp)
qed

lemma sample_run:
  "\<exists>res g'. execute_prepared p ed h b sample_seams \<lparr>xp_quote_id = ''q_1000_1'', xp_confirmed = True\<rparr> sample_engine = (Inr res, g')"
proof -
  let ?q = "\<lparr>ptq_transaction = sample_quote, ptq_owner = None\<rparr>"
  have "position (\<lambda>q. q_id transfer_quoted q = ''q_1000_1'') (qs_quotes (en_quotes sample_engine)) = Some 0"
    unfolding sample_engine_quotes by (simp add: transfer_quoted_def sample_quote_def)
  then have "take_for transfer_quoted 1000 ''q_1000_1'' None (en_quotes sample_engine) = (Inr ?q, (en_quotes sample_engine)\<lparr>qs_quotes := []\<rparr>)"
    by (simp add: take_for_def sample_engine_quotes transfer_quoted_def sample_quote_def remove_at_def)
  moreover obtain r where "execute_evm_quote sample_seams sample_quote (sample_engine\<lparr>en_quotes := (en_quotes sample_engine)\<lparr>qs_quotes := []\<rparr>\<rparr>) =
      (Inr r, sample_engine\<lparr>en_quotes := (en_quotes sample_engine)\<lparr>qs_quotes := []\<rparr>\<rparr>)"
    using sample_execution by (rule exE)
  moreover have "pt_chain sample_quote = WEvm" by (simp add: sample_quote_def)
  moreover have "sm_now_ms sample_seams g = 1000" "sm_current_owner sample_seams g = None" for g :: "unit engine"
    by (simp_all add: sample_seams_def)
  ultimately show ?thesis by (simp add: execute_prepared_def execute_on_chain_def told_def)
qed


theorem no_double_execution_witness:
  "\<forall>p ed h b. \<exists>res g'. execute_prepared p ed h b sample_seams \<lparr>xp_quote_id = ''q_1000_1'', xp_confirmed = True\<rparr> sample_engine = (Inr res, g') \<and>
     ''q_1000_1'' \<notin> set (map (q_id transfer_quoted) (qs_quotes (en_quotes g')))"
proof (intro allI)
  fix p ed h b
  obtain res g' where run: "execute_prepared p ed h b sample_seams \<lparr>xp_quote_id = ''q_1000_1'', xp_confirmed = True\<rparr> sample_engine = (Inr res, g')"
    using sample_run [of p ed h b] by (elim exE)
  from no_double_execution [OF sample_tasks_flow sample_start sample_prepared run] run
  show "\<exists>res g'. execute_prepared p ed h b sample_seams \<lparr>xp_quote_id = ''q_1000_1'', xp_confirmed = True\<rparr> sample_engine = (Inr res, g') \<and>
     ''q_1000_1'' \<notin> set (map (q_id transfer_quoted) (qs_quotes (en_quotes g')))" by auto
qed

end
