(* ===== verification/TW_Prepare.thy ===== *)
theory TW_Prepare
  imports TW_Execute
begin

text \<open>
  What the engine promises of a prepared transfer: the texts of amounts and quantities
  (\<open>execution/validate.rs\<close>), the well-formedness of the quote \<open>prepare_transfer\<close> stores, and that its
  owner, and nobody else, can inspect and execute it until it expires.
\<close>

section \<open>Amounts and quantities\<close>

lemma dec_val_append: "dec_val (a @ b) = dec_val a * 10 ^ length b + dec_val b"
  by (induction b rule: rev_induct) (simp_all add: algebra_simps flip: append_assoc)

lemma dec_val_zeros [simp]: "dec_val (replicate k (CHR ''0'')) = 0"
  by (induction k) (simp_all add: replicate_append_same [symmetric] del: replicate.simps(2), simp add: replicate_append_same [symmetric])

text \<open>
  \<open>format_amount\<close> loses nothing: read back as a decimal fraction with the given number of places,
  the text is the amount, and there is always a digit before the point.
\<close>

theorem format_amount_exact:
  "\<exists>whole frac. format_amount raw decimals = whole @ (if decimals = 0 then [] else ''.'') @ frac \<and>
     whole \<noteq> [] \<and> list_all is_ascii_digit (whole @ frac) \<and> length frac = unat decimals \<and>
     dec_val whole * 10 ^ unat decimals + dec_val frac = unat raw"
proof -
  let ?d = "show_nat (unat raw)" and ?w = "unat decimals"
  have digit: "is_ascii_digit (CHR ''0'')" by code_simp
  note digits = show_nat_digits [of "unat raw"]
  consider "decimals = 0" | "decimals \<noteq> 0" "length ?d \<le> ?w" | "decimals \<noteq> 0" "?w < length ?d" by linarith
  then show ?thesis
  proof cases
    case 1
    then show ?thesis using digits by - (rule exI [of _ ?d], rule exI [of _ "[]"], simp add: format_amount_def)
  next
    case 2
    let ?z = "replicate (?w - length ?d) (CHR ''0'')"
    have "format_amount raw decimals = ''0'' @ ''.'' @ ?z @ ?d" using 2 by (simp add: format_amount_def Let_def)
    moreover have "dec_val ''0'' = 0" using dec_val_zeros [of 1] by simp
    ultimately show ?thesis using 2 digits digit
      by - (rule exI [of _ "''0''"], rule exI [of _ "?z @ ?d"], auto simp: dec_val_append list_all_iff)
  next
    case 3
    let ?s = "length ?d - ?w"
    have "format_amount raw decimals = take ?s ?d @ ''.'' @ drop ?s ?d" using 3 by (simp add: format_amount_def Let_def)
    moreover have "dec_val (take ?s ?d) * 10 ^ ?w + dec_val (drop ?s ?d) = unat raw"
      using dec_val_append [of "take ?s ?d" "drop ?s ?d"] 3 by simp
    ultimately show ?thesis using 3 digits
      by - (rule exI [of _ "take ?s ?d"], rule exI [of _ "drop ?s ?d"], auto simp: list_all_iff dest: in_set_takeD in_set_dropD)
  qed
qed

lemma from_hex_digits_snoc:
  "from_hex_digits bound acc (s @ [c]) = rbind (from_hex_digits bound acc s) (\<lambda>n. from_hex_digits bound n [c])"
  by (induction s arbitrary: acc) (auto split: option.splits)

lemma from_hex_digits_show: "n < bound \<Longrightarrow> from_hex_digits bound 0 (show_hex n) = Inr n"
proof (induction n rule: show_hex.induct)
  case (1 n)
  show ?case
  proof (cases "n < 16")
    case False
    with 1 have "from_hex_digits bound 0 (show_hex (n div 16)) = Inr (n div 16)" by (meson div_le_dividend le_less_trans)
    then show ?thesis using False 1(2)
      by (subst show_hex.simps) (simp add: from_hex_digits_snoc mult.commute)
  qed (use 1(2) in \<open>subst show_hex.simps, simp\<close>)
qed

lemma show_hex_hex_chars: "\<forall>c \<in> set (show_hex n). \<exists>d < 16. c = hex_char d"
  by (induction n rule: show_hex.induct) (subst show_hex.simps, auto intro: exI [of _ "_ mod 16"])

lemma show_hex_not_Nil [simp]: "show_hex n \<noteq> []"
  by (subst show_hex.simps) simp

lemma hex_char_facts: "d < 16 \<Longrightarrow> hex_char d \<noteq> CHR ''-'' \<and> hex_char d \<noteq> CHR ''+'' \<and> is_graphic (hex_char d)"
  using of_char_hex_char [of d] hex_char_not_sign [of d] by (auto simp: is_graphic_def split: if_splits)

lemma parse_hex_uint_unsigned:
  "s \<noteq> [] \<Longrightarrow> \<forall>c \<in> set s. c \<noteq> CHR ''-'' \<and> c \<noteq> CHR ''+'' \<Longrightarrow> parse_hex_uint bound s = from_hex_digits bound 0 s"
  by (cases s; cases "tl s") (auto simp: parse_hex_uint_def simp del: from_hex_digits.simps)

text \<open>
  A quantity written for a node is read back: \<open>hex_to_u128\<close> inverts \<open>u128_to_hex\<close>.
\<close>

theorem hex_quantity_roundtrip: "hex_to_u128 (u128_to_hex v) = Inr v"
proof -
  let ?h = "show_hex (unat v)"
  have g: "\<forall>c \<in> set ?h. c \<noteq> CHR ''-'' \<and> c \<noteq> CHR ''+'' \<and> is_graphic c" using show_hex_hex_chars [of "unat v"] hex_char_facts by metis
  moreover have "is_graphic (CHR ''0'')" "is_graphic (CHR ''x'')" by code_simp+
  ultimately have "trim (''0x'' @ ?h) = ''0x'' @ ?h" by (intro trim_graphic) auto
  moreover have "parse_hex_uint (2 ^ 128) ?h = Inr (unat v)"
    using parse_hex_uint_unsigned [of ?h] g from_hex_digits_show [OF unat_u128_less] show_hex_not_Nil by metis
  ultimately show ?thesis
    using strip_prefix_append [of "''0x''" ?h] unfolding hex_to_u128_def u128_to_hex_def Let_def by simp
qed

section \<open>The quote that is stored\<close>

lemma prepare_transfer_Inr:
  assumes "prepare_transfer p gates S params g = (Inr tx, g')"
  obtains to amount account a g1 where "validate_address p gates (tp_chain params) (tp_to_address params) = Inr to"
    "validate_amount (tp_amount_raw params) = Inr amount" "amount \<noteq> 0"
    "require_account S (tp_chain params) g = (Inr account, g1)"
    "resolve_asset (ep_solana_cluster (sm_endpoints S)) params = Inr a" "tp_chain params = WBtc \<longrightarrow> wad_native a"
    "tx = prepared_transaction S params (fst (next_id (sm_now_ms S g1) (en_quotes g1))) to amount (wa_address account) a g1"
    "g' = g1\<lparr>en_quotes := insert_quote transfer_quoted (sm_now_ms S g1) \<lparr>ptq_transaction = tx, ptq_owner = sm_current_owner S g1\<rparr>
            (snd (next_id (sm_now_ms S g1) (en_quotes g1)))\<rparr>"
  using assms unfolding prepare_transfer_def sbind_def Let_def
  by (auto split: sum.splits prod.splits if_splits)

lemma find_in_set: "List.find P xs = Some a \<Longrightarrow> a \<in> set xs"
  by (auto simp: find_Some_iff)

lemma catalog_asset:
  assumes "resolve_asset cluster params = Inr a"
  shows "a \<in> set (case transfer_network params of Some n \<Rightarrow> evm_asset_catalog n | None \<Rightarrow> asset_catalog (tp_chain params) cluster)"
  using assms
  by (auto simp: resolve_asset_def find_asset_for_network_def transfer_network_def Let_def ok_or_def simp del: asset_catalog.simps
      dest!: find_in_set split: option.splits if_splits WalletChain.splits)

lemma catalog_native: "a \<in> set (evm_asset_catalog n) \<or> a \<in> set (asset_catalog c cluster) \<Longrightarrow> wad_native a \<longleftrightarrow> wad_contract_address a = None"
  by (cases n; cases c) (auto simp: evm_asset_catalog_def wallet_asset_def)

lemma resolved_native: "resolve_asset cluster params = Inr a \<Longrightarrow> wad_native a \<longleftrightarrow> wad_contract_address a = None"
  using catalog_asset [of cluster params a] catalog_native by (cases "transfer_network params") auto

text \<open>A well-formed quote: a valid recipient, a positive amount, a network exactly for EVM chains, a token
  address exactly for token transfers, no tokens on Bitcoin, and not executed yet.\<close>

definition prepared_wf :: "prims \<Rightarrow> Chain set \<Rightarrow> PreparedTransaction \<Rightarrow> bool" where
  "prepared_wf p gates tx \<longleftrightarrow>
     validate_address p gates (pt_chain tx) (pt_to_address tx) = Inr (pt_to_address tx) \<and>
     (\<exists>n. 0 < n \<and> n < 2 ^ 128 \<and> pt_amount_raw tx = show_nat n) \<and>
     (pt_evm_network tx \<noteq> None \<longleftrightarrow> pt_chain tx = WEvm) \<and>
     (pt_token_address tx \<noteq> None \<longleftrightarrow> pt_kind tx = TokenTransferKind) \<and>
     (pt_chain tx = WBtc \<longrightarrow> pt_kind tx = NativeTransferKind) \<and>
     pt_status tx = AwaitingConfirmation"

lemma validate_address_idem: "validate_address p gates chain a = Inr s \<Longrightarrow> validate_address p gates chain s = Inr s"
  unfolding validate_address_def map_err_eq_Inr by (drule address_validate_idem) (elim conjE)

text \<open>
  C29: Every transfer that is prepared is well formed, and it is stored under its id.
\<close>

theorem prepare_transfer_typed:
  assumes "prepare_transfer p gates S params g = (Inr tx, g')"
  shows "prepared_wf p gates tx \<and> (\<exists>owner. \<lparr>ptq_transaction = tx, ptq_owner = owner\<rparr> \<in> set (qs_quotes (en_quotes g')))"
proof -
  obtain to amount and account :: WalletAccount and a g1 where v: "validate_address p gates (tp_chain params) (tp_to_address params) = Inr to"
    "amount \<noteq> 0" "resolve_asset (ep_solana_cluster (sm_endpoints S)) params = Inr a" "tp_chain params = WBtc \<longrightarrow> wad_native a"
    and tx: "tx = prepared_transaction S params (fst (next_id (sm_now_ms S g1) (en_quotes g1))) to amount (wa_address account) a g1"
    and g': "g' = g1\<lparr>en_quotes := insert_quote transfer_quoted (sm_now_ms S g1) \<lparr>ptq_transaction = tx, ptq_owner = sm_current_owner S g1\<rparr>
            (snd (next_id (sm_now_ms S g1) (en_quotes g1)))\<rparr>"
    by (rule prepare_transfer_Inr [OF assms]) blast
  have "0 < unat amount \<and> unat amount < 2 ^ 128" using v(2) unat_u128_less by (simp add: unat_gt_0)
  moreover note resolved_native [OF v(3)] validate_address_idem [OF v(1)] v(4)
  ultimately have "prepared_wf p gates tx"
    unfolding prepared_wf_def tx prepared_transaction_def Let_def by (auto simp: transfer_network_def)
  moreover have "\<lparr>ptq_transaction = tx, ptq_owner = sm_current_owner S g1\<rparr> \<in> set (qs_quotes (en_quotes g'))"
    unfolding g' using insert_quote_stored by simp
  ultimately show ?thesis by blast
qed

section \<open>What can be done with it\<close>

lemma parse_native_show: "parse_native_value (show_nat (unat (n :: u128))) = Inr n"
  unfolding parse_native_value_def trim_show_nat parse_uint_show [OF unat_u128_less] by simp

lemma erc20_calldata_ok:
  assumes "evm_validate to = Inr v"
  shows "\<exists>cd. web3_encode_erc20_transfer to (show_nat (unat (n :: u128))) = Inr cd"
proof -
  have "unat n < 2 ^ 256" by (rule less_trans [OF unat_u128_less]) simp
  then have "u256_from_decimal (show_nat (unat n)) = Inr (be_bytes 32 (unat n))"
    using show_nat_digits [of "unat n"] unfolding u256_from_decimal_Inr trim_show_nat dec_val_show_nat by simp
  moreover obtain bs where "decode_hex_pairs (evm_strip_prefix v) = Inr bs"
    using decode_hex_pairs_hexdigits [of "evm_strip_prefix v"] assms by (auto simp: evm_validate_Inr)
  ultimately show ?thesis
    using decode_evm_address_validated [OF assms] assms by (simp add: web3_encode_erc20_transfer_def abi_encode_erc20_transfer_def)
qed

lemma catalog_contracts_valid: "a \<in> set (evm_asset_catalog n) \<Longrightarrow> wad_contract_address a = Some c \<Longrightarrow> evm_validate c = Inr c"
proof -
  have "list_all (\<lambda>n. list_all (\<lambda>a. case wad_contract_address a of None \<Rightarrow> True | Some c \<Rightarrow> evm_validate c = Inr c) (evm_asset_catalog n)) EvmNetwork_ALL"
    by code_simp
  moreover have "n \<in> set EvmNetwork_ALL" by (cases n) (simp_all add: EvmNetwork_ALL_def)
  moreover assume "a \<in> set (evm_asset_catalog n)" "wad_contract_address a = Some c"
  ultimately show ?thesis by (fastforce simp: list_all_iff)
qed

text \<open>What a prepared EVM transfer holds: a valid recipient, a canonical amount, and the contract of a token.\<close>

lemma prepared_evm_fields:
  assumes "prepare_transfer p gates S params g = (Inr tx, g')" and "tp_chain params = WEvm"
  obtains amount :: u128 where "pt_chain tx = WEvm" "evm_validate (pt_to_address tx) = Inr (pt_to_address tx)"
    "pt_amount_raw tx = show_nat (unat amount)"
    "pt_kind tx = NativeTransferKind \<and> pt_token_address tx = None \<or>
     (\<exists>c. pt_kind tx = TokenTransferKind \<and> pt_token_address tx = Some c \<and> evm_validate c = Inr c)"
proof -
  obtain to amount and account :: WalletAccount and a g1 where v: "validate_address p gates WEvm (tp_to_address params) = Inr to"
    "resolve_asset (ep_solana_cluster (sm_endpoints S)) params = Inr a"
    and tx: "tx = prepared_transaction S params (fst (next_id (sm_now_ms S g1) (en_quotes g1))) to amount (wa_address account) a g1"
    by (rule prepare_transfer_Inr [OF assms(1), unfolded assms(2)]) blast
  have to: "evm_validate to = Inr to"
    using validate_address_idem [OF v(1)] by (auto simp: validate_address_def address_validate_def result_simps split: if_splits)
  have token: "evm_validate c = Inr c" if "wad_contract_address a = Some c" for c
    using catalog_asset [OF v(2)] assms(2) that catalog_contracts_valid by (simp add: transfer_network_def)
  have fields: "pt_chain tx = WEvm" "pt_to_address tx = to" "pt_amount_raw tx = show_nat (unat amount)" "pt_token_address tx = wad_contract_address a"
    "pt_kind tx = (if wad_contract_address a = None then NativeTransferKind else TokenTransferKind)"
    using resolved_native [OF v(2)] assms(2) by (simp_all add: tx prepared_transaction_def Let_def)
  show thesis
    by (rule that [of amount]) (use fields to token in \<open>cases "wad_contract_address a"; simp\<close>)+
qed


lemma find_append_new: "\<forall>x \<in> set xs. \<not> P x \<Longrightarrow> P y \<Longrightarrow> List.find P (xs @ [y]) = Some y"
  by (induction xs) auto

lemma insert_quote_found:
  assumes "\<forall>p \<in> set (qs_quotes s). q_id ops p \<noteq> q_id ops q"
  shows "List.find (\<lambda>p. q_id ops p = q_id ops q) (qs_quotes (insert_quote ops now q s)) = Some q"
  unfolding insert_quote_def Let_def using assms
  by (auto intro!: find_append_new dest: in_set_dropD split: if_splits)

text \<open>
  In an engine that was started empty, a prepared transfer is found under its id by its owner until
  it expires, and for anyone else it does not exist.
\<close>

theorem prepared_found_by_owner:
  assumes tasks: "tasks_flow out fin S" and "flow_start (flow_of out fin [] g0)"
    and "(flow_step transfer_quoted)\<^sup>*\<^sup>* (flow_of out fin [] g0) (flow_of out fin [] g)"
    and scope: "\<And>g. sm_current_owner S g = owner"
    and run: "prepare_transfer p gates S params g = (Inr tx, g')"
  shows "get_for transfer_quoted t (pt_quote_id tx) caller (en_quotes g') =
    (if caller \<noteq> owner then Inl (not_found_text (pt_quote_id tx))
     else if pt_expires_at_ms tx \<le> t then Inl (expired_text (pt_quote_id tx))
     else Inr \<lparr>ptq_transaction = tx, ptq_owner = owner\<rparr>)"
proof -
  obtain account g1 where r: "require_account S (tp_chain params) g = (Inr account, g1)"
    and i: "pt_quote_id tx = fst (next_id (sm_now_ms S g1) (en_quotes g1))" and st: "pt_status tx = AwaitingConfirmation"
    and g': "g' = g1\<lparr>en_quotes := insert_quote transfer_quoted (sm_now_ms S g1) \<lparr>ptq_transaction = tx, ptq_owner = owner\<rparr>
            (snd (next_id (sm_now_ms S g1) (en_quotes g1)))\<rparr>"
    by (rule prepare_transfer_Inr [OF run]) (auto simp: prepared_transaction_def Let_def scope)
  have "(flow_step transfer_quoted)\<^sup>*\<^sup>* (flow_of out fin [] g0) (flow_of out fin [] g1)"
    using assms(3) others_stepD [where m = "require_account S (tp_chain params)", OF tasks account_calls_keep(1) r] by (rule rtranclp_trans)
  from transfers.flow.reached_inv [OF assms(2) this]
  have "\<forall>q \<in> set (qs_quotes (en_quotes g1)). numbered (en_quotes g1) (q_id transfer_quoted q)"
    by (simp add: flow_inv_def flow_ids_def flow_at_def)
  then have "\<forall>q \<in> set (qs_quotes (en_quotes g1)). q_id transfer_quoted q \<noteq> pt_quote_id tx"
    using numbered_fresh [of "en_quotes g1" "sm_now_ms S g1"] unfolding i next_id_def fst_conv by metis
  then have "List.find (\<lambda>q. q_id transfer_quoted q = pt_quote_id tx) (qs_quotes (en_quotes g')) = Some \<lparr>ptq_transaction = tx, ptq_owner = owner\<rparr>"
    using insert_quote_found [of "snd (next_id (sm_now_ms S g1) (en_quotes g1))" transfer_quoted "\<lparr>ptq_transaction = tx, ptq_owner = owner\<rparr>" "sm_now_ms S g1"]
    by (simp add: g' next_id_def transfer_quoted_def)
  then show ?thesis using st by (simp add: get_for_def) (simp add: transfer_quoted_def)
qed

text \<open>
  An id that leaked to another chat is worth nothing there: confirming a quote that others prepared
  is answered as if it did not exist, no host call is made and the quote stays where it is.
\<close>

theorem foreign_execution_refused:
  assumes "list_all (\<lambda>q. pt_quote_id (ptq_transaction q) = xp_quote_id params \<longrightarrow> ptq_owner q \<noteq> sm_current_owner S g) (qs_quotes (en_quotes g))"
    and "xp_confirmed params"
  shows "execute_prepared p ed h b S params g = (Inl (Msg (not_found_text (xp_quote_id params))), g)"
proof -
  let ?pos = "position (\<lambda>q. q_id transfer_quoted q = xp_quote_id params) (qs_quotes (en_quotes g))"
  have "take_for transfer_quoted now (xp_quote_id params) (sm_current_owner S g) (en_quotes g) = (Inl (not_found_text (xp_quote_id params)), en_quotes g)" for now
  proof (cases ?pos)
    case (Some i)
    then have "qs_quotes (en_quotes g) ! i \<in> set (qs_quotes (en_quotes g))" "pt_quote_id (ptq_transaction (qs_quotes (en_quotes g) ! i)) = xp_quote_id params"
      using position_Some [OF Some] by (auto simp: transfer_quoted_def)
    with Some assms(1) show ?thesis by (auto simp: take_for_def Let_def list_all_iff transfer_quoted_def)
  qed (simp add: take_for_def)
  with assms(2) show ?thesis by (simp add: execute_prepared_def)
qed

section \<open>A run\<close>

definition sample_params :: PrepareTransferParams where
  "sample_params = \<lparr>tp_chain = WEvm, tp_to_address = ''0x0000000000000000000000000000000000000002'', tp_amount_raw = ''7'',
     tp_asset_symbol = None, tp_evm_network = None\<rparr>"

lemma sample_prepare: "\<exists>tx g'. prepare_transfer p {Evm} sample_seams sample_params (engine_new ()) = (Inr tx, g')"
proof -
  have "trim ''7'' = ''7''" by code_simp
  then have amount: "validate_amount ''7'' = Inr 7" by (simp add: validate_amount_def parse_uint_def is_ascii_digit_def)
  have "List.find wad_native (evm_asset_catalog EthereumMainnet) = Some (wallet_asset WEvm (Some EthereumMainnet) ''ETH'' ''Ether'' 18 None)"
    by (simp add: evm_asset_catalog_def wallet_asset_def)
  then have "\<exists>a. resolve_asset (ep_solana_cluster (sm_endpoints (sample_seams :: unit engine seams))) sample_params = Inr a"
    by (simp add: resolve_asset_def transfer_network_def sample_params_def ok_or_def)
  then obtain a where a: "resolve_asset (ep_solana_cluster (sm_endpoints (sample_seams :: unit engine seams))) sample_params = Inr a" by (elim exE)
  have "\<exists>account. require_account sample_seams WEvm (engine_new ()) = (Inr account, engine_new ())"
    by (simp add: require_account_def sample_seams_def ok_or_def)
  then obtain account where account: "require_account sample_seams WEvm (engine_new ()) = (Inr account, engine_new ())" by (elim exE)
  have "tp_chain sample_params = WEvm" "tp_to_address sample_params = ''0x0000000000000000000000000000000000000002''" "tp_amount_raw sample_params = ''7''"
    by (simp_all add: sample_params_def)
  then show ?thesis
    using sample_evm_validate by (simp add: prepare_transfer_def amount account a validate_address_def address_validate_def Let_def case_prod_beta)
qed

theorem prepare_transfer_typed_witness: "\<forall>p. \<exists>tx. prepared_wf p {Evm} tx"
proof
  fix p
  obtain tx g' where "prepare_transfer p {Evm} sample_seams sample_params (engine_new ()) = (Inr tx, g')"
    using sample_prepare [of p] by (elim exE)
  from prepare_transfer_typed [OF this] show "\<exists>tx. prepared_wf p {Evm} tx" by blast
qed


theorem prepared_found_by_owner_witness:
  "\<forall>p. \<exists>tx g'. prepare_transfer p {Evm} sample_seams sample_params (engine_new ()) = (Inr tx, g') \<and>
     get_for transfer_quoted (pt_expires_at_ms tx) (pt_quote_id tx) None (en_quotes g') = Inl (expired_text (pt_quote_id tx))"
proof
  fix p
  obtain tx g' where run: "prepare_transfer p {Evm} sample_seams sample_params (engine_new ()) = (Inr tx, g')"
    using sample_prepare [of p] by (elim exE)
  have scope: "sm_current_owner sample_seams g = None" for g :: "unit engine" by (simp add: sample_seams_def)
  from prepared_found_by_owner [OF sample_tasks_flow sample_start rtranclp.rtrancl_refl scope run, of "pt_expires_at_ms tx" None] run
  show "\<exists>tx g'. prepare_transfer p {Evm} sample_seams sample_params (engine_new ()) = (Inr tx, g') \<and>
     get_for transfer_quoted (pt_expires_at_ms tx) (pt_quote_id tx) None (en_quotes g') = Inl (expired_text (pt_quote_id tx))" by auto
qed

theorem foreign_execution_refused_witness:
  "\<forall>p ed h b. execute_prepared p ed h b (sample_seams\<lparr>sm_current_owner := \<lambda>_. Some \<lparr>thread_id = ''t'', client_id = ''c''\<rparr>\<rparr>)
     \<lparr>xp_quote_id = ''q_1000_1'', xp_confirmed = True\<rparr> sample_engine = (Inl (Msg (not_found_text ''q_1000_1'')), sample_engine)"
proof (intro allI)
  fix p ed h b
  let ?S = "sample_seams\<lparr>sm_current_owner := \<lambda>_. Some \<lparr>thread_id = ''t'', client_id = ''c''\<rparr>\<rparr> :: unit engine seams"
  have "list_all (\<lambda>q. pt_quote_id (ptq_transaction q) = ''q_1000_1'' \<longrightarrow> ptq_owner q \<noteq> sm_current_owner ?S sample_engine) (qs_quotes (en_quotes sample_engine))"
    by (simp add: sample_engine_quotes)
  then show "execute_prepared p ed h b ?S \<lparr>xp_quote_id = ''q_1000_1'', xp_confirmed = True\<rparr> sample_engine = (Inl (Msg (not_found_text ''q_1000_1'')), sample_engine)"
    using foreign_execution_refused [of "\<lparr>xp_quote_id = ''q_1000_1'', xp_confirmed = True\<rparr>" ?S sample_engine p ed h b] by simp
qed

end
