(* ===== verification/TW_Web3.thy ===== *)
theory TW_Web3
  imports TW_Prepare
begin

text \<open>
  The swap, bridge and dapp service: \<open>tinywallet-web3/src/crypto/service/\<close> (\<open>types.rs\<close>, \<open>ops.rs\<close>,
  \<open>execute.rs\<close>, \<open>mod.rs\<close>). It keeps a quote store of its own, asks a backend for an unsigned transaction,
  and signs and broadcasts it through the wallet engine. The backend is a record of functions on the
  service state, like the seams.
\<close>

section \<open>Chain families\<close>

definition DEBRIDGE_SOLANA_CHAIN_ID :: u64 where "DEBRIDGE_SOLANA_CHAIN_ID = 7565164"

datatype ChainFamily = EvmFamily EvmNetwork | SolanaFamily

definition chain_family :: "u64 \<Rightarrow> ChainFamily option" where
  "chain_family debridge_chain_id =
     (if debridge_chain_id = 1 then Some (EvmFamily EthereumMainnet)
      else if debridge_chain_id = 10 then Some (EvmFamily OptimismMainnet)
      else if debridge_chain_id = 56 then Some (EvmFamily BscMainnet)
      else if debridge_chain_id = 137 then Some (EvmFamily PolygonMainnet)
      else if debridge_chain_id = 8453 then Some (EvmFamily BaseMainnet)
      else if debridge_chain_id = 42161 then Some (EvmFamily ArbitrumOne)
      else if debridge_chain_id = DEBRIDGE_SOLANA_CHAIN_ID then Some SolanaFamily
      else None)"

section \<open>Requests and quotes\<close>

record SwapQuoteParams =
  sq_chain_id :: u64
  sq_token_in :: string
  sq_token_in_amount :: string
  sq_token_out :: string
  sq_token_out_recipient :: "string option"
  sq_sender_address :: "string option"
  sq_slippage :: "string option"

record BridgeQuoteParams =
  bq_src_chain_id :: u64
  bq_src_chain_token_in :: string
  bq_src_chain_token_in_amount :: string
  bq_dst_chain_id :: u64
  bq_dst_chain_token_out :: string
  bq_dst_chain_token_out_amount :: "string option"
  bq_dst_chain_token_out_recipient :: "string option"
  bq_src_chain_order_authority_address :: "string option"
  bq_dst_chain_order_authority_address :: "string option"

record DappCallParams =
  dc_contract_address :: string
  dc_calldata :: string
  dc_value_raw :: "string option"
  dc_evm_network :: "EvmNetwork option"

record ExecuteQuoteParams =
  xq_quote_id :: string
  xq_confirmed :: bool

datatype UnsignedTx = EvmTx EvmNetwork string "string option" string | SolanaTx string

datatype Web3QuoteKind = Swap | Bridge | DappCall

record StoredQuote =
  sto_quote_id :: string
  sto_kind :: Web3QuoteKind
  sto_unsigned :: UnsignedTx
  sto_summary :: json
  sto_owner :: "QuoteOwner option"
  sto_expires_at_ms :: u64

text \<open>\<open>impl Quoted for StoredQuote\<close>; \<open>is_consumed\<close> is the trait's default.\<close>

definition stored_quoted :: "StoredQuote quoted" where
  "stored_quoted =
     \<lparr>q_id = sto_quote_id, q_owner = sto_owner, q_expires_at_ms = sto_expires_at_ms,
      q_set_expires_at_ms = \<lambda>e q. q\<lparr>sto_expires_at_ms := e\<rparr>, q_is_consumed = \<lambda>_. False\<rparr>"

interpretation web3_quotes: quoted_laws stored_quoted
  by unfold_locales (simp_all add: stored_quoted_def)

record Web3ExecutionResult =
  xr3_quote_id :: string
  xr3_kind :: Web3QuoteKind
  xr3_transaction_hash :: string
  xr3_explorer_url :: "string option"
  xr3_fee_raw :: "string option"

record Web3Quote =
  wq_quote_id :: string
  wq_kind :: Web3QuoteKind
  wq_expires_at_ms :: u64
  wq_signing_chain :: WalletChain
  wq_quote :: json

section \<open>The service\<close>

record 'w web3 =
  w3_quotes :: "StoredQuote QuoteStore"
  w3_world :: 'w

record 'g backend =
  bk_routes :: "'g \<Rightarrow> (string + json) \<times> 'g"
  bk_swap_tx :: "json \<Rightarrow> 'g \<Rightarrow> (string + json) \<times> 'g"
  bk_bridge_tx :: "json \<Rightarrow> 'g \<Rightarrow> (string + json) \<times> 'g"

definition web3_new :: "'w \<Rightarrow> 'w web3" where
  "web3_new w = \<lparr>w3_quotes = QuoteStore_new ''w3'' (5 * 60 * 1000) 64, w3_world = w\<rparr>"

definition stored_quotes :: "'w web3 seams \<Rightarrow> 'w web3 \<Rightarrow> StoredQuote list" where
  "stored_quotes S g = live_quotes stored_quoted (sm_now_ms S g) (w3_quotes g)"

definition quote_for_owner :: "'w web3 seams \<Rightarrow> string \<Rightarrow> QuoteOwner option \<Rightarrow> 'w web3 \<Rightarrow> string + StoredQuote" where
  "quote_for_owner S quote_id owner g = get_for stored_quoted (sm_now_ms S g) quote_id owner (w3_quotes g)"

definition routes :: "'g backend \<Rightarrow> 'g \<Rightarrow> (string + json) \<times> 'g" where
  "routes B = bk_routes B"

section \<open>Preparing\<close>

definition value_to_string :: "json \<Rightarrow> string" where
  "value_to_string tx =
     (case json_get ''value'' tx of
        Some (JStr s) \<Rightarrow> s
      | Some (JNum n) \<Rightarrow> number_to_string n
      | _ \<Rightarrow> ''0'')"

definition unsigned_from_response :: "json \<Rightarrow> ChainFamily \<Rightarrow> string + UnsignedTx" where
  "unsigned_from_response resp family =
     rbind (ok_or ''backend response missing unsigned `tx`'' (json_get ''tx'' resp)) (\<lambda>tx.
       case family of
         EvmFamily n \<Rightarrow>
           rbind (ok_or ''EVM unsigned tx missing `to`'' (Option.bind (json_get ''to'' tx) as_str)) (\<lambda>to.
             Inr (EvmTx n to (Option.bind (json_get ''data'' tx) as_str) (value_to_string tx)))
       | SolanaFamily \<Rightarrow>
           rbind (ok_or ''Solana unsigned tx missing hex `data` blob'' (Option.bind (json_get ''data'' tx) as_str)) (\<lambda>blob.
             Inr (SolanaTx blob)))"

fun family_chain :: "ChainFamily \<Rightarrow> WalletChain" where
  "family_chain (EvmFamily _) = WEvm"
| "family_chain SolanaFamily = WSolana"

definition wallet_address :: "'g seams \<Rightarrow> ChainFamily \<Rightarrow> 'g \<Rightarrow> (string + string) \<times> 'g" where
  "wallet_address S family g =
     sbind (sm_status S g) (\<lambda>status g.
       if \<not> ws_configured status then (Inl WALLET_NOT_CONFIGURED_MESSAGE, g)
       else (ok_or ''wallet has no derived account for the requested chain''
               (map_option wa_address (List.find (\<lambda>a. wa_chain a = family_chain family) (ws_accounts status))), g))"

fun signing_chain :: "UnsignedTx \<Rightarrow> WalletChain" where
  "signing_chain (EvmTx _ _ _ _) = WEvm"
| "signing_chain (SolanaTx _) = WSolana"

definition store_quote :: "'w web3 seams \<Rightarrow> Web3QuoteKind \<Rightarrow> UnsignedTx \<Rightarrow> json \<Rightarrow> 'w web3 \<Rightarrow> Web3Quote \<times> 'w web3" where
  "store_quote S kind utx summary g =
     (let expires_at_ms = sm_now_ms S g + qs_ttl_ms (w3_quotes g);
          (quote_id, store) = next_id (sm_now_ms S g) (w3_quotes g);
          quote = \<lparr>sto_quote_id = quote_id, sto_kind = kind, sto_unsigned = utx, sto_summary = summary,
                   sto_owner = sm_current_owner S g, sto_expires_at_ms = expires_at_ms\<rparr>;
          envelope = \<lparr>wq_quote_id = quote_id, wq_kind = kind, wq_expires_at_ms = expires_at_ms,
                      wq_signing_chain = signing_chain utx, wq_quote = summary\<rparr>
      in (envelope, g\<lparr>w3_quotes := insert_quote stored_quoted (sm_now_ms S g) quote store\<rparr>))"

definition swap_body :: "SwapQuoteParams \<Rightarrow> string \<Rightarrow> json" where
  "swap_body params own =
     JObj [(''chainId'', JNum (PosInt (sq_chain_id params))), (''tokenIn'', JStr (sq_token_in params)),
           (''tokenInAmount'', JStr (sq_token_in_amount params)), (''tokenOut'', JStr (sq_token_out params)),
           (''tokenOutRecipient'', JStr (option_or own (sq_token_out_recipient params))),
           (''senderAddress'', JStr (option_or own (sq_sender_address params))),
           (''slippage'', JStr (option_or ''auto'' (sq_slippage params)))]"

definition quote_swap :: "'w web3 backend \<Rightarrow> 'w web3 seams \<Rightarrow> SwapQuoteParams \<Rightarrow> 'w web3 \<Rightarrow> (string + Web3Quote) \<times> 'w web3" where
  "quote_swap B S params g =
     (case chain_family (sq_chain_id params) of
        None \<Rightarrow> (Inl (''chain id '' @ show_nat (unat (sq_chain_id params)) @
                      '' is not signable by the local wallet (no EVM/Solana signer)''), g)
      | Some family \<Rightarrow>
          sbind (wallet_address S family g) (\<lambda>own g.
          sbind (bk_swap_tx B (swap_body params own) g) (\<lambda>resp g.
            case unsigned_from_response resp family of
              Inl e \<Rightarrow> (Inl e, g)
            | Inr utx \<Rightarrow> let (q, g) = store_quote S Swap utx resp g in (Inr q, g))))"

definition bridge_body :: "BridgeQuoteParams \<Rightarrow> string \<Rightarrow> string \<Rightarrow> json" where
  "bridge_body params src_addr dst_addr =
     JObj [(''srcChainId'', JNum (PosInt (bq_src_chain_id params))), (''srcChainTokenIn'', JStr (bq_src_chain_token_in params)),
           (''srcChainTokenInAmount'', JStr (bq_src_chain_token_in_amount params)),
           (''dstChainId'', JNum (PosInt (bq_dst_chain_id params))), (''dstChainTokenOut'', JStr (bq_dst_chain_token_out params)),
           (''dstChainTokenOutAmount'', JStr (option_or ''auto'' (bq_dst_chain_token_out_amount params))),
           (''dstChainTokenOutRecipient'', JStr (option_or dst_addr (bq_dst_chain_token_out_recipient params))),
           (''srcChainOrderAuthorityAddress'', JStr (option_or src_addr (bq_src_chain_order_authority_address params))),
           (''dstChainOrderAuthorityAddress'', JStr (option_or dst_addr (bq_dst_chain_order_authority_address params)))]"

text \<open>The wallet's address on the destination chain, or its source address where it has none.\<close>

definition destination_address :: "'g seams \<Rightarrow> u64 \<Rightarrow> string \<Rightarrow> 'g \<Rightarrow> string \<times> 'g" where
  "destination_address S dst_chain_id src_addr g =
     (case chain_family dst_chain_id of
        Some f \<Rightarrow> (case wallet_address S f g of (Inr a, g) \<Rightarrow> (a, g) | (Inl _, g) \<Rightarrow> (src_addr, g))
      | None \<Rightarrow> (src_addr, g))"

definition quote_bridge :: "'w web3 backend \<Rightarrow> 'w web3 seams \<Rightarrow> BridgeQuoteParams \<Rightarrow> 'w web3 \<Rightarrow> (string + Web3Quote) \<times> 'w web3" where
  "quote_bridge B S params g =
     (if bq_src_chain_id params = bq_dst_chain_id params then
        (Inl ''bridge requires different source and destination chains; use web3_swap for same-chain swaps'', g)
      else case chain_family (bq_src_chain_id params) of
        None \<Rightarrow> (Inl (''source chain id '' @ show_nat (unat (bq_src_chain_id params)) @ '' is not signable by the local wallet''), g)
      | Some src_family \<Rightarrow>
          sbind (wallet_address S src_family g) (\<lambda>src_addr g.
          let (dst_addr, g) = destination_address S (bq_dst_chain_id params) src_addr g in
          sbind (bk_bridge_tx B (bridge_body params src_addr dst_addr) g) (\<lambda>resp g.
            case unsigned_from_response resp src_family of
              Inl e \<Rightarrow> (Inl e, g)
            | Inr utx \<Rightarrow> let (q, g) = store_quote S Bridge utx resp g in (Inr q, g))))"

text \<open>The checks of a dapp call: the trimmed contract, calldata and value.\<close>

definition dapp_fields :: "DappCallParams \<Rightarrow> string + (string \<times> string \<times> string)" where
  "dapp_fields params =
     (let contract = trim (dc_contract_address params); calldata = trim (dc_calldata params) in
      if contract = [] then Inl ''contract_address is empty''
      else case strip_prefix ''0x'' calldata of
        None \<Rightarrow> Inl ''calldata must be 0x-prefixed hex''
      | Some hex_body \<Rightarrow>
          if length hex_body mod 2 \<noteq> 0 \<or> \<not> list_all is_ascii_hexdigit hex_body then Inl ''calldata must be valid even-length hex''
          else Inr (contract, calldata, option_or ''0'' (dc_value_raw params)))"

definition prepare_dapp_call :: "'w web3 seams \<Rightarrow> DappCallParams \<Rightarrow> 'w web3 \<Rightarrow> (string + Web3Quote) \<times> 'w web3" where
  "prepare_dapp_call S params g =
     (let n = option_or EthereumMainnet (dc_evm_network params) in
      case dapp_fields params of
        Inl e \<Rightarrow> (Inl e, g)
      | Inr (contract, calldata, value_text) \<Rightarrow>
          sbind (wallet_address S (EvmFamily n) g) (\<lambda>_ g.
            let summary = JObj [(''type'', JStr ''dapp_call''), (''network'', JStr (evm_as_str n)), (''contractAddress'', JStr contract),
                                (''calldata'', JStr calldata), (''valueRaw'', JStr value_text)];
                (q, g) = store_quote S DappCall (EvmTx n contract (Some calldata) value_text) summary g
            in (Inr q, g)))"

section \<open>Executing\<close>

definition sign_unsigned :: "prims \<Rightarrow> hex_crate \<Rightarrow> b64_crate \<Rightarrow> 'g seams \<Rightarrow> UnsignedTx \<Rightarrow> 'g \<Rightarrow> (fault + RawBroadcastResult) \<times> 'g" where
  "sign_unsigned p h b S utx g =
     (case utx of
        EvmTx n to data value_text \<Rightarrow> told (sign_and_broadcast_evm S n to data value_text g)
      | SolanaTx tx_blob_hex \<Rightarrow> sign_and_broadcast_solana p h b S tx_blob_hex g)"

definition execute_quote :: "prims \<Rightarrow> hex_crate \<Rightarrow> b64_crate \<Rightarrow> 'w web3 seams \<Rightarrow> ExecuteQuoteParams \<Rightarrow> 'w web3 \<Rightarrow>
    (fault + Web3ExecutionResult) \<times> 'w web3" where
  "execute_quote p h b S params g =
     (if \<not> xq_confirmed params then (Inl (Msg ''execute requires `confirmed: true`''), g)
      else
        (case take_for stored_quoted (sm_now_ms S g) (xq_quote_id params) (sm_current_owner S g) (w3_quotes g) of
           (Inl e, store) \<Rightarrow> (Inl (Msg e), g\<lparr>w3_quotes := store\<rparr>)
         | (Inr quote, store) \<Rightarrow>
             (case sign_unsigned p h b S (sto_unsigned quote) (g\<lparr>w3_quotes := store\<rparr>) of
                (Inl Panic, g) \<Rightarrow> (Inl Panic, g)
              | (Inl (Msg e), g) \<Rightarrow>
                  (Inl (Msg e), g\<lparr>w3_quotes := restore_quote stored_quoted (sm_now_ms S g) (sm_now_ms S g) quote (w3_quotes g)\<rparr>)
              | (Inr broadcast, g) \<Rightarrow>
                  (Inr \<lparr>xr3_quote_id = xq_quote_id params, xr3_kind = sto_kind quote,
                        xr3_transaction_hash = rb_transaction_hash broadcast, xr3_explorer_url = rb_explorer_url broadcast,
                        xr3_fee_raw = rb_fee_raw broadcast\<rparr>, g))))"

section \<open>Executed once\<close>

lemma sign_unsigned_keeps: "seams_keep I S \<Longrightarrow> keeps I (sign_unsigned p h b S u)"
  unfolding sign_unsigned_def by (cases u) (auto intro!: keeps_intros)

text \<open>The flow of the service's quotes; the other tasks are in its world.\<close>

abbreviation web3_flow :: "('w \<Rightarrow> StoredQuote list) \<Rightarrow> ('w \<Rightarrow> string list) \<Rightarrow> StoredQuote list \<Rightarrow> 'w web3 \<Rightarrow> StoredQuote flow" where
  "web3_flow out fin \<equiv> flow_at w3_quotes (\<lambda>g. out (w3_world g)) (\<lambda>g. fin (w3_world g))"

lemma execute_quote_flow:
  assumes tasks: "others_step stored_quoted (web3_flow out fin) S" and run: "execute_quote p h b S params g = (r, g')"
  shows "\<exists>f. (flow_step stored_quoted)\<^sup>*\<^sup>* (web3_flow out fin [] g) f \<and> ends_in (web3_flow out fin) (xq_quote_id params) r g' f"
proof (cases "xq_confirmed params")
  case False
  with run show ?thesis by (auto simp: execute_quote_def ends_in_def)
next
  case True
  let ?take = "take_for stored_quoted (sm_now_ms S g) (xq_quote_id params) (sm_current_owner S g) (w3_quotes g)"
  obtain t store where t: "?take = (t, store)" by (cases ?take)
  show ?thesis
  proof (cases t)
    case (Inl e)
    then have "flow_step stored_quoted (web3_flow out fin [] g) (web3_flow out fin [] (g\<lparr>w3_quotes := store\<rparr>))"
      using t flow_step.refused [where f = "web3_flow out fin [] g"] by (fastforce simp: flow_at_def)
    then show ?thesis using True run t Inl by (auto simp: execute_quote_def ends_in_def)
  next
    case (Inr q)
    obtain r2 g2 where c: "sign_unsigned p h b S (sto_unsigned q) (g\<lparr>w3_quotes := store\<rparr>) = (r2, g2)"
      by (cases "sign_unsigned p h b S (sto_unsigned q) (g\<lparr>w3_quotes := store\<rparr>)")
    have "(flow_step stored_quoted)\<^sup>*\<^sup>* (web3_flow out fin [q] (g\<lparr>w3_quotes := store\<rparr>)) (web3_flow out fin [q] g2)"
      by (rule others_stepD [where m = "sign_unsigned p h b S (sto_unsigned q)", OF tasks sign_unsigned_keeps c])
    note steps = confirmed_run [OF t [unfolded Inr] this [unfolded flow_at_def, simplified]]
    show ?thesis using steps run True t Inr c
      by (auto simp: execute_quote_def ends_in_def flow_at_def split: sum.splits fault.splits)
  qed
qed

text \<open>
  C28: A swap, bridge or dapp quote is executed at most once, by whatever tasks, and is gone from the
  store when its execution succeeded.
\<close>

theorem web3_no_double_execution:
  assumes "others_step stored_quoted (web3_flow out fin) S" and "flow_start (web3_flow out fin [] g0)"
    and "(flow_step stored_quoted)\<^sup>*\<^sup>* (web3_flow out fin [] g0) (web3_flow out fin [] g)"
    and "execute_quote p h b S params g = (Inr res, g')"
  shows "xq_quote_id params \<notin> set (fin (w3_world g')) \<and>
    xq_quote_id params \<notin> set (map sto_quote_id (qs_quotes (w3_quotes g') @ out (w3_world g')))"
proof -
  from execute_quote_flow [OF assms(1,4)] assms(3)
  have "(flow_step stored_quoted)\<^sup>*\<^sup>* (web3_flow out fin [] g0) (web3_flow out (\<lambda>w. xq_quote_id params # fin w) [] g')"
    by (auto simp: ends_in_def flow_at_def)
  from web3_quotes.executed_once [OF assms(2) this] show ?thesis by (auto simp: flow_at_def stored_quoted_def)
qed

section \<open>Signed on the chain that was asked for\<close>

lemma chain_family_evm: "chain_family c = Some (EvmFamily n) \<longleftrightarrow> evm_chain_id_of n = c"
  by (cases n) (auto simp: chain_family_def DEBRIDGE_SOLANA_CHAIN_ID_def)

lemma chain_family_solana: "chain_family c = Some SolanaFamily \<longleftrightarrow> c = DEBRIDGE_SOLANA_CHAIN_ID"
  by (auto simp: chain_family_def DEBRIDGE_SOLANA_CHAIN_ID_def)

definition signs_on :: "UnsignedTx \<Rightarrow> u64 \<Rightarrow> bool" where
  "signs_on u chain_id = (case u of EvmTx n _ _ _ \<Rightarrow> evm_chain_id_of n = chain_id | SolanaTx _ \<Rightarrow> chain_id = DEBRIDGE_SOLANA_CHAIN_ID)"

lemma unsigned_signs_on:
  "chain_family c = Some family \<Longrightarrow> unsigned_from_response resp family = Inr u \<Longrightarrow>
   signs_on u c \<and> signing_chain u = family_chain family"
  by (cases family) (auto simp: unsigned_from_response_def signs_on_def result_simps chain_family_evm chain_family_solana)

lemma store_quote_stored:
  assumes "store_quote S kind u summary g = (env, g')"
  shows "\<exists>q \<in> set (qs_quotes (w3_quotes g')). sto_quote_id q = wq_quote_id env \<and> sto_kind q = kind \<and> sto_unsigned q = u \<and>
    sto_expires_at_ms q = wq_expires_at_ms env" and "wq_signing_chain env = signing_chain u"
  using assms by (auto simp: store_quote_def Let_def next_id_def intro!: bexI [OF _ insert_quote_stored])

text \<open>
  The transaction of a bridge quote is stored under the id of the answer and signs on the source
  chain of the request, which differs from the destination; the answer names that chain's key.
\<close>

theorem bridge_signs_on_source:
  assumes "quote_bridge B S params g = (Inr env, g')"
  shows "bq_src_chain_id params \<noteq> bq_dst_chain_id params \<and>
    (\<exists>q \<in> set (qs_quotes (w3_quotes g')). sto_quote_id q = wq_quote_id env \<and> sto_kind q = Bridge \<and>
       signs_on (sto_unsigned q) (bq_src_chain_id params) \<and> wq_signing_chain env = signing_chain (sto_unsigned q))"
proof -
  from assms have ne: "bq_src_chain_id params \<noteq> bq_dst_chain_id params" by (auto simp: quote_bridge_def)
  then obtain family resp u g1 where "chain_family (bq_src_chain_id params) = Some family"
    "unsigned_from_response resp family = Inr u" "store_quote S Bridge u resp g1 = (env, g')"
    using assms by (auto simp: quote_bridge_def sbind_def case_prod_beta Let_def split: option.splits sum.splits)
  with ne store_quote_stored unsigned_signs_on show ?thesis by metis
qed

text \<open>A successful execution of a stored EVM transaction, with the states between the calls.\<close>

lemma execute_quote_evm_Inr:
  assumes "take_for stored_quoted (sm_now_ms S g) (xq_quote_id params) (sm_current_owner S g) (w3_quotes g) = (Inr q, store)"
    and "sto_unsigned q = EvmTx n to data v" and "execute_quote p h b S params g = (Inr res, g')"
  obtains account g0 np request g1 g2 spec signed_tx amount where
    "require_evm_account S (g\<lparr>w3_quotes := store\<rparr>) = (Inr account, g0)"
    "node_params S n account request g0 = (Inr np, g1)" "sm_sign_transaction S WEvm spec g1 = (Inr signed_tx, g2)"
    "spec = EvmSpec (trim to) (show_nat amount) (case data of None \<Rightarrow> [] | Some d \<Rightarrow> trim d) (np_nonce np) (np_gas_limit np)
      (show_nat (unat (np_gas_price np))) (evm_chain_id_of n)"
    "parse_uint (2 ^ 128) (trim v) = Inr amount"
    "evm_rpc_call S decode_string n ''eth_sendRawTransaction'' (JArr [JStr (st_raw signed_tx)]) g2 = (Inr (xr3_transaction_hash res), g')"
proof -
  have confirmed: "xq_confirmed params" using assms(3) by (auto simp: execute_quote_def split: if_splits)
  then obtain rb where rb: "sign_and_broadcast_evm S n to data v (g\<lparr>w3_quotes := store\<rparr>) = (Inr rb, g')"
    "rb_transaction_hash rb = xr3_transaction_hash res"
    using assms by (cases "sign_and_broadcast_evm S n to data v (g\<lparr>w3_quotes := store\<rparr>)")
      (auto simp: execute_quote_def sign_unsigned_def told_def split: sum.splits fault.splits prod.splits)
  let ?cd = "case data of None \<Rightarrow> Inr None | Some d \<Rightarrow> rbind (validate_calldata d) (\<lambda>d. Inr (Some d))"
  obtain d where cd: "?cd = Inr d"
    using rb(1) by (cases ?cd) (auto simp: sign_and_broadcast_evm_def result_simps)
  from rb(1) obtain account g0 fee where acc: "require_evm_account S (g\<lparr>w3_quotes := store\<rparr>) = (Inr account, g0)"
    and sb: "sign_and_broadcast S n account to v d g0 = (Inr (rb_transaction_hash rb, fee), g')"
    by (auto simp: sign_and_broadcast_evm_def result_simps cd)
  have d: "option_or [] d = (case data of None \<Rightarrow> [] | Some d \<Rightarrow> trim d)"
    using cd by (auto simp: validate_calldata_def Let_def option_or_def result_simps split: option.splits if_splits)
  obtain amount np signed_tx g1 g2 request where s: "parse_native_value v = Inr amount" "np_chain_id np = evm_chain_id_of n"
    "sm_sign_transaction S WEvm (evm_spec (trim to) amount d np) g1 = (Inr signed_tx, g2)"
    "evm_rpc_call S decode_string n ''eth_sendRawTransaction'' (JArr [JStr (st_raw signed_tx)]) g2 = (Inr (rb_transaction_hash rb), g')"
    "node_params S n account request g0 = (Inr np, g1)"
    by (rule sign_and_broadcast_Inr [OF sb]) blast
  show thesis
    by (rule that [OF acc s(5,3) _ parse_native_value_Inr [OF s(1)] s(4) [unfolded rb(2)]]) (simp add: evm_spec_def d s(2))
qed

text \<open>
  C27: Executing a stored EVM transaction signs it as it was stored: the chain id of its network, its
  target, its calldata and its value, and what is broadcast is what was signed.
\<close>

theorem web3_execution_signs_stored:
  assumes "take_for stored_quoted (sm_now_ms S g) (xq_quote_id params) (sm_current_owner S g) (w3_quotes g) = (Inr q, store)"
    and "sto_unsigned q = EvmTx n to data v" and "execute_quote p h b S params g = (Inr res, g')"
  shows "\<exists>spec signed_tx g1 g2 amount. sm_sign_transaction S WEvm spec g1 = (Inr signed_tx, g2) \<and>
    spec_chain_id spec = evm_chain_id_of n \<and> spec_to spec = trim to \<and> spec_data_hex spec = (case data of None \<Rightarrow> [] | Some d \<Rightarrow> trim d) \<and>
    parse_uint (2 ^ 128) (trim v) = Inr amount \<and> spec_value_wei spec = show_nat amount \<and>
    evm_rpc_call S decode_string n ''eth_sendRawTransaction'' (JArr [JStr (st_raw signed_tx)]) g2 = (Inr (xr3_transaction_hash res), g')"
proof (rule execute_quote_evm_Inr [OF assms])
  fix account g0 np request g1 g2 spec signed_tx amount
  assume "sm_sign_transaction S WEvm spec g1 = (Inr signed_tx, g2)"
    "spec = EvmSpec (trim to) (show_nat amount) (case data of None \<Rightarrow> [] | Some d \<Rightarrow> trim d) (np_nonce np) (np_gas_limit np)
      (show_nat (unat (np_gas_price np))) (evm_chain_id_of n)"
    "parse_uint (2 ^ 128) (trim v) = Inr amount"
    "evm_rpc_call S decode_string n ''eth_sendRawTransaction'' (JArr [JStr (st_raw signed_tx)]) g2 = (Inr (xr3_transaction_hash res), g')"
  then show ?thesis by (intro exI [of _ spec] exI [of _ signed_tx] exI [of _ g1] exI [of _ g2] exI [of _ amount]) simp
qed

section \<open>A run\<close>

definition sample_stored :: StoredQuote where
  "sample_stored = \<lparr>sto_quote_id = ''w3_1000_1'', sto_kind = DappCall,
     sto_unsigned = EvmTx EthereumMainnet ''0x0000000000000000000000000000000000000002'' None ''7'', sto_summary = JNull, sto_owner = None,
     sto_expires_at_ms = 301000\<rparr>"

definition sample_web3 :: "unit web3" where
  "sample_web3 = (web3_new ())\<lparr>w3_quotes := insert_quote stored_quoted 1000 sample_stored (snd (next_id 1000 (w3_quotes (web3_new ()))))\<rparr>"

lemma sample_web3_quotes: "qs_quotes (w3_quotes sample_web3) = [sample_stored]"
  by (simp add: sample_web3_def web3_new_def QuoteStore_new_def next_id_def insert_quote_def)

lemma sample_web3_others: "others_step stored_quoted (web3_flow no_tasks no_tasks) sample_seams"
  by (simp add: others_step_def seams_keep_def keeps_def sample_seams_def)

lemma sample_web3_start: "flow_start (web3_flow no_tasks no_tasks [] (web3_new ()))"
  by (auto simp: flow_start_def flow_at_def web3_new_def)

lemma sample_web3_prepared:
  "(flow_step stored_quoted)\<^sup>*\<^sup>* (web3_flow no_tasks no_tasks [] (web3_new ())) (web3_flow no_tasks no_tasks [] sample_web3)"
proof -
  let ?f = "web3_flow no_tasks no_tasks [] (web3_new ())"
  have "quote_id_text ''w3'' 1000 1 = ''w3_1000_1''" by code_simp
  then have "q_id stored_quoted sample_stored = fst (next_id 1000 (f_store ?f))"
    by (simp add: stored_quoted_def sample_stored_def next_id_def flow_at_def web3_new_def QuoteStore_new_def)
  moreover have "(1 :: u64) < - 1" by code_simp
  then have "qs_counter (f_store ?f) < - 1" by (simp add: flow_at_def web3_new_def QuoteStore_new_def)
  ultimately have "flow_step stored_quoted ?f (?f\<lparr>f_store := insert_quote stored_quoted 1000 sample_stored (snd (next_id 1000 (f_store ?f)))\<rparr>)"
    using flow_step.prepare [of 1000 ?f "fst (next_id 1000 (f_store ?f))" "snd (next_id 1000 (f_store ?f))" stored_quoted sample_stored 1000] by simp
  also have "?f\<lparr>f_store := insert_quote stored_quoted 1000 sample_stored (snd (next_id 1000 (f_store ?f)))\<rparr> = web3_flow no_tasks no_tasks [] sample_web3"
    by (simp add: flow_at_def sample_web3_def)
  finally show ?thesis by (rule r_into_rtranclp)
qed

lemma sample_web3_taken:
  "take_for stored_quoted (sm_now_ms sample_seams sample_web3) ''w3_1000_1'' (sm_current_owner sample_seams sample_web3) (w3_quotes sample_web3) =
     (Inr sample_stored, (w3_quotes sample_web3)\<lparr>qs_quotes := []\<rparr>)"
proof -
  have "position (\<lambda>q. q_id stored_quoted q = ''w3_1000_1'') (qs_quotes (w3_quotes sample_web3)) = Some 0"
    unfolding sample_web3_quotes by (simp add: stored_quoted_def sample_stored_def)
  then show ?thesis
    by (simp add: take_for_def sample_web3_quotes stored_quoted_def sample_stored_def remove_at_def sample_seams_def)
qed

lemma sample_web3_run:
  "\<exists>res g'. execute_quote p h b sample_seams \<lparr>xq_quote_id = ''w3_1000_1'', xq_confirmed = True\<rparr> sample_web3 = (Inr res, g')"
proof -
  let ?g = "sample_web3\<lparr>w3_quotes := (w3_quotes sample_web3)\<lparr>qs_quotes := []\<rparr>\<rparr>"
  obtain account where account: "require_evm_account sample_seams ?g = (Inr account, ?g)"
    by (simp add: require_evm_account_def require_account_def sample_seams_def ok_or_def)
  obtain tx fee where "sign_and_broadcast sample_seams EthereumMainnet account ''0x0000000000000000000000000000000000000002'' ''7'' None ?g =
      (Inr (tx, fee), ?g)"
    using sample_sign [of account ?g] by (elim exE)
  with account have "\<exists>rb. sign_unsigned p h b sample_seams (sto_unsigned sample_stored) ?g = (Inr rb, ?g)"
    by (simp add: sign_unsigned_def sample_stored_def sign_and_broadcast_evm_def told_def)
  then obtain rb where "sign_unsigned p h b sample_seams (sto_unsigned sample_stored) ?g = (Inr rb, ?g)" by (elim exE)
  then show ?thesis using sample_web3_taken by (simp add: execute_quote_def)
qed

theorem web3_no_double_execution_witness:
  "\<forall>p h b. \<exists>res g'. execute_quote p h b sample_seams \<lparr>xq_quote_id = ''w3_1000_1'', xq_confirmed = True\<rparr> sample_web3 = (Inr res, g') \<and>
     ''w3_1000_1'' \<notin> set (map sto_quote_id (qs_quotes (w3_quotes g')))"
proof (intro allI)
  fix p h b
  obtain res g' where run: "execute_quote p h b sample_seams \<lparr>xq_quote_id = ''w3_1000_1'', xq_confirmed = True\<rparr> sample_web3 = (Inr res, g')"
    using sample_web3_run [of p h b] by (elim exE)
  from web3_no_double_execution [OF sample_web3_others sample_web3_start sample_web3_prepared run] run
  show "\<exists>res g'. execute_quote p h b sample_seams \<lparr>xq_quote_id = ''w3_1000_1'', xq_confirmed = True\<rparr> sample_web3 = (Inr res, g') \<and>
     ''w3_1000_1'' \<notin> set (map sto_quote_id (qs_quotes (w3_quotes g')))" by auto
qed

theorem web3_execution_signs_stored_witness:
  "\<exists>spec. spec_chain_id spec = 1 \<and> spec_to spec = trim ''0x0000000000000000000000000000000000000002'' \<and> spec_data_hex spec = []"
proof -
  fix p h b
  obtain res g' where run: "execute_quote p h b sample_seams \<lparr>xq_quote_id = ''w3_1000_1'', xq_confirmed = True\<rparr> sample_web3 = (Inr res, g')"
    using sample_web3_run [of p h b] by (elim exE)
  have "sto_unsigned sample_stored = EvmTx EthereumMainnet ''0x0000000000000000000000000000000000000002'' None ''7''"
    by (simp add: sample_stored_def)
  from web3_execution_signs_stored [OF _ this run] sample_web3_taken show ?thesis by auto
qed

definition sample_backend :: "'g backend" where
  "sample_backend = (let reply = JObj [(''tx'', JObj [(''to'', JStr ''0x0000000000000000000000000000000000000002'')])] in
     \<lparr>bk_routes = \<lambda>g. (Inr JNull, g), bk_swap_tx = \<lambda>_ g. (Inr reply, g), bk_bridge_tx = \<lambda>_ g. (Inr reply, g)\<rparr>)"

definition sample_bridge :: BridgeQuoteParams where
  "sample_bridge = \<lparr>bq_src_chain_id = 1, bq_src_chain_token_in = [], bq_src_chain_token_in_amount = ''1'', bq_dst_chain_id = 10,
     bq_dst_chain_token_out = [], bq_dst_chain_token_out_amount = None, bq_dst_chain_token_out_recipient = None,
     bq_src_chain_order_authority_address = None, bq_dst_chain_order_authority_address = None\<rparr>"

lemma sample_bridge_run: "\<exists>env g'. quote_bridge sample_backend sample_seams sample_bridge (web3_new ()) = (Inr env, g')"
proof -
  obtain a where a: "wallet_address sample_seams (EvmFamily n) g = (Inr a, g)" for n and g :: "unit web3"
    by (simp add: wallet_address_def sample_seams_def ok_or_def)
  have "chain_family 1 = Some (EvmFamily EthereumMainnet)" "chain_family 10 = Some (EvmFamily OptimismMainnet)"
    by (simp_all add: chain_family_def)
  then show ?thesis
    by (simp add: quote_bridge_def sample_bridge_def a destination_address_def sample_backend_def unsigned_from_response_def ok_or_def case_prod_beta Let_def)
qed

theorem bridge_signs_on_source_witness:
  "\<exists>env g'. quote_bridge sample_backend sample_seams sample_bridge (web3_new ()) = (Inr env, g') \<and>
     list_ex (\<lambda>q. sto_quote_id q = wq_quote_id env \<and> signs_on (sto_unsigned q) 1) (qs_quotes (w3_quotes g'))"
proof -
  obtain env g' where run: "quote_bridge sample_backend sample_seams sample_bridge (web3_new ()) = (Inr env, g')"
    using sample_bridge_run by (elim exE)
  have "bq_src_chain_id sample_bridge = 1" by (simp add: sample_bridge_def)
  with bridge_signs_on_source [OF run] run show ?thesis by (auto simp: list_ex_iff)
qed

end
