(* ===== verification/TW_Intent.thy ===== *)
theory TW_Intent
  imports TW_Prepare TW_Web3 TW_Sign
begin

text \<open>
  Comparing what is about to be signed with what was quoted, \<open>tinywallet-bus/src/intent/mod.rs\<close>: the
  checks a host runs on an approval request before it lets the module sign, and the wire types of
  \<open>wire/wallet.rs\<close> and \<open>wire/host.rs\<close> they read.
\<close>

section \<open>The wire\<close>

datatype NativeWalletExecutionIntent = TransactionIntent TransactionSpec | SolanaMessageIntent string

datatype Web3ExecutionIntent =
    Web3EvmIntent string string "string option" string u64 u64 string u64
  | Web3SolanaIntent string

record AuthorizeWeb3ExecutionRequest =
  aw_quote_id :: string
  aw_operation :: string
  aw_transaction :: Web3ExecutionIntent

record AuthorizeNativeWalletExecutionRequest =
  an_quote_id :: string
  an_operation :: string
  an_quote :: PreparedTransaction
  an_intent :: NativeWalletExecutionIntent

record Web3QuoteResponse =
  wr_quote_id :: string
  wr_kind :: Web3QuoteKind
  wr_expires_at_ms :: u64
  wr_signing_chain :: WalletChain
  wr_quote :: json

section \<open>Helpers\<close>

definition known_evm_chain :: "string \<Rightarrow> u64 \<Rightarrow> bool" where
  "known_evm_chain network chain_id =
     list_ex (\<lambda>known. evm_as_str known = network \<and> evm_chain_id_of known = chain_id) EvmNetwork_ALL"

definition decimal_json :: "json option \<Rightarrow> string option" where
  "decimal_json v =
     (case v of Some (JStr s) \<Rightarrow> Some s | Some (JNum n) \<Rightarrow> Some (number_to_string n) | _ \<Rightarrow> None)"

definition intent_valid_hex :: "string \<Rightarrow> bool" where
  "intent_valid_hex v \<longleftrightarrow> v \<noteq> [] \<and> even (length v) \<and> list_all is_ascii_hexdigit v"

text \<open>\<open>bytes = bytes * 10 + digit\<close>, from the least significant byte, in sixteen-bit arithmetic.\<close>

fun word_mul10 :: "bytes \<Rightarrow> u16 \<Rightarrow> bytes \<times> u16" where
  "word_mul10 [] carry = ([], carry)"
| "word_mul10 (b # bs) carry =
     (let v = ucast b * 10 + carry;
          (bs', carry') = word_mul10 bs (drop_bit 8 v)
      in (ucast (v AND 0xff) # bs', carry'))"

fun word_digits :: "string \<Rightarrow> bytes \<Rightarrow> bytes option" where
  "word_digits [] out = Some out"
| "word_digits (c # cs) out =
     (case word_mul10 (rev out) (of_nat (of_char c - 48)) of
        (out', carry) \<Rightarrow> if carry \<noteq> 0 then None else word_digits cs (rev out'))"

definition HEX :: string where
  "HEX = ''0123456789abcdef''"

definition decimal_u256_word :: "string \<Rightarrow> string option" where
  "decimal_u256_word decimal =
     (if decimal = [] \<or> \<not> list_all is_ascii_digit decimal then None
      else case word_digits decimal (replicate 32 0) of
        None \<Rightarrow> None
      | Some bs \<Rightarrow> Some (concat (map (\<lambda>b. [HEX ! unat (drop_bit 4 b), HEX ! unat (b AND 0x0f)]) bs)))"

definition strip_0x :: "string \<Rightarrow> string option" where
  "strip_0x s = (case strip_prefix ''0x'' s of Some b \<Rightarrow> Some b | None \<Rightarrow> strip_prefix ''0X'' s)"

definition evm_transfer_data_matches :: "string \<Rightarrow> string \<Rightarrow> string \<Rightarrow> bool" where
  "evm_transfer_data_matches data recipient amount =
     (case strip_0x recipient of
        None \<Rightarrow> False
      | Some address \<Rightarrow>
          if length address \<noteq> 40 \<or> \<not> list_all is_ascii_hexdigit address then False
          else case decimal_u256_word amount of
            None \<Rightarrow> False
          | Some amount_word \<Rightarrow>
              (let expected = ''a9059cbb'' @ replicate (64 - length address) (CHR ''0'') @ to_ascii_lowercase address @ amount_word
               in eq_ignore_ascii_case (option_or data (strip_0x data)) expected))"

section \<open>The comparisons\<close>

definition parsed_amount :: "string \<Rightarrow> u64 option" where
  "parsed_amount s = (case parse_u64 s of Inr n \<Rightarrow> Some n | Inl _ \<Rightarrow> None)"

fun native_intent_matches_quote :: "PreparedTransaction \<Rightarrow> NativeWalletExecutionIntent \<Rightarrow> bool" where
  "native_intent_matches_quote quote (TransactionIntent (BtcSpec from_address to amount_sat fee_sat utxos)) \<longleftrightarrow>
     pt_chain quote = WBtc \<and> pt_kind quote = NativeTransferKind \<and> from_address = pt_from_address quote \<and>
     to = pt_to_address quote \<and> parsed_amount (pt_amount_raw quote) = Some amount_sat"
| "native_intent_matches_quote quote (TransactionIntent (EvmSpec to value_wei data_hex nonce gas_limit gas_price_wei chain_id)) \<longleftrightarrow>
     (if pt_chain quote \<noteq> WEvm \<or> evm_chain_id_of (option_or EthereumMainnet (pt_evm_network quote)) \<noteq> chain_id then False
      else case pt_kind quote of
        NativeTransferKind \<Rightarrow> to = pt_to_address quote \<and> value_wei = pt_amount_raw quote \<and> data_hex = []
      | TokenTransferKind \<Rightarrow>
          (case pt_token_address quote of
             None \<Rightarrow> False
           | Some contract \<Rightarrow> eq_ignore_ascii_case to contract \<and> value_wei = ''0'' \<and>
               evm_transfer_data_matches data_hex (pt_to_address quote) (pt_amount_raw quote)))"
| "native_intent_matches_quote quote (TransactionIntent (SolanaSpec from_address to lamports blockhash)) \<longleftrightarrow>
     pt_chain quote = WSolana \<and> pt_kind quote = NativeTransferKind \<and> from_address = pt_from_address quote \<and>
     to = pt_to_address quote \<and> parsed_amount (pt_amount_raw quote) = Some lamports"
| "native_intent_matches_quote quote (TransactionIntent (TronSpec raw_data_hex expected_to expected_txid transfer)) \<longleftrightarrow>
     (if pt_chain quote \<noteq> WTron \<or> expected_to \<noteq> pt_to_address quote then False
      else case (pt_kind quote, transfer) of
        (NativeTransferKind, NativeSun amount_sun) \<Rightarrow> parsed_amount (pt_amount_raw quote) = Some amount_sun
      | (TokenTransferKind, Trc20 parameter_hex) \<Rightarrow> intent_valid_hex parameter_hex
      | _ \<Rightarrow> False)"
| "native_intent_matches_quote quote (SolanaMessageIntent message_hex) \<longleftrightarrow>
     pt_chain quote = WSolana \<and> pt_kind quote = TokenTransferKind \<and> intent_valid_hex message_hex"

fun operation_name :: "Web3QuoteKind \<Rightarrow> string" where
  "operation_name Swap = ''swap''"
| "operation_name Bridge = ''bridge''"
| "operation_name DappCall = ''dapp_call''"

definition quote_str :: "json \<Rightarrow> string \<Rightarrow> string option" where
  "quote_str v key = (case json_get key v of None \<Rightarrow> None | Some x \<Rightarrow> as_str x)"

definition evm_approval_matches :: "Web3QuoteResponse \<Rightarrow> string \<Rightarrow> string \<Rightarrow> string option \<Rightarrow> string \<Rightarrow> u64 \<Rightarrow> bool" where
  "evm_approval_matches quote network to data v chain_id =
     (if (case quote_str (wr_quote quote) ''network'' of None \<Rightarrow> False | Some expected \<Rightarrow> expected \<noteq> network) \<or>
         \<not> known_evm_chain network chain_id then False
      else case wr_kind quote of
        DappCall \<Rightarrow>
          (case quote_str (wr_quote quote) ''contractAddress'' of
             None \<Rightarrow> False | Some expected \<Rightarrow> eq_ignore_ascii_case expected to) \<and>
          (case quote_str (wr_quote quote) ''calldata'' of None \<Rightarrow> False | Some expected \<Rightarrow> data = Some expected) \<and>
          (case quote_str (wr_quote quote) ''valueRaw'' of None \<Rightarrow> False | Some expected \<Rightarrow> expected = v)
      | _ \<Rightarrow>
          (case json_get ''tx'' (wr_quote quote) of
             None \<Rightarrow> False
           | Some transaction \<Rightarrow>
               (case quote_str transaction ''to'' of None \<Rightarrow> False | Some expected \<Rightarrow> eq_ignore_ascii_case expected to) \<and>
               quote_str transaction ''data'' = data \<and>
               decimal_json (json_get ''value'' transaction) = Some v))"

definition web3_approval_matches_request :: "Web3QuoteResponse \<Rightarrow> AuthorizeWeb3ExecutionRequest \<Rightarrow> bool" where
  "web3_approval_matches_request quote request =
     (if wr_quote_id quote \<noteq> aw_quote_id request \<or> operation_name (wr_kind quote) \<noteq> aw_operation request then False
      else case (aw_transaction request, wr_signing_chain quote) of
        (Web3EvmIntent network to data v _ _ _ chain_id, WEvm) \<Rightarrow> evm_approval_matches quote network to data v chain_id
      | (Web3SolanaIntent tx_blob_hex, WSolana) \<Rightarrow>
          (wr_kind quote = Swap \<or> wr_kind quote = Bridge) \<and>
          (case json_get ''tx'' (wr_quote quote) of None \<Rightarrow> None | Some transaction \<Rightarrow> quote_str transaction ''data'') =
            Some tx_blob_hex
      | _ \<Rightarrow> False)"

section \<open>The calldata check is the ERC-20 encoding\<close>

lemma word_mul10_step:
  fixes b :: u8 and carry :: u16
  assumes "unat carry < 10"
  defines "v \<equiv> ucast b * 10 + carry :: u16"
  shows "unat v = unat b * 10 + unat carry" and "unat (ucast (v AND 0xff) :: u8) = unat v mod 256"
    and "unat (drop_bit 8 v) = unat v div 256"
proof -
  have b: "unat (ucast b :: u16) = unat b" by (simp add: unat_ucast_wider)
  show "unat v = unat b * 10 + unat carry"
    unfolding v_def using b assms(1) unat_u8_less [of b] by (simp add: unat_word_ariths)
  have m: "v AND 0xff = take_bit 8 v" by (simp add: take_bit_eq_mask mask_eq_exp_minus_1)
  have "unat (v AND 0xff) = unat v mod 256"
    by (simp only: m unsigned_take_bit_eq) (simp add: take_bit_eq_mod)
  then show "unat (ucast (v AND 0xff) :: u8) = unat v mod 256"
    by (simp add: unsigned_ucast_eq take_bit_eq_mod)
  show "unat (drop_bit 8 v) = unat v div 256" by (simp add: unat_drop_bit)
qed

text \<open>The sixteen-bit loop computes what the thirty-two-bit loop of \<open>eip712\<close> computes.\<close>

lemma word_mul10_eq:
  assumes "unat carry < 10" and "unat carry32 = unat carry"
  shows "fst (word_mul10 bs carry) = fst (mul10_add bs carry32) \<and> unat (snd (word_mul10 bs carry)) = unat (snd (mul10_add bs carry32))"
  using assms
proof (induction bs arbitrary: carry carry32)
  case (Cons b bs)
  let ?v = "ucast b * 10 + carry :: u16" and ?p = "ucast b * 10 + carry32 :: u32"
  note v = word_mul10_step [OF Cons.prems(1), of b]
  have c: "unat carry32 < 10" using Cons.prems by simp
  note p = mul10_step [OF c, of b]
  have "unat (drop_bit 8 ?v) < 10" "unat (drop_bit 8 ?p) = unat (drop_bit 8 ?v)"
    using v(1,3) p(1,3,5) Cons.prems(2) by simp_all
  note ih = Cons.IH [OF this]
  have "unat (ucast (?v AND 0xff) :: u8) = unat (ucast (?p AND 0xff) :: u8)"
    using v(1,2) p(1,2) Cons.prems(2) by simp
  then have "(ucast (?v AND 0xff) :: u8) = ucast (?p AND 0xff)" by (rule unsigned_word_eqI)
  with ih p(4) show ?case by (simp add: Let_def case_prod_beta)
qed simp

lemma word_digits_eq:
  assumes "list_all is_ascii_digit s"
  shows "word_digits s out = (case u256_digits s out of Inr r \<Rightarrow> Some r | Inl _ \<Rightarrow> None)"
  using assms
proof (induction s arbitrary: out)
  case (Cons c s)
  let ?d = "of_char c - 48 :: nat"
  have "?d < 10" using Cons.prems by (auto simp: is_ascii_digit_def Let_def)
  then have d: "unat (of_nat ?d :: u16) < 10" "unat (of_nat ?d :: u32) = unat (of_nat ?d :: u16)"
    by (simp_all only: unat_of_nat) simp_all
  note e = word_mul10_eq [OF d, of "rev out"]
  have "snd (word_mul10 (rev out) (of_nat ?d)) = 0 \<longleftrightarrow> snd (mul10_add (rev out) (of_nat ?d)) = 0"
    using e by (metis unat_eq_zero)
  with e Cons show ?case by (simp add: case_prod_beta)
qed simp

lemma HEX_nth: "n < 16 \<Longrightarrow> HEX ! n = hex_char n"
proof -
  assume "n < 16"
  moreover have "\<forall>n \<in> set [0..<16]. HEX ! n = hex_char n" by code_simp
  ultimately show ?thesis by simp
qed

lemma HEX_byte: "[HEX ! unat (drop_bit 4 b), HEX ! unat (b AND 0x0f)] = hex_byte b"
proof -
  have "b AND 0x0f = take_bit 4 b" by (simp add: take_bit_eq_mask mask_eq_exp_minus_1)
  then have "unat (b AND 0x0f) = unat b mod 16"
    by (simp only: unsigned_take_bit_eq) (simp add: take_bit_eq_mod)
  moreover have "unat (drop_bit 4 b) = unat b div 16" by (simp add: unat_drop_bit)
  moreover have "unat b div 16 < 16" using unat_u8_less [of b] by auto
  ultimately show ?thesis by (simp add: hex_byte_def HEX_nth)
qed

lemma decimal_u256_word_Some:
  "decimal_u256_word s = Some w \<longleftrightarrow>
     s \<noteq> [] \<and> list_all is_ascii_digit s \<and> dec_val s < 2 ^ 256 \<and> w = hex_encode (be_bytes 32 (dec_val s))"
proof (cases "s = [] \<or> \<not> list_all is_ascii_digit s")
  case False
  have bytes: "concat (map (\<lambda>b. [HEX ! unat (drop_bit 4 b), HEX ! unat (b AND 0x0f)]) bs) = hex_encode bs" for bs
    by (simp only: HEX_byte hex_encode_def)
  have u: "u256_digits s (replicate 32 0) = Inr r \<longleftrightarrow> dec_val s < 2 ^ 256 \<and> r = be_bytes 32 (dec_val s)" for r
    using u256_digits_val [of s "replicate 32 0" r] False be_val_replicate_0 [of 32 "[]"] by (simp add: Let_def dec_val_def)
  have w: "decimal_u256_word s = (case u256_digits s (replicate 32 0) of Inl _ \<Rightarrow> None | Inr r \<Rightarrow> Some (hex_encode r))"
    unfolding decimal_u256_word_def bytes using False word_digits_eq [of s "replicate 32 0"]
    by (simp split: sum.splits)
  show ?thesis
  proof (cases "u256_digits s (replicate 32 0)")
    case (Inl e)
    then have "\<not> dec_val s < 2 ^ 256" using u [of "be_bytes 32 (dec_val s)"] by auto
    with Inl w show ?thesis by (simp only: sum.case) blast
  next
    case (Inr r)
    with u [of r] w False show ?thesis by (simp only: sum.case option.inject) blast
  qed
qed (auto simp: decimal_u256_word_def)

lemma lower_plus: "char_to_lower c = CHR ''+'' \<longleftrightarrow> c = CHR ''+''"
proof
  assume l: "char_to_lower c = CHR ''+''"
  show "c = CHR ''+''"
  proof (cases "65 \<le> (of_char c :: nat) \<and> (of_char c :: nat) \<le> 90")
    case True
    then have "(of_char (char_to_lower c) :: nat) = of_char c + 32" by (simp add: char_to_lower_def)
    with l True show ?thesis by simp
  next
    case False
    then have "char_to_lower c = c" unfolding char_to_lower_def Let_def by (simp only: if_False)
    with l show ?thesis by simp
  qed
qed (simp add: char_to_lower_def)

lemma continuation_lower: "is_continuation (char_to_lower c) = is_continuation c"
  by (simp add: is_continuation_def char_to_lower_def Let_def)

text \<open>Decoding does not see the case of a digit.\<close>

lemma decode_hex_pairs_lower: "decode_hex_pairs (map char_to_lower s) = decode_hex_pairs s"
proof (induction s rule: decode_hex_pairs.induct)
  case (3 c d s)
  have "from_digits16 n [char_to_lower d] = from_digits16 n [d]" for n by simp
  then have "u8_from_str_radix_16 [char_to_lower c, char_to_lower d] = u8_from_str_radix_16 [c, d]"
    by (simp add: u8_from_str_radix_16_def lower_plus split: option.splits)
  moreover have "(map char_to_lower s \<noteq> [] \<and> is_continuation (hd (map char_to_lower s))) = (s \<noteq> [] \<and> is_continuation (hd s))"
    by (cases s) (simp_all add: continuation_lower)
  moreover have "decode_hex_pairs (map char_to_lower s) = decode_hex_pairs s"
    if "\<not> (s \<noteq> [] \<and> is_continuation (hd s))" "u8_from_str_radix_16 [c, d] = Some b" for b
    using 3 that by blast
  ultimately show ?case by (cases "u8_from_str_radix_16 [c, d]") (auto simp del: list.map_disc_iff)
qed simp_all

lemma eq_ignore_decode:
  assumes "eq_ignore_ascii_case s (hex_encode bs)"
  shows "decode_hex_pairs s = Inr bs"
proof -
  have "decode_hex_pairs s = decode_hex_pairs (map char_to_lower (hex_encode bs))"
    using assms decode_hex_pairs_lower [of s] by (simp add: eq_ignore_ascii_case_def)
  then show ?thesis by (simp add: decode_hex_pairs_lower decode_hex_pairs_encode)
qed

lemma hex_char_of_val: "hex_val c = Some n \<Longrightarrow> hex_char n = char_to_lower c"
proof -
  assume c: "hex_val c = Some n"
  then have "n < 16" by (rule hex_val_less)
  then have "(of_char (hex_char n) :: nat) = of_char (char_to_lower c)"
    using c of_char_hex_char [of n] by (auto simp: hex_val_def char_to_lower_def Let_def split: if_splits)
  then show ?thesis by simp
qed

lemma hex_encode_decoded:
  assumes "\<forall>c \<in> set s. is_ascii_hexdigit c" and "decode_hex_pairs s = Inr bs"
  shows "hex_encode bs = to_ascii_lowercase s"
  using assms
proof (induction s arbitrary: bs rule: decode_hex_pairs.induct)
  case (3 c d s)
  then obtain m n where mn: "hex_val c = Some m" "hex_val d = Some n" by (auto simp: is_ascii_hexdigit_def)
  then have lt: "m < 16" "n < 16" by (simp_all add: hex_val_less)
  have "c \<noteq> CHR ''+''" using mn(1) by (auto simp: hex_val_def)
  then have u: "u8_from_str_radix_16 [c, d] = Some (of_nat (m * 16 + n))"
    using mn lt by (simp add: u8_from_str_radix_16_def)
  from 3(3) u obtain cs where cs: "\<not> (s \<noteq> [] \<and> is_continuation (hd s))" "decode_hex_pairs s = Inr cs" "bs = of_nat (m * 16 + n) # cs"
    by (auto simp: result_simps split: if_splits)
  have "unat (of_nat (m * 16 + n) :: u8) = m * 16 + n" using lt by (simp only: unat_of_nat) simp
  then have "hex_byte (of_nat (m * 16 + n)) = [hex_char m, hex_char n]" using lt by (simp add: hex_byte_def)
  with cs 3(1) [OF cs(1) u _ cs(2)] 3(2) mn show ?case by (simp add: to_ascii_lowercase_def hex_char_of_val)
qed (simp_all add: to_ascii_lowercase_def)

text \<open>The bytes an ERC-20 transfer of \<open>n\<close> to the 20 bytes \<open>addr\<close> carries.\<close>

definition erc20_bytes :: "bytes \<Rightarrow> nat \<Rightarrow> bytes" where
  "erc20_bytes addr n = TRANSFER_SELECTOR @ left_pad_address addr @ be_bytes 32 n"

lemma selector_text: "hex_encode TRANSFER_SELECTOR = ''a9059cbb''"
  by code_simp

lemma hex_zeros: "hex_encode (replicate k 0) = replicate (2 * k) (CHR ''0'')"
proof -
  have "hex_byte 0 = ''00''" by code_simp
  then show ?thesis by (induction k) simp_all
qed

lemma expected_calldata:
  assumes "length address = 40" and "\<forall>c \<in> set address. is_ascii_hexdigit c" and "decode_hex_pairs address = Inr addr"
  shows "''a9059cbb'' @ replicate (64 - length address) (CHR ''0'') @ to_ascii_lowercase address @ hex_encode (be_bytes 32 n) =
    hex_encode (erc20_bytes addr n)"
  using hex_encode_decoded [OF assms(2,3)] hex_zeros [of 12] assms(1)
  by (simp only: erc20_bytes_def left_pad_address_def hex_encode_append selector_text append_assoc) simp

text \<open>The calldata check, with no text left in it: the data decodes to the transfer of the amount to the recipient.\<close>

lemma evm_transfer_data_matches_iff:
  "evm_transfer_data_matches data recipient amount \<longleftrightarrow>
     (\<exists>address addr. strip_0x recipient = Some address \<and> length address = 40 \<and> (\<forall>c \<in> set address. is_ascii_hexdigit c) \<and>
        decode_hex_pairs address = Inr addr \<and> amount \<noteq> [] \<and> list_all is_ascii_digit amount \<and> dec_val amount < 2 ^ 256 \<and>
        eq_ignore_ascii_case (option_or data (strip_0x data)) (hex_encode (erc20_bytes addr (dec_val amount))))"
  (is "?l \<longleftrightarrow> ?r")
proof (cases "strip_0x recipient")
  case (Some address)
  show ?thesis
  proof (cases "length address = 40 \<and> list_all is_ascii_hexdigit address")
    case True
    then have h: "\<forall>c \<in> set address. is_ascii_hexdigit c" "even (length address)" by (simp_all add: list_all_iff)
    obtain addr where addr: "decode_hex_pairs address = Inr addr" using decode_hex_pairs_hexdigits [OF h(2,1)] by blast
    note e = expected_calldata [OF _ h(1) addr]
    show ?thesis
    proof (cases "decimal_u256_word amount")
      case None
      then have "\<not> ?l" using Some True by (simp add: evm_transfer_data_matches_def)
      moreover have "\<not> ?r" using None decimal_u256_word_Some [of amount "hex_encode (be_bytes 32 (dec_val amount))"] by fastforce
      ultimately show ?thesis by blast
    next
      case w: (Some w)
      note w' = w [unfolded decimal_u256_word_Some]
      have "?l \<longleftrightarrow> eq_ignore_ascii_case (option_or data (strip_0x data)) (hex_encode (erc20_bytes addr (dec_val amount)))"
        using Some True w w' e unfolding evm_transfer_data_matches_def by (simp add: Let_def)
      with Some True h(1) addr w' show ?thesis by simp
    qed
  next
    case False
    then have "\<not> ?l" "\<not> ?r" using Some by (auto simp: evm_transfer_data_matches_def list_all_iff)
    then show ?thesis by blast
  qed
qed (simp add: evm_transfer_data_matches_def)

end
