(* ===== verification/TW_Approval.thy ===== *)
theory TW_Approval
  imports TW_Intent
begin

text \<open>
  What the comparisons of \<open>TW_Intent\<close> promise a host: an EVM intent that matches a quote binds what is
  signed, the intent of an honest execution matches, and where an honest intent cannot match.
\<close>

section \<open>A match binds the signed transaction\<close>

lemma strip_0x_cases:
  obtains "\<exists>b. s = ''0x'' @ b \<and> strip_0x s = Some b" | "\<exists>b. s = ''0X'' @ b \<and> strip_0x s = Some b"
  | "strip_0x s = None" "strip_prefix ''0x'' s = None"
proof (cases "strip_prefix ''0x'' s")
  case None
  then show ?thesis
    using that by (cases "strip_prefix ''0X'' s") (auto simp: strip_0x_def strip_prefix_Some)
next
  case (Some b)
  then have "strip_0x s = Some b" by (simp add: strip_0x_def)
  moreover from Some have "s = ''0x'' @ b" by (simp only: strip_prefix_Some)
  ultimately show ?thesis using that(1) by blast
qed

lemma eq_ignore_hexdigits:
  assumes "eq_ignore_ascii_case s (hex_encode bs)"
  shows "\<forall>c \<in> set s. is_ascii_hexdigit c"
proof -
  have "to_ascii_lowercase s = to_ascii_lowercase (hex_encode bs)"
    using assms by (simp add: eq_ignore_ascii_case_def to_ascii_lowercase_def)
  then show ?thesis
    using hexdigits_lower [of s] hexdigits_lower [of "hex_encode bs"] hex_encode_hexdigits [of bs] by simp
qed

text \<open>An upper-case prefix is not removed by the signer, and then is not hexadecimal.\<close>

lemma svc_decode_hex_upper:
  assumes "\<forall>c \<in> set b. is_ascii_hexdigit c"
  shows "svc_decode_hex (''0X'' @ b) \<noteq> Inr bs"
proof -
  let ?s = "''0X'' @ b"
  have "is_graphic (CHR ''0'')" "is_graphic (CHR ''X'')" by code_simp+
  then have t: "trim ?s = ?s" by (intro trim_graphic) (use assms hexdigit_graphic in auto)
  have p: "strip_prefix ''0x'' ?s = None" by (simp add: strip_prefix_def)
  have bad: "u8_from_str_radix_16 ''0X'' = None" by code_simp
  show ?thesis
  proof
    assume d: "svc_decode_hex ?s = Inr bs"
    then have ev: "even (length b)" unfolding svc_decode_hex_def p option.case t Let_def by (simp split: if_splits)
    then obtain k where k: "length ?s div 2 = Suc k" by (auto elim!: evenE)
    have upt: "[0..<Suc k] = 0 # map Suc [0..<k]" by (simp only: upt_conv_Cons zero_less_Suc map_Suc_upt)
    from d have "collect_results (map (\<lambda>index.
        rbind (ok_or (FailInvalidInput ''call data is not hex'') (str_get ?s (index * 2) (index * 2 + 2)))
          (\<lambda>pair. ok_or (FailInvalidInput ''call data is not hex'') (u8_from_str_radix_16 pair))) [0..<Suc k]) = Inr bs"
      unfolding svc_decode_hex_def p option.case t Let_def k using ev by (simp split: if_splits)
    then obtain pair where "str_get ?s (0 * 2) (0 * 2 + 2) = Some pair" "u8_from_str_radix_16 pair \<noteq> None"
      unfolding upt list.map collect_results.simps rbind_eq_Inr ok_or_eq_Inr by auto
    then show False using bad by (simp add: str_get_def split: if_splits)
  qed
qed

lemma matched_calldata:
  assumes "eq_ignore_ascii_case (option_or data (strip_0x data)) (hex_encode bs)" and "svc_decode_hex data = Inr d"
  shows "d = bs"
proof (cases data rule: strip_0x_cases)
  case 1
  then obtain b where b: "data = ''0x'' @ b" "strip_0x data = Some b" by blast
  with assms(1) have m: "eq_ignore_ascii_case b (hex_encode bs)" by (simp add: option_or_def)
  from svc_decode_hex_prefixed [OF eq_ignore_hexdigits [OF m] eq_ignore_decode [OF m]] assms(2) b show ?thesis by simp
next
  case 2
  then obtain b where b: "data = ''0X'' @ b" "strip_0x data = Some b" by blast
  with assms(1) have "eq_ignore_ascii_case b (hex_encode bs)" by (simp add: option_or_def)
  from svc_decode_hex_upper [OF eq_ignore_hexdigits [OF this]] assms(2) b show ?thesis by simp
next
  case 3
  with assms(1) have m: "eq_ignore_ascii_case data (hex_encode bs)" by (simp add: option_or_def)
  have "svc_decode_hex data = Inr bs"
    by (rule svc_decode_hex_body [OF _ eq_ignore_hexdigits [OF m] eq_ignore_decode [OF m]]) (simp add: 3)
  with assms(2) show ?thesis by simp
qed


section \<open>The intent of an honest execution matches\<close>

lemma abi_calldata:
  assumes "evm_validate to = Inr to" and "n < 2 ^ 256"
  shows "\<exists>addr. decode_hex_pairs (evm_strip_prefix to) = Inr addr \<and>
    abi_encode_erc20_transfer to (show_nat n) = Inr (''0x'' @ hex_encode (erc20_bytes addr n))"
proof -
  have u: "u256_from_decimal (show_nat n) = Inr (be_bytes 32 n)"
    using assms(2) show_nat_digits [of n] unfolding u256_from_decimal_Inr trim_show_nat dec_val_show_nat by simp
  obtain addr where "decode_hex_pairs (evm_strip_prefix to) = Inr addr"
    using decode_hex_pairs_hexdigits [of "evm_strip_prefix to"] assms(1) by (auto simp: evm_validate_Inr)
  moreover from decode_evm_address_validated [OF assms(1) this] have
    "abi_encode_erc20_transfer to (show_nat n) = Inr (''0x'' @ hex_encode (erc20_bytes addr n))"
    using assms(1) u by (simp add: abi_encode_erc20_transfer_def erc20_bytes_def hex_encode_append)
  ultimately show ?thesis by blast
qed

lemma eq_ignore_refl [simp]: "eq_ignore_ascii_case s s"
  by (simp add: eq_ignore_ascii_case_def)

lemma honest_calldata_matches:
  assumes "evm_validate to = Inr to" and "decode_hex_pairs (evm_strip_prefix to) = Inr addr" and "n < 2 ^ 256"
  shows "evm_transfer_data_matches (''0x'' @ hex_encode (erc20_bytes addr n)) to (show_nat n) \<longleftrightarrow> strip_prefix ''0x'' to \<noteq> None"
proof -
  have v: "length (evm_strip_prefix to) = 40" "\<forall>c \<in> set (evm_strip_prefix to). is_ascii_hexdigit c"
    using assms(1) by (simp_all add: evm_validate_Inr)
  have d: "strip_0x (''0x'' @ x) = Some x" for x unfolding strip_0x_def strip_prefix_append by simp
  show ?thesis
  proof (cases "strip_prefix ''0x'' to")
    case None
    then have "length to = 40" using v(1) by (simp add: evm_strip_prefix_def)
    moreover from None have "strip_0x to = Some address \<Longrightarrow> to = ''0X'' @ address" for address
      by (simp add: strip_0x_def strip_prefix_Some)
    ultimately show ?thesis using None unfolding evm_transfer_data_matches_iff by fastforce
  next
    case (Some b)
    then have "evm_strip_prefix to = b" "strip_0x to = Some b" by (simp_all add: evm_strip_prefix_def strip_0x_def)
    with v assms(2,3) Some show_nat_digits [of n] show ?thesis
      unfolding evm_transfer_data_matches_iff d option_or_def by simp
  qed
qed

text \<open>
  An honest execution is recognised. Every transaction that does what a prepared EVM transfer says,
  on the chain of its network, is an intent that matches the quote, provided the recipient was given
  with its \<open>0x\<close> prefix; without the prefix a token transfer is prepared but never matches.
\<close>

theorem honest_evm_intent_matches:
  assumes "prepare_transfer p gates S params g = (Inr tx, g')" and "tp_chain params = WEvm"
    and "spec = EvmSpec to value_wei data_hex nonce gas_limit gas_price_wei chain_id" and "spec_of_quote tx spec"
    and "chain_id = evm_chain_id_of (option_or EthereumMainnet (pt_evm_network tx))"
  shows "native_intent_matches_quote tx (TransactionIntent spec) \<longleftrightarrow>
    (pt_kind tx = NativeTransferKind \<or> strip_prefix ''0x'' (pt_to_address tx) \<noteq> None)"
proof -
  obtain amount where f: "pt_chain tx = WEvm" "evm_validate (pt_to_address tx) = Inr (pt_to_address tx)"
    "pt_amount_raw tx = show_nat (unat (amount :: u128))"
    "pt_kind tx = NativeTransferKind \<and> pt_token_address tx = None \<or>
     (\<exists>c. pt_kind tx = TokenTransferKind \<and> pt_token_address tx = Some c \<and> evm_validate c = Inr c)"
    by (rule prepared_evm_fields [OF assms(1,2)])
  from f(4) show ?thesis
  proof (elim disjE exE conjE)
    assume k: "pt_kind tx = NativeTransferKind"
    have "to = pt_to_address tx" "data_hex = []" "value_wei = pt_amount_raw tx"
      using assms(3,4) k f(2,3) parse_uint_show [OF unat_u128_less [of amount]]
      by (auto simp: spec_of_quote_def evm_validate_Inr simp del: power_numeral)
    with k f(1) assms(3,5) show ?thesis by simp
  next
    fix c
    assume k: "pt_kind tx = TokenTransferKind" "pt_token_address tx = Some c" "evm_validate c = Inr c"
    have n: "unat amount < 2 ^ 256" by (rule less_trans [OF unat_u128_less]) simp
    from abi_calldata [OF f(2) n] obtain addr where addr: "decode_hex_pairs (evm_strip_prefix (pt_to_address tx)) = Inr addr"
      "abi_encode_erc20_transfer (pt_to_address tx) (show_nat (unat amount)) = Inr (''0x'' @ hex_encode (erc20_bytes addr (unat amount)))"
      by (elim exE conjE)
    have s: "to = c" "value_wei = ''0''" "data_hex = ''0x'' @ hex_encode (erc20_bytes addr (unat amount))"
      using assms(3,4) k f(3) addr(2) by (auto simp: spec_of_quote_def evm_validate_Inr)
    have "native_intent_matches_quote tx (TransactionIntent spec) \<longleftrightarrow>
        evm_transfer_data_matches data_hex (pt_to_address tx) (show_nat (unat amount))"
      unfolding assms(3) using f(1,3) k s assms(5) by simp
    also have "\<dots> \<longleftrightarrow> strip_prefix ''0x'' (pt_to_address tx) \<noteq> None"
      unfolding s(3) by (rule honest_calldata_matches [OF f(2) addr(1) n])
    finally show ?thesis using k(1) by simp
  qed
qed

section \<open>Where an honest intent cannot match\<close>


section \<open>Witnesses\<close>

definition token_quote :: PreparedTransaction where
  "token_quote = sample_quote\<lparr>pt_kind := TokenTransferKind, pt_token_address := Some ''0x0000000000000000000000000000000000000009'',
     pt_amount_raw := show_nat 7\<rparr>"

definition token_spec :: "bytes \<Rightarrow> TransactionSpec" where
  "token_spec addr = EvmSpec ''0x0000000000000000000000000000000000000009'' ''0'' (''0x'' @ hex_encode (erc20_bytes addr 7)) 0 0 (show_nat 1) 1"

lemma token_spec_transaction: "\<exists>t. evm_transaction (token_spec addr) = Inr t"
proof -
  have "decimal_u128 (show_nat 1) field = Inr 1" "decimal_u128 ''0'' field = Inr 0" for field
    using decimal_u128_show [of 1 field] decimal_u128_show [of 0 field] by (simp_all add: show_nat_0)
  moreover have "svc_decode_hex (''0x'' @ hex_encode (erc20_bytes addr 7)) = Inr (erc20_bytes addr 7)"
    by (rule svc_decode_hex_prefixed [OF hex_encode_hexdigits decode_hex_pairs_encode])
  ultimately show ?thesis by (simp only: token_spec_def evm_transaction.simps rbind_Inr) blast
qed


theorem honest_evm_intent_matches_witness:
  "\<forall>p. \<exists>tx g' spec. prepare_transfer p {Evm} sample_seams sample_params (engine_new ()) = (Inr tx, g') \<and>
     (native_intent_matches_quote tx (TransactionIntent spec) \<longleftrightarrow>
        (pt_kind tx = NativeTransferKind \<or> strip_prefix ''0x'' (pt_to_address tx) \<noteq> None))"
proof
  fix p
  obtain tx g' where run: "prepare_transfer p {Evm} sample_seams sample_params (engine_new ()) = (Inr tx, g')"
    using sample_prepare [of p] by (elim exE)
  have c: "tp_chain sample_params = WEvm" by (simp add: sample_params_def)
  obtain amount where f: "evm_validate (pt_to_address tx) = Inr (pt_to_address tx)" "pt_amount_raw tx = show_nat (unat (amount :: u128))"
    "pt_kind tx = NativeTransferKind \<and> pt_token_address tx = None \<or>
     (\<exists>c. pt_kind tx = TokenTransferKind \<and> pt_token_address tx = Some c \<and> evm_validate c = Inr c)"
    by (rule prepared_evm_fields [OF run c])
  obtain to v data where "spec_of_quote tx (EvmSpec to v data 0 0 [] (evm_chain_id_of (option_or EthereumMainnet (pt_evm_network tx))))"
  proof (cases "pt_token_address tx")
    case None
    with f parse_uint_show [OF unat_u128_less [of amount]] show ?thesis
      by (intro that [of "trim (pt_to_address tx)" "show_nat (unat amount)" "[]"]) (auto simp: spec_of_quote_def simp del: power_numeral)
  next
    case (Some token)
    have n: "unat amount < 2 ^ 256" by (rule less_trans [OF unat_u128_less]) simp
    from abi_calldata [OF f(1) n] obtain addr where
      "abi_encode_erc20_transfer (pt_to_address tx) (show_nat (unat amount)) = Inr (''0x'' @ hex_encode (erc20_bytes addr (unat amount)))"
      by (elim exE conjE)
    with Some f show ?thesis
      by (intro that [of "trim token" "''0''" "''0x'' @ hex_encode (erc20_bytes addr (unat amount))"]) (auto simp: spec_of_quote_def)
  qed
  from honest_evm_intent_matches [OF run c refl this refl] run
  show "\<exists>tx g' spec. prepare_transfer p {Evm} sample_seams sample_params (engine_new ()) = (Inr tx, g') \<and>
     (native_intent_matches_quote tx (TransactionIntent spec) \<longleftrightarrow>
        (pt_kind tx = NativeTransferKind \<or> strip_prefix ''0x'' (pt_to_address tx) \<noteq> None))"
    by blast
qed

definition trc20_quote :: PreparedTransaction where
  "trc20_quote = tron_quote\<lparr>pt_kind := TokenTransferKind, pt_token_address := Some sample_to, pt_to_address := ''recipient''\<rparr>"

definition trigger_node :: "unit seams" where
  "trigger_node = sample_seams\<lparr>sm_json_parse := \<lambda>_. Inr (JObj [(''transaction'',
     JObj [(''txID'', JStr []), (''raw_data'', JNull), (''raw_data_hex'', JStr [])])])\<rparr>"


end
