(* ===== verification/TW_Host.thy ===== *)
theory TW_Host
  imports TW_Approval TW_Web3
begin

text \<open>
  What the module puts between the wallet engine and its host (\<open>tinywallet-module/src/service/host.rs\<close>,
  \<open>web3.rs\<close>, \<open>native_wallet.rs\<close>, the wire types of \<open>tinywallet-bus/src/wire/host.rs\<close>): the typed callbacks,
  the task-local context of a request (owner, secret, approvals), the signer that asks the host before it
  uses the secret, the endpoints and the transport. The host is one function on the state, which may do
  whatever the other tasks do while it is awaited, except touch the context of this task: that is the
  locale \<open>task_scope\<close>, interpreted on the states of the engine and of the web3 service.
\<close>

section \<open>Requests to the host and its answers\<close>

record AuthorizationResult =
  au_approved :: bool
  au_reason :: "string option"

record NetworkRequest =
  nr_chain :: Chain
  nr_evm_chain_id :: "u64 option"
  nr_endpoint_ref :: "string option"
  nr_endpoint_url :: "string option"

datatype ChainTransportRequest =
    JsonRpcRequest NetworkRequest string json
  | RestGetRequest NetworkRequest string
  | RestPostRequest NetworkRequest string string string

datatype ChainTransportResult = TransportOk json | TransportUnreachable string | TransportRpcError string

datatype WalletBackendRequest = RoutesRequest | SwapTransaction json | BridgeTransaction json

record WalletBackendResponse =
  wb_data :: json

record WalletAccountInfo =
  wi_chain :: Chain
  wi_address :: string
  wi_derivation_path :: string

record WalletAccountsResponse =
  wr_configured :: bool
  wr_accounts :: "WalletAccountInfo list"

datatype HostResponse =
    WalletAccountsReply WalletAccountsResponse
  | AuthorizationReply AuthorizationResult
  | ChainTransportReply ChainTransportResult
  | WalletBackendReply WalletBackendResponse

record AuthorizeX402PaymentRequest =
  ax_url :: string
  ax_network :: string
  ax_asset :: string
  ax_recipient :: string
  ax_amount_atomic :: u64
  ax_owner :: "QuoteOwner option"

text \<open>The arguments of a member of the host interface.\<close>

datatype HostArgs =
    BackendArgs WalletBackendRequest
  | AccountsArgs
  | TransportArgs ChainTransportRequest
  | Web3Args AuthorizeWeb3ExecutionRequest
  | NativeArgs AuthorizeNativeWalletExecutionRequest
  | X402Args AuthorizeX402PaymentRequest

text \<open>The bus proxy and the \<open>Debug\<close> text of a response.\<close>

record 'g host =
  hb_call :: "string \<Rightarrow> HostArgs \<Rightarrow> 'g \<Rightarrow> (string + HostResponse) \<times> 'g"
  hb_debug :: "HostResponse \<Rightarrow> string"

fun accounts_reply :: "HostResponse \<Rightarrow> WalletAccountsResponse option" where
  "accounts_reply (WalletAccountsReply v) = Some v"
| "accounts_reply _ = None"

fun authorization_reply :: "HostResponse \<Rightarrow> AuthorizationResult option" where
  "authorization_reply (AuthorizationReply v) = Some v"
| "authorization_reply _ = None"

fun transport_reply :: "HostResponse \<Rightarrow> ChainTransportResult option" where
  "transport_reply (ChainTransportReply v) = Some v"
| "transport_reply _ = None"

fun backend_reply :: "HostResponse \<Rightarrow> WalletBackendResponse option" where
  "backend_reply (WalletBackendReply v) = Some v"
| "backend_reply _ = None"

text \<open>The response has to be of the kind its member answers with; a value is encoded and decoded at the
  same type, so that it comes back as it is.\<close>

definition extract_response :: "'g host \<Rightarrow> string \<Rightarrow> (HostResponse \<Rightarrow> 'a option) \<Rightarrow> HostResponse \<Rightarrow> string + 'a" where
  "extract_response H expected kind response =
     ok_or (''host callback '' @ expected @ '' returned the wrong response kind: '' @ hb_debug H response) (kind response)"

definition host_call :: "'g host \<Rightarrow> string \<Rightarrow> (HostResponse \<Rightarrow> 'a option) \<Rightarrow> HostArgs \<Rightarrow> 'g \<Rightarrow> (string + 'a) \<times> 'g" where
  "host_call H member kind args g =
     (case hb_call H member args g of
        (Inr response, g) \<Rightarrow> (extract_response H member kind response, g)
      | (Inl e, g) \<Rightarrow> (Inl e, g))"

definition wallet_backend :: "'g host \<Rightarrow> WalletBackendRequest \<Rightarrow> 'g \<Rightarrow> (string + WalletBackendResponse) \<times> 'g" where
  "wallet_backend H request = host_call H ''WalletBackend'' backend_reply (BackendArgs request)"

definition wallet_accounts :: "'g host \<Rightarrow> 'g \<Rightarrow> (string + WalletAccountsResponse) \<times> 'g" where
  "wallet_accounts H = host_call H ''WalletAccounts'' accounts_reply AccountsArgs"

definition chain_transport :: "'g host \<Rightarrow> ChainTransportRequest \<Rightarrow> 'g \<Rightarrow> (string + ChainTransportResult) \<times> 'g" where
  "chain_transport H request = host_call H ''ChainTransport'' transport_reply (TransportArgs request)"

definition authorize_web3_execution :: "'g host \<Rightarrow> AuthorizeWeb3ExecutionRequest \<Rightarrow> 'g \<Rightarrow> (string + AuthorizationResult) \<times> 'g" where
  "authorize_web3_execution H request = host_call H ''AuthorizeWeb3Execution'' authorization_reply (Web3Args request)"

definition authorize_native_wallet_execution ::
    "'g host \<Rightarrow> AuthorizeNativeWalletExecutionRequest \<Rightarrow> 'g \<Rightarrow> (string + AuthorizationResult) \<times> 'g" where
  "authorize_native_wallet_execution H request =
     host_call H ''AuthorizeNativeWalletExecution'' authorization_reply (NativeArgs request)"

definition authorize_x402_payment :: "'g host \<Rightarrow> AuthorizeX402PaymentRequest \<Rightarrow> 'g \<Rightarrow> (string + AuthorizationResult) \<times> 'g" where
  "authorize_x402_payment H request = host_call H ''AuthorizeX402Payment'' authorization_reply (X402Args request)"

section \<open>The context of a task\<close>

record Web3ApprovalContext =
  wac_quote_id :: string
  wac_operation :: string
  wac_solana_intent :: "Web3ExecutionIntent option"

text \<open>The callbacks of the context are those of the signer.\<close>

record NativeApprovalContext =
  nac_quote :: PreparedTransaction

text \<open>The task-locals; \<open>None\<close> is a local outside its scope. The slot of the secret is a \<open>Mutex\<close> of an option,
  which nothing that holds it can poison.\<close>

record task =
  tk_quote_owner :: "QuoteOwner option option"
  tk_secret :: "SecretMaterial option option"
  tk_web3_approval :: "Web3ApprovalContext option option"
  tk_native_approval :: "NativeApprovalContext option option"

definition fresh_task :: task where
  "fresh_task = \<lparr>tk_quote_owner = None, tk_secret = None, tk_web3_approval = None, tk_native_approval = None\<rparr>"

text \<open>Where the context is kept in the state of a service.\<close>

record 'g locals =
  lc_task :: "'g \<Rightarrow> task"
  lc_put :: "task \<Rightarrow> 'g \<Rightarrow> 'g"

text \<open>\<open>scope\<close> sets a local for the time of a future and restores it afterwards.\<close>

definition with_quote_owner :: "'g locals \<Rightarrow> QuoteOwner option \<Rightarrow> ('g \<Rightarrow> 'r \<times> 'g) \<Rightarrow> 'g \<Rightarrow> 'r \<times> 'g" where
  "with_quote_owner L owner future g =
     (let before = tk_quote_owner (lc_task L g);
          (r, g) = future (lc_put L ((lc_task L g)\<lparr>tk_quote_owner := Some owner\<rparr>) g)
      in (r, lc_put L ((lc_task L g)\<lparr>tk_quote_owner := before\<rparr>) g))"

definition with_secret :: "'g locals \<Rightarrow> SecretMaterial \<Rightarrow> ('g \<Rightarrow> 'r \<times> 'g) \<Rightarrow> 'g \<Rightarrow> 'r \<times> 'g" where
  "with_secret L secret future g =
     (let before = tk_secret (lc_task L g);
          (r, g) = future (lc_put L ((lc_task L g)\<lparr>tk_secret := Some (Some secret)\<rparr>) g)
      in (r, lc_put L ((lc_task L g)\<lparr>tk_secret := before\<rparr>) g))"

definition with_web3_approval :: "'g locals \<Rightarrow> Web3ApprovalContext option \<Rightarrow> ('g \<Rightarrow> 'r \<times> 'g) \<Rightarrow> 'g \<Rightarrow> 'r \<times> 'g" where
  "with_web3_approval L approval future g =
     (let before = tk_web3_approval (lc_task L g);
          (r, g) = future (lc_put L ((lc_task L g)\<lparr>tk_web3_approval := Some approval\<rparr>) g)
      in (r, lc_put L ((lc_task L g)\<lparr>tk_web3_approval := before\<rparr>) g))"

definition with_native_approval :: "'g locals \<Rightarrow> NativeApprovalContext \<Rightarrow> ('g \<Rightarrow> 'r \<times> 'g) \<Rightarrow> 'g \<Rightarrow> 'r \<times> 'g" where
  "with_native_approval L approval future g =
     (let before = tk_native_approval (lc_task L g);
          (r, g) = future (lc_put L ((lc_task L g)\<lparr>tk_native_approval := Some (Some approval)\<rparr>) g)
      in (r, lc_put L ((lc_task L g)\<lparr>tk_native_approval := before\<rparr>) g))"

definition with_execution_context :: "'g locals \<Rightarrow> QuoteOwner option \<Rightarrow> SecretMaterial \<Rightarrow> Web3ApprovalContext option \<Rightarrow>
    ('g \<Rightarrow> 'r \<times> 'g) \<Rightarrow> 'g \<Rightarrow> 'r \<times> 'g" where
  "with_execution_context L owner secret approval future =
     with_web3_approval L approval (with_secret L secret (with_quote_owner L owner future))"

definition take_secret :: "'g locals \<Rightarrow> 'g \<Rightarrow> (string + SecretMaterial) \<times> 'g" where
  "take_secret L g =
     (case tk_secret (lc_task L g) of
        None \<Rightarrow> (Inl ''wallet secret is unavailable outside a confirmed execution'', g)
      | Some None \<Rightarrow> (Inl ''wallet secret was already consumed'', g)
      | Some (Some secret) \<Rightarrow> (Inr secret, lc_put L ((lc_task L g)\<lparr>tk_secret := Some None\<rparr>) g))"

definition clone_secret :: "'g locals \<Rightarrow> 'g \<Rightarrow> string + SecretMaterial" where
  "clone_secret L g =
     (case tk_secret (lc_task L g) of
        None \<Rightarrow> Inl ''wallet secret is unavailable outside a confidential payment''
      | Some None \<Rightarrow> Inl ''wallet secret was already consumed''
      | Some (Some secret) \<Rightarrow> Inr secret)"

text \<open>\<open>TaskQuoteScope::current_owner\<close>.\<close>

definition current_owner :: "'g locals \<Rightarrow> 'g \<Rightarrow> QuoteOwner option" where
  "current_owner L g = (case tk_quote_owner (lc_task L g) of Some owner \<Rightarrow> owner | None \<Rightarrow> None)"

section \<open>The signer\<close>

definition require_approved :: "AuthorizationResult \<Rightarrow> string + unit" where
  "require_approved decision =
     (if au_approved decision then Inr () else Inl (option_or ''wallet transaction was not approved'' (au_reason decision)))"

definition native_approval :: "'g locals \<Rightarrow> 'g \<Rightarrow> NativeApprovalContext option" where
  "native_approval L g = (case tk_native_approval (lc_task L g) of Some approval \<Rightarrow> approval | None \<Rightarrow> None)"

text \<open>The host is shown the stored quote and the exact thing that is about to be signed.\<close>

definition native_request :: "NativeApprovalContext \<Rightarrow> NativeWalletExecutionIntent \<Rightarrow> AuthorizeNativeWalletExecutionRequest" where
  "native_request approval intent =
     \<lparr>an_quote_id = pt_quote_id (nac_quote approval), an_operation = ''transfer'', an_quote = nac_quote approval, an_intent = intent\<rparr>"

definition ask_native :: "'g host \<Rightarrow> NativeApprovalContext option \<Rightarrow> NativeWalletExecutionIntent \<Rightarrow> 'g \<Rightarrow> (string + unit) \<times> 'g" where
  "ask_native H approval intent g =
     (case approval of
        None \<Rightarrow> (Inr (), g)
      | Some approval \<Rightarrow>
          sbind (authorize_native_wallet_execution H (native_request approval intent) g) (\<lambda>decision g. (require_approved decision, g)))"

definition web3_request :: "Web3ApprovalContext \<Rightarrow> string \<Rightarrow> string \<Rightarrow> string \<Rightarrow> u64 \<Rightarrow> u64 \<Rightarrow> string \<Rightarrow> u64 \<Rightarrow> AuthorizeWeb3ExecutionRequest" where
  "web3_request approval to value_wei data_hex nonce gas_limit gas_price_wei chain_id =
     \<lparr>aw_quote_id = wac_quote_id approval, aw_operation = wac_operation approval,
      aw_transaction = Web3EvmIntent (''eip155:'' @ show_nat (unat chain_id)) to (Some data_hex) value_wei nonce gas_limit gas_price_wei chain_id\<rparr>"

definition ask_web3 :: "'g locals \<Rightarrow> 'g host \<Rightarrow> TransactionSpec \<Rightarrow> 'g \<Rightarrow> (string + unit) \<times> 'g" where
  "ask_web3 L H transaction g =
     (case tk_web3_approval (lc_task L g) of
        Some (Some approval) \<Rightarrow>
          (case transaction of
             EvmSpec to value_wei data_hex nonce gas_limit gas_price_wei chain_id \<Rightarrow>
               sbind (authorize_web3_execution H
                        (web3_request approval to value_wei data_hex nonce gas_limit gas_price_wei chain_id) g)
                 (\<lambda>decision g. (require_approved decision, g))
           | _ \<Rightarrow> (Inl ''EVM signer received a non-EVM transaction'', g))
      | _ \<Rightarrow> (Inl ''EVM quote approval context is unavailable'', g))"

definition SECRET_CHAIN_MISMATCH :: string where
  "SECRET_CHAIN_MISMATCH = ''wallet secret chain does not match the requested signing chain''"

text \<open>The seam tells a failure as text; where the transaction library panics, the text is empty.\<close>

definition module_derive_account :: "crates \<Rightarrow> 'g locals \<Rightarrow> WalletChain \<Rightarrow> 'g \<Rightarrow> (string + DerivedAccount) \<times> 'g" where
  "module_derive_account cr L chain g =
     (rbind (clone_secret L g) (\<lambda>secret. map_err failure_message (svc_derive_account cr secret)), g)"

definition module_sign_transaction :: "crates \<Rightarrow> 'g locals \<Rightarrow> 'g host \<Rightarrow> WalletChain \<Rightarrow> TransactionSpec \<Rightarrow> 'g \<Rightarrow>
    (string + SignedTransaction) \<times> 'g" where
  "module_sign_transaction cr L H chain transaction g =
     (let approval = native_approval L g in
      sbind (ask_native H approval (TransactionIntent transaction) g) (\<lambda>_ g.
      sbind (if chain = WEvm \<and> approval = None then ask_web3 L H transaction g else (Inr (), g)) (\<lambda>_ g.
      sbind (take_secret L g) (\<lambda>secret g.
        if sec_chain secret \<noteq> to_chain chain then (Inl SECRET_CHAIN_MISMATCH, g)
        else (map_err failure_message (svc_sign_transaction cr secret transaction), g)))))"

definition module_sign_message :: "crates \<Rightarrow> 'g locals \<Rightarrow> 'g host \<Rightarrow> WalletChain \<Rightarrow> bytes \<Rightarrow> Scheme \<Rightarrow> 'g \<Rightarrow>
    (string + Signature) \<times> 'g" where
  "module_sign_message cr L H chain message scheme g =
     sbind (ask_native H (native_approval L g) (SolanaMessageIntent (hex_encode message)) g) (\<lambda>_ g.
     sbind (take_secret L g) (\<lambda>secret g.
       if sec_chain secret \<noteq> to_chain chain then (Inl SECRET_CHAIN_MISMATCH, g)
       else (map_err failure_message (svc_sign_message cr secret (hex_encode message) scheme), g)))"

section \<open>Endpoints and transport\<close>

datatype RpcEndpointKey = EvmKey EvmNetwork | BtcKey | SolanaKey | TronKey

fun endpoint_key :: "WalletChain \<Rightarrow> EvmNetwork option \<Rightarrow> RpcEndpointKey" where
  "endpoint_key WEvm net = EvmKey (option_or EthereumMainnet net)"
| "endpoint_key WBtc net = BtcKey"
| "endpoint_key WSolana net = SolanaKey"
| "endpoint_key WTron net = TronKey"

text \<open>\<open>RpcEndpoints\<close> with the method that names an override of the host.\<close>

record module_endpoints = RpcEndpoints +
  ep_endpoint_ref :: "WalletChain \<Rightarrow> EvmNetwork option \<Rightarrow> string option"

fun public_url :: "SolanaCluster \<Rightarrow> WalletChain \<Rightarrow> EvmNetwork option \<Rightarrow> string" where
  "public_url cluster WEvm net = default_rpc_url_for_evm (option_or EthereumMainnet net)"
| "public_url cluster other net = default_rpc_url other cluster"

definition default_endpoints :: module_endpoints where
  "default_endpoints = \<lparr>ep_url = public_url Mainnet, ep_source = \<lambda>_ _. DefaultSource, ep_solana_cluster = Mainnet,
     ep_endpoint_ref = \<lambda>_ _. None\<rparr>"

definition reference_source :: "(RpcEndpointKey \<rightharpoonup> string) \<Rightarrow> WalletChain \<Rightarrow> EvmNetwork option \<Rightarrow> RpcSource" where
  "reference_source references chain net = (if references (endpoint_key chain net) \<noteq> None then EnvOverride else DefaultSource)"

definition web3_endpoints :: "SolanaCluster \<Rightarrow> (RpcEndpointKey \<rightharpoonup> string) \<Rightarrow> module_endpoints" where
  "web3_endpoints cluster references =
     \<lparr>ep_url = public_url cluster, ep_source = reference_source references, ep_solana_cluster = cluster,
      ep_endpoint_ref = \<lambda>chain net. references (endpoint_key chain net)\<rparr>"

definition native_endpoints :: "SolanaCluster \<Rightarrow> (RpcEndpointKey \<rightharpoonup> string) \<Rightarrow> module_endpoints" where
  "native_endpoints cluster references =
     \<lparr>ep_url = \<lambda>chain net. option_or (public_url cluster chain net) (references (endpoint_key chain net)),
      ep_source = reference_source references, ep_solana_cluster = cluster,
      ep_endpoint_ref = \<lambda>chain net. references (endpoint_key chain net)\<rparr>"

text \<open>\<open>Chain\<close> is open for more variants, which no chain of this build has; the two conversions are total.\<close>

fun from_chain :: "Chain \<Rightarrow> WalletChain" where
  "from_chain Evm = WEvm"
| "from_chain Btc = WBtc"
| "from_chain Solana = WSolana"
| "from_chain Tron = WTron"

definition network_request :: "NetworkId \<Rightarrow> module_endpoints option \<Rightarrow> NetworkRequest" where
  "network_request network endpoints =
     (let wallet_chain = from_chain (nid_chain network);
          evm_network = Option.bind (nid_evm_chain_id network) (\<lambda>i. List.find (\<lambda>n. evm_chain_id_of n = i) EvmNetwork_ALL);
          endpoint_ref = Option.bind endpoints (\<lambda>e. ep_endpoint_ref e wallet_chain evm_network)
      in \<lparr>nr_chain = to_chain wallet_chain, nr_evm_chain_id = nid_evm_chain_id network, nr_endpoint_ref = endpoint_ref,
          nr_endpoint_url =
            (if endpoint_ref = None then Some (ep_url (option_or default_endpoints endpoints) wallet_chain evm_network) else None)\<rparr>)"

definition transport_call :: "'g host \<Rightarrow> NetworkId \<Rightarrow> ChainTransportRequest \<Rightarrow> 'g \<Rightarrow> (TransportError + ChainTransportResult) \<times> 'g" where
  "transport_call H network request g =
     (case chain_transport H request g of
        (Inl message, g) \<Rightarrow> (Inl (Unreachable network message), g)
      | (Inr result, g) \<Rightarrow> (Inr result, g))"

definition rest_result :: "(json \<Rightarrow> string) \<Rightarrow> NetworkId \<Rightarrow> ChainTransportResult \<Rightarrow> TransportError + string" where
  "rest_result json_text network result =
     (case result of
        TransportOk (JStr body) \<Rightarrow> Inr body
      | TransportOk body \<Rightarrow> Inl (Rpc network (''REST provider returned a non-string body: '' @ json_text body))
      | TransportUnreachable message \<Rightarrow> Inl (Unreachable network message)
      | TransportRpcError message \<Rightarrow> Inl (Rpc network message))"

fun json_rpc_result :: "NetworkId \<Rightarrow> ChainTransportResult \<Rightarrow> TransportError + json" where
  "json_rpc_result network (TransportOk body) = Inr body"
| "json_rpc_result network (TransportUnreachable message) = Inl (Unreachable network message)"
| "json_rpc_result network (TransportRpcError message) = Inl (Rpc network message)"

definition host_json_rpc where
  "host_json_rpc H endpoints network rpc_method params g =
     sbind (transport_call H network (JsonRpcRequest (network_request network endpoints) rpc_method params) g) (\<lambda>result g.
       (json_rpc_result network result, g))"

definition host_rest_get where
  "host_rest_get H json_text endpoints network path g =
     sbind (transport_call H network (RestGetRequest (network_request network endpoints) path) g) (\<lambda>result g.
       (rest_result json_text network result, g))"

definition host_rest_post where
  "host_rest_post H json_text endpoints network path body content_type g =
     sbind (transport_call H network (RestPostRequest (network_request network endpoints) path body content_type) g) (\<lambda>result g.
       (rest_result json_text network result, g))"

definition host_status :: "'g host \<Rightarrow> 'g \<Rightarrow> (string + WalletStatus) \<times> 'g" where
  "host_status H g =
     sbind (wallet_accounts H g) (\<lambda>response g.
       (Inr \<lparr>ws_configured = wr_configured response, ws_onboarding_completed = wr_configured response, ws_consent_granted = False,
             ws_secret_stored = wr_configured response, ws_source = None, ws_mnemonic_word_count = None,
             ws_accounts = map (\<lambda>account. \<lparr>wa_chain = from_chain (wi_chain account), wa_address = wi_address account,
               wa_derivation_path = wi_derivation_path account\<rparr>) (wr_accounts response),
             ws_updated_at_ms = None\<rparr>, g))"

definition host_backend :: "'g host \<Rightarrow> 'g backend" where
  "host_backend H =
     (let ask = (\<lambda>request g. sbind (wallet_backend H request g) (\<lambda>response g. (Inr (wb_data response), g)))
      in \<lparr>bk_routes = ask RoutesRequest, bk_swap_tx = \<lambda>body. ask (SwapTransaction body),
          bk_bridge_tx = \<lambda>body. ask (BridgeTransaction body)\<rparr>)"

text \<open>The libraries, the clock and \<open>serde_json\<close>.\<close>

record 'g env =
  ev_crates :: crates
  ev_hex :: hex_crate
  ev_b64 :: b64_crate
  ev_now_ms :: "'g \<Rightarrow> u64"
  ev_json_text :: "json \<Rightarrow> string"
  ev_json_parse :: "string \<Rightarrow> string + json"
  ev_serde_error :: "json \<Rightarrow> string"

definition module_seams :: "'g env \<Rightarrow> 'g locals \<Rightarrow> 'g host \<Rightarrow> module_endpoints \<Rightarrow> 'g seams" where
  "module_seams E L H endpoints =
     \<lparr>sm_json_rpc = host_json_rpc H (Some endpoints), sm_rest_get = host_rest_get H (ev_json_text E) (Some endpoints),
      sm_rest_post = host_rest_post H (ev_json_text E) (Some endpoints), sm_derive_account = module_derive_account (ev_crates E) L,
      sm_sign_transaction = module_sign_transaction (ev_crates E) L H, sm_sign_message = module_sign_message (ev_crates E) L H,
      sm_status = host_status H, sm_endpoints = RpcEndpoints.truncate endpoints, sm_current_owner = current_owner L,
      sm_now_ms = ev_now_ms E, sm_json_text = ev_json_text E, sm_json_parse = ev_json_parse E, sm_serde_error = ev_serde_error E\<rparr>"

section \<open>What a task keeps to itself\<close>

text \<open>The laws of task-locals: the context is a field of the state, and awaiting the host leaves it alone.\<close>

locale task_scope =
  fixes L :: "'g locals" and H :: "'g host"
  assumes task_put [simp]: "lc_task L (lc_put L t g) = t"
    and put_put [simp]: "lc_put L t (lc_put L t' g) = lc_put L t g"
    and put_task [simp]: "lc_put L (lc_task L g) g = g"
    and call_task: "hb_call H member args g = (r, g') \<Longrightarrow> lc_task L g' = lc_task L g"
begin

lemma host_call_task: "host_call H member kind args g = (r, g') \<Longrightarrow> lc_task L g' = lc_task L g"
  by (auto simp: host_call_def split: prod.splits sum.splits dest: call_task)

lemma callbacks_task:
  "wallet_backend H b g = (rb, g') \<Longrightarrow> lc_task L g' = lc_task L g"
  "wallet_accounts H g = (ra, g') \<Longrightarrow> lc_task L g' = lc_task L g"
  "chain_transport H t g = (rt, g') \<Longrightarrow> lc_task L g' = lc_task L g"
  "authorize_web3_execution H w g = (rw, g') \<Longrightarrow> lc_task L g' = lc_task L g"
  "authorize_native_wallet_execution H n g = (rn, g') \<Longrightarrow> lc_task L g' = lc_task L g"
  by (auto simp: wallet_backend_def wallet_accounts_def chain_transport_def authorize_web3_execution_def
      authorize_native_wallet_execution_def dest: host_call_task)

lemma ask_native_task: "ask_native H a i g = (r, g') \<Longrightarrow> lc_task L g' = lc_task L g"
  by (auto simp: ask_native_def sbind_def split: option.splits prod.splits sum.splits dest: callbacks_task)

lemma ask_web3_task: "ask_web3 L H spec g = (r, g') \<Longrightarrow> lc_task L g' = lc_task L g"
  by (auto simp: ask_web3_def sbind_def split: option.splits prod.splits sum.splits TransactionSpec.splits dest: callbacks_task)

text \<open>A transaction is signed only with the secret of the request, which is used up, and under a native
  approval only after the host has approved this very transaction for the quote of the approval.\<close>

lemma sign_transaction_native:
  assumes "module_sign_transaction cr L H chain spec g = (Inr st, g')" and "tk_native_approval (lc_task L g) = Some (Some approval)"
  obtains decision g1 secret where
    "authorize_native_wallet_execution H (native_request approval (TransactionIntent spec)) g = (Inr decision, g1)" "au_approved decision"
    "tk_secret (lc_task L g) = Some (Some secret)" "sec_chain secret = to_chain chain" "svc_sign_transaction cr secret spec = Inr st"
    "g' = lc_put L ((lc_task L g)\<lparr>tk_secret := Some None\<rparr>) g1"
proof -
  from assms obtain decision g1 where a: "authorize_native_wallet_execution H (native_request approval (TransactionIntent spec)) g = (Inr decision, g1)"
    "au_approved decision"
    and rest: "sbind (take_secret L g1) (\<lambda>secret g.
        if sec_chain secret \<noteq> to_chain chain then (Inl SECRET_CHAIN_MISMATCH, g)
        else (map_err failure_message (svc_sign_transaction cr secret spec), g)) = (Inr st, g')"
    by (auto simp: module_sign_transaction_def native_approval_def ask_native_def require_approved_def result_simps split: if_splits)
  from rest that [OF a] callbacks_task(5) [OF a(1)] show thesis
    by (auto simp: take_secret_def result_simps split: option.splits if_splits)
qed

lemma sign_transaction_web3:
  assumes "module_sign_transaction cr L H WEvm spec g = (Inr st, g')" and "native_approval L g = None"
    and "tk_web3_approval (lc_task L g) = Some (Some approval)"
    and "spec = EvmSpec to value_wei data_hex nonce gas_limit gas_price chain_id"
  obtains decision g1 secret where
    "authorize_web3_execution H (web3_request approval to value_wei data_hex nonce gas_limit gas_price chain_id) g = (Inr decision, g1)" "au_approved decision"
    "tk_secret (lc_task L g) = Some (Some secret)" "sec_chain secret = Evm" "svc_sign_transaction cr secret spec = Inr st"
    "g' = lc_put L ((lc_task L g)\<lparr>tk_secret := Some None\<rparr>) g1"
proof -
  from assms obtain decision g1 where a: "authorize_web3_execution H (web3_request approval to value_wei data_hex nonce gas_limit gas_price chain_id) g = (Inr decision, g1)" "au_approved decision"
    and rest: "sbind (take_secret L g1) (\<lambda>secret g.
        if sec_chain secret \<noteq> Evm then (Inl SECRET_CHAIN_MISMATCH, g)
        else (map_err failure_message (svc_sign_transaction cr secret spec), g)) = (Inr st, g')"
    by (auto simp: module_sign_transaction_def ask_native_def ask_web3_def require_approved_def result_simps split: if_splits)
  from rest that [OF a] callbacks_task(4) [OF a(1)] show thesis
    by (auto simp: take_secret_def result_simps split: option.splits if_splits)
qed

lemma sign_message_native:
  assumes "module_sign_message cr L H chain message scheme g = (Inr sig, g')" and "tk_native_approval (lc_task L g) = Some (Some approval)"
  obtains decision g1 secret where
    "authorize_native_wallet_execution H (native_request approval (SolanaMessageIntent (hex_encode message))) g = (Inr decision, g1)"
    "au_approved decision" "tk_secret (lc_task L g) = Some (Some secret)" "sec_chain secret = to_chain chain"
    "svc_sign_message cr secret (hex_encode message) scheme = Inr sig" "g' = lc_put L ((lc_task L g)\<lparr>tk_secret := Some None\<rparr>) g1"
proof -
  from assms obtain decision g1 where
    a: "authorize_native_wallet_execution H (native_request approval (SolanaMessageIntent (hex_encode message))) g = (Inr decision, g1)"
    "au_approved decision"
    and rest: "sbind (take_secret L g1) (\<lambda>secret g.
        if sec_chain secret \<noteq> to_chain chain then (Inl SECRET_CHAIN_MISMATCH, g)
        else (map_err failure_message (svc_sign_message cr secret (hex_encode message) scheme), g)) = (Inr sig, g')"
    by (auto simp: module_sign_message_def native_approval_def ask_native_def require_approved_def result_simps split: if_splits)
  from rest that [OF a] callbacks_task(5) [OF a(1)] show thesis
    by (auto simp: take_secret_def result_simps split: option.splits if_splits)
qed

text \<open>However a signing call ends, the secret stays or is used up, and nothing else of the context changes.\<close>

lemma take_secret_task:
  "take_secret L g = (r, g') \<Longrightarrow> lc_task L g' = lc_task L g \<or> lc_task L g' = (lc_task L g)\<lparr>tk_secret := Some None\<rparr>"
  by (auto simp: take_secret_def split: option.splits)

lemma signer_task:
  "module_sign_transaction cr L H chain spec g = (rt, g') \<Longrightarrow>
     lc_task L g' = lc_task L g \<or> lc_task L g' = (lc_task L g)\<lparr>tk_secret := Some None\<rparr>"
  "module_sign_message cr L H chain message scheme g = (rm, g') \<Longrightarrow>
     lc_task L g' = lc_task L g \<or> lc_task L g' = (lc_task L g)\<lparr>tk_secret := Some None\<rparr>"
  by (auto simp: module_sign_transaction_def module_sign_message_def Let_def sbind_def split: prod.splits sum.splits if_splits)
    (metis ask_native_task ask_web3_task take_secret_task)+

end

end
