(* ===== verification/TW_Module.thy ===== *)
theory TW_Module
  imports TW_Host
begin

text \<open>
  The served object of \<open>tinywallet-module/src/service/mod.rs\<close>: the native wallet and web3 members of the bus
  interface, with the runtimes they run on (\<open>native_wallet.rs\<close>, \<open>web3.rs\<close>). A runtime sits behind a lock:
  an operation holds it for reading while it runs, so that the runtime is not replaced meanwhile, while its
  quotes are shared with the operations of other tasks. A member is a function of the runtime and of
  everything else.
\<close>

section \<open>Errors of the interface\<close>

definition host_unavailable :: BusError where
  "host_unavailable = MethodFailed ''ai.tinyhumans.tinywallet.Error.HostUnavailable'' ''wallet host callback interface is unavailable''"

definition host_call_failed :: "string \<Rightarrow> BusError" where
  "host_call_failed message = MethodFailed ''ai.tinyhumans.tinywallet.Error.HostCallFailed'' message"

definition invalid_input :: "string \<Rightarrow> BusError" where
  "invalid_input message = MethodFailed INVALID_INPUT_ERROR message"

definition web3_operation_failed :: "string \<Rightarrow> BusError" where
  "web3_operation_failed message = MethodFailed ''ai.tinyhumans.tinywallet.Error.Web3OperationFailed'' message"

definition native_wallet_operation_failed :: "string \<Rightarrow> BusError" where
  "native_wallet_operation_failed message = MethodFailed ''ai.tinyhumans.tinywallet.Error.NativeWalletOperationFailed'' message"

definition authorization_denied :: "string \<Rightarrow> BusError" where
  "authorization_denied message = MethodFailed ''ai.tinyhumans.tinywallet.Error.AuthorizationDenied'' message"

definition on_error :: "('e \<Rightarrow> 'f) \<Rightarrow> ('e + 'r) \<times> 'g \<Rightarrow> ('f + 'r) \<times> 'g" where
  "on_error f m = (map_err f (fst m), snd m)"

definition fault_error :: "(string \<Rightarrow> BusError) \<Rightarrow> fault \<Rightarrow> BusError" where
  "fault_error f e = (case e of Msg message \<Rightarrow> f message | Panic \<Rightarrow> BusPanic)"

section \<open>The native wallet\<close>

record NativeWalletRuntime =
  nw_handle :: string
  nw_endpoints :: module_endpoints
  nw_quotes :: "PreparedTransferQuote QuoteStore"

record HostEndpointReference =
  er_key :: RpcEndpointKey
  er_reference :: string

record NativeWalletConfigRequest =
  nc_solana_cluster :: SolanaCluster
  nc_overridden_endpoints :: "RpcEndpointKey list"

record NativeWalletConfigResponse =
  nc_service :: string
  nc_endpoint_references :: "HostEndpointReference list"

record NativeWalletExecuteRequest =
  nx_service :: string
  nx_owner :: "QuoteOwner option"
  nx_quote_id :: string
  nx_confirmed :: bool
  nx_secret :: SecretMaterial

record NativeWalletPrepareTransferRequest =
  np_service :: string
  np_owner :: "QuoteOwner option"
  np_params :: PrepareTransferParams

record NativeWalletTransactionRequest =
  nt_service :: string
  nt_chain :: WalletChain
  nt_evm_network :: "EvmNetwork option"
  nt_hash :: string

text \<open>The \<open>n\<close>-th identifier drawn from \<open>uuid::Uuid::new_v4\<close> is \<open>u n\<close>.\<close>

fun native_references :: "(nat \<Rightarrow> string) \<Rightarrow> RpcEndpointKey list \<Rightarrow> HostEndpointReference list \<Rightarrow> nat \<Rightarrow>
    (string + HostEndpointReference list) \<times> nat" where
  "native_references u [] advertised n = (Inr advertised, n)"
| "native_references u (key # keys) advertised n =
     (if key \<in> set (map er_key advertised) then (Inl ''native wallet endpoint keys must be unique'', n)
      else native_references u keys (advertised @ [\<lparr>er_key = key, er_reference = u n\<rparr>]) (Suc n))"

definition reference_map :: "HostEndpointReference list \<Rightarrow> RpcEndpointKey \<rightharpoonup> string" where
  "reference_map references = map_of (map (\<lambda>r. (er_key r, er_reference r)) references)"

definition native_runtime_new :: "(nat \<Rightarrow> string) \<Rightarrow> NativeWalletConfigRequest \<Rightarrow> nat \<Rightarrow>
    (string + (NativeWalletRuntime \<times> NativeWalletConfigResponse)) \<times> nat" where
  "native_runtime_new u config n =
     sbind (native_references u (nc_overridden_endpoints config) [] n) (\<lambda>advertised n.
       (Inr (\<lparr>nw_handle = u n, nw_endpoints = native_endpoints (nc_solana_cluster config) (reference_map advertised),
              nw_quotes = en_quotes (engine_new ())\<rparr>,
             \<lparr>nc_service = u n, nc_endpoint_references = advertised\<rparr>), Suc n))"

definition native_require_handle :: "NativeWalletRuntime \<Rightarrow> string \<Rightarrow> string + unit" where
  "native_require_handle rt handle =
     (if handle \<noteq> nw_handle rt then Inl ''native wallet service handle is unavailable'' else Inr ())"

definition native_wallet_configure :: "(nat \<Rightarrow> string) \<Rightarrow> bool \<Rightarrow> NativeWalletConfigRequest \<Rightarrow> NativeWalletRuntime option \<Rightarrow> nat \<Rightarrow>
    (BusError + NativeWalletConfigResponse) \<times> NativeWalletRuntime option \<times> nat" where
  "native_wallet_configure u callbacks request active n =
     (if \<not> callbacks then (Inl host_unavailable, active, n)
      else case native_runtime_new u request n of
        (Inl e, n) \<Rightarrow> (Inl (native_wallet_operation_failed e), active, n)
      | (Inr (rt, response), n) \<Rightarrow> (Inr response, Some rt, n))"

definition native_wallet_close :: "string \<Rightarrow> NativeWalletRuntime option \<Rightarrow> (BusError + unit) \<times> NativeWalletRuntime option" where
  "native_wallet_close service active =
     (case active of
        None \<Rightarrow> (Inl host_unavailable, active)
      | Some rt \<Rightarrow>
          (case native_require_handle rt service of
             Inl e \<Rightarrow> (Inl (native_wallet_operation_failed e), active)
           | Inr _ \<Rightarrow> (Inr (), None)))"

subsection \<open>Where the context of a task is\<close>

definition engine_locals :: "(task \<times> 'w) engine locals" where
  "engine_locals = \<lparr>lc_task = \<lambda>g. fst (en_world g), lc_put = \<lambda>t g. g\<lparr>en_world := (t, snd (en_world g))\<rparr>\<rparr>"

text \<open>The host, and the tasks that run while it is awaited, see everything but this context.\<close>

definition engine_host :: "'w engine host \<Rightarrow> (task \<times> 'w) engine host" where
  "engine_host H =
     \<lparr>hb_call = \<lambda>member args g.
        (case hb_call H member args \<lparr>en_quotes = en_quotes g, en_world = snd (en_world g)\<rparr> of
           (r, g') \<Rightarrow> (r, \<lparr>en_quotes = en_quotes g', en_world = (fst (en_world g), en_world g')\<rparr>)),
      hb_debug = hb_debug H\<rparr>"

interpretation engine_task: task_scope engine_locals "engine_host H" for H
  by unfold_locales (auto simp: engine_locals_def engine_host_def split: prod.splits)

definition native_seams :: "(task \<times> 'w) engine env \<Rightarrow> 'w engine host \<Rightarrow> NativeWalletRuntime \<Rightarrow> (task \<times> 'w) engine seams" where
  "native_seams E H rt = module_seams E engine_locals (engine_host H) (nw_endpoints rt)"

subsection \<open>The members\<close>

text \<open>What every member does first: there is a runtime, and the caller has its handle.\<close>

definition native_service :: "string \<Rightarrow> (NativeWalletRuntime \<Rightarrow> (task \<times> 'w) engine \<Rightarrow> (BusError + 'r) \<times> (task \<times> 'w) engine) \<Rightarrow>
    NativeWalletRuntime option \<Rightarrow> 'w \<Rightarrow> (BusError + 'r) \<times> NativeWalletRuntime option \<times> 'w" where
  "native_service service op active w =
     (case active of
        None \<Rightarrow> (Inl host_unavailable, active, w)
      | Some rt \<Rightarrow>
          (case native_require_handle rt service of
             Inl e \<Rightarrow> (Inl (native_wallet_operation_failed e), active, w)
           | Inr _ \<Rightarrow>
               let (r, g) = op rt \<lparr>en_quotes = nw_quotes rt, en_world = (fresh_task, w)\<rparr>
               in (r, Some (rt\<lparr>nw_quotes := en_quotes g\<rparr>), snd (en_world g))))"

definition native_wallet_network_defaults where
  "native_wallet_network_defaults E H service =
     native_service service (\<lambda>rt g. (Inr (network_defaults (sm_endpoints (native_seams E H rt))), g))"

definition native_wallet_supported_assets where
  "native_wallet_supported_assets E H service =
     native_service service (\<lambda>rt g. (Inr (supported_assets (native_seams E H rt)), g))"

definition native_wallet_chain_status where
  "native_wallet_chain_status E H service =
     native_service service (\<lambda>rt g. on_error native_wallet_operation_failed (chain_status (native_seams E H rt) g))"

definition native_wallet_balances where
  "native_wallet_balances E H service =
     native_service service (\<lambda>rt g. on_error native_wallet_operation_failed
       (balances (cr_prims (ev_crates E)) (native_seams E H rt) g))"

definition native_wallet_prepare_transfer where
  "native_wallet_prepare_transfer E H request =
     native_service (np_service request) (\<lambda>rt.
       with_quote_owner engine_locals (np_owner request) (\<lambda>g. on_error native_wallet_operation_failed
         (prepare_transfer (cr_prims (ev_crates E)) (cr_gates (ev_crates E)) (native_seams E H rt) (np_params request) g)))"

definition native_wallet_execute_prepared :: "(task \<times> 'w) engine env \<Rightarrow> 'w engine host \<Rightarrow> NativeWalletExecuteRequest \<Rightarrow>
    NativeWalletRuntime option \<Rightarrow> 'w \<Rightarrow> (BusError + ExecutionResult) \<times> NativeWalletRuntime option \<times> 'w" where
  "native_wallet_execute_prepared E H request =
     native_service (nx_service request) (\<lambda>rt g.
       if \<not> nx_confirmed request then (Inl (invalid_input ''native wallet execution requires confirmed: true''), g)
       else case prepared_quote_for_owner (native_seams E H rt) (nx_quote_id request) (nx_owner request) g of
         Inl e \<Rightarrow> (Inl (native_wallet_operation_failed e), g)
       | Inr quote \<Rightarrow>
           with_execution_context engine_locals (nx_owner request) (nx_secret request) None
             (with_native_approval engine_locals \<lparr>nac_quote = quote\<rparr> (\<lambda>g.
                on_error (fault_error native_wallet_operation_failed)
                  (execute_prepared (cr_prims (ev_crates E)) (cr_ed (ev_crates E)) (ev_hex E) (ev_b64 E) (native_seams E H rt)
                     \<lparr>xp_quote_id = nx_quote_id request, xp_confirmed = nx_confirmed request\<rparr> g))) g)"

definition native_wallet_tx_status where
  "native_wallet_tx_status E H request =
     native_service (nt_service request) (\<lambda>rt g. on_error native_wallet_operation_failed
       (tx_status (native_seams E H rt) (nt_chain request) (nt_evm_network request) (nt_hash request) g))"

definition native_wallet_tx_receipt where
  "native_wallet_tx_receipt E H request =
     native_service (nt_service request) (\<lambda>rt g. on_error native_wallet_operation_failed
       (tx_receipt (native_seams E H rt) (nt_chain request) (nt_evm_network request) (nt_hash request) g))"

definition native_wallet_lookup_tx where
  "native_wallet_lookup_tx E H request =
     native_service (nt_service request) (\<lambda>rt g. on_error native_wallet_operation_failed
       (lookup_tx (native_seams E H rt) (nt_chain request) (nt_evm_network request) (nt_hash request) g))"

section \<open>The web3 service\<close>

record Web3Runtime =
  w3r_handle :: string
  w3r_endpoints :: module_endpoints
  w3r_quotes :: "StoredQuote QuoteStore"

record Web3ConfigureRequest =
  w3c_solana_cluster :: SolanaCluster
  w3c_overridden_endpoints :: "RpcEndpointKey list"

record Web3ConfigureResponse =
  w3c_service :: string
  w3c_endpoint_references :: "HostEndpointReference list"

record Web3QuoteRequest =
  w3q_service :: string
  w3q_owner :: "QuoteOwner option"
  w3q_params :: json

record Web3ExecuteRequest =
  w3x_service :: string
  w3x_owner :: "QuoteOwner option"
  w3x_quote_id :: string
  w3x_confirmed :: bool
  w3x_secret :: SecretMaterial

fun web3_references :: "(nat \<Rightarrow> string) \<Rightarrow> RpcEndpointKey list \<Rightarrow> HostEndpointReference list \<Rightarrow> nat \<Rightarrow>
    (string + HostEndpointReference list) \<times> nat" where
  "web3_references u [] references n = (Inr references, n)"
| "web3_references u (key # keys) references n =
     (if key \<in> set (map er_key references) then (Inl ''Web3 endpoint configuration contains a duplicate key'', Suc n)
      else web3_references u keys (references @ [\<lparr>er_key = key, er_reference = u n\<rparr>]) (Suc n))"

definition web3_runtime :: "module_endpoints \<Rightarrow> string \<Rightarrow> Web3Runtime" where
  "web3_runtime endpoints handle = \<lparr>w3r_handle = handle, w3r_endpoints = endpoints, w3r_quotes = w3_quotes (web3_new ())\<rparr>"

definition web3_require_handle :: "Web3Runtime \<Rightarrow> string \<Rightarrow> string + unit" where
  "web3_require_handle rt handle = (if handle \<noteq> w3r_handle rt then Inl ''web3 service handle is unavailable'' else Inr ())"

definition web3_configure :: "(nat \<Rightarrow> string) \<Rightarrow> bool \<Rightarrow> Web3Runtime option \<Rightarrow> nat \<Rightarrow> (BusError + string) \<times> Web3Runtime option \<times> nat" where
  "web3_configure u callbacks active n =
     (if \<not> callbacks then (Inl host_unavailable, active, n)
      else (Inr (u n), Some (web3_runtime default_endpoints (u n)), Suc n))"

text \<open>The references are listed in the order of a hash map, \<open>hash_order\<close>.\<close>

definition web3_configure_with_endpoints :: "(nat \<Rightarrow> string) \<Rightarrow> (HostEndpointReference list \<Rightarrow> HostEndpointReference list) \<Rightarrow> bool \<Rightarrow>
    Web3ConfigureRequest \<Rightarrow> Web3Runtime option \<Rightarrow> nat \<Rightarrow> (BusError + Web3ConfigureResponse) \<times> Web3Runtime option \<times> nat" where
  "web3_configure_with_endpoints u hash_order callbacks request active n =
     (if \<not> callbacks then (Inl host_unavailable, active, n)
      else case web3_references u (w3c_overridden_endpoints request) [] n of
        (Inl e, n) \<Rightarrow> (Inl (web3_operation_failed e), active, n)
      | (Inr references, n) \<Rightarrow>
          (Inr \<lparr>w3c_service = u n, w3c_endpoint_references = hash_order references\<rparr>,
           Some (web3_runtime (web3_endpoints (w3c_solana_cluster request) (reference_map references)) (u n)), Suc n))"

definition web3_close :: "string \<Rightarrow> Web3Runtime option \<Rightarrow> (BusError + unit) \<times> Web3Runtime option" where
  "web3_close service active =
     (case active of
        None \<Rightarrow> (Inl host_unavailable, active)
      | Some rt \<Rightarrow>
          (case web3_require_handle rt service of
             Inl e \<Rightarrow> (Inl (web3_operation_failed e), active)
           | Inr _ \<Rightarrow> (Inr (), None)))"

definition web3_locals :: "(task \<times> 'w) web3 locals" where
  "web3_locals = \<lparr>lc_task = \<lambda>g. fst (w3_world g), lc_put = \<lambda>t g. g\<lparr>w3_world := (t, snd (w3_world g))\<rparr>\<rparr>"

definition web3_host :: "'w web3 host \<Rightarrow> (task \<times> 'w) web3 host" where
  "web3_host H =
     \<lparr>hb_call = \<lambda>member args g.
        (case hb_call H member args \<lparr>w3_quotes = w3_quotes g, w3_world = snd (w3_world g)\<rparr> of
           (r, g') \<Rightarrow> (r, \<lparr>w3_quotes = w3_quotes g', w3_world = (fst (w3_world g), w3_world g')\<rparr>)),
      hb_debug = hb_debug H\<rparr>"

interpretation web3_task: task_scope web3_locals "web3_host H" for H
  by unfold_locales (auto simp: web3_locals_def web3_host_def split: prod.splits)

definition web3_seams :: "(task \<times> 'w) web3 env \<Rightarrow> 'w web3 host \<Rightarrow> Web3Runtime \<Rightarrow> (task \<times> 'w) web3 seams" where
  "web3_seams E H rt = module_seams E web3_locals (web3_host H) (w3r_endpoints rt)"

definition with_web3_runtime :: "(Web3Runtime \<Rightarrow> (task \<times> 'w) web3 \<Rightarrow> (BusError + 'r) \<times> (task \<times> 'w) web3) \<Rightarrow>
    Web3Runtime option \<Rightarrow> 'w \<Rightarrow> (BusError + 'r) \<times> Web3Runtime option \<times> 'w" where
  "with_web3_runtime op active w =
     (case active of
        None \<Rightarrow> (Inl host_unavailable, active, w)
      | Some rt \<Rightarrow>
          let (r, g) = op rt \<lparr>w3_quotes = w3r_quotes rt, w3_world = (fresh_task, w)\<rparr>
          in (r, Some (rt\<lparr>w3r_quotes := w3_quotes g\<rparr>), snd (w3_world g)))"

definition web3_service :: "string \<Rightarrow> (Web3Runtime \<Rightarrow> (task \<times> 'w) web3 \<Rightarrow> (BusError + 'r) \<times> (task \<times> 'w) web3) \<Rightarrow>
    Web3Runtime option \<Rightarrow> 'w \<Rightarrow> (BusError + 'r) \<times> Web3Runtime option \<times> 'w" where
  "web3_service service op =
     with_web3_runtime (\<lambda>rt g.
       case web3_require_handle rt service of
         Inl e \<Rightarrow> (Inl (web3_operation_failed e), g)
       | Inr _ \<Rightarrow> op rt g)"

text \<open>Listing the routes asks for no handle; the answer is JSON already.\<close>

definition web3_routes where
  "web3_routes H = with_web3_runtime (\<lambda>rt g. on_error host_call_failed (routes (host_backend (web3_host H)) g))"

definition quote_response :: "Web3Quote \<Rightarrow> Web3QuoteResponse" where
  "quote_response quote =
     \<lparr>wr_quote_id = wq_quote_id quote, wr_kind = wq_kind quote, wr_expires_at_ms = wq_expires_at_ms quote,
      wr_signing_chain = wq_signing_chain quote, wr_quote = wq_quote quote\<rparr>"

text \<open>The three quotes differ in the decoder of their parameters and in the operation.\<close>

definition web3_quote_member where
  "web3_quote_member decode quote request =
     web3_service (w3q_service request) (\<lambda>rt g.
       sbind (with_quote_owner web3_locals (w3q_owner request) (\<lambda>g.
           case decode (w3q_params request) of
             Inl e \<Rightarrow> (Inl (invalid_input e), g)
           | Inr params \<Rightarrow> on_error web3_operation_failed (quote rt params g)) g)
         (\<lambda>q g. (Inr (quote_response q), g)))"

definition web3_swap_quote where
  "web3_swap_quote E H decode = web3_quote_member decode (\<lambda>rt. quote_swap (host_backend (web3_host H)) (web3_seams E H rt))"

definition web3_bridge_quote where
  "web3_bridge_quote E H decode = web3_quote_member decode (\<lambda>rt. quote_bridge (host_backend (web3_host H)) (web3_seams E H rt))"

definition web3_dapp_quote where
  "web3_dapp_quote E H decode = web3_quote_member decode (\<lambda>rt. prepare_dapp_call (web3_seams E H rt))"

definition execution_approval :: "(task \<times> 'w) web3 seams \<Rightarrow> string \<Rightarrow> QuoteOwner option \<Rightarrow> (task \<times> 'w) web3 \<Rightarrow> string + Web3ApprovalContext" where
  "execution_approval S quote_id owner g =
     rbind (quote_for_owner S quote_id owner g) (\<lambda>quote.
       Inr \<lparr>wac_quote_id = sto_quote_id quote, wac_operation = operation_name (sto_kind quote),
            wac_solana_intent = (case sto_unsigned quote of EvmTx _ _ _ _ \<Rightarrow> None | SolanaTx tx_blob_hex \<Rightarrow> Some (Web3SolanaIntent tx_blob_hex))\<rparr>)"

text \<open>A Solana transaction is complete and is approved here; an EVM transaction is approved by the signer,
  when the node's parameters are known.\<close>

definition approve_solana :: "'g host \<Rightarrow> Web3ApprovalContext \<Rightarrow> 'g \<Rightarrow> (BusError + unit) \<times> 'g" where
  "approve_solana H approval g =
     (case wac_solana_intent approval of
        Some (Web3SolanaIntent blob) \<Rightarrow>
          sbind (on_error host_call_failed (authorize_web3_execution H
                   \<lparr>aw_quote_id = wac_quote_id approval, aw_operation = wac_operation approval, aw_transaction = Web3SolanaIntent blob\<rparr> g))
            (\<lambda>decision g. (map_err authorization_denied (require_approved decision), g))
      | _ \<Rightarrow> (Inr (), g))"

definition web3_execute :: "(task \<times> 'w) web3 env \<Rightarrow> 'w web3 host \<Rightarrow> Web3ExecuteRequest \<Rightarrow> Web3Runtime option \<Rightarrow> 'w \<Rightarrow>
    (BusError + Web3ExecutionResult) \<times> Web3Runtime option \<times> 'w" where
  "web3_execute E H request =
     web3_service (w3x_service request) (\<lambda>rt g.
       if \<not> w3x_confirmed request then (Inl (invalid_input ''web3 execution requires confirmed: true''), g)
       else case execution_approval (web3_seams E H rt) (w3x_quote_id request) (w3x_owner request) g of
         Inl e \<Rightarrow> (Inl (web3_operation_failed e), g)
       | Inr approval \<Rightarrow>
           sbind (approve_solana (web3_host H) approval g) (\<lambda>_.
             with_execution_context web3_locals (w3x_owner request) (w3x_secret request) (Some approval) (\<lambda>g.
               on_error (fault_error web3_operation_failed)
                 (execute_quote (cr_prims (ev_crates E)) (ev_hex E) (ev_b64 E) (web3_seams E H rt)
                    \<lparr>xq_quote_id = w3x_quote_id request, xq_confirmed = w3x_confirmed request\<rparr> g))))"

end
