(* ===== verification/TW_Module_Props.thy ===== *)
theory TW_Module_Props
  imports TW_Module
begin

text \<open>
  What the module guarantees to its host: nothing is signed that the host has not approved, a secret signs
  at most once, a handle that was given up is never accepted again, and an endpoint override of the host
  is reached by its reference only.
\<close>

section \<open>Success needs a signature\<close>

text \<open>Every success of a program that starts under \<open>I\<close> ends in \<open>P\<close>.\<close>

definition signs :: "('g \<Rightarrow> bool) \<Rightarrow> ('g \<Rightarrow> bool) \<Rightarrow> ('g \<Rightarrow> ('e + 'a) \<times> 'g) \<Rightarrow> bool" where
  "signs I P m \<longleftrightarrow> (\<forall>g r g'. I g \<longrightarrow> m g = (Inr r, g') \<longrightarrow> P g')"

named_theorems signs_intros

lemma signsD: "signs I P m \<Longrightarrow> I g \<Longrightarrow> m g = (Inr r, g') \<Longrightarrow> P g'"
  by (simp add: signs_def)

lemma signs_fail [signs_intros]: "signs I P (\<lambda>g. (Inl e, g))"
  by (simp add: signs_def)

lemma signs_case_sum [signs_intros]:
  "(\<And>x. signs I P (l x)) \<Longrightarrow> (\<And>x. signs I P (r x)) \<Longrightarrow> signs I P (\<lambda>g. case v of Inl x \<Rightarrow> l x g | Inr x \<Rightarrow> r x g)"
  by (cases v) simp_all

lemma signs_if [signs_intros]: "signs I P a \<Longrightarrow> signs I P b \<Longrightarrow> signs I P (\<lambda>g. if c then a g else b g)"
  by (cases c) simp_all

lemma signs_case_prod [signs_intros]: "(\<And>a b. signs I P (f a b)) \<Longrightarrow> signs I P (\<lambda>g. case v of (a, b) \<Rightarrow> f a b g)"
  by (cases v) simp

lemma signs_case_kind [signs_intros]:
  "signs I P a \<Longrightarrow> signs I P b \<Longrightarrow> signs I P (\<lambda>g. case k of NativeTransferKind \<Rightarrow> a g | TokenTransferKind \<Rightarrow> b g)"
  by (cases k) simp_all

lemma signs_told [signs_intros]: "signs I P m \<Longrightarrow> signs I P (\<lambda>g. told (m g))"
  by (auto simp: signs_def told_Inr)

lemma signs_before: "keeps I m \<Longrightarrow> (\<And>x. signs I P (f x)) \<Longrightarrow> signs I P (\<lambda>g. sbind (m g) f)"
  unfolding signs_def by (metis keepsD sbind_eq_Inr)

lemma signs_after: "signs I P m \<Longrightarrow> (\<And>x. keeps P (f x)) \<Longrightarrow> signs I P (\<lambda>g. sbind (m g) f)"
  unfolding signs_def by (metis keepsD sbind_eq_Inr)

text \<open>Seams whose signer establishes \<open>P\<close> when it signs.\<close>

locale signing_seams =
  fixes I P :: "'g \<Rightarrow> bool" and S :: "'g seams"
  assumes keeps_I: "seams_keep I S" and keeps_P: "seams_keep P S"
    and signs_transaction: "signs I P (sm_sign_transaction S c spec)"
    and signs_message: "signs I P (sm_sign_message S c message scheme)"
begin

lemma evm_signs: "signs I P (execute_evm_quote S quote)"
  unfolding signs_def
proof (intro allI impI)
  fix g r g'
  assume "I g" and run: "execute_evm_quote S quote g = (Inr r, g')"
  show "P g'"
  proof (rule execute_evm_quote_Inr [OF run])
    fix spec signed_tx request np g1 g2
    assume np: "node_params S (option_or EthereumMainnet (pt_evm_network quote)) (pt_from_address quote) request g = (Inr np, g1)"
      and sg: "sm_sign_transaction S WEvm spec g1 = (Inr signed_tx, g2)"
      and send: "evm_rpc_call S decode_string (option_or EthereumMainnet (pt_evm_network quote)) ''eth_sendRawTransaction''
        (JArr [JStr (st_raw signed_tx)]) g2 = (Inr (er_transaction_hash r), g')"
    have "keeps I (node_params S n a req)" for n a req
      unfolding node_params_def using keeps_I by (auto intro!: keeps_intros)
    from keepsD [OF this \<open>I g\<close> np] have "I g1" .
    from signsD [OF signs_transaction this sg] have "P g2" .
    from keepsD [OF typed_calls_keep(2) [OF keeps_P] this send] show "P g'" .
  qed
qed

lemma btc_signs: "signs I P (execute_btc_quote p S quote)"
  unfolding execute_btc_quote_def Let_def
  by (intro signs_intros signs_before signs_after [OF signs_transaction])
    (auto intro!: keeps_intros keeps_I keeps_P simp: fetch_utxos_def broadcast_raw_hex_def)

lemma tron_send_signs: "signs I P (tron_verify_and_send p S quote built)"
  unfolding tron_verify_and_send_def Let_def case_prod_beta
  by (intro signs_intros signs_after [OF signs_told [OF signs_transaction]]) (auto intro!: keeps_intros keeps_P)

lemma tron_signs: "signs I P (execute_tron_quote p h S quote)"
  unfolding execute_tron_quote_def
  by (intro signs_intros signs_before tron_send_signs)
    (auto intro!: keeps_intros keeps_I keeps_P simp: build_transaction_def create_native_transaction_def trigger_trc20_transfer_def)

lemma solana_sign_signs: "signs I P (solana_sign S message)"
  unfolding solana_sign_def
  by (rule signs_after [OF signs_message]) (auto intro!: keeps_intros split: Signature.splits)

lemma solana_wire_signs: "signs I P (solana_wire p ed b S quote from_pk amount)"
  unfolding solana_wire_def
proof (rule signs_case_kind)
  show "signs I P (\<lambda>g. sbind (solana_recent_blockhash p S g) (\<lambda>recent_blockhash g.
      sbind (sm_sign_transaction S WSolana
        (SolanaSpec (pt_from_address quote) (pt_to_address quote) amount (pubkey_to_b58 p recent_blockhash)) g)
        (\<lambda>signed_tx g. (map_err (\<lambda>e. ''invalid signed Solana transaction: '' @ e) (b64_decode b (st_raw signed_tx)), g))))"
    by (intro signs_before signs_after [OF signs_transaction])
      (auto intro!: keeps_intros keeps_I simp: solana_recent_blockhash_def)
next
  show "signs I P (\<lambda>g. case b58_to_pubkey p (pt_to_address quote) of Inl e \<Rightarrow> (Inl e, g)
    | Inr to_pubkey \<Rightarrow> sbind (transfer_message p ed S quote from_pk to_pubkey amount g) (\<lambda>message g.
        sbind (solana_sign S message g) (\<lambda>sig_bytes g. (Inr (wire_encode_shortvec 1 @ sig_bytes @ message), g))))"
    by (intro signs_intros signs_before signs_after [OF solana_sign_signs])
      (auto intro!: keeps_intros keeps_I simp: transfer_message_def account_exists_def solana_recent_blockhash_def)
qed

lemma solana_signs: "signs I P (execute_solana_quote p ed b S quote)"
  unfolding execute_solana_quote_def Let_def
  by (intro signs_intros signs_before signs_after [OF solana_wire_signs])
    (auto intro!: keeps_intros keeps_I keeps_P simp: signer_pubkey_def broadcast_solana_def)

lemma chain_signs: "signs I P (execute_on_chain p ed h b S quote)"
  unfolding execute_on_chain_def
  by (cases "pt_chain quote") (simp_all add: signs_told evm_signs btc_signs solana_signs tron_signs)

end

section \<open>The context of a request and its approvals\<close>

text \<open>While a request runs its context stays as it was set, up to the secret being used up.\<close>

definition in_context :: "'g locals \<Rightarrow> task \<Rightarrow> 'g \<Rightarrow> bool" where
  "in_context L c g \<longleftrightarrow> lc_task L g = c \<or> lc_task L g = c\<lparr>tk_secret := Some None\<rparr>"

definition spent :: "'g locals \<Rightarrow> 'g \<Rightarrow> bool" where
  "spent L g \<longleftrightarrow> tk_secret (lc_task L g) = Some None"

text \<open>What the host has approved so far, as an observer of its state records it.\<close>

definition records_approvals :: "('g \<Rightarrow> AuthorizeNativeWalletExecutionRequest set) \<Rightarrow> 'g host \<Rightarrow> bool" where
  "records_approvals seen H \<longleftrightarrow>
     (\<forall>member args g r g'. hb_call H member args g = (r, g') \<longrightarrow>
        seen g \<subseteq> seen g' \<and>
        (\<forall>request d. args = NativeArgs request \<and> r = Inr (AuthorizationReply d) \<and> au_approved d \<longrightarrow> request \<in> seen g'))"

lemma authorized_recorded:
  assumes "records_approvals seen H" and "authorize_native_wallet_execution H request g = (Inr d, g')" and "au_approved d"
  shows "request \<in> seen g'"
proof -
  from assms(2) obtain reply where "hb_call H ''AuthorizeNativeWalletExecution'' (NativeArgs request) g = (Inr reply, g')"
    "authorization_reply reply = Some d"
    by (auto simp: authorize_native_wallet_execution_def host_call_def extract_response_def split: prod.splits sum.splits)
  moreover from this(2) have "reply = AuthorizationReply d" by (cases reply) auto
  ultimately show ?thesis using assms(1,3) unfolding records_approvals_def by blast
qed

text \<open>Each seam of the module other than the signer is one call of the host, or none.\<close>

lemma keeps_host_call:
  assumes "\<And>member args. keeps I (hb_call H member args)"
  shows "keeps I (host_call H member kind args)"
  using assms by (auto simp: keeps_def host_call_def split: prod.splits sum.splits) (metis snd_conv)+

lemma keeps_callbacks [keeps_intros]:
  assumes "\<And>member args. keeps I (hb_call H member args)"
  shows "keeps I (wallet_accounts H)" "keeps I (chain_transport H t)" "keeps I (authorize_web3_execution H r)"
    "keeps I (authorize_native_wallet_execution H n)"
  unfolding wallet_accounts_def chain_transport_def authorize_web3_execution_def authorize_native_wallet_execution_def
  by (simp_all add: keeps_host_call assms)

lemma module_seams_keep:
  assumes "\<And>member args. keeps I (hb_call H member args)"
    and "\<And>c spec. keeps I (module_sign_transaction (ev_crates E) L H c spec)"
    and "\<And>c message scheme. keeps I (module_sign_message (ev_crates E) L H c message scheme)"
  shows "seams_keep I (module_seams E L H endpoints)"
proof -
  have t: "keeps I (transport_call H net request)" for net request
    by (rule keeps_converted [OF keeps_callbacks(2) [where t = request, OF assms(1)]])
      (simp add: transport_call_def split: prod.split sum.split)
  have "keeps I (module_derive_account (ev_crates E) L c)" for c
    by (simp add: keeps_def module_derive_account_def)
  with assms(2,3) t keeps_callbacks(1) [OF assms(1)] show ?thesis
    unfolding seams_keep_def module_seams_def
    by (auto simp: host_json_rpc_def [abs_def] host_rest_get_def [abs_def] host_rest_post_def [abs_def] host_status_def [abs_def]
        intro!: keeps_intros)
qed

context task_scope
begin

lemma sign_native_any:
  assumes "module_sign_transaction cr L H chain spec g = (r, g')" and "tk_native_approval (lc_task L g) = Some (Some approval)"
  obtains (asked) answer where "authorize_native_wallet_execution H (native_request approval (TransactionIntent spec)) g = (answer, g')"
  | (used) d g1 where "authorize_native_wallet_execution H (native_request approval (TransactionIntent spec)) g = (Inr d, g1)"
      "au_approved d" "g' = lc_put L ((lc_task L g)\<lparr>tk_secret := Some None\<rparr>) g1"
proof (cases "authorize_native_wallet_execution H (native_request approval (TransactionIntent spec)) g")
  case (Pair answer g1)
  note task = callbacks_task(5) [OF Pair]
  from assms Pair task show thesis
    by (cases answer) (auto simp: module_sign_transaction_def native_approval_def ask_native_def require_approved_def take_secret_def
        intro: asked used split: if_splits option.splits)
qed

lemma sign_message_any:
  assumes "module_sign_message cr L H chain message scheme g = (r, g')" and "tk_native_approval (lc_task L g) = Some (Some approval)"
  obtains (asked) answer where
      "authorize_native_wallet_execution H (native_request approval (SolanaMessageIntent (hex_encode message))) g = (answer, g')"
  | (used) d g1 where
      "authorize_native_wallet_execution H (native_request approval (SolanaMessageIntent (hex_encode message))) g = (Inr d, g1)"
      "au_approved d" "g' = lc_put L ((lc_task L g)\<lparr>tk_secret := Some None\<rparr>) g1"
proof (cases "authorize_native_wallet_execution H (native_request approval (SolanaMessageIntent (hex_encode message))) g")
  case (Pair answer g1)
  note task = callbacks_task(5) [OF Pair]
  from assms Pair task show thesis
    by (cases answer) (auto simp: module_sign_message_def native_approval_def ask_native_def require_approved_def take_secret_def
        intro: asked used split: if_splits option.splits)
qed

text \<open>What depends on the context alone, and survives the use of the secret, is kept by every seam.\<close>

lemma context_seams_keep:
  assumes "\<And>g g'. J (lc_task L g) \<Longrightarrow> J ((lc_task L g)\<lparr>tk_secret := Some None\<rparr>)"
  shows "seams_keep (\<lambda>g. J (lc_task L g)) (module_seams E L H endpoints)"
proof (rule module_seams_keep)
  show "keeps (\<lambda>g. J (lc_task L g)) (hb_call H member args)" for member args
    unfolding keeps_def by (metis call_task prod.collapse)
  show "keeps (\<lambda>g. J (lc_task L g)) (module_sign_transaction (ev_crates E) L H c spec)" for c spec
    unfolding keeps_def by (metis assms signer_task(1) prod.collapse)
  show "keeps (\<lambda>g. J (lc_task L g)) (module_sign_message (ev_crates E) L H c message scheme)" for c message scheme
    unfolding keeps_def by (metis assms signer_task(2) prod.collapse)
qed

lemma take_spent: "take_secret L g = (Inr s, g') \<Longrightarrow> spent L g'"
  by (auto simp: take_secret_def spent_def split: option.splits)

lemma signed_spent:
  "module_sign_transaction cr L H c spec g = (Inr st, g') \<Longrightarrow> spent L g'"
  "module_sign_message cr L H c message scheme g = (Inr sig, g') \<Longrightarrow> spent L g'"
  by (auto simp: module_sign_transaction_def module_sign_message_def Let_def result_simps dest: take_spent split: if_splits)

end

sublocale task_scope \<subseteq> signing: signing_seams "in_context L c" "spent L" "module_seams E L H endpoints" for c E endpoints
proof
  show "seams_keep (in_context L c) (module_seams E L H endpoints)"
    unfolding in_context_def [abs_def] by (rule context_seams_keep) auto
  show "seams_keep (spent L) (module_seams E L H endpoints)"
    unfolding spent_def [abs_def] by (rule context_seams_keep) simp
  show "signs (in_context L c) (spent L) (sm_sign_transaction (module_seams E L H endpoints) ch spec)" for ch spec
    by (auto simp: signs_def module_seams_def dest: signed_spent)
  show "signs (in_context L c) (spent L) (sm_sign_message (module_seams E L H endpoints) ch message scheme)" for ch message scheme
    by (auto simp: signs_def module_seams_def dest: signed_spent)
qed

section \<open>Native transfers\<close>

lemmas task_simps = with_execution_context_def with_web3_approval_def with_secret_def with_quote_owner_def with_native_approval_def

definition native_task :: "NativeWalletExecuteRequest \<Rightarrow> PreparedTransaction \<Rightarrow> task" where
  "native_task request quote =
     \<lparr>tk_quote_owner = Some (nx_owner request), tk_secret = Some (Some (nx_secret request)), tk_web3_approval = Some None,
      tk_native_approval = Some (Some \<lparr>nac_quote = quote\<rparr>)\<rparr>"

lemma get_take_same: "get_for ops now i caller s = Inr q \<Longrightarrow> take_for ops now' i caller' s = (Inr q', s') \<Longrightarrow> q' = q"
  by (auto simp: get_for_def take_for_def find_position Let_def split: option.splits if_splits)

text \<open>A successful request: the runtime is there and the caller has its handle, the quote that was shown to
  the host is the one that is taken, and it was executed in the context of the request.\<close>

lemma native_execute_Inr:
  assumes "native_wallet_execute_prepared E H request active w = (Inr res, active', w')"
  obtains rt quote store result g' where "active = Some rt" "nx_service request = nw_handle rt" "nx_confirmed request"
    "quote \<in> set (qs_quotes (nw_quotes rt))" "pt_quote_id (ptq_transaction quote) = nx_quote_id request"
    "ptq_owner quote = nx_owner request"
    "execute_on_chain (cr_prims (ev_crates E)) (cr_ed (ev_crates E)) (ev_hex E) (ev_b64 E) (native_seams E H rt) (ptq_transaction quote)
       \<lparr>en_quotes = store, en_world = (native_task request (ptq_transaction quote), w)\<rparr> = (Inr result, g')"
    "w' = snd (en_world g')" "er_transaction_hash res = er_transaction_hash result" "er_transaction res = er_transaction result"
proof -
  let ?S = "\<lambda>rt. native_seams E H rt"
  from assms obtain rt where rt: "active = Some rt" "nx_service request = nw_handle rt"
    by (auto simp: native_wallet_execute_prepared_def native_service_def native_require_handle_def split: option.splits if_splits)
  from assms rt have c: "nx_confirmed request"
    by (auto simp: native_wallet_execute_prepared_def native_service_def native_require_handle_def split: if_splits)
  let ?g = "\<lparr>en_quotes = nw_quotes rt, en_world = (fresh_task, w)\<rparr>"
  obtain q where q: "get_for transfer_quoted (ev_now_ms E ?g) (nx_quote_id request) (nx_owner request) (nw_quotes rt) = Inr q"
    using assms rt c by (auto simp: native_wallet_execute_prepared_def native_service_def native_require_handle_def
        prepared_quote_for_owner_def native_seams_def module_seams_def rbind_def split: sum.splits)
  let ?c = "\<lparr>en_quotes = nw_quotes rt, en_world = (native_task request (ptq_transaction q), w)\<rparr>"
  have peek: "prepared_quote_for_owner (?S rt) (nx_quote_id request) (nx_owner request) ?g = Inr (ptq_transaction q)"
    by (simp add: prepared_quote_for_owner_def native_seams_def module_seams_def q)
  obtain r g' where run: "execute_prepared (cr_prims (ev_crates E)) (cr_ed (ev_crates E)) (ev_hex E) (ev_b64 E) (?S rt)
      \<lparr>xp_quote_id = nx_quote_id request, xp_confirmed = True\<rparr> ?c = (r, g')" by fastforce
  with assms rt c peek have r: "r = Inr res" and w': "w' = snd (en_world g')"
    by (simp_all add: native_wallet_execute_prepared_def native_service_def native_require_handle_def task_simps engine_locals_def
        native_task_def fresh_task_def on_error_def map_err_eq_Inr Let_def)
  have own: "sm_current_owner (?S rt) ?c = nx_owner request"
    by (simp add: native_seams_def module_seams_def current_owner_def engine_locals_def native_task_def)
  from run [unfolded r] own obtain quote store result where
    tk: "take_for transfer_quoted (sm_now_ms (?S rt) ?c) (nx_quote_id request) (nx_owner request) (nw_quotes rt) = (Inr quote, store)"
    and ex: "execute_on_chain (cr_prims (ev_crates E)) (cr_ed (ev_crates E)) (ev_hex E) (ev_b64 E) (?S rt) (ptq_transaction quote)
      (?c\<lparr>en_quotes := store\<rparr>) = (Inr result, g')"
    and res: "er_transaction_hash res = er_transaction_hash result" "er_transaction res = er_transaction result"
    by (auto simp: execute_prepared_def split: prod.splits sum.splits fault.splits if_splits)
  have "quote = q" by (rule get_take_same [OF q tk])
  moreover have "quote \<in> set (qs_quotes (nw_quotes rt))"
    using take_for_Inr(4) [OF tk] by (metis set_mset_mset union_single_eq_member)
  ultimately show thesis
    using that [OF rt c] take_for_Inr(1,2) [OF tk] ex w' res by (simp add: transfer_quoted_def)
qed

context task_scope
begin

lemma in_contextD: "in_context L c g \<Longrightarrow> lc_task L g' = lc_task L g \<Longrightarrow> in_context L c g'"
  by (simp add: in_context_def)

lemma in_context_native: "in_context L c g \<Longrightarrow> tk_native_approval (lc_task L g) = tk_native_approval c"
  by (auto simp: in_context_def)

lemma in_context_spent: "in_context L c g \<Longrightarrow> in_context L c (lc_put L ((lc_task L g)\<lparr>tk_secret := Some None\<rparr>) g')"
  by (auto simp: in_context_def)

text \<open>A secret that is used up was used under an approval of the host.\<close>

lemma approval_seams_keep:
  assumes rec: "records_approvals seen H" and put: "\<And>t g. seen (lc_put L t g) = seen g"
    and appr: "tk_native_approval c = Some (Some approval)"
  shows "seams_keep (\<lambda>g. in_context L c g \<and> (spent L g \<longrightarrow> (\<exists>intent. native_request approval intent \<in> seen g)))
    (module_seams E L H endpoints)" (is "seams_keep ?J _")
proof (rule module_seams_keep)
  show calls: "keeps ?J (hb_call H member args)" for member args
    unfolding keeps_def
  proof (intro allI impI)
    fix g assume j: "?J g"
    obtain r g' where call: "hb_call H member args g = (r, g')" by fastforce
    have "seen g \<subseteq> seen g'" using rec call unfolding records_approvals_def by blast
    with j call_task [OF call] show "?J (snd (hb_call H member args g))" by (auto simp: call in_context_def spent_def)
  qed
  have approved: "?J (lc_put L ((lc_task L g)\<lparr>tk_secret := Some None\<rparr>) g1)"
    if "?J g" "authorize_native_wallet_execution H (native_request approval intent) g = (Inr d, g1)" "au_approved d" for g intent d g1
    using that in_context_spent authorized_recorded [OF rec that(2,3)] put by auto
  show "keeps ?J (module_sign_transaction (ev_crates E) L H ch spec)" for ch spec
    unfolding keeps_def
  proof (intro allI impI)
    fix g assume j: "?J g"
    then have n: "tk_native_approval (lc_task L g) = Some (Some approval)" using appr in_context_native by metis
    obtain r g' where run: "module_sign_transaction (ev_crates E) L H ch spec g = (r, g')" by fastforce
    from run n have "?J g'"
    proof (cases rule: sign_native_any)
      case (asked answer)
      from keepsD [OF keeps_callbacks(4) [OF calls] j asked] show ?thesis .
    next
      case (used d g1)
      from approved [OF j used(1,2)] show ?thesis unfolding used(3) .
    qed
    then show "?J (snd (module_sign_transaction (ev_crates E) L H ch spec g))" by (simp add: run)
  qed
  show "keeps ?J (module_sign_message (ev_crates E) L H ch message scheme)" for ch message scheme
    unfolding keeps_def
  proof (intro allI impI)
    fix g assume j: "?J g"
    then have n: "tk_native_approval (lc_task L g) = Some (Some approval)" using appr in_context_native by metis
    obtain r g' where run: "module_sign_message (ev_crates E) L H ch message scheme g = (r, g')" by fastforce
    from run n have "?J g'"
    proof (cases rule: sign_message_any)
      case (asked answer)
      from keepsD [OF keeps_callbacks(4) [OF calls] j asked] show ?thesis .
    next
      case (used d g1)
      from approved [OF j used(1,2)] show ?thesis unfolding used(3) .
    qed
    then show "?J (snd (module_sign_message (ev_crates E) L H ch message scheme g))" by (simp add: run)
  qed
qed

end

lemma engine_records:
  assumes "records_approvals (\<lambda>g. seen (en_world g)) H"
  shows "records_approvals (\<lambda>g. seen (snd (en_world g))) (engine_host H)"
  unfolding records_approvals_def
proof (intro allI impI)
  fix member args and g :: "(task \<times> 'a) engine" and r g'
  assume call: "hb_call (engine_host H) member args g = (r, g')"
  then obtain s where "hb_call H member args \<lparr>en_quotes = en_quotes g, en_world = snd (en_world g)\<rparr> = (r, s)"
    "en_world s = snd (en_world g')"
    by (auto simp: engine_host_def split: prod.splits)
  with assms show "seen (snd (en_world g)) \<subseteq> seen (snd (en_world g')) \<and>
      (\<forall>request d. args = NativeArgs request \<and> r = Inr (AuthorizationReply d) \<and> au_approved d \<longrightarrow> request \<in> seen (snd (en_world g')))"
    unfolding records_approvals_def by (metis engine.select_convs(2))
qed

lemma native_context: "in_context engine_locals (native_task request quote) \<lparr>en_quotes = store, en_world = (native_task request quote, w)\<rparr>"
  by (simp add: in_context_def engine_locals_def)


text \<open>A call through the lifted host is a call of the host that leaves the context alone.\<close>

lemma engine_host_call:
  assumes "host_call (engine_host H) member kind args g = (r, g')"
  obtains s where "host_call H member kind args \<lparr>en_quotes = en_quotes g, en_world = snd (en_world g)\<rparr> = (r, s)"
    "g' = \<lparr>en_quotes = en_quotes s, en_world = (fst (en_world g), en_world s)\<rparr>"
proof -
  obtain answer s where "hb_call H member args \<lparr>en_quotes = en_quotes g, en_world = snd (en_world g)\<rparr> = (answer, s)" by fastforce
  with assms that show thesis
    by (cases answer) (auto simp: host_call_def engine_host_def extract_response_def)
qed

text \<open>What the signer has done in the context of a request when it has signed a transaction.\<close>

lemma native_signature:
  assumes ctx: "in_context engine_locals (native_task request q) g1" and sg: "sm_sign_transaction (native_seams E H rt) chain spec g1 = (Inr st, g2)"
  obtains d s1 s2 task where
    "authorize_native_wallet_execution H (native_request \<lparr>nac_quote = q\<rparr> (TransactionIntent spec)) s1 = (Inr d, s2)" "au_approved d"
    "svc_sign_transaction (ev_crates E) (nx_secret request) spec = Inr st"
    "g2 = \<lparr>en_quotes = en_quotes s2, en_world = (task, en_world s2)\<rparr>"
proof -
  have n: "tk_native_approval (lc_task engine_locals g1) = Some (Some \<lparr>nac_quote = q\<rparr>)"
    unfolding engine_task.in_context_native [OF ctx] by (simp add: native_task_def)
  from sg have "module_sign_transaction (ev_crates E) engine_locals (engine_host H) chain spec g1 = (Inr st, g2)"
    by (simp add: native_seams_def module_seams_def)
  from engine_task.sign_transaction_native [OF this n] obtain d h secret where
    a: "authorize_native_wallet_execution (engine_host H) (native_request \<lparr>nac_quote = q\<rparr> (TransactionIntent spec)) g1 = (Inr d, h)"
    and d: "au_approved d" and sec: "tk_secret (lc_task engine_locals g1) = Some (Some secret)"
    and st: "svc_sign_transaction (ev_crates E) secret spec = Inr st"
    and g2: "g2 = lc_put engine_locals ((lc_task engine_locals g1)\<lparr>tk_secret := Some None\<rparr>) h" by metis
  from ctx sec have "secret = nx_secret request" by (auto simp: in_context_def native_task_def)
  moreover obtain s2 where "authorize_native_wallet_execution H (native_request \<lparr>nac_quote = q\<rparr> (TransactionIntent spec))
      \<lparr>en_quotes = en_quotes g1, en_world = snd (en_world g1)\<rparr> = (Inr d, s2)"
    "h = \<lparr>en_quotes = en_quotes s2, en_world = (fst (en_world g1), en_world s2)\<rparr>"
    using a unfolding authorize_native_wallet_execution_def by (rule engine_host_call)
  moreover from this(2) g2 have "g2 = \<lparr>en_quotes = en_quotes s2,
      en_world = ((lc_task engine_locals g1)\<lparr>tk_secret := Some None\<rparr>, en_world s2)\<rparr>"
    by (simp add: engine_locals_def)
  ultimately show thesis using that d st by metis
qed

text \<open>
  C5: A successful transfer on an EVM chain, from the request on the bus to the node: the host approved,
  together with the stored quote, exactly the transaction that was signed; that transaction does what the
  quote says on the network of the quote; it was signed with the secret of the request; and what was sent
  to the node next is that signature.
\<close>

theorem native_evm_execution_approved:
  assumes "native_wallet_execute_prepared E H request active w = (Inr res, active', w')"
  shows "\<exists>rt quote. active = Some rt \<and> quote \<in> set (qs_quotes (nw_quotes rt)) \<and>
    pt_quote_id (ptq_transaction quote) = nx_quote_id request \<and> ptq_owner quote = nx_owner request \<and>
    (pt_chain (ptq_transaction quote) = WEvm \<longrightarrow>
      (\<exists>spec st d s1 s2 task g'.
        authorize_native_wallet_execution H (native_request \<lparr>nac_quote = ptq_transaction quote\<rparr> (TransactionIntent spec)) s1 = (Inr d, s2) \<and>
        au_approved d \<and> spec_of_quote (ptq_transaction quote) spec \<and>
        spec_chain_id spec = evm_chain_id_of (option_or EthereumMainnet (pt_evm_network (ptq_transaction quote))) \<and>
        svc_sign_transaction (ev_crates E) (nx_secret request) spec = Inr st \<and>
        evm_rpc_call (native_seams E H rt) decode_string (option_or EthereumMainnet (pt_evm_network (ptq_transaction quote)))
          ''eth_sendRawTransaction'' (JArr [JStr (st_raw st)]) \<lparr>en_quotes = en_quotes s2, en_world = (task, en_world s2)\<rparr>
          = (Inr (er_transaction_hash res), g') \<and> w' = snd (en_world g')))"
proof (rule native_execute_Inr [OF assms])
  fix rt :: NativeWalletRuntime and quote :: PreparedTransferQuote and store and result :: ExecutionResult and g'
  let ?q = "ptq_transaction quote"
  let ?c = "native_task request ?q" and ?S = "native_seams E H rt" and ?n = "option_or EthereumMainnet (pt_evm_network ?q)"
  assume rt: "active = Some rt" "quote \<in> set (qs_quotes (nw_quotes rt))" "pt_quote_id ?q = nx_quote_id request"
    "ptq_owner quote = nx_owner request" and w': "w' = snd (en_world g')" and hash: "er_transaction_hash res = er_transaction_hash result"
    and run: "execute_on_chain (cr_prims (ev_crates E)) (cr_ed (ev_crates E)) (ev_hex E) (ev_b64 E) ?S ?q
       \<lparr>en_quotes = store, en_world = (?c, w)\<rparr> = (Inr result, g')"
  have "\<exists>spec st d s1 s2 task.
      authorize_native_wallet_execution H (native_request \<lparr>nac_quote = ?q\<rparr> (TransactionIntent spec)) s1 = (Inr d, s2) \<and>
      au_approved d \<and> spec_of_quote ?q spec \<and> spec_chain_id spec = evm_chain_id_of ?n \<and>
      svc_sign_transaction (ev_crates E) (nx_secret request) spec = Inr st \<and>
      evm_rpc_call ?S decode_string ?n ''eth_sendRawTransaction'' (JArr [JStr (st_raw st)])
        \<lparr>en_quotes = en_quotes s2, en_world = (task, en_world s2)\<rparr> = (Inr (er_transaction_hash res), g')"
    if evm: "pt_chain ?q = WEvm"
  proof -
    from run evm have "execute_evm_quote ?S ?q \<lparr>en_quotes = store, en_world = (?c, w)\<rparr> = (Inr result, g')"
      by (simp add: execute_on_chain_def told_Inr)
    then show ?thesis
    proof (rule execute_evm_quote_Inr)
      fix spec st req np g1 g2
      assume np: "node_params ?S ?n (pt_from_address ?q) req \<lparr>en_quotes = store, en_world = (?c, w)\<rparr> = (Inr np, g1)"
        and sg: "sm_sign_transaction ?S WEvm spec g1 = (Inr st, g2)" and spec: "spec_of_quote ?q spec" "spec_chain_id spec = evm_chain_id_of ?n"
        and send: "evm_rpc_call ?S decode_string ?n ''eth_sendRawTransaction'' (JArr [JStr (st_raw st)]) g2
          = (Inr (er_transaction_hash result), g')"
      have "keeps (in_context engine_locals ?c) (node_params ?S ?n (pt_from_address ?q) req)"
        unfolding node_params_def native_seams_def using engine_task.signing.keeps_I by (auto intro!: keeps_intros)
      from keepsD [OF this native_context np] have ctx: "in_context engine_locals ?c g1" .
      from native_signature [OF ctx sg] spec send show ?thesis unfolding hash by metis
    qed
  qed
  with rt w' show ?thesis by metis
qed

section \<open>A host that approves and records\<close>

type_synonym approvals = "AuthorizeNativeWalletExecutionRequest set"

definition sample_host :: "approvals engine host" where
  "sample_host =
     \<lparr>hb_call = \<lambda>_ args g.
        (case args of
           NativeArgs request \<Rightarrow> (Inr (AuthorizationReply \<lparr>au_approved = True, au_reason = None\<rparr>), g\<lparr>en_world := insert request (en_world g)\<rparr>)
         | TransportArgs _ \<Rightarrow> (Inr (ChainTransportReply (TransportOk (JStr ''0x1''))), g)
         | _ \<Rightarrow> (Inl [], g)),
      hb_debug = \<lambda>_. []\<rparr>"

definition sample_env :: "'g env" where
  "sample_env = \<lparr>ev_crates = sample_crates, ev_hex = sample_hex, ev_b64 = \<lparr>b64_encode = \<lambda>_. [], b64_decode = \<lambda>_. Inr []\<rparr>, ev_now_ms = \<lambda>_. 1000,
     ev_json_text = \<lambda>_. [], ev_json_parse = \<lambda>_. Inr JNull, ev_serde_error = \<lambda>_. []\<rparr>"

definition sample_runtime :: NativeWalletRuntime where
  "sample_runtime = \<lparr>nw_handle = ''handle'', nw_endpoints = default_endpoints, nw_quotes = en_quotes sample_engine\<rparr>"

definition sample_execute :: NativeWalletExecuteRequest where
  "sample_execute = \<lparr>nx_service = ''handle'', nx_owner = None, nx_quote_id = ''q_1000_1'', nx_confirmed = True, nx_secret = sample_secret\<rparr>"

lemma sample_records: "records_approvals (\<lambda>g. id (en_world g)) sample_host"
  by (auto simp: records_approvals_def sample_host_def split: HostArgs.splits)

lemma sample_evm_signs:
  "\<exists>st. svc_sign_transaction sample_crates sample_secret (EvmSpec ''0x0000000000000000000000000000000000000002'' (show_nat 7) [] 1 1 (show_nat 1) 1) = Inr st"
    (is "\<exists>st. svc_sign_transaction _ _ ?spec = Inr st")
proof -
  have dec: "decimal_u128 (show_nat 1) field = Inr 1" "decimal_u128 (show_nat 7) field = Inr 7" for field
    using decimal_u128_show [of 1 field] decimal_u128_show [of 7 field] by simp_all
  moreover have "svc_decode_hex [] = Inr []" "trim ''0x0000000000000000000000000000000000000002'' \<noteq> []" by code_simp+
  ultimately obtain t where t: "evm_transaction ?spec = Inr t"
    "tx_to t = Some ''0x0000000000000000000000000000000000000002''" "tx_chain_id t = 1" by auto
  with sample_evm_validate obtain to where to: "to_bytes t = Inr to" using to_bytes_error [of t] by (cases "to_bytes t") auto
  then obtain digest where digest: "evm_digest sample_prims t = Inr digest" by (auto simp: evm_digest_def signing_payload_Inr result_simps)
  obtain d where d: "svc_derive sample_crates sample_secret = Inr d" using sample_derive by blast
  obtain raw where "evm_attach_signature t (take 64 (digest @ dk_secret d @ replicate 64 0)) 0 = Inr raw"
    unfolding evm_attach_signature_Inr t(3) using to by auto
  then have "\<exists>st. library_sign sample_crates ?spec (dk_secret d) = Some st"
    using t(1) digest by (simp add: evm_sign_def sample_secp_def del: evm_transaction.simps take_append)
  moreover have "sec_chain sample_secret = Evm" by (simp add: sample_secret_def)
  ultimately show ?thesis
    using evm_one_shot [OF sample_signing_laws d _ refl] by blast
qed

lemma sample_rpc: "evm_rpc_call (native_seams sample_env sample_host sample_runtime) decode_string n m ps g = (Inr ''0x1'', g)"
  by (simp add: evm_rpc_call_def json_rpc_def native_seams_def module_seams_def host_json_rpc_def transport_call_def chain_transport_def
      host_call_def engine_host_def sample_host_def extract_response_def decode_string_def)

lemma sample_native_sign:
  assumes "fst (en_world g) = native_task sample_execute sample_quote"
  shows "\<exists>st g'. sm_sign_transaction (native_seams sample_env sample_host sample_runtime) WEvm
    (EvmSpec ''0x0000000000000000000000000000000000000002'' (show_nat 7) [] 1 1 (show_nat 1) 1) g = (Inr st, g')"
proof -
  obtain st where st: "svc_sign_transaction sample_crates sample_secret
      (EvmSpec ''0x0000000000000000000000000000000000000002'' (show_nat 7) [] 1 1 (show_nat 1) 1) = Inr st"
    using sample_evm_signs by blast
  have "sec_chain sample_secret = Evm" by (simp add: sample_secret_def)
  with st assms show ?thesis
    by (simp add: native_seams_def module_seams_def module_sign_transaction_def native_approval_def engine_locals_def native_task_def
        sample_execute_def ask_native_def authorize_native_wallet_execution_def host_call_def engine_host_def sample_host_def
        extract_response_def require_approved_def take_secret_def sample_env_def)
qed

lemma sample_send:
  assumes rpc: "\<And>n m ps g. evm_rpc_call S decode_string n m ps g = (Inr ''0x1'', g)"
    and sg: "sm_sign_transaction S WEvm (EvmSpec ''0x0000000000000000000000000000000000000002'' (show_nat 7) [] 1 1 (show_nat 1) 1) g = (Inr st, g')"
  shows "\<exists>h fee. sign_and_broadcast S EthereumMainnet a ''0x0000000000000000000000000000000000000002'' ''7'' None g = (Inr (h, fee), g')"
proof -
  have "trim ''0x1'' = ''0x1''" "strip_prefix ''0x'' ''0x1'' = Some ''1''" "hex_val (CHR ''1'') = Some 1" by code_simp+
  then have h: "hex_to_u128 ''0x1'' = Inr 1" by (simp add: hex_to_u128_def parse_hex_uint_def)
  have "trim ''7'' = ''7''" by code_simp
  then have v: "parse_native_value ''7'' = Inr 7" by (simp add: parse_native_value_def parse_uint_def is_ascii_digit_def)
  have np: "check_node_params EthereumMainnet ''0x1'' ''0x1'' ''0x1'' ''0x1'' =
      Inr \<lparr>np_chain_id = 1, np_nonce = 1, np_gas_price = 1, np_gas_limit = 1\<rparr>"
    by (simp add: check_node_params_def implausible_u64_def h)
  show ?thesis
    using sg by (simp add: sign_and_broadcast_def sample_evm_validate v node_params_def rpc np evm_spec_def option_or_def)
qed

lemma sample_native_execution:
  assumes "fst (en_world g) = native_task sample_execute sample_quote"
  shows "\<exists>r g'. execute_evm_quote (native_seams sample_env sample_host sample_runtime) sample_quote g = (Inr r, g')"
proof -
  obtain st g' where "sm_sign_transaction (native_seams sample_env sample_host sample_runtime) WEvm
    (EvmSpec ''0x0000000000000000000000000000000000000002'' (show_nat 7) [] 1 1 (show_nat 1) 1) g = (Inr st, g')"
    using sample_native_sign [OF assms] by (elim exE)
  from sample_send [OF sample_rpc this] obtain h fee where
    "sign_and_broadcast (native_seams sample_env sample_host sample_runtime) EthereumMainnet
      ''0x0000000000000000000000000000000000000001'' ''0x0000000000000000000000000000000000000002'' ''7'' None g = (Inr (h, fee), g')"
    by blast
  then show ?thesis
    by (simp add: execute_evm_quote_def sample_quote_def option_or_def quote_target_def sample_evm_validate)
qed

lemma sample_native_run:
  "\<exists>res active' w'. native_wallet_execute_prepared sample_env sample_host sample_execute (Some sample_runtime) {} = (Inr res, active', w')"
proof -
  let ?q = "\<lparr>ptq_transaction = sample_quote, ptq_owner = None\<rparr>" and ?S = "native_seams sample_env sample_host sample_runtime"
  have pos: "position (\<lambda>q. q_id transfer_quoted q = ''q_1000_1'') (qs_quotes (en_quotes sample_engine)) = Some 0"
    unfolding sample_engine_quotes by (simp add: transfer_quoted_def sample_quote_def)
  then have tk: "take_for transfer_quoted 1000 ''q_1000_1'' None (en_quotes sample_engine) = (Inr ?q, (en_quotes sample_engine)\<lparr>qs_quotes := []\<rparr>)"
    by (simp add: take_for_def sample_engine_quotes transfer_quoted_def sample_quote_def remove_at_def)
  then have gt: "get_for transfer_quoted 1000 ''q_1000_1'' None (en_quotes sample_engine) = Inr ?q"
    using take_for_get_for [of transfer_quoted 1000 "''q_1000_1''" None "en_quotes sample_engine"] by simp
  let ?g = "\<lparr>en_quotes = (en_quotes sample_engine)\<lparr>qs_quotes := []\<rparr>, en_world = (native_task sample_execute sample_quote, {})\<rparr>"
  obtain r g' where "execute_evm_quote ?S sample_quote ?g = (Inr r, g')"
    using sample_native_execution [of ?g] by auto
  then have ex: "execute_on_chain p ed h b ?S sample_quote ?g = (Inr r, g')" for p ed h b
    by (simp add: execute_on_chain_def told_def sample_quote_def)
  have clock: "sm_now_ms ?S g = 1000" for g by (simp add: native_seams_def module_seams_def sample_env_def)
  have own: "sm_current_owner ?S \<lparr>en_quotes = x, en_world = (native_task sample_execute sample_quote, w)\<rparr> = None" for x w
    by (simp add: native_seams_def module_seams_def current_owner_def engine_locals_def native_task_def sample_execute_def)
  let ?h = "\<lparr>en_quotes = en_quotes sample_engine, en_world = (native_task sample_execute sample_quote, {})\<rparr>"
  obtain res where run: "execute_prepared p ed h b ?S \<lparr>xp_quote_id = ''q_1000_1'', xp_confirmed = True\<rparr> ?h = (Inr res, g')" for p ed h b
    using tk ex by (simp add: execute_prepared_def clock own)
  have "prepared_quote_for_owner ?S ''q_1000_1'' None \<lparr>en_quotes = en_quotes sample_engine, en_world = (fresh_task, {})\<rparr> = Inr sample_quote"
    by (simp add: prepared_quote_for_owner_def clock gt)
  moreover have fields: "nx_service sample_execute = ''handle''" "nx_owner sample_execute = None" "nx_quote_id sample_execute = ''q_1000_1''"
    "nx_confirmed sample_execute" "nw_handle sample_runtime = ''handle''" "nw_quotes sample_runtime = en_quotes sample_engine"
    by (simp_all add: sample_execute_def sample_runtime_def)
  ultimately show ?thesis
    using run [unfolded native_task_def fields]
    by (simp add: native_wallet_execute_prepared_def native_service_def native_require_handle_def task_simps engine_locals_def
        fresh_task_def on_error_def Let_def)
qed


theorem native_evm_execution_approved_witness:
  "\<exists>spec st. spec_of_quote sample_quote spec \<and> svc_sign_transaction sample_crates sample_secret spec = Inr st"
proof -
  obtain res active' w' where run:
    "native_wallet_execute_prepared sample_env sample_host sample_execute (Some sample_runtime) {} = (Inr res, active', w')"
    using sample_native_run by (elim exE)
  from native_evm_execution_approved [OF run] show ?thesis
    by (auto simp: sample_runtime_def sample_engine_quotes sample_quote_def sample_env_def sample_execute_def)
qed

end
