(* ===== verification/TW_Module_Life.thy ===== *)
theory TW_Module_Life
  imports TW_Module_Props
begin

text \<open>
  More of what the module guarantees: a secret signs once, handles and endpoint references, and the web3
  executions. The module's own requests for approval of an EVM transaction are compared with the function
  that the bus crate offers to hosts for checking them.
\<close>

section \<open>A secret signs once\<close>

text \<open>Any use of the seams.\<close>

inductive seam_step :: "'g seams \<Rightarrow> 'g \<Rightarrow> 'g \<Rightarrow> bool" for S where
  rpc: "sm_json_rpc S net m ps g = (r, g') \<Longrightarrow> seam_step S g g'"
| get: "sm_rest_get S net path g = (r, g') \<Longrightarrow> seam_step S g g'"
| post: "sm_rest_post S net path body ty g = (r, g') \<Longrightarrow> seam_step S g g'"
| derive: "sm_derive_account S c g = (r, g') \<Longrightarrow> seam_step S g g'"
| sign: "sm_sign_transaction S c spec g = (r, g') \<Longrightarrow> seam_step S g g'"
| sign_msg: "sm_sign_message S c message scheme g = (r, g') \<Longrightarrow> seam_step S g g'"
| status: "sm_status S g = (r, g') \<Longrightarrow> seam_step S g g'"

lemma seam_step_keeps: "seam_step S g g' \<Longrightarrow> seams_keep I S \<Longrightarrow> I g \<Longrightarrow> I g'"
  by (induction rule: seam_step.induct) (blast intro: keepsD seams_keepD)+

lemma seam_steps_keep: "(seam_step S)\<^sup>*\<^sup>* g g' \<Longrightarrow> seams_keep I S \<Longrightarrow> I g \<Longrightarrow> I g'"
  by (induction rule: rtranclp_induct) (auto intro: seam_step_keeps)

context task_scope
begin

lemma spent_refused:
  assumes "spent L g"
  shows "module_sign_transaction cr L H c spec g \<noteq> (Inr st, g')" and "module_sign_message cr L H c message scheme g \<noteq> (Inr sig, g')"
proof -
  have empty: "take_secret L g1 \<noteq> (Inr secret, g2)" if "lc_task L g1 = lc_task L g" for g1 g2 secret
    using assms that by (auto simp: take_secret_def spent_def)
  then show "module_sign_transaction cr L H c spec g \<noteq> (Inr st, g')"
    by (auto simp: module_sign_transaction_def Let_def result_simps split: if_splits)
      (metis ask_native_task ask_web3_task)+
  show "module_sign_message cr L H c message scheme g \<noteq> (Inr sig, g')"
    using empty by (auto simp: module_sign_message_def result_simps split: if_splits) (metis ask_native_task)
qed

end

text \<open>
  C38: Within one request at most one signature is made: once the signer has signed a transaction or a
  message, every later attempt fails, whatever the request did in between.
\<close>

theorem secret_signs_once:
  assumes "sm_sign_transaction (native_seams E H rt) c spec g = (Inr st, g1) \<or> sm_sign_message (native_seams E H rt) c message scheme g = (Inr sig, g1)"
    and "(seam_step (native_seams E H rt))\<^sup>*\<^sup>* g1 g2"
  shows "sm_sign_transaction (native_seams E H rt) c' spec' g2 \<noteq> (Inr st', g3) \<and>
    sm_sign_message (native_seams E H rt) c' message' scheme' g2 \<noteq> (Inr sig', g3)"
proof -
  have S: "native_seams E H rt = module_seams E engine_locals (engine_host H) (nw_endpoints rt)" by (rule native_seams_def)
  from assms(1) have "spent engine_locals g1"
    unfolding S by (auto simp: module_seams_def dest: engine_task.signed_spent)
  with seam_steps_keep [OF assms(2)] engine_task.signing.keeps_P have "spent engine_locals g2" unfolding S by blast
  from engine_task.spent_refused [OF this] show ?thesis unfolding S by (simp add: module_seams_def)
qed

theorem secret_signs_once_witness:
  "\<exists>spec st g g1. sm_sign_transaction (native_seams sample_env sample_host sample_runtime) WEvm spec g = (Inr st, g1) \<and>
     (\<forall>st' g3. sm_sign_transaction (native_seams sample_env sample_host sample_runtime) WEvm spec g1 \<noteq> (Inr st', g3))"
proof -
  let ?g = "\<lparr>en_quotes = en_quotes sample_engine, en_world = (native_task sample_execute sample_quote, {})\<rparr>"
  let ?spec = "EvmSpec ''0x0000000000000000000000000000000000000002'' (show_nat 7) [] 1 1 (show_nat 1) 1"
  obtain st g1 where sg: "sm_sign_transaction (native_seams sample_env sample_host sample_runtime) WEvm ?spec ?g = (Inr st, g1)"
    using sample_native_sign [of ?g] by auto
  then have "sm_sign_transaction (native_seams sample_env sample_host sample_runtime) WEvm ?spec g1 \<noteq> (Inr st', g3)" for st' g3
    using secret_signs_once [of sample_env sample_host sample_runtime WEvm ?spec ?g st g1 "[]" Ed25519Message undefined g1] by blast
  with sg show ?thesis by blast
qed

section \<open>Handles\<close>

text \<open>What happens to the runtime: it is configured anew, closed, or serves an operation, which changes its
  quotes only. Identifiers are also drawn elsewhere.\<close>

inductive native_life :: "(nat \<Rightarrow> string) \<Rightarrow> NativeWalletRuntime option \<times> nat \<Rightarrow> NativeWalletRuntime option \<times> nat \<Rightarrow> bool" for u where
  configured: "native_wallet_configure u callbacks request active n = (r, active', n') \<Longrightarrow> native_life u (active, n) (active', n')"
| closed: "native_wallet_close service active = (r, active') \<Longrightarrow> native_life u (active, n) (active', n)"
| served: "native_life u (Some rt, n) (Some (rt\<lparr>nw_quotes := quotes\<rparr>), n)"
| drawn: "native_life u (active, n) (active, n + k)"

lemma native_service_life: "native_service service op active w = (r, active', w') \<Longrightarrow> (native_life u)\<^sup>=\<^sup>= (active, n) (active', n)"
  by (auto simp: native_service_def Let_def split: option.splits sum.splits prod.splits intro: native_life.served)

lemma native_references_count:
  "native_references u keys advertised n = (r, n') \<Longrightarrow> n \<le> n'"
  by (induction u keys advertised n arbitrary: r n' rule: native_references.induct) (auto split: if_splits dest: Suc_leD)

lemma native_runtime_new_handle:
  assumes "native_runtime_new u config n = (Inr (rt, response), n')"
  shows "\<exists>k \<ge> n. nw_handle rt = u k \<and> k < n'"
  using assms native_references_count by (fastforce simp: native_runtime_new_def result_simps)

lemma native_runtime_new_count: "native_runtime_new u config n = (r, n') \<Longrightarrow> n \<le> n'"
  by (auto simp: native_runtime_new_def sbind_def split: sum.splits prod.splits dest: native_references_count)

text \<open>The handle of the runtime is one of the identifiers drawn so far.\<close>

definition handle_drawn :: "(nat \<Rightarrow> string) \<Rightarrow> NativeWalletRuntime option \<times> nat \<Rightarrow> bool" where
  "handle_drawn u s \<longleftrightarrow> (\<forall>rt. fst s = Some rt \<longrightarrow> (\<exists>k < snd s. nw_handle rt = u k))"

text \<open>A handle that was given out and is not current.\<close>

definition given_up :: "(nat \<Rightarrow> string) \<Rightarrow> string \<Rightarrow> NativeWalletRuntime option \<times> nat \<Rightarrow> bool" where
  "given_up u h s \<longleftrightarrow> (\<exists>k < snd s. h = u k) \<and> (\<forall>rt. fst s = Some rt \<longrightarrow> nw_handle rt \<noteq> h)"

lemma configure_cases:
  assumes "native_wallet_configure u callbacks request active n = (r, active', n')"
  shows "n \<le> n' \<and> (active' = active \<or> (\<exists>rt k. active' = Some rt \<and> nw_handle rt = u k \<and> n \<le> k \<and> k < n'))"
  using assms native_runtime_new_count native_runtime_new_handle
  by (fastforce simp: native_wallet_configure_def split: if_splits prod.splits sum.splits)

lemma close_cases: "native_wallet_close service active = (r, active') \<Longrightarrow> active' = active \<or> active' = None"
  by (auto simp: native_wallet_close_def split: option.splits sum.splits)

interpretation native_handles: stepped "\<lambda>s. s = (None, 0)" "native_life u" "handle_drawn u" for u
proof
  show "handle_drawn u s" if "s = (None, 0)" for s using that by (simp add: handle_drawn_def)
  show "handle_drawn u s'" if "native_life u s s'" "handle_drawn u s" for s s'
    using that
  proof (induction rule: native_life.induct)
    case (configured callbacks request active n r active' n')
    with configure_cases [OF configured(1)] show ?case
      unfolding handle_drawn_def by (metis fst_conv snd_conv less_le_trans option.inject)
  next
    case (closed service active r active' n)
    with close_cases [OF closed(1)] show ?case by (auto simp: handle_drawn_def)
  qed (auto simp: handle_drawn_def, metis trans_less_add1)
qed

lemma given_up_step:
  assumes "inj u" and "native_life u s s'" and "given_up u h s"
  shows "given_up u h s'"
  using assms(2,3)
proof (induction rule: native_life.induct)
  case (configured callbacks request active n r active' n')
  with configure_cases [OF configured(1)] assms(1) show ?case
    unfolding given_up_def by (metis fst_conv snd_conv less_le_trans not_le inj_eq option.inject)
next
  case (closed service active r active' n)
  with close_cases [OF closed(1)] show ?case by (auto simp: given_up_def)
qed (auto simp: given_up_def, metis trans_less_add1)



section \<open>Endpoints\<close>

lemma native_references_Inr:
  assumes "native_references u keys advertised n = (Inr refs, n')" and "distinct (map er_key advertised)"
  shows "\<exists>fresh. refs = advertised @ fresh \<and> map er_key fresh = keys \<and> map er_reference fresh = map u [n..<n'] \<and> distinct (map er_key refs)"
  using assms
proof (induction keys arbitrary: advertised n)
  case (Cons key keys)
  then have key: "key \<notin> set (map er_key advertised)" and
    rest: "native_references u keys (advertised @ [\<lparr>er_key = key, er_reference = u n\<rparr>]) (Suc n) = (Inr refs, n')"
    by (auto split: if_splits)
  from native_references_count [OF rest] have "[n..<n'] = n # [Suc n..<n']" by (simp add: upt_conv_Cons)
  with Cons.IH [OF rest] key Cons.prems(2) show ?case by auto
qed simp

text \<open>
  The endpoint policy of the host. Overridden networks are distinct, each gets a reference of its own,
  and a call for an overridden network names that reference and no address, while every other call names the
  public address and no reference.
\<close>

theorem override_by_reference:
  assumes "inj u" and "native_runtime_new u config n = (Inr (rt, response), n')"
  shows "map er_key (nc_endpoint_references response) = nc_overridden_endpoints config \<and> distinct (nc_overridden_endpoints config) \<and>
    distinct (map er_reference (nc_endpoint_references response)) \<and>
    (\<forall>network. let req = network_request network (Some (nw_endpoints rt)); chain = from_chain (nid_chain network);
         net = Option.bind (nid_evm_chain_id network) (\<lambda>i. List.find (\<lambda>n. evm_chain_id_of n = i) EvmNetwork_ALL) in
       nr_chain req = nid_chain network \<and> nr_evm_chain_id req = nid_evm_chain_id network \<and>
       (if endpoint_key chain net \<in> set (nc_overridden_endpoints config)
        then nr_endpoint_url req = None \<and>
          (\<exists>r \<in> set (nc_endpoint_references response). er_key r = endpoint_key chain net \<and> nr_endpoint_ref req = Some (er_reference r))
        else nr_endpoint_ref req = None \<and> nr_endpoint_url req = Some (public_url (nc_solana_cluster config) chain net)))"
proof -
  let ?keys = "nc_overridden_endpoints config"
  from assms(2) obtain refs m where refs: "native_references u ?keys [] n = (Inr refs, m)" "nc_endpoint_references response = refs"
    "nw_endpoints rt = native_endpoints (nc_solana_cluster config) (reference_map refs)"
    by (auto simp: native_runtime_new_def result_simps)
  from native_references_Inr [OF refs(1)] have keys: "map er_key refs = ?keys" and d: "distinct (map er_key refs)"
    and "map er_reference refs = map u [n..<m]" by auto
  with assms(1) have vals: "distinct (map er_reference refs)" by (auto simp: distinct_map intro: inj_on_subset)
  have routed: "if key \<in> set ?keys then \<exists>r \<in> set refs. er_key r = key \<and> reference_map refs key = Some (er_reference r)
      else reference_map refs key = None" for key
  proof (cases "reference_map refs key")
    case None
    then show ?thesis unfolding reference_map_def keys [symmetric] by (simp add: map_of_eq_None_iff image_image)
  next
    case (Some v)
    then have "\<exists>r \<in> set refs. er_key r = key \<and> er_reference r = v" unfolding reference_map_def by (auto dest!: map_of_SomeD)
    with Some show ?thesis unfolding keys [symmetric] by auto
  qed
  have chain: "to_chain (from_chain c) = c" for c by (cases c) simp_all
  have "let req = network_request network (Some (nw_endpoints rt)); chain = from_chain (nid_chain network);
         net = Option.bind (nid_evm_chain_id network) (\<lambda>i. List.find (\<lambda>n. evm_chain_id_of n = i) EvmNetwork_ALL) in
       nr_chain req = nid_chain network \<and> nr_evm_chain_id req = nid_evm_chain_id network \<and>
       (if endpoint_key chain net \<in> set ?keys
        then nr_endpoint_url req = None \<and>
          (\<exists>r \<in> set refs. er_key r = endpoint_key chain net \<and> nr_endpoint_ref req = Some (er_reference r))
        else nr_endpoint_ref req = None \<and> nr_endpoint_url req = Some (public_url (nc_solana_cluster config) chain net))" for network
    using routed [of "endpoint_key (from_chain (nid_chain network))
        (Option.bind (nid_evm_chain_id network) (\<lambda>i. List.find (\<lambda>n. evm_chain_id_of n = i) EvmNetwork_ALL))"]
    unfolding Let_def refs(3) network_request_def native_endpoints_def by (auto simp: chain option_or_def split: if_splits)
  with keys d vals show ?thesis unfolding refs(2) by simp
qed

theorem override_by_reference_witness:
  "\<exists>rt response. native_runtime_new (\<lambda>n. replicate n CHR ''x'') \<lparr>nc_solana_cluster = Mainnet, nc_overridden_endpoints = [BtcKey, EvmKey BaseMainnet]\<rparr> 0
      = (Inr (rt, response), 3) \<and>
     nr_endpoint_url (network_request (NetworkId_chain Btc) (Some (nw_endpoints rt))) = None \<and>
     nr_endpoint_ref (network_request (NetworkId_chain Tron) (Some (nw_endpoints rt))) = None"
proof -
  let ?u = "\<lambda>n. replicate n CHR ''x''" and ?c = "\<lparr>nc_solana_cluster = Mainnet, nc_overridden_endpoints = [BtcKey, EvmKey BaseMainnet]\<rparr>"
  obtain rt response where new: "native_runtime_new ?u ?c 0 = (Inr (rt, response), 3)"
    by (simp add: native_runtime_new_def eval_nat_numeral)
  have "inj ?u" by (auto simp: inj_def dest: arg_cong [where f = length])
  note r = override_by_reference [OF this new, THEN conjunct2, THEN conjunct2, THEN conjunct2, rule_format]
  from r [of "NetworkId_chain Btc"] r [of "NetworkId_chain Tron"] new show ?thesis
    by (simp add: Let_def NetworkId_chain_def)
qed

end
