(* ===== verification/TW_Module_Web3.thy ===== *)
theory TW_Module_Web3
  imports TW_Module_Life
begin

text \<open>
  The execution of swaps, bridges and dapp calls through the module: what the host has approved when one
  succeeds, and how the module's request compares with the check that the bus crate offers to hosts.
\<close>

section \<open>What the host has approved\<close>

definition web3_task :: "Web3ExecuteRequest \<Rightarrow> Web3ApprovalContext \<Rightarrow> task" where
  "web3_task request approval =
     \<lparr>tk_quote_owner = Some (w3x_owner request), tk_secret = Some (Some (w3x_secret request)), tk_web3_approval = Some (Some approval),
      tk_native_approval = None\<rparr>"

definition approval_of :: "StoredQuote \<Rightarrow> Web3ApprovalContext" where
  "approval_of quote =
     \<lparr>wac_quote_id = sto_quote_id quote, wac_operation = operation_name (sto_kind quote),
      wac_solana_intent = (case sto_unsigned quote of EvmTx _ _ _ _ \<Rightarrow> None | SolanaTx blob \<Rightarrow> Some (Web3SolanaIntent blob))\<rparr>"

lemma web3_host_call:
  assumes "host_call (web3_host H) member kind args g = (r, g')"
  obtains s where "host_call H member kind args \<lparr>w3_quotes = w3_quotes g, w3_world = snd (w3_world g)\<rparr> = (r, s)"
    "g' = \<lparr>w3_quotes = w3_quotes s, w3_world = (fst (w3_world g), w3_world s)\<rparr>"
proof -
  obtain answer s where "hb_call H member args \<lparr>w3_quotes = w3_quotes g, w3_world = snd (w3_world g)\<rparr> = (answer, s)" by fastforce
  with assms that show thesis
    by (cases answer) (auto simp: host_call_def web3_host_def extract_response_def)
qed

lemma on_error_Inr: "on_error f m = (Inr r, g) \<longleftrightarrow> m = (Inr r, g)"
  by (cases m) (auto simp: on_error_def map_err_eq_Inr)

text \<open>A successful request: the quote that was found, the state in which its execution starts, which is the
  initial one for an EVM quote, and its execution in the context of the request.\<close>

lemma web3_execute_Inr:
  assumes "web3_execute E H request active w = (Inr res, active', w')"
  obtains rt quote start g' where "active = Some rt" "w3x_service request = w3r_handle rt" "w3x_confirmed request"
    "get_for stored_quoted (ev_now_ms E \<lparr>w3_quotes = w3r_quotes rt, w3_world = (fresh_task, w)\<rparr>) (w3x_quote_id request)
       (w3x_owner request) (w3r_quotes rt) = Inr quote"
    "approve_solana (web3_host H) (approval_of quote) \<lparr>w3_quotes = w3r_quotes rt, w3_world = (fresh_task, w)\<rparr> = (Inr (), start)"
    "execute_quote (cr_prims (ev_crates E)) (ev_hex E) (ev_b64 E) (web3_seams E H rt)
       \<lparr>xq_quote_id = w3x_quote_id request, xq_confirmed = True\<rparr>
       \<lparr>w3_quotes = w3_quotes start, w3_world = (web3_task request (approval_of quote), snd (w3_world start))\<rparr> = (Inr res, g')"
    "w' = snd (w3_world g')"
proof -
  from assms obtain rt where rt: "active = Some rt" "w3x_service request = w3r_handle rt" "w3x_confirmed request"
    by (auto simp: web3_execute_def web3_service_def with_web3_runtime_def web3_require_handle_def Let_def
        split: option.splits if_splits prod.splits)
  let ?g = "\<lparr>w3_quotes = w3r_quotes rt, w3_world = (fresh_task, w)\<rparr>"
  obtain quote where q: "get_for stored_quoted (ev_now_ms E ?g) (w3x_quote_id request) (w3x_owner request) (w3r_quotes rt) = Inr quote"
    using assms rt by (auto simp: web3_execute_def web3_service_def with_web3_runtime_def web3_require_handle_def Let_def
        execution_approval_def quote_for_owner_def web3_seams_def module_seams_def rbind_def split: sum.splits)
  then have appr: "execution_approval (web3_seams E H rt) (w3x_quote_id request) (w3x_owner request) ?g = Inr (approval_of quote)"
    by (simp add: execution_approval_def quote_for_owner_def web3_seams_def module_seams_def approval_of_def)
  obtain a start where ap: "approve_solana (web3_host H) (approval_of quote) ?g = (a, start)" by fastforce
  with assms rt appr have a: "a = Inr ()"
    by (cases a) (auto simp: web3_execute_def web3_service_def with_web3_runtime_def web3_require_handle_def Let_def)
  have task: "lc_task web3_locals start = fresh_task"
  proof (cases "wac_solana_intent (approval_of quote)")
    case None
    with ap show ?thesis by (auto simp: approve_solana_def web3_locals_def)
  next
    case (Some intent)
    with ap a web3_task.callbacks_task(4) show ?thesis
      by (cases intent) (fastforce simp: approve_solana_def web3_locals_def result_simps on_error_Inr)+
  qed
  obtain qs ws where st: "start = \<lparr>w3_quotes = qs, w3_world = (fresh_task, ws)\<rparr>"
    using task by (cases start) (auto simp: web3_locals_def)
  obtain r g' where ex: "execute_quote (cr_prims (ev_crates E)) (ev_hex E) (ev_b64 E) (web3_seams E H rt)
       \<lparr>xq_quote_id = w3x_quote_id request, xq_confirmed = True\<rparr>
       \<lparr>w3_quotes = qs, w3_world = (web3_task request (approval_of quote), ws)\<rparr> = (r, g')" by fastforce
  with assms rt appr ap a have "r = Inr res" "w' = snd (w3_world g')"
    by (simp_all add: web3_execute_def web3_service_def with_web3_runtime_def web3_require_handle_def Let_def task_simps web3_locals_def
        web3_task_def fresh_task_def on_error_def map_err_eq_Inr st)
  with that [OF rt q ap [unfolded a]] ex show thesis by (simp add: st)
qed

text \<open>What the signer has done in the context of a request when it has signed an EVM transaction.\<close>

lemma web3_signature:
  assumes ctx: "in_context web3_locals (web3_task request approval) g1"
    and sg: "sm_sign_transaction (web3_seams E H rt) WEvm (EvmSpec to value_wei data_hex nonce gas_limit gas_price chain_id) g1 = (Inr st, g2)"
  obtains d s1 s2 task where
    "authorize_web3_execution H (web3_request approval to value_wei data_hex nonce gas_limit gas_price chain_id) s1 = (Inr d, s2)" "au_approved d"
    "svc_sign_transaction (ev_crates E) (w3x_secret request) (EvmSpec to value_wei data_hex nonce gas_limit gas_price chain_id) = Inr st"
    "g2 = \<lparr>w3_quotes = w3_quotes s2, w3_world = (task, w3_world s2)\<rparr>"
proof -
  have n: "native_approval web3_locals g1 = None" "tk_web3_approval (lc_task web3_locals g1) = Some (Some approval)"
    using ctx by (auto simp: in_context_def native_approval_def web3_task_def)
  from sg have "module_sign_transaction (ev_crates E) web3_locals (web3_host H) WEvm
      (EvmSpec to value_wei data_hex nonce gas_limit gas_price chain_id) g1 = (Inr st, g2)"
    by (simp add: web3_seams_def module_seams_def)
  from web3_task.sign_transaction_web3 [OF this n refl] obtain d h secret where
    a: "authorize_web3_execution (web3_host H) (web3_request approval to value_wei data_hex nonce gas_limit gas_price chain_id) g1 = (Inr d, h)"
    and d: "au_approved d" and sec: "tk_secret (lc_task web3_locals g1) = Some (Some secret)"
    and st: "svc_sign_transaction (ev_crates E) secret (EvmSpec to value_wei data_hex nonce gas_limit gas_price chain_id) = Inr st"
    and g2: "g2 = lc_put web3_locals ((lc_task web3_locals g1)\<lparr>tk_secret := Some None\<rparr>) h" by metis
  from ctx sec have "secret = w3x_secret request" by (auto simp: in_context_def web3_task_def)
  moreover obtain s2 where "authorize_web3_execution H (web3_request approval to value_wei data_hex nonce gas_limit gas_price chain_id)
      \<lparr>w3_quotes = w3_quotes g1, w3_world = snd (w3_world g1)\<rparr> = (Inr d, s2)"
    "h = \<lparr>w3_quotes = w3_quotes s2, w3_world = (fst (w3_world g1), w3_world s2)\<rparr>"
    using a unfolding authorize_web3_execution_def by (rule web3_host_call)
  moreover from this(2) g2 have "g2 = \<lparr>w3_quotes = w3_quotes s2,
      w3_world = ((lc_task web3_locals g1)\<lparr>tk_secret := Some None\<rparr>, w3_world s2)\<rparr>"
    by (simp add: web3_locals_def)
  ultimately show thesis using that d st by metis
qed

lemma execute_quote_taken:
  assumes "execute_quote p h b S params g = (Inr res, g')"
  obtains quote store where "take_for stored_quoted (sm_now_ms S g) (xq_quote_id params) (sm_current_owner S g) (w3_quotes g) = (Inr quote, store)"
  using assms that by (auto simp: execute_quote_def split: if_splits sum.splits prod.splits)

text \<open>An EVM quote: approved, signed and sent is one and the same transaction, the stored one.\<close>

lemma web3_evm_approved:
  assumes get: "get_for stored_quoted now (w3x_quote_id request) (w3x_owner request) quotes = Inr quote"
    and evm: "sto_unsigned quote = EvmTx n to data v"
    and run: "execute_quote p h b (web3_seams E H rt) \<lparr>xq_quote_id = w3x_quote_id request, xq_confirmed = True\<rparr>
      \<lparr>w3_quotes = quotes, w3_world = (web3_task request (approval_of quote), w)\<rparr> = (Inr res, g')"
  shows "\<exists>amount nonce gas gas_price d s1 s2 st task g''. parse_uint (2 ^ 128) (trim v) = Inr amount \<and>
    authorize_web3_execution H (web3_request (approval_of quote) (trim to) (show_nat amount) (case data of None \<Rightarrow> [] | Some d \<Rightarrow> trim d)
      nonce gas gas_price (evm_chain_id_of n)) s1 = (Inr d, s2) \<and> au_approved d \<and>
    svc_sign_transaction (ev_crates E) (w3x_secret request)
      (EvmSpec (trim to) (show_nat amount) (case data of None \<Rightarrow> [] | Some d \<Rightarrow> trim d) nonce gas gas_price (evm_chain_id_of n)) = Inr st \<and>
    evm_rpc_call (web3_seams E H rt) decode_string n ''eth_sendRawTransaction'' (JArr [JStr (st_raw st)])
      \<lparr>w3_quotes = w3_quotes s2, w3_world = (task, w3_world s2)\<rparr> = (Inr (xr3_transaction_hash res), g'') \<and>
    snd (w3_world g') = snd (w3_world g'')"
proof -
  let ?c = "web3_task request (approval_of quote)" and ?S = "web3_seams E H rt"
  let ?g = "\<lparr>w3_quotes = quotes, w3_world = (?c, w)\<rparr>"
  have own: "sm_current_owner ?S ?g = w3x_owner request"
    by (simp add: web3_seams_def module_seams_def current_owner_def web3_locals_def web3_task_def)
  from run obtain q store where
    tk: "take_for stored_quoted (sm_now_ms ?S ?g) (w3x_quote_id request) (sm_current_owner ?S ?g) (w3_quotes ?g) = (Inr q, store)"
    by (auto elim: execute_quote_taken)
  from get_take_same [OF get] tk own have "q = quote" by auto
  with tk have tk: "take_for stored_quoted (sm_now_ms ?S ?g) (xq_quote_id \<lparr>xq_quote_id = w3x_quote_id request, xq_confirmed = True\<rparr>)
      (sm_current_owner ?S ?g) (w3_quotes ?g) = (Inr quote, store)" by simp
  show ?thesis
  proof (rule execute_quote_evm_Inr [OF tk evm run])
    fix account g0 np req g1 g2 spec st amount
    assume acc: "require_evm_account ?S (?g\<lparr>w3_quotes := store\<rparr>) = (Inr account, g0)"
      and np: "node_params ?S n account req g0 = (Inr np, g1)" and sg: "sm_sign_transaction ?S WEvm spec g1 = (Inr st, g2)"
      and spec: "spec = EvmSpec (trim to) (show_nat amount) (case data of None \<Rightarrow> [] | Some d \<Rightarrow> trim d) (np_nonce np) (np_gas_limit np)
        (show_nat (unat (np_gas_price np))) (evm_chain_id_of n)"
      and v: "parse_uint (2 ^ 128) (trim v) = Inr amount"
      and send: "evm_rpc_call ?S decode_string n ''eth_sendRawTransaction'' (JArr [JStr (st_raw st)]) g2 = (Inr (xr3_transaction_hash res), g')"
    have keep: "seams_keep (in_context web3_locals ?c) ?S" unfolding web3_seams_def by (rule web3_task.signing.keeps_I)
    have "in_context web3_locals ?c (?g\<lparr>w3_quotes := store\<rparr>)" by (simp add: in_context_def web3_locals_def)
    from keepsD [OF account_calls_keep(2) [OF keep] this acc] have "in_context web3_locals ?c g0" .
    moreover have "keeps (in_context web3_locals ?c) (node_params ?S n account req)"
      unfolding node_params_def using keep by (auto intro!: keeps_intros)
    ultimately have "in_context web3_locals ?c g1" using np by (blast intro: keepsD)
    from web3_signature [OF this sg [unfolded spec]] v send show ?thesis by metis
  qed
qed


section \<open>The module's request and the check offered to hosts\<close>

text \<open>
  C40: The request for approval that the module builds for an EVM transaction never passes the comparison that
  the bus crate offers to hosts: the module names the network \<open>eip155:\<close> followed by the chain id, the
  comparison knows networks by their names.
\<close>

theorem web3_evm_request_never_matches:
  "\<not> web3_approval_matches_request quote (web3_request approval to value_wei data_hex nonce gas_limit gas_price chain_id)"
proof -
  have "\<not> known_evm_chain (''eip155:'' @ s) chain_id" for s
    by (simp add: known_evm_chain_def EvmNetwork_ALL_def)
  then show ?thesis
    by (auto simp: web3_request_def web3_approval_matches_request_def evm_approval_matches_def split: WalletChain.splits)
qed

section \<open>A concrete execution\<close>

definition sample_web3_host :: "'w web3 host" where
  "sample_web3_host =
     \<lparr>hb_call = \<lambda>_ args g.
        (case args of
           Web3Args _ \<Rightarrow> (Inr (AuthorizationReply \<lparr>au_approved = True, au_reason = None\<rparr>), g)
         | TransportArgs _ \<Rightarrow> (Inr (ChainTransportReply (TransportOk (JStr ''0x1''))), g)
         | AccountsArgs \<Rightarrow> (Inr (WalletAccountsReply \<lparr>wr_configured = True, wr_accounts = [\<lparr>wi_chain = Evm,
             wi_address = ''0x0000000000000000000000000000000000000001'', wi_derivation_path = []\<rparr>]\<rparr>), g)
         | _ \<Rightarrow> (Inl [], g)),
      hb_debug = \<lambda>_. []\<rparr>"

definition sample_web3_runtime :: Web3Runtime where
  "sample_web3_runtime = \<lparr>w3r_handle = ''handle'', w3r_endpoints = default_endpoints, w3r_quotes = w3_quotes sample_web3\<rparr>"

definition sample_web3_execute :: Web3ExecuteRequest where
  "sample_web3_execute = \<lparr>w3x_service = ''handle'', w3x_owner = None, w3x_quote_id = ''w3_1000_1'', w3x_confirmed = True, w3x_secret = sample_secret\<rparr>"

lemma sample_web3_calls:
  "evm_rpc_call (web3_seams sample_env sample_web3_host sample_web3_runtime) decode_string n m ps g = (Inr ''0x1'', g)"
  "\<exists>account. require_evm_account (web3_seams sample_env sample_web3_host sample_web3_runtime) g = (Inr account, g)"
  by (simp_all add: evm_rpc_call_def json_rpc_def web3_seams_def module_seams_def host_json_rpc_def transport_call_def chain_transport_def
      host_call_def web3_host_def sample_web3_host_def extract_response_def decode_string_def require_evm_account_def require_account_def
      host_status_def wallet_accounts_def ok_or_def)

lemma sample_web3_sign:
  assumes "fst (w3_world g) = web3_task sample_web3_execute approval"
  shows "\<exists>st g'. sm_sign_transaction (web3_seams sample_env sample_web3_host sample_web3_runtime) WEvm
    (EvmSpec ''0x0000000000000000000000000000000000000002'' (show_nat 7) [] 1 1 (show_nat 1) 1) g = (Inr st, g')"
proof -
  obtain st where st: "svc_sign_transaction sample_crates sample_secret
      (EvmSpec ''0x0000000000000000000000000000000000000002'' (show_nat 7) [] 1 1 (show_nat 1) 1) = Inr st"
    using sample_evm_signs by blast
  have "sec_chain sample_secret = Evm" by (simp add: sample_secret_def)
  with st assms show ?thesis
    by (simp add: web3_seams_def module_seams_def module_sign_transaction_def native_approval_def web3_locals_def web3_task_def
        sample_web3_execute_def ask_native_def ask_web3_def authorize_web3_execution_def host_call_def web3_host_def sample_web3_host_def
        extract_response_def require_approved_def take_secret_def sample_env_def)
qed

lemma sample_web3_executed:
  "\<exists>res active' w'. web3_execute sample_env sample_web3_host sample_web3_execute (Some sample_web3_runtime) (0 :: nat) = (Inr res, active', w')"
proof -
  let ?S = "web3_seams sample_env sample_web3_host sample_web3_runtime" and ?c = "web3_task sample_web3_execute (approval_of sample_stored)"
  let ?g = "\<lparr>w3_quotes = (w3_quotes sample_web3)\<lparr>qs_quotes := []\<rparr>, w3_world = (?c, 0 :: nat)\<rparr>"
  have tk: "take_for stored_quoted 1000 ''w3_1000_1'' None (w3_quotes sample_web3) = (Inr sample_stored, (w3_quotes sample_web3)\<lparr>qs_quotes := []\<rparr>)"
    using sample_web3_taken by (simp add: sample_seams_def)
  then have gt: "get_for stored_quoted 1000 ''w3_1000_1'' None (w3_quotes sample_web3) = Inr sample_stored"
    using take_for_get_for [of stored_quoted 1000 "''w3_1000_1''" None "w3_quotes sample_web3"] by simp
  obtain account where account: "require_evm_account ?S ?g = (Inr account, ?g)" using sample_web3_calls(2) [of ?g] by blast
  obtain st g' where "sm_sign_transaction ?S WEvm (EvmSpec ''0x0000000000000000000000000000000000000002'' (show_nat 7) [] 1 1 (show_nat 1) 1) ?g
      = (Inr st, g')" using sample_web3_sign [of ?g "approval_of sample_stored"] by auto
  from sample_send [OF sample_web3_calls(1) this] obtain h fee where
    "sign_and_broadcast ?S EthereumMainnet account ''0x0000000000000000000000000000000000000002'' ''7'' None ?g = (Inr (h, fee), g')" by blast
  with account obtain rb where sent: "sign_unsigned p hx b ?S (sto_unsigned sample_stored) ?g = (Inr rb, g')" for p hx b
    by (simp add: sign_unsigned_def sample_stored_def sign_and_broadcast_evm_def told_def)
  have clock: "sm_now_ms ?S g = 1000" for g by (simp add: web3_seams_def module_seams_def sample_env_def)
  have own: "sm_current_owner ?S \<lparr>w3_quotes = x, w3_world = (?c, w)\<rparr> = None" for x w
    by (simp add: web3_seams_def module_seams_def current_owner_def web3_locals_def web3_task_def sample_web3_execute_def)
  obtain res where run: "execute_quote p hx b ?S \<lparr>xq_quote_id = ''w3_1000_1'', xq_confirmed = True\<rparr>
      \<lparr>w3_quotes = w3_quotes sample_web3, w3_world = (?c, 0 :: nat)\<rparr> = (Inr res, g')" for p hx b
    using tk sent by (simp add: execute_quote_def clock own)
  have appr: "execution_approval ?S ''w3_1000_1'' None \<lparr>w3_quotes = w3_quotes sample_web3, w3_world = (fresh_task, 0 :: nat)\<rparr> = Inr (approval_of sample_stored)"
    by (simp add: execution_approval_def quote_for_owner_def clock gt approval_of_def)
  have none: "approve_solana H (approval_of sample_stored) g = (Inr (), g)" for H :: "'g host" and g
    by (simp add: approve_solana_def approval_of_def sample_stored_def)
  have fields: "w3x_service sample_web3_execute = ''handle''" "w3x_owner sample_web3_execute = None" "w3x_quote_id sample_web3_execute = ''w3_1000_1''"
    "w3x_confirmed sample_web3_execute" "w3r_handle sample_web3_runtime = ''handle''" "w3r_quotes sample_web3_runtime = w3_quotes sample_web3"
    by (simp_all add: sample_web3_execute_def sample_web3_runtime_def)
  show ?thesis
    using run [unfolded web3_task_def fields]
    by (simp add: web3_execute_def web3_service_def with_web3_runtime_def web3_require_handle_def fields appr [unfolded fresh_task_def] none task_simps
        web3_locals_def fresh_task_def on_error_def Let_def)
qed


end
