(* ===== verification/TW_X402Wire.thy ===== *)
theory TW_X402Wire
  imports TW_Prelude
begin

text \<open>
  The x402 protocol: the wire types and constants of \<open>tinywallet-x402/src/wire/types.rs\<close>, the
  allowlist of \<open>wire/assets.rs\<close>, the choice of a requirement of \<open>protocol/select.rs\<close>, the
  errors of \<open>protocol/error.rs\<close> and the header codec of \<open>protocol/headers.rs\<close>. Base64 and
  JSON (crates \<open>base64\<close> and \<open>serde_json\<close>) are the parameter record \<open>x402_codec\<close>; the values of
  the open \<open>extensions\<close> maps have the type \<open>'j\<close> of JSON values.
\<close>

section \<open>Wire types\<close>

definition X402_VERSION :: u8 where "X402_VERSION = 2"
definition HEADER_PAYMENT_REQUIRED :: string where "HEADER_PAYMENT_REQUIRED = ''PAYMENT-REQUIRED''"
definition HEADER_PAYMENT_REQUIRED_V1 :: string where "HEADER_PAYMENT_REQUIRED_V1 = ''X-PAYMENT-REQUIRED''"
definition HEADER_PAYMENT_SIGNATURE :: string where "HEADER_PAYMENT_SIGNATURE = ''PAYMENT-SIGNATURE''"
definition HEADER_PAYMENT_SIGNATURE_V1 :: string where "HEADER_PAYMENT_SIGNATURE_V1 = ''X-PAYMENT''"
definition HEADER_PAYMENT_RESPONSE :: string where "HEADER_PAYMENT_RESPONSE = ''PAYMENT-RESPONSE''"
definition SOLANA_MAINNET_CAIP2 :: string where "SOLANA_MAINNET_CAIP2 = ''solana:5eykt4UsFv8P8NJdTREpY1vzqKqZKvdp''"
definition SOLANA_DEVNET_CAIP2 :: string where "SOLANA_DEVNET_CAIP2 = ''solana:EtWTRABZaYq6iMfeYKouRu166VU2xqa1''"
definition USDC_MINT_MAINNET :: string where "USDC_MINT_MAINNET = ''EPjFWdd5AufqSSqeM2qN1xzybapC8G4wEGGkZwyTDt1v''"
definition USDC_MINT_DEVNET :: string where "USDC_MINT_DEVNET = ''4zMMC9srt5Ri5X14GAgXhaHii3GnPAEERYPJgZJDncDU''"
definition SPL_TOKEN_PROGRAM :: string where "SPL_TOKEN_PROGRAM = ''TokenkegQfeZyiNwAJbNbGKPFXCWuBvf9Ss623VQ5DA''"
definition SPL_MEMO_PROGRAM :: string where "SPL_MEMO_PROGRAM = ''MemoSq4gqABAXKb96qnH8TysNcWxMyWCqXgDLGmfcHr''"
definition COMPUTE_BUDGET_PROGRAM :: string where "COMPUTE_BUDGET_PROGRAM = ''ComputeBudget111111111111111111111111111111''"
definition BASE_MAINNET_CAIP2 :: string where "BASE_MAINNET_CAIP2 = ''eip155:8453''"
definition BASE_SEPOLIA_CAIP2 :: string where "BASE_SEPOLIA_CAIP2 = ''eip155:84532''"
definition ETHEREUM_MAINNET_CAIP2 :: string where "ETHEREUM_MAINNET_CAIP2 = ''eip155:1''"
definition USDC_BASE_MAINNET :: string where "USDC_BASE_MAINNET = ''0x833589fCD6eDb6E08f4c7C32D4f71b54bdA02913''"
definition USDC_BASE_SEPOLIA :: string where "USDC_BASE_SEPOLIA = ''0x036CbD53842c5426634e7929541eC2318f3dCF7e''"
definition USDC_ETHEREUM_MAINNET :: string where "USDC_ETHEREUM_MAINNET = ''0xA0b86991c6218b36c1d19D4a2e9Eb0cE3606eB48''"

record ResourceInfo =
  ri_url :: string
  ri_description :: "string option"
  ri_mime_type :: "string option"

record PaymentExtra =
  fee_payer :: "string option"
  memo :: "string option"
  extra_name :: "string option"
  extra_version :: "string option"

record PaymentRequirements =
  scheme :: string
  network :: string
  amount :: string
  asset :: string
  pay_to :: string
  max_timeout_seconds :: u64
  extra :: "PaymentExtra option"

record 'j PaymentRequired =
  x402_version :: u8
  challenge_error :: "string option"
  resource :: ResourceInfo
  accepts :: "PaymentRequirements list"
  extensions :: "(string \<times> 'j) list"

record SolanaPaymentProof =
  sol_transaction :: string

record EvmAuthorization =
  ea_from :: string
  ea_to :: string
  ea_value :: string
  ea_valid_after :: string
  ea_valid_before :: string
  ea_nonce :: string

record EvmPaymentProof =
  proof_signature :: string
  proof_authorization :: EvmAuthorization

datatype PaymentProof = SolanaProof SolanaPaymentProof | EvmProof EvmPaymentProof

record 'j PaymentPayload =
  pp_x402_version :: u8
  pp_resource :: "ResourceInfo option"
  pp_accepted :: PaymentRequirements
  pp_payload :: PaymentProof
  pp_extensions :: "(string \<times> 'j) list"

record 'j SettlementResponse =
  sr_success :: bool
  sr_transaction :: string
  sr_network :: string
  sr_payer :: "string option"
  sr_error_reason :: "string option"
  sr_amount :: "string option"
  sr_extensions :: "(string \<times> 'j) list"

datatype PaymentChain = SolanaChain | EvmChain

abbreviation starts_with :: "string \<Rightarrow> string \<Rightarrow> bool" where
  "starts_with s p \<equiv> prefix p s"

definition solana_exact_requirement :: "'j PaymentRequired \<Rightarrow> PaymentRequirements option" where
  "solana_exact_requirement ch = List.find (\<lambda>r. scheme r = ''exact'' \<and> starts_with (network r) ''solana:'') (accepts ch)"

definition evm_exact_requirement :: "'j PaymentRequired \<Rightarrow> PaymentRequirements option" where
  "evm_exact_requirement ch = List.find (\<lambda>r. scheme r = ''exact'' \<and> starts_with (network r) ''eip155:'') (accepts ch)"

definition best_exact_requirement :: "'j PaymentRequired \<Rightarrow> (PaymentRequirements \<times> PaymentChain) option" where
  "best_exact_requirement ch =
     (case solana_exact_requirement ch of
        Some sol \<Rightarrow> Some (sol, SolanaChain)
      | None \<Rightarrow> map_option (\<lambda>evm. (evm, EvmChain)) (evm_exact_requirement ch))"

definition is_solana_mainnet :: "PaymentRequirements \<Rightarrow> bool" where
  "is_solana_mainnet r \<longleftrightarrow> network r = SOLANA_MAINNET_CAIP2"

definition is_base_mainnet :: "PaymentRequirements \<Rightarrow> bool" where
  "is_base_mainnet r \<longleftrightarrow> network r = BASE_MAINNET_CAIP2"

definition evm_chain_id :: "PaymentRequirements \<Rightarrow> u64 option" where
  "evm_chain_id r =
     (case strip_prefix ''eip155:'' (network r) of
        None \<Rightarrow> None
      | Some s \<Rightarrow> (case parse_u64 s of Inl _ \<Rightarrow> None | Inr n \<Rightarrow> Some n))"

definition fee_payer_pubkey :: "PaymentRequirements \<Rightarrow> string option" where
  "fee_payer_pubkey r = Option.bind (extra r) fee_payer"

definition memo_value :: "PaymentRequirements \<Rightarrow> string option" where
  "memo_value r = Option.bind (extra r) memo"

section \<open>The allowlist\<close>

definition SUPPORTED_USDC :: "(string \<times> string) list" where
  "SUPPORTED_USDC =
     [(SOLANA_MAINNET_CAIP2, USDC_MINT_MAINNET),
      (SOLANA_DEVNET_CAIP2, USDC_MINT_DEVNET),
      (BASE_MAINNET_CAIP2, USDC_BASE_MAINNET),
      (BASE_SEPOLIA_CAIP2, USDC_BASE_SEPOLIA),
      (ETHEREUM_MAINNET_CAIP2, USDC_ETHEREUM_MAINNET)]"

datatype AssetCheck = AssetAllowed | UnknownNetwork | WrongAsset

definition check_usdc :: "string \<Rightarrow> string \<Rightarrow> AssetCheck" where
  "check_usdc net a =
     (case List.find (\<lambda>(n, _). n = net) SUPPORTED_USDC of
        None \<Rightarrow> UnknownNetwork
      | Some (_, usdc) \<Rightarrow>
          let same = (if starts_with net ''eip155:'' then eq_ignore_ascii_case usdc a else usdc = a) in
          if same then AssetAllowed else WrongAsset)"

section \<open>Choosing a requirement\<close>

datatype X402Error =
    Transport string
  | NoPaymentHeader
  | NoPaymentOption
  | AmountExceedsCap u64 u64
  | BudgetExceeded string u64 u64
  | UnsupportedNetwork string
  | UnsupportedAsset string string
  | NonReplayableBody
  | Protocol string
  | Wallet string

definition chain_of :: "string \<Rightarrow> PaymentChain option" where
  "chain_of net =
     (if starts_with net ''solana:'' then Some SolanaChain
      else if starts_with net ''eip155:'' then Some EvmChain
      else None)"

definition ensure_payable :: "PaymentRequirements \<Rightarrow> X402Error + unit" where
  "ensure_payable r =
     (case check_usdc (network r) (asset r) of
        AssetAllowed \<Rightarrow> Inr ()
      | UnknownNetwork \<Rightarrow> Inl (UnsupportedNetwork (network r))
      | WrongAsset \<Rightarrow> Inl (UnsupportedAsset (network r) (asset r)))"

text \<open>\<open>Option::get_or_insert\<close>.\<close>

definition get_or_insert :: "'a option \<Rightarrow> 'a \<Rightarrow> 'a option" where
  "get_or_insert x v = (case x of None \<Rightarrow> Some v | Some y \<Rightarrow> Some y)"

fun select_loop_402 :: "nat \<Rightarrow> (nat \<times> PaymentChain) option \<Rightarrow> X402Error option \<Rightarrow> PaymentRequirements list \<Rightarrow>
    X402Error + (nat \<times> PaymentChain)" where
  "select_loop_402 index evm first_refusal [] =
     (case (evm, first_refusal) of
        (Some choice, _) \<Rightarrow> Inr choice
      | (None, Some r) \<Rightarrow> Inl r
      | (None, None) \<Rightarrow> Inl NoPaymentOption)"
| "select_loop_402 index evm first_refusal (r # rs) =
     (case (if scheme r = ''exact'' then chain_of (network r) else None) of
        None \<Rightarrow> select_loop_402 (index + 1) evm first_refusal rs
      | Some chain \<Rightarrow>
          (case ensure_payable r of
             Inr _ \<Rightarrow>
               if chain = SolanaChain then Inr (index, chain)
               else select_loop_402 (index + 1) (get_or_insert evm (index, chain)) first_refusal rs
           | Inl e \<Rightarrow> select_loop_402 (index + 1) evm (get_or_insert first_refusal e) rs))"

definition select_requirement :: "'j PaymentRequired \<Rightarrow> X402Error + (nat \<times> PaymentChain)" where
  "select_requirement ch = select_loop_402 0 None None (accepts ch)"

section \<open>Headers\<close>

record 'j x402_codec =
  b64_decode :: "string \<Rightarrow> string + bytes"
  b64_encode :: "bytes \<Rightarrow> string"
  challenge_from_slice :: "bytes \<Rightarrow> string + 'j PaymentRequired"
  settlement_from_slice :: "bytes \<Rightarrow> string + 'j SettlementResponse"
  payment_to_json :: "'j PaymentPayload \<Rightarrow> string + string"

text \<open>A \<open>HeaderMap\<close>: the value of a header name, as \<open>HeaderValue::to_str\<close> gives it.\<close>

type_synonym header_map = "string \<Rightarrow> (string + string) option"

definition parse_402_headers :: "'j x402_codec \<Rightarrow> header_map \<Rightarrow> X402Error + 'j PaymentRequired" where
  "parse_402_headers k headers =
     rbind (ok_or NoPaymentHeader
              (case headers HEADER_PAYMENT_REQUIRED of
                 Some raw \<Rightarrow> Some raw | None \<Rightarrow> headers HEADER_PAYMENT_REQUIRED_V1)) (\<lambda>raw.
     rbind (map_err (\<lambda>e. Protocol (''PAYMENT-REQUIRED header not valid UTF-8: '' @ e)) raw) (\<lambda>b64_str.
     rbind (map_err (\<lambda>e. Protocol (''PAYMENT-REQUIRED base64 decode: '' @ e)) (b64_decode k (trim b64_str))) (\<lambda>json_bytes.
       map_err (\<lambda>e. Protocol (''PAYMENT-REQUIRED JSON parse: '' @ e)) (challenge_from_slice k json_bytes))))"

definition parse_settlement_response :: "'j x402_codec \<Rightarrow> string \<Rightarrow> string + 'j SettlementResponse" where
  "parse_settlement_response k b64_str =
     rbind (map_err (\<lambda>e. ''PAYMENT-RESPONSE base64 decode: '' @ e) (b64_decode k (trim b64_str))) (\<lambda>json_bytes.
       map_err (\<lambda>e. ''PAYMENT-RESPONSE JSON parse: '' @ e) (settlement_from_slice k json_bytes))"

definition encode_payment :: "'j x402_codec \<Rightarrow> 'j PaymentPayload \<Rightarrow> X402Error + string" where
  "encode_payment k payment =
     (case payment_to_json k payment of
        Inl e \<Rightarrow> Inl (Protocol (''serialize payment: '' @ e))
      | Inr json \<Rightarrow> Inr (b64_encode k (str_bytes json)))"

definition handle_402 :: "'j x402_codec \<Rightarrow> header_map \<Rightarrow> X402Error + ('j PaymentRequired \<times> nat \<times> PaymentChain)" where
  "handle_402 k headers =
     rbind (parse_402_headers k headers) (\<lambda>challenge.
     rbind (select_requirement challenge) (\<lambda>(idx, chain).
       Inr (challenge, idx, chain)))"

definition parse_amount :: "PaymentRequirements \<Rightarrow> X402Error + u64" where
  "parse_amount r =
     map_err (\<lambda>e. Protocol (''invalid amount '' @ [CHR 0x27] @ amount r @ [CHR 0x27] @ '': '' @ e)) (parse_u64 (amount r))"

section \<open>What is chosen\<close>

definition first_index :: "('a \<Rightarrow> bool) \<Rightarrow> 'a list \<Rightarrow> nat option" where
  "first_index P xs = (if \<exists>x \<in> set xs. P x then Some (length (takeWhile (\<lambda>x. \<not> P x) xs)) else None)"

definition offered :: "PaymentRequirements \<Rightarrow> bool" where
  "offered r \<longleftrightarrow> scheme r = ''exact'' \<and> chain_of (network r) \<noteq> None"

definition payable_on :: "PaymentChain \<Rightarrow> PaymentRequirements \<Rightarrow> bool" where
  "payable_on chain r \<longleftrightarrow>
     scheme r = ''exact'' \<and> chain_of (network r) = Some chain \<and> check_usdc (network r) (asset r) = AssetAllowed"

definition refusal_402 :: "PaymentRequirements \<Rightarrow> X402Error" where
  "refusal_402 r =
     (if check_usdc (network r) (asset r) = UnknownNetwork then UnsupportedNetwork (network r)
      else UnsupportedAsset (network r) (asset r))"

lemma first_index_Nil [simp]: "first_index P [] = None"
  by (simp add: first_index_def)

lemma first_index_Cons [simp]:
  "first_index P (x # xs) = (if P x then Some 0 else map_option Suc (first_index P xs))"
  by (simp add: first_index_def)

lemma first_index_Some:
  "first_index P xs = Some i \<Longrightarrow> i < length xs \<and> P (xs ! i) \<and> (\<forall>j < i. \<not> P (xs ! j))"
proof (induction xs arbitrary: i)
  case (Cons x xs)
  then show ?case by (auto simp: less_Suc_eq_0_disj split: if_splits)
qed simp

lemma first_index_None: "first_index P xs = None \<longleftrightarrow> (\<forall>x \<in> set xs. \<not> P x)"
  by (simp add: first_index_def)

lemma ensure_payable_eq:
  "ensure_payable r = (if check_usdc (network r) (asset r) = AssetAllowed then Inr () else Inl (refusal_402 r))"
  by (cases "check_usdc (network r) (asset r)") (simp_all add: ensure_payable_def refusal_402_def)

definition chosen :: "nat \<Rightarrow> (nat \<times> PaymentChain) option \<Rightarrow> X402Error option \<Rightarrow> PaymentRequirements list \<Rightarrow>
    X402Error + (nat \<times> PaymentChain)" where
  "chosen n evm refused rs =
     (case first_index (payable_on SolanaChain) rs of
        Some i \<Rightarrow> Inr (n + i, SolanaChain)
      | None \<Rightarrow> (case (case evm of Some e \<Rightarrow> Some e
                        | None \<Rightarrow> map_option (\<lambda>i. (n + i, EvmChain)) (first_index (payable_on EvmChain) rs)) of
           Some choice \<Rightarrow> Inr choice
         | None \<Rightarrow> (case (case refused of Some e \<Rightarrow> Some e | None \<Rightarrow> map_option refusal_402 (List.find offered rs)) of
              Some e \<Rightarrow> Inl e | None \<Rightarrow> Inl NoPaymentOption)))"

lemma select_loop_chosen: "select_loop_402 n evm refused rs = chosen n evm refused rs"
proof (induction n evm refused rs rule: select_loop_402.induct)
  case (1 n evm refused)
  then show ?case by (simp add: chosen_def split: option.splits)
next
  case (2 n evm refused r rs)
  let ?chain = "if scheme r = ''exact'' then chain_of (network r) else None"
  show ?case
  proof (cases ?chain)
    case None
    then have "\<not> offered r" "\<not> payable_on c r" for c by (auto simp: offered_def payable_on_def split: if_splits)
    with 2(1) [OF None] None show ?thesis by (simp add: chosen_def option.map_comp comp_def split: option.splits)
  next
    case (Some chain)
    then have p: "offered r" "payable_on c r \<longleftrightarrow> c = chain \<and> check_usdc (network r) (asset r) = AssetAllowed" for c
      by (auto simp: offered_def payable_on_def split: if_splits)
    show ?thesis
    proof (cases "check_usdc (network r) (asset r) = AssetAllowed")
      case True
      then have e: "ensure_payable r = Inr ()" by (simp add: ensure_payable_eq)
      show ?thesis
      proof (cases "chain = SolanaChain")
        case True
        with Some e p \<open>check_usdc _ _ = _\<close> show ?thesis by (simp add: chosen_def)
      next
        case False
        with 2(3) [OF Some e] Some e p \<open>check_usdc _ _ = _\<close> show ?thesis
          by (cases chain) (simp_all add: chosen_def get_or_insert_def split: option.splits)
      qed
    next
      case False
      then have e: "ensure_payable r = Inl (refusal_402 r)" by (simp add: ensure_payable_eq)
      with 2(2) [OF Some e] Some p False show ?thesis
        by (simp add: chosen_def get_or_insert_def option.map_comp comp_def split: option.splits)
    qed
  qed
qed

text \<open>For every challenge, \<open>select_requirement\<close> chooses the first \<open>exact\<close> option in the
  allowlisted USDC on a Solana network; if there is none, the first such option on an EVM network;
  if neither exists, it reports the refusal of the first \<open>exact\<close> option on a Solana or EVM
  network; and only a challenge with no such option at all is \<open>NoPaymentOption\<close>. Options of
  other schemes, networks or assets never shadow a payable one.\<close>

theorem select_requirement_first:
  "select_requirement ch =
     (case first_index (payable_on SolanaChain) (accepts ch) of
        Some i \<Rightarrow> Inr (i, SolanaChain)
      | None \<Rightarrow> (case first_index (payable_on EvmChain) (accepts ch) of
           Some i \<Rightarrow> Inr (i, EvmChain)
         | None \<Rightarrow> (case List.find offered (accepts ch) of
              Some r \<Rightarrow> Inl (refusal_402 r)
            | None \<Rightarrow> Inl NoPaymentOption)))"
  unfolding select_requirement_def select_loop_chosen
  by (simp add: chosen_def split: option.splits)

text \<open>What the choice guarantees about the requirement that gets paid.\<close>

definition pays_usdc :: "PaymentChain \<Rightarrow> PaymentRequirements \<Rightarrow> bool" where
  "pays_usdc chain r \<longleftrightarrow> scheme r = ''exact'' \<and> chain_of (network r) = Some chain \<and>
     (\<exists>usdc. (network r, usdc) \<in> set SUPPORTED_USDC \<and>
        (case chain of SolanaChain \<Rightarrow> asset r = usdc | EvmChain \<Rightarrow> eq_ignore_ascii_case usdc (asset r)))"

lemma find_Some_mem: "List.find P xs = Some x \<Longrightarrow> x \<in> set xs \<and> P x"
  by (induction xs) (auto split: if_splits)

lemma payable_pays_usdc: "payable_on chain r \<Longrightarrow> pays_usdc chain r"
proof -
  assume p: "payable_on chain r"
  then obtain usdc where u: "(network r, usdc) \<in> set SUPPORTED_USDC"
      "if starts_with (network r) ''eip155:'' then eq_ignore_ascii_case usdc (asset r) else usdc = asset r"
    by (auto simp: payable_on_def check_usdc_def Let_def split: option.splits prod.splits if_splits dest!: find_Some_mem)
  moreover have "chain = SolanaChain \<Longrightarrow> \<not> starts_with (network r) ''eip155:''"
    "chain = EvmChain \<Longrightarrow> starts_with (network r) ''eip155:''"
    using p by (auto simp: payable_on_def chain_of_def prefix_def split: if_splits)
  ultimately show ?thesis using p by (cases chain) (auto simp: pays_usdc_def payable_on_def)
qed

lemma select_requirement_pays:
  assumes "select_requirement ch = Inr (i, chain)"
  shows "i < length (accepts ch) \<and> pays_usdc chain (accepts ch ! i)"
proof -
  from assms have "first_index (payable_on chain) (accepts ch) = Some i"
    unfolding select_requirement_def select_loop_chosen chosen_def by (auto split: option.splits)
  from first_index_Some [OF this] show ?thesis by (auto intro: payable_pays_usdc)
qed

end
