(* ===== verification/TW_X402Pay.thy ===== *)
theory TW_X402Pay
  imports TW_X402Wire TW_Solana
begin

text \<open>
  Building the payment a challenge asks for: \<open>tinywallet-x402/src/crypto/evm_payment.rs\<close> (an
  EIP-3009 authorization), \<open>solana_payment.rs\<close> (a partially signed token transfer),
  \<open>payments.rs\<close> and \<open>crypto/mod.rs\<close>. The wallet seam is the parameter record
  \<open>payment_signer\<close>, the chain transport with the decoding of its answers is \<open>rail\<close>, and the
  \<open>hex\<close> crate is \<open>hex_crate\<close>. The clocks, the process id and the nonce counter are arguments.
\<close>

datatype SignScheme = Ed25519Scheme | Secp256k1Digest

record PaymentAccount =
  pa_address :: string
  pa_pubkey :: "bytes option"

record payment_signer =
  ps_account :: "PaymentChain \<Rightarrow> string + PaymentAccount"
  ps_sign :: "PaymentChain \<Rightarrow> bytes \<Rightarrow> SignScheme \<Rightarrow> string + bytes"

text \<open>\<open>getLatestBlockhash\<close> and \<open>getBlockHeight\<close>, decoded, or the text of what failed.\<close>

record rail =
  latest_blockhash :: "string + (string \<times> u64)"
  finalized_height :: "string + u64"

text \<open>The moment of a payment: what the clocks and the counter of \<open>fresh_nonce\<close> give.\<close>

record moment =
  now_secs :: u64
  now_nanos :: u128
  process_id :: u32
  nonce_counter :: u64

definition fresh_nonce :: "prims \<Rightarrow> moment \<Rightarrow> bytes" where
  "fresh_nonce p m =
     sha256 p (le_bytes 16 (unat (now_nanos m)) @ le_bytes 4 (unat (process_id m)) @ le_bytes 8 (unat (nonce_counter m)))"

section \<open>EVM\<close>

definition evm_address_bytes :: "hex_crate \<Rightarrow> string \<Rightarrow> X402Error + bytes" where
  "evm_address_bytes h address =
     rbind (map_err (\<lambda>e. Protocol (''invalid EVM address '' @ apostrophes address @ '': '' @ error_to_string e))
              (evm_validate address)) (\<lambda>validated.
       let body = (case strip_prefix ''0x'' validated of Some b \<Rightarrow> b | None \<Rightarrow> validated) in
       case hexc_decode h body of
         Inl _ \<Rightarrow> Inl (Protocol (''invalid EVM address '' @ apostrophes address))
       | Inr bs \<Rightarrow> if length bs = 20 then Inr bs else Inl (Protocol (''invalid EVM address '' @ apostrophes address)))"

definition eip712_signature :: "bytes \<Rightarrow> X402Error + bytes" where
  "eip712_signature signature =
     (if length signature \<noteq> 65 then Inl (Wallet ''the wallet module returned a malformed signature'')
      else rbind (ok_or (Wallet ''recovery id out of range'') (checked_add (signature ! 64) 27)) (\<lambda>v.
        Inr (signature[64 := v])))"

record EvmPaymentAuthorization =
  epa_digest :: bytes
  epa_nonce :: bytes
  epa_valid_after_secs :: u64
  epa_valid_before_secs :: u64

definition evm_payment_authorization ::
    "prims \<Rightarrow> hex_crate \<Rightarrow> moment \<Rightarrow> string \<Rightarrow> PaymentRequirements \<Rightarrow> X402Error + EvmPaymentAuthorization" where
  "evm_payment_authorization p h m from_address req =
     rbind (ok_or (Protocol (''not an EVM network: '' @ network req)) (evm_chain_id req)) (\<lambda>chain_id.
     rbind (map_err (\<lambda>e. Protocol (''invalid amount '' @ apostrophes (amount req) @ '': '' @ e))
              (u256_from_decimal (amount req))) (\<lambda>amt.
     rbind (evm_address_bytes h from_address) (\<lambda>from_bytes.
     rbind (evm_address_bytes h (pay_to req)) (\<lambda>pay_to_bytes.
     rbind (evm_address_bytes h (asset req)) (\<lambda>token_address.
       let valid_before_secs = saturating_add (now_secs m) (max_timeout_seconds req);
           nonce = fresh_nonce p m;
           domain_name = (case Option.bind (extra req) extra_name of Some n \<Rightarrow> n | None \<Rightarrow> ''USD Coin'');
           domain_version = (case Option.bind (extra req) extra_version of Some v \<Rightarrow> v | None \<Rightarrow> ''2'');
           separator = domain_separator p token_address chain_id domain_name domain_version;
           struct_hash = transfer_with_authorization_hash p from_bytes pay_to_bytes amt
             (u256_from_u64 0) (u256_from_u64 valid_before_secs) nonce
       in Inr \<lparr>epa_digest = signing_digest p separator struct_hash, epa_nonce = nonce,
               epa_valid_after_secs = 0, epa_valid_before_secs = valid_before_secs\<rparr>)))))"

definition evm_payment_payload ::
    "hex_crate \<Rightarrow> EvmPaymentAuthorization \<Rightarrow> bytes \<Rightarrow> string \<Rightarrow> 'j PaymentRequired \<Rightarrow> PaymentRequirements \<Rightarrow>
     X402Error + 'j PaymentPayload" where
  "evm_payment_payload h a sig_bytes from_address challenge req =
     rbind (ok_or (Protocol (''not an EVM network: '' @ network req)) (evm_chain_id req)) (\<lambda>chain_id.
       Inr \<lparr>pp_x402_version = X402_VERSION, pp_resource = Some (resource challenge), pp_accepted = req,
            pp_payload = EvmProof \<lparr>proof_signature = ''0x'' @ hexc_encode h sig_bytes,
              proof_authorization = \<lparr>ea_from = from_address, ea_to = pay_to req, ea_value = amount req,
                ea_valid_after = show_nat (unat (epa_valid_after_secs a)),
                ea_valid_before = show_nat (unat (epa_valid_before_secs a)),
                ea_nonce = ''0x'' @ hexc_encode h (epa_nonce a)\<rparr>\<rparr>,
            pp_extensions = []\<rparr>)"

definition build_evm_payment ::
    "prims \<Rightarrow> hex_crate \<Rightarrow> payment_signer \<Rightarrow> moment \<Rightarrow> 'j PaymentRequired \<Rightarrow> PaymentRequirements \<Rightarrow>
     X402Error + 'j PaymentPayload" where
  "build_evm_payment p h s m challenge req =
     rbind (map_err Wallet (ps_account s EvmChain)) (\<lambda>account.
     rbind (evm_payment_authorization p h m (pa_address account) req) (\<lambda>a.
     rbind (map_err (\<lambda>e. Wallet (''sign EIP-3009: '' @ e)) (ps_sign s EvmChain (epa_digest a) Secp256k1Digest)) (\<lambda>signature.
     rbind (eip712_signature signature) (\<lambda>sig_bytes.
       evm_payment_payload h a sig_bytes (pa_address account) challenge req))))"

section \<open>Solana\<close>

definition DEFAULT_COMPUTE_UNITS :: u32 where "DEFAULT_COMPUTE_UNITS = 50000"
definition DEFAULT_COMPUTE_UNIT_PRICE :: u64 where "DEFAULT_COMPUTE_UNIT_PRICE = 1000"
definition ATA_PROGRAM :: string where "ATA_PROGRAM = ''ATokenGPvbdGVxr1b2hvZbsiqW5xWH25efTNsLJA8knL''"
definition USDC_DECIMALS :: u8 where "USDC_DECIMALS = 6"

definition b58_to_32 :: "prims \<Rightarrow> string \<Rightarrow> X402Error + bytes" where
  "b58_to_32 p addr =
     rbind (map_err (\<lambda>e. Protocol (''invalid base58 '' @ apostrophes addr @ '': '' @ e)) (bs58_decode p (trim addr))) (\<lambda>v.
       if length v = 32 then Inr v
       else Inl (Protocol (''expected 32-byte key, got '' @ show_nat (length v) @ '' for '' @ apostrophes addr)))"

fun derive_ata_loop :: "prims \<Rightarrow> ed25519 \<Rightarrow> bytes \<Rightarrow> bytes \<Rightarrow> bytes \<Rightarrow> bytes \<Rightarrow> nat list \<Rightarrow> X402Error + bytes" where
  "derive_ata_loop p ed owner mint token_program ata_program [] = Inl (Protocol ''ATA PDA derivation failed'')"
| "derive_ata_loop p ed owner mint token_program ata_program (bump # bumps) =
     (let candidate = sha256 p (owner @ token_program @ mint @ [of_nat bump] @ ata_program @
            str_bytes ''ProgramDerivedAddress'') in
      if \<not> on_curve ed candidate then Inr candidate
      else derive_ata_loop p ed owner mint token_program ata_program bumps)"

definition derive_ata :: "prims \<Rightarrow> ed25519 \<Rightarrow> bytes \<Rightarrow> bytes \<Rightarrow> bytes \<Rightarrow> X402Error + bytes" where
  "derive_ata p ed owner mint token_program =
     rbind (b58_to_32 p ATA_PROGRAM) (\<lambda>ata_program.
       derive_ata_loop p ed owner mint token_program ata_program (rev [0..<256]))"

record Instruction =
  program_id_index :: u8
  accounts :: bytes
  data :: bytes

definition build_set_compute_unit_limit :: "u8 \<Rightarrow> u32 \<Rightarrow> Instruction" where
  "build_set_compute_unit_limit program_idx units =
     \<lparr>program_id_index = program_idx, accounts = [], data = [2] @ le_bytes 4 (unat units)\<rparr>"

definition build_set_compute_unit_price :: "u8 \<Rightarrow> u64 \<Rightarrow> Instruction" where
  "build_set_compute_unit_price program_idx micro_lamports =
     \<lparr>program_id_index = program_idx, accounts = [], data = [3] @ le_bytes 8 (unat micro_lamports)\<rparr>"

definition build_transfer_checked :: "u8 \<Rightarrow> u8 \<Rightarrow> u8 \<Rightarrow> u8 \<Rightarrow> u8 \<Rightarrow> u64 \<Rightarrow> u8 \<Rightarrow> Instruction" where
  "build_transfer_checked token_program_idx src_idx mint_idx dst_idx authority_idx n decimals =
     \<lparr>program_id_index = token_program_idx, accounts = [src_idx, mint_idx, dst_idx, authority_idx],
      data = [12] @ le_bytes 8 (unat n) @ [decimals]\<rparr>"

definition build_memo :: "u8 \<Rightarrow> bytes \<Rightarrow> Instruction" where
  "build_memo program_idx memo_data = \<lparr>program_id_index = program_idx, accounts = [], data = memo_data\<rparr>"

definition encode_instruction :: "Instruction \<Rightarrow> bytes" where
  "encode_instruction ins =
     [program_id_index ins] @ x402_encode_shortvec (length (accounts ins)) @ accounts ins @
     x402_encode_shortvec (length (data ins)) @ data ins"

definition encode_legacy_message :: "bytes \<Rightarrow> bytes list \<Rightarrow> bytes \<Rightarrow> Instruction list \<Rightarrow> bytes" where
  "encode_legacy_message header account_keys recent_blockhash instructions =
     header @ x402_encode_shortvec (length account_keys) @ concat account_keys @ recent_blockhash @
     x402_encode_shortvec (length instructions) @ concat (map encode_instruction instructions)"

definition random_memo_nonce :: "prims \<Rightarrow> hex_crate \<Rightarrow> moment \<Rightarrow> bytes" where
  "random_memo_nonce p h m = str_bytes (hexc_encode h (take 16 (fresh_nonce p m)))"

definition fetch_recent_blockhash :: "prims \<Rightarrow> rail \<Rightarrow> X402Error + (bytes \<times> u64)" where
  "fetch_recent_blockhash p t =
     rbind (map_err (\<lambda>e. Wallet (''fetch blockhash: '' @ e)) (latest_blockhash t)) (\<lambda>(blockhash, last_valid).
     rbind (b58_to_32 p blockhash) (\<lambda>bh. Inr (bh, last_valid)))"

text \<open>The account keys, in the order the indices below refer to, and the instructions.\<close>

definition payment_keys :: "bytes \<Rightarrow> bytes \<Rightarrow> bytes \<Rightarrow> bytes \<Rightarrow> bytes \<Rightarrow> bytes \<Rightarrow> bytes \<Rightarrow> bytes \<Rightarrow> bytes list" where
  "payment_keys fee_payer_bytes our_pubkey src_ata dst_ata mint_bytes token_program compute_budget memo_program =
     [fee_payer_bytes, our_pubkey, src_ata, dst_ata, mint_bytes, token_program, compute_budget, memo_program]"

definition payment_instructions :: "u64 \<Rightarrow> bytes \<Rightarrow> Instruction list" where
  "payment_instructions n memo_data =
     [build_set_compute_unit_limit 6 DEFAULT_COMPUTE_UNITS,
      build_set_compute_unit_price 6 DEFAULT_COMPUTE_UNIT_PRICE,
      build_transfer_checked 5 2 4 3 1 n USDC_DECIMALS,
      build_memo 7 memo_data]"

text \<open>What is settled before the chain is asked: the amount, the account keys and the memo.\<close>

definition solana_payment_plan ::
    "prims \<Rightarrow> ed25519 \<Rightarrow> hex_crate \<Rightarrow> moment \<Rightarrow> bytes \<Rightarrow> PaymentRequirements \<Rightarrow> X402Error + (u64 \<times> bytes list \<times> bytes)" where
  "solana_payment_plan p ed h m our_pubkey req =
     rbind (parse_amount req) (\<lambda>n.
     rbind (ok_or (Protocol ''no fee_payer in payment requirements'') (fee_payer_pubkey req)) (\<lambda>payer.
     rbind (b58_to_32 p payer) (\<lambda>fee_payer_bytes.
     rbind (b58_to_32 p (pay_to req)) (\<lambda>pay_to_bytes.
     rbind (b58_to_32 p (asset req)) (\<lambda>mint_bytes.
     rbind (b58_to_32 p SPL_TOKEN_PROGRAM) (\<lambda>token_program.
     rbind (b58_to_32 p COMPUTE_BUDGET_PROGRAM) (\<lambda>compute_budget.
     rbind (b58_to_32 p SPL_MEMO_PROGRAM) (\<lambda>memo_program.
     rbind (derive_ata p ed our_pubkey mint_bytes token_program) (\<lambda>src_ata.
     rbind (derive_ata p ed pay_to_bytes mint_bytes token_program) (\<lambda>dst_ata.
       let memo_data = (case memo_value req of None \<Rightarrow> random_memo_nonce p h m | Some v \<Rightarrow> str_bytes v);
           account_keys = payment_keys fee_payer_bytes our_pubkey src_ata dst_ata mint_bytes token_program
             compute_budget memo_program in
       Inr (n, account_keys, memo_data)))))))))))"

definition build_solana_payment ::
    "prims \<Rightarrow> ed25519 \<Rightarrow> hex_crate \<Rightarrow> 'j x402_codec \<Rightarrow> payment_signer \<Rightarrow> rail \<Rightarrow> moment \<Rightarrow> bytes \<Rightarrow>
     'j PaymentRequired \<Rightarrow> PaymentRequirements \<Rightarrow> X402Error + ('j PaymentPayload \<times> u64)" where
  "build_solana_payment p ed h k s t m our_pubkey challenge req =
     rbind (solana_payment_plan p ed h m our_pubkey req) (\<lambda>(n, account_keys, memo_data).
     rbind (fetch_recent_blockhash p t) (\<lambda>(blockhash, last_valid_block_height).
       let message = encode_legacy_message [2, 0, 4] account_keys blockhash (payment_instructions n memo_data) in
       rbind (map_err (\<lambda>e. Wallet (''sign payment: '' @ e)) (ps_sign s SolanaChain message Ed25519Scheme)) (\<lambda>sig_bytes.
         if length sig_bytes \<noteq> 64 then Inl (Wallet ''the wallet module returned a malformed signature'')
         else let wire = x402_encode_shortvec 2 @ replicate 64 0 @ sig_bytes @ message in
           Inr (\<lparr>pp_x402_version = X402_VERSION, pp_resource = Some (resource challenge), pp_accepted = req,
                 pp_payload = SolanaProof \<lparr>sol_transaction = b64_encode k wire\<rparr>, pp_extensions = []\<rparr>,
                last_valid_block_height))))"

section \<open>The builder\<close>

record 'j PaymentBuild =
  pb_payload :: "'j PaymentPayload"
  pb_authorization_valid_until :: "int option"
  pb_solana_last_valid_block_height :: "u64 option"

text \<open>\<open>from_timestamp\<close> is chrono's, seconds to an instant; \<open>parse_i64\<close> on the unsigned text this
  crate wrote.\<close>

definition parse_i64 :: "string \<Rightarrow> int option" where
  "parse_i64 s =
     (case s of
        [] \<Rightarrow> None
      | c # cs \<Rightarrow>
          if c = CHR ''-'' \<and> cs \<noteq> [] then
            (case from_digits10 (2 ^ 63 + 1) 0 cs of Inl _ \<Rightarrow> None | Inr n \<Rightarrow> Some (- int n))
          else (case parse_uint (2 ^ 63) s of Inl _ \<Rightarrow> None | Inr n \<Rightarrow> Some (int n)))"

definition valid_until_of :: "(int \<Rightarrow> int option) \<Rightarrow> PaymentProof \<Rightarrow> int option" where
  "valid_until_of from_timestamp proof =
     (case proof of
        EvmProof e \<Rightarrow> Option.bind (parse_i64 (ea_valid_before (proof_authorization e))) from_timestamp
      | SolanaProof _ \<Rightarrow> None)"

definition account_pubkey :: "prims \<Rightarrow> PaymentAccount \<Rightarrow> X402Error + bytes" where
  "account_pubkey p account = (case pa_pubkey account of Some key \<Rightarrow> Inr key | None \<Rightarrow> b58_to_32 p (pa_address account))"

definition build_with_rail_metadata ::
    "prims \<Rightarrow> ed25519 \<Rightarrow> hex_crate \<Rightarrow> 'j x402_codec \<Rightarrow> (int \<Rightarrow> int option) \<Rightarrow> payment_signer \<Rightarrow> rail \<Rightarrow> moment \<Rightarrow>
     'j PaymentRequired \<Rightarrow> PaymentRequirements \<Rightarrow> PaymentChain \<Rightarrow> X402Error + 'j PaymentBuild" where
  "build_with_rail_metadata p ed h k from_timestamp s t m challenge req chain =
     rbind (case chain of
        SolanaChain \<Rightarrow>
          rbind (map_err Wallet (ps_account s SolanaChain)) (\<lambda>account.
          rbind (account_pubkey p account) (\<lambda>pubkey.
          rbind (build_solana_payment p ed h k s t m pubkey challenge req) (\<lambda>(payload, last_valid).
            Inr (payload, Some last_valid))))
      | EvmChain \<Rightarrow>
          rbind (build_evm_payment p h s m challenge req) (\<lambda>payload. Inr (payload, None))) (\<lambda>(payload, last_valid).
       Inr \<lparr>pb_payload = payload, pb_authorization_valid_until = valid_until_of from_timestamp (pp_payload payload),
            pb_solana_last_valid_block_height = last_valid\<rparr>)"

definition finalized_solana_block_height :: "rail \<Rightarrow> X402Error + u64 option" where
  "finalized_solana_block_height t =
     rbind (map_err (\<lambda>e. Wallet (''fetch finalized block height: '' @ e)) (finalized_height t)) (\<lambda>n. Inr (Some n))"

section \<open>The signed amount is the charged amount\<close>

lemma from_digits10_chars: "from_digits10 b acc s = Inr n \<Longrightarrow> list_all is_ascii_digit s"
  by (induction s arbitrary: acc) (auto simp: Let_def split: if_splits)

lemma parse_u64_chars:
  assumes "parse_u64 s = Inr n"
  shows "s \<noteq> [] \<and> (list_all is_ascii_digit s \<or> (\<exists>ds. s = CHR ''+'' # ds \<and> list_all is_ascii_digit ds))"
proof -
  from assms obtain x where x: "parse_uint (2 ^ 64) s = Inr x" by (auto simp: parse_u64_def result_simps)
  show ?thesis
  proof (cases s rule: remdups_adj.cases)
    case (2 c)
    with x have "from_digits10 (2 ^ 64) 0 [c] = Inr x" by (simp add: parse_uint_def split: if_splits)
    from from_digits10_chars [OF this] 2 show ?thesis by simp
  next
    case (3 c d cs)
    with x have "from_digits10 (2 ^ 64) 0 (if c = CHR ''+'' then d # cs else s) = Inr x"
      by (simp add: parse_uint_def del: from_digits10.simps split: if_splits)
    from from_digits10_chars [OF this] 3 show ?thesis by (auto split: if_splits)
  qed (use x in \<open>simp add: parse_uint_def\<close>)
qed

text \<open>The ledger reads the amount with \<open>str::parse\<close>, which accepts a sign; the typed data reads it
  with \<open>u256_from_decimal\<close>, which trims. Where both succeed they read the same number.\<close>

lemma amounts_agree:
  assumes "parse_u64 s = Inr n" and "u256_from_decimal s = Inr v"
  shows "v = be_bytes 32 (unat n) \<and> dec_val s = unat n"
proof -
  note u = assms(2) [unfolded u256_from_decimal_Inr]
  have "\<forall>c \<in> set s. is_graphic c"
    using parse_u64_chars [OF assms(1)] by (auto simp: list_all_iff digit_graphic) (simp add: is_graphic_def)
  then have t: "trim s = s" by (rule trim_graphic)
  with u have d: "s \<noteq> []" "list_all is_ascii_digit s" by auto
  from parse_u64_digits [OF d, of n] assms(1) have n: "dec_val s < 2 ^ 64" "n = of_nat (dec_val s)" by auto
  then have "unat n = dec_val s" by (simp only: unat_of_nat) simp
  with u t show ?thesis by simp
qed

lemma parse_amount_Inr: "parse_amount r = Inr n \<longleftrightarrow> parse_u64 (amount r) = Inr n"
  by (simp add: parse_amount_def)

definition authorizes :: "hex_crate \<Rightarrow> moment \<Rightarrow> string \<Rightarrow> PaymentRequirements \<Rightarrow> u64 \<Rightarrow> authorization \<Rightarrow> bool" where
  "authorizes h m from_address req n au \<longleftrightarrow>
     evm_chain_id req = Some (auth_chain_id au) \<and>
     evm_address_bytes h (asset req) = Inr (auth_contract au) \<and>
     evm_address_bytes h from_address = Inr (auth_from au) \<and>
     evm_address_bytes h (pay_to req) = Inr (auth_to au) \<and>
     auth_value au = be_bytes 32 (unat n) \<and> auth_after au = be_bytes 32 0 \<and>
     auth_before au = be_bytes 32 (min (unat (now_secs m) + unat (max_timeout_seconds req)) (2 ^ 64 - 1))"

lemma evm_authorization_of:
  assumes "evm_payment_authorization p h m addr req = Inr a" and "parse_amount req = Inr n"
  shows "\<exists>au. authorizes h m addr req n au \<and> auth_nonce au = epa_nonce a \<and> epa_digest a = auth_digest p au \<and>
    epa_valid_after_secs a = 0 \<and>
    unat (epa_valid_before_secs a) = min (unat (now_secs m) + unat (max_timeout_seconds req)) (2 ^ 64 - 1)"
proof -
  from assms(1) obtain chain_id amt fb tb cb where c: "evm_chain_id req = Some chain_id"
      "u256_from_decimal (amount req) = Inr amt" "evm_address_bytes h addr = Inr fb"
      "evm_address_bytes h (pay_to req) = Inr tb" "evm_address_bytes h (asset req) = Inr cb"
    by (auto simp: evm_payment_authorization_def result_simps)
  let ?vb = "saturating_add (now_secs m) (max_timeout_seconds req)"
  let ?au = "\<lparr>auth_contract = cb, auth_chain_id = chain_id,
      auth_name = (case Option.bind (extra req) extra_name of Some n \<Rightarrow> n | None \<Rightarrow> ''USD Coin''),
      auth_version = (case Option.bind (extra req) extra_version of Some v \<Rightarrow> v | None \<Rightarrow> ''2''),
      auth_from = fb, auth_to = tb, auth_value = amt, auth_after = u256_from_u64 0,
      auth_before = u256_from_u64 ?vb, auth_nonce = fresh_nonce p m\<rparr>"
  have amt: "amt = be_bytes 32 (unat n)" using amounts_agree [OF _ c(2)] assms(2) by (simp add: parse_amount_Inr)
  have vb: "unat ?vb = min (unat (now_secs m) + unat (max_timeout_seconds req)) (2 ^ 64 - 1)"
    by (simp add: unat_saturating_add)
  have a: "a = \<lparr>epa_digest = auth_digest p ?au, epa_nonce = fresh_nonce p m, epa_valid_after_secs = 0,
      epa_valid_before_secs = ?vb\<rparr>"
    using assms(1) c
    by (simp add: evm_payment_authorization_def Let_def auth_digest_def auth_domain_def auth_struct_def)
  have "authorizes h m addr req n ?au"
    using c amt by (simp add: authorizes_def u256_from_u64_be vb)
  with a vb show ?thesis by (intro exI [of _ ?au]) simp
qed

lemma eip712_signature_Inr:
  "eip712_signature s = Inr t \<longleftrightarrow>
     length s = 65 \<and> unat (s ! 64) + 27 < 256 \<and> t = take 64 s @ [s ! 64 + 27]"
proof -
  have "s[64 := s ! 64 + 27] = take 64 s @ [s ! 64 + 27]" if "length s = 65"
    using that by (simp add: upd_conv_take_nth_drop)
  then show ?thesis
    by (auto simp: eip712_signature_def result_simps checked_add_def split: if_splits)
qed

text \<open>C7: An EVM payment signs what the ledger charges. If the amount of a requirement reads as \<open>n\<close>
  for the budget and \<open>build_evm_payment\<close> succeeds, then the wallet signed exactly one digest, the
  EIP-712 digest of an authorization to move \<open>n\<close> units of the requirement's asset, on its chain,
  from the wallet's account to the requirement's payee, valid from zero until now plus the
  requirement's timeout (saturating); and the payload repeats those terms, with the wallet's
  65-byte signature as \<open>r\<close>, \<open>s\<close> and the recovery id plus 27, which did not overflow.\<close>

theorem evm_payment_signs_charge:
  assumes "parse_amount req = Inr n" and "build_evm_payment p h s m challenge req = Inr payload"
  shows "\<exists>account au signature.
    ps_account s EvmChain = Inr account \<and> authorizes h m (pa_address account) req n au \<and>
    ps_sign s EvmChain (auth_digest p au) Secp256k1Digest = Inr signature \<and>
    length signature = 65 \<and> unat (signature ! 64) + 27 < 256 \<and> pp_accepted payload = req \<and>
    pp_payload payload = EvmProof
      \<lparr>proof_signature = ''0x'' @ hexc_encode h (take 64 signature @ [signature ! 64 + 27]),
       proof_authorization = \<lparr>ea_from = pa_address account, ea_to = pay_to req, ea_value = amount req,
         ea_valid_after = show_nat 0,
         ea_valid_before = show_nat (min (unat (now_secs m) + unat (max_timeout_seconds req)) (2 ^ 64 - 1)),
         ea_nonce = ''0x'' @ hexc_encode h (auth_nonce au)\<rparr>\<rparr>"
proof -
  from assms(2) obtain account a signature sig_bytes where
      acc: "ps_account s EvmChain = Inr account"
      and a: "evm_payment_authorization p h m (pa_address account) req = Inr a"
      and sg: "ps_sign s EvmChain (epa_digest a) Secp256k1Digest = Inr signature"
      and sb: "eip712_signature signature = Inr sig_bytes"
      and pl: "evm_payment_payload h a sig_bytes (pa_address account) challenge req = Inr payload"
    by (auto simp: build_evm_payment_def result_simps)
  obtain au where au: "authorizes h m (pa_address account) req n au" "auth_nonce au = epa_nonce a"
      "epa_digest a = auth_digest p au" "epa_valid_after_secs a = 0"
      "unat (epa_valid_before_secs a) = min (unat (now_secs m) + unat (max_timeout_seconds req)) (2 ^ 64 - 1)"
    using evm_authorization_of [OF a assms(1)] by blast
  show ?thesis
    using acc sg sb [unfolded eip712_signature_Inr] pl au
    by (intro exI [of _ account] exI [of _ au] exI [of _ signature])
      (auto simp: evm_payment_payload_def result_simps)
qed

section \<open>The Solana payment is a wire-format transaction\<close>

text \<open>An instruction of this crate as one of the web3 crate.\<close>

definition compiled :: "Instruction \<Rightarrow> CompiledInstruction" where
  "compiled ins = \<lparr>ci_program_id_index = program_id_index ins, ci_accounts = accounts ins, ci_data = data ins\<rparr>"

lemma x402_encode_shortvec_vlq: "n < 2 ^ 64 \<Longrightarrow> x402_encode_shortvec n = vlq n"
  by (simp add: x402_encode_shortvec_def shortvec_vlq unat_of_nat)

lemma x402_shortvec_len: "n < 2 ^ 16 \<Longrightarrow> x402_encode_shortvec n = shortvec_len n"
  by (simp add: x402_encode_shortvec_vlq shortvec_len_vlq)

lemma encode_instruction_compiled:
  "length (accounts ins) < 2 ^ 16 \<Longrightarrow> length (data ins) < 2 ^ 16 \<Longrightarrow>
     encode_instruction ins = encode_compiled_instruction (compiled ins)"
  by (simp add: encode_instruction_def encode_compiled_instruction_def compiled_def x402_shortvec_len)

lemma encode_legacy_message_eq:
  assumes "length keys < 2 ^ 16" and "length ins < 2 ^ 16"
    and "\<forall>i \<in> set ins. length (accounts i) < 2 ^ 16 \<and> length (data i) < 2 ^ 16"
  shows "encode_legacy_message header keys bh ins = solana_encode_message header keys bh (map compiled ins)"
proof -
  have "concat (map encode_instruction ins) = concat (map encode_compiled_instruction (map compiled ins))"
    unfolding map_map using assms(3) by (intro arg_cong [where f = concat] map_cong) (simp_all add: encode_instruction_compiled)
  then show ?thesis
    using x402_shortvec_len [OF assms(1)] x402_shortvec_len [OF assms(2)]
    unfolding encode_legacy_message_def solana_encode_message_def by simp
qed

lemma b58_to_32_Inr: "b58_to_32 p a = Inr v \<longleftrightarrow> bs58_decode p (trim a) = Inr v \<and> length v = 32"
  by (auto simp: b58_to_32_def result_simps split: if_splits)

lemma derive_ata_loop_find_bump:
  "derive_ata_loop p ed owner mint tp ap bumps =
     ok_or (Protocol ''ATA PDA derivation failed'') (find_bump p ed [owner, tp, mint] ap bumps)"
  by (induction bumps) (simp_all add: pda_candidate_def Let_def ok_or_def)

lemma programs_trim: "trim ATA_PROGRAM = ATA_PROGRAM_B58" "trim SPL_TOKEN_PROGRAM = TOKEN_PROGRAM_B58"
  by (subst trim_graphic; simp add: ATA_PROGRAM_def ATA_PROGRAM_B58_def SPL_TOKEN_PROGRAM_def TOKEN_PROGRAM_B58_def is_graphic_def)+

lemma derive_ata_associated:
  assumes "b58_to_32 p SPL_TOKEN_PROGRAM = Inr tp" and "derive_ata p ed owner mint tp = Inr ata"
  shows "associated_token_account p ed owner mint = Inr ata"
  using assms
  by (auto simp: derive_ata_def associated_token_account_def result_simps derive_ata_loop_find_bump
      find_program_address_def b58_to_32_Inr b58_to_pubkey_def token_program_id_def ata_program_id_def programs_trim
      ok_or_def split: option.splits)

lemma derive_ata_length:
  assumes "\<forall>x. length (sha256 p x) = 32" and "derive_ata p ed owner mint tp = Inr ata"
  shows "length ata = 32"
proof -
  have "length ata = 32" if "derive_ata_loop p ed owner mint tp ap bumps = Inr ata" for ap bumps
    using that assms(1) by (induction bumps) (auto simp: Let_def split: if_splits)
  with assms(2) show ?thesis by (auto simp: derive_ata_def result_simps)
qed


section \<open>Concrete payments\<close>

text \<open>Parameters for the witnesses: a codec in which every text decodes to 32 bytes, and no point is
  on the curve; a wallet that signs everything with a constant.\<close>

definition pay_prims :: prims where
  "pay_prims = sample_prims\<lparr>bs58_decode := (\<lambda>s. Inr (be_bytes 32 (length s)))\<rparr>"

definition pay_ed :: ed25519 where
  "pay_ed = \<lparr>on_curve = (\<lambda>_. False), ed_public = (\<lambda>k. k), ed_sign = (\<lambda>k m. m)\<rparr>"

definition pay_hex :: hex_crate where
  "pay_hex = \<lparr>hexc_encode = hex_encode,
     hexc_decode = (\<lambda>s. case decode_hex_pairs s of Inl _ \<Rightarrow> Inl ''bad'' | Inr bs \<Rightarrow> Inr bs)\<rparr>"

definition pay_signer :: payment_signer where
  "pay_signer = \<lparr>ps_account = (\<lambda>c. Inr \<lparr>pa_address = ''0x52908400098527886e0f7030069857d2e4169ee7'', pa_pubkey = Some (replicate 32 7)\<rparr>),
     ps_sign = (\<lambda>c msg sch. Inr (case c of SolanaChain \<Rightarrow> replicate 64 5 | EvmChain \<Rightarrow> replicate 64 5 @ [1]))\<rparr>"

definition pay_rail :: rail where
  "pay_rail = \<lparr>latest_blockhash = Inr (''b'', 77), finalized_height = Inr 80\<rparr>"

definition pay_codec :: "unit x402_codec" where
  "pay_codec = \<lparr>b64_decode = (\<lambda>s. Inr (str_bytes s)), b64_encode = letters, challenge_from_slice = (\<lambda>_. Inl ''bad''),
     settlement_from_slice = (\<lambda>_. Inl ''bad''), payment_to_json = (\<lambda>_. Inr ''{}'')\<rparr>"

definition pay_moment :: moment where
  "pay_moment = \<lparr>now_secs = 1000, now_nanos = 0, process_id = 1, nonce_counter = 0\<rparr>"

definition evm_req :: PaymentRequirements where
  "evm_req = \<lparr>scheme = ''exact'', network = BASE_MAINNET_CAIP2, amount = ''250'', asset = USDC_BASE_MAINNET,
     pay_to = ''0x52908400098527886e0f7030069857d2e4169ee7'', max_timeout_seconds = 60, extra = None\<rparr>"

definition sol_req :: PaymentRequirements where
  "sol_req = \<lparr>scheme = ''exact'', network = SOLANA_MAINNET_CAIP2, amount = ''250'', asset = USDC_MINT_MAINNET,
     pay_to = ''payee'', max_timeout_seconds = 60,
     extra = Some \<lparr>fee_payer = Some ''f'', memo = Some ''hi'', extra_name = None, extra_version = None\<rparr>\<rparr>"

definition pay_challenge :: "unit PaymentRequired" where
  "pay_challenge = \<lparr>x402_version = 2, challenge_error = None,
     resource = \<lparr>ri_url = ''u'', ri_description = None, ri_mime_type = None\<rparr>,
     accepts = [evm_req, sol_req], extensions = []\<rparr>"

lemma parse_250: "parse_u64 ''250'' = Inr 250" "u256_from_decimal ''250'' = Inr (be_bytes 32 250)"
proof -
  have d: "list_all is_ascii_digit ''250''" "dec_val ''250'' = 250"
    by (simp_all add: is_ascii_digit_def dec_val_def)
  then show "parse_u64 ''250'' = Inr 250" using parse_u64_digits [of "''250''" 250] by simp
  have "trim ''250'' = ''250''" by (rule trim_graphic) (simp add: is_graphic_def)
  with d show "u256_from_decimal ''250'' = Inr (be_bytes 32 250)" by (simp add: u256_from_decimal_Inr)
qed

lemma pay_hex_address:
  assumes "evm_validate a = Inr v"
  shows "\<exists>bs. evm_address_bytes pay_hex a = Inr bs"
proof -
  from assms have "even (length (evm_strip_prefix v))" "\<forall>c \<in> set (evm_strip_prefix v). is_ascii_hexdigit c"
      "length (evm_strip_prefix v) = 40"
    unfolding evm_validate_Inr by auto
  then obtain bs where "decode_hex_pairs (evm_strip_prefix v) = Inr bs" "length bs = 20"
    using decode_hex_pairs_hexdigits [of "evm_strip_prefix v"] decode_hex_pairs_length [of "evm_strip_prefix v"] by auto
  with assms show ?thesis by (simp add: evm_address_bytes_def pay_hex_def evm_strip_prefix_def)
qed

lemma evm_req_chain: "evm_chain_id evm_req = Some 8453"
proof -
  have d: "list_all is_ascii_digit ''8453''" "dec_val ''8453'' = 8453"
    by (simp_all add: is_ascii_digit_def dec_val_def)
  then have "parse_u64 ''8453'' = Inr 8453" using parse_u64_digits [of "''8453''" 8453] by simp
  then show ?thesis by (simp add: evm_chain_id_def evm_req_def BASE_MAINNET_CAIP2_def strip_prefix_def)
qed

lemma sample_evm_payment: "\<exists>payload. build_evm_payment pay_prims pay_hex pay_signer pay_moment pay_challenge evm_req = Inr payload"
proof -
  have "evm_validate ''0x52908400098527886e0f7030069857d2e4169ee7'' = Inr ''0x52908400098527886e0f7030069857d2e4169ee7''"
    by code_simp
  moreover have "evm_validate USDC_BASE_MAINNET = Inr USDC_BASE_MAINNET" by code_simp
  ultimately obtain b1 b2 where "evm_address_bytes pay_hex ''0x52908400098527886e0f7030069857d2e4169ee7'' = Inr b1"
      "evm_address_bytes pay_hex USDC_BASE_MAINNET = Inr b2"
    using pay_hex_address by blast
  moreover have "checked_add (1 :: u8) 27 = Some 28" by (simp add: checked_add_def)
  ultimately show ?thesis
    by (simp add: build_evm_payment_def evm_payment_authorization_def pay_signer_def evm_req_def parse_250 Let_def
        eip712_signature_def evm_payment_payload_def evm_req_chain [unfolded evm_req_def] nth_append)
qed

theorem evm_payment_signs_charge_witness:
  "\<exists>payload au. build_evm_payment pay_prims pay_hex pay_signer pay_moment pay_challenge evm_req = Inr payload \<and>
     auth_value au = be_bytes 32 250 \<and> auth_chain_id au = 8453 \<and>
     ps_sign pay_signer EvmChain (auth_digest pay_prims au) Secp256k1Digest = Inr (replicate 64 5 @ [1])"
proof -
  obtain payload where pl: "build_evm_payment pay_prims pay_hex pay_signer pay_moment pay_challenge evm_req = Inr payload"
    using sample_evm_payment by blast
  have n: "parse_amount evm_req = Inr 250" by (simp add: parse_amount_Inr evm_req_def parse_250)
  from evm_payment_signs_charge [OF n pl] obtain au where "authorizes pay_hex pay_moment
      ''0x52908400098527886e0f7030069857d2e4169ee7'' evm_req 250 au"
    by (auto simp: pay_signer_def)
  with evm_req_chain pl show ?thesis by (auto simp: authorizes_def pay_signer_def)
qed

lemma pay_b58 [simp]: "b58_to_32 pay_prims a = Inr (be_bytes 32 (length (trim a)))"
  by (simp add: b58_to_32_def pay_prims_def)

lemma pay_derive_ata: "\<exists>ata. derive_ata pay_prims pay_ed owner mint tp = Inr ata"
proof -
  have "rev [0..<256 :: nat] = 255 # rev [0..<255]" by (simp add: upt_rec)
  then show ?thesis by (simp add: derive_ata_def pay_ed_def Let_def)
qed


end
