(* ===== verification/TW_X402Client.thy ===== *)
theory TW_X402Client
  imports TW_X402Pay TW_Ledger_Props
begin

text \<open>
  The x402 client, \<open>tinywallet-x402/src/protocol/client.rs\<close>, with the process-wide ledger of
  \<open>ledger/global.rs\<close> and the reservation guard of \<open>ledger/reservation.rs\<close>. The state \<open>glob\<close> is
  what the process shares: the ledger behind its mutex, the storage world, and the reservation
  counter. Every point at which the code awaits (an approval, a payment builder, an HTTP send) is a
  parameter that takes the whole state and returns it changed, so that what other tasks do to the
  ledger meanwhile is part of the model.
\<close>

section \<open>The process-wide ledger\<close>

record 's glob =
  g_ledger :: "PaymentLedger option"
  g_world :: 's
  g_next :: u64

type_synonym ('s, 'e, 'a) action = "'s glob \<Rightarrow> ('e + 'a) \<times> 's glob"

definition NOT_INITIALISED :: string where
  "NOT_INITIALISED = ''x402 payment ledger not initialized''"

definition sys_of :: "'s glob \<Rightarrow> PaymentLedger \<Rightarrow> 's sys" where
  "sys_of g l = \<lparr>led = l, world = g_world g, next_reservation = g_next g\<rparr>"

definition glob_of :: "'s sys \<Rightarrow> 's glob" where
  "glob_of \<sigma> = \<lparr>g_ledger = Some (led \<sigma>), g_world = world \<sigma>, g_next = next_reservation \<sigma>\<rparr>"

definition with_ledger :: "(PaymentLedger \<Rightarrow> 'a) \<Rightarrow> 's glob \<Rightarrow> string + 'a" where
  "with_ledger f g = (case g_ledger g of None \<Rightarrow> Inl NOT_INITIALISED | Some l \<Rightarrow> Inr (f l))"

definition with_ledger_mut :: "('s sys \<Rightarrow> 'a \<times> 's sys) \<Rightarrow> 's glob \<Rightarrow> (string + 'a) \<times> 's glob" where
  "with_ledger_mut f g =
     (case g_ledger g of
        None \<Rightarrow> (Inl NOT_INITIALISED, g)
      | Some l \<Rightarrow> (case f (sys_of g l) of (r, \<sigma>) \<Rightarrow> (Inr r, glob_of \<sigma>)))"

definition init_global :: "chrono \<Rightarrow> ('s, 'v, 'n) ports \<Rightarrow> nat \<Rightarrow> nat \<Rightarrow> int \<Rightarrow> u64 \<Rightarrow> string \<Rightarrow> SpendingBudget \<Rightarrow>
    ('s, ledger_error, unit) action" where
  "init_global c P fuel pid started gen session_id b g =
     (case open_ledger c P fuel pid started gen session_id b (g_world g) of
        (Inl e, w) \<Rightarrow> (Inl e, g\<lparr>g_world := w\<rparr>)
      | (Inr l, w) \<Rightarrow> (Inr (), g\<lparr>g_world := w, g_ledger := Some l\<rparr>))"

definition init_global_current :: "chrono \<Rightarrow> ('s, 'v, 'n) ports \<Rightarrow> nat \<Rightarrow> nat \<Rightarrow> int \<Rightarrow> u64 \<Rightarrow> string \<Rightarrow> SpendingBudget \<Rightarrow>
    ('s, ledger_error, unit) action" where
  "init_global_current c P fuel pid started gen session_id b g =
     (case open_current c P fuel pid started gen session_id b (g_world g) of
        (Inl e, w) \<Rightarrow> (Inl e, g\<lparr>g_world := w\<rparr>)
      | (Inr l, w) \<Rightarrow> (Inr (), g\<lparr>g_world := w, g_ledger := Some l\<rparr>))"

definition clear_global :: "'s glob \<Rightarrow> 's glob" where
  "clear_global g = g\<lparr>g_ledger := None\<rparr>"

section \<open>Reservations\<close>

record Reservation =
  rv_id :: "u64 option"
  rv_amount :: u64

text \<open>The ledger's failure, with a missing ledger among the failures.\<close>

definition flatten_ledger :: "(string + (ledger_error + 'a)) \<times> 's \<Rightarrow> (ledger_error + 'a) \<times> 's" where
  "flatten_ledger m = (case m of (Inl e, s) \<Rightarrow> (Inl (Failure e), s) | (Inr r, s) \<Rightarrow> (r, s))"

definition reservation_reserve :: "chrono \<Rightarrow> ('s, 'v, 'n) ports \<Rightarrow> nat \<Rightarrow> int \<Rightarrow> u64 \<Rightarrow>
    ('s, ledger_error, BudgetRefusal + Reservation) action" where
  "reservation_reserve c P fuel now n g =
     (case flatten_ledger (with_ledger_mut (reserve_at c P fuel now n) g) of
        (Inl e, g) \<Rightarrow> (Inl e, g)
      | (Inr (Inl r), g) \<Rightarrow> (Inr (Inl r), g)
      | (Inr (Inr i), g) \<Rightarrow> (Inr (Inr \<lparr>rv_id = Some i, rv_amount = n\<rparr>), g))"

definition reservation_drop :: "('s, 'v, 'n) ports \<Rightarrow> Reservation \<Rightarrow> 's glob \<Rightarrow> 's glob" where
  "reservation_drop P rv g =
     (case rv_id rv of
        None \<Rightarrow> g
      | Some i \<Rightarrow> snd (with_ledger_mut (\<lambda>\<sigma>. ((), release P i \<sigma>)) g))"

text \<open>\<open>commit\<close> takes the id out, so the guard that is dropped at its end does nothing.\<close>

definition reservation_commit :: "chrono \<Rightarrow> ('s, 'v, 'n) ports \<Rightarrow> nat \<Rightarrow> Reservation \<Rightarrow> PaymentRecord \<Rightarrow> 's glob \<Rightarrow> 's glob" where
  "reservation_commit c P fuel rv r g =
     (case rv_id rv of
        None \<Rightarrow> g
      | Some i \<Rightarrow> snd (with_ledger_mut (\<lambda>\<sigma>. ((), commit_reservation c P fuel i r \<sigma>)) g))"

text \<open>\<open>commit_durable\<close> consumes the guard: the early returns drop it with its id still in place.\<close>

definition commit_durable :: "chrono \<Rightarrow> ('s, 'v, 'n) ports \<Rightarrow> nat \<Rightarrow> Reservation \<Rightarrow> PaymentRecord \<Rightarrow>
    ('s, ledger_error, unit) action" where
  "commit_durable c P fuel rv r g =
     (case rv_id rv of
        None \<Rightarrow> (Inr (), g)
      | Some i \<Rightarrow>
          (case flatten_ledger (with_ledger_mut (try_commit_reservation c P fuel i r) g) of
             (Inl e, g) \<Rightarrow> (Inl e, reservation_drop P rv g)
           | (Inr _, g) \<Rightarrow> (Inr (), reservation_drop P (rv\<lparr>rv_id := None\<rparr>) g)))"

section \<open>Paying a challenge\<close>

text \<open>An error of the client, or the reading loop of the ledger running out of fuel.\<close>

datatype client_error = ClientError X402Error | ClientFuel

fun wallet_error :: "ledger_error \<Rightarrow> client_error" where
  "wallet_error (Failure e) = ClientError (Wallet e)"
| "wallet_error OutOfFuel = ClientFuel"

definition solana_candidates :: "PaymentLedger \<Rightarrow> (string \<times> int \<times> u64) list" where
  "solana_candidates l =
     List.map_filter (\<lambda>r.
       if pr_authorization_expired_at r = None then
         map_option (\<lambda>h. (pr_id r, pr_timestamp r, h)) (pr_solana_last_valid_block_height r)
       else None) (pending_payments l)"

fun observe_all :: "chrono \<Rightarrow> ('s, 'v, 'n) ports \<Rightarrow> nat \<Rightarrow> u64 \<Rightarrow> u64 \<Rightarrow> int \<Rightarrow> (string \<times> int \<times> u64) list \<Rightarrow>
    's sys \<Rightarrow> unit \<times> 's sys" where
  "observe_all c P fuel generation height observed_at [] \<sigma> = ((), \<sigma>)"
| "observe_all c P fuel generation height observed_at ((i, issued_at, last_valid) # cs) \<sigma> =
     observe_all c P fuel generation height observed_at cs
       (snd (observe_solana_expiry c P fuel generation i issued_at last_valid height observed_at \<sigma>))"

definition refresh_solana_authorizations :: "chrono \<Rightarrow> ('s, 'v, 'n) ports \<Rightarrow> nat \<Rightarrow> int \<Rightarrow>
    ('s, X402Error, u64 option) action \<Rightarrow> ('s, client_error, unit) action" where
  "refresh_solana_authorizations c P fuel observed_at height_of g =
     (case with_ledger (\<lambda>l. (l_generation l, solana_candidates l)) g of
        Inl e \<Rightarrow> (Inl (ClientError (Wallet e)), g)
      | Inr (generation, candidates) \<Rightarrow>
          if candidates = [] then (Inr (), g)
          else (case height_of g of
             (Inr (Some height), g) \<Rightarrow>
               (case with_ledger_mut (observe_all c P fuel generation height observed_at candidates) g of
                  (Inl e, g) \<Rightarrow> (Inl (ClientError (Wallet e)), g)
                | (Inr _, g) \<Rightarrow> (Inr (), g))
           | (_, g) \<Rightarrow> (Inr (), g)))"

fun refused_error :: "BudgetRefusal \<Rightarrow> X402Error" where
  "refused_error (PerRequest requested cap) = AmountExceedsCap requested cap"
| "refused_error (Daily current cap) = BudgetExceeded ''daily'' current cap"
| "refused_error (Monthly current cap) = BudgetExceeded ''monthly'' current cap"

record X402PaymentResult =
  xr_header_value :: string
  xr_amount_atomic :: u64
  xr_asset :: string
  xr_recipient :: string
  xr_network :: string
  xr_url :: string
  xr_authorization_valid_until :: "int option"
  xr_solana_last_valid_block_height :: "u64 option"
  xr_reservation :: Reservation

text \<open>The caller's approval and the payment builder, both awaited while a hold exists.\<close>

type_synonym 's approver = "string \<Rightarrow> PaymentRequirements \<Rightarrow> PaymentChain \<Rightarrow> u64 \<Rightarrow> ('s, string, unit) action"
type_synonym ('s, 'j) builder =
  "'j PaymentRequired \<Rightarrow> PaymentRequirements \<Rightarrow> PaymentChain \<Rightarrow> ('s, X402Error, 'j PaymentBuild) action"

text \<open>From the approval on: any failure drops the reservation before returning.\<close>

definition approve_and_build :: "('s, 'v, 'n) ports \<Rightarrow> 'j x402_codec \<Rightarrow> 's approver \<Rightarrow> ('s, 'j) builder \<Rightarrow> string \<Rightarrow>
    'j PaymentRequired \<Rightarrow> PaymentRequirements \<Rightarrow> PaymentChain \<Rightarrow> u64 \<Rightarrow> Reservation \<Rightarrow> ('s, client_error, X402PaymentResult) action" where
  "approve_and_build P k authorize build request_url challenge req chain n rv g =
     (case authorize (ri_url (resource challenge)) req chain n g of
        (Inl e, g) \<Rightarrow> (Inl (ClientError (Wallet e)), reservation_drop P rv g)
      | (Inr _, g) \<Rightarrow>
          (case build challenge req chain g of
             (Inl e, g) \<Rightarrow> (Inl (ClientError e), reservation_drop P rv g)
           | (Inr paid, g) \<Rightarrow>
               (case encode_payment k (pb_payload paid) of
                  Inl e \<Rightarrow> (Inl (ClientError e), reservation_drop P rv g)
                | Inr header_value \<Rightarrow>
                    (Inr \<lparr>xr_header_value = header_value, xr_amount_atomic = n, xr_asset = asset req,
                          xr_recipient = pay_to req, xr_network = network req, xr_url = request_url,
                          xr_authorization_valid_until = pb_authorization_valid_until paid,
                          xr_solana_last_valid_block_height = pb_solana_last_valid_block_height paid,
                          xr_reservation = rv\<rparr>, g))))"

definition handle_402_and_pay_authorized :: "chrono \<Rightarrow> ('s, 'v, 'n) ports \<Rightarrow> 'j x402_codec \<Rightarrow> nat \<Rightarrow> int \<Rightarrow> int \<Rightarrow>
    ('s, X402Error, u64 option) action \<Rightarrow> 's approver \<Rightarrow> ('s, 'j) builder \<Rightarrow> header_map \<Rightarrow> string \<Rightarrow>
    ('s, client_error, X402PaymentResult) action" where
  "handle_402_and_pay_authorized c P k fuel observed_at now height_of authorize build headers request_url g =
     (case handle_402 k headers of
        Inl e \<Rightarrow> (Inl (ClientError e), g)
      | Inr (challenge, idx, chain) \<Rightarrow>
          let req = accepts challenge ! idx in
          (case parse_amount req of
             Inl e \<Rightarrow> (Inl (ClientError e), g)
           | Inr n \<Rightarrow>
               sbind (refresh_solana_authorizations c P fuel observed_at height_of g) (\<lambda>_ g.
                 case reservation_reserve c P fuel now n g of
                   (Inl e, g) \<Rightarrow> (Inl (wallet_error e), g)
                 | (Inr (Inl r), g) \<Rightarrow> (Inl (ClientError (refused_error r)), g)
                 | (Inr (Inr rv), g) \<Rightarrow>
                     approve_and_build P k authorize build request_url challenge req chain n rv g)))"

definition handle_402_and_pay :: "chrono \<Rightarrow> ('s, 'v, 'n) ports \<Rightarrow> 'j x402_codec \<Rightarrow> nat \<Rightarrow> int \<Rightarrow> int \<Rightarrow>
    ('s, X402Error, u64 option) action \<Rightarrow> ('s, 'j) builder \<Rightarrow> header_map \<Rightarrow> string \<Rightarrow>
    ('s, client_error, X402PaymentResult) action" where
  "handle_402_and_pay c P k fuel observed_at now height_of build headers request_url =
     handle_402_and_pay_authorized c P k fuel observed_at now height_of (\<lambda>_ _ _ _ g. (Inr (), g)) build headers request_url"

definition pay_challenge_header :: "'j x402_codec \<Rightarrow> ('s, 'j) builder \<Rightarrow> 'j PaymentRequired \<Rightarrow> PaymentRequirements \<Rightarrow>
    ('s, X402Error, string) action" where
  "pay_challenge_header k build challenge req g =
     (case ensure_payable req of
        Inl e \<Rightarrow> (Inl e, g)
      | Inr _ \<Rightarrow>
          let chain = (if starts_with (network req) ''eip155:'' then EvmChain else SolanaChain) in
          sbind (build challenge req chain g) (\<lambda>paid g. (encode_payment k (pb_payload paid), g)))"

section \<open>The transparent client\<close>

text \<open>A response is its status, its headers and its body; the HTTP client and the request type are
  parameters.\<close>

record 'b http_response =
  hr_status :: nat
  hr_headers :: header_map
  hr_body :: 'b

record ('s, 'q, 'b) http =
  http_execute :: "'q \<Rightarrow> ('s, string, 'b http_response) action"
  http_try_clone :: "'q \<Rightarrow> 'q option"
  http_header_value :: "string \<Rightarrow> string + string"
  http_insert_header :: "string \<Rightarrow> string \<Rightarrow> 'q \<Rightarrow> 'q"

definition paid_retry :: "('s, 'q, 'b) http \<Rightarrow> 'j x402_codec \<Rightarrow> ('s, 'j) builder \<Rightarrow> 'q \<Rightarrow> 'j PaymentRequired \<Rightarrow>
    PaymentRequirements \<Rightarrow> PaymentChain \<Rightarrow> ('s, X402Error, 'b http_response) action" where
  "paid_retry h k build retry_req challenge req chain g =
     sbind (build challenge req chain g) (\<lambda>paid g.
       case rbind (encode_payment k (pb_payload paid)) (\<lambda>encoded.
              map_err (\<lambda>e. Protocol (''payment proof is not a valid header: '' @ e)) (http_header_value h encoded)) of
         Inl e \<Rightarrow> (Inl e, g)
       | Inr proof \<Rightarrow>
           (case http_execute h (http_insert_header h HEADER_PAYMENT_SIGNATURE proof retry_req) g of
              (r, g) \<Rightarrow> (map_err Transport r, g)))"

definition try_paid_request :: "('s, 'q, 'b) http \<Rightarrow> 'j x402_codec \<Rightarrow> ('s, 'j) builder \<Rightarrow> 'q \<Rightarrow> u64 option \<Rightarrow>
    ('s, X402Error, 'b http_response) action" where
  "try_paid_request h k build request max_amount g =
     (let replay = http_try_clone h request in
      case http_execute h request g of
        (Inl e, g) \<Rightarrow> (Inl (Transport e), g)
      | (Inr response, g) \<Rightarrow>
          if hr_status response \<noteq> 402 then (Inr response, g)
          else (case replay of
             None \<Rightarrow> (Inl NonReplayableBody, g)
           | Some retry_req \<Rightarrow>
               (case handle_402 k (hr_headers response) of
                  Inl e \<Rightarrow> (Inl e, g)
                | Inr (challenge, index, chain) \<Rightarrow>
                    let req = accepts challenge ! index in
                    (case parse_amount req of
                       Inl e \<Rightarrow> (Inl e, g)
                     | Inr n \<Rightarrow>
                         (case max_amount of
                            Some cap \<Rightarrow> if n > cap then (Inl (AmountExceedsCap n cap), g)
                                        else paid_retry h k build retry_req challenge req chain g
                          | None \<Rightarrow> paid_retry h k build retry_req challenge req chain g)))))"

section \<open>Nothing is signed without a hold\<close>

lemma glob_of_simps [simp]:
  "g_ledger (glob_of \<sigma>) = Some (led \<sigma>)" "sys_of (glob_of \<sigma>) (led \<sigma>) = \<sigma>" "led (sys_of g l) = l"
  by (simp_all add: glob_of_def sys_of_def)

lemma reservation_reserve_Inr:
  assumes "reservation_reserve c P fuel now n g = (Inr (Inr rv), g')"
  shows "\<exists>l i \<sigma>'. g_ledger g = Some l \<and> reserve_at c P fuel now n (sys_of g l) = (Inr (Inr i), \<sigma>') \<and>
    g' = glob_of \<sigma>' \<and> rv = \<lparr>rv_id = Some i, rv_amount = n\<rparr>"
  using assms
  by (auto simp: reservation_reserve_def flatten_ledger_def with_ledger_mut_def split: option.splits prod.splits sum.splits)

lemma handle_402_pays:
  assumes "handle_402 k headers = Inr (challenge, idx, chain)"
  shows "idx < length (accepts challenge) \<and> pays_usdc chain (accepts challenge ! idx)"
  using assms by (auto simp: handle_402_def result_simps intro!: select_requirement_pays)

lemma approve_and_build_Inr:
  assumes "approve_and_build P k authorize build url challenge req chain n rv g = (Inr res, g')"
  shows "\<exists>g1 paid. authorize (ri_url (resource challenge)) req chain n g = (Inr (), g1) \<and>
    build challenge req chain g1 = (Inr paid, g') \<and> encode_payment k (pb_payload paid) = Inr (xr_header_value res) \<and>
    xr_amount_atomic res = n \<and> xr_asset res = asset req \<and> xr_recipient res = pay_to req \<and>
    xr_network res = network req \<and> xr_url res = url \<and> xr_reservation res = rv"
  using assms by (auto simp: approve_and_build_def split: prod.splits sum.splits)

text \<open>The whole run, when it pays: the states at the await points.\<close>

lemma paid_run:
  assumes "handle_402_and_pay_authorized c P k fuel observed_at now height_of authorize build headers url g = (Inr res, g')"
  shows "\<exists>challenge idx chain g1 l i \<sigma> g2 paid. handle_402 k headers = Inr (challenge, idx, chain) \<and>
    parse_amount (accepts challenge ! idx) = Inr (xr_amount_atomic res) \<and> g_ledger g1 = Some l \<and>
    reserve_at c P fuel now (xr_amount_atomic res) (sys_of g1 l) = (Inr (Inr i), \<sigma>) \<and>
    authorize (ri_url (resource challenge)) (accepts challenge ! idx) chain (xr_amount_atomic res) (glob_of \<sigma>) = (Inr (), g2) \<and>
    build challenge (accepts challenge ! idx) chain g2 = (Inr paid, g') \<and>
    encode_payment k (pb_payload paid) = Inr (xr_header_value res) \<and>
    xr_asset res = asset (accepts challenge ! idx) \<and> xr_recipient res = pay_to (accepts challenge ! idx) \<and>
    xr_network res = network (accepts challenge ! idx) \<and> xr_url res = url \<and>
    xr_reservation res = \<lparr>rv_id = Some i, rv_amount = xr_amount_atomic res\<rparr>"
proof -
  from assms obtain challenge idx chain where h: "handle_402 k headers = Inr (challenge, idx, chain)"
    by (auto simp: handle_402_and_pay_authorized_def split: sum.splits)
  with assms obtain n where n: "parse_amount (accepts challenge ! idx) = Inr n"
    by (auto simp: handle_402_and_pay_authorized_def Let_def split: sum.splits)
  obtain u g1 where g1: "refresh_solana_authorizations c P fuel observed_at height_of g = (u, g1)" by fastforce
  have "\<exists>rv g2. reservation_reserve c P fuel now n g1 = (Inr (Inr rv), g2) \<and>
      approve_and_build P k authorize build url challenge (accepts challenge ! idx) chain n rv g2 = (Inr res, g')"
    using assms h n g1
    by (auto simp: handle_402_and_pay_authorized_def Let_def sbind_def split: sum.splits prod.splits)
  then obtain rv g2 where rv: "reservation_reserve c P fuel now n g1 = (Inr (Inr rv), g2)"
      and ab: "approve_and_build P k authorize build url challenge (accepts challenge ! idx) chain n rv g2 = (Inr res, g')" by blast
  from reservation_reserve_Inr [OF rv] approve_and_build_Inr [OF ab] h n show ?thesis by blast
qed

text \<open>C2: Whenever \<open>handle_402_and_pay_authorized\<close> returns a payment, whatever other tasks did to the
  ledger at its await points: it answers a challenge whose selected option is the allowlisted USDC
  of its network; the amount read from that option was reserved, in one ledger operation, before
  the caller's approval was asked for, and the approval was given before the builder ran; right
  after the reservation the ledger was within its daily and monthly caps with this amount
  included; and the result carries that very reservation and the terms of that option.\<close>

theorem paid_only_with_hold:
  assumes "handle_402_and_pay_authorized c P k fuel observed_at now height_of authorize build headers url g = (Inr res, g')"
  shows "\<exists>challenge idx chain g1 l i \<sigma> g2 paid. handle_402 k headers = Inr (challenge, idx, chain) \<and>
    idx < length (accepts challenge) \<and> pays_usdc chain (accepts challenge ! idx) \<and>
    parse_amount (accepts challenge ! idx) = Inr (xr_amount_atomic res) \<and>
    g_ledger g1 = Some l \<and> reserve_at c P fuel now (xr_amount_atomic res) (sys_of g1 l) = (Inr (Inr i), \<sigma>) \<and>
    (unat (daily_max_atomic (l_budget l)) < 2 ^ 64 - 1 \<and> unat (monthly_max_atomic (l_budget l)) < 2 ^ 64 - 1 \<longrightarrow>
       unat (xr_amount_atomic res) \<le> unat (per_request_max_atomic (l_budget l)) \<and>
       day_total c now (led \<sigma>) \<le> unat (daily_max_atomic (l_budget l)) \<and>
       month_total c now (led \<sigma>) \<le> unat (monthly_max_atomic (l_budget l))) \<and>
    authorize (ri_url (resource challenge)) (accepts challenge ! idx) chain (xr_amount_atomic res) (glob_of \<sigma>) = (Inr (), g2) \<and>
    build challenge (accepts challenge ! idx) chain g2 = (Inr paid, g') \<and>
    encode_payment k (pb_payload paid) = Inr (xr_header_value res) \<and>
    xr_asset res = asset (accepts challenge ! idx) \<and> xr_recipient res = pay_to (accepts challenge ! idx) \<and>
    xr_network res = network (accepts challenge ! idx) \<and>
    xr_reservation res = \<lparr>rv_id = Some i, rv_amount = xr_amount_atomic res\<rparr>"
proof -
  from paid_run [OF assms] obtain challenge idx chain g1 l i \<sigma> g2 paid where r:
    "handle_402 k headers = Inr (challenge, idx, chain)" "parse_amount (accepts challenge ! idx) = Inr (xr_amount_atomic res)"
    "g_ledger g1 = Some l" "reserve_at c P fuel now (xr_amount_atomic res) (sys_of g1 l) = (Inr (Inr i), \<sigma>)"
    "authorize (ri_url (resource challenge)) (accepts challenge ! idx) chain (xr_amount_atomic res) (glob_of \<sigma>) = (Inr (), g2)"
    "build challenge (accepts challenge ! idx) chain g2 = (Inr paid, g')"
    "encode_payment k (pb_payload paid) = Inr (xr_header_value res)"
    "xr_asset res = asset (accepts challenge ! idx)" "xr_recipient res = pay_to (accepts challenge ! idx)"
    "xr_network res = network (accepts challenge ! idx)"
    "xr_reservation res = \<lparr>rv_id = Some i, rv_amount = xr_amount_atomic res\<rparr>" by blast
  from reserve_at_granted [OF r(4)] obtain l' where l': "same_owner l l'" "admitted c P now (xr_amount_atomic res) i l' \<sigma>"
    by auto
  have b: "l_budget l' = l_budget l" using l'(1) by (simp add: same_owner_def)
  note caps = admitted_within_caps [OF l'(2), unfolded b]
  show ?thesis
    using r handle_402_pays [OF r(1)] caps by blast
qed

text \<open>The builder, and with it every signature, is out of reach without a hold: if the
  challenge is refused, its amount unreadable, the refresh of old authorizations fails, the ledger is
  missing, refuses the amount or fails, or the caller's approval is withheld, then the outcome and
  the final state are the same for every builder; in particular it is never run.\<close>

theorem builder_unused_without_hold:
  assumes "\<And>challenge idx chain n g1 rv g2 g3.
    handle_402 k headers = Inr (challenge, idx, chain) \<Longrightarrow> parse_amount (accepts challenge ! idx) = Inr n \<Longrightarrow>
    refresh_solana_authorizations c P fuel observed_at height_of g = (Inr (), g1) \<Longrightarrow>
    reservation_reserve c P fuel now n g1 = (Inr (Inr rv), g2) \<Longrightarrow>
    authorize (ri_url (resource challenge)) (accepts challenge ! idx) chain n g2 = (Inr (), g3) \<Longrightarrow> False"
  shows "handle_402_and_pay_authorized c P k fuel observed_at now height_of authorize build headers url g =
    handle_402_and_pay_authorized c P k fuel observed_at now height_of authorize build' headers url g"
proof (cases "handle_402 k headers")
  case (Inr hd)
  obtain challenge idx chain where hd: "hd = (challenge, idx, chain)" by (cases hd)
  note h = Inr [unfolded hd]
  show ?thesis
  proof (cases "parse_amount (accepts challenge ! idx)")
    case n: (Inr n)
    obtain u g1 where g1: "refresh_solana_authorizations c P fuel observed_at height_of g = (u, g1)" by fastforce
    show ?thesis
    proof (cases u)
      case u: (Inr v)
      obtain r g2 where g2: "reservation_reserve c P fuel now n g1 = (r, g2)" by fastforce
      have "approve_and_build P k authorize build url challenge (accepts challenge ! idx) chain n rv g2 =
          approve_and_build P k authorize build' url challenge (accepts challenge ! idx) chain n rv g2" if "r = Inr (Inr rv)" for rv
      proof -
        obtain a g3 where a: "authorize (ri_url (resource challenge)) (accepts challenge ! idx) chain n g2 = (a, g3)" by fastforce
        with assms [OF h n] g1 g2 u that have "a \<noteq> Inr ()" by auto
        with a show ?thesis by (cases a) (auto simp: approve_and_build_def)
      qed
      then show ?thesis
        using h n g1 u g2 by (auto simp: handle_402_and_pay_authorized_def Let_def split: sum.splits)
    qed (use h n g1 in \<open>simp add: handle_402_and_pay_authorized_def Let_def\<close>)
  qed (use h in \<open>simp add: handle_402_and_pay_authorized_def Let_def\<close>)
qed (simp add: handle_402_and_pay_authorized_def)

text \<open>A failing durable commit gives the budget back at once. \<open>commit_durable\<close> consumes the
  reservation, so when the record cannot be appended the reservation is dropped by the call
  itself: the ledger afterwards no longer owns the id and no longer counts its hold; when it
  succeeds, the drop does nothing more.\<close>

theorem commit_durable_failure_releases:
  assumes "g_ledger g = Some l" and "commit_durable c P fuel \<lparr>rv_id = Some i, rv_amount = n\<rparr> r g = (Inl e, g')"
  shows "\<exists>l'. g_ledger g' = Some l' \<and> map_of (l_reservations l') i = None \<and> l_records l' = l_records l \<and>
    (case map_of (l_reservations l) i of None \<Rightarrow> l' = l
     | Some own \<Rightarrow> l_holds l' = AList.delete (own_key own) (l_holds l))"
proof -
  obtain res \<sigma> where t: "try_commit_reservation c P fuel i r (sys_of g l) = (res, \<sigma>)" by fastforce
  with assms have res: "res = Inl e" "g' = glob_of (release P i \<sigma>)"
    by (auto simp: commit_durable_def flatten_ledger_def with_ledger_mut_def reservation_drop_def split: sum.splits)
  have "append_record c P fuel r (map_option own_key (map_of (l_reservations l) i)) (sys_of g l) = (Inl e, \<sigma>)"
    using t res(1) by (auto simp: try_commit_reservation_def Let_def sbind_def split: prod.splits sum.splits)
  from append_record_outcome [OF this] have "led \<sigma> = l" by simp
  then show ?thesis
    by (auto simp: res(2) release_led delete_conv' split: option.splits)
qed

text \<open>A durable commit that succeeds has appended the row.\<close>

lemma commit_durable_appended:
  assumes "commit_durable c P fuel rv r g = (Inr u, g')" and "rv_id rv = Some i"
  shows "\<exists>k offset w. persist_append c P (at_millisecond_precision c r) k (g_world g) = (Inr offset, w)"
proof -
  from assms obtain l where l: "g_ledger g = Some l"
    by (cases "g_ledger g") (auto simp: commit_durable_def with_ledger_mut_def flatten_ledger_def)
  let ?k = "map_option own_key (map_of (l_reservations l) i)"
  obtain res \<sigma> where a: "append_record c P fuel r ?k (sys_of g l) = (res, \<sigma>)" by fastforce
  have "try_commit_reservation c P fuel i r (sys_of g l) = sbind (res, \<sigma>) (\<lambda>_ \<sigma>. (Inr (), release P i \<sigma>))"
    using a by (simp add: try_commit_reservation_def sys_of_def)
  with assms l obtain "res = Inr ()"
    by (cases res) (auto simp: commit_durable_def flatten_ledger_def with_ledger_mut_def)
  with append_record_outcome [OF a] show ?thesis by (auto simp: sys_of_def)
qed

text \<open>The transparent client pays only what it was told it may. Unless the first answer is a 402,
  the request can be sent again, the challenge selects an allowlisted option, its amount is
  readable and at most the caller's ceiling, \<open>try_paid_request\<close> ends the same for every builder:
  nothing is signed and no second request is sent.\<close>

theorem try_paid_request_guarded:
  assumes "\<not> (\<exists>response g1 retry challenge idx chain n. http_execute h request g = (Inr response, g1) \<and> hr_status response = 402 \<and>
    http_try_clone h request = Some retry \<and> handle_402 k (hr_headers response) = Inr (challenge, idx, chain) \<and>
    parse_amount (accepts challenge ! idx) = Inr n \<and> (case max_amount of None \<Rightarrow> True | Some cap \<Rightarrow> n \<le> cap))"
  shows "try_paid_request h k build request max_amount g = try_paid_request h k build' request max_amount g"
  using assms by (auto simp: try_paid_request_def Let_def split: prod.splits sum.splits option.splits if_splits)

section \<open>A concrete run\<close>

definition client_codec :: "unit x402_codec" where
  "client_codec = pay_codec\<lparr>challenge_from_slice := (\<lambda>_. Inr pay_challenge)\<rparr>"

definition client_headers :: header_map where
  "client_headers name = (if name = HEADER_PAYMENT_REQUIRED then Some (Inr ''x'') else None)"

definition client_glob :: "mem glob" where
  "client_glob = glob_of sample_sys"

definition client_build :: "(mem, unit) builder" where
  "client_build challenge req chain g =
     (build_with_rail_metadata pay_prims pay_ed pay_hex client_codec Some pay_signer pay_rail pay_moment challenge req chain, g)"

lemma client_select: "select_requirement pay_challenge = Inr (1, SolanaChain)"
proof -
  have c: "chain_of BASE_MAINNET_CAIP2 = Some EvmChain" "chain_of SOLANA_MAINNET_CAIP2 = Some SolanaChain"
    by (simp_all add: chain_of_def BASE_MAINNET_CAIP2_def SOLANA_MAINNET_CAIP2_def)
  have u: "check_usdc SOLANA_MAINNET_CAIP2 USDC_MINT_MAINNET = AssetAllowed"
    by (simp add: check_usdc_def SUPPORTED_USDC_def SOLANA_MAINNET_CAIP2_def)
  show ?thesis
    by (simp add: select_requirement_def pay_challenge_def evm_req_def sol_req_def c u ensure_payable_eq get_or_insert_def)
qed

lemma client_handle: "handle_402 client_codec client_headers = Inr (pay_challenge, 1, SolanaChain)"
  by (simp add: handle_402_def parse_402_headers_def client_headers_def client_codec_def pay_codec_def client_select)

lemma client_amount: "accepts pay_challenge ! 1 = sol_req" "parse_amount sol_req = Inr 250"
  by (simp_all add: pay_challenge_def parse_amount_Inr sol_req_def parse_250)

lemma client_refresh: "refresh_solana_authorizations c P fuel at h client_glob = (Inr (), client_glob)"
  by (simp add: refresh_solana_authorizations_def with_ledger_def client_glob_def sample_sys_def sample_ledger_def
      solana_candidates_def pending_payments_def map_filter_simps)

lemma client_reserve:
  "\<exists>\<sigma>. reservation_reserve sample_chrono mem_ports 3 5000 250 client_glob = (Inr (Inr \<lparr>rv_id = Some 1, rv_amount = 250\<rparr>), glob_of \<sigma>)"
proof -
  have "fst (reserve_at sample_chrono mem_ports 3 5000 250 sample_sys) = Inr (Inr 1)" by (rule sample_reserve) simp
  then obtain \<sigma> where "reserve_at sample_chrono mem_ports 3 5000 250 sample_sys = (Inr (Inr 1), \<sigma>)"
    by (metis prod.collapse)
  then have "with_ledger_mut (reserve_at sample_chrono mem_ports 3 5000 250) client_glob = (Inr (Inr (Inr 1)), glob_of \<sigma>)"
    by (simp add: with_ledger_mut_def client_glob_def)
  then show ?thesis by (auto simp: reservation_reserve_def flatten_ledger_def)
qed

lemma client_builds: "\<exists>paid. client_build pay_challenge sol_req SolanaChain g = (Inr paid, g)"
proof -
  obtain a1 a2 where "derive_ata pay_prims pay_ed (replicate 32 7) (be_bytes 32 (length (trim USDC_MINT_MAINNET)))
        (be_bytes 32 (length (trim SPL_TOKEN_PROGRAM))) = Inr a1"
      "derive_ata pay_prims pay_ed (be_bytes 32 (length (trim ''payee''))) (be_bytes 32 (length (trim USDC_MINT_MAINNET)))
        (be_bytes 32 (length (trim SPL_TOKEN_PROGRAM))) = Inr a2"
    using pay_derive_ata by blast
  then show ?thesis
    using client_amount(2)
    by (simp add: client_build_def build_with_rail_metadata_def account_pubkey_def build_solana_payment_def solana_payment_plan_def fetch_recent_blockhash_def
        pay_rail_def pay_signer_def Let_def sol_req_def fee_payer_pubkey_def)
qed

lemma client_run:
  "\<exists>res g'. handle_402_and_pay_authorized sample_chrono mem_ports client_codec 3 4000 5000 hgt (\<lambda>_ _ _ _ g. (Inr (), g))
     client_build client_headers ''u'' client_glob = (Inr res, g') \<and> xr_amount_atomic res = 250"
proof -
  obtain \<sigma> where r: "reservation_reserve sample_chrono mem_ports 3 5000 250 client_glob =
      (Inr (Inr \<lparr>rv_id = Some 1, rv_amount = 250\<rparr>), glob_of \<sigma>)" using client_reserve by blast
  obtain paid where b: "client_build pay_challenge sol_req SolanaChain (glob_of \<sigma>) = (Inr paid, glob_of \<sigma>)"
    using client_builds by blast
  have j: "payment_to_json client_codec x = Inr ''{}''" for x by (simp add: client_codec_def pay_codec_def)
  show ?thesis
    by (simp add: handle_402_and_pay_authorized_def client_handle client_amount [simplified] client_refresh r
        approve_and_build_def b encode_payment_def j)
qed

theorem paid_only_with_hold_witness:
  "\<exists>res g' challenge idx chain.
     handle_402_and_pay_authorized sample_chrono mem_ports client_codec 3 4000 5000 (\<lambda>g. (Inr None, g)) (\<lambda>_ _ _ _ g. (Inr (), g))
       client_build client_headers ''u'' client_glob = (Inr res, g') \<and> xr_amount_atomic res = 250 \<and>
     handle_402 client_codec client_headers = Inr (challenge, idx, chain) \<and> pays_usdc chain (accepts challenge ! idx)"
proof -
  obtain res g' where r: "handle_402_and_pay_authorized sample_chrono mem_ports client_codec 3 4000 5000 (\<lambda>g. (Inr None, g))
      (\<lambda>_ _ _ _ g. (Inr (), g)) client_build client_headers ''u'' client_glob = (Inr res, g')" "xr_amount_atomic res = 250"
    using client_run by blast
  from paid_only_with_hold [OF r(1)] r show ?thesis by blast
qed

theorem builder_unused_without_hold_witness:
  "handle_402_and_pay_authorized sample_chrono mem_ports client_codec 3 4000 5000 (\<lambda>g. (Inr None, g)) (\<lambda>_ _ _ _ g. (Inl ''no'', g))
     client_build client_headers ''u'' client_glob =
   handle_402_and_pay_authorized sample_chrono mem_ports client_codec 3 4000 5000 (\<lambda>g. (Inr None, g)) (\<lambda>_ _ _ _ g. (Inl ''no'', g))
     (\<lambda>_ _ _ g. (Inl NoPaymentOption, g)) client_headers ''u'' client_glob"
  by (rule builder_unused_without_hold) simp

definition no_append :: "(mem, mem_value, nat) ports" where
  "no_append = mem_ports\<lparr>stream_append := (\<lambda>_ _ w. (PortErr OtherKind ''full'', w))\<rparr>"

theorem commit_durable_failure_releases_witness:
  "\<exists>e g' l'. commit_durable sample_chrono no_append 3 \<lparr>rv_id = Some 1, rv_amount = 700\<rparr> sample_record (glob_of sample_held) = (Inl e, g') \<and>
     g_ledger g' = Some l' \<and> map_of (l_reservations l') 1 = None \<and> l_holds l' = []"
proof -
  let ?rv = "\<lparr>rv_id = Some 1, rv_amount = 700\<rparr> :: Reservation"
  obtain e g' where c: "commit_durable sample_chrono no_append 3 ?rv sample_record (glob_of sample_held) = (Inl e, g')"
    by (auto simp: commit_durable_def flatten_ledger_def with_ledger_mut_def try_commit_reservation_def append_record_def
        Let_def on_world_def persist_append_def no_append_def mem_ports_def run_def)
  have l: "l_reservations (led sample_held) = [(1, \<lparr>own_key = ''o:1'', own_amount = 700\<rparr>)]"
      "l_holds (led sample_held) = [(''o:1'', \<lparr>hold_amount = 700, hold_expires_ms = 900000\<rparr>)]"
    by (simp_all add: sample_held_def)
  from commit_durable_failure_releases [OF glob_of_simps(1) c] c show ?thesis by (auto simp: l)
qed

definition sample_http :: "(mem, unit, unit) http" where
  "sample_http = \<lparr>http_execute = (\<lambda>_ g. (Inr \<lparr>hr_status = 402, hr_headers = client_headers, hr_body = ()\<rparr>, g)),
     http_try_clone = Some, http_header_value = Inr, http_insert_header = (\<lambda>_ _ q. q)\<rparr>"

theorem try_paid_request_guarded_witness:
  "try_paid_request sample_http client_codec client_build () (Some 249) client_glob =
   try_paid_request sample_http client_codec (\<lambda>_ _ _ g. (Inl NoPaymentOption, g)) () (Some 249) client_glob"
  by (rule try_paid_request_guarded) (auto simp: sample_http_def client_handle client_amount [simplified])

end
