(* ===== verification/TW_Module_X402.thy ===== *)
theory TW_Module_X402
  imports TW_Module_Web3 TW_X402Client
begin

text \<open>
  The x402 members of the served object (\<open>tinywallet-module/src/service/x402.rs\<close>, the x402 members of
  \<open>service/mod.rs\<close> and their records of \<open>tinywallet-bus/src/wire/host.rs\<close>): a payment is prepared inside the
  module, which reserves its budget, has the host approve its exact terms, signs it with the secret of the
  request and records it durably before the host gets the proof. The state is the process-wide ledger with
  its storage, and the counter of the payments in preparation, which every preparation of the service
  shares. The instants at which the clock is read and the identifiers drawn are arguments.
\<close>

section \<open>Wire types\<close>

record X402ConfigResponse =
  x4c_workspace_dir :: string
  x4c_session_id :: string
  x4c_per_request_max_atomic :: u64
  x4c_daily_max_atomic :: u64
  x4c_monthly_max_atomic :: u64

record X402PreparePaymentRequest =
  x4p_service :: string
  x4p_url :: string
  x4p_payment_required :: string
  x4p_owner :: "QuoteOwner option"
  x4p_secret :: SecretMaterial
  x4p_additional_secrets :: "SecretMaterial list"

record X402PreparePaymentResponse =
  x4a_payment_id :: string
  x4a_payment_header :: string
  x4a_amount_atomic :: u64
  x4a_asset :: string
  x4a_recipient :: string
  x4a_network :: string

record X402RecordPaymentRequest =
  x4r_service :: string
  x4r_payment_id :: string
  x4r_response_status :: nat
  x4r_settlement_response :: "string option"

record X402ListPaymentsRequest =
  x4l_service :: string
  x4l_limit :: u64

datatype X402PaymentStatus = XPending | XSettled | XFailed | XDenied

record X402PaymentRecord =
  xpr_id :: string
  xpr_url :: string
  xpr_asset :: string
  xpr_amount_atomic :: u64
  xpr_amount_display :: string
  xpr_recipient :: string
  xpr_network :: string
  xpr_tx_signature :: "string option"
  xpr_status :: X402PaymentStatus
  xpr_timestamp :: string
  xpr_authorization_valid_until :: "string option"
  xpr_solana_last_valid_block_height :: "u64 option"
  xpr_authorization_expired_at :: "string option"
  xpr_authorization_expiry_observed_height :: "u64 option"
  xpr_session_id :: string
  xpr_thread_id :: "string option"

record X402ListPaymentsResponse =
  x4l_payments :: "X402PaymentRecord list"

record X402UpdateBudgetRequest =
  x4u_service :: string
  x4u_per_request_max_atomic :: "u64 option"
  x4u_daily_max_atomic :: "u64 option"
  x4u_monthly_max_atomic :: "u64 option"

record X402SpendingSummary =
  x4s_session_total_atomic :: u64
  x4s_daily_total_atomic :: u64
  x4s_monthly_total_atomic :: u64
  x4s_reserved_atomic :: u64
  x4s_per_request_max_atomic :: u64
  x4s_daily_max_atomic :: u64
  x4s_monthly_max_atomic :: u64

record X402DetailedSpendingSummary = X402SpendingSummary +
  x4s_session_count :: u64
  x4s_daily_count :: u64
  x4s_monthly_count :: u64

section \<open>The runtime\<close>

definition MAX_PENDING :: nat where
  "MAX_PENDING = 64"

text \<open>The counter of the runtime is shared with the preparations of other tasks, so it is in the state; the
  runtime itself stays while a member holds its lock.\<close>

record 'w x402_world =
  xw_preparing :: nat
  xw_world :: 'w

type_synonym 'w x402_state = "'w x402_world glob"

record X402Runtime =
  xt_config :: X402ConfigResponse
  xt_handle :: string
  xt_lease :: bool

text \<open>The libraries: \<open>HeaderValue::from_str\<close> gives a value with the text it reads back as, and the decoders
  of a node's answers name the shape they expected.\<close>

record 'j x402_env =
  xe_crates :: crates
  xe_hex :: hex_crate
  xe_codec :: "'j x402_codec"
  xe_chrono :: chrono
  xe_fuel :: nat
  xe_from_timestamp :: "int \<Rightarrow> int option"
  xe_rfc3339 :: "int \<Rightarrow> string"
  xe_header_value :: "string \<Rightarrow> string + (string + string)"
  xe_serde_error :: "json \<Rightarrow> string"

definition upd_preparing :: "(nat \<Rightarrow> nat) \<Rightarrow> 'w x402_state \<Rightarrow> 'w x402_state" where
  "upd_preparing f g = g\<lparr>g_world := (g_world g)\<lparr>xw_preparing := f (xw_preparing (g_world g))\<rparr>\<rparr>"

definition CAPACITY_REACHED :: string where
  "CAPACITY_REACHED = ''x402 pending-payment capacity reached''"

definition begin_pending :: "'w x402_state \<Rightarrow> (string + unit) \<times> 'w x402_state" where
  "begin_pending g =
     (if xw_preparing (g_world g) \<ge> MAX_PENDING then (Inl CAPACITY_REACHED, g) else (Inr (), upd_preparing Suc g))"

definition ensure_capacity :: "int \<Rightarrow> 'w x402_state \<Rightarrow> string + unit" where
  "ensure_capacity now g =
     rbind (with_ledger (\<lambda>l. usable_pending_count l now) g) (\<lambda>pending.
       if min (pending + xw_preparing (g_world g)) (2 ^ 64 - 1) > MAX_PENDING then Inl CAPACITY_REACHED else Inr ())"

definition drop_admission :: "'w x402_state \<Rightarrow> 'w x402_state" where
  "drop_admission = upd_preparing (\<lambda>n. n - 1)"

definition x402_require_handle :: "X402Runtime \<Rightarrow> string \<Rightarrow> string + unit" where
  "x402_require_handle rt handle = (if handle \<noteq> xt_handle rt then Inl ''x402 service handle is unavailable'' else Inr ())"

definition config_budget :: "X402ConfigResponse \<Rightarrow> SpendingBudget" where
  "config_budget config =
     \<lparr>per_request_max_atomic = x4c_per_request_max_atomic config, daily_max_atomic = x4c_daily_max_atomic config,
      monthly_max_atomic = x4c_monthly_max_atomic config\<rparr>"

text \<open>The process id, the start time and the generation are those of the new ledger; \<open>on_tokio\<close> says whether
  there is a runtime to spawn the renewal of the leases on.\<close>

definition x402_runtime_new :: "'j x402_env \<Rightarrow> ('w x402_world, 'v, 'n) ports \<Rightarrow> nat \<Rightarrow> int \<Rightarrow> u64 \<Rightarrow> bool \<Rightarrow> string \<Rightarrow>
    X402ConfigResponse \<Rightarrow> 'w x402_state \<Rightarrow> (ledger_error + X402Runtime) \<times> 'w x402_state" where
  "x402_runtime_new E P pid started gen on_tokio uuid config g =
     sbind (init_global_current (xe_chrono E) P (xe_fuel E) pid started gen (x4c_session_id config) (config_budget config) g)
       (\<lambda>_ g. (Inr \<lparr>xt_config = config, xt_handle = uuid, xt_lease = on_tokio\<rparr>, upd_preparing (\<lambda>_. 0) g))"

text \<open>One tick of the lease; its outcome is only logged.\<close>

definition renew_holds_once :: "'j x402_env \<Rightarrow> ('w x402_world, 'v, 'n) ports \<Rightarrow> int \<Rightarrow> 'w x402_state \<Rightarrow> 'w x402_state" where
  "renew_holds_once E P now g = snd (with_ledger_mut (renew_holds_at (xe_chrono E) P now) g)"

definition stop_lease :: "X402Runtime \<Rightarrow> X402Runtime" where
  "stop_lease rt = rt\<lparr>xt_lease := False\<rparr>"

definition x402_runtime_close :: "string \<Rightarrow> X402Runtime \<Rightarrow> 'w x402_state \<Rightarrow> (string + X402Runtime) \<times> 'w x402_state" where
  "x402_runtime_close handle rt g =
     (case x402_require_handle rt handle of
        Inl e \<Rightarrow> (Inl e, g)
      | Inr _ \<Rightarrow> (Inr (stop_lease rt), clear_global g))"

section \<open>The secrets of a payment and its signer\<close>

text \<open>A secret of the same chain as an earlier one is refused.\<close>

definition take_request_secrets :: "X402PreparePaymentRequest \<Rightarrow> string + SecretMaterial list" where
  "take_request_secrets request =
     (let secrets = x4p_secret request # x4p_additional_secrets request in
      if \<exists>i < length secrets. \<exists>prior \<in> set (take i secrets). sec_chain prior = sec_chain (secrets ! i)
      then Inl ''x402 request contains duplicate secrets for one chain'' else Inr secrets)"

text \<open>The slot is \<open>None\<close> outside its scope and \<open>Some None\<close> once emptied.\<close>

type_synonym x402_slot = "SecretMaterial list option option"

definition clone_x402_secret :: "x402_slot \<Rightarrow> Chain \<Rightarrow> string + SecretMaterial" where
  "clone_x402_secret slot chain =
     (case slot of
        None \<Rightarrow> Inl ''x402 wallet secrets are unavailable outside a confidential payment''
      | Some None \<Rightarrow> Inl ''x402 wallet secrets were already consumed''
      | Some (Some secrets) \<Rightarrow>
          ok_or ''x402 wallet secret does not match the selected payment chain''
            (List.find (\<lambda>secret. sec_chain secret = chain) secrets))"

text \<open>The owner that the scope also sets is read by quotes only.\<close>

definition with_x402_execution_context :: "SecretMaterial list \<Rightarrow> (x402_slot \<Rightarrow> 'a) \<Rightarrow> 'a" where
  "with_x402_execution_context secrets future = future (Some (Some secrets))"

fun payment_chain :: "PaymentChain \<Rightarrow> Chain" where
  "payment_chain EvmChain = Evm"
| "payment_chain SolanaChain = Solana"

definition module_account :: "crates \<Rightarrow> hex_crate \<Rightarrow> x402_slot \<Rightarrow> PaymentChain \<Rightarrow> string + PaymentAccount" where
  "module_account cr h slot chain =
     rbind (clone_x402_secret slot (payment_chain chain)) (\<lambda>secret.
     rbind (map_err failure_message (svc_derive_account cr secret)) (\<lambda>derived.
     rbind (if chain = SolanaChain then
              rbind (map_err (\<lambda>e. ''invalid derived Solana public key: '' @ e) (hexc_decode h (da_public_key derived))) (\<lambda>key.
                if length key \<noteq> 32 then Inl ''derived Solana public key was not 32 bytes'' else Inr (Some key))
            else Inr None) (\<lambda>pubkey.
       Inr \<lparr>pa_address = da_address derived, pa_pubkey = pubkey\<rparr>)))"

fun payment_scheme :: "PaymentChain \<Rightarrow> SignScheme \<Rightarrow> string + (Chain \<times> Scheme)" where
  "payment_scheme EvmChain Secp256k1Digest = Inr (Evm, Secp256k1Prehash)"
| "payment_scheme SolanaChain Ed25519Scheme = Inr (Solana, Ed25519Message)"
| "payment_scheme _ _ = Inl ''x402 payment requested an unsupported signing scheme''"

definition module_sign :: "crates \<Rightarrow> hex_crate \<Rightarrow> x402_slot \<Rightarrow> PaymentChain \<Rightarrow> bytes \<Rightarrow> SignScheme \<Rightarrow> string + bytes" where
  "module_sign cr h slot chain message sign_scheme =
     rbind (payment_scheme chain sign_scheme) (\<lambda>(expected_chain, wire_scheme).
     rbind (clone_x402_secret slot expected_chain) (\<lambda>secret.
     rbind (map_err failure_message (svc_sign_message cr secret (hexc_encode h message) wire_scheme)) (\<lambda>signature.
       case signature of
         Secp256k1Signature rs_hex recovery_id \<Rightarrow>
           rbind (map_err (\<lambda>e. ''invalid module secp256k1 signature: '' @ e) (hexc_decode h rs_hex)) (\<lambda>rs. Inr (rs @ [recovery_id]))
       | Ed25519Signature sig_hex \<Rightarrow>
           map_err (\<lambda>e. ''invalid module Ed25519 signature: '' @ e) (hexc_decode h sig_hex))))"

definition module_payment_signer :: "crates \<Rightarrow> hex_crate \<Rightarrow> x402_slot \<Rightarrow> payment_signer" where
  "module_payment_signer cr h slot = \<lparr>ps_account = module_account cr h slot, ps_sign = module_sign cr h slot\<rparr>"

section \<open>The chain\<close>

fun transport_error_to_string :: "TransportError \<Rightarrow> string" where
  "transport_error_to_string (Unreachable net message) =
     ''transport failure contacting '' @ network_id_to_string net @ '': '' @ message"
| "transport_error_to_string (Rpc net message) = network_id_to_string net @ '' returned an error: '' @ message"

definition rpc_decode :: "'j x402_env \<Rightarrow> (json \<Rightarrow> 'a option) \<Rightarrow> NetworkId \<Rightarrow> string \<Rightarrow> json \<Rightarrow> TransportError + 'a" where
  "rpc_decode E decode net rpc_method v =
     ok_or (Rpc net (rpc_method @ '': unexpected response shape: '' @ xe_serde_error E v)) (decode v)"

text \<open>One call to Solana through the host's transport, without endpoints of its own.\<close>

definition finalized_call :: "'j x402_env \<Rightarrow> 'g host \<Rightarrow> (json \<Rightarrow> 'a option) \<Rightarrow> string \<Rightarrow> 'g \<Rightarrow> (string + 'a) \<times> 'g" where
  "finalized_call E H decode rpc_method g =
     (let net = NetworkId_chain Solana in
      on_error transport_error_to_string
        (sbind (host_json_rpc H None net rpc_method (JArr [JObj [(''commitment'', JStr ''finalized'')]]) g) (\<lambda>v g.
           (rpc_decode E decode net rpc_method v, g))))"

definition blockhash_response :: "json \<Rightarrow> (string \<times> u64) option" where
  "blockhash_response v =
     Option.bind (json_get ''value'' v) (\<lambda>inner.
     Option.bind (Option.bind (json_get ''blockhash'' inner) as_str) (\<lambda>blockhash.
     Option.bind (Option.bind (json_get ''lastValidBlockHeight'' inner) as_u64) (\<lambda>last_valid.
       Some (blockhash, last_valid))))"

definition host_blockhash :: "'j x402_env \<Rightarrow> 'g host \<Rightarrow> 'g \<Rightarrow> (string + (string \<times> u64)) \<times> 'g" where
  "host_blockhash E H = finalized_call E H blockhash_response ''getLatestBlockhash''"

definition host_height :: "'j x402_env \<Rightarrow> 'g host \<Rightarrow> 'g \<Rightarrow> (X402Error + u64 option) \<times> 'g" where
  "host_height E H g =
     sbind (on_error (\<lambda>e. Wallet (''fetch finalized block height: '' @ e)) (finalized_call E H as_u64 ''getBlockHeight'' g))
       (\<lambda>n g. (Inr (Some n), g))"

text \<open>The builder awaits the chain only for a Solana payment whose account and addresses are in order.\<close>

definition module_build :: "'j x402_env \<Rightarrow> 'w x402_state host \<Rightarrow> x402_slot \<Rightarrow> moment \<Rightarrow> ('w x402_world, 'j) builder" where
  "module_build E H slot m challenge req chain g =
     (let cr = xe_crates E; s = module_payment_signer cr (xe_hex E) slot;
          payment_with = (\<lambda>blockhash. build_with_rail_metadata (cr_prims cr) (cr_ed cr) (xe_hex E) (xe_codec E) (xe_from_timestamp E) s
             \<lparr>latest_blockhash = blockhash, finalized_height = Inl ''''\<rparr> m challenge req chain);
          needs_blockhash = (chain = SolanaChain \<and> \<not> isl (rbind (map_err Wallet (ps_account s SolanaChain)) (\<lambda>account.
             rbind (account_pubkey (cr_prims cr) account) (\<lambda>pubkey.
               solana_payment_plan (cr_prims cr) (cr_ed cr) (xe_hex E) m pubkey req))))
      in if needs_blockhash then (case host_blockhash E H g of (blockhash, g) \<Rightarrow> (payment_with blockhash, g))
         else (payment_with (Inl ''''), g))"

section \<open>Preparing a payment\<close>

text \<open>What the clock reads at each point of a preparation, what \<open>fresh_nonce\<close> reads, and the identifier drawn.\<close>

record x402_moment =
  xm_refreshed :: int
  xm_admitted :: int
  xm_observed :: int
  xm_reserved :: int
  xm_recorded :: int
  xm_nonce :: moment
  xm_uuid :: string

fun x402_error_to_string :: "X402Error \<Rightarrow> string" where
  "x402_error_to_string (Transport e) = ''x402 transport: '' @ e"
| "x402_error_to_string NoPaymentHeader = ''402 response missing PAYMENT-REQUIRED header''"
| "x402_error_to_string NoPaymentOption = ''no supported payment option (Solana exact or EVM exact) in 402 challenge''"
| "x402_error_to_string (AmountExceedsCap requested cap) =
     ''x402 amount '' @ show_nat (unat requested) @ '' exceeds per-request cap '' @ show_nat (unat cap)"
| "x402_error_to_string (BudgetExceeded period current cap) =
     ''x402 '' @ period @ '' budget exceeded: '' @ show_nat (unat current) @ ''/'' @ show_nat (unat cap) @ '' atomic units''"
| "x402_error_to_string (UnsupportedNetwork net) =
     ''x402 network '' @ net @ '' is not supported; payments are accepted only in USDC on known networks''"
| "x402_error_to_string (UnsupportedAsset net mint) = ''x402 asset '' @ mint @ '' is not the USDC accepted on '' @ net"
| "x402_error_to_string NonReplayableBody =
     ''x402 request body cannot be replayed for the paid retry; use a buffered body''"
| "x402_error_to_string (Protocol e) = ''x402 protocol: '' @ e"
| "x402_error_to_string (Wallet e) = ''x402 wallet: '' @ e"

fun client_failure :: "client_error \<Rightarrow> ledger_error" where
  "client_failure (ClientError e) = Failure (x402_error_to_string e)"
| "client_failure ClientFuel = OutOfFuel"

text \<open>The terms the host is shown.\<close>

definition payment_terms :: "QuoteOwner option \<Rightarrow> string \<Rightarrow> PaymentRequirements \<Rightarrow> u64 \<Rightarrow> AuthorizeX402PaymentRequest" where
  "payment_terms owner url req n =
     \<lparr>ax_url = url, ax_network = network req, ax_asset = asset req, ax_recipient = pay_to req, ax_amount_atomic = n, ax_owner = owner\<rparr>"

definition x402_authorize :: "'w x402_state host \<Rightarrow> QuoteOwner option \<Rightarrow> 'w x402_world approver" where
  "x402_authorize H owner url req chain n g =
     sbind (authorize_x402_payment H (payment_terms owner url req n) g) (\<lambda>decision g.
       (if au_approved decision then Inr () else Inl (option_or ''x402 payment was not approved'' (au_reason decision)), g))"

definition challenge_headers :: "string + string \<Rightarrow> header_map" where
  "challenge_headers header name = (if name = HEADER_PAYMENT_REQUIRED then Some header else None)"

definition x402_pay :: "'j x402_env \<Rightarrow> ('w x402_world, 'v, 'n) ports \<Rightarrow> 'w x402_state host \<Rightarrow> x402_moment \<Rightarrow> X402PreparePaymentRequest \<Rightarrow>
    header_map \<Rightarrow> x402_slot \<Rightarrow> 'w x402_state \<Rightarrow> (ledger_error + X402PaymentResult) \<times> 'w x402_state" where
  "x402_pay E P H m request headers slot g =
     sbind (on_error client_failure
         (refresh_solana_authorizations (xe_chrono E) P (xe_fuel E) (xm_refreshed m) (host_height E H) g)) (\<lambda>_ g.
     sbind (map_err Failure (ensure_capacity (xm_admitted m) g), g) (\<lambda>_ g.
       on_error client_failure
         (handle_402_and_pay_authorized (xe_chrono E) P (xe_codec E) (xe_fuel E) (xm_observed m) (xm_reserved m) (host_height E H)
            (x402_authorize H (x4p_owner request)) (module_build E H slot (xm_nonce m)) headers (x4p_url request) g)))"

text \<open>The admission is given up when the payment fails, and otherwise after the payment is recorded.\<close>

definition x402_admit_and_pay :: "'j x402_env \<Rightarrow> ('w x402_world, 'v, 'n) ports \<Rightarrow> 'w x402_state host \<Rightarrow> x402_moment \<Rightarrow>
    X402PreparePaymentRequest \<Rightarrow> header_map \<Rightarrow> x402_slot \<Rightarrow> 'w x402_state \<Rightarrow> (ledger_error + X402PaymentResult) \<times> 'w x402_state" where
  "x402_admit_and_pay E P H m request headers slot g =
     sbind (on_error Failure (begin_pending g)) (\<lambda>_ g.
       case x402_pay E P H m request headers slot g of
         (Inl e, g) \<Rightarrow> (Inl e, drop_admission g)
       | (Inr proof_result, g) \<Rightarrow> (Inr proof_result, g))"

definition pending_record :: "X402Runtime \<Rightarrow> x402_moment \<Rightarrow> X402PreparePaymentRequest \<Rightarrow> X402PaymentResult \<Rightarrow> PaymentRecord" where
  "pending_record rt m request res =
     \<lparr>pr_id = ''x402_'' @ xm_uuid m, pr_url = xr_url res, pr_asset = xr_asset res, pr_amount_atomic = xr_amount_atomic res,
      pr_amount_display = format_usdc (xr_amount_atomic res), pr_recipient = xr_recipient res, pr_network = xr_network res,
      pr_tx_signature = None, pr_status = Pending, pr_timestamp = xm_recorded m,
      pr_authorization_valid_until = xr_authorization_valid_until res,
      pr_solana_last_valid_block_height = xr_solana_last_valid_block_height res, pr_authorization_expired_at = None,
      pr_authorization_expiry_observed_height = None, pr_session_id = x4c_session_id (xt_config rt),
      pr_thread_id = map_option thread_id (x4p_owner request)\<rparr>"

definition prepared_response :: "x402_moment \<Rightarrow> X402PaymentResult \<Rightarrow> X402PreparePaymentResponse" where
  "prepared_response m res =
     \<lparr>x4a_payment_id = ''x402_'' @ xm_uuid m, x4a_payment_header = xr_header_value res, x4a_amount_atomic = xr_amount_atomic res,
      x4a_asset = xr_asset res, x4a_recipient = xr_recipient res, x4a_network = xr_network res\<rparr>"

fun not_recorded :: "ledger_error \<Rightarrow> ledger_error" where
  "not_recorded (Failure _) = Failure ''x402 payment budget could not be durably recorded''"
| "not_recorded OutOfFuel = OutOfFuel"

definition x402_prepare :: "'j x402_env \<Rightarrow> ('w x402_world, 'v, 'n) ports \<Rightarrow> 'w x402_state host \<Rightarrow> x402_moment \<Rightarrow> X402Runtime \<Rightarrow>
    X402PreparePaymentRequest \<Rightarrow> 'w x402_state \<Rightarrow> (ledger_error + X402PreparePaymentResponse) \<times> 'w x402_state" where
  "x402_prepare E P H m rt request g =
     sbind (map_err Failure (x402_require_handle rt (x4p_service request)), g) (\<lambda>_ g.
     sbind (map_err Failure (take_request_secrets request), g) (\<lambda>secrets g.
     sbind (map_err (\<lambda>e. Failure (''invalid payment challenge header: '' @ e)) (xe_header_value E (x4p_payment_required request)), g) (\<lambda>header g.
     sbind (with_x402_execution_context secrets (x402_admit_and_pay E P H m request (challenge_headers header)) g) (\<lambda>res g.
       let (r, g) = on_error not_recorded
             (commit_durable (xe_chrono E) P (xe_fuel E) (xr_reservation res) (pending_record rt m request res) g)
       in (rbind r (\<lambda>_. Inr (prepared_response m res)), drop_admission g)))))"

section \<open>Recording the outcome and reading the ledger\<close>

definition trusted_receipt :: "'j x402_codec \<Rightarrow> string option \<Rightarrow> 'j SettlementResponse option" where
  "trusted_receipt k header =
     (case map_option (parse_settlement_response k) header of
        Some (Inr receipt) \<Rightarrow> if sr_success receipt then Some receipt else None
      | _ \<Rightarrow> None)"

definition x402_record :: "'j x402_env \<Rightarrow> ('w x402_world, 'v, 'n) ports \<Rightarrow> int \<Rightarrow> X402Runtime \<Rightarrow> X402RecordPaymentRequest \<Rightarrow>
    'w x402_state \<Rightarrow> (ledger_error + unit) \<times> 'w x402_state" where
  "x402_record E P now rt request g =
     sbind (map_err Failure (x402_require_handle rt (x4r_service request)), g) (\<lambda>_ g.
     sbind (map_err Failure (with_ledger (\<lambda>l. payment l (x4r_payment_id request)) g), g) (\<lambda>found g.
     sbind (ok_or (Failure ''x402 payment handle was missing'') found, g) (\<lambda>pending g.
       if pr_status pending = Settled then (Inr (), g)
       else if pr_status pending \<noteq> Pending \<and> \<not> (pr_status pending = Failed \<and> pr_authorization_valid_until pending \<noteq> None) then
         (Inl (Failure ''x402 payment handle was missing or expired''), g)
       else
         let receipt = trusted_receipt (xe_codec E) (x4r_settlement_response request);
             status = (if receipt \<noteq> None then Settled else Pending);
             tx_signature = Option.bind receipt (\<lambda>r. if sr_transaction r = [] then None else Some (sr_transaction r))
         in if status = pr_status pending then (Inr (), g)
            else flatten_ledger (with_ledger_mut (try_record_payment (xe_chrono E) P (xe_fuel E)
                   (pending\<lparr>pr_id := x4r_payment_id request, pr_tx_signature := tx_signature, pr_status := status, pr_timestamp := now\<rparr>)) g))))"

definition ledger_summary :: "chrono \<Rightarrow> int \<Rightarrow> PaymentLedger \<Rightarrow> X402SpendingSummary" where
  "ledger_summary c now l =
     (let summary = summary_at c l now; budget = l_budget l in
      \<lparr>x4s_session_total_atomic = session_total_atomic summary, x4s_daily_total_atomic = daily_total_atomic summary,
       x4s_monthly_total_atomic = monthly_total_atomic summary, x4s_reserved_atomic = outstanding_atomic l,
       x4s_per_request_max_atomic = per_request_max_atomic budget, x4s_daily_max_atomic = daily_max_atomic budget,
       x4s_monthly_max_atomic = monthly_max_atomic budget\<rparr>)"

definition x402_summary :: "'j x402_env \<Rightarrow> int \<Rightarrow> X402Runtime \<Rightarrow> string \<Rightarrow> 'w x402_state \<Rightarrow> string + X402SpendingSummary" where
  "x402_summary E now rt service g =
     rbind (x402_require_handle rt service) (\<lambda>_. with_ledger (ledger_summary (xe_chrono E) now) g)"

fun status_to_wire :: "PaymentStatus \<Rightarrow> X402PaymentStatus" where
  "status_to_wire Pending = XPending"
| "status_to_wire Settled = XSettled"
| "status_to_wire Failed = XFailed"
| "status_to_wire Denied = XDenied"

definition payment_record_to_wire :: "(int \<Rightarrow> string) \<Rightarrow> PaymentRecord \<Rightarrow> X402PaymentRecord" where
  "payment_record_to_wire rfc3339 r =
     \<lparr>xpr_id = pr_id r, xpr_url = pr_url r, xpr_asset = pr_asset r, xpr_amount_atomic = pr_amount_atomic r,
      xpr_amount_display = pr_amount_display r, xpr_recipient = pr_recipient r, xpr_network = pr_network r,
      xpr_tx_signature = pr_tx_signature r, xpr_status = status_to_wire (pr_status r), xpr_timestamp = rfc3339 (pr_timestamp r),
      xpr_authorization_valid_until = map_option rfc3339 (pr_authorization_valid_until r),
      xpr_solana_last_valid_block_height = pr_solana_last_valid_block_height r,
      xpr_authorization_expired_at = map_option rfc3339 (pr_authorization_expired_at r),
      xpr_authorization_expiry_observed_height = pr_authorization_expiry_observed_height r,
      xpr_session_id = pr_session_id r, xpr_thread_id = pr_thread_id r\<rparr>"

definition x402_list :: "'j x402_env \<Rightarrow> X402Runtime \<Rightarrow> X402ListPaymentsRequest \<Rightarrow> 'w x402_state \<Rightarrow> string + X402ListPaymentsResponse" where
  "x402_list E rt request g =
     rbind (x402_require_handle rt (x4l_service request)) (\<lambda>_.
       with_ledger (\<lambda>l. \<lparr>x4l_payments =
         map (payment_record_to_wire (xe_rfc3339 E)) (recent_payments l (unat (min (x4l_limit request) 500)))\<rparr>) g)"

definition merged_budget :: "X402UpdateBudgetRequest \<Rightarrow> SpendingBudget \<Rightarrow> SpendingBudget" where
  "merged_budget request b =
     b\<lparr>per_request_max_atomic := option_or (per_request_max_atomic b) (x4u_per_request_max_atomic request),
       daily_max_atomic := option_or (daily_max_atomic b) (x4u_daily_max_atomic request),
       monthly_max_atomic := option_or (monthly_max_atomic b) (x4u_monthly_max_atomic request)\<rparr>"

definition x402_change_budget :: "'j x402_env \<Rightarrow> int \<Rightarrow> X402Runtime \<Rightarrow> X402UpdateBudgetRequest \<Rightarrow> 'w x402_state \<Rightarrow>
    (string + X402SpendingSummary) \<times> 'w x402_state" where
  "x402_change_budget E now rt request g =
     sbind (x402_require_handle rt (x4u_service request), g) (\<lambda>_ g.
     sbind (with_ledger_mut (\<lambda>\<sigma>. ((), update_budget (merged_budget request (l_budget (led \<sigma>))) \<sigma>)) g) (\<lambda>_ g.
       (x402_summary E now rt (x4u_service request) g, g)))"

text \<open>A count is a \<open>usize\<close>, which is 64 bits wide.\<close>

definition x402_detailed_summary :: "'j x402_env \<Rightarrow> int \<Rightarrow> X402Runtime \<Rightarrow> string \<Rightarrow> 'w x402_state \<Rightarrow> string + X402DetailedSpendingSummary" where
  "x402_detailed_summary E now rt service g =
     rbind (x402_require_handle rt service) (\<lambda>_.
       with_ledger (\<lambda>l. let summary = summary_at (xe_chrono E) l now in
         X402SpendingSummary.extend (ledger_summary (xe_chrono E) now l)
           (X402DetailedSpendingSummary.fields (session_count summary) (daily_count summary) (monthly_count summary))) g)"

section \<open>The members\<close>

text \<open>An error of the bus, or the reading loop of the ledger running out of fuel.\<close>

datatype x402_fault = X402Failed BusError | X402Fuel

definition x402_operation_failed :: "string \<Rightarrow> x402_fault" where
  "x402_operation_failed message = X402Failed (MethodFailed ''ai.tinyhumans.tinywallet.Error.X402OperationFailed'' message)"

fun x402_fault_of :: "ledger_error \<Rightarrow> x402_fault" where
  "x402_fault_of (Failure message) = x402_operation_failed message"
| "x402_fault_of OutOfFuel = X402Fuel"

definition x402_service :: "(X402Runtime \<Rightarrow> 'w x402_state \<Rightarrow> (x402_fault + 'r) \<times> 'w x402_state) \<Rightarrow> X402Runtime option \<Rightarrow>
    'w x402_state \<Rightarrow> (x402_fault + 'r) \<times> 'w x402_state" where
  "x402_service op active g = (case active of None \<Rightarrow> (Inl (X402Failed host_unavailable), g) | Some rt \<Rightarrow> op rt g)"

definition x402_prepare_payment where
  "x402_prepare_payment E P H m request =
     x402_service (\<lambda>rt g. on_error x402_fault_of (x402_prepare E P H m rt request g))"

definition x402_record_payment where
  "x402_record_payment E P now request =
     x402_service (\<lambda>rt g. on_error x402_fault_of (x402_record E P now rt request g))"

definition x402_spending_summary where
  "x402_spending_summary E now service =
     x402_service (\<lambda>rt g. (map_err x402_operation_failed (x402_summary E now rt service g), g))"

definition x402_list_payments where
  "x402_list_payments E request =
     x402_service (\<lambda>rt g. (map_err x402_operation_failed (x402_list E rt request g), g))"

definition x402_update_budget where
  "x402_update_budget E now request =
     x402_service (\<lambda>rt g. on_error x402_operation_failed (x402_change_budget E now rt request g))"

definition x402_spending_summary_detailed where
  "x402_spending_summary_detailed E now service =
     x402_service (\<lambda>rt g. (map_err x402_operation_failed (x402_detailed_summary E now rt service g), g))"

text \<open>\<open>storage\<close> is the connection to the storage the host has provisioned. The replacement is opened before
  the runtime is replaced.\<close>

definition x402_configure :: "'j x402_env \<Rightarrow> bool \<Rightarrow> ('w x402_state \<Rightarrow> (string + ('w x402_world, 'v, 'n) ports) \<times> 'w x402_state) \<Rightarrow>
    nat \<Rightarrow> int \<Rightarrow> u64 \<Rightarrow> bool \<Rightarrow> string \<Rightarrow> X402ConfigResponse \<Rightarrow> X402Runtime option \<Rightarrow> 'w x402_state \<Rightarrow>
    (x402_fault + string) \<times> X402Runtime option \<times> 'w x402_state" where
  "x402_configure E callbacks storage pid started gen on_tokio uuid config active g =
     (if \<not> callbacks then (Inl (X402Failed host_unavailable), active, g)
      else case storage g of
        (Inl e, g) \<Rightarrow> (Inl (x402_operation_failed e), active, g)
      | (Inr P, g) \<Rightarrow>
          (case x402_runtime_new E P pid started gen on_tokio uuid config g of
             (Inl e, g) \<Rightarrow> (Inl (x402_fault_of e), active, g)
           | (Inr rt, g) \<Rightarrow> (Inr (xt_handle rt), Some rt, g)))"

definition x402_close :: "string \<Rightarrow> X402Runtime option \<Rightarrow> 'w x402_state \<Rightarrow> (x402_fault + unit) \<times> X402Runtime option \<times> 'w x402_state" where
  "x402_close service active g =
     (case active of
        None \<Rightarrow> (Inl (X402Failed host_unavailable), active, g)
      | Some rt \<Rightarrow>
          (case x402_runtime_close service rt g of
             (Inl e, g) \<Rightarrow> (Inl (x402_operation_failed e), active, g)
           | (Inr rt, g) \<Rightarrow> (Inr (), None, g)))"

end
