(* ===== verification/TW_Module_Payment.thy ===== *)
theory TW_Module_Payment
  imports TW_Module_X402
begin

text \<open>
  What a payment that the module hands out has gone through (\<open>prepare\<close> of
  \<open>tinywallet-module/src/service/x402.rs\<close>), with a concrete service for the witnesses.
\<close>

lemma on_error_eq_Inr: "on_error f m = (Inr r, g) \<longleftrightarrow> m = (Inr r, g)"
  by (cases m) (auto simp: on_error_def map_err_eq_Inr)

lemma earlier_equal: "(\<exists>i < length xs. \<exists>p \<in> set (take i xs). f p = f (xs ! i)) \<longleftrightarrow> \<not> distinct (map f xs)"
proof (induction xs rule: rev_induct)
  case (snoc x xs)
  have "(\<exists>i < length xs. \<exists>p \<in> set (take i (xs @ [x])). f p = f ((xs @ [x]) ! i)) \<longleftrightarrow>
      (\<exists>i < length xs. \<exists>p \<in> set (take i xs). f p = f (xs ! i))"
    by (intro ex_cong1 conj_cong) (simp_all add: nth_append)
  with snoc show ?case by (simp add: Ex_less_Suc) (metis image_iff)
qed simp

text \<open>The secrets of a request are accepted exactly when there is one per chain.\<close>

lemma take_request_secrets_Inr:
  "take_request_secrets request = Inr secrets \<longleftrightarrow>
     secrets = x4p_secret request # x4p_additional_secrets request \<and> distinct (map sec_chain secrets)"
proof -
  let ?s = "x4p_secret request # x4p_additional_secrets request"
  from earlier_equal [of ?s sec_chain] show ?thesis
    unfolding take_request_secrets_def Let_def by (auto simp del: list.map(2))
qed

lemma x402_authorize_Inr:
  "x402_authorize H owner url req chain n g = (Inr (), g') \<longleftrightarrow>
     (\<exists>decision. authorize_x402_payment H (payment_terms owner url req n) g = (Inr decision, g') \<and> au_approved decision)"
  by (auto simp: x402_authorize_def result_simps)

lemma x402_prepare_Inr:
  assumes "x402_prepare E P H m rt request g = (Inr response, g')"
  obtains secrets header g0 g1 res g2 where
    "x4p_service request = xt_handle rt" "take_request_secrets request = Inr secrets"
    "xe_header_value E (x4p_payment_required request) = Inr header"
    "ensure_capacity (xm_admitted m) g0 = Inr ()"
    "handle_402_and_pay_authorized (xe_chrono E) P (xe_codec E) (xe_fuel E) (xm_observed m) (xm_reserved m) (host_height E H)
       (x402_authorize H (x4p_owner request)) (module_build E H (Some (Some secrets)) (xm_nonce m)) (challenge_headers header)
       (x4p_url request) g0 = (Inr res, g1)"
    "commit_durable (xe_chrono E) P (xe_fuel E) (xr_reservation res) (pending_record rt m request res) g1 = (Inr (), g2)"
    "response = prepared_response m res"
proof -
  from assms obtain secrets header res g1 where a: "x4p_service request = xt_handle rt" "take_request_secrets request = Inr secrets"
    "xe_header_value E (x4p_payment_required request) = Inr header"
    and p: "x402_admit_and_pay E P H m request (challenge_headers header) (Some (Some secrets)) g = (Inr res, g1)"
    and c: "(let (r, g) = on_error not_recorded
             (commit_durable (xe_chrono E) P (xe_fuel E) (xr_reservation res) (pending_record rt m request res) g1)
       in (rbind r (\<lambda>_. Inr (prepared_response m res)), drop_admission g)) = (Inr response, g')"
    by (auto simp: x402_prepare_def result_simps x402_require_handle_def with_x402_execution_context_def split: if_splits)
  from p obtain gb where "(case x402_pay E P H m request (challenge_headers header) (Some (Some secrets)) gb of
      (Inl e, g) \<Rightarrow> (Inl e, drop_admission g) | (Inr res, g) \<Rightarrow> (Inr res, g)) = (Inr res, g1)"
    by (auto simp: x402_admit_and_pay_def sbind_eq_Inr)
  then have "x402_pay E P H m request (challenge_headers header) (Some (Some secrets)) gb = (Inr res, g1)"
    by (cases "x402_pay E P H m request (challenge_headers header) (Some (Some secrets)) gb") (auto split: sum.splits)
  then obtain g0 where b: "ensure_capacity (xm_admitted m) g0 = Inr ()"
    "handle_402_and_pay_authorized (xe_chrono E) P (xe_codec E) (xe_fuel E) (xm_observed m) (xm_reserved m) (host_height E H)
       (x402_authorize H (x4p_owner request)) (module_build E H (Some (Some secrets)) (xm_nonce m)) (challenge_headers header)
       (x4p_url request) g0 = (Inr res, g1)"
    by (auto simp: x402_pay_def result_simps on_error_eq_Inr)
  from c obtain g2 where "commit_durable (xe_chrono E) P (xe_fuel E) (xr_reservation res) (pending_record rt m request res) g1 = (Inr (), g2)"
    "response = prepared_response m res"
    by (auto simp: on_error_eq_Inr result_simps split: prod.splits)
  with a b that show thesis by blast
qed


section \<open>Recording the outcome\<close>

lemma trusted_receipt_Some:
  "trusted_receipt k header = Some receipt \<longleftrightarrow>
     (\<exists>value. header = Some value \<and> parse_settlement_response k value = Inr receipt \<and> sr_success receipt)"
  by (auto simp: trusted_receipt_def split: option.splits sum.splits)

lemma snd_flatten_ledger: "snd (flatten_ledger m) = snd m"
  by (cases m) (auto simp: flatten_ledger_def split: sum.splits)

text \<open>C21: Reporting the outcome of a payment can only settle it, and only on a receipt. If \<open>x402_record_payment\<close>
  changes anything at all, the caller has the handle of the service, the payment is known and neither settled
  nor denied, and the one thing done is to record a row with its id, amount, asset, recipient and network
  unchanged; the row is settled exactly when the settlement header decodes to a successful receipt.
  Without one only a row of the earlier scheme, failed with an authorization window, is touched, and becomes
  pending again. In particular a repeated report of a settled payment changes nothing.\<close>

theorem outcome_settles_on_receipt:
  assumes "x402_record_payment E P now request active g = (res, g')" and "g' \<noteq> g"
  shows "\<exists>rt l p r. active = Some rt \<and> x4r_service request = xt_handle rt \<and> g_ledger g = Some l \<and>
    payment l (x4r_payment_id request) = Some p \<and> pr_status p \<noteq> Settled \<and> pr_status p \<noteq> Denied \<and>
    g' = snd (with_ledger_mut (try_record_payment (xe_chrono E) P (xe_fuel E) r) g) \<and>
    pr_id r = x4r_payment_id request \<and> pr_amount_atomic r = pr_amount_atomic p \<and> pr_asset r = pr_asset p \<and>
    pr_recipient r = pr_recipient p \<and> pr_network r = pr_network p \<and> pr_url r = pr_url p \<and>
    (pr_status r = Settled \<longleftrightarrow> (\<exists>header receipt. x4r_settlement_response request = Some header \<and>
       parse_settlement_response (xe_codec E) header = Inr receipt \<and> sr_success receipt)) \<and>
    (pr_status r \<noteq> Settled \<longrightarrow> pr_status r = Pending \<and> pr_status p = Failed \<and> pr_authorization_valid_until p \<noteq> None)"
proof -
  from assms obtain rt where rt: "active = Some rt"
    by (auto simp: x402_record_payment_def x402_service_def split: option.splits)
  obtain u where u: "x402_record E P now rt request g = (u, g')"
    using assms(1) rt by (auto simp: x402_record_payment_def x402_service_def on_error_def prod_eq_iff)
  with assms(2) obtain l where l: "x4r_service request = xt_handle rt" "g_ledger g = Some l"
    by (auto simp: x402_record_def x402_require_handle_def with_ledger_def split: if_splits option.splits)
  with u assms(2) obtain p where p: "payment l (x4r_payment_id request) = Some p"
    by (cases "payment l (x4r_payment_id request)") (auto simp: x402_record_def x402_require_handle_def with_ledger_def)
  let ?t = "trusted_receipt (xe_codec E) (x4r_settlement_response request)"
  let ?r = "p\<lparr>pr_id := x4r_payment_id request,
      pr_tx_signature := Option.bind ?t (\<lambda>r. if sr_transaction r = [] then None else Some (sr_transaction r)),
      pr_status := if ?t \<noteq> None then Settled else Pending, pr_timestamp := now\<rparr>"
  have w: "pr_status p \<noteq> Settled" "pr_status p = Pending \<or> pr_status p = Failed \<and> pr_authorization_valid_until p \<noteq> None"
      "(if ?t \<noteq> None then Settled else Pending) \<noteq> pr_status p"
      "g' = snd (flatten_ledger (with_ledger_mut (try_record_payment (xe_chrono E) P (xe_fuel E) ?r) g))"
    using u assms(2) l p
    by (auto simp: x402_record_def x402_require_handle_def with_ledger_def Let_def prod_eq_iff split: if_splits)
  note g' = w(4) [unfolded snd_flatten_ledger]
  have t: "?t \<noteq> None \<longleftrightarrow> (\<exists>header receipt. x4r_settlement_response request = Some header \<and>
      parse_settlement_response (xe_codec E) header = Inr receipt \<and> sr_success receipt)"
    by (auto simp: trusted_receipt_Some simp flip: not_Some_eq)
  show ?thesis
    by (rule exI [of _ rt], rule exI [of _ l], rule exI [of _ p], rule exI [of _ ?r])
      (use rt l p w(1-3) g' t in \<open>auto split: if_splits\<close>)
qed

section \<open>Replacing the service\<close>

text \<open>A configuration that fails leaves the previous service in place with its ledger, if connecting to the
  storage leaves the ledger alone.\<close>

lemma failed_configure_keeps:
  assumes "x402_configure E callbacks storage pid started gen on_tokio uuid config active g = (Inl e, active', g')"
    and "\<And>g r g'. storage g = (r, g') \<Longrightarrow> g_ledger g' = g_ledger g"
  shows "active' = active \<and> g_ledger g' = g_ledger g"
  using assms
  by (auto simp: x402_configure_def x402_runtime_new_def init_global_current_def sbind_def split: if_splits prod.splits sum.splits)

section \<open>A concrete service\<close>

text \<open>A store that accepts every write and keeps nothing, a host that approves everything, and a challenge for
  250 units of USDC on Base.\<close>

definition quiet_ports :: "(nat x402_world, nat, nat) ports" where
  "quiet_ports =
     \<lparr>stream_len = (\<lambda>_ w. (PortOk 0, w)), read_window = (\<lambda>_ _ _ w. (PortOk [], w)), stream_append = (\<lambda>_ _ w. (PortOk 0, w)),
      doc_get = (\<lambda>_ _ w. (PortOk None, w)), doc_put_with = (\<lambda>_ _ _ _ w. (PortOk (), w)), payment_to_value = (\<lambda>_. Inr 0),
      payment_from_value = (\<lambda>_. Inl ''none''), holds_to_value = (\<lambda>_. Inr 0), holds_from_value = (\<lambda>_. Inr []),
      ready_from_value = (\<lambda>_. Inl ''none'')\<rparr>"

definition x402_state0 :: "nat x402_state" where
  "x402_state0 = \<lparr>g_ledger = Some sample_ledger, g_world = \<lparr>xw_preparing = 0, xw_world = 0\<rparr>, g_next = 1\<rparr>"

definition approving_host :: "nat x402_state host" where
  "approving_host = \<lparr>hb_call = \<lambda>_ _ g. (Inr (AuthorizationReply \<lparr>au_approved = True, au_reason = None\<rparr>), g), hb_debug = \<lambda>_. []\<rparr>"

definition base_challenge :: "unit PaymentRequired" where
  "base_challenge = pay_challenge\<lparr>accepts := [evm_req]\<rparr>"

definition x402_sample_env :: "unit x402_env" where
  "x402_sample_env =
     \<lparr>xe_crates = sample_crates, xe_hex = pay_hex, xe_codec = pay_codec\<lparr>challenge_from_slice := \<lambda>_. Inr base_challenge\<rparr>,
      xe_chrono = sample_chrono, xe_fuel = 3, xe_from_timestamp = Some, xe_rfc3339 = \<lambda>_. [], xe_header_value = \<lambda>s. Inr (Inr s),
      xe_serde_error = \<lambda>_. []\<rparr>"

definition x402_sample_moment :: x402_moment where
  "x402_sample_moment = \<lparr>xm_refreshed = 4000, xm_admitted = 4000, xm_observed = 5000, xm_reserved = 5000, xm_recorded = 6000,
     xm_nonce = pay_moment, xm_uuid = ''u1''\<rparr>"

definition x402_sample_runtime :: X402Runtime where
  "x402_sample_runtime = \<lparr>xt_config = \<lparr>x4c_workspace_dir = [], x4c_session_id = ''s'', x4c_per_request_max_atomic = 800,
     x4c_daily_max_atomic = 1000, x4c_monthly_max_atomic = 5000\<rparr>, xt_handle = ''h'', xt_lease = True\<rparr>"

definition x402_sample_request :: X402PreparePaymentRequest where
  "x402_sample_request = \<lparr>x4p_service = ''h'', x4p_url = ''u'', x4p_payment_required = ''x'', x4p_owner = None, x4p_secret = sample_secret,
     x4p_additional_secrets = []\<rparr>"

abbreviation x402_sample_slot :: x402_slot where
  "x402_sample_slot \<equiv> Some (Some [sample_secret])"

lemma length_sample_keccak: "length (keccak256 sample_prims b) = 32"
  by (simp add: sample_prims_def sample_hash_def)

lemma sample_clone: "clone_x402_secret x402_sample_slot Evm = Inr sample_secret"
  by (simp add: clone_x402_secret_def sample_secret_def ok_or_def)

lemma sample_account:
  "\<exists>a. module_account sample_crates pay_hex x402_sample_slot EvmChain = Inr a \<and> evm_validate (pa_address a) = Inr (pa_address a)"
proof -
  obtain d where d: "svc_derive sample_crates sample_secret = Inr d" using sample_derive by blast
  then have "evm_derive sample_prims sample_key_crates ''phrase'' ''m/44'' = Inr d"
    by (simp add: svc_derive_def key_derive_def sample_secret_def map_err_eq_Inr)
  then have "evm_validate (dk_address d) = Inr (dk_address d)"
    using evm_address_from_public_valid [of sample_prims] length_sample_keccak by (auto simp: evm_derive_def result_simps)
  moreover have "public_key_hex sample_crates (sec_chain sample_secret) (dk_secret d) = Inr (hex_encode (cr_secp_public sample_crates (dk_secret d)))"
    by (simp add: public_key_hex_def sample_secret_def sample_secp_def)
  ultimately show ?thesis using d by (simp add: module_account_def sample_clone svc_derive_account_def)
qed

lemma sample_payment_signature:
  assumes "length message = 32"
  shows "\<exists>s. module_sign sample_crates pay_hex x402_sample_slot EvmChain message Secp256k1Digest = Inr (s @ [0]) \<and> length s = 64"
proof -
  obtain d where d: "svc_derive sample_crates sample_secret = Inr d" using sample_derive by blast
  let ?s = "take 64 (message @ dk_secret d @ replicate 64 0)"
  have "svc_sign_message sample_crates sample_secret (hexc_encode pay_hex message) Secp256k1Prehash = Inr (Secp256k1Signature (hex_encode ?s) 0)"
    using assms d by (simp add: svc_sign_message_def sign_payload_def pay_hex_def svc_decode_hex_encode sample_secp_def)
  then have "module_sign sample_crates pay_hex x402_sample_slot EvmChain message Secp256k1Digest = Inr (?s @ [0])"
    by (simp add: module_sign_def sample_clone pay_hex_def decode_hex_pairs_encode)
  then show ?thesis using assms by auto
qed

lemma sample_module_build: "\<exists>paid. module_build x402_sample_env approving_host x402_sample_slot pay_moment base_challenge evm_req EvmChain g = (Inr paid, g)"
proof -
  let ?s = "module_payment_signer sample_crates pay_hex x402_sample_slot"
  obtain a where a: "module_account sample_crates pay_hex x402_sample_slot EvmChain = Inr a" "evm_validate (pa_address a) = Inr (pa_address a)"
    using sample_account by blast
  have v: "evm_validate ''0x52908400098527886e0f7030069857d2e4169ee7'' = Inr ''0x52908400098527886e0f7030069857d2e4169ee7''"
      "evm_validate USDC_BASE_MAINNET = Inr USDC_BASE_MAINNET"
    by code_simp+
  obtain b0 where "evm_address_bytes pay_hex (pa_address a) = Inr b0" using pay_hex_address [OF a(2)] by blast
  moreover obtain b1 where "evm_address_bytes pay_hex ''0x52908400098527886e0f7030069857d2e4169ee7'' = Inr b1"
    using pay_hex_address [OF v(1)] by blast
  moreover obtain b2 where "evm_address_bytes pay_hex USDC_BASE_MAINNET = Inr b2" using pay_hex_address [OF v(2)] by blast
  moreover have "pay_to evm_req = ''0x52908400098527886e0f7030069857d2e4169ee7''" "asset evm_req = USDC_BASE_MAINNET" "amount evm_req = ''250''"
    by (simp_all add: evm_req_def)
  ultimately obtain au where au: "evm_payment_authorization sample_prims pay_hex pay_moment (pa_address a) evm_req = Inr au" "length (epa_digest au) = 32"
    by (simp add: evm_payment_authorization_def evm_req_chain parse_250 Let_def signing_digest_def length_sample_keccak)
  from sample_payment_signature [OF au(2)] obtain s where
    s: "module_sign sample_crates pay_hex x402_sample_slot EvmChain (epa_digest au) Secp256k1Digest = Inr (s @ [0])" "length s = 64" by blast
  have "checked_add (0 :: u8) 27 = Some 27" by (simp add: checked_add_def)
  with a au s obtain payload where "build_evm_payment sample_prims pay_hex ?s pay_moment base_challenge evm_req = Inr payload"
    by (simp add: build_evm_payment_def module_payment_signer_def eip712_signature_def evm_payment_payload_def evm_req_chain nth_append)
  then show ?thesis
    by (simp add: module_build_def x402_sample_env_def build_with_rail_metadata_def)
qed

lemma sample_x402_select: "select_requirement base_challenge = Inr (0, EvmChain)"
proof -
  have c: "chain_of BASE_MAINNET_CAIP2 = Some EvmChain" by (simp add: chain_of_def BASE_MAINNET_CAIP2_def)
  have u: "check_usdc BASE_MAINNET_CAIP2 USDC_BASE_MAINNET = AssetAllowed" by code_simp
  show ?thesis
    by (simp add: select_requirement_def base_challenge_def pay_challenge_def evm_req_def c u ensure_payable_eq get_or_insert_def)
qed

definition x402_sample_sys :: "nat x402_world sys" where
  "x402_sample_sys = \<lparr>led = sample_ledger, world = \<lparr>xw_preparing = 1, xw_world = 0\<rparr>, next_reservation = 1\<rparr>"

lemma quiet_snapshot: "take_snapshot sample_chrono quiet_ports (Suc n) now x402_sample_sys = (Inr None, x402_sample_sys)"
proof -
  have h: "on_world (load_holds quiet_ports) x402_sample_sys = (Inr (None, []), x402_sample_sys)"
    by (simp add: on_world_def load_holds_def quiet_ports_def x402_sample_sys_def)
  have "refresh_records sample_chrono quiet_ports (Suc n) x402_sample_sys = (Inr (), x402_sample_sys)"
    by (simp add: refresh_records_def on_world_def read_from_def quiet_ports_def absorb_def map_filter_simps x402_sample_sys_def sample_ledger_def)
  with h show ?thesis by (simp add: take_snapshot_def live_holds_def x402_sample_sys_def sample_ledger_def)
qed

lemma quiet_reserve: "\<exists>\<sigma>. reserve_at sample_chrono quiet_ports 3 5000 250 x402_sample_sys = (Inr (Inr 1), \<sigma>)"
proof -
  obtain \<sigma> where e: "place_hold sample_chrono quiet_ports 5000 250 None x402_sample_sys = (Inr (Held 1), \<sigma>)"
    by (simp add: place_hold_def Let_def on_world_def store_holds_def quiet_ports_def x402_sample_sys_def)
  have l: "led x402_sample_sys = sample_ledger" "\<not> per_request_max_atomic (l_budget sample_ledger) < 250"
    by (simp_all add: x402_sample_sys_def sample_ledger_def)
  have c: "check_budget_at sample_chrono sample_ledger 5000 250 = Allowed" by (rule sample_check) simp
  have "reserve_attempt sample_chrono quiet_ports (Suc 2) 5000 250 x402_sample_sys = (Inr (Held 1), \<sigma>)"
    unfolding reserve_attempt_def quiet_snapshot by (simp add: l c e)
  then show ?thesis unfolding reserve_at_def HOLD_CAS_ATTEMPTS_Suc reserve_loop.simps by (simp add: l)
qed

lemma quiet_commit:
  assumes "g_ledger g = Some l"
  shows "\<exists>g'. commit_durable sample_chrono quiet_ports 3 \<lparr>rv_id = Some i, rv_amount = n\<rparr> r g = (Inr (), g')"
proof -
  let ?k = "map_option own_key (map_of (l_reservations l) i)"
  obtain res \<sigma> where a: "append_record sample_chrono quiet_ports 3 r ?k (sys_of g l) = (res, \<sigma>)" by fastforce
  then have "res = Inr ()"
    by (auto simp: append_record_def Let_def on_world_def persist_append_def quiet_ports_def split: if_splits option.splits prod.splits sum.splits)
  with a have "try_commit_reservation sample_chrono quiet_ports 3 i r (sys_of g l) = (Inr (), release quiet_ports i \<sigma>)"
    by (simp add: try_commit_reservation_def sys_of_def)
  with assms show ?thesis by (simp add: commit_durable_def flatten_ledger_def with_ledger_mut_def)
qed

lemma sample_x402_run:
  "\<exists>response g'. x402_prepare_payment x402_sample_env quiet_ports approving_host x402_sample_moment x402_sample_request
     (Some x402_sample_runtime) x402_state0 = (Inr response, g') \<and> x4a_amount_atomic response = 250 \<and> x4a_payment_id response = ''x402_u1''"
proof -
  let ?E = x402_sample_env and ?H = approving_host and ?g = "upd_preparing Suc x402_state0"
  obtain \<sigma> where \<sigma>: "reserve_at sample_chrono quiet_ports 3 5000 250 x402_sample_sys = (Inr (Inr 1), \<sigma>)" using quiet_reserve by blast
  obtain paid where b: "module_build ?E ?H x402_sample_slot pay_moment base_challenge evm_req EvmChain (glob_of \<sigma>) = (Inr paid, glob_of \<sigma>)"
    using sample_module_build by blast
  have sys: "sys_of ?g sample_ledger = x402_sample_sys" "g_ledger ?g = Some sample_ledger"
    by (simp_all add: sys_of_def upd_preparing_def x402_state0_def x402_sample_sys_def)
  have refresh: "refresh_solana_authorizations c P fuel t h ?g = (Inr (), ?g)" for c P fuel t h
    by (simp add: refresh_solana_authorizations_def with_ledger_def sys sample_ledger_def solana_candidates_def pending_payments_def map_filter_simps)
  have reserve: "reservation_reserve sample_chrono quiet_ports 3 5000 250 ?g = (Inr (Inr \<lparr>rv_id = Some 1, rv_amount = 250\<rparr>), glob_of \<sigma>)"
    by (simp add: reservation_reserve_def flatten_ledger_def with_ledger_mut_def sys \<sigma>)
  have cap: "ensure_capacity 4000 ?g = Inr ()"
    by (simp add: ensure_capacity_def with_ledger_def sys usable_pending_count_def sample_ledger_def MAX_PENDING_def) (simp add: upd_preparing_def x402_state0_def)
  have h: "handle_402 (xe_codec ?E) (challenge_headers (Inr ''x'')) = Inr (base_challenge, 0, EvmChain)"
    by (simp add: handle_402_def parse_402_headers_def challenge_headers_def x402_sample_env_def pay_codec_def sample_x402_select)
  have req: "accepts base_challenge ! 0 = evm_req" "parse_amount evm_req = Inr 250"
    by (simp_all add: base_challenge_def parse_amount_Inr evm_req_def parse_250)
  have ok: "x402_authorize ?H owner url q ch n g = (Inr (), g)" for owner url q ch n g
    unfolding x402_authorize_Inr by (simp add: authorize_x402_payment_def host_call_def approving_host_def extract_response_def)
  have j: "encode_payment (xe_codec ?E) x = Inr (letters (str_bytes ''{}''))" for x
    by (simp add: encode_payment_def x402_sample_env_def pay_codec_def)
  obtain res where pay: "handle_402_and_pay_authorized sample_chrono quiet_ports (xe_codec ?E) 3 5000 5000 (host_height ?E ?H)
      (x402_authorize ?H None) (module_build ?E ?H x402_sample_slot pay_moment) (challenge_headers (Inr ''x'')) ''u'' ?g = (Inr res, glob_of \<sigma>)"
    and res: "xr_amount_atomic res = 250" "xr_reservation res = \<lparr>rv_id = Some 1, rv_amount = 250\<rparr>"
    by (simp add: handle_402_and_pay_authorized_def h req [simplified] refresh reserve approve_and_build_def ok b j)
  have "begin_pending x402_state0 = (Inr (), ?g)" by (simp add: begin_pending_def x402_state0_def MAX_PENDING_def)
  then have admitted: "x402_admit_and_pay ?E quiet_ports ?H x402_sample_moment x402_sample_request (challenge_headers (Inr ''x'')) x402_sample_slot
      x402_state0 = (Inr res, glob_of \<sigma>)"
    using pay by (simp add: x402_admit_and_pay_def x402_pay_def on_error_def refresh cap x402_sample_moment_def x402_sample_request_def)
      (simp add: x402_sample_env_def)
  obtain g' where commit: "commit_durable sample_chrono quiet_ports 3 (xr_reservation res)
      (pending_record x402_sample_runtime x402_sample_moment x402_sample_request res) (glob_of \<sigma>) = (Inr (), g')"
    using quiet_commit [of "glob_of \<sigma>"] res(2) by (metis glob_of_simps(1))
  have s: "take_request_secrets x402_sample_request = Inr [sample_secret]"
    by (simp add: take_request_secrets_Inr x402_sample_request_def)
  have e: "xe_chrono ?E = sample_chrono" "xe_fuel ?E = 3" "xe_header_value ?E (x4p_payment_required x402_sample_request) = Inr (Inr ''x'')"
    "x402_require_handle x402_sample_runtime (x4p_service x402_sample_request) = Inr ()"
    by (simp_all add: x402_sample_env_def x402_sample_request_def x402_require_handle_def x402_sample_runtime_def)
  have "xm_uuid x402_sample_moment = ''u1''" by (simp add: x402_sample_moment_def)
  then show ?thesis
    by (simp add: x402_prepare_payment_def x402_service_def x402_prepare_def e s with_x402_execution_context_def admitted commit [unfolded res] on_error_def
        prepared_response_def res)
qed


definition settled_env :: "unit x402_env" where
  "settled_env = x402_sample_env\<lparr>xe_codec := pay_codec\<lparr>settlement_from_slice := \<lambda>_. Inr
     \<lparr>sr_success = True, sr_transaction = ''t'', sr_network = ''n'', sr_payer = None, sr_error_reason = None, sr_amount = None, sr_extensions = []\<rparr>\<rparr>\<rparr>"

definition pending_state :: "nat x402_state" where
  "pending_state = x402_state0\<lparr>g_ledger := Some (sample_ledger\<lparr>l_records := [sample_record]\<rparr>)\<rparr>"

definition settled_report :: X402RecordPaymentRequest where
  "settled_report = \<lparr>x4r_service = ''h'', x4r_payment_id = ''p1'', x4r_response_status = 200, x4r_settlement_response = Some ''x''\<rparr>"

lemma sample_settled:
  "snd (x402_record_payment settled_env quiet_ports 7000 settled_report (Some x402_sample_runtime) pending_state) \<noteq> pending_state"
proof -
  let ?l = "sample_ledger\<lparr>l_records := [sample_record]\<rparr>"
  have p: "payment ?l ''p1'' = Some sample_record" by (simp add: payment_def sample_record_def)
  obtain receipt where t: "trusted_receipt (xe_codec settled_env) (x4r_settlement_response settled_report) = Some receipt" "sr_transaction receipt = ''t''"
    by (simp add: trusted_receipt_def settled_report_def settled_env_def parse_settlement_response_def pay_codec_def x402_sample_env_def)
  let ?r = "sample_record\<lparr>pr_id := ''p1'', pr_tx_signature := Some ''t'', pr_status := Settled, pr_timestamp := 7000\<rparr>"
  obtain \<sigma> where a: "append_record sample_chrono quiet_ports 3 ?r None (sys_of pending_state ?l) = (Inr (), \<sigma>)"
      "l_records (led \<sigma>) = [sample_record, at_millisecond_precision sample_chrono ?r]"
    by (simp add: append_record_def Let_def on_world_def persist_append_def quiet_ports_def sys_of_def sample_ledger_def)
  have e: "xe_chrono settled_env = sample_chrono" "xe_fuel settled_env = 3" by (simp_all add: settled_env_def x402_sample_env_def)
  have "snd (x402_record_payment settled_env quiet_ports 7000 settled_report (Some x402_sample_runtime) pending_state) = glob_of \<sigma>"
    using a(1) t p e
    by (simp add: x402_record_payment_def x402_service_def x402_record_def x402_require_handle_def x402_sample_runtime_def settled_report_def
        with_ledger_def pending_state_def with_ledger_mut_def try_record_payment_def flatten_ledger_def on_error_def sample_record_def)
  moreover have "g_ledger (glob_of \<sigma>) \<noteq> g_ledger pending_state"
    using arg_cong [OF a(2), of length] by (auto simp: pending_state_def)
  ultimately show ?thesis by metis
qed

theorem outcome_settles_on_receipt_witness:
  "\<exists>r. snd (x402_record_payment settled_env quiet_ports 7000 settled_report (Some x402_sample_runtime) pending_state) =
     snd (with_ledger_mut (try_record_payment sample_chrono quiet_ports 3 r) pending_state) \<and> pr_amount_atomic r = 700"
proof -
  obtain res g' where r: "x402_record_payment settled_env quiet_ports 7000 settled_report (Some x402_sample_runtime) pending_state = (res, g')"
    by fastforce
  with sample_settled have "g' \<noteq> pending_state" by simp
  note o = outcome_settles_on_receipt [OF r this]
  have e: "xe_chrono settled_env = sample_chrono" "xe_fuel settled_env = 3" by (simp_all add: settled_env_def x402_sample_env_def)
  have p: "payment (sample_ledger\<lparr>l_records := [sample_record]\<rparr>) (x4r_payment_id settled_report) = Some sample_record"
    by (simp add: payment_def sample_record_def settled_report_def)
  from o p show ?thesis
    unfolding e r by (elim exE conjE) (auto simp: pending_state_def sample_record_def)
qed

end
