(* ===== verification/TW_Module_Capacity.thy ===== *)
theory TW_Module_Capacity
  imports TW_Module_Payment
begin

text \<open>
  The bound on payments whose proof is out and whose authorization may still be used
  (\<open>begin_pending\<close>, \<open>PendingAdmission\<close> and \<open>record\<close> of \<open>tinywallet-module/src/service/x402.rs\<close>). Many
  preparations run at once: a preparation enters before it awaits the chain, is admitted after it, records
  its payment, and leaves. They are the steps of a system that interleaves them, with the clock and the other
  operations of the service, in any order.
\<close>

section \<open>Counting usable payments\<close>

definition usable :: "int \<Rightarrow> PaymentRecord \<Rightarrow> bool" where
  "usable now r \<longleftrightarrow> pr_status r = Pending \<and> (case authorization_window_end r of None \<Rightarrow> True | Some e \<Rightarrow> e > now)"

definition usable_ids :: "int \<Rightarrow> PaymentRecord list \<Rightarrow> string set" where
  "usable_ids now rs = {i. \<exists>r. latest_map rs i = Some r \<and> usable now r}"

lemma latest_map_None: "latest_map rs i = None \<longleftrightarrow> i \<notin> set (map pr_id rs)"
  by (induction rs rule: rev_induct) (auto simp: latest_map_snoc, simp add: latest_map_def)

lemma finite_usable_ids: "finite (usable_ids now rs)"
proof (rule finite_subset)
  show "usable_ids now rs \<subseteq> set (map pr_id rs)"
    by (auto simp: usable_ids_def) (metis latest_map_None option.distinct(1) set_map)
qed simp

lemma usable_pending_count_card: "usable_pending_count l now = card (usable_ids now (l_records l))"
proof -
  let ?rs = "l_records l" and ?f = "\<lambda>i. the (latest_map (l_records l) i)"
  have "usable_pending_count l now = length (filter (usable now \<circ> ?f) (remdups (map pr_id ?rs)))"
    by (simp add: usable_pending_count_def latest_records_def filter_map usable_def comp_def)
  also have "\<dots> = card (set (filter (usable now \<circ> ?f) (remdups (map pr_id ?rs))))"
    by (rule distinct_card [symmetric]) simp
  also have "set (filter (usable now \<circ> ?f) (remdups (map pr_id ?rs))) = usable_ids now ?rs"
  proof (rule set_eqI)
    fix i
    show "i \<in> set (filter (usable now \<circ> ?f) (remdups (map pr_id ?rs))) \<longleftrightarrow> i \<in> usable_ids now ?rs"
      using latest_map_None [of ?rs i] by (cases "latest_map ?rs i") (simp_all add: usable_ids_def image_iff)
  qed
  finally show ?thesis .
qed

lemma usable_later: "now \<le> t \<Longrightarrow> usable_ids t rs \<subseteq> usable_ids now rs"
  by (auto simp: usable_ids_def usable_def split: option.splits)

lemma usable_ids_snoc: "usable_ids now (rs @ [r]) \<subseteq> insert (pr_id r) (usable_ids now rs)"
  by (auto simp: usable_ids_def latest_map_snoc split: if_splits)

lemma usable_ids_unusable: "\<not> usable now r \<Longrightarrow> usable_ids now (rs @ [r]) \<subseteq> usable_ids now rs"
  by (auto simp: usable_ids_def latest_map_snoc split: if_splits)

section \<open>What recording appends\<close>

text \<open>No other process has appended to the store since it was last read: what is appended now comes next.\<close>

definition sole_writer :: "chrono \<Rightarrow> ('w x402_world, 'v, 'n) ports \<Rightarrow> 'w x402_state \<Rightarrow> PaymentLedger \<Rightarrow> bool" where
  "sole_writer c P g l \<longleftrightarrow> g_ledger g = Some l \<and>
     (\<forall>r k offset w. persist_append c P r k (g_world g) = (Inr offset, w) \<longrightarrow> offset = l_next_offset l)"

abbreviation same_counter :: "'w x402_state \<Rightarrow> 'w x402_state \<Rightarrow> bool" where
  "same_counter g g' \<equiv> xw_preparing (g_world g') = xw_preparing (g_world g)"

lemma append_record_rows:
  assumes "sole_writer c P g l" and "append_record c P fuel r k (sys_of g l) = (res, \<sigma>)"
  shows "l_records (led \<sigma>) = (case res of Inl _ \<Rightarrow> l_records l | Inr _ \<Rightarrow> l_records l @ [at_millisecond_precision c r])"
  using append_record_outcome [OF assms(2)] assms(1) by (auto simp: sole_writer_def sys_of_def split: sum.splits)

lemma commit_durable_rows:
  assumes "sole_writer c P g l" and "commit_durable c P fuel rv r g = (Inr (), g')" and "rv_id rv = Some i"
  shows "\<exists>l'. g_ledger g' = Some l' \<and> l_records l' = l_records l @ [at_millisecond_precision c r]"
proof -
  let ?k = "map_option own_key (map_of (l_reservations l) i)"
  have l: "g_ledger g = Some l" using assms(1) by (simp add: sole_writer_def)
  obtain res \<sigma> where a: "append_record c P fuel r ?k (sys_of g l) = (res, \<sigma>)" by fastforce
  have t: "try_commit_reservation c P fuel i r (sys_of g l) = sbind (res, \<sigma>) (\<lambda>_ \<sigma>. (Inr (), release P i \<sigma>))"
    using a by (simp add: try_commit_reservation_def sys_of_def)
  with assms l obtain "res = Inr ()" "g' = glob_of (release P i \<sigma>)"
    by (cases res) (auto simp: commit_durable_def flatten_ledger_def with_ledger_mut_def reservation_drop_def)
  with append_record_rows [OF assms(1) a] show ?thesis by (auto simp: release_led split: option.splits)
qed

lemma at_millisecond_precision_simps [simp]:
  "pr_status (at_millisecond_precision c r) = pr_status r" "pr_id (at_millisecond_precision c r) = pr_id r"
  by (simp_all add: at_millisecond_precision_def)

text \<open>Recording an outcome either changes nothing or appends one row; outside the rows of the earlier scheme,
  which marked an elapsed authorization as failed, that row is settled.\<close>

lemma x402_record_rows:
  assumes "sole_writer (xe_chrono E) P g l" and "x402_record E P t rt request g = (res, g')"
    and "\<And>p. payment l (x4r_payment_id request) = Some p \<Longrightarrow> pr_status p \<noteq> Failed"
  shows "\<exists>l'. g_ledger g' = Some l' \<and> (l_records l' = l_records l \<or> (\<exists>r. pr_status r = Settled \<and> l_records l' = l_records l @ [r]))"
proof -
  have l: "g_ledger g = Some l" using assms(1) by (simp add: sole_writer_def)
  show ?thesis
  proof (cases "\<exists>p receipt. payment l (x4r_payment_id request) = Some p \<and> pr_status p = Pending \<and> x402_require_handle rt (x4r_service request) = Inr () \<and>
      trusted_receipt (xe_codec E) (x4r_settlement_response request) = Some receipt")
    case False
    then have "g' = g"
      using assms(2,3) l
      by (auto simp: x402_record_def with_ledger_def sbind_def Let_def split: sum.splits option.splits if_splits)
    with l show ?thesis by simp
  next
    case True
    then obtain p receipt where p: "payment l (x4r_payment_id request) = Some p" "pr_status p = Pending"
      "x402_require_handle rt (x4r_service request) = Inr ()"
      "trusted_receipt (xe_codec E) (x4r_settlement_response request) = Some receipt" by blast
    let ?r = "p\<lparr>pr_id := x4r_payment_id request,
      pr_tx_signature := if sr_transaction receipt = [] then None else Some (sr_transaction receipt), pr_status := Settled, pr_timestamp := t\<rparr>"
    obtain u \<sigma> where a: "append_record (xe_chrono E) P (xe_fuel E) ?r None (sys_of g l) = (u, \<sigma>)" by fastforce
    with p assms(2) l have "g' = glob_of \<sigma>"
      by (auto simp: x402_record_def with_ledger_def with_ledger_mut_def flatten_ledger_def try_record_payment_def)
    with append_record_rows [OF assms(1) a] show ?thesis
      by (cases u) (auto intro!: exI [of _ "at_millisecond_precision (xe_chrono E) ?r"])
  qed
qed

section \<open>The system\<close>

text \<open>How many preparations have entered, are admitted, and have recorded their payment.\<close>

record 'w admissions =
  ad_state :: "'w x402_state"
  ad_now :: int
  ad_begun :: nat
  ad_admitted :: nat
  ad_recorded :: nat

definition usable_now :: "'w admissions \<Rightarrow> nat" where
  "usable_now a = (case g_ledger (ad_state a) of None \<Rightarrow> 0 | Some l \<Rightarrow> usable_pending_count l (ad_now a))"

text \<open>An operation that adds no usable payment: at most a row which is not usable, and the counter is kept.\<close>

definition adds_no_usable :: "int \<Rightarrow> 'w x402_state \<Rightarrow> 'w x402_state \<Rightarrow> bool" where
  "adds_no_usable now g g' \<longleftrightarrow> xw_preparing (g_world g') = xw_preparing (g_world g) \<and>
     (\<exists>l l'. g_ledger g = Some l \<and> g_ledger g' = Some l' \<and> usable_ids now (l_records l') \<subseteq> usable_ids now (l_records l))"

inductive admission_step :: "'j x402_env \<Rightarrow> ('w x402_world, 'v, 'n) ports \<Rightarrow> 'w admissions \<Rightarrow> 'w admissions \<Rightarrow> bool" for E P where
  begun: "begin_pending (ad_state a) = (Inr (), g) \<Longrightarrow>
    admission_step E P a (a\<lparr>ad_state := g, ad_begun := Suc (ad_begun a)\<rparr>)"
| admitted: "ad_begun a = Suc n \<Longrightarrow> ensure_capacity (ad_now a) (ad_state a) = Inr () \<Longrightarrow>
    admission_step E P a (a\<lparr>ad_begun := n, ad_admitted := Suc (ad_admitted a)\<rparr>)"
| refused: "ad_begun a = Suc n \<Longrightarrow>
    admission_step E P a (a\<lparr>ad_state := drop_admission (ad_state a), ad_begun := n\<rparr>)"
| unpaid: "ad_admitted a = Suc n \<Longrightarrow>
    admission_step E P a (a\<lparr>ad_state := drop_admission (ad_state a), ad_admitted := n\<rparr>)"
| recorded: "ad_admitted a = Suc n \<Longrightarrow> sole_writer (xe_chrono E) P (ad_state a) l \<Longrightarrow> rv_id rv = Some i \<Longrightarrow>
    commit_durable (xe_chrono E) P (xe_fuel E) rv r (ad_state a) = (Inr (), g) \<Longrightarrow> same_counter (ad_state a) g \<Longrightarrow>
    admission_step E P a (a\<lparr>ad_state := g, ad_admitted := n, ad_recorded := Suc (ad_recorded a)\<rparr>)"
| finished: "ad_recorded a = Suc n \<Longrightarrow>
    admission_step E P a (a\<lparr>ad_state := drop_admission (ad_state a), ad_recorded := n\<rparr>)"
| settled: "sole_writer (xe_chrono E) P (ad_state a) l \<Longrightarrow> x402_record E P t rt request (ad_state a) = (res, g) \<Longrightarrow>
    same_counter (ad_state a) g \<Longrightarrow> (\<And>p. payment l (x4r_payment_id request) = Some p \<Longrightarrow> pr_status p \<noteq> Failed) \<Longrightarrow>
    admission_step E P a (a\<lparr>ad_state := g\<rparr>)"
| elapsed: "ad_now a \<le> t \<Longrightarrow> admission_step E P a (a\<lparr>ad_now := t\<rparr>)"
| elsewhere: "adds_no_usable (ad_now a) (ad_state a) g \<Longrightarrow> admission_step E P a (a\<lparr>ad_state := g\<rparr>)"

definition admission_inv :: "'w admissions \<Rightarrow> bool" where
  "admission_inv a \<longleftrightarrow> xw_preparing (g_world (ad_state a)) = ad_begun a + ad_admitted a + ad_recorded a \<and>
     xw_preparing (g_world (ad_state a)) \<le> MAX_PENDING \<and> usable_now a + ad_admitted a \<le> MAX_PENDING"

definition admission_start :: "'w admissions \<Rightarrow> bool" where
  "admission_start a \<longleftrightarrow> xw_preparing (g_world (ad_state a)) = 0 \<and> ad_begun a = 0 \<and> ad_admitted a = 0 \<and> ad_recorded a = 0 \<and>
     usable_now a \<le> MAX_PENDING"

lemma upd_preparing_simps [simp]:
  "g_ledger (upd_preparing f g) = g_ledger g" "xw_preparing (g_world (upd_preparing f g)) = f (xw_preparing (g_world g))"
  by (simp_all add: upd_preparing_def)

lemma usable_now_simps [simp]:
  "usable_now (a\<lparr>ad_begun := b\<rparr>) = usable_now a" "usable_now (a\<lparr>ad_admitted := b\<rparr>) = usable_now a"
  "usable_now (a\<lparr>ad_recorded := b\<rparr>) = usable_now a"
  "usable_now (a\<lparr>ad_state := upd_preparing f (ad_state a)\<rparr>) = usable_now a"
  by (simp_all add: usable_now_def split: option.splits)

lemma usable_now_adds_none:
  assumes "adds_no_usable (ad_now a) (ad_state a) g"
  shows "usable_now (a\<lparr>ad_state := g\<rparr>) \<le> usable_now a"
  using assms by (auto simp: adds_no_usable_def usable_now_def usable_pending_count_card intro!: card_mono finite_usable_ids)

lemma usable_now_appends:
  assumes "g_ledger (ad_state a) = Some l" and "g_ledger g = Some l'" and "l_records l' = l_records l @ [r]"
  shows "usable_now (a\<lparr>ad_state := g\<rparr>) \<le> Suc (usable_now a)"
proof -
  have "card (usable_ids (ad_now a) (l_records l @ [r])) \<le> card (insert (pr_id r) (usable_ids (ad_now a) (l_records l)))"
    by (rule card_mono [OF _ usable_ids_snoc]) (simp add: finite_usable_ids)
  also have "\<dots> \<le> Suc (card (usable_ids (ad_now a) (l_records l)))" by (simp add: card_insert_if finite_usable_ids)
  finally show ?thesis using assms by (simp add: usable_now_def usable_pending_count_card)
qed

lemma usable_now_later: "ad_now a \<le> t \<Longrightarrow> usable_now (a\<lparr>ad_now := t\<rparr>) \<le> usable_now a"
  by (auto simp: usable_now_def usable_pending_count_card split: option.splits intro!: card_mono finite_usable_ids usable_later)

lemma ensure_capacity_Inr:
  assumes "ensure_capacity (ad_now a) (ad_state a) = Inr ()"
  shows "usable_now a + xw_preparing (g_world (ad_state a)) \<le> MAX_PENDING"
  using assms by (auto simp: ensure_capacity_def with_ledger_def usable_now_def result_simps MAX_PENDING_def split: option.splits if_splits)

interpretation admissions: stepped admission_start "admission_step E P" admission_inv for E P
proof
  show "admission_inv a" if "admission_start a" for a :: "'a admissions"
    using that by (simp add: admission_inv_def admission_start_def)
  show "admission_inv a'" if "admission_step E P a a'" "admission_inv a" for a a' :: "'a admissions"
    using that
  proof (induction rule: admission_step.induct)
    case (begun a g)
    then show ?case
      by (auto simp: begin_pending_def admission_inv_def split: if_splits)
  next
    case (admitted a n)
    with ensure_capacity_Inr [OF admitted(2)] show ?case by (simp add: admission_inv_def)
  next
    case (recorded a n l rv i r g)
    from commit_durable_rows [OF recorded(2,4,3)] recorded(2) usable_now_appends [of a l g] have "usable_now (a\<lparr>ad_state := g\<rparr>) \<le> Suc (usable_now a)"
      by (auto simp: sole_writer_def)
    with recorded show ?case by (simp add: admission_inv_def)
  next
    case (settled a l t rt request res g)
    from x402_record_rows [OF settled(1,2,4)] settled(1,3) have "adds_no_usable (ad_now a) (ad_state a) g"
      by (auto simp: adds_no_usable_def sole_writer_def usable_def dest!: subsetD [OF usable_ids_unusable, rotated])
    with usable_now_adds_none [OF this] settled(5) show ?case by (simp add: admission_inv_def adds_no_usable_def)
  next
    case (elapsed a t)
    with usable_now_later [OF elapsed(1)] show ?case by (simp add: admission_inv_def)
  next
    case (elsewhere a g)
    with usable_now_adds_none [OF elsewhere(1)] show ?case by (simp add: admission_inv_def adds_no_usable_def)
  qed (simp_all add: admission_inv_def drop_admission_def)
qed


definition admissions0 :: "nat admissions" where
  "admissions0 = \<lparr>ad_state = x402_state0, ad_now = 4000, ad_begun = 0, ad_admitted = 0, ad_recorded = 0\<rparr>"

definition admissions1 :: "nat admissions" where
  "admissions1 = \<lparr>ad_state = upd_preparing Suc x402_state0, ad_now = 4000, ad_begun = 1, ad_admitted = 0, ad_recorded = 0\<rparr>"

definition admissions2 :: "nat admissions" where
  "admissions2 = \<lparr>ad_state = upd_preparing Suc x402_state0, ad_now = 4000, ad_begun = 0, ad_admitted = 1, ad_recorded = 0\<rparr>"


end
