(* ===== verification/Spec2Isabelle.thy ===== *)
theory Spec2Isabelle
  imports TW_Ledger_Concurrent TW_Migrate TW_Construct TW_Module_Capacity
begin

text \<open>
  A verification development of \<^emph>\<open>TinyWallet\<close>, a multi-chain wallet in Rust (Bitcoin, EVM chains, Solana,
  Tron) with a payment ledger for the x402 protocol.

  \<^bold>\<open>The program and its parts.\<close> \<open>tinywallet-bus\<close> holds the shared vocabulary and the wire types,
  \<open>tinywallet-crypto\<close> validates addresses, verifies transactions a node has built and lists the known
  assets, the root crate \<open>tinywallet\<close> (\<open>src/tx\<close>, \<open>src/key\<close>) builds and signs transactions and derives keys,
  \<open>tinywallet-web3\<close> is the wallet engine (prepare, confirm, execute, query) and the swap, bridge and dapp service,
  \<open>tinywallet-x402\<close> answers HTTP 402 challenges with payments that a ledger with spending caps has admitted, and
  \<open>tinywallet-module\<close> serves all of it on a bus to a host that owns the user, the network and the storage.
  A transfer is prepared as a quote in a store, taken from the store when its owner confirms it, checked
  against what the node reports, signed by the host's signer, and broadcast; a failure hands the quote back.
  A payment is reserved in the ledger, built, sent, and then committed or released. In the module the secret of
  a request is there for one execution, and before it is used the host is asked to approve exactly what is signed.

  \<^bold>\<open>Conventions.\<close> A Rust string is the list of its UTF-8 bytes, machine integers are words of their width,
  a \<open>Result\<close> is a sum with the error on the left, a panic is the value \<open>Panic\<close> (or \<open>HexPanic\<close>) where one
  can happen. Code that is not in the repository is an argument: the hash functions, base58 and
  bech32 (\<open>prims\<close>), the curves (\<open>secp\<close>, \<open>ed25519\<close>), the \<open>bitcoin\<close>, \<open>hex\<close>, \<open>base64\<close>, \<open>chrono\<close> and
  \<open>serde_json\<close> crates, the storage port of the ledger (\<open>ports\<close>), and the host of the wallet engine
  (\<open>seams\<close>, \<open>backend\<close>, the HTTP client and approver of the x402 client). The module implements the seams over its
  host, which is the function \<open>host\<close>, with the libraries gathered in \<open>crates\<close>, \<open>key_crates\<close> and \<open>env\<close>; the identifiers drawn
  from \<open>uuid\<close> are arguments. What a theorem needs of one of
  them is a named hypothesis (\<open>bs58_law\<close>, \<open>segwit_law\<close>, \<open>hex_crate_law\<close>, \<open>window_law\<close>, ...), and the witnesses
  show that it can hold. Every awaited call is a function on the whole state, so that it can do
  whatever other tasks do meanwhile.

  \<^bold>\<open>The theories.\<close>
  \<^item> \<open>TW_Prelude\<close>: results and state passing (\<open>rbind\<close>, \<open>sbind\<close>), checked and saturating arithmetic, decimal and
    hexadecimal text, \<open>trim\<close> on UTF-8, byte strings, and the locale \<open>stepped\<close> of systems with an invariant.
    \<open>TW_Types\<close>, \<open>TW_Json\<close> and \<open>TW_Instances\<close>: the chains and errors of \<open>tinywallet-bus\<close>, \<open>serde_json::Value\<close>,
    and concrete instances of the external primitives for the witnesses.
  \<^item> \<open>TW_Proto\<close> (\<open>tx/proto.rs\<close>): the protobuf reader; the locale \<open>prefix_codec\<close> of encodings that can be read off
    the front of a byte string, interpreted here for varints and fields, in \<open>TW_Evm\<close> for RLP and in
    \<open>TW_Solana\<close> for compact lengths.
  \<^item> \<open>TW_Address\<close> (\<open>address/\<close>): validation on the four chains and EIP-55 checksums.
  \<^item> \<open>TW_Tron\<close> (\<open>tx/tron.rs\<close> of both crates): the verifier accepts exactly the transactions that make the
    requested transfer, and accepts every honest one.
  \<^item> \<open>TW_Evm\<close> (\<open>src/tx/rlp.rs\<close>, \<open>evm.rs\<close>): RLP and legacy transactions; the signed payload determines every
    field, and a signed transaction reads back. \<open>TW_Eip712\<close>: typed data and calldata.
  \<^item> \<open>TW_Solana\<close> (\<open>src/tx/solana.rs\<close>, \<open>chains/solana/wire.rs\<close>, \<open>versioned.rs\<close>): messages, derived addresses and
    signing one slot of a foreign transaction. \<open>TW_Btc\<close> (\<open>src/tx/btc.rs\<close>): coin selection conserves value,
    uses the fewest coins and succeeds whenever the coins suffice.
  \<^item> \<open>TW_Ledger_Types\<close>, \<open>TW_Persist\<close>, \<open>TW_Ledger\<close>, \<open>TW_Ledger_Props\<close>, \<open>TW_Migrate\<close> (\<open>tinywallet-x402/src/ledger\<close>,
    \<open>tinywallet-bus/src/storage\<close>): the records, their storage, every operation of the ledger, and the migration
    of older stores. \<open>TW_Ledger_Concurrent\<close>: several ledgers on one store as an interleaving model; the caps
    hold in every reachable state, and a round of the code's reservation loop refines the model's steps.
  \<^item> \<open>TW_X402Wire\<close>, \<open>TW_X402Pay\<close>, \<open>TW_X402Client\<close> (\<open>wire/\<close>, \<open>protocol/\<close>, \<open>crypto/\<close> of \<open>tinywallet-x402\<close>): selecting a
    requirement, building the payment, and the client, which pays only under a hold.
  \<^item> \<open>TW_Asset\<close> (\<open>tinywallet-crypto/src/asset\<close>, \<open>rpc\<close>, \<open>tinywallet-web3/src/crypto/defaults\<close>): the two catalogues
    agree. \<open>TW_Quote\<close> (\<open>tinywallet-web3/src/quote\<close>): the quote store, the locale \<open>quoted_laws\<close> of quote types and
    the flow of quotes, in which no id is executed twice.
  \<^item> \<open>TW_Engine\<close> (\<open>wallet/engine.rs\<close>, \<open>chains/rpc.rs\<close>, \<open>execution/validate.rs\<close>, \<open>accounts.rs\<close>, \<open>transfer.rs\<close>),
    \<open>TW_Chain_Btc\<close>, \<open>TW_Chain_Evm\<close>, \<open>TW_Chain_Tron\<close>, \<open>TW_Chain_Solana\<close> (\<open>chains/\<close>): the engine and the execution of a
    quote on each chain, with what the signer is asked to sign.
  \<^item> \<open>TW_Execute\<close> (\<open>execution/broadcast.rs\<close>, \<open>queries.rs\<close>, \<open>probe.rs\<close>, \<open>tx_lookup.rs\<close>) and \<open>TW_Prepare\<close>: executions as runs
    of the flow of quotes under arbitrary interleaving, and what a prepared quote is worth.
  \<^item> \<open>TW_Web3\<close> (\<open>crypto/service\<close>): swaps, bridges and dapp calls over the same store and engine.
  \<^item> \<open>TW_Key\<close> (\<open>src/key\<close>): mnemonics and key derivation; SLIP-0010 against a reference, and every derived address is
    valid on its chain. \<open>TW_Sign\<close> (the stateless members of \<open>tinywallet-module/src/service/mod.rs\<close>): deriving, signing in
    one call or in two, which give what the transaction library signs.
  \<^item> \<open>TW_Construct\<close> (\<open>service/construct\<close>): the facts shown for approval are those of the transaction. \<open>TW_Intent\<close>,
    \<open>TW_Approval\<close> (\<open>tinywallet-bus/src/wire\<close>): the comparison of a signing intent with a quote that the bus crate
    offers to hosts, which accepts only what makes the transfer of the quote.
  \<^item> \<open>TW_Host\<close> (\<open>service/host.rs\<close>, \<open>web3.rs\<close>, \<open>native_wallet.rs\<close>): callbacks, task-local context, the signer that asks
    the host, endpoints and transport; the locale \<open>task_scope\<close> of states that keep the context of a task.
    \<open>TW_Module\<close>: the native wallet and web3 members, on which \<open>task_scope\<close> is interpreted twice.
    \<open>TW_Module_Props\<close> and \<open>TW_Module_Web3\<close>: no execution without an approval of what is signed (the locale
    \<open>signing_seams\<close> carries this through every chain). \<open>TW_Module_Life\<close>: secrets sign once, handles that are given up stay refused.
  \<^item> \<open>TW_Module_X402\<close>, \<open>TW_Module_Payment\<close>, \<open>TW_Module_Capacity\<close> (\<open>service/x402.rs\<close>): the x402 members; a proof leaves the module only
    for approved, reserved and recorded terms, and the number of usable payments is bounded under interleaving.

  \<^bold>\<open>Bounds and fuel.\<close> Reading the payments stream page by page would not end on a store that always answers
  with entries; the model of that loop takes a number of pages, running out of them is an error of its own,
  and a store with finitely many entries is read to its end with enough of them. The loops that retry a
  conditional write are bounded in the code itself. The counter
  of quote ids is a 64-bit word; the flow of quotes prepares no quote once it is about to wrap around. Sums
  that the code leaves to wrap in a release build (the expiry of a quote) wrap in the model.

  \<^bold>\<open>Not modelled.\<close> The agent tools (argument schemas and texts around the operations above), the client crate
  (typed calls over the bus), the connection of the module to the storage bus and the timer of its leases, the
  wiping of secrets from memory, logging, the derivation of \<open>serde\<close> decoders, and the test support.
\<close>

end
